(* ===== verification/JsPrelude.thy ===== *)
theory JsPrelude
  imports Complex_Main "HOL-Library.Word"
begin

text \<open>
  The part of the JavaScript language and of its standard library that the console
  (frontend/src) uses, and the lemmas every component shares.

  A JavaScript string is a sequence of 16-bit code units, here \<open>16 word list\<close>; \<open>js\<close>
  turns an ASCII literal of the source into one. A JavaScript number is an IEEE double,
  here \<open>jsnum\<close>: a not-a-number, the two infinities, or the exact rational value of a
  finite double (the two zeros are one value). \<open>fl\<close> is the rounding of a rational to the
  nearest double, ties to even, with gradual underflow and overflow to infinity.
  \<open>js_Number\<close> is the function \<open>Number(string)\<close>, \<open>num_to_string\<close> is \<open>String(number)\<close>.
  An absent or null value is \<open>None\<close>: the code tests such values only with \<open>== null\<close>,
  \<open>??\<close> and truthiness, which do not tell the two apart.
\<close>

named_theorems js_eval \<open>definitions that a closed witness unfolds\<close>

section \<open>Strings\<close>

type_synonym cu = "16 word"
type_synonym jsstring = "cu list"

definition js :: "string \<Rightarrow> jsstring" where
  "js s = map of_char s"

lemma unat_of_char16: "unat (of_char c :: 16 word) = of_char c"
proof -
  have "(of_char c :: 16 word) = of_nat (of_char c)"
    by (simp only: of_nat_of_char)
  moreover have "(of_char c :: nat) < 2 ^ 16"
    by (rule less_trans [OF nat_of_char_less_256]) simp
  ultimately show ?thesis
    by (simp only: unat_of_nat) simp
qed

lemma of_char16_inj [simp]: "(of_char c :: 16 word) = of_char d \<longleftrightarrow> c = d"
proof
  assume "(of_char c :: 16 word) = of_char d"
  then have "unat (of_char c :: 16 word) = unat (of_char d :: 16 word)" by simp
  then have "(of_char c :: nat) = of_char d" by (simp only: unat_of_char16)
  then show "c = d" by simp
qed simp

lemma js_inject [simp]: "js s = js t \<longleftrightarrow> s = t"
proof -
  have "inj (of_char :: char \<Rightarrow> 16 word)" by (rule injI) simp
  then show ?thesis by (simp add: js_def inj_map_eq_map)
qed

lemma js_Nil [simp]: "js [] = []"
  by (simp add: js_def)

lemma js_eq_Nil [simp]: "js s = [] \<longleftrightarrow> s = []"
  by (simp add: js_def)

lemma Nil_eq_js [simp]: "[] = js s \<longleftrightarrow> s = []"
  by (auto simp: js_def)

lemma js_append: "js (s @ t) = js s @ js t"
  by (simp add: js_def)

lemma length_js [simp]: "length (js s) = length s"
  by (simp add: js_def)

text \<open>White space and line terminators, what \<open>trim\<close> removes at both ends.\<close>

definition is_space :: "cu \<Rightarrow> bool" where
  "is_space u \<longleftrightarrow>
     u \<in> set [9, 10, 11, 12, 13, 32, 0xA0, 0x1680, 0x2028, 0x2029, 0x202F, 0x205F, 0x3000, 0xFEFF]
     \<or> (0x2000 \<le> u \<and> u \<le> 0x200A)"

definition trim :: "jsstring \<Rightarrow> jsstring" where
  "trim s = rev (dropWhile is_space (rev (dropWhile is_space s)))"

definition is_digit :: "cu \<Rightarrow> bool" where
  "is_digit u \<longleftrightarrow> 48 \<le> u \<and> u \<le> 57"

fun starts_with :: "jsstring \<Rightarrow> jsstring \<Rightarrow> bool" where
  "starts_with s [] = True"
| "starts_with [] (p # ps) = False"
| "starts_with (c # s) (p # ps) = (c = p \<and> starts_with s ps)"

text \<open>
  \<open>split\<close> at every code unit of a class (a one-unit separator or a regular expression that
  is a character class): the empty string splits into one empty piece, as in JavaScript.
\<close>

fun split_on :: "(cu \<Rightarrow> bool) \<Rightarrow> jsstring \<Rightarrow> jsstring list" where
  "split_on p [] = [[]]"
| "split_on p (c # cs) =
     (if p c then [] # split_on p cs
      else case split_on p cs of [] \<Rightarrow> [[c]] | w # ws \<Rightarrow> (c # w) # ws)"

fun join :: "jsstring \<Rightarrow> jsstring list \<Rightarrow> jsstring" where
  "join sep [] = []"
| "join sep [w] = w"
| "join sep (w # v # ws) = w @ sep @ join sep (v # ws)"

lemmas js_string_defs [js_eval] = js_def is_space_def trim_def is_digit_def

lemma is_digit_not_space: "is_digit u \<Longrightarrow> \<not> is_space u"
  by (auto simp: is_digit_def is_space_def word_le_nat_alt)

lemma trim_id: "s = [] \<or> (\<not> is_space (hd s) \<and> \<not> is_space (last s)) \<Longrightarrow> trim s = s"
proof (cases "s = []")
  case False
  assume "s = [] \<or> (\<not> is_space (hd s) \<and> \<not> is_space (last s))"
  with False have "dropWhile is_space s = s" "dropWhile is_space (rev s) = rev s"
    by (auto simp: dropWhile_eq_self_iff hd_rev)
  then show ?thesis by (simp add: trim_def)
qed (simp add: trim_def)

lemma dropWhile_rev_dropWhile:
  "dropWhile p (rev (dropWhile p (rev (dropWhile p s)))) = rev (dropWhile p (rev (dropWhile p s)))"
proof (cases "rev (dropWhile p (rev (dropWhile p s))) = []")
  case False
  let ?t = "dropWhile p s"
  have t: "?t = rev (dropWhile p (rev ?t)) @ rev (takeWhile p (rev ?t))"
    by (metis rev_append rev_rev_ident takeWhile_dropWhile_id)
  then have "hd (rev (dropWhile p (rev ?t))) = hd ?t"
    using False by (metis hd_append2)
  moreover have "\<not> p (hd ?t)"
    using False by (intro hd_dropWhile) (auto dest: set_dropWhileD)
  ultimately show ?thesis
    by (simp add: dropWhile_eq_self_iff)
next
  case True
  then show ?thesis by (metis dropWhile.simps(1))
qed

lemma trim_trim [simp]: "trim (trim s) = trim s"
proof -
  have "trim (trim s) = rev (dropWhile is_space (rev (trim s)))"
    by (simp add: trim_def dropWhile_rev_dropWhile)
  also have "\<dots> = trim s"
    by (simp add: trim_def)
  finally show ?thesis .
qed

lemma trim_Nil [simp]: "trim [] = []"
  by (simp add: trim_def)

lemma split_on_not_Nil [simp]: "split_on p s \<noteq> []"
  by (induction s) (auto split: list.splits)

lemma split_on_pieces: "w \<in> set (split_on p s) \<Longrightarrow> u \<in> set w \<Longrightarrow> \<not> p u"
proof (induction s arbitrary: w)
  case (Cons c s)
  obtain v vs where sp: "split_on p s = v # vs"
    by (metis list.exhaust split_on_not_Nil)
  with Cons.prems consider "w = []" | "\<not> p c" "w = c # v" | "w \<in> set (split_on p s)"
    by (auto split: if_splits)
  then show ?case using Cons sp by cases auto
qed simp

lemma split_on_no_sep: "(\<forall>u \<in> set s. \<not> p u) \<Longrightarrow> split_on p s = [s]"
  by (induction s) auto

lemma split_on_append_sep:
  "(\<forall>u \<in> set w. \<not> p u) \<Longrightarrow> p c \<Longrightarrow> split_on p (w @ c # s) = w # split_on p s"
  by (induction w) auto

lemma join_split_on: "join [c] (split_on (\<lambda>u. u = c) s) = s"
proof (induction s)
  case (Cons d s)
  obtain w ws where sp: "split_on (\<lambda>u. u = c) s = w # ws"
    by (metis list.exhaust split_on_not_Nil)
  with Cons.IH have "join [c] (w # ws) = s" by simp
  with sp show ?case by (cases ws) auto
qed simp

lemma split_on_join:
  "ws \<noteq> [] \<Longrightarrow> (\<forall>w \<in> set ws. \<forall>u \<in> set w. \<not> p u) \<Longrightarrow> p c \<Longrightarrow> split_on p (join [c] ws) = ws"
proof (induction ws)
  case (Cons w ws)
  then show ?case
    by (cases ws) (auto simp: split_on_no_sep split_on_append_sep)
qed simp

section \<open>Collections\<close>

text \<open>\<open>Array.from(new Set(xs))\<close>: the distinct elements in the order of their first occurrence.\<close>

definition uniq :: "'a list \<Rightarrow> 'a list" where
  "uniq xs = rev (remdups (rev xs))"

lemma set_uniq [simp]: "set (uniq xs) = set xs"
  by (simp add: uniq_def)

lemma distinct_uniq [simp]: "distinct (uniq xs)"
  by (simp add: uniq_def)

lemma uniq_id: "distinct xs \<Longrightarrow> uniq xs = xs"
  by (simp add: uniq_def distinct_remdups_id)

text \<open>The operators \<open>??\<close> (default for an absent value) and \<open>||\<close> on strings.\<close>

fun or_else :: "'a option \<Rightarrow> 'a \<Rightarrow> 'a" where
  "or_else None d = d"
| "or_else (Some x) d = x"

definition str_or :: "jsstring \<Rightarrow> jsstring \<Rightarrow> jsstring" where
  "str_or s d = (if s = [] then d else s)"

text \<open>\<open>s || undefined\<close>: an empty string becomes absent.\<close>

definition str_or_undef :: "jsstring \<Rightarrow> jsstring option" where
  "str_or_undef s = (if s = [] then None else Some s)"

lemma or_else_split: "P (or_else x d) \<longleftrightarrow> (x = None \<longrightarrow> P d) \<and> (\<forall>y. x = Some y \<longrightarrow> P y)"
  by (cases x) auto

lemma str_or_undef_iff [simp]:
  "str_or_undef s = None \<longleftrightarrow> s = []" "str_or_undef s = Some t \<longleftrightarrow> s = t \<and> t \<noteq> []"
  by (auto simp: str_or_undef_def)

lemmas js_opt_defs [js_eval] = str_or_def str_or_undef_def uniq_def

end
