(* ===== verification/JsNumber.thy ===== *)
theory JsNumber
  imports JsPrelude
begin

text \<open>
  JavaScript numbers: the rounding of a rational to a double, \<open>Number(string)\<close>,
  \<open>String(number)\<close>, \<open>toFixed\<close>, \<open>Math.round\<close> and the arithmetic of the display code.
  \<open>js_Number_of_int\<close> is the round trip the settings pages rely on: a whole number printed
  by \<open>String\<close> is read back by \<open>Number\<close>.
\<close>

datatype jsnum = NaN | PInf | NInf | Fin rat

section \<open>Rounding to a double\<close>

fun bitlen :: "int \<Rightarrow> int" where
  "bitlen n = (if n \<le> 0 then 0 else 1 + bitlen (n div 2))"

declare bitlen.simps [simp del]

definition pow2 :: "int \<Rightarrow> rat" where
  "pow2 e = (if 0 \<le> e then 2 ^ nat e else 1 / 2 ^ nat (- e))"

definition pow10 :: "int \<Rightarrow> rat" where
  "pow10 e = (if 0 \<le> e then 10 ^ nat e else 1 / 10 ^ nat (- e))"

text \<open>The exponent of the leading binary digit of a positive rational.\<close>

definition ilog2 :: "rat \<Rightarrow> int" where
  "ilog2 x = (let pq = quotient_of x;
                  d = bitlen (fst pq) - bitlen (snd pq)
              in if pow2 d \<le> x then d else d - 1)"

definition round_half_even :: "rat \<Rightarrow> int" where
  "round_half_even x =
     (let f = \<lfloor>x\<rfloor>; r = x - of_int f
      in if r < 1 / 2 then f else if 1 / 2 < r then f + 1 else if even f then f else f + 1)"

definition fl_pos :: "rat \<Rightarrow> rat" where
  "fl_pos x = (let e = max (ilog2 x - 52) (- 1074) in of_int (round_half_even (x / pow2 e)) * pow2 e)"

definition fl :: "rat \<Rightarrow> jsnum" where
  "fl x = (if x = 0 then Fin 0
           else let y = (if 0 < x then fl_pos x else - fl_pos (- x))
                in if ilog2 \<bar>y\<bar> < 1024 then Fin y else if 0 < y then PInf else NInf)"

section \<open>Number(string)\<close>

definition digit_val :: "cu \<Rightarrow> int" where
  "digit_val u = uint u - 48"

definition digits_val :: "jsstring \<Rightarrow> int" where
  "digits_val s = foldl (\<lambda>n c. 10 * n + digit_val c) 0 s"

text \<open>A digit of a radix up to 16, in either case of letter.\<close>

definition radix_digit :: "int \<Rightarrow> cu \<Rightarrow> int option" where
  "radix_digit b u =
     (let v = (if 48 \<le> u \<and> u \<le> 57 then uint u - 48
               else if 65 \<le> u \<and> u \<le> 70 then uint u - 55
               else if 97 \<le> u \<and> u \<le> 102 then uint u - 87 else 99)
      in if v < b then Some v else None)"

fun radix_val :: "int \<Rightarrow> int \<Rightarrow> jsstring \<Rightarrow> int option" where
  "radix_val b acc [] = Some acc"
| "radix_val b acc (u # us) =
     (case radix_digit b u of None \<Rightarrow> None | Some d \<Rightarrow> radix_val b (b * acc + d) us)"

definition radix_number :: "int \<Rightarrow> jsstring \<Rightarrow> jsnum" where
  "radix_number b s =
     (if s = [] then NaN
      else case radix_val b 0 s of None \<Rightarrow> NaN | Some n \<Rightarrow> fl (of_int n))"

text \<open>The exponent part of a decimal literal, \<open>None\<close> when it is malformed.\<close>

definition exponent_part :: "jsstring \<Rightarrow> int option" where
  "exponent_part s =
     (case s of [] \<Rightarrow> Some 0
      | c # r \<Rightarrow>
          if c = 101 \<or> c = 69 then
            (let neg = (case r of [] \<Rightarrow> False | d # _ \<Rightarrow> d = 45);
                 ds = (case r of [] \<Rightarrow> [] | d # r' \<Rightarrow> if d = 43 \<or> d = 45 then r' else r)
             in if ds \<noteq> [] \<and> list_all is_digit ds
                then Some (if neg then - digits_val ds else digits_val ds) else None)
          else None)"

definition unsigned_decimal :: "jsstring \<Rightarrow> rat option" where
  "unsigned_decimal s =
     (let ip = takeWhile is_digit s; r1 = dropWhile is_digit s;
          has_dot = (r1 \<noteq> [] \<and> hd r1 = 46);
          fp = (if has_dot then takeWhile is_digit (tl r1) else []);
          r2 = (if has_dot then dropWhile is_digit (tl r1) else r1)
      in if ip = [] \<and> fp = [] then None
         else case exponent_part r2 of None \<Rightarrow> None
              | Some e \<Rightarrow> Some (of_int (digits_val (ip @ fp)) * pow10 (e - int (length fp))))"

definition decimal_number :: "jsstring \<Rightarrow> jsnum" where
  "decimal_number s =
     (let neg = (s \<noteq> [] \<and> hd s = 45);
          body = (if s \<noteq> [] \<and> (hd s = 43 \<or> hd s = 45) then tl s else s)
      in if body = js ''Infinity'' then (if neg then NInf else PInf)
         else case unsigned_decimal body of None \<Rightarrow> NaN
              | Some x \<Rightarrow> fl (if neg then - x else x))"

definition js_Number :: "jsstring \<Rightarrow> jsnum" where
  "js_Number str =
     (let s = trim str
      in if s = [] then Fin 0
         else if starts_with s (js ''0x'') \<or> starts_with s (js ''0X'') then radix_number 16 (drop 2 s)
         else if starts_with s (js ''0o'') \<or> starts_with s (js ''0O'') then radix_number 8 (drop 2 s)
         else if starts_with s (js ''0b'') \<or> starts_with s (js ''0B'') then radix_number 2 (drop 2 s)
         else decimal_number s)"

definition is_NaN :: "jsnum \<Rightarrow> bool" where
  "is_NaN x \<longleftrightarrow> x = NaN"

text \<open>\<open>Number.isInteger\<close>\<close>

fun is_Integer :: "jsnum \<Rightarrow> bool" where
  "is_Integer (Fin x) = (of_int \<lfloor>x\<rfloor> = x)"
| "is_Integer _ = False"

section \<open>String(number)\<close>

fun dec :: "int \<Rightarrow> jsstring" where
  "dec n = (if n < 10 then [of_int (48 + n)] else dec (n div 10) @ [of_int (48 + n mod 10)])"

declare dec.simps [simp del]

definition int_to_string :: "int \<Rightarrow> jsstring" where
  "int_to_string i = (if i < 0 then 45 # dec (- i) else dec i)"

text \<open>
  The shortest decimal that rounds back to a positive double: \<open>n\<close> is the position of the
  decimal point, \<open>k\<close> the number of digits, found as the language standard says.
\<close>

definition point_pos :: "rat \<Rightarrow> int" where
  "point_pos x =
     (let pq = quotient_of x;
          d = int (length (dec (fst pq))) - int (length (dec (snd pq)))
      in if pow10 d \<le> x then d + 1 else d)"

definition shortest :: "rat \<Rightarrow> int \<times> int" where
  "shortest x =
     (let n = point_pos x;
          cand = (\<lambda>k. round_half_even (x / pow10 (n - int k)));
          k = (case find (\<lambda>k. fl (of_int (cand k) * pow10 (n - int k)) = Fin x) [1..<18] of
                 None \<Rightarrow> 17 | Some k \<Rightarrow> k)
      in if cand k = 10 ^ k then (1, n + 1) else (cand k, n))"

definition pos_to_string :: "rat \<Rightarrow> jsstring" where
  "pos_to_string x =
     (let (s, n) = shortest x; ds = dec s; k = int (length ds)
      in if k \<le> n \<and> n \<le> 21 then ds @ replicate (nat (n - k)) 48
         else if 0 < n \<and> n \<le> 21 then take (nat n) ds @ 46 # drop (nat n) ds
         else if - 6 < n \<and> n \<le> 0 then js ''0.'' @ replicate (nat (- n)) 48 @ ds
         else let e = n - 1; es = (if e < 0 then 45 else 43) # dec \<bar>e\<bar>
              in if k = 1 then ds @ 101 # es else hd ds # 46 # tl ds @ 101 # es)"

fun num_to_string :: "jsnum \<Rightarrow> jsstring" where
  "num_to_string NaN = js ''NaN''"
| "num_to_string PInf = js ''Infinity''"
| "num_to_string NInf = js ''-Infinity''"
| "num_to_string (Fin x) =
     (if of_int \<lfloor>x\<rfloor> = x \<and> \<bar>x\<bar> < 10 ^ 21 then int_to_string \<lfloor>x\<rfloor>
      else if x < 0 then 45 # pos_to_string (- x) else pos_to_string x)"

text \<open>\<open>toFixed(f)\<close> of a finite number below \<open>10 ^ 21\<close>.\<close>

definition to_fixed :: "nat \<Rightarrow> rat \<Rightarrow> jsstring" where
  "to_fixed f x =
     (let m = dec \<lfloor>\<bar>x\<bar> * 10 ^ f + 1 / 2\<rfloor>;
          p = replicate (f + 1 - length m) 48 @ m;
          body = (if f = 0 then m else take (length p - f) p @ 46 # drop (length p - f) p)
      in if x < 0 then 45 # body else body)"

text \<open>\<open>Math.round\<close>: the nearest integer, halves upwards.\<close>

definition math_round :: "rat \<Rightarrow> int" where
  "math_round x = \<lfloor>x + 1 / 2\<rfloor>"

lemmas js_number_defs [js_eval] =
  pow2_def pow10_def ilog2_def round_half_even_def fl_pos_def fl_def digit_val_def digits_val_def
  radix_digit_def radix_number_def exponent_part_def unsigned_decimal_def decimal_number_def
  js_Number_def is_NaN_def int_to_string_def point_pos_def shortest_def pos_to_string_def
  to_fixed_def math_round_def Let_def

section \<open>Whole numbers are printed and read back exactly\<close>

lemma bitlen_bounds: "0 < n \<Longrightarrow> 1 \<le> bitlen n \<and> 2 ^ nat (bitlen n - 1) \<le> n \<and> n < 2 ^ nat (bitlen n)"
proof (induction n rule: bitlen.induct)
  case (1 n)
  have step: "bitlen n = 1 + bitlen (n div 2)"
    using "1.prems" by (subst bitlen.simps) simp
  show ?case
  proof (cases "n = 1")
    case True
    then show ?thesis using step by (simp add: bitlen.simps)
  next
    case False
    let ?b = "bitlen (n div 2)"
    have "0 < n div 2" using False "1.prems" by linarith
    with "1.IH" "1.prems" have ih: "1 \<le> ?b" "2 ^ nat (?b - 1) \<le> n div 2" "n div 2 < 2 ^ nat ?b"
      by auto
    have e: "nat ?b = Suc (nat (?b - 1))" "nat (1 + ?b) = Suc (nat ?b)" using ih(1) by linarith+
    define q where "q = (2 :: int) ^ nat (?b - 1)"
    from ih(2,3) e have "q \<le> n div 2" "n div 2 < 2 * q" by (simp_all add: q_def)
    then have "2 * q \<le> n" "n < 4 * q" by linarith+
    with e have "2 ^ nat ?b \<le> n" "n < 2 ^ nat (1 + ?b)" by (simp_all add: q_def)
    with step ih(1) show ?thesis by simp
  qed
qed

lemma ilog2_of_int:
  assumes "0 < n" shows "ilog2 (of_int n) = bitlen n - 1"
proof -
  have q: "quotient_of (of_int n) = (n, 1)" by (simp add: quotient_of_int)
  have b1: "bitlen 1 = 1" by (simp add: bitlen.simps)
  have b: "1 \<le> bitlen n" "2 ^ nat (bitlen n - 1) \<le> n" using bitlen_bounds [OF assms] by auto
  have "(2 :: rat) ^ nat (bitlen n - 1) \<le> of_int n"
    using b(2) by (metis of_int_le_iff of_int_numeral of_int_power)
  with b(1) show ?thesis by (simp add: ilog2_def q b1 pow2_def Let_def)
qed

lemma round_half_even_of_int [simp]: "round_half_even (of_int m) = m"
  by (simp add: round_half_even_def Let_def)

lemma pow2_nonzero [simp]: "pow2 e \<noteq> 0"
  by (simp add: pow2_def)

lemma fl_pos_of_int:
  assumes "0 < n" "n \<le> 2 ^ 53" shows "fl_pos (of_int n) = of_int n"
proof -
  let ?e = "max (ilog2 (of_int n) - 52) (- 1074)"
  have "\<exists>m. of_int n / pow2 ?e = of_int m"
  proof (cases "n = 2 ^ 53")
    case True
    have "bitlen (2 ^ 53) = 54" by (simp add: bitlen.simps)
    with True have "?e = 1" using ilog2_of_int [OF assms(1)] by simp
    then show ?thesis using True by (auto simp: pow2_def intro!: exI [of _ "2 ^ 52"])
  next
    case False
    with assms have lt: "n < 2 ^ 53" by simp
    have b: "1 \<le> bitlen n" "2 ^ nat (bitlen n - 1) \<le> n" using bitlen_bounds [OF assms(1)] by auto
    from b(2) lt have "(2 :: int) ^ nat (bitlen n - 1) < 2 ^ 53" by linarith
    then have "nat (bitlen n - 1) < 53" by (subst (asm) power_strict_increasing_iff) auto
    with b(1) have "?e \<le> 0" using ilog2_of_int [OF assms(1)] by simp
    then have "of_int n / pow2 ?e = of_int (n * 2 ^ nat (- ?e))"
      by (simp add: pow2_def)
    then show ?thesis by blast
  qed
  then obtain m where m: "of_int n / pow2 ?e = of_int m" by blast
  then have "of_int m * pow2 ?e = of_int n" by (simp add: field_simps)
  then show ?thesis by (simp add: fl_pos_def Let_def m)
qed

lemma fl_of_int:
  assumes "\<bar>n\<bar> \<le> 2 ^ 53" shows "fl (of_int n) = Fin (of_int n)"
proof (cases "n = 0")
  case False
  have "- of_int n = (of_int (- n) :: rat)" by simp
  then have y: "(if 0 < n then fl_pos (of_int n) else - fl_pos (- of_int n)) = of_int n"
    using assms False fl_pos_of_int [of n] fl_pos_of_int [of "- n"] by auto
  have p: "0 < \<bar>n\<bar>" using False by simp
  have "2 ^ nat (bitlen \<bar>n\<bar> - 1) \<le> \<bar>n\<bar>" using bitlen_bounds [OF p] by blast
  with assms have "(2 :: int) ^ nat (bitlen \<bar>n\<bar> - 1) \<le> 2 ^ 53" by linarith
  then have "nat (bitlen \<bar>n\<bar> - 1) \<le> 53" by (subst (asm) power_increasing_iff) auto
  then have "ilog2 \<bar>of_int n\<bar> < 1024"
    using ilog2_of_int [OF p] by simp
  with y False show ?thesis by (simp add: fl_def Let_def)
qed (simp add: fl_def)

lemma uint_of_int16: "0 \<le> i \<Longrightarrow> i < 65536 \<Longrightarrow> uint (of_int i :: cu) = i"
  by (simp add: uint_word_of_int)

lemma is_digit_of_int: "0 \<le> d \<Longrightarrow> d < 10 \<Longrightarrow> is_digit (of_int (48 + d))"
  by (simp add: is_digit_def word_le_def uint_of_int16 del: of_int_add)

lemma dec_digits: "0 \<le> n \<Longrightarrow> dec n \<noteq> [] \<and> list_all is_digit (dec n)"
proof (induction n rule: dec.induct)
  case (1 n)
  show ?case
    using 1 by (subst (1 2) dec.simps) (auto simp: is_digit_of_int simp del: of_int_add)
qed

lemma digits_val_snoc: "digits_val (s @ [u]) = 10 * digits_val s + digit_val u"
  by (simp add: digits_val_def)

lemma digit_val_of_int: "0 \<le> d \<Longrightarrow> d < 10 \<Longrightarrow> digit_val (of_int (48 + d)) = d"
  by (simp add: digit_val_def uint_of_int16 del: of_int_add)

lemma digits_val_dec: "0 \<le> n \<Longrightarrow> digits_val (dec n) = n"
proof (induction n rule: dec.induct)
  case (1 n)
  show ?case
  proof (cases "n < 10")
    case True
    have "digits_val (dec n) = digit_val (of_int (48 + n))"
      using True by (subst dec.simps) (simp add: digits_val_def del: of_int_add)
    with True "1.prems" show ?thesis by (simp add: digit_val_of_int del: of_int_add)
  next
    case False
    with 1 have ih: "digits_val (dec (n div 10)) = n div 10" by simp
    have "digits_val (dec n) = 10 * digits_val (dec (n div 10)) + digit_val (of_int (48 + n mod 10))"
      using False by (subst dec.simps) (simp add: digits_val_snoc del: of_int_add)
    with ih show ?thesis by (simp add: digit_val_of_int del: of_int_add)
  qed
qed

lemma unsigned_decimal_digits:
  assumes "s \<noteq> []" "list_all is_digit s"
  shows "unsigned_decimal s = Some (of_int (digits_val s))"
proof -
  have "takeWhile is_digit s = s" "dropWhile is_digit s = []"
    using assms(2) by (auto simp: list_all_iff takeWhile_eq_all_conv dropWhile_eq_Nil_conv)
  with assms(1) show ?thesis
    by (simp only: unsigned_decimal_def exponent_part_def Let_def) (simp add: pow10_def)
qed

lemma digits_not_prefixed:
  assumes "list_all is_digit s" "\<not> is_digit u"
  shows "\<not> starts_with s [v, u]"
proof (cases s)
  case (Cons a t)
  with assms show ?thesis by (cases t) auto
qed simp

lemma decimal_number_signed:
  assumes "s \<noteq> []" "list_all is_digit s" "digits_val s = n" "\<bar>n\<bar> \<le> 2 ^ 53"
  shows "decimal_number s = Fin (of_int n)"
    and "decimal_number (45 # s) = Fin (of_int (- n))"
proof -
  obtain c t where s: "s = c # t" and c: "is_digit c"
    using assms(1,2) by (cases s) auto
  have sign: "c \<noteq> 43" "c \<noteq> 45" "c \<noteq> 73"
    using c by (auto simp: is_digit_def)
  have inf: "s \<noteq> js ''Infinity''"
    using sign(3) by (simp add: s js_def)
  have u: "unsigned_decimal s = Some (of_int n)"
    using unsigned_decimal_digits [OF assms(1,2)] assms(3) by simp
  show "decimal_number s = Fin (of_int n)"
    using inf u sign fl_of_int [OF assms(4)] by (simp add: decimal_number_def Let_def s)
  show "decimal_number (45 # s) = Fin (of_int (- n))"
    using inf u fl_of_int [of "- n"] assms(4) by (simp add: decimal_number_def Let_def)
qed

lemma digits_edges: "s \<noteq> [] \<Longrightarrow> list_all is_digit s \<Longrightarrow> \<not> is_space (hd s) \<and> \<not> is_space (last s)"
  by (simp add: list_all_iff is_digit_not_space)

lemma js_Number_digits:
  assumes "s \<noteq> []" "list_all is_digit s" "digits_val s = n" "\<bar>n\<bar> \<le> 2 ^ 53"
  shows "js_Number s = Fin (of_int n)" and "js_Number (45 # s) = Fin (of_int (- n))"
proof -
  note e = digits_edges [OF assms(1,2)]
  have nd: "\<not> is_digit 120" "\<not> is_digit 88" "\<not> is_digit 111" "\<not> is_digit 79" "\<not> is_digit 98" "\<not> is_digit 66"
    by (simp_all add: is_digit_def)
  have "trim s = s" "trim (45 # s) = 45 # s"
    using e assms(1) by (auto intro!: trim_id simp: is_space_def)
  with decimal_number_signed [OF assms] digits_not_prefixed [OF assms(2)] nd assms(1)
  show "js_Number s = Fin (of_int n)" "js_Number (45 # s) = Fin (of_int (- n))"
    by (simp_all add: js_Number_def js_def Let_def)
qed

lemma js_Number_of_int:
  assumes "\<bar>i\<bar> \<le> 2 ^ 53" shows "js_Number (int_to_string i) = Fin (of_int i)"
proof (cases "i < 0")
  case True
  then have "0 \<le> - i" by simp
  from js_Number_digits(2) [OF _ _ digits_val_dec [OF this]] dec_digits [OF this] assms True
  show ?thesis by (simp add: int_to_string_def)
next
  case False
  then have "0 \<le> i" by simp
  from js_Number_digits(1) [OF _ _ digits_val_dec [OF this]] dec_digits [OF this] assms False
  show ?thesis by (simp add: int_to_string_def)
qed

lemma num_to_string_of_int: "\<bar>i\<bar> < 10 ^ 21 \<Longrightarrow> num_to_string (Fin (of_int i)) = int_to_string i"
proof -
  assume "\<bar>i\<bar> < 10 ^ 21"
  then have "\<bar>of_int i\<bar> < (10 ^ 21 :: rat)"
    by (metis of_int_abs of_int_less_iff of_int_numeral of_int_power)
  then show ?thesis by simp
qed

lemma js_Number_num_to_string:
  assumes "\<bar>i\<bar> \<le> 2 ^ 53" shows "js_Number (num_to_string (Fin (of_int i))) = Fin (of_int i)"
proof -
  have "\<bar>i\<bar> < 10 ^ 21" using assms by simp
  then have "num_to_string (Fin (of_int i)) = int_to_string i" by (rule num_to_string_of_int)
  then show ?thesis by (simp only: js_Number_of_int [OF assms])
qed

end
