(* ===== verification/ApiTypes.thy ===== *)
theory ApiTypes
  imports JsNumber
begin

text \<open>
  The contract types of frontend/src/api/types.ts: one record per interface, one datatype per
  union of string literals, in the order of the file. A field \<open>f\<close> of interface \<open>T\<close> is the
  record field \<open><prefix>_f\<close> of record \<open>T\<close>; \<open>number\<close> fields that carry identifiers and
  counts are \<open>int\<close> (\<open>jsnum\<close> where the console computes them from typed text), measured ones
  (qps, cpu_percent) are \<open>rat\<close>; an optional field
  (\<open>f?: T\<close>, \<open>T | null\<close>) is an \<open>option\<close>. The \<open>_str\<close> functions give the literal a
  constructor stands for on the wire.
\<close>

section \<open>Envelope and paging\<close>

record 'a ApiEnvelope =
  env_code :: int
  env_message :: jsstring
  env_data :: 'a

record 'a PageData =
  pd_items :: "'a list"
  pd_total :: int
  pd_page :: int
  pd_page_size :: int

record PageParams =
  pp_page :: "int option"
  pp_page_size :: "int option"
  pp_keyword :: "jsstring option"

section \<open>Enumerations\<close>

datatype ProviderProtocol = Openai_chat | Openai_responses | Anthropic
datatype KeywordCategory = KC_political | KC_porn | KC_violence | KC_illegal | KC_discrimination | KC_custom
datatype MatchMode = MM_contains | MM_exact | MM_regex
datatype RuleAction = RA_block | RA_warn | RA_log | RA_mask
datatype QuotaType = QT_requests | QT_tokens
datatype QuotaPeriod = QP_day | QP_week | QP_month
datatype OverAction = OA_reject | OA_degrade
datatype CallStatus = CS_ok | CS_error | CS_blocked | CS_rate_limited | CS_quota_exceeded
datatype LogLevel = LL_debug | LL_info | LL_warn | LL_error
datatype ViolationStrategy = VS_replace | VS_block | VS_log
datatype AlertChannel = AC_ui | AC_webhook
datatype BackoffStrategy = BS_fixed | BS_exponential

fun ProviderProtocol_str :: "ProviderProtocol \<Rightarrow> jsstring" where
  "ProviderProtocol_str Openai_chat = js ''openai_chat''"
| "ProviderProtocol_str Openai_responses = js ''openai_responses''"
| "ProviderProtocol_str Anthropic = js ''anthropic''"

fun KeywordCategory_str :: "KeywordCategory \<Rightarrow> jsstring" where
  "KeywordCategory_str KC_political = js ''political''"
| "KeywordCategory_str KC_porn = js ''porn''"
| "KeywordCategory_str KC_violence = js ''violence''"
| "KeywordCategory_str KC_illegal = js ''illegal''"
| "KeywordCategory_str KC_discrimination = js ''discrimination''"
| "KeywordCategory_str KC_custom = js ''custom''"

fun MatchMode_str :: "MatchMode \<Rightarrow> jsstring" where
  "MatchMode_str MM_contains = js ''contains''"
| "MatchMode_str MM_exact = js ''exact''"
| "MatchMode_str MM_regex = js ''regex''"

fun RuleAction_str :: "RuleAction \<Rightarrow> jsstring" where
  "RuleAction_str RA_block = js ''block''"
| "RuleAction_str RA_warn = js ''warn''"
| "RuleAction_str RA_log = js ''log''"
| "RuleAction_str RA_mask = js ''mask''"

fun QuotaType_str :: "QuotaType \<Rightarrow> jsstring" where
  "QuotaType_str QT_requests = js ''requests''"
| "QuotaType_str QT_tokens = js ''tokens''"

fun QuotaPeriod_str :: "QuotaPeriod \<Rightarrow> jsstring" where
  "QuotaPeriod_str QP_day = js ''day''"
| "QuotaPeriod_str QP_week = js ''week''"
| "QuotaPeriod_str QP_month = js ''month''"

fun OverAction_str :: "OverAction \<Rightarrow> jsstring" where
  "OverAction_str OA_reject = js ''reject''"
| "OverAction_str OA_degrade = js ''degrade''"

fun CallStatus_str :: "CallStatus \<Rightarrow> jsstring" where
  "CallStatus_str CS_ok = js ''ok''"
| "CallStatus_str CS_error = js ''error''"
| "CallStatus_str CS_blocked = js ''blocked''"
| "CallStatus_str CS_rate_limited = js ''rate_limited''"
| "CallStatus_str CS_quota_exceeded = js ''quota_exceeded''"

fun LogLevel_str :: "LogLevel \<Rightarrow> jsstring" where
  "LogLevel_str LL_debug = js ''debug''"
| "LogLevel_str LL_info = js ''info''"
| "LogLevel_str LL_warn = js ''warn''"
| "LogLevel_str LL_error = js ''error''"

fun ViolationStrategy_str :: "ViolationStrategy \<Rightarrow> jsstring" where
  "ViolationStrategy_str VS_replace = js ''replace''"
| "ViolationStrategy_str VS_block = js ''block''"
| "ViolationStrategy_str VS_log = js ''log''"

fun AlertChannel_str :: "AlertChannel \<Rightarrow> jsstring" where
  "AlertChannel_str AC_ui = js ''ui''"
| "AlertChannel_str AC_webhook = js ''webhook''"

fun BackoffStrategy_str :: "BackoffStrategy \<Rightarrow> jsstring" where
  "BackoffStrategy_str BS_fixed = js ''fixed''"
| "BackoffStrategy_str BS_exponential = js ''exponential''"

section \<open>Authentication and MFA\<close>

record User =
  user_id :: int
  user_username :: jsstring
  user_mfa_enabled :: bool
  user_role :: "jsstring option"
  user_last_login_at :: "jsstring option"
  user_created_at :: "jsstring option"

text \<open>\<open>MeResponse extends User\<close>: an extension of the record.\<close>

record MeResponse = User +
  me_mfa_required :: "bool option"
  me_must_bind_mfa :: "bool option"
  me_must_change_password :: "bool option"
  me_scope :: "jsstring option"

record LoginBody =
  lb_username :: jsstring
  lb_password :: jsstring
  lb_totp_code :: "jsstring option"
  lb_recovery_code :: "jsstring option"
  lb_mfa_token :: "jsstring option"

record LoginOk =
  lo_token :: jsstring
  lo_user :: User
  lo_need_bind_mfa :: "bool option"
  lo_need_change_password :: "bool option"

record LoginMfaRequired =
  lm_mfa_required :: bool
  lm_mfa_token :: jsstring

text \<open>
  \<open>LoginResult = LoginOk | LoginMfaRequired\<close>; the last constructor is a response with
  neither a \<open>token\<close> nor an \<open>mfa_required\<close> field, which the login page also handles.
\<close>

datatype LoginResult = LR_ok LoginOk | LR_mfa LoginMfaRequired | LR_other

record ChangePasswordBody =
  cp_old_password :: jsstring
  cp_new_password :: jsstring

record MfaSetupResult =
  ms_secret :: jsstring
  ms_otpauth_url :: jsstring
  ms_qr_png_base64 :: jsstring

record MfaEnableBody =
  meb_code :: jsstring

record MfaEnableResult =
  mer_recovery_codes :: "jsstring list"
  mer_mfa_enabled :: "bool option"
  mer_token :: "jsstring option"

record MfaDisableBody =
  mdb_code :: jsstring

record MfaStatus =
  mst_enabled :: bool
  mst_bound_at :: "jsstring option"
  mst_recovery_codes_left :: "int option"

section \<open>Dashboard\<close>

record DashboardToday =
  dt_calls :: int
  dt_success :: int
  dt_blocked :: int
  dt_errors :: int
  dt_avg_latency_ms :: int

record TrendPoint =
  tp_date :: jsstring
  tp_calls :: int
  tp_blocked :: int

record ModelRank =
  mr_model :: jsstring
  mr_calls :: int

record BlockCategoryItem =
  bc_category :: jsstring
  bc_count :: int

record UpstreamHealth =
  uh_provider :: jsstring
  uh_protocol :: jsstring
  uh_healthy :: bool
  uh_fail_count :: int

record QuotaUsageItem =
  qu_name :: jsstring
  qu_used :: int
  qu_limit :: int

record DashboardSystem =
  ds_version :: jsstring
  ds_uptime_seconds :: int
  ds_config_status :: jsstring
  ds_go_version :: jsstring

record DashboardData =
  dd_today :: DashboardToday
  dd_trend_7d :: "TrendPoint list"
  dd_top_models :: "ModelRank list"
  dd_block_categories :: "BlockCategoryItem list"
  dd_upstream_health :: "UpstreamHealth list"
  dd_quota_usage :: "QuotaUsageItem list"
  dd_system :: DashboardSystem

section \<open>Providers\<close>

record Provider =
  prov_id :: int
  prov_name :: jsstring
  prov_protocol :: ProviderProtocol
  prov_base_url :: jsstring
  prov_api_key_masked :: jsstring
  prov_enabled :: bool
  prov_remark :: jsstring
  prov_created_at :: "jsstring option"
  prov_updated_at :: "jsstring option"

record ProviderInput =
  pin_name :: jsstring
  pin_protocol :: ProviderProtocol
  pin_base_url :: jsstring
  pin_api_key :: "jsstring option"
  pin_enabled :: "bool option"
  pin_remark :: "jsstring option"

record ProviderTestResult =
  ptr_ok :: bool
  ptr_latency_ms :: int
  ptr_message :: jsstring
  ptr_models :: "jsstring list option"

record ProviderImportInput =
  pii_models :: "jsstring list"
  pii_enabled :: bool

record ProviderImportResult =
  pir_created :: int
  pir_added :: int
  pir_skipped :: int
  pir_skipped_names :: "jsstring list"

section \<open>Model aliases\<close>

record Upstream =
  up_provider_id :: int
  up_provider_name :: jsstring
  up_provider_enabled :: bool
  up_upstream_model :: jsstring
  up_weight :: int

record UpstreamInput =
  ui_provider_id :: int
  ui_upstream_model :: jsstring
  ui_weight :: int

record ModelAlias =
  ma_id :: int
  ma_alias :: jsstring
  ma_enabled :: bool
  ma_remark :: jsstring
  ma_default_max_tokens :: int
  ma_upstreams :: "Upstream list"
  ma_created_at :: "jsstring option"
  ma_updated_at :: "jsstring option"

record ModelAliasInput =
  mai_alias :: jsstring
  mai_enabled :: bool
  mai_remark :: "jsstring option"
  mai_default_max_tokens :: "int option"
  mai_upstreams :: "UpstreamInput list"

record ModelStats =
  mos_calls_7d :: int
  mos_calls_today :: int
  mos_blocked_7d :: int
  mos_avg_latency_ms :: int

section \<open>Failover\<close>

record FailoverConfig =
  fc_enabled :: bool
  fc_retry_count :: int
  fc_backoff :: BackoffStrategy
  fc_retry_interval_ms :: int
  fc_trigger_status_codes :: "jsnum list"
  fc_circuit_failure_threshold :: int
  fc_circuit_reset_seconds :: int

section \<open>Guard rules\<close>

record KeywordFilter = PageParams +
  kf_category :: "KeywordCategory option"
  kf_enabled :: "bool option"
  kf_action :: "RuleAction option"

record Keyword =
  kw_id :: int
  kw_word :: jsstring
  kw_category :: KeywordCategory
  kw_match_mode :: MatchMode
  kw_action :: RuleAction
  kw_enabled :: bool
  kw_created_at :: "jsstring option"

record KeywordInput =
  ki_word :: jsstring
  ki_category :: KeywordCategory
  ki_match_mode :: MatchMode
  ki_action :: RuleAction
  ki_enabled :: bool

record KeywordImportBody =
  kib_csv :: jsstring

record KeywordImportResult =
  kir_created :: int
  kir_skipped :: int

record GuardHit =
  gh_type :: jsstring
  gh_value :: jsstring
  gh_category :: jsstring
  gh_action :: jsstring

record GuardTestResult =
  gtr_blocked :: bool
  gtr_hits :: "GuardHit list"

record PiiRule =
  pr_id :: int
  pr_name :: jsstring
  pr_category :: jsstring
  pr_pattern :: jsstring
  pr_replacement :: jsstring
  pr_action :: RuleAction
  pr_enabled :: bool
  pr_created_at :: "jsstring option"

record PiiRuleInput =
  pri_name :: jsstring
  pri_category :: jsstring
  pri_pattern :: jsstring
  pri_replacement :: "jsstring option"
  pri_action :: RuleAction
  pri_enabled :: bool

record PiiRuleTemplate =
  pt_name :: jsstring
  pt_category :: jsstring
  pt_pattern :: jsstring
  pt_replacement :: jsstring
  pt_action :: RuleAction

record PiiFinding =
  pf_rule :: jsstring
  pf_category :: jsstring
  pf_sample :: jsstring

record PiiTestResult =
  ptest_blocked :: bool
  ptest_findings :: "PiiFinding list"
  ptest_masked_text :: jsstring

record InjectionRule =
  ir_id :: int
  ir_name :: jsstring
  ir_pattern :: jsstring
  ir_match_mode :: MatchMode
  ir_action :: RuleAction
  ir_enabled :: bool
  ir_created_at :: "jsstring option"

record InjectionRuleInput =
  iri_name :: jsstring
  iri_pattern :: jsstring
  iri_match_mode :: MatchMode
  iri_action :: RuleAction
  iri_enabled :: bool

record InjectionRuleTemplate =
  it_name :: jsstring
  it_pattern :: jsstring
  it_match_mode :: MatchMode
  it_action :: RuleAction

record OutputConfig =
  oc_enabled :: bool
  oc_violation_strategy :: ViolationStrategy
  oc_safe_message :: jsstring
  oc_stream_chunk_threshold :: int

end
