(* ===== verification/ApiTypes2.thy ===== *)
theory ApiTypes2
  imports ApiTypes
begin

text \<open>
  The second half of frontend/src/api/types.ts (quotas, rate limits, alerts, audit logs, token
  statistics, settings, API keys, users, configuration and runtime status, backups), under the
  conventions of ApiTypes.
\<close>

section \<open>Quotas, rate limits, alerts\<close>

record Quota =
  q_id :: int
  q_api_key_id :: int
  q_api_key_label :: jsstring
  q_model_alias :: jsstring
  q_quota_type :: QuotaType
  q_period :: QuotaPeriod
  q_limit :: int
  q_used :: int
  q_over_action :: OverAction
  q_degrade_alias :: jsstring
  q_enabled :: bool
  q_reset_at :: "jsstring option"
  q_created_at :: "jsstring option"

record QuotaInput =
  qi_api_key_id :: jsnum
  qi_model_alias :: jsstring
  qi_quota_type :: QuotaType
  qi_period :: QuotaPeriod
  qi_limit :: int
  qi_over_action :: OverAction
  qi_degrade_alias :: "jsstring option"
  qi_enabled :: bool

record QuotaBatchBody =
  qb_items :: "QuotaInput list"

record RateLimit =
  rl_id :: int
  rl_api_key_id :: int
  rl_api_key_label :: jsstring
  rl_model_alias :: jsstring
  rl_window_seconds :: int
  rl_max_requests :: int
  rl_enabled :: bool
  rl_total_hits :: int

record RateLimitInput =
  rli_api_key_id :: int
  rli_model_alias :: jsstring
  rli_window_seconds :: int
  rli_max_requests :: int
  rli_enabled :: bool

record QuotaAlertConfig =
  qa_enabled :: bool
  qa_thresholds :: "jsnum list"
  qa_channel :: AlertChannel
  qa_webhook_url :: jsstring
  qa_receivers :: jsstring

section \<open>Audit logs\<close>

record CallLogFilter =
  cf_start :: "jsstring option"
  cf_end :: "jsstring option"
  cf_api_key_id :: "int option"
  cf_model :: "jsstring option"
  cf_status :: "CallStatus option"
  cf_blocked :: "bool option"
  cf_category :: "jsstring option"
  cf_page :: "int option"
  cf_page_size :: "int option"

record CallLogRow =
  cl_request_id :: jsstring
  cl_created_at :: jsstring
  cl_api_key_label :: jsstring
  cl_protocol :: jsstring
  cl_model_alias :: jsstring
  cl_upstream :: jsstring
  cl_input_preview :: jsstring
  cl_output_preview :: jsstring
  cl_prompt_tokens :: int
  cl_completion_tokens :: int
  cl_latency_ms :: int
  cl_status :: CallStatus
  cl_blocked :: bool
  cl_block_category :: jsstring
  cl_block_reason :: jsstring

record CallLogDetail = CallLogRow +
  cd_input_text :: jsstring
  cd_output_text :: jsstring
  cd_error_msg :: jsstring
  cd_guard_findings :: jsstring

record OpLogFilter =
  of_start :: "jsstring option"
  of_end :: "jsstring option"
  of_operator :: "jsstring option"
  of_module :: "jsstring option"
  of_action :: "jsstring option"
  of_page :: "int option"
  of_page_size :: "int option"

record OpLogRow =
  op_id :: int
  op_created_at :: jsstring
  op_operator :: jsstring
  op_action :: jsstring
  op_module :: jsstring
  op_target :: jsstring
  op_before_json :: jsstring
  op_after_json :: jsstring
  op_ip :: jsstring
  op_effective :: bool

section \<open>Token statistics\<close>

datatype Granularity = G_day | G_hour

record TokenStatsFilter =
  tf_start :: "jsstring option"
  tf_end :: "jsstring option"
  tf_api_key_id :: "int option"
  tf_model :: "jsstring option"
  tf_granularity :: "Granularity option"

record TokenStatsSummary =
  ts_calls :: int
  ts_prompt_tokens :: int
  ts_completion_tokens :: int
  ts_total_tokens :: int
  ts_keys_with_usage :: int
  ts_total_keys :: int

record TokenUsageByKey =
  tk_api_key_id :: int
  tk_api_key_label :: jsstring
  tk_calls :: int
  tk_prompt_tokens :: int
  tk_completion_tokens :: int
  tk_total_tokens :: int

record TokenUsageByModel =
  tm_model :: jsstring
  tm_calls :: int
  tm_prompt_tokens :: int
  tm_completion_tokens :: int
  tm_total_tokens :: int

record TokenUsageTrendPoint =
  tt_bucket :: jsstring
  tt_calls :: int
  tt_prompt_tokens :: int
  tt_completion_tokens :: int
  tt_total_tokens :: int

record TokenStatsRange =
  tr_start :: jsstring
  tr_end :: jsstring
  tr_granularity :: Granularity

record TokenStatsData =
  td_range :: TokenStatsRange
  td_summary :: TokenStatsSummary
  td_by_key :: "TokenUsageByKey list"
  td_by_model :: "TokenUsageByModel list"
  td_trend :: "TokenUsageTrendPoint list"

section \<open>Settings, API keys, users\<close>

record SystemSettings =
  ss_log_level :: LogLevel
  ss_audit_retention_days :: int
  ss_default_timeout_seconds :: int
  ss_max_connections :: int
  ss_guard_enabled :: bool
  ss_hot_reload_seconds :: int
  ss_call_audit_enabled :: bool
  ss_call_audit_only_errors :: bool
  ss_call_audit_sampling :: int
  ss_log_reasoning :: bool
  ss_listen_port :: int
  ss_listen_port_note :: jsstring

record SystemSettingsInput =
  ssi_log_level :: LogLevel
  ssi_audit_retention_days :: int
  ssi_default_timeout_seconds :: int
  ssi_max_connections :: int
  ssi_guard_enabled :: bool
  ssi_hot_reload_seconds :: int
  ssi_call_audit_enabled :: bool
  ssi_call_audit_only_errors :: bool
  ssi_call_audit_sampling :: int
  ssi_log_reasoning :: bool

record ApiKey =
  ak_id :: int
  ak_name :: jsstring
  ak_key_masked :: jsstring
  ak_remark :: jsstring
  ak_allowed_models_json :: jsstring
  ak_ip_allowlist_json :: jsstring
  ak_ip_allowlist_enabled :: bool
  ak_enabled :: bool
  ak_last_used_at :: "jsstring option"
  ak_created_at :: "jsstring option"

record ApiKeyCreateBody =
  akc_name :: jsstring
  akc_remark :: "jsstring option"
  akc_allowed_models_json :: "jsstring option"
  akc_ip_allowlist_json :: "jsstring option"
  akc_ip_allowlist_enabled :: "bool option"

record ApiKeyCreated =
  akd_id :: int
  akd_name :: jsstring
  akd_key :: jsstring

record ApiKeyUpdateBody =
  aku_name :: jsstring
  aku_remark :: "jsstring option"
  aku_enabled :: bool
  aku_allowed_models_json :: "jsstring option"
  aku_ip_allowlist_json :: "jsstring option"
  aku_ip_allowlist_enabled :: "bool option"

record SecuritySettings =
  sec_mfa_enabled :: bool
  sec_mfa_required_for_all :: bool
  sec_recovery_code_count :: int
  sec_grace_days :: int

record AdminUserRow =
  au_id :: int
  au_username :: jsstring
  au_role :: jsstring
  au_mfa_enabled :: bool
  au_mfa_required :: bool
  au_last_login_at :: "jsstring option"
  au_locked :: bool

datatype Role = R_admin | R_viewer

record UserSetMfaRequiredBody =
  usm_mfa_required :: bool

record UserCreateBody =
  ucb_username :: jsstring
  ucb_password :: jsstring
  ucb_role :: "Role option"
  ucb_force_change_password :: "bool option"

record UserChangePasswordBody =
  ucp_password :: jsstring
  ucp_force_change_password :: "bool option"

record UserChangeRoleBody =
  ucr_role :: Role

section \<open>Configuration and runtime status, backups\<close>

record ConfigLoadLog =
  ll_time :: jsstring
  ll_module :: jsstring
  ll_status :: jsstring
  ll_message :: jsstring

record ConfigHistory =
  ch_version :: jsstring
  ch_created_at :: jsstring
  ch_status :: jsstring
  ch_message :: jsstring

record ConfigStatus =
  cs_version :: jsstring
  cs_last_loaded_at :: jsstring
  cs_status :: jsstring
  cs_error_message :: jsstring
  cs_modules :: "(jsstring \<times> int) list"
  cs_logs :: "ConfigLoadLog list"
  cs_history :: "ConfigHistory list"

record RollbackResult =
  rr_rolled_back_to :: jsstring

record UpstreamRuntime =
  ur_provider :: jsstring
  ur_healthy :: bool
  ur_fail_count :: int
  ur_last_error :: jsstring

record QpsByModel =
  qm_model :: jsstring
  qm_qps :: rat
  qm_errors_1m :: int

record RecentError =
  re_time :: jsstring
  re_request_id :: jsstring
  re_message :: jsstring

record RuntimeConfigStatus =
  rc_version :: jsstring
  rc_last_loaded_at :: jsstring
  rc_status :: jsstring

record RuntimeStatus =
  rs_running :: bool
  rs_uptime_seconds :: int
  rs_version :: jsstring
  rs_memory_alloc_kb :: int
  rs_cpu_percent :: rat
  rs_goroutines :: int
  rs_open_connections :: int
  rs_upstreams :: "UpstreamRuntime list"
  rs_qps_by_model :: "QpsByModel list"
  rs_recent_errors :: "RecentError list"
  rs_config_status :: RuntimeConfigStatus

record BackupItem =
  bk_id :: int
  bk_filename :: jsstring
  bk_created_at :: jsstring
  bk_size_bytes :: int

record BackupRestoreBody =
  br_id :: "int option"
  br_content :: "jsstring option"

end
