(* ===== verification/AuthStore.thy ===== *)
theory AuthStore
  imports ApiTypes2
begin

text \<open>
  frontend/src/store/auth.ts: the zustand store that holds the login state, its three actions and
  the two predicates over it. The middleware \<open>persist\<close> (third-party) writes the state to
  localStorage after each \<open>set\<close> and reads it back when the page is loaded; the reading back is
  the parameter \<open>rehydrate\<close> of the models that reload the page.
  A scope is kept as the string it is, since the pages cast any string to \<open>AuthScope\<close>.
\<close>

type_synonym AuthScope = jsstring

definition scope_full :: AuthScope where "scope_full = []"
definition scope_mfa :: AuthScope where "scope_mfa = js ''mfa''"
definition scope_pw :: AuthScope where "scope_pw = js ''pw''"

record AuthState =
  as_token :: "jsstring option"
  as_user :: "User option"
  as_scope :: AuthScope

definition initial_auth :: AuthState where
  "initial_auth = \<lparr>as_token = None, as_user = None, as_scope = scope_full\<rparr>"

text \<open>\<open>setAuth(token, user, scope = '')\<close>: an omitted scope is the full one.\<close>

definition setAuth :: "jsstring \<Rightarrow> User \<Rightarrow> AuthScope option \<Rightarrow> AuthState \<Rightarrow> AuthState" where
  "setAuth token user scope s =
     s\<lparr>as_token := Some token, as_user := Some user, as_scope := or_else scope scope_full\<rparr>"

definition setScope :: "AuthScope \<Rightarrow> AuthState \<Rightarrow> AuthState" where
  "setScope scope s = s\<lparr>as_scope := scope\<rparr>"

definition clearAuth :: "AuthState \<Rightarrow> AuthState" where
  "clearAuth s = s\<lparr>as_token := None, as_user := None, as_scope := scope_full\<rparr>"

text \<open>\<open>Boolean(token)\<close>: null and the empty string are both falsy.\<close>

definition isLoggedIn :: "AuthState \<Rightarrow> bool" where
  "isLoggedIn s = (case as_token s of None \<Rightarrow> False | Some t \<Rightarrow> t \<noteq> [])"

definition isMfaRestricted :: "AuthState \<Rightarrow> bool" where
  "isMfaRestricted s \<longleftrightarrow> as_scope s = scope_mfa"

lemmas auth_defs [js_eval] = scope_full_def scope_mfa_def scope_pw_def initial_auth_def setAuth_def
  setScope_def clearAuth_def isLoggedIn_def isMfaRestricted_def

lemma scope_distinct [simp]:
  "scope_mfa \<noteq> scope_full" "scope_pw \<noteq> scope_full" "scope_mfa \<noteq> scope_pw"
  "scope_full \<noteq> scope_mfa" "scope_full \<noteq> scope_pw" "scope_pw \<noteq> scope_mfa"
  by (simp_all add: scope_full_def scope_mfa_def scope_pw_def)

lemma clearAuth_initial [simp]: "clearAuth s = initial_auth"
  by (simp add: clearAuth_def initial_auth_def)

lemma isLoggedIn_initial [simp]: "\<not> isLoggedIn initial_auth"
  by (simp add: isLoggedIn_def initial_auth_def)

lemma isLoggedIn_setAuth [simp]: "isLoggedIn (setAuth token user scope s) \<longleftrightarrow> token \<noteq> []"
  by (simp add: isLoggedIn_def setAuth_def)

lemma isLoggedIn_setScope [simp]: "isLoggedIn (setScope scope s) = isLoggedIn s"
  by (simp add: isLoggedIn_def setScope_def)

lemma as_scope_simps [simp]:
  "as_scope (setAuth token user scope s) = or_else scope scope_full"
  "as_scope (setScope scope' s) = scope'" "as_scope initial_auth = scope_full"
  by (simp_all add: setAuth_def setScope_def initial_auth_def)

end
