(* ===== verification/Json.thy ===== *)
theory Json
  imports ApiTypes2
begin

text \<open>
  JSON values, the JSON image of the request bodies of frontend/src/api/types.ts (what axios
  sends for them: an absent field is left out, a number that is not finite becomes null), and
  the reading of fields of an untyped response.
\<close>

datatype json = JNull | JBool bool | JNum rat | JStr jsstring | JArr "json list" | JObj "(jsstring \<times> json) list"

fun num_json :: "jsnum \<Rightarrow> json" where
  "num_json (Fin x) = JNum x"
| "num_json _ = JNull"

definition int_json :: "int \<Rightarrow> json" where
  "int_json i = JNum (of_int i)"

text \<open>An object literal: the fields whose value is absent are not sent.\<close>

definition obj :: "(string \<times> json option) list \<Rightarrow> json" where
  "obj fs = JObj (concat (map (\<lambda>(k, v). case v of None \<Rightarrow> [] | Some j \<Rightarrow> [(js k, j)]) fs))"

text \<open>Reading a property: absent on anything that is not an object holding it.\<close>

fun field :: "string \<Rightarrow> json \<Rightarrow> json option" where
  "field k (JObj fs) = map_of fs (js k)"
| "field k _ = None"

text \<open>JavaScript truthiness of a JSON value.\<close>

fun truthy :: "json \<Rightarrow> bool" where
  "truthy JNull = False"
| "truthy (JBool b) = b"
| "truthy (JNum x) = (x \<noteq> 0)"
| "truthy (JStr s) = (s \<noteq> [])"
| "truthy (JArr _) = True"
| "truthy (JObj _) = True"

definition str_field :: "string \<Rightarrow> json \<Rightarrow> jsstring" where
  "str_field k j = (case field k j of Some (JStr s) \<Rightarrow> s | _ \<Rightarrow> [])"

section \<open>Request bodies\<close>

definition PageParams_json :: "'a PageParams_scheme \<Rightarrow> (string \<times> json option) list" where
  "PageParams_json p =
     [(''page'', map_option int_json (pp_page p)),
      (''page_size'', map_option int_json (pp_page_size p)),
      (''keyword'', map_option JStr (pp_keyword p))]"

definition KeywordFilter_json :: "KeywordFilter \<Rightarrow> (string \<times> json option) list" where
  "KeywordFilter_json f = PageParams_json f @
     [(''category'', map_option (JStr \<circ> KeywordCategory_str) (kf_category f)),
      (''enabled'', map_option JBool (kf_enabled f)),
      (''action'', map_option (JStr \<circ> RuleAction_str) (kf_action f))]"

definition LoginBody_json :: "LoginBody \<Rightarrow> json" where
  "LoginBody_json b = obj
     [(''username'', Some (JStr (lb_username b))),
      (''password'', Some (JStr (lb_password b))),
      (''totp_code'', map_option JStr (lb_totp_code b)),
      (''recovery_code'', map_option JStr (lb_recovery_code b)),
      (''mfa_token'', map_option JStr (lb_mfa_token b))]"

definition ChangePasswordBody_json :: "ChangePasswordBody \<Rightarrow> json" where
  "ChangePasswordBody_json b = obj
     [(''old_password'', Some (JStr (cp_old_password b))),
      (''new_password'', Some (JStr (cp_new_password b)))]"

definition ProviderInput_json :: "ProviderInput \<Rightarrow> json" where
  "ProviderInput_json p = obj
     [(''name'', Some (JStr (pin_name p))),
      (''protocol'', Some (JStr (ProviderProtocol_str (pin_protocol p)))),
      (''base_url'', Some (JStr (pin_base_url p))),
      (''api_key'', map_option JStr (pin_api_key p)),
      (''enabled'', map_option JBool (pin_enabled p)),
      (''remark'', map_option JStr (pin_remark p))]"

definition ProviderImportInput_json :: "ProviderImportInput \<Rightarrow> json" where
  "ProviderImportInput_json p = obj
     [(''models'', Some (JArr (map JStr (pii_models p)))),
      (''enabled'', Some (JBool (pii_enabled p)))]"

definition UpstreamInput_json :: "UpstreamInput \<Rightarrow> json" where
  "UpstreamInput_json u = obj
     [(''provider_id'', Some (int_json (ui_provider_id u))),
      (''upstream_model'', Some (JStr (ui_upstream_model u))),
      (''weight'', Some (int_json (ui_weight u)))]"

definition ModelAliasInput_json :: "ModelAliasInput \<Rightarrow> json" where
  "ModelAliasInput_json m = obj
     [(''alias'', Some (JStr (mai_alias m))),
      (''enabled'', Some (JBool (mai_enabled m))),
      (''remark'', map_option JStr (mai_remark m)),
      (''default_max_tokens'', map_option int_json (mai_default_max_tokens m)),
      (''upstreams'', Some (JArr (map UpstreamInput_json (mai_upstreams m))))]"

definition FailoverConfig_json :: "FailoverConfig \<Rightarrow> json" where
  "FailoverConfig_json c = obj
     [(''enabled'', Some (JBool (fc_enabled c))),
      (''retry_count'', Some (int_json (fc_retry_count c))),
      (''backoff'', Some (JStr (BackoffStrategy_str (fc_backoff c)))),
      (''retry_interval_ms'', Some (int_json (fc_retry_interval_ms c))),
      (''trigger_status_codes'', Some (JArr (map num_json (fc_trigger_status_codes c)))),
      (''circuit_failure_threshold'', Some (int_json (fc_circuit_failure_threshold c))),
      (''circuit_reset_seconds'', Some (int_json (fc_circuit_reset_seconds c)))]"

definition KeywordInput_json :: "KeywordInput \<Rightarrow> json" where
  "KeywordInput_json k = obj
     [(''word'', Some (JStr (ki_word k))),
      (''category'', Some (JStr (KeywordCategory_str (ki_category k)))),
      (''match_mode'', Some (JStr (MatchMode_str (ki_match_mode k)))),
      (''action'', Some (JStr (RuleAction_str (ki_action k)))),
      (''enabled'', Some (JBool (ki_enabled k)))]"

definition PiiRuleInput_json :: "PiiRuleInput \<Rightarrow> json" where
  "PiiRuleInput_json r = obj
     [(''name'', Some (JStr (pri_name r))),
      (''category'', Some (JStr (pri_category r))),
      (''pattern'', Some (JStr (pri_pattern r))),
      (''replacement'', map_option JStr (pri_replacement r)),
      (''action'', Some (JStr (RuleAction_str (pri_action r)))),
      (''enabled'', Some (JBool (pri_enabled r)))]"

definition InjectionRuleInput_json :: "InjectionRuleInput \<Rightarrow> json" where
  "InjectionRuleInput_json r = obj
     [(''name'', Some (JStr (iri_name r))),
      (''pattern'', Some (JStr (iri_pattern r))),
      (''match_mode'', Some (JStr (MatchMode_str (iri_match_mode r)))),
      (''action'', Some (JStr (RuleAction_str (iri_action r)))),
      (''enabled'', Some (JBool (iri_enabled r)))]"

definition OutputConfig_json :: "OutputConfig \<Rightarrow> json" where
  "OutputConfig_json c = obj
     [(''enabled'', Some (JBool (oc_enabled c))),
      (''violation_strategy'', Some (JStr (ViolationStrategy_str (oc_violation_strategy c)))),
      (''safe_message'', Some (JStr (oc_safe_message c))),
      (''stream_chunk_threshold'', Some (int_json (oc_stream_chunk_threshold c)))]"

definition QuotaInput_json :: "QuotaInput \<Rightarrow> json" where
  "QuotaInput_json q = obj
     [(''api_key_id'', Some (num_json (qi_api_key_id q))),
      (''model_alias'', Some (JStr (qi_model_alias q))),
      (''quota_type'', Some (JStr (QuotaType_str (qi_quota_type q)))),
      (''period'', Some (JStr (QuotaPeriod_str (qi_period q)))),
      (''limit'', Some (int_json (qi_limit q))),
      (''over_action'', Some (JStr (OverAction_str (qi_over_action q)))),
      (''degrade_alias'', map_option JStr (qi_degrade_alias q)),
      (''enabled'', Some (JBool (qi_enabled q)))]"

definition RateLimitInput_json :: "RateLimitInput \<Rightarrow> json" where
  "RateLimitInput_json r = obj
     [(''api_key_id'', Some (int_json (rli_api_key_id r))),
      (''model_alias'', Some (JStr (rli_model_alias r))),
      (''window_seconds'', Some (int_json (rli_window_seconds r))),
      (''max_requests'', Some (int_json (rli_max_requests r))),
      (''enabled'', Some (JBool (rli_enabled r)))]"

definition QuotaAlertConfig_json :: "QuotaAlertConfig \<Rightarrow> json" where
  "QuotaAlertConfig_json c = obj
     [(''enabled'', Some (JBool (qa_enabled c))),
      (''thresholds'', Some (JArr (map num_json (qa_thresholds c)))),
      (''channel'', Some (JStr (AlertChannel_str (qa_channel c)))),
      (''webhook_url'', Some (JStr (qa_webhook_url c))),
      (''receivers'', Some (JStr (qa_receivers c)))]"

definition CallLogFilter_json :: "CallLogFilter \<Rightarrow> (string \<times> json option) list" where
  "CallLogFilter_json f =
     [(''page'', map_option int_json (cf_page f)),
      (''page_size'', map_option int_json (cf_page_size f)),
      (''model'', map_option JStr (cf_model f)),
      (''status'', map_option (JStr \<circ> CallStatus_str) (cf_status f)),
      (''category'', map_option JStr (cf_category f)),
      (''start'', map_option JStr (cf_start f)),
      (''end'', map_option JStr (cf_end f)),
      (''api_key_id'', map_option int_json (cf_api_key_id f)),
      (''blocked'', map_option JBool (cf_blocked f))]"

definition OpLogFilter_json :: "OpLogFilter \<Rightarrow> (string \<times> json option) list" where
  "OpLogFilter_json f =
     [(''page'', map_option int_json (of_page f)),
      (''page_size'', map_option int_json (of_page_size f)),
      (''operator'', map_option JStr (of_operator f)),
      (''module'', map_option JStr (of_module f)),
      (''action'', map_option JStr (of_action f)),
      (''start'', map_option JStr (of_start f)),
      (''end'', map_option JStr (of_end f))]"

fun Granularity_str :: "Granularity \<Rightarrow> jsstring" where
  "Granularity_str G_day = js ''day''"
| "Granularity_str G_hour = js ''hour''"

definition TokenStatsFilter_json :: "TokenStatsFilter \<Rightarrow> (string \<times> json option) list" where
  "TokenStatsFilter_json f =
     [(''granularity'', map_option (JStr \<circ> Granularity_str) (tf_granularity f)),
      (''model'', map_option JStr (tf_model f)),
      (''start'', map_option JStr (tf_start f)),
      (''end'', map_option JStr (tf_end f)),
      (''api_key_id'', map_option int_json (tf_api_key_id f))]"

definition SystemSettingsInput_json :: "SystemSettingsInput \<Rightarrow> json" where
  "SystemSettingsInput_json s = obj
     [(''log_level'', Some (JStr (LogLevel_str (ssi_log_level s)))),
      (''audit_retention_days'', Some (int_json (ssi_audit_retention_days s))),
      (''default_timeout_seconds'', Some (int_json (ssi_default_timeout_seconds s))),
      (''max_connections'', Some (int_json (ssi_max_connections s))),
      (''guard_enabled'', Some (JBool (ssi_guard_enabled s))),
      (''hot_reload_seconds'', Some (int_json (ssi_hot_reload_seconds s))),
      (''call_audit_enabled'', Some (JBool (ssi_call_audit_enabled s))),
      (''call_audit_only_errors'', Some (JBool (ssi_call_audit_only_errors s))),
      (''call_audit_sampling'', Some (int_json (ssi_call_audit_sampling s))),
      (''log_reasoning'', Some (JBool (ssi_log_reasoning s)))]"

definition ApiKeyCreateBody_json :: "ApiKeyCreateBody \<Rightarrow> json" where
  "ApiKeyCreateBody_json b = obj
     [(''name'', Some (JStr (akc_name b))),
      (''remark'', map_option JStr (akc_remark b)),
      (''allowed_models_json'', map_option JStr (akc_allowed_models_json b)),
      (''ip_allowlist_json'', map_option JStr (akc_ip_allowlist_json b)),
      (''ip_allowlist_enabled'', map_option JBool (akc_ip_allowlist_enabled b))]"

definition ApiKeyUpdateBody_json :: "ApiKeyUpdateBody \<Rightarrow> json" where
  "ApiKeyUpdateBody_json b = obj
     [(''name'', Some (JStr (aku_name b))),
      (''remark'', map_option JStr (aku_remark b)),
      (''enabled'', Some (JBool (aku_enabled b))),
      (''allowed_models_json'', map_option JStr (aku_allowed_models_json b)),
      (''ip_allowlist_json'', map_option JStr (aku_ip_allowlist_json b)),
      (''ip_allowlist_enabled'', map_option JBool (aku_ip_allowlist_enabled b))]"

definition SecuritySettings_json :: "SecuritySettings \<Rightarrow> json" where
  "SecuritySettings_json s = obj
     [(''mfa_enabled'', Some (JBool (sec_mfa_enabled s))),
      (''mfa_required_for_all'', Some (JBool (sec_mfa_required_for_all s))),
      (''recovery_code_count'', Some (int_json (sec_recovery_code_count s))),
      (''grace_days'', Some (int_json (sec_grace_days s)))]"

fun Role_str :: "Role \<Rightarrow> jsstring" where
  "Role_str R_admin = js ''admin''"
| "Role_str R_viewer = js ''viewer''"

definition UserCreateBody_json :: "UserCreateBody \<Rightarrow> json" where
  "UserCreateBody_json b = obj
     [(''username'', Some (JStr (ucb_username b))),
      (''password'', Some (JStr (ucb_password b))),
      (''role'', map_option (JStr \<circ> Role_str) (ucb_role b)),
      (''force_change_password'', map_option JBool (ucb_force_change_password b))]"

definition UserChangePasswordBody_json :: "UserChangePasswordBody \<Rightarrow> json" where
  "UserChangePasswordBody_json b = obj
     [(''password'', Some (JStr (ucp_password b))),
      (''force_change_password'', map_option JBool (ucp_force_change_password b))]"

definition BackupRestoreBody_json :: "BackupRestoreBody \<Rightarrow> json" where
  "BackupRestoreBody_json b = obj
     [(''id'', map_option int_json (br_id b)), (''content'', map_option JStr (br_content b))]"

end
