(* ===== verification/HttpClient.thy ===== *)
theory HttpClient
  imports AuthStore Json
begin

text \<open>
  frontend/src/api/client.ts: the axios instance with its request interceptor and its two
  response handlers, the redirection to the login page, the helpers \<open>http.get/post/put/delete\<close>
  and \<open>asPage\<close>. The transport (axios and the network) is the parameter \<open>transport\<close>: it answers a
  request with a 2xx response (\<open>Fulfilled\<close>) or with an \<open>AxiosError\<close> (\<open>Failed\<close>). Translation is
  the parameter \<open>t\<close> (i18next), applied to a key and its interpolation values.
\<close>

section \<open>The browser the console runs in\<close>

datatype toast = T_success jsstring | T_error jsstring | T_warning jsstring | T_info jsstring

record World =
  w_auth :: AuthState
  w_path :: jsstring
  w_redirecting :: bool
  w_toasts :: "toast list"

type_synonym translate = "jsstring \<Rightarrow> (jsstring \<times> jsstring) list \<Rightarrow> jsstring"

definition toast :: "toast \<Rightarrow> World \<Rightarrow> World" where
  "toast m w = w\<lparr>w_toasts := w_toasts w @ [m]\<rparr>"

section \<open>Requests and responses\<close>

datatype http_method = M_get | M_post | M_put | M_delete
datatype response_type = RT_json | RT_text | RT_blob

record request =
  rq_url :: jsstring
  rq_method :: http_method
  rq_data :: "json option"
  rq_params :: "json option"
  rq_response_type :: response_type
  rq_authorization :: "jsstring option"

record response =
  rs_status :: int
  rs_response_type :: response_type
  rs_body :: "json option"
  rs_disposition :: "jsstring option"

record axios_error =
  ae_message :: jsstring
  ae_response :: "(int \<times> json option) option"

datatype axios_result = Fulfilled response | Failed axios_error

text \<open>
  What a rejected promise carries: \<open>err.response?.status\<close> of an AxiosError, or \<open>code\<close> and
  \<open>httpStatus\<close> of the error the success handler builds.
\<close>

record js_error =
  e_message :: jsstring
  e_response :: "(int \<times> json option) option"
  e_code :: "rat option"
  e_http_status :: "int option"

datatype 'a outcome = Resolved 'a | Rejected js_error

definition e_status :: "js_error \<Rightarrow> int option" where
  "e_status e = map_option fst (e_response e)"

section \<open>Interceptors\<close>

definition login_path :: jsstring where
  "login_path = js ''/login''"

definition redirectToLogin :: "World \<Rightarrow> World" where
  "redirectToLogin w =
     (if w_redirecting w then w
      else w\<lparr>w_redirecting := True, w_auth := clearAuth (w_auth w),
             w_path := (if w_path w \<noteq> login_path then login_path else w_path w)\<rparr>)"

text \<open>The timer that ends the debounce after 500 ms.\<close>

definition redirect_timer :: "World \<Rightarrow> World" where
  "redirect_timer w = w\<lparr>w_redirecting := False\<rparr>"

definition with_authorization :: "AuthState \<Rightarrow> request \<Rightarrow> request" where
  "with_authorization s rq =
     (case as_token s of
        None \<Rightarrow> rq
      | Some token \<Rightarrow> if token = [] then rq
                      else rq\<lparr>rq_authorization := Some (js ''Bearer '' @ token)\<rparr>)"

text \<open>\<open>body && typeof body.code === 'number'\<close>\<close>

definition envelope_code :: "json option \<Rightarrow> rat option" where
  "envelope_code body =
     (case body of
        None \<Rightarrow> None
      | Some b \<Rightarrow> if truthy b then (case field ''code'' b of Some (JNum c) \<Rightarrow> Some c | _ \<Rightarrow> None)
                  else None)"

definition body_message :: "json option \<Rightarrow> jsstring" where
  "body_message body = (case body of None \<Rightarrow> [] | Some b \<Rightarrow> str_field ''message'' b)"

text \<open>What a success handler resolves with: the whole response, or the (unwrapped) data.\<close>

datatype resolved = Whole response | Data "json option"

definition on_fulfilled :: "translate \<Rightarrow> response \<Rightarrow> World \<Rightarrow> resolved outcome \<times> World" where
  "on_fulfilled t r w =
     (if rs_response_type r = RT_blob \<or> rs_response_type r = RT_text then (Resolved (Whole r), w)
      else case envelope_code (rs_body r) of
        None \<Rightarrow> (Resolved (Data (rs_body r)), w)
      | Some c \<Rightarrow>
          if c = 0 then (Resolved (Data (Option.bind (rs_body r) (field ''data''))), w)
          else
            let m = str_or (body_message (rs_body r)) (t (js ''common.requestFailed'') []);
                w' = (if c \<noteq> 40101 \<and> c \<noteq> 40102 \<and> c \<noteq> 40103 then toast (T_error m) w else w)
            in (Rejected \<lparr>e_message = m, e_response = None, e_code = Some c,
                         e_http_status = Some (rs_status r)\<rparr>, w'))"

definition error_of :: "axios_error \<Rightarrow> js_error" where
  "error_of e = \<lparr>e_message = ae_message e, e_response = ae_response e, e_code = None, e_http_status = None\<rparr>"

definition on_rejected :: "translate \<Rightarrow> axios_error \<Rightarrow> World \<Rightarrow> js_error \<times> World" where
  "on_rejected t e w =
     (let status = map_option fst (ae_response e);
          bizMessage = (case ae_response e of None \<Rightarrow> [] | Some (_, b) \<Rightarrow> body_message b)
      in if status = Some 401 then (error_of e, redirectToLogin w)
         else if bizMessage \<noteq> [] then (error_of e, toast (T_error bizMessage) w)
         else (error_of e,
               toast (T_error (str_or (ae_message e) (t (js ''common.networkError'') []))) w))"

text \<open>\<open>client.request\<close>: request interceptor, transport, response handler.\<close>

definition send :: "translate \<Rightarrow> (request \<Rightarrow> axios_result) \<Rightarrow> request \<Rightarrow> World \<Rightarrow> resolved outcome \<times> World" where
  "send t transport rq w =
     (case transport (with_authorization (w_auth w) rq) of
        Fulfilled r \<Rightarrow> on_fulfilled t (r\<lparr>rs_response_type := rq_response_type rq\<rparr>) w
      | Failed e \<Rightarrow> map_prod Rejected id (on_rejected t e w))"

section \<open>The typed helpers\<close>

definition http_get :: "jsstring \<Rightarrow> json option \<Rightarrow> request" where
  "http_get url params =
     \<lparr>rq_url = url, rq_method = M_get, rq_data = None, rq_params = params,
      rq_response_type = RT_json, rq_authorization = None\<rparr>"

definition http_post :: "jsstring \<Rightarrow> json option \<Rightarrow> request" where
  "http_post url data =
     \<lparr>rq_url = url, rq_method = M_post, rq_data = data, rq_params = None,
      rq_response_type = RT_json, rq_authorization = None\<rparr>"

definition http_put :: "jsstring \<Rightarrow> json option \<Rightarrow> request" where
  "http_put url data =
     \<lparr>rq_url = url, rq_method = M_put, rq_data = data, rq_params = None,
      rq_response_type = RT_json, rq_authorization = None\<rparr>"

definition http_delete :: "jsstring \<Rightarrow> request" where
  "http_delete url =
     \<lparr>rq_url = url, rq_method = M_delete, rq_data = None, rq_params = None,
      rq_response_type = RT_json, rq_authorization = None\<rparr>"

text \<open>
  \<open>asPage\<close>: an array becomes one page, an object is completed with defaults; any other value
  has none of the fields read.
\<close>

record as_page =
  ap_items :: "json list"
  ap_total :: rat
  ap_page :: json
  ap_page_size :: json

definition nullish_or :: "json option \<Rightarrow> json \<Rightarrow> json" where
  "nullish_or v d = (case v of None \<Rightarrow> d | Some JNull \<Rightarrow> d | Some j \<Rightarrow> j)"

definition asPage :: "json option \<Rightarrow> as_page" where
  "asPage data =
     (case data of
        Some (JArr arr) \<Rightarrow>
          \<lparr>ap_items = arr, ap_total = of_nat (length arr), ap_page = JNum 1,
           ap_page_size = JNum (of_nat (max (length arr) 1))\<rparr>
      | _ \<Rightarrow>
          let d = or_else data (JObj []);
              items = (case field ''items'' d of Some (JArr xs) \<Rightarrow> xs | _ \<Rightarrow> [])
          in \<lparr>ap_items = items,
              ap_total = (case field ''total'' d of Some (JNum n) \<Rightarrow> n | _ \<Rightarrow> of_nat (length items)),
              ap_page = nullish_or (field ''page'' d) (JNum 1),
              ap_page_size = nullish_or (field ''page_size'' d)
                (JNum (if items \<noteq> [] then of_nat (length items) else 20))\<rparr>)"

lemmas http_defs [js_eval] = toast_def e_status_def login_path_def redirectToLogin_def
  redirect_timer_def with_authorization_def envelope_code_def body_message_def on_fulfilled_def
  error_of_def on_rejected_def send_def http_get_def http_post_def http_put_def http_delete_def
  nullish_or_def asPage_def obj_def str_field_def int_json_def

section \<open>What a caller sees of a request\<close>

lemma world_toast [simp]:
  "w_auth (toast m w) = w_auth w" "w_path (toast m w) = w_path w"
  "w_redirecting (toast m w) = w_redirecting w" "w_toasts (toast m w) = w_toasts w @ [m]"
  by (simp_all add: toast_def)

lemma redirectToLogin_toasts [simp]: "w_toasts (redirectToLogin w) = w_toasts w"
  by (simp add: redirectToLogin_def)

lemma redirectToLogin_idem: "redirectToLogin (redirectToLogin w) = redirectToLogin w"
  by (simp add: redirectToLogin_def)

lemma with_authorization_url [simp]:
  "rq_url (with_authorization s rq) = rq_url rq" "rq_method (with_authorization s rq) = rq_method rq"
  "rq_data (with_authorization s rq) = rq_data rq" "rq_params (with_authorization s rq) = rq_params rq"
  by (auto simp: with_authorization_def split: option.splits)

text \<open>A world at the login page, for closed instances.\<close>

definition sample_world :: World where
  "sample_world = \<lparr>w_auth = initial_auth, w_path = login_path, w_redirecting = False, w_toasts = []\<rparr>"

section \<open>Properties\<close>

text \<open>Every request that is answered with HTTP 401 ends the session: the stored token, user and
  scope are gone and the browser is at the login page, without a message, unless such a
  redirection is already under way, in which case nothing happens a second time.\<close>

theorem unauthorized_ends_session:
  assumes "map_option fst (ae_response e) = Some 401"
  shows "fst (on_rejected t e w) = error_of e
    \<and> snd (on_rejected t e w) =
        (if w_redirecting w then w
         else w\<lparr>w_auth := initial_auth, w_path := login_path, w_redirecting := True\<rparr>)"
  using assms by (cases w) (auto simp: on_rejected_def redirectToLogin_def Let_def)

lemma unauthorized_ends_session_witness:
  "snd (on_rejected (\<lambda>k a. k) \<lparr>ae_message = [], ae_response = Some (401, None)\<rparr>
     \<lparr>w_auth = initial_auth\<lparr>as_token := Some (js ''T'')\<rparr>, w_path = js ''/models'',
      w_redirecting = False, w_toasts = []\<rparr>)
   = \<lparr>w_auth = initial_auth, w_path = login_path, w_redirecting = True, w_toasts = []\<rparr>"
  by (subst conjunct2 [OF unauthorized_ends_session]) simp_all

lemma on_rejected_401:
  "map_option fst (ae_response e) = Some 401 \<Longrightarrow> snd (on_rejected t e w) = redirectToLogin w"
  by (auto simp: on_rejected_def)

lemma on_rejected_401_burst:
  "(\<forall>e \<in> set es. map_option fst (ae_response e) = Some 401) \<Longrightarrow>
     fold (\<lambda>e w. snd (on_rejected t e w)) es (redirectToLogin w) = redirectToLogin w"
  by (induction es) (simp_all add: on_rejected_401 redirectToLogin_idem del: map_option_eq_Some)

text \<open>A burst of concurrent requests that all fail with HTTP 401 before the debounce timer
  fires has the effect of the first one alone: one clearing of the store, one redirection.\<close>

theorem unauthorized_burst:
  assumes "\<forall>e \<in> set (e0 # es). map_option fst (ae_response e) = Some 401"
  shows "fold (\<lambda>e w. snd (on_rejected t e w)) (e0 # es) w = snd (on_rejected t e0 w)"
  using assms by (simp add: on_rejected_401 on_rejected_401_burst del: map_option_eq_Some)

lemma unauthorized_burst_witness:
  "fold (\<lambda>e w. snd (on_rejected (\<lambda>k a. k) e w))
     (replicate 3 \<lparr>ae_message = [], ae_response = Some (401, None)\<rparr>)
     \<lparr>w_auth = initial_auth, w_path = [], w_redirecting = False, w_toasts = []\<rparr>
   = snd (on_rejected (\<lambda>k a. k) \<lparr>ae_message = [], ae_response = Some (401, None)\<rparr>
       \<lparr>w_auth = initial_auth, w_path = [], w_redirecting = False, w_toasts = []\<rparr>)"
  unfolding numeral_3_eq_3 replicate_Suc by (rule unauthorized_burst) simp

text \<open>The session of the world does not change while a response is unwrapped.\<close>

lemma on_fulfilled_auth: "w_auth (snd (on_fulfilled t r w)) = w_auth w"
  by (auto simp: on_fulfilled_def Let_def split: option.splits)

text \<open>An envelope of code 0 resolves with its data and one of another code rejects with that
  code and shows one error message, its own or the generic one, except the three codes of an
  invalid login, which are silent.\<close>

theorem envelope_unwrapped:
  assumes "rs_response_type r = RT_json" "envelope_code (rs_body r) = Some c"
  shows "on_fulfilled t r w =
    (let m = str_or (body_message (rs_body r)) (t (js ''common.requestFailed'') [])
     in if c = 0 then (Resolved (Data (Option.bind (rs_body r) (field ''data''))), w)
        else (Rejected \<lparr>e_message = m, e_response = None, e_code = Some c, e_http_status = Some (rs_status r)\<rparr>,
              if c \<in> {40101, 40102, 40103} then w else w\<lparr>w_toasts := w_toasts w @ [T_error m]\<rparr>))"
  using assms by (simp add: on_fulfilled_def Let_def toast_def)

lemma envelope_unwrapped_witness:
  "fst (on_fulfilled (\<lambda>k a. k)
     \<lparr>rs_status = 200, rs_response_type = RT_json,
      rs_body = Some (JObj [(js ''code'', JNum 0), (js ''data'', JBool True)]), rs_disposition = None\<rparr>
     \<lparr>w_auth = initial_auth, w_path = [], w_redirecting = False, w_toasts = []\<rparr>)
   = Resolved (Data (Some (JBool True)))"
  by (subst envelope_unwrapped [where c = 0]) (simp_all add: envelope_code_def)

text \<open>A response of status 200 whose envelope carries one of the codes of an invalid session
  (40101 to 40103) leaves the session in place: nobody is sent to the login page, and no message
  is shown.\<close>

theorem invalid_session_code_ignored:
  assumes "rs_response_type r = RT_json" "envelope_code (rs_body r) = Some c"
    and "c \<in> {40101, 40102, 40103}"
  shows "snd (on_fulfilled t r w) = w \<and> (\<exists>e. fst (on_fulfilled t r w) = Rejected e \<and> e_code e = Some c)"
  using assms by (auto simp: on_fulfilled_def Let_def)

lemma invalid_session_code_ignored_witness:
  "snd (on_fulfilled (\<lambda>k a. k)
     \<lparr>rs_status = 200, rs_response_type = RT_json,
      rs_body = Some (JObj [(js ''code'', JNum 40101)]), rs_disposition = None\<rparr>
     \<lparr>w_auth = initial_auth\<lparr>as_token := Some (js ''T'')\<rparr>, w_path = [], w_redirecting = False, w_toasts = []\<rparr>)
   = \<lparr>w_auth = initial_auth\<lparr>as_token := Some (js ''T'')\<rparr>, w_path = [], w_redirecting = False, w_toasts = []\<rparr>"
  by (rule conjunct1 [OF invalid_session_code_ignored [where c = 40101]]) (simp_all add: envelope_code_def)

text \<open>The request that leaves the client carries the bearer token of the store exactly when a
  session is open, and is otherwise the request of the caller.\<close>

theorem authorization_header:
  "with_authorization s rq =
     (if isLoggedIn s then rq\<lparr>rq_authorization := Some (js ''Bearer '' @ the (as_token s))\<rparr> else rq)"
  by (auto simp: with_authorization_def isLoggedIn_def split: option.splits)

text \<open>The page object as a response.\<close>

definition page_json :: "as_page \<Rightarrow> json" where
  "page_json p = JObj [(js ''items'', JArr (ap_items p)), (js ''total'', JNum (ap_total p)),
     (js ''page'', ap_page p), (js ''page_size'', ap_page_size p)]"

lemma asPage_nullish: "ap_page (asPage d) \<noteq> JNull \<and> ap_page_size (asPage d) \<noteq> JNull"
  by (auto simp: asPage_def nullish_or_def Let_def split: option.splits json.splits)

lemma nullish_or_id: "j \<noteq> JNull \<Longrightarrow> nullish_or (Some j) x = j"
  by (cases j) (auto simp: nullish_or_def)

lemma asPage_page_json:
  "ap_page p \<noteq> JNull \<and> ap_page_size p \<noteq> JNull \<Longrightarrow> asPage (Some (page_json p)) = p"
  by (cases p) (simp add: asPage_def page_json_def nullish_or_id)

text \<open>\<open>asPage\<close> is total and idempotent: whatever the server answers, the result is a page whose
  page object, passed through \<open>asPage\<close> again, is itself; of an array it keeps every item and counts
  them, on a page of at least one.\<close>

theorem asPage_normalises:
  "asPage (Some (page_json (asPage d))) = asPage d
   \<and> ap_items (asPage (Some (JArr xs))) = xs \<and> ap_total (asPage (Some (JArr xs))) = of_nat (length xs)
   \<and> ap_page_size (asPage (Some (JArr xs))) = JNum (of_nat (max 1 (length xs)))"
  using asPage_page_json [OF asPage_nullish] by (simp add: asPage_def max.commute)

end
