(* ===== verification/Layout.thy ===== *)
theory Layout
  imports HttpClient
begin

text \<open>
  The routes of frontend/src/App.tsx and the shell of frontend/src/layouts/MainLayout.tsx: the
  side menu, the open groups, the group of a page, the breadcrumb. Icons and styles are left out;
  a label is the translation of its key, as in the source.
\<close>

section \<open>Routes\<close>

datatype page =
    P_Dashboard | P_Providers | P_Models | P_Failover | P_Keywords | P_PiiRules | P_InjectionRules
  | P_OutputFilter | P_Quotas | P_RateLimits | P_QuotaAlerts | P_CallLogs | P_Operations
  | P_TokenStats | P_GeneralSettings | P_ApiKeys | P_SecuritySettings | P_ConfigStatus
  | P_RuntimeStatus | P_Backup | P_AccountSecurity | P_Help

text \<open>What a route renders: the three unguarded elements, or a page inside guard and layout.\<close>

datatype element = E_Login | E_ChangePassword | E_NotFound | E_Guarded page

definition change_password_path :: jsstring where "change_password_path = js ''/change-password''"
definition account_security_path :: jsstring where "account_security_path = js ''/account/security''"
definition home_path :: jsstring where "home_path = js ''/''"

definition guarded_routes :: "(jsstring \<times> page) list" where
  "guarded_routes =
     [(js ''/'', P_Dashboard),
      (js ''/providers'', P_Providers),
      (js ''/models'', P_Models),
      (js ''/models/failover'', P_Failover),
      (js ''/guard/keywords'', P_Keywords),
      (js ''/guard/pii'', P_PiiRules),
      (js ''/guard/injection'', P_InjectionRules),
      (js ''/guard/output'', P_OutputFilter),
      (js ''/quota'', P_Quotas),
      (js ''/quota/ratelimit'', P_RateLimits),
      (js ''/quota/alert'', P_QuotaAlerts),
      (js ''/audit/calls'', P_CallLogs),
      (js ''/audit/operations'', P_Operations),
      (js ''/usage/token'', P_TokenStats),
      (js ''/settings/general'', P_GeneralSettings),
      (js ''/settings/apikeys'', P_ApiKeys),
      (js ''/settings/security'', P_SecuritySettings),
      (js ''/settings/config-status'', P_ConfigStatus),
      (js ''/settings/status'', P_RuntimeStatus),
      (js ''/settings/backup'', P_Backup),
      (js ''/account/security'', P_AccountSecurity),
      (js ''/help'', P_Help)]"

definition routes :: "(jsstring \<times> element) list" where
  "routes =
     [(login_path, E_Login), (change_password_path, E_ChangePassword)]
     @ map (\<lambda>(p, pg). (p, E_Guarded pg)) guarded_routes
     @ [(js ''/404'', E_NotFound)]"

text \<open>
  The element a location renders. Which locations a route path matches is react-router's
  decision, the parameter \<open>matches\<close>; the route \<open>*\<close> takes every other location.
\<close>

definition element_at :: "(jsstring \<Rightarrow> jsstring \<Rightarrow> bool) \<Rightarrow> jsstring \<Rightarrow> element" where
  "element_at matches p =
     (case find (\<lambda>(r, _). matches r p) routes of Some (_, e) \<Rightarrow> e | None \<Rightarrow> E_NotFound)"

section \<open>Menu\<close>

datatype MenuItem = MI_leaf jsstring jsstring | MI_group jsstring jsstring "(jsstring \<times> jsstring) list"

definition PAGE_NAME_KEYS :: "(jsstring \<times> jsstring) list" where
  "PAGE_NAME_KEYS =
     [(js ''/'', js ''pageName.dashboard''),
      (js ''/usage/token'', js ''pageName.tokenUsage''),
      (js ''/providers'', js ''pageName.providers''),
      (js ''/models'', js ''pageName.models''),
      (js ''/models/failover'', js ''pageName.failover''),
      (js ''/guard/keywords'', js ''pageName.keywords''),
      (js ''/guard/pii'', js ''pageName.piiRules''),
      (js ''/guard/injection'', js ''pageName.injectionRules''),
      (js ''/guard/output'', js ''pageName.outputFilter''),
      (js ''/quota'', js ''pageName.quotas''),
      (js ''/quota/ratelimit'', js ''pageName.rateLimits''),
      (js ''/quota/alert'', js ''pageName.quotaAlerts''),
      (js ''/audit/calls'', js ''pageName.callLogs''),
      (js ''/audit/operations'', js ''pageName.operationLogs''),
      (js ''/settings/general'', js ''pageName.general''),
      (js ''/settings/apikeys'', js ''pageName.apiKeys''),
      (js ''/settings/security'', js ''pageName.security''),
      (js ''/settings/config-status'', js ''pageName.configStatus''),
      (js ''/settings/status'', js ''pageName.runtimeStatus''),
      (js ''/settings/backup'', js ''pageName.backup''),
      (js ''/account/security'', js ''pageName.accountSecurity''),
      (js ''/help'', js ''pageName.help'')]"

definition MENU :: "MenuItem list" where
  "MENU =
     [MI_leaf (js ''/'') (js ''menu.home''),
      MI_leaf (js ''/usage/token'') (js ''menu.tokenUsage''),
      MI_group (js ''group-models'') (js ''menu.models'')
        [(js ''/providers'', js ''menu.providers''),
         (js ''/models'', js ''menu.modelAliases''),
         (js ''/models/failover'', js ''menu.failover'')],
      MI_group (js ''group-guard'') (js ''menu.guard'')
        [(js ''/guard/keywords'', js ''menu.keywords''),
         (js ''/guard/pii'', js ''menu.piiRules''),
         (js ''/guard/injection'', js ''menu.injectionRules''),
         (js ''/guard/output'', js ''menu.outputFilter'')],
      MI_group (js ''group-quota'') (js ''menu.quota'')
        [(js ''/quota'', js ''menu.quotas''),
         (js ''/quota/ratelimit'', js ''menu.rateLimits''),
         (js ''/quota/alert'', js ''menu.quotaAlerts'')],
      MI_group (js ''group-audit'') (js ''menu.audit'')
        [(js ''/audit/calls'', js ''menu.callLogs''),
         (js ''/audit/operations'', js ''menu.operationLogs'')],
      MI_group (js ''group-settings'') (js ''menu.settings'')
        [(js ''/settings/general'', js ''menu.general''),
         (js ''/settings/apikeys'', js ''menu.apiKeys''),
         (js ''/settings/security'', js ''menu.security''),
         (js ''/settings/config-status'', js ''menu.configStatus''),
         (js ''/settings/status'', js ''menu.runtimeStatus''),
         (js ''/settings/backup'', js ''menu.backup'')],
      MI_leaf (js ''/help'') (js ''menu.help'')]"

text \<open>The loops over the menu return at the first group that has the path among its children.\<close>

fun groupName_in :: "translate \<Rightarrow> MenuItem list \<Rightarrow> jsstring \<Rightarrow> jsstring option" where
  "groupName_in t [] p = None"
| "groupName_in t (MI_leaf k l # ms) p = groupName_in t ms p"
| "groupName_in t (MI_group k l cs # ms) p =
     (if p \<in> set (map fst cs) then Some (t l []) else groupName_in t ms p)"

fun openKeysOf_in :: "MenuItem list \<Rightarrow> jsstring \<Rightarrow> jsstring list" where
  "openKeysOf_in [] p = []"
| "openKeysOf_in (MI_leaf k l # ms) p = openKeysOf_in ms p"
| "openKeysOf_in (MI_group k l cs # ms) p =
     (if p \<in> set (map fst cs) then [k] else openKeysOf_in ms p)"

definition groupName :: "translate \<Rightarrow> jsstring \<Rightarrow> jsstring option" where
  "groupName t p = groupName_in t MENU p"

definition openKeysOf :: "jsstring \<Rightarrow> jsstring list" where
  "openKeysOf p = openKeysOf_in MENU p"

text \<open>The effect that runs when the path changes.\<close>

definition expand_open_keys :: "jsstring \<Rightarrow> jsstring list \<Rightarrow> jsstring list" where
  "expand_open_keys p prev = (if openKeysOf p \<noteq> [] then uniq (prev @ openKeysOf p) else prev)"

datatype crumb = Crumb jsstring | CrumbLink jsstring jsstring

definition breadcrumbItems :: "translate \<Rightarrow> jsstring \<Rightarrow> crumb list" where
  "breadcrumbItems t p =
     (if p = home_path then [Crumb (t (js ''menu.brand'') [])]
      else [CrumbLink home_path (t (js ''menu.home'') [])]
        @ (case groupName t p of Some g \<Rightarrow> if g \<noteq> [] then [Crumb g] else [] | None \<Rightarrow> [])
        @ [Crumb (case map_of PAGE_NAME_KEYS p of Some k \<Rightarrow> t k [] | None \<Rightarrow> p)])"

definition header_username :: "AuthState \<Rightarrow> jsstring" where
  "header_username s = (case as_user s of Some u \<Rightarrow> user_username u | None \<Rightarrow> js ''admin'')"

text \<open>The menu is shown unless the session is restricted to binding MFA.\<close>

definition side_menu :: "AuthState \<Rightarrow> MenuItem list" where
  "side_menu s = (if as_scope s = scope_mfa then [] else MENU)"

text \<open>A click on a menu entry navigates when its key is a path.\<close>

definition menu_click :: "jsstring \<Rightarrow> World \<Rightarrow> World" where
  "menu_click key w = (if starts_with key home_path then w\<lparr>w_path := key\<rparr> else w)"

text \<open>\<open>handleLogout\<close> after its request has settled, however it settled.\<close>

definition handleLogout :: "'a outcome \<Rightarrow> World \<Rightarrow> World" where
  "handleLogout out w = w\<lparr>w_auth := clearAuth (w_auth w), w_path := login_path\<rparr>"

fun leaf_keys :: "MenuItem \<Rightarrow> jsstring list" where
  "leaf_keys (MI_leaf k l) = [k]"
| "leaf_keys (MI_group k l cs) = map fst cs"

definition menu_paths :: "jsstring list" where
  "menu_paths = concat (map leaf_keys MENU)"

lemmas layout_defs [js_eval] = change_password_path_def account_security_path_def home_path_def
  guarded_routes_def routes_def element_at_def PAGE_NAME_KEYS_def MENU_def groupName_def
  openKeysOf_def expand_open_keys_def breadcrumbItems_def header_username_def side_menu_def
  menu_click_def handleLogout_def menu_paths_def

section \<open>The tables agree with each other\<close>

lemma path_distinct [simp]:
  "login_path \<noteq> home_path" "login_path \<noteq> change_password_path" "login_path \<noteq> account_security_path"
  "home_path \<noteq> change_password_path" "home_path \<noteq> account_security_path"
  "change_password_path \<noteq> account_security_path"
  "home_path \<noteq> login_path" "change_password_path \<noteq> login_path" "account_security_path \<noteq> login_path"
  "change_password_path \<noteq> home_path" "account_security_path \<noteq> home_path"
  "account_security_path \<noteq> change_password_path"
  by (simp_all add: login_path_def home_path_def change_password_path_def account_security_path_def)

lemma distinct_routes: "distinct (map fst routes)"
  by (simp add: routes_def guarded_routes_def login_path_def change_password_path_def)

lemma set_guarded_routes_menu:
  "set (map fst guarded_routes) = insert account_security_path (set menu_paths)"
  by (simp add: guarded_routes_def menu_paths_def MENU_def account_security_path_def insert_commute)

lemma set_page_names: "set (map fst PAGE_NAME_KEYS) = set (map fst guarded_routes)"
  by (simp add: PAGE_NAME_KEYS_def guarded_routes_def insert_commute)

lemma openKeysOf_groupName_in:
  "(openKeysOf_in ms p = [] \<longleftrightarrow> groupName_in t ms p = None) \<and> length (openKeysOf_in ms p) \<le> 1"
  by (induction ms p rule: openKeysOf_in.induct) auto

lemma openKeysOf_in_member:
  "k \<in> set (openKeysOf_in ms p) \<Longrightarrow> \<exists>l cs. MI_group k l cs \<in> set ms \<and> p \<in> set (map fst cs)"
  by (induction ms p rule: openKeysOf_in.induct) (auto split: if_splits)

lemma openKeysOf_in_found:
  "MI_group k l cs \<in> set ms \<Longrightarrow> p \<in> set (map fst cs) \<Longrightarrow> openKeysOf_in ms p \<noteq> []"
  by (induction ms p rule: openKeysOf_in.induct) auto

lemma openKeysOf_group: "k \<in> set (openKeysOf p) \<Longrightarrow> \<exists>l cs. MI_group k l cs \<in> set MENU \<and> p \<in> set (map fst cs)"
  by (simp only: openKeysOf_def openKeysOf_in_member)

section \<open>Properties\<close>

text \<open>The three tables of the shell agree: the pages that have a name are the guarded routes,
  these are the entries of the menu and the account page, no entry of the menu appears twice,
  and no route path is declared twice.\<close>

theorem menu_routes_names_agree:
  "set (map fst PAGE_NAME_KEYS) = set (map fst guarded_routes)
   \<and> set (map fst guarded_routes) = insert account_security_path (set menu_paths)
   \<and> distinct menu_paths \<and> distinct (map fst routes)"
  using set_page_names set_guarded_routes_menu distinct_routes
  by (simp add: menu_paths_def MENU_def)

lemma openKeysOf_cases:
  obtains "openKeysOf p = []" | k where "openKeysOf p = [k]"
proof -
  have "length (openKeysOf p) \<le> 1"
    using openKeysOf_groupName_in [of MENU p "\<lambda>k a. k"] by (simp add: openKeysOf_def)
  then show ?thesis using that by (cases "openKeysOf p") (auto simp: Suc_le_eq)
qed

lemma uniq_snoc: "distinct xs \<Longrightarrow> uniq (xs @ [x]) = (if x \<in> set xs then xs else xs @ [x])"
  by (simp add: uniq_def distinct_remdups_id)

text \<open>Going to a page opens the group of the menu that holds it and closes none: the open keys
  keep their order, the group of the page is appended when it was closed, and the breadcrumb names
  a group exactly for the pages that open one.\<close>

theorem open_groups_follow_path:
  assumes "distinct prev"
  shows "expand_open_keys p prev =
      prev @ filter (\<lambda>k. k \<notin> set prev) (openKeysOf p)
    \<and> (openKeysOf p = [] \<longleftrightarrow> groupName t p = None)"
proof -
  have "openKeysOf p = [] \<longleftrightarrow> groupName t p = None"
    by (simp add: openKeysOf_def groupName_def openKeysOf_groupName_in)
  moreover have "expand_open_keys p prev = prev @ filter (\<lambda>k. k \<notin> set prev) (openKeysOf p)"
    using assms by (cases p rule: openKeysOf_cases) (simp_all add: expand_open_keys_def uniq_snoc)
  ultimately show ?thesis by blast
qed

lemma open_groups_follow_path_witness:
  "expand_open_keys (js ''/quota/alert'') [js ''group-guard''] = [js ''group-guard'', js ''group-quota'']"
  using conjunct1 [OF open_groups_follow_path [of "[js ''group-guard'']" "js ''/quota/alert''" "\<lambda>k a. k"]]
  by (simp add: openKeysOf_def MENU_def)

end
