(* ===== verification/LoginPages.thy ===== *)
theory LoginPages
  imports Layout
begin

text \<open>
  frontend/src/pages/Login.tsx and frontend/src/pages/ChangePassword.tsx: the two pages outside
  the guard. A page's \<open>useState\<close> cells are a record; an asynchronous handler is cut at its
  \<open>await\<close>: the part before it returns the request body it sends, the part after it takes the
  outcome of the request. \<open>navigate\<close> writes the path of the world.
\<close>

section \<open>Login\<close>

record LoginState =
  ln_step :: nat
  ln_mfaToken :: jsstring
  ln_username :: jsstring
  ln_password :: jsstring
  ln_useRecovery :: bool
  ln_submitting :: bool

definition login_initial :: LoginState where
  "login_initial =
     \<lparr>ln_step = 0, ln_mfaToken = [], ln_username = [], ln_password = [],
      ln_useRecovery = False, ln_submitting = False\<rparr>"

text \<open>The optional flags of the response are read as truthy or not.\<close>

definition flag :: "bool option \<Rightarrow> bool" where
  "flag b \<longleftrightarrow> b = Some True"

definition login_scope :: "LoginOk \<Rightarrow> AuthScope" where
  "login_scope r =
     (if flag (lo_need_change_password r) then scope_pw
      else if flag (lo_need_bind_mfa r) then scope_mfa else scope_full)"

definition navigate :: "jsstring \<Rightarrow> World \<Rightarrow> World" where
  "navigate p w = w\<lparr>w_path := p\<rparr>"

definition unauthorized_code :: "rat option \<Rightarrow> bool" where
  "unauthorized_code c \<longleftrightarrow> c = Some 40101 \<or> c = Some 40102 \<or> c = Some 40103"

definition login_ok :: "translate \<Rightarrow> LoginOk \<Rightarrow> World \<Rightarrow> World" where
  "login_ok t r w =
     (let w1 = w\<lparr>w_auth := setAuth (lo_token r) (lo_user r) (Some (login_scope r)) (w_auth w)\<rparr>
      in if flag (lo_need_change_password r) then navigate change_password_path w1
         else if flag (lo_need_bind_mfa r)
         then navigate account_security_path (toast (T_warning (t (js ''login.needBindMfa'') [])) w1)
         else navigate home_path w1)"

text \<open>\<open>!status\<close> also holds of a status 0, which no HTTP response has.\<close>

definition login_failed :: "translate \<Rightarrow> js_error \<Rightarrow> World \<Rightarrow> World" where
  "login_failed t e w =
     (if e_status e = Some 401 \<or> unauthorized_code (e_code e)
      then toast (T_error (t (js ''login.invalidCredentials'') [])) w
      else if e_status e = None \<or> e_status e = Some 0
      then toast (T_error (t (js ''common.networkError'') [])) w
      else w)"

text \<open>\<open>doLogin\<close> after the await; its \<open>finally\<close> clears \<open>submitting\<close> on every way out.\<close>

definition doLogin_settled ::
  "translate \<Rightarrow> LoginResult outcome \<Rightarrow> LoginState \<Rightarrow> World \<Rightarrow> LoginState \<times> World" where
  "doLogin_settled t out s w =
     (let done = s\<lparr>ln_submitting := False\<rparr>;
          invalid = (done, toast (T_error (t (js ''login.loginResponseInvalid'') [])) w)
      in case out of
        Resolved (LR_ok r) \<Rightarrow> if lo_token r \<noteq> [] then (done, login_ok t r w) else invalid
      | Resolved (LR_mfa m) \<Rightarrow>
          if lm_mfa_required m then (done\<lparr>ln_mfaToken := lm_mfa_token m, ln_step := 1\<rparr>, w) else invalid
      | Resolved LR_other \<Rightarrow> invalid
      | Rejected e \<Rightarrow> (done, login_failed t e w))"

definition onCredentialsFinish :: "jsstring \<Rightarrow> jsstring \<Rightarrow> LoginState \<Rightarrow> LoginState \<times> LoginBody" where
  "onCredentialsFinish u p s =
     (s\<lparr>ln_username := u, ln_password := p, ln_submitting := True\<rparr>,
      \<lparr>lb_username = u, lb_password = p, lb_totp_code = None, lb_recovery_code = None, lb_mfa_token = None\<rparr>)"

definition onMfaFinish ::
  "translate \<Rightarrow> jsstring \<Rightarrow> LoginState \<Rightarrow> World \<Rightarrow> LoginState \<times> LoginBody option \<times> World" where
  "onMfaFinish t value s w =
     (let code = trim value
      in if code = [] then (s, None, toast (T_warning (t (js ''login.mfaCodeMissing'') [])) w)
         else (s\<lparr>ln_submitting := True\<rparr>,
               Some \<lparr>lb_username = ln_username s, lb_password = ln_password s,
                     lb_totp_code = (if ln_useRecovery s then None else Some code),
                     lb_recovery_code = (if ln_useRecovery s then Some code else None),
                     lb_mfa_token = Some (ln_mfaToken s)\<rparr>,
               w))"

definition backToPrevStep :: "LoginState \<Rightarrow> LoginState" where
  "backToPrevStep s = s\<lparr>ln_step := 0, ln_useRecovery := False\<rparr>"

definition setUseRecovery :: "bool \<Rightarrow> LoginState \<Rightarrow> LoginState" where
  "setUseRecovery b s = s\<lparr>ln_useRecovery := b\<rparr>"

text \<open>A login page that opens while a session is live goes home.\<close>

definition login_redirect :: "AuthState \<Rightarrow> jsstring option" where
  "login_redirect s = (if isLoggedIn s then Some home_path else None)"

section \<open>Forced change of password\<close>

record ChangePwdValues =
  cv_old_password :: jsstring
  cv_new_password :: jsstring
  cv_confirm_password :: jsstring

text \<open>
  \<open>onFinish\<close> before the await: the new value of \<open>submitting\<close>, the body sent if any, the world.
\<close>

definition changePwd_onFinish ::
  "translate \<Rightarrow> ChangePwdValues \<Rightarrow> bool \<Rightarrow> World \<Rightarrow> bool \<times> ChangePasswordBody option \<times> World" where
  "changePwd_onFinish t v submitting w =
     (if cv_new_password v \<noteq> cv_confirm_password v
      then (submitting, None, toast (T_warning (t (js ''login.passwordMismatch'') [])) w)
      else (True, Some \<lparr>cp_old_password = cv_old_password v, cp_new_password = cv_new_password v\<rparr>, w))"

definition changePwd_settled :: "translate \<Rightarrow> 'a outcome \<Rightarrow> World \<Rightarrow> bool \<times> World" where
  "changePwd_settled t out w =
     (case out of
        Resolved _ \<Rightarrow>
          (False, navigate login_path
             (toast (T_success (t (js ''login.passwordChangedRelogin'') []))
               (w\<lparr>w_auth := clearAuth (w_auth w)\<rparr>)))
      | Rejected _ \<Rightarrow> (False, w))"

lemmas login_defs [js_eval] = login_initial_def flag_def login_scope_def navigate_def
  unauthorized_code_def login_ok_def login_failed_def doLogin_settled_def onCredentialsFinish_def
  onMfaFinish_def backToPrevStep_def setUseRecovery_def login_redirect_def
  changePwd_onFinish_def changePwd_settled_def

lemma navigate_simps [simp]:
  "w_path (navigate p w) = p" "w_auth (navigate p w) = w_auth w"
  "w_toasts (navigate p w) = w_toasts w" "w_redirecting (navigate p w) = w_redirecting w"
  by (simp_all add: navigate_def)

lemma login_scope_cases: "login_scope r \<in> {scope_full, scope_mfa, scope_pw}"
  by (simp add: login_scope_def)

lemma login_ok_auth:
  "w_auth (login_ok t r w) = setAuth (lo_token r) (lo_user r) (Some (login_scope r)) (w_auth w)"
  by (simp add: login_ok_def Let_def)

lemma login_ok_path:
  "w_path (login_ok t r w) =
     (if login_scope r = scope_pw then change_password_path
      else if login_scope r = scope_mfa then account_security_path else home_path)"
  by (simp add: login_ok_def login_scope_def Let_def)

section \<open>Properties\<close>

text \<open>A login that succeeds opens a session with the token and the user of the response; the
  scope stored and the page shown agree: a session that must change its password goes to that
  page with scope \<open>pw\<close>, else one that must bind MFA to the account page with scope \<open>mfa\<close>, else
  the full session goes home.\<close>

theorem login_opens_session:
  assumes "lo_token r \<noteq> []"
  shows "doLogin_settled t (Resolved (LR_ok r)) s w = (s\<lparr>ln_submitting := False\<rparr>, login_ok t r w)
    \<and> isLoggedIn (w_auth (login_ok t r w))
    \<and> as_user (w_auth (login_ok t r w)) = Some (lo_user r)
    \<and> (as_scope (w_auth (login_ok t r w)), w_path (login_ok t r w)) =
        (if lo_need_change_password r = Some True then (scope_pw, change_password_path)
         else if lo_need_bind_mfa r = Some True then (scope_mfa, account_security_path)
         else (scope_full, home_path))"
  using assms
  by (simp add: doLogin_settled_def Let_def login_ok_auth login_ok_path login_scope_def flag_def setAuth_def isLoggedIn_def)

definition sample_user :: User where
  "sample_user = \<lparr>user_id = 7, user_username = js ''ops'', user_mfa_enabled = False,
     user_role = None, user_last_login_at = None, user_created_at = None\<rparr>"

definition sample_login :: "bool \<Rightarrow> LoginOk" where
  "sample_login mfa = \<lparr>lo_token = js ''T'', lo_user = sample_user, lo_need_bind_mfa = Some mfa,
     lo_need_change_password = None\<rparr>"

lemma login_opens_session_witness:
  "isLoggedIn (w_auth (login_ok (\<lambda>k a. k) (sample_login True) sample_world))
   \<and> w_path (login_ok (\<lambda>k a. k) (sample_login True) sample_world) = account_security_path"
  using login_opens_session [of "sample_login True" "\<lambda>k a. k" login_initial sample_world]
  by (simp add: sample_login_def)

text \<open>The two steps of a login with MFA belong together: the second request repeats the user
  name and the password of the first step with the token of its answer, and carries exactly one
  code, trimmed, as a recovery code or as a TOTP code as the box says; a blank code sends nothing.\<close>

theorem mfa_step_completes_login:
  "let (s1, b1) = onCredentialsFinish u p s;
       s2 = setUseRecovery rec (fst (doLogin_settled t (Resolved (LR_mfa \<lparr>lm_mfa_required = True, lm_mfa_token = m\<rparr>)) s1 w))
   in ln_step s2 = 1 \<and> \<not> ln_submitting s2 \<and> lb_mfa_token b1 = None
      \<and> fst (snd (onMfaFinish t v s2 w')) =
         (if trim v = [] then None
          else Some \<lparr>lb_username = u, lb_password = p,
                 lb_totp_code = (if rec then None else Some (trim v)),
                 lb_recovery_code = (if rec then Some (trim v) else None), lb_mfa_token = Some m\<rparr>)"
  by (simp add: onCredentialsFinish_def doLogin_settled_def setUseRecovery_def onMfaFinish_def Let_def)

text \<open>C14: the messages of a failed login request, interceptor and page together: a rejected login
  (401) shows the one generic message of the page, any other answer of the server the one message
  of the interceptor, and a request without an answer shows two.\<close>

theorem login_failure_messages:
  "w_toasts (snd (doLogin_settled t (Rejected (error_of e)) s (snd (on_rejected t e w)))) = w_toasts w @
    (case ae_response e of
       None \<Rightarrow> [T_error (str_or (ae_message e) (t (js ''common.networkError'') [])),
                T_error (t (js ''common.networkError'') [])]
     | Some (st, b) \<Rightarrow>
         if st = 401 then [T_error (t (js ''login.invalidCredentials'') [])]
         else T_error (str_or (body_message b) (str_or (ae_message e) (t (js ''common.networkError'') [])))
           # (if st = 0 then [T_error (t (js ''common.networkError'') [])] else []))"
  by (cases "ae_response e")
    (auto simp: doLogin_settled_def login_failed_def on_rejected_def error_of_def e_status_def
      unauthorized_code_def str_or_def Let_def)

text \<open>The forced change of password sends the old and the new password only when the new one
  was typed twice alike; once the server has accepted it, the local session is gone and the login
  page is shown, and after a failure the session is as it was.\<close>

theorem forced_password_change:
  "changePwd_onFinish t v b w =
     (if cv_new_password v = cv_confirm_password v
      then (True, Some \<lparr>cp_old_password = cv_old_password v, cp_new_password = cv_new_password v\<rparr>, w)
      else (b, None, w\<lparr>w_toasts := w_toasts w @ [T_warning (t (js ''login.passwordMismatch'') [])]\<rparr>))
   \<and> w_auth (snd (changePwd_settled t (Resolved x) w)) = initial_auth
   \<and> w_path (snd (changePwd_settled t (Resolved x) w)) = login_path
   \<and> changePwd_settled t (Rejected e) w = (False, w)"
  by (simp add: changePwd_onFinish_def changePwd_settled_def toast_def)

end
