(* ===== verification/AccountSecurity.thy ===== *)
theory AccountSecurity
  imports LoginPages
begin

text \<open>
  frontend/src/pages/account/AccountSecurity.tsx: the enrolment of MFA (set up, scan, enable,
  show the recovery codes), its removal and the change of password of the signed-in user. The
  status of the server comes from the query cache (react-query), here the field \<open>ac_status\<close>,
  which only \<open>status_arrived\<close> writes; \<open>ac_status_stale\<close> records that the page has invalidated it.
\<close>

record AccountState =
  ac_step :: nat
  ac_setup :: "MfaSetupResult option"
  ac_recoveryCodes :: "jsstring list"
  ac_code :: jsstring
  ac_disableOpen :: bool
  ac_disableCode :: jsstring
  ac_status :: "MfaStatus option"
  ac_status_stale :: bool
  ac_autoStarted :: bool
  ac_setupPending :: bool
  ac_enablePending :: bool

definition account_initial :: AccountState where
  "account_initial =
     \<lparr>ac_step = 0, ac_setup = None, ac_recoveryCodes = [], ac_code = [], ac_disableOpen = False,
      ac_disableCode = [], ac_status = None, ac_status_stale = False, ac_autoStarted = False,
      ac_setupPending = False, ac_enablePending = False\<rparr>"

definition bound :: "AccountState \<Rightarrow> bool" where
  "bound a \<longleftrightarrow> (case ac_status a of Some s \<Rightarrow> mst_enabled s | None \<Rightarrow> False)"

definition status_arrived :: "MfaStatus \<Rightarrow> AccountState \<Rightarrow> AccountState" where
  "status_arrived s a = a\<lparr>ac_status := Some s, ac_status_stale := False\<rparr>"

definition setup_mutate :: "AccountState \<Rightarrow> AccountState" where
  "setup_mutate a = a\<lparr>ac_setupPending := True\<rparr>"

definition setup_settled :: "MfaSetupResult outcome \<Rightarrow> AccountState \<Rightarrow> AccountState" where
  "setup_settled out a =
     (case out of
        Resolved res \<Rightarrow> a\<lparr>ac_setupPending := False, ac_setup := Some res, ac_step := 1\<rparr>
      | Rejected _ \<Rightarrow> a\<lparr>ac_setupPending := False\<rparr>)"

text \<open>The effect that starts the set-up of a restricted session by itself, once.\<close>

definition auto_start :: "AuthState \<Rightarrow> AccountState \<Rightarrow> AccountState" where
  "auto_start s a =
     (if as_scope s \<noteq> scope_mfa \<or> bound a \<or> ac_autoStarted a then a
      else if ac_setupPending a \<or> ac_setup a \<noteq> None then a
      else setup_mutate (a\<lparr>ac_autoStarted := True\<rparr>))"

text \<open>The input drops every character that is not a digit.\<close>

definition code_change :: "jsstring \<Rightarrow> AccountState \<Rightarrow> AccountState" where
  "code_change v a = a\<lparr>ac_code := filter is_digit v\<rparr>"

text \<open>The button and the return key send only a code of six characters.\<close>

definition enable_mutate :: "AccountState \<Rightarrow> AccountState \<times> MfaEnableBody option" where
  "enable_mutate a =
     (if length (ac_code a) = 6 then (a\<lparr>ac_enablePending := True\<rparr>, Some \<lparr>meb_code = ac_code a\<rparr>)
      else (a, None))"

definition enable_settled ::
  "MfaEnableResult outcome \<Rightarrow> AccountState \<Rightarrow> World \<Rightarrow> AccountState \<times> World" where
  "enable_settled out a w =
     (case out of
        Rejected _ \<Rightarrow> (a\<lparr>ac_enablePending := False\<rparr>, w)
      | Resolved res \<Rightarrow>
          (a\<lparr>ac_enablePending := False, ac_recoveryCodes := mer_recovery_codes res, ac_step := 2\<rparr>,
           case mer_token res of
             None \<Rightarrow> w
           | Some token \<Rightarrow>
               if token = [] then w
               else (case as_user (w_auth w) of
                       None \<Rightarrow> w
                     | Some u \<Rightarrow> w\<lparr>w_auth := setAuth token u (Some scope_full) (w_auth w)\<rparr>)))"

definition copy_all :: "AccountState \<Rightarrow> jsstring" where
  "copy_all a = join [10] (ac_recoveryCodes a)"

definition done_confirm :: "AccountState \<Rightarrow> AccountState" where
  "done_confirm a = a\<lparr>ac_step := 0\<rparr>"

definition disable_open :: "AccountState \<Rightarrow> AccountState" where
  "disable_open a = a\<lparr>ac_disableOpen := True\<rparr>"

definition disable_cancel :: "AccountState \<Rightarrow> AccountState" where
  "disable_cancel a = a\<lparr>ac_disableOpen := False, ac_disableCode := []\<rparr>"

definition disable_change :: "jsstring \<Rightarrow> AccountState \<Rightarrow> AccountState" where
  "disable_change v a = a\<lparr>ac_disableCode := trim v\<rparr>"

definition disable_mutate :: "AccountState \<Rightarrow> MfaDisableBody" where
  "disable_mutate a = \<lparr>mdb_code = ac_disableCode a\<rparr>"

definition disable_settled :: "translate \<Rightarrow> 'a outcome \<Rightarrow> AccountState \<Rightarrow> World \<Rightarrow> AccountState \<times> World" where
  "disable_settled t out a w =
     (case out of
        Resolved _ \<Rightarrow>
          (a\<lparr>ac_disableOpen := False, ac_disableCode := [], ac_status_stale := True\<rparr>,
           toast (T_success (t (js ''acctSec.unbindOk'') [])) w)
      | Rejected _ \<Rightarrow> (a, w))"

section \<open>Change of password\<close>

definition pwd_mutate :: "jsstring \<Rightarrow> jsstring \<Rightarrow> ChangePasswordBody" where
  "pwd_mutate old new = \<lparr>cp_old_password = old, cp_new_password = new\<rparr>"

text \<open>The validator of the confirmation, and whether the form is reset afterwards.\<close>

definition confirm_validator :: "jsstring \<Rightarrow> jsstring \<Rightarrow> bool" where
  "confirm_validator new value \<longleftrightarrow> value = [] \<or> new = value"

definition pwd_settled :: "translate \<Rightarrow> 'a outcome \<Rightarrow> World \<Rightarrow> bool \<times> World" where
  "pwd_settled t out w =
     (case out of
        Resolved _ \<Rightarrow> (True, toast (T_success (t (js ''acctSec.pwdChanged'') [])) w)
      | Rejected _ \<Rightarrow> (False, w))"

section \<open>What the card shows\<close>

datatype mfa_panel = MP_start | MP_scan MfaSetupResult | MP_codes "jsstring list" | MP_active | MP_blank

definition panel :: "AccountState \<Rightarrow> mfa_panel" where
  "panel a =
     (if bound a then MP_active
      else if ac_step a = 0 then MP_start
      else if ac_step a = 1 then (case ac_setup a of Some s \<Rightarrow> MP_scan s | None \<Rightarrow> MP_blank)
      else if ac_step a = 2 then MP_codes (ac_recoveryCodes a)
      else MP_blank)"

definition forced_tip :: "MeResponse option \<Rightarrow> AccountState \<Rightarrow> bool" where
  "forced_tip me a \<longleftrightarrow> me \<noteq> None \<and> \<not> bound a \<and> ac_step a = 0"

lemmas account_defs [js_eval] = account_initial_def bound_def status_arrived_def setup_mutate_def
  setup_settled_def auto_start_def code_change_def enable_mutate_def enable_settled_def
  copy_all_def done_confirm_def disable_open_def disable_cancel_def disable_change_def
  disable_mutate_def disable_settled_def pwd_mutate_def confirm_validator_def pwd_settled_def
  panel_def forced_tip_def

section \<open>The steps of the page\<close>

inductive account_step :: "AccountState \<times> World \<Rightarrow> AccountState \<times> World \<Rightarrow> bool" where
  as_status: "account_step (a, w) (status_arrived s a, w)"
| as_auto: "account_step (a, w) (auto_start (w_auth w) a, w)"
| as_start: "panel a = MP_start \<Longrightarrow> account_step (a, w) (setup_mutate a, w)"
| as_setup: "ac_setupPending a \<Longrightarrow> account_step (a, w) (setup_settled out a, w)"
| as_code: "panel a = MP_scan s \<Longrightarrow> account_step (a, w) (code_change v a, w)"
| as_enable: "panel a = MP_scan s \<Longrightarrow> account_step (a, w) (fst (enable_mutate a), w)"
| as_enabled: "ac_enablePending a \<Longrightarrow> account_step (a, w) (enable_settled out a w)"
| as_done: "panel a = MP_codes cs \<Longrightarrow> account_step (a, w) (done_confirm a, w)"
| as_disable_open: "panel a = MP_active \<Longrightarrow> account_step (a, w) (disable_open a, w)"
| as_disable_cancel: "account_step (a, w) (disable_cancel a, w)"
| as_disable_change: "account_step (a, w) (disable_change v a, w)"
| as_disabled: "account_step (a, w) (disable_settled t (out :: unit outcome) a w)"

definition account_run :: "AccountState \<times> World \<Rightarrow> AccountState \<times> World \<Rightarrow> bool" where
  "account_run = account_step\<^sup>*\<^sup>*"

text \<open>
  The invariant: the step is one of three, the scan step has its secret, the code is made of
  digits, and nothing is sent for enabling without a set-up.
\<close>

definition account_inv :: "AccountState \<Rightarrow> bool" where
  "account_inv a \<longleftrightarrow>
     ac_step a \<le> 2 \<and> (ac_step a = 1 \<longrightarrow> ac_setup a \<noteq> None) \<and> (ac_enablePending a \<longrightarrow> ac_setup a \<noteq> None)
     \<and> list_all is_digit (ac_code a)
     \<and> trim (ac_disableCode a) = ac_disableCode a"

lemma account_inv_initial: "account_inv account_initial"
  by (simp add: account_inv_def account_initial_def)

lemma account_inv_step: "account_step s s' \<Longrightarrow> account_inv (fst s) \<Longrightarrow> account_inv (fst s')"
proof (induction rule: account_step.induct)
  case (as_setup a w out)
  then show ?case by (cases out) (auto simp: account_inv_def setup_settled_def)
next
  case (as_enabled a w out)
  then show ?case by (cases out) (auto simp: account_inv_def enable_settled_def)
next
  case (as_disabled a w t out)
  then show ?case by (cases out) (auto simp: account_inv_def disable_settled_def)
next
  case (as_enable a s w)
  then show ?case
    by (auto simp: account_inv_def enable_mutate_def panel_def split: if_splits option.splits)
next
  case (as_code a s w v)
  then show ?case
    by (auto simp: account_inv_def code_change_def list_all_iff)
qed (auto simp: account_inv_def status_arrived_def auto_start_def setup_mutate_def done_confirm_def
      disable_open_def disable_cancel_def disable_change_def)

lemma account_inv_run: "account_run s s' \<Longrightarrow> account_inv (fst s) \<Longrightarrow> account_inv (fst s')"
  unfolding account_run_def by (induction rule: rtranclp_induct) (auto dest: account_inv_step)

section \<open>Properties\<close>

text \<open>C12: in every state the enrolment page reaches, the step is one of its three, the scan step
  has its secret, and a code that is sent for enabling is made of exactly six digits.\<close>

theorem enrolment_invariant:
  assumes "account_run (account_initial, w) (a, w')"
  shows "ac_step a \<le> 2 \<and> (ac_step a = 1 \<longrightarrow> ac_setup a \<noteq> None)
    \<and> (\<forall>b. snd (enable_mutate a) = Some b \<longrightarrow> length (meb_code b) = 6 \<and> list_all is_digit (meb_code b))"
proof -
  have "account_inv a"
    using account_inv_run [OF assms] account_inv_initial by simp
  then show ?thesis
    by (auto simp: account_inv_def enable_mutate_def split: if_splits)
qed

definition sample_setup :: MfaSetupResult where
  "sample_setup = \<lparr>ms_secret = js ''S'', ms_otpauth_url = [], ms_qr_png_base64 = []\<rparr>"

lemma sample_enrolment:
  "account_run (account_initial, sample_world)
     (code_change (js ''123 456'') (setup_settled (Resolved sample_setup) (setup_mutate account_initial)), sample_world)"
proof -
  let ?a1 = "setup_mutate account_initial"
  let ?a2 = "setup_settled (Resolved sample_setup) ?a1"
  have "account_step (account_initial, sample_world) (?a1, sample_world)"
    by (rule as_start) (simp add: panel_def bound_def account_initial_def)
  moreover have "account_step (?a1, sample_world) (?a2, sample_world)"
    by (rule as_setup) (simp add: setup_mutate_def)
  moreover have "account_step (?a2, sample_world) (code_change (js ''123 456'') ?a2, sample_world)"
    by (rule as_code [where s = sample_setup])
      (simp add: panel_def bound_def account_initial_def setup_mutate_def setup_settled_def)
  ultimately show ?thesis
    unfolding account_run_def
    by (rule converse_rtranclp_into_rtranclp [OF _ converse_rtranclp_into_rtranclp [OF _ r_into_rtranclp]])
qed

lemma enrolment_invariant_witness:
  "\<exists>a b. account_run (account_initial, sample_world) (a, sample_world)
     \<and> snd (enable_mutate a) = Some b \<and> list_all is_digit (meb_code b)"
proof -
  let ?a = "code_change (js ''123 456'') (setup_settled (Resolved sample_setup) (setup_mutate account_initial))"
  have "filter is_digit (js ''123 456'') = js ''123456''" by code_simp
  then have "snd (enable_mutate ?a) = Some \<lparr>meb_code = ac_code ?a\<rparr>"
    by (simp add: enable_mutate_def code_change_def)
  with enrolment_invariant [OF sample_enrolment] sample_enrolment show ?thesis by blast
qed

text \<open>When the server accepts the code, the token it returns replaces the restricted one before
  anything else is shown, the scope becomes the full one, and the page shows exactly the recovery
  codes of the answer, once.\<close>

theorem enable_switches_session:
  assumes "mer_token r = Some token" "token \<noteq> []" "as_user (w_auth w) = Some u" "\<not> bound a"
  shows "let (a', w') = enable_settled (Resolved r) a w
    in w_auth w' = \<lparr>as_token = Some token, as_user = Some u, as_scope = scope_full\<rparr>
       \<and> panel a' = MP_codes (mer_recovery_codes r)
       \<and> (\<forall>cs. panel (done_confirm a') \<noteq> MP_codes cs)"
  using assms
  by (cases "w_auth w") (simp add: enable_settled_def setAuth_def panel_def bound_def done_confirm_def)

lemma enable_switches_session_witness:
  "let (a', w') = enable_settled
        (Resolved \<lparr>mer_recovery_codes = [js ''r1''], mer_mfa_enabled = None, mer_token = Some (js ''N'')\<rparr>)
        account_initial (sample_world\<lparr>w_auth := \<lparr>as_token = Some (js ''T''), as_user = Some sample_user, as_scope = scope_mfa\<rparr>\<rparr>)
   in w_auth w' = \<lparr>as_token = Some (js ''N''), as_user = Some sample_user, as_scope = scope_full\<rparr>
      \<and> panel a' = MP_codes [js ''r1''] \<and> (\<forall>cs. panel (done_confirm a') \<noteq> MP_codes cs)"
  using enable_switches_session
    [of "\<lparr>mer_recovery_codes = [js ''r1''], mer_mfa_enabled = None, mer_token = Some (js ''N'')\<rparr>" "js ''N''"
        "sample_world\<lparr>w_auth := \<lparr>as_token = Some (js ''T''), as_user = Some sample_user, as_scope = scope_mfa\<rparr>\<rparr>"
        sample_user account_initial]
  by (simp add: bound_def account_initial_def)

text \<open>C13: after an enrolment that succeeded, confirming the recovery codes leads back to the card
  that offers to start binding: the page never asks for the status again, so what it shows is the
  state of the account before the enrolment.\<close>

theorem enrolment_ends_at_start:
  assumes "\<not> bound a" "\<not> ac_status_stale a"
  shows "let a' = done_confirm (fst (enable_settled (Resolved r) a w))
    in panel a' = MP_start \<and> \<not> ac_status_stale a' \<and> ac_status a' = ac_status a"
  using assms by (simp add: done_confirm_def enable_settled_def panel_def bound_def)

lemma enrolment_ends_at_start_witness:
  "panel (done_confirm (fst (enable_settled
     (Resolved \<lparr>mer_recovery_codes = [js ''r1''], mer_mfa_enabled = Some True, mer_token = None\<rparr>)
     account_initial sample_world))) = MP_start"
  using enrolment_ends_at_start [of account_initial
      "\<lparr>mer_recovery_codes = [js ''r1''], mer_mfa_enabled = Some True, mer_token = None\<rparr>" sample_world]
  by (simp add: Let_def bound_def account_initial_def)

text \<open>C11: a mistyped code on this page ends the session: the server answers a wrong code or a wrong
  old password with HTTP 401, and the page, which handles a rejection by doing nothing, leaves the
  user signed out at the login page without a message.\<close>

theorem mistyped_code_signs_out:
  assumes "ae_response e = Some (401, body)" "\<not> w_redirecting w"
  shows "let w' = snd (disable_settled t (Rejected (error_of e) :: unit outcome) a (snd (on_rejected t e w)));
             w'' = snd (pwd_settled t (Rejected (error_of e) :: unit outcome) (snd (on_rejected t e w)))
    in \<not> isLoggedIn (w_auth w') \<and> w_path w' = login_path \<and> w_toasts w' = w_toasts w \<and> w'' = w'"
  using assms
  by (simp add: disable_settled_def pwd_settled_def on_rejected_def redirectToLogin_def Let_def)

lemma mistyped_code_signs_out_witness:
  "\<not> isLoggedIn (w_auth (snd (disable_settled (\<lambda>k a. k)
      (Rejected (error_of \<lparr>ae_message = [], ae_response = Some (401, None)\<rparr>) :: unit outcome) account_initial
      (snd (on_rejected (\<lambda>k a. k) \<lparr>ae_message = [], ae_response = Some (401, None)\<rparr> sample_world)))))"
  using mistyped_code_signs_out
    [of "\<lparr>ae_message = [], ae_response = Some (401, None)\<rparr>" None sample_world "\<lambda>k a. k" account_initial]
  by (simp add: sample_world_def Let_def)

end
