(* ===== verification/Session.thy ===== *)
theory Session
  imports AccountSecurity
begin

text \<open>
  The session as the whole application sees it: the guard \<open>RequireAuth\<close> of frontend/src/App.tsx
  (its redirections, and its effect that copies the scope of \<open>/auth/me\<close> into the store), the
  redirection of the login page, and the events that change them. The query cache (react-query)
  is the field \<open>sn_me\<close>: the last answer under the key \<open>auth-me\<close>, which survives a logout, since
  nothing in the application removes it, and is empty after a page load.
\<close>

record SessionState =
  sn_world :: World
  sn_me :: "MeResponse option"
  sn_mounted :: bool

definition me_scope_of :: "MeResponse \<Rightarrow> AuthScope" where
  "me_scope_of me = or_else (me_scope me) scope_full"

text \<open>What \<open>RequireAuth\<close> renders: a redirection, or its children.\<close>

definition guard :: "AuthState \<Rightarrow> jsstring \<Rightarrow> jsstring option" where
  "guard s p =
     (if \<not> isLoggedIn s then Some login_path
      else if as_scope s = scope_mfa \<and> p \<noteq> account_security_path then Some account_security_path
      else if as_scope s = scope_pw \<and> p \<noteq> change_password_path then Some change_password_path
      else None)"

text \<open>The effect, which runs when the guard is mounted and when \<open>me\<close> changes.\<close>

definition scope_effect :: "MeResponse option \<Rightarrow> AuthState \<Rightarrow> AuthState" where
  "scope_effect me s = (case me of Some m \<Rightarrow> setScope (me_scope_of m) s | None \<Rightarrow> s)"

text \<open>
  One render of the current location followed by the effects it schedules: the redirection is
  computed from the state rendered, the scope is corrected afterwards.
\<close>

definition render :: "(jsstring \<Rightarrow> jsstring \<Rightarrow> bool) \<Rightarrow> SessionState \<Rightarrow> SessionState" where
  "render matches sn =
     (let w = sn_world sn in
      case element_at matches (w_path w) of
        E_Login \<Rightarrow>
          sn\<lparr>sn_mounted := False,
             sn_world := w\<lparr>w_path := or_else (login_redirect (w_auth w)) (w_path w)\<rparr>\<rparr>
      | E_ChangePassword \<Rightarrow> sn\<lparr>sn_mounted := False\<rparr>
      | E_NotFound \<Rightarrow> sn\<lparr>sn_mounted := False\<rparr>
      | E_Guarded _ \<Rightarrow>
          sn\<lparr>sn_mounted := True,
             sn_world := w\<lparr>w_path := or_else (guard (w_auth w) (w_path w)) (w_path w),
                            w_auth := (if sn_mounted sn then w_auth w
                                       else scope_effect (sn_me sn) (w_auth w))\<rparr>\<rparr>)"

definition stable :: "(jsstring \<Rightarrow> jsstring \<Rightarrow> bool) \<Rightarrow> SessionState \<Rightarrow> bool" where
  "stable matches sn \<longleftrightarrow> render matches sn = sn"

definition settle :: "(jsstring \<Rightarrow> jsstring \<Rightarrow> bool) \<Rightarrow> SessionState \<Rightarrow> SessionState" where
  "settle matches = render matches ^^ 4"

definition view :: "(jsstring \<Rightarrow> jsstring \<Rightarrow> bool) \<Rightarrow> SessionState \<Rightarrow> element" where
  "view matches sn = element_at matches (w_path (sn_world sn))"

text \<open>What react-router promises of the routes: a route path matches itself and no other route path.\<close>

definition router_law :: "(jsstring \<Rightarrow> jsstring \<Rightarrow> bool) \<Rightarrow> bool" where
  "router_law matches \<longleftrightarrow> (\<forall>r \<in> set (map fst routes). \<forall>q \<in> set (map fst routes). matches r q \<longleftrightarrow> r = q)"

section \<open>Events\<close>

definition on_world :: "(World \<Rightarrow> World) \<Rightarrow> SessionState \<Rightarrow> SessionState" where
  "on_world f sn = sn\<lparr>sn_world := f (sn_world sn)\<rparr>"

text \<open>The answer of \<open>/auth/me\<close> enters the cache; a mounted guard runs its effect.\<close>

definition me_arrived :: "MeResponse \<Rightarrow> SessionState \<Rightarrow> SessionState" where
  "me_arrived me sn =
     sn\<lparr>sn_me := Some me,
        sn_world := (if sn_mounted sn
                     then (sn_world sn)\<lparr>w_auth := scope_effect (Some me) (w_auth (sn_world sn))\<rparr>
                     else sn_world sn)\<rparr>"

text \<open>A page load: everything but localStorage is lost.\<close>

definition page_load :: "(AuthState \<Rightarrow> AuthState) \<Rightarrow> jsstring \<Rightarrow> SessionState \<Rightarrow> SessionState" where
  "page_load rehydrate p sn =
     \<lparr>sn_world = \<lparr>w_auth = rehydrate (w_auth (sn_world sn)), w_path = p, w_redirecting = False, w_toasts = []\<rparr>,
      sn_me = None, sn_mounted = False\<rparr>"

definition login_done :: "translate \<Rightarrow> LoginResult outcome \<Rightarrow> LoginState \<Rightarrow> SessionState \<Rightarrow> SessionState" where
  "login_done t out lg = on_world (snd \<circ> doLogin_settled t out lg)"

definition logout_done :: "SessionState \<Rightarrow> SessionState" where
  "logout_done = on_world (handleLogout (Resolved ()))"

definition password_done :: "translate \<Rightarrow> unit outcome \<Rightarrow> SessionState \<Rightarrow> SessionState" where
  "password_done t out = on_world (snd \<circ> changePwd_settled t out)"

definition mfa_enabled :: "MfaEnableResult outcome \<Rightarrow> AccountState \<Rightarrow> SessionState \<Rightarrow> SessionState" where
  "mfa_enabled out a = on_world (snd \<circ> enable_settled out a)"

lemmas session_defs [js_eval] = me_scope_of_def guard_def scope_effect_def render_def stable_def
  settle_def view_def on_world_def me_arrived_def page_load_def login_done_def logout_done_def
  password_done_def mfa_enabled_def

section \<open>Which element the distinguished paths render\<close>

lemma element_at_route:
  assumes "router_law matches" "(r, e) \<in> set routes"
  shows "element_at matches r = e"
proof -
  have r: "r \<in> set (map fst routes)"
    using assms(2) by force
  have "matches q r \<longleftrightarrow> q = r" if "(q, e') \<in> set routes" for q e'
    using assms(1) r that unfolding router_law_def by force
  then have "find (\<lambda>(r', _). matches r' r) routes = find (\<lambda>(r', _). r' = r) routes"
    by (intro find_cong) auto
  also have "\<dots> = Some (r, e)"
  proof -
    obtain i where i: "i < length routes" "routes ! i = (r, e)"
      using assms(2) by (metis in_set_conv_nth)
    moreover have "fst (routes ! j) \<noteq> r" if "j < i" for j
      using that i distinct_routes
      by (metis (no_types, lifting) distinct_conv_nth fst_conv length_map nat_neq_iff nth_map order.strict_trans)
    ultimately show ?thesis
      by (auto simp: find_Some_iff case_prod_unfold intro!: exI [of _ i])
  qed
  finally show ?thesis
    by (simp add: element_at_def)
qed

lemma element_at_paths:
  assumes "router_law matches"
  shows "element_at matches login_path = E_Login"
    "element_at matches change_password_path = E_ChangePassword"
    "element_at matches home_path = E_Guarded P_Dashboard"
    "element_at matches account_security_path = E_Guarded P_AccountSecurity"
  by (rule element_at_route [OF assms];
      simp add: routes_def guarded_routes_def home_path_def account_security_path_def)+

section \<open>Redirections come to rest\<close>

definition rests_in :: "(jsstring \<Rightarrow> jsstring \<Rightarrow> bool) \<Rightarrow> nat \<Rightarrow> SessionState \<Rightarrow> bool" where
  "rests_in matches n sn \<longleftrightarrow> stable matches ((render matches ^^ n) sn)"

lemma rests_in_0: "rests_in matches 0 sn \<longleftrightarrow> stable matches sn"
  by (simp add: rests_in_def)

lemma rests_in_Suc: "rests_in matches (Suc n) sn \<longleftrightarrow> rests_in matches n (render matches sn)"
  by (simp add: rests_in_def funpow_Suc_right del: funpow.simps)

lemma rests_in_step:
  "rests_in matches 1 sn \<longleftrightarrow> rests_in matches 0 (render matches sn)"
  "rests_in matches 2 sn \<longleftrightarrow> rests_in matches 1 (render matches sn)"
  "rests_in matches 3 sn \<longleftrightarrow> rests_in matches 2 (render matches sn)"
  "rests_in matches 4 sn \<longleftrightarrow> rests_in matches 3 (render matches sn)"
  by (simp_all add: eval_nat_numeral flip: rests_in_Suc)

lemma rests_in_mono: "rests_in matches n sn \<Longrightarrow> n \<le> m \<Longrightarrow> rests_in matches m sn"
proof (induction n arbitrary: sn m)
  case 0
  then have "(render matches ^^ m) sn = sn"
    by (induction m) (auto simp: rests_in_def stable_def)
  with 0 show ?case by (simp add: rests_in_def)
next
  case (Suc n)
  then show ?case by (cases m) (auto simp: rests_in_Suc)
qed

lemma rests_unguarded:
  "view matches sn \<in> {E_ChangePassword, E_NotFound} \<Longrightarrow> rests_in matches 1 sn"
  by (cases sn) (auto simp: rests_in_def stable_def render_def view_def Let_def)

lemma rests_login:
  "view matches sn = E_Login \<Longrightarrow> \<not> isLoggedIn (w_auth (sn_world sn)) \<Longrightarrow> rests_in matches 1 sn"
  by (cases sn) (auto simp: rests_in_def stable_def render_def view_def Let_def login_redirect_def)

lemma render_guarded_mounted:
  assumes "view matches sn = E_Guarded pg" "sn_mounted sn"
  shows "render matches sn =
    on_world (\<lambda>w. w\<lparr>w_path := or_else (guard (w_auth w) (w_path w)) (w_path w)\<rparr>) sn"
  using assms by (cases sn) (auto simp: render_def view_def Let_def on_world_def)

lemma on_world_id: "f (sn_world sn) = sn_world sn \<Longrightarrow> on_world f sn = sn"
  by (cases sn) (simp add: on_world_def)

lemma w_path_same: "w\<lparr>w_path := w_path w\<rparr> = w"
  by (cases w) simp

lemma stable_mounted:
  assumes "view matches sn = E_Guarded pg" "sn_mounted sn"
    and g: "guard (w_auth (sn_world sn)) (w_path (sn_world sn)) = None"
  shows "stable matches sn"
proof -
  have "on_world (\<lambda>w. w\<lparr>w_path := or_else (guard (w_auth w) (w_path w)) (w_path w)\<rparr>) sn = sn"
    by (rule on_world_id) (simp only: g or_else.simps w_path_same)
  then show ?thesis by (simp only: stable_def render_guarded_mounted [OF assms(1,2)])
qed

lemma guard_cases:
  obtains "\<not> isLoggedIn s" "guard s p = Some login_path"
    | "isLoggedIn s" "guard s p = None"
    | "isLoggedIn s" "as_scope s = scope_mfa" "p \<noteq> account_security_path"
        "guard s p = Some account_security_path"
    | "isLoggedIn s" "as_scope s = scope_pw" "p \<noteq> change_password_path"
        "guard s p = Some change_password_path"
proof (cases "isLoggedIn s")
  case True
  then consider "guard s p = None" | "as_scope s = scope_mfa \<and> p \<noteq> account_security_path"
    | "as_scope s = scope_pw \<and> p \<noteq> change_password_path"
    unfolding guard_def by presburger
  then show ?thesis
    using that True by cases (simp_all add: guard_def)
qed (simp add: that guard_def)

lemma rests_guarded_mounted:
  assumes law: "router_law matches" and v: "view matches sn = E_Guarded pg" and m: "sn_mounted sn"
  shows "rests_in matches 2 sn"
proof -
  let ?w = "sn_world sn"
  let ?go = "\<lambda>p. on_world (\<lambda>w. w\<lparr>w_path := p\<rparr>) sn"
  note at = element_at_paths [OF law]
  show ?thesis
  proof (cases "w_auth ?w" "w_path ?w" rule: guard_cases)
    case 1
    then have "rests_in matches 1 (?go login_path)"
      by (intro rests_login) (simp_all add: view_def on_world_def at)
    moreover from 1 have "render matches sn = ?go login_path"
      by (simp only: render_guarded_mounted [OF v m] on_world_def or_else.simps)
    ultimately show ?thesis by (simp only: rests_in_step)
  next
    case 2
    from stable_mounted [OF v m this(2)] have "stable matches sn" .
    then have "rests_in matches 0 sn" by (simp only: rests_in_0)
    then show ?thesis by (rule rests_in_mono) simp
  next
    case 3
    have "stable matches (?go account_security_path)"
    proof (rule stable_mounted)
      show "view matches (?go account_security_path) = E_Guarded P_AccountSecurity"
        by (simp add: view_def on_world_def at)
      show "sn_mounted (?go account_security_path)" using m by (simp add: on_world_def)
      show "guard (w_auth (sn_world (?go account_security_path)))
          (w_path (sn_world (?go account_security_path))) = None"
        using 3(1,2) by (simp add: guard_def on_world_def)
    qed
    moreover from 3 have "render matches sn = ?go account_security_path"
      by (simp only: render_guarded_mounted [OF v m] on_world_def or_else.simps)
    ultimately have "rests_in matches 1 sn" by (simp only: rests_in_step rests_in_0)
    then show ?thesis by (rule rests_in_mono) simp
  next
    case 4
    then have "rests_in matches 1 (?go change_password_path)"
      by (intro rests_unguarded) (simp add: view_def on_world_def at)
    moreover from 4 have "render matches sn = ?go change_password_path"
      by (simp only: render_guarded_mounted [OF v m] on_world_def or_else.simps)
    ultimately show ?thesis by (simp only: rests_in_step)
  qed
qed

lemma render_guarded_mounts:
  "view matches sn = E_Guarded pg \<Longrightarrow> sn_mounted (render matches sn)"
  by (simp add: view_def render_def Let_def)

lemma rests_guarded:
  assumes law: "router_law matches" and v: "view matches sn = E_Guarded pg"
  shows "rests_in matches 3 sn"
proof (cases "sn_mounted sn")
  case True
  show ?thesis by (rule rests_in_mono [OF rests_guarded_mounted [OF law v True]]) simp
next
  case False
  let ?sn = "render matches sn" and ?w = "sn_world sn"
  note at = element_at_paths [OF law]
  have p: "w_path (sn_world ?sn) = or_else (guard (w_auth ?w) (w_path ?w)) (w_path ?w)"
    using v by (simp add: view_def render_def Let_def)
  consider "view matches ?sn = E_Login" "\<not> isLoggedIn (w_auth (sn_world ?sn))"
    | "view matches ?sn = E_ChangePassword" | pg' where "view matches ?sn = E_Guarded pg'"
  proof (cases "guard (w_auth ?w) (w_path ?w)")
    case None
    then show ?thesis using p v that(3) by (simp add: view_def)
  next
    case (Some q)
    then show ?thesis
      using p v False that at
      by (auto simp: guard_def view_def render_def Let_def scope_effect_def split: if_splits option.splits)
  qed
  then have "rests_in matches 2 ?sn"
  proof cases
    case 1
    then show ?thesis by (rule rests_in_mono [OF rests_login]) simp
  next
    case 2
    then show ?thesis by (intro rests_in_mono [OF rests_unguarded]) simp_all
  next
    case 3
    then show ?thesis by (rule rests_guarded_mounted [OF law _ render_guarded_mounts [OF v]])
  qed
  then show ?thesis by (simp only: rests_in_step)
qed

lemma rests_always: "router_law matches \<Longrightarrow> rests_in matches 4 sn"
proof -
  assume law: "router_law matches"
  note at = element_at_paths [OF law]
  show ?thesis
  proof (cases "view matches sn")
    case E_Login
    show ?thesis
    proof (cases "isLoggedIn (w_auth (sn_world sn))")
      case True
      with E_Login have "view matches (render matches sn) = E_Guarded P_Dashboard"
        by (simp add: view_def render_def Let_def login_redirect_def at)
      from rests_guarded [OF law this] show ?thesis
        by (simp only: rests_in_step)
    next
      case False
      show ?thesis by (rule rests_in_mono [OF rests_login [OF E_Login False]]) simp
    qed
  next
    case (E_Guarded pg)
    show ?thesis by (rule rests_in_mono [OF rests_guarded [OF law E_Guarded]]) simp
  qed (rule rests_in_mono [OF rests_unguarded]; simp)+
qed

lemma settle_stable: "router_law matches \<Longrightarrow> stable matches (settle matches sn)"
  using rests_always by (simp add: rests_in_def settle_def)

section \<open>What a page at rest may show\<close>

lemma stable_guarded:
  assumes law: "router_law matches" and st: "stable matches sn" and v: "view matches sn = E_Guarded pg"
  shows "guard (w_auth (sn_world sn)) (w_path (sn_world sn)) = None"
proof (rule ccontr)
  let ?w = "sn_world sn"
  have r: "render matches sn = sn" using st by (simp add: stable_def)
  with render_guarded_mounts [OF v] have m: "sn_mounted sn" by simp
  assume "guard (w_auth ?w) (w_path ?w) \<noteq> None"
  then obtain q where q: "guard (w_auth ?w) (w_path ?w) = Some q" by blast
  have "w_path (sn_world (render matches sn)) = q"
    using q by (simp add: render_guarded_mounted [OF v m] on_world_def)
  with r have "w_path ?w = q" by simp
  with q have "w_path ?w = login_path" by (auto simp: guard_def split: if_splits)
  with v element_at_paths(1) [OF law] show False by (simp add: view_def)
qed

lemma guard_None_iff:
  "guard s p = None \<longleftrightarrow> isLoggedIn s \<and> (as_scope s = scope_mfa \<longrightarrow> p = account_security_path)
     \<and> (as_scope s = scope_pw \<longrightarrow> p = change_password_path)"
  by (auto simp: guard_def)

lemma stable_not_login:
  "stable matches sn \<Longrightarrow> view matches sn = E_Login \<Longrightarrow> router_law matches \<Longrightarrow>
     \<not> isLoggedIn (w_auth (sn_world sn))"
proof
  assume st: "stable matches sn" and v: "view matches sn = E_Login" and law: "router_law matches"
    and "isLoggedIn (w_auth (sn_world sn))"
  then have "w_path (sn_world (render matches sn)) = home_path"
    by (simp add: view_def render_def Let_def login_redirect_def)
  with st v element_at_paths(3) [OF law] show False by (simp add: stable_def view_def)
qed

section \<open>Properties\<close>

text \<open>C3: whatever the session, the location and the cached answer of \<open>/auth/me\<close>, the
  redirections of the guard and of the login page come to rest after at most four renders: they
  never chase each other.\<close>

theorem redirections_rest:
  assumes "router_law matches"
  shows "render matches ((render matches ^^ 4) sn) = (render matches ^^ 4) sn"
  using settle_stable [OF assms] by (simp add: stable_def settle_def)

lemma router_law_eq: "router_law (=)"
  by (simp add: router_law_def)

definition sample_session :: "AuthState \<Rightarrow> jsstring \<Rightarrow> SessionState" where
  "sample_session s p = \<lparr>sn_world = \<lparr>w_auth = s, w_path = p, w_redirecting = False, w_toasts = []\<rparr>,
     sn_me = None, sn_mounted = False\<rparr>"

definition sample_auth :: "AuthScope \<Rightarrow> AuthState" where
  "sample_auth sc = \<lparr>as_token = Some (js ''T''), as_user = Some sample_user, as_scope = sc\<rparr>"

lemma redirections_rest_witness:
  "stable (=) (settle (=) (sample_session (sample_auth scope_mfa) login_path))"
  unfolding stable_def settle_def by (rule redirections_rest [OF router_law_eq])

lemma guarded_page_session:
  assumes law: "router_law matches" and v: "view matches (settle matches sn) = E_Guarded pg"
  shows "isLoggedIn (w_auth (sn_world (settle matches sn)))
    \<and> (as_scope (w_auth (sn_world (settle matches sn))) = scope_mfa \<longrightarrow> pg = P_AccountSecurity)
    \<and> as_scope (w_auth (sn_world (settle matches sn))) \<noteq> scope_pw"
proof -
  let ?p = "w_path (sn_world (settle matches sn))"
  have "guard (w_auth (sn_world (settle matches sn))) ?p = None"
    by (rule stable_guarded [OF law settle_stable [OF law] v])
  moreover have "?p \<noteq> change_password_path"
    using v element_at_paths(2) [OF law] by (auto simp: view_def)
  moreover have "pg = P_AccountSecurity" if "?p = account_security_path"
    using v element_at_paths(4) [OF law] that by (simp add: view_def)
  ultimately show ?thesis by (auto simp: guard_None_iff)
qed

text \<open>C1: once at rest, a business page is shown only to an open session, a session restricted to
  binding MFA sees no page but the account page, and one restricted to changing its password sees
  none at all.\<close>

theorem business_pages_guarded:
  assumes law: "router_law matches" and v: "view matches (settle matches sn) = E_Guarded pg"
  defines "s \<equiv> w_auth (sn_world (settle matches sn))"
  shows "isLoggedIn s \<and> (as_scope s = scope_mfa \<longrightarrow> pg = P_AccountSecurity) \<and> as_scope s \<noteq> scope_pw"
  unfolding s_def by (rule guarded_page_session [OF law v])

lemma eq_element_at: "element_at (=) p = (case map_of routes p of Some e \<Rightarrow> e | None \<Rightarrow> E_NotFound)"
proof -
  have "map_of xs p = map_option snd (find (\<lambda>(r, _). r = p) xs)" for xs :: "(jsstring \<times> element) list"
    by (induction xs) auto
  then show ?thesis by (auto simp: element_at_def split: option.splits)
qed

lemma stable_settle: "stable matches sn \<Longrightarrow> settle matches sn = sn"
  by (simp add: stable_def settle_def eval_nat_numeral)

lemma business_pages_guarded_witness:
  "let sn = (sample_session (sample_auth scope_mfa) account_security_path)\<lparr>sn_mounted := True\<rparr>
   in view (=) (settle (=) sn) = E_Guarded P_AccountSecurity \<and> isLoggedIn (w_auth (sn_world (settle (=) sn)))"
proof -
  let ?sn = "(sample_session (sample_auth scope_mfa) account_security_path)\<lparr>sn_mounted := True\<rparr>"
  have v: "view (=) ?sn = E_Guarded P_AccountSecurity"
    by (simp add: view_def sample_session_def element_at_paths [OF router_law_eq])
  have "stable (=) ?sn"
    by (rule stable_mounted [OF v])
      (simp_all add: sample_session_def sample_auth_def guard_def isLoggedIn_def)
  then have v': "view (=) (settle (=) ?sn) = E_Guarded P_AccountSecurity"
    using v by (simp add: stable_settle)
  with business_pages_guarded [OF router_law_eq v'] show ?thesis by (simp add: Let_def)
qed

lemma settle_render: "router_law matches \<Longrightarrow> settle matches (render matches sn) = settle matches sn"
proof -
  assume "router_law matches"
  then have "render matches ((render matches ^^ 4) sn) = (render matches ^^ 4) sn"
    using settle_stable by (simp add: stable_def settle_def)
  then show ?thesis
    by (simp add: settle_def funpow_swap1)
qed

lemma settle_mounts:
  assumes law: "router_law matches" and v: "view matches sn = E_Guarded pg" and m: "\<not> sn_mounted sn"
    and g: "guard (w_auth (sn_world sn)) (w_path (sn_world sn)) = None"
    and g': "guard (scope_effect (sn_me sn) (w_auth (sn_world sn))) (w_path (sn_world sn)) = None"
  shows "settle matches sn =
    sn\<lparr>sn_mounted := True,
       sn_world := (sn_world sn)\<lparr>w_auth := scope_effect (sn_me sn) (w_auth (sn_world sn))\<rparr>\<rparr>"
    (is "_ = ?sn")
proof -
  have "(sn_world sn)\<lparr>w_path := w_path (sn_world sn), w_auth := a\<rparr> = (sn_world sn)\<lparr>w_auth := a\<rparr>" for a
    by (cases "sn_world sn") simp
  then have "render matches sn = ?sn"
    using v m g by (simp add: render_def view_def Let_def)
  moreover have "stable matches ?sn"
    by (rule stable_mounted [of _ _ pg]) (use v g' in \<open>simp_all add: view_def\<close>)
  ultimately show ?thesis
    using settle_render [OF law, of sn] by (simp add: stable_settle)
qed

lemma settle_mounted:
  assumes "view matches sn = E_Guarded pg" "sn_mounted sn"
    "guard (w_auth (sn_world sn)) (w_path (sn_world sn)) = None"
  shows "settle matches sn = sn"
  by (rule stable_settle [OF stable_mounted [OF assms]])

lemma settle_unguarded:
  assumes "view matches sn \<in> {E_ChangePassword, E_NotFound}
    \<or> view matches sn = E_Login \<and> \<not> isLoggedIn (w_auth (sn_world sn))"
  shows "settle matches sn = sn\<lparr>sn_mounted := False\<rparr>"
proof -
  have r: "render matches sn = sn\<lparr>sn_mounted := False\<rparr>"
    using assms by (cases sn) (auto simp: render_def view_def Let_def login_redirect_def)
  moreover have "stable matches (sn\<lparr>sn_mounted := False\<rparr>)"
    using assms by (cases sn) (auto simp: stable_def render_def view_def Let_def login_redirect_def)
  then have "render matches (sn\<lparr>sn_mounted := False\<rparr>) = sn\<lparr>sn_mounted := False\<rparr>"
    by (simp add: stable_def)
  ultimately show ?thesis by (simp add: settle_def eval_nat_numeral)
qed

lemma render_no_me:
  "sn_me sn = None \<Longrightarrow> sn_me (render matches sn) = None
     \<and> w_auth (sn_world (render matches sn)) = w_auth (sn_world sn)"
  by (auto simp: render_def Let_def scope_effect_def split: element.split)

lemma settle_no_me:
  assumes "sn_me sn = None"
  shows "w_auth (sn_world (settle matches sn)) = w_auth (sn_world sn)"
proof -
  have "sn_me ((render matches ^^ n) sn) = None
      \<and> w_auth (sn_world ((render matches ^^ n) sn)) = w_auth (sn_world sn)" for n
    by (induction n) (simp_all add: assms render_no_me)
  then show ?thesis by (simp add: settle_def)
qed

text \<open>After a page load the guard works from the stored scope alone: a stored session that is
  restricted to binding MFA never gets to a business page by reloading, at whatever address.\<close>

theorem reload_keeps_restriction:
  assumes law: "router_law matches"
    and persisted: "rehydrate (w_auth (sn_world sn)) = w_auth (sn_world sn)"
    and s: "isLoggedIn (w_auth (sn_world sn))" "as_scope (w_auth (sn_world sn)) = scope_mfa"
  shows "view matches (settle matches (page_load rehydrate p sn))
    \<in> {E_Guarded P_AccountSecurity, E_ChangePassword, E_NotFound}"
proof -
  let ?sn = "settle matches (page_load rehydrate p sn)"
  have a: "w_auth (sn_world ?sn) = w_auth (sn_world sn)"
    by (simp add: settle_no_me page_load_def persisted)
  show ?thesis
  proof (cases "view matches ?sn")
    case E_Login
    with stable_not_login [OF settle_stable [OF law] E_Login law] a s show ?thesis by simp
  next
    case (E_Guarded pg)
    with guarded_page_session [OF law E_Guarded] a s show ?thesis by simp
  qed simp_all
qed

lemma reload_keeps_restriction_witness:
  "view (=) (settle (=) (page_load id (js ''/models'') (sample_session (sample_auth scope_mfa) login_path)))
    \<in> {E_Guarded P_AccountSecurity, E_ChangePassword, E_NotFound}"
  by (rule reload_keeps_restriction [OF router_law_eq])
    (simp_all add: sample_session_def sample_auth_def isLoggedIn_def)

lemma view_login_done:
  assumes law: "router_law matches" and tok: "lo_token r \<noteq> []"
  shows "view matches (login_done t (Resolved (LR_ok r)) lg sn) =
    (if login_scope r = scope_pw then E_ChangePassword
     else if login_scope r = scope_mfa then E_Guarded P_AccountSecurity else E_Guarded P_Dashboard)"
    "w_auth (sn_world (login_done t (Resolved (LR_ok r)) lg sn)) =
       setAuth (lo_token r) (lo_user r) (Some (login_scope r)) (w_auth (sn_world sn))"
    "w_path (sn_world (login_done t (Resolved (LR_ok r)) lg sn)) =
       (if login_scope r = scope_pw then change_password_path
        else if login_scope r = scope_mfa then account_security_path else home_path)"
    "sn_me (login_done t (Resolved (LR_ok r)) lg sn) = sn_me sn"
    "sn_mounted (login_done t (Resolved (LR_ok r)) lg sn) = sn_mounted sn"
  using tok by (simp_all add: view_def login_done_def on_world_def doLogin_settled_def Let_def
      login_ok_path login_ok_auth element_at_paths [OF law])

text \<open>C9: with an empty query cache, a login that succeeds ends where its answer says: on the page
  that changes the password, on the account page, or on the dashboard, and the scope that guards
  the session from then on is the one of the answer.\<close>

theorem login_reaches_page:
  assumes law: "router_law matches" and tok: "lo_token r \<noteq> []"
    and fresh: "sn_me sn = None" "\<not> sn_mounted sn"
  shows "let sn' = settle matches (login_done t (Resolved (LR_ok r)) lg sn)
    in as_scope (w_auth (sn_world sn')) = login_scope r
     \<and> view matches sn' =
      (if login_scope r = scope_pw then E_ChangePassword
       else if login_scope r = scope_mfa then E_Guarded P_AccountSecurity
       else E_Guarded P_Dashboard)"
proof -
  define sn' where "sn' = settle matches (login_done t (Resolved (LR_ok r)) lg sn)"
  let ?l = "login_done t (Resolved (LR_ok r)) lg sn"
  note l = view_login_done [OF law tok, of t lg sn]
  have "as_scope (w_auth (sn_world sn')) = login_scope r"
    unfolding sn'_def using fresh l by (simp add: settle_no_me)
  moreover have "view matches sn' = view matches ?l"
  proof (cases "login_scope r = scope_pw")
    case True
    then have "settle matches ?l = ?l\<lparr>sn_mounted := False\<rparr>"
      using l by (intro settle_unguarded) simp
    then show ?thesis by (simp add: sn'_def view_def)
  next
    case False
    then have g: "guard (w_auth (sn_world ?l)) (w_path (sn_world ?l)) = None"
      using l tok by (simp add: guard_def)
    from False obtain pg where v: "view matches ?l = E_Guarded pg"
      using l by (cases "login_scope r = scope_mfa") auto
    have "settle matches ?l = ?l\<lparr>sn_mounted := True, sn_world := (sn_world ?l)
        \<lparr>w_auth := scope_effect (sn_me ?l) (w_auth (sn_world ?l))\<rparr>\<rparr>"
      by (rule settle_mounts [OF law v]) (use fresh l g in \<open>simp_all add: scope_effect_def\<close>)
    then show ?thesis by (simp add: sn'_def view_def)
  qed
  ultimately show ?thesis using l(1) by (simp add: Let_def flip: sn'_def)
qed

lemma login_reaches_page_witness:
  "view (=) (settle (=) (login_done (\<lambda>k a. k) (Resolved (LR_ok (sample_login True))) login_initial
     (sample_session initial_auth login_path))) = E_Guarded P_AccountSecurity"
  using login_reaches_page [OF router_law_eq, of "sample_login True" "sample_session initial_auth login_path"
      "\<lambda>k a. k" login_initial]
  by (simp add: sample_login_def sample_session_def login_scope_def flag_def Let_def)

text \<open>Signing out and an expired session both end at the login page with an empty store, from
  any page and whatever the outcome of the logout request; nothing the guard does brings the
  session back.\<close>

theorem session_end:
  assumes law: "router_law matches" and nr: "\<not> w_redirecting (sn_world sn)"
  shows "(let s1 = settle matches (logout_done sn);
              s2 = settle matches (on_world redirectToLogin sn)
          in view matches s1 = E_Login \<and> w_auth (sn_world s1) = initial_auth
           \<and> view matches s2 = E_Login \<and> w_auth (sn_world s2) = initial_auth)"
proof -
  note at = element_at_paths [OF law]
  have "settle matches (logout_done sn) = (logout_done sn)\<lparr>sn_mounted := False\<rparr>"
    by (rule settle_unguarded) (simp add: logout_done_def on_world_def handleLogout_def view_def at)
  moreover have "settle matches (on_world redirectToLogin sn) = (on_world redirectToLogin sn)\<lparr>sn_mounted := False\<rparr>"
    using nr by (intro settle_unguarded) (simp add: on_world_def redirectToLogin_def view_def at)
  ultimately show ?thesis
    using nr by (simp add: logout_done_def on_world_def handleLogout_def redirectToLogin_def view_def at Let_def)
qed

lemma session_end_witness:
  "view (=) (settle (=) (logout_done (sample_session (sample_auth scope_full) home_path))) = E_Login"
  using session_end [OF router_law_eq, of "sample_session (sample_auth scope_full) home_path"]
  by (simp add: sample_session_def Let_def)

text \<open>The answer of \<open>/auth/me\<close> corrects the scope of the session that shows a page: when it
  says the session is restricted to binding MFA, the page gives way to the account page, and when
  it says the session is full, the page stays and the store holds the full scope.\<close>

theorem me_corrects_scope:
  assumes law: "router_law matches" and st: "stable matches sn" and v: "view matches sn = E_Guarded pg"
  shows "(me_scope_of me = scope_mfa \<longrightarrow>
           view matches (settle matches (me_arrived me sn)) = E_Guarded P_AccountSecurity)
    \<and> (me_scope_of me = scope_full \<longrightarrow>
           view matches (settle matches (me_arrived me sn)) = E_Guarded pg
           \<and> as_scope (w_auth (sn_world (settle matches (me_arrived me sn)))) = scope_full)"
proof -
  let ?s = "me_arrived me sn"
  let ?go = "on_world (\<lambda>w. w\<lparr>w_path := account_security_path\<rparr>) ?s"
  note at = element_at_paths [OF law]
  have g: "isLoggedIn (w_auth (sn_world sn))"
    using stable_guarded [OF law st v] by (simp add: guard_None_iff)
  have m: "sn_mounted sn"
    using render_guarded_mounts [OF v] st by (simp add: stable_def)
  have s: "view matches ?s = E_Guarded pg" "sn_mounted ?s"
    "w_auth (sn_world ?s) = setScope (me_scope_of me) (w_auth (sn_world sn))"
    using v m by (simp_all add: me_arrived_def view_def scope_effect_def)
  have "settle matches ?s = ?s" if "me_scope_of me = scope_full"
    by (rule settle_mounted [OF s(1,2)]) (simp add: s(3) guard_def g that)
  moreover have "view matches (settle matches ?s) = E_Guarded P_AccountSecurity" if "me_scope_of me = scope_mfa"
  proof (cases "w_path (sn_world ?s) = account_security_path")
    case True
    then have "settle matches ?s = ?s"
      by (intro settle_mounted [OF s(1,2)]) (simp add: s(3) guard_def g that)
    with True show ?thesis by (simp add: view_def at)
  next
    case False
    then have gs: "guard (w_auth (sn_world ?s)) (w_path (sn_world ?s)) = Some account_security_path"
      by (simp add: s(3) guard_def g that)
    have "render matches ?s = ?go"
      by (simp only: render_guarded_mounted [OF s(1,2)] on_world_def gs or_else.simps)
    moreover have "settle matches ?go = ?go"
      by (rule settle_mounted [where pg = P_AccountSecurity])
        (use s in \<open>simp_all add: view_def on_world_def at guard_def g that\<close>)
    ultimately have "settle matches ?s = ?go"
      using settle_render [OF law, of ?s] by simp
    then show ?thesis by (simp add: view_def on_world_def at)
  qed
  ultimately show ?thesis using s by simp
qed

definition sample_me :: "jsstring option \<Rightarrow> MeResponse" where
  "sample_me sc = \<lparr>user_id = 7, user_username = js ''ops'', user_mfa_enabled = False,
     user_role = None, user_last_login_at = None, user_created_at = None,
     me_mfa_required = None, me_must_bind_mfa = None, me_must_change_password = None, me_scope = sc\<rparr>"

lemma me_corrects_scope_witness:
  "let sn = (sample_session (sample_auth scope_full) home_path)\<lparr>sn_mounted := True\<rparr>
   in view (=) (settle (=) (me_arrived (sample_me (Some (js ''mfa''))) sn)) = E_Guarded P_AccountSecurity"
proof -
  let ?sn = "(sample_session (sample_auth scope_full) home_path)\<lparr>sn_mounted := True\<rparr>"
  have v: "view (=) ?sn = E_Guarded P_Dashboard"
    by (simp add: view_def sample_session_def element_at_paths [OF router_law_eq])
  have "stable (=) ?sn"
    by (rule stable_mounted [OF v])
      (simp_all add: sample_session_def sample_auth_def guard_def isLoggedIn_def)
  from me_corrects_scope [OF router_law_eq this v, of "sample_me (Some (js ''mfa''))"]
  show ?thesis by (simp add: sample_me_def me_scope_of_def scope_mfa_def Let_def)
qed

lemma settle_logout:
  assumes law: "router_law matches"
  shows "settle matches (logout_done sn) = (logout_done sn)\<lparr>sn_mounted := False\<rparr>"
    "sn_me (settle matches (logout_done sn)) = sn_me sn" "\<not> sn_mounted (settle matches (logout_done sn))"
proof -
  show e: "settle matches (logout_done sn) = (logout_done sn)\<lparr>sn_mounted := False\<rparr>"
    by (rule settle_unguarded)
      (simp add: logout_done_def on_world_def handleLogout_def view_def element_at_paths [OF law])
  show "sn_me (settle matches (logout_done sn)) = sn_me sn" "\<not> sn_mounted (settle matches (logout_done sn))"
    unfolding e by (simp_all add: logout_done_def on_world_def)
qed

lemma stale_login:
  assumes law: "router_law matches" and tok: "lo_token r \<noteq> []" and r: "login_scope r = scope_mfa"
    and stale: "sn_me sn = Some me" "me_scope_of me = scope_full" "\<not> sn_mounted sn"
    and p: "(p, E_Guarded pg) \<in> set routes"
  shows "view matches (settle matches (on_world (navigate p)
    (settle matches (login_done t (Resolved (LR_ok r)) lg sn)))) = E_Guarded pg"
proof -
  let ?l = "login_done t (Resolved (LR_ok r)) lg sn"
  note l = view_login_done [OF law tok, of t lg sn]
  let ?s = "?l\<lparr>sn_mounted := True, sn_world := (sn_world ?l)
        \<lparr>w_auth := scope_effect (sn_me ?l) (w_auth (sn_world ?l))\<rparr>\<rparr>"
  have auth: "guard (scope_effect (sn_me ?l) (w_auth (sn_world ?l))) q = None" for q
    using l stale tok by (simp add: scope_effect_def guard_def)
  have "settle matches ?l = ?s"
    by (rule settle_mounts [OF law, where pg = P_AccountSecurity])
      (use l stale tok r auth in \<open>simp_all add: guard_def\<close>)
  moreover have v: "view matches (on_world (navigate p) ?s) = E_Guarded pg"
    using element_at_route [OF law p] by (simp add: view_def on_world_def)
  moreover have "settle matches (on_world (navigate p) ?s) = on_world (navigate p) ?s"
    by (rule settle_mounted [OF v]) (simp_all add: on_world_def auth)
  ultimately show ?thesis by simp
qed

text \<open>C10: the cache of \<open>/auth/me\<close> outlives a logout, and the guard applies it to the next session:
  when the answer for a full session is cached, that session signs out, and a user who must bind MFA
  signs in, the new session gets the full scope, and with it every business page of the console.\<close>

theorem stale_me_lifts_restriction:
  assumes law: "router_law matches" and tok: "lo_token r \<noteq> []" and r: "login_scope r = scope_mfa"
    and cached: "sn_me sn = Some me" "me_scope_of me = scope_full"
    and p: "(p, E_Guarded pg) \<in> set routes"
  shows "let signed_out = settle matches (logout_done sn);
      signed_in = settle matches (login_done t (Resolved (LR_ok r)) lg signed_out)
    in view matches (settle matches (on_world (navigate p) signed_in)) = E_Guarded pg"
  unfolding Let_def
  by (rule stale_login [OF law tok r _ cached(2) _ p])
    (simp_all only: settle_logout(2,3) [OF law] cached(1) not_False_eq_True)

lemma stale_me_lifts_restriction_witness:
  "let sn = (sample_session (sample_auth scope_full) home_path)\<lparr>sn_me := Some (sample_me None)\<rparr>;
      signed_out = settle (=) (logout_done sn);
      signed_in = settle (=) (login_done (\<lambda>k a. k) (Resolved (LR_ok (sample_login True))) login_initial signed_out)
   in view (=) (settle (=) (on_world (navigate (js ''/settings/apikeys'')) signed_in)) = E_Guarded P_ApiKeys"
proof -
  let ?sn = "(sample_session (sample_auth scope_full) home_path)\<lparr>sn_me := Some (sample_me None)\<rparr>"
  have 1: "lo_token (sample_login True) \<noteq> []" "login_scope (sample_login True) = scope_mfa"
    "(js ''/settings/apikeys'', E_Guarded P_ApiKeys) \<in> set routes"
    by (simp_all add: sample_login_def login_scope_def flag_def routes_def guarded_routes_def)
  have 2: "sn_me ?sn = Some (sample_me None)" "me_scope_of (sample_me None) = scope_full"
    by (simp_all add: sample_session_def sample_me_def me_scope_of_def)
  show ?thesis
    using stale_me_lifts_restriction [OF router_law_eq 1(1,2) 2 1(3), of "\<lambda>k a. k" login_initial]
    unfolding Let_def .
qed

end
