(* ===== verification/AccessPolicy.thy ===== *)
theory AccessPolicy
  imports Session
begin

text \<open>
  What the guard of frontend/src/App.tsx promises, as a table: which page a kind of session gets
  when it asks for a page. The renders of Session are proved to implement the table, and to keep to it
  along every sequence of the events of a session.
\<close>

section \<open>The policy\<close>

datatype access = A_nobody | A_full | A_mfa | A_pw

definition access_of :: "AuthState \<Rightarrow> access" where
  "access_of s =
     (if \<not> isLoggedIn s then A_nobody
      else if as_scope s = scope_mfa then A_mfa
      else if as_scope s = scope_pw then A_pw else A_full)"

fun policy :: "access \<Rightarrow> element \<Rightarrow> element" where
  "policy A_nobody (E_Guarded pg) = E_Login"
| "policy A_full E_Login = E_Guarded P_Dashboard"
| "policy A_mfa (E_Guarded pg) = E_Guarded P_AccountSecurity"
| "policy A_mfa E_Login = E_Guarded P_AccountSecurity"
| "policy A_pw (E_Guarded pg) = E_ChangePassword"
| "policy A_pw E_Login = E_ChangePassword"
| "policy a e = e"

text \<open>The session as the policy sees it: whom it belongs to, and the page it is on.\<close>

definition session_auth :: "SessionState \<Rightarrow> AuthState" where
  "session_auth sn = w_auth (sn_world sn)"

section \<open>The guard implements the policy\<close>

lemma policy_unguarded:
  "e \<in> {E_ChangePassword, E_NotFound} \<Longrightarrow> policy a e = e"
  by (cases a) auto

lemma settle_guarded:
  assumes law: "router_law matches" and v: "view matches sn = E_Guarded pg"
    and m: "sn_me sn = None \<or> sn_mounted sn"
  shows "view matches (settle matches sn) = policy (access_of (session_auth sn)) (E_Guarded pg)"
    and "session_auth (settle matches sn) = session_auth sn"
proof -
  let ?w = "sn_world sn"
  let ?go = "\<lambda>p. sn\<lparr>sn_mounted := True, sn_world := ?w\<lparr>w_path := p\<rparr>\<rparr>"
  note at = element_at_paths [OF law]
  have auth: "scope_effect (sn_me sn) (w_auth ?w) = w_auth ?w \<or> sn_mounted sn"
    using m by (auto simp: scope_effect_def)
  have r: "render matches sn = ?go (or_else (guard (w_auth ?w) (w_path ?w)) (w_path ?w))"
    using v auth by (cases sn, cases ?w) (auto simp: render_def view_def Let_def)
  have s: "settle matches sn = settle matches (?go (or_else (guard (w_auth ?w) (w_path ?w)) (w_path ?w)))"
    using settle_render [OF law, of sn] r by simp
  have "view matches (settle matches sn) = policy (access_of (session_auth sn)) (E_Guarded pg)
    \<and> session_auth (settle matches sn) = session_auth sn"
  proof (cases "w_auth ?w" "w_path ?w" rule: guard_cases)
    case 1
    then have "settle matches sn = (?go login_path)\<lparr>sn_mounted := False\<rparr>"
      using s by (simp add: settle_unguarded view_def at)
    with 1 show ?thesis by (simp add: view_def at access_of_def session_auth_def)
  next
    case 2
    have same: "?w\<lparr>w_path := w_path ?w\<rparr> = ?w" by (rule w_path_same)
    have "settle matches (?go (w_path ?w)) = ?go (w_path ?w)"
      by (rule settle_mounted [of _ _ pg]) (use v 2 in \<open>simp_all add: view_def\<close>)
    then have "settle matches sn = ?go (w_path ?w)" using s 2 by simp
    moreover have "policy (access_of (w_auth ?w)) (E_Guarded pg) = E_Guarded pg"
    proof -
      have "as_scope (w_auth ?w) = scope_mfa \<longrightarrow> w_path ?w = account_security_path"
        "as_scope (w_auth ?w) = scope_pw \<longrightarrow> w_path ?w = change_password_path"
        using 2 by (simp_all add: guard_None_iff)
      then show ?thesis using v 2(1) at by (auto simp: access_of_def view_def)
    qed
    ultimately show ?thesis using v by (simp add: view_def session_auth_def)
  next
    case 3
    have "settle matches (?go account_security_path) = ?go account_security_path"
      by (rule settle_mounted [of _ _ P_AccountSecurity]) (use 3 in \<open>simp_all add: view_def at guard_def\<close>)
    then have "settle matches sn = ?go account_security_path" using s 3 by simp
    with 3 show ?thesis by (simp add: view_def at access_of_def session_auth_def)
  next
    case 4
    then have "settle matches sn = (?go change_password_path)\<lparr>sn_mounted := False\<rparr>"
      using s by (simp add: settle_unguarded view_def at)
    with 4 show ?thesis by (simp add: view_def at access_of_def session_auth_def)
  qed
  then show "view matches (settle matches sn) = policy (access_of (session_auth sn)) (E_Guarded pg)"
    "session_auth (settle matches sn) = session_auth sn" by simp_all
qed

lemma settle_login:
  assumes law: "router_law matches" and v: "view matches sn = E_Login" and m: "sn_me sn = None"
    and l: "isLoggedIn (session_auth sn)"
  shows "view matches (settle matches sn) = policy (access_of (session_auth sn)) E_Login"
    and "session_auth (settle matches sn) = session_auth sn"
proof -
  let ?r = "render matches sn"
  have r: "sn_me ?r = None" "session_auth ?r = session_auth sn" "view matches ?r = E_Guarded P_Dashboard"
    using v m l element_at_paths(3) [OF law]
    by (simp_all add: render_def view_def Let_def login_redirect_def session_auth_def)
  have "policy (access_of (session_auth sn)) (E_Guarded P_Dashboard) = policy (access_of (session_auth sn)) E_Login"
    using l by (simp add: access_of_def)
  then show "view matches (settle matches sn) = policy (access_of (session_auth sn)) E_Login"
    "session_auth (settle matches sn) = session_auth sn"
    using settle_guarded [OF law r(3)] r(1,2) settle_render [OF law, of sn] by simp_all
qed

section \<open>The events that grant nothing\<close>

text \<open>
  What can happen to a session other than a login, a finished enrolment and an answer of \<open>/auth/me\<close>:
  the user navigates, loads a page by its address, signs out or has changed the password; any other
  request is answered; the timer of the redirection fires; the cache forgets an answer. Each
  is followed by the renders it causes.
\<close>

inductive user_event :: "SessionState \<Rightarrow> SessionState \<Rightarrow> bool" where
  "user_event sn (on_world (navigate p) sn)"
| "user_event sn (page_load id p sn)"
| "user_event sn (logout_done sn)"
| "user_event sn (password_done t out sn)"
| "user_event sn (on_world (\<lambda>w. snd (on_fulfilled t r w)) sn)"
| "user_event sn (on_world (\<lambda>w. snd (on_rejected t e w)) sn)"
| "user_event sn (on_world redirect_timer sn)"
| "user_event sn (sn\<lparr>sn_me := None\<rparr>)"

inductive user_step :: "(jsstring \<Rightarrow> jsstring \<Rightarrow> bool) \<Rightarrow> SessionState \<Rightarrow> SessionState \<Rightarrow> bool" for matches where
  "user_event sn sn' \<Longrightarrow> user_step matches sn (settle matches sn')"

inductive_cases user_stepE: "user_step matches sn sn'"

text \<open>The session has the scope \<open>sc\<close>, and so has the answer of \<open>/auth/me\<close> in the cache; or it is over.\<close>

definition held :: "AuthScope \<Rightarrow> SessionState \<Rightarrow> bool" where
  "held sc sn \<longleftrightarrow> \<not> isLoggedIn (session_auth sn)
     \<or> as_scope (session_auth sn) = sc \<and> (\<forall>me. sn_me sn = Some me \<longrightarrow> me_scope_of me = sc)"

lemma held_render: "held sc sn \<Longrightarrow> held sc (render matches sn)"
  by (auto simp: held_def session_auth_def render_def Let_def scope_effect_def split: element.split option.split)

lemma held_settle: "held sc sn \<Longrightarrow> held sc (settle matches sn)"
proof -
  have "held sc sn \<Longrightarrow> held sc ((render matches ^^ n) sn)" for n
    by (induction n) (simp_all add: held_render)
  then show "held sc sn \<Longrightarrow> held sc (settle matches sn)" by (simp add: settle_def)
qed

lemma rejected_auth: "w_auth (snd (on_rejected t e w)) \<in> {w_auth w, initial_auth}"
  by (auto simp: on_rejected_def redirectToLogin_def toast_def Let_def)

lemma held_event: "user_event sn sn' \<Longrightarrow> held sc sn \<Longrightarrow> held sc sn'"
proof (induction rule: user_event.induct)
  case (6 sn t e)
  then show ?case
    using rejected_auth [of t e "sn_world sn"] by (auto simp: held_def session_auth_def on_world_def)
qed (auto simp: held_def session_auth_def on_world_def on_fulfilled_auth page_load_def logout_done_def
    handleLogout_def password_done_def changePwd_settled_def navigate_def redirect_timer_def toast_def
    split: outcome.split)

text \<open>
  The life of a session restricted to \<open>sc\<close>, as long as the server keeps the restriction: the events
  that grant nothing, and answers of \<open>/auth/me\<close> that name the same scope.
\<close>

inductive restricted_step ::
    "(jsstring \<Rightarrow> jsstring \<Rightarrow> bool) \<Rightarrow> AuthScope \<Rightarrow> SessionState \<Rightarrow> SessionState \<Rightarrow> bool" for matches sc where
  "user_step matches sn sn' \<Longrightarrow> restricted_step matches sc sn sn'"
| "me_scope_of me = sc \<Longrightarrow> restricted_step matches sc sn (settle matches (me_arrived me sn))"

lemma held_me: "held sc sn \<Longrightarrow> me_scope_of me = sc \<Longrightarrow> held sc (me_arrived me sn)"
  by (auto simp: held_def session_auth_def me_arrived_def scope_effect_def setScope_def isLoggedIn_def)

lemma held_run: "(restricted_step matches sc)\<^sup>*\<^sup>* sn sn' \<Longrightarrow> held sc sn \<Longrightarrow> held sc sn'"
  by (induction rule: rtranclp_induct)
    (auto elim!: restricted_step.cases user_stepE intro: held_settle held_event held_me)

lemma run_stable:
  "(restricted_step matches sc)\<^sup>*\<^sup>* sn sn' \<Longrightarrow> router_law matches \<Longrightarrow> stable matches sn \<Longrightarrow> stable matches sn'"
  by (induction rule: rtranclp_induct) (auto elim!: restricted_step.cases user_stepE intro: settle_stable)

section \<open>All events\<close>

text \<open>The whole life of a session, from the first load of the console on.\<close>

inductive session_step :: "(jsstring \<Rightarrow> jsstring \<Rightarrow> bool) \<Rightarrow> SessionState \<Rightarrow> SessionState \<Rightarrow> bool" for matches where
  "user_event sn sn' \<Longrightarrow> session_step matches sn (settle matches sn')"
| "session_step matches sn (settle matches (login_done t out lg sn))"
| "session_step matches sn (settle matches (mfa_enabled out' a sn))"
| "session_step matches sn (settle matches (me_arrived me sn))"

definition console_start :: "jsstring \<Rightarrow> SessionState" where
  "console_start p =
     \<lparr>sn_world = \<lparr>w_auth = initial_auth, w_path = p, w_redirecting = False, w_toasts = []\<rparr>,
      sn_me = None, sn_mounted = False\<rparr>"

text \<open>Token and user are stored together, and a stored token is never the empty text.\<close>

definition auth_ok :: "AuthState \<Rightarrow> bool" where
  "auth_ok s \<longleftrightarrow> (as_token s = None \<longleftrightarrow> as_user s = None) \<and> as_token s \<noteq> Some []"

lemma auth_ok_simps [simp]:
  "auth_ok initial_auth" "auth_ok (setScope sc s) = auth_ok s" "auth_ok (setAuth tok u sco s) \<longleftrightarrow> tok \<noteq> []"
  by (auto simp: auth_ok_def initial_auth_def setScope_def setAuth_def)

lemma auth_ok_render: "auth_ok (session_auth sn) \<Longrightarrow> auth_ok (session_auth (render matches sn))"
  by (auto simp: session_auth_def render_def Let_def scope_effect_def split: element.split option.split)

lemma auth_ok_settle: "auth_ok (session_auth sn) \<Longrightarrow> auth_ok (session_auth (settle matches sn))"
proof -
  have "auth_ok (session_auth sn) \<Longrightarrow> auth_ok (session_auth ((render matches ^^ n) sn))" for n
    by (induction n) (simp_all add: auth_ok_render)
  then show "auth_ok (session_auth sn) \<Longrightarrow> auth_ok (session_auth (settle matches sn))" by (simp add: settle_def)
qed

lemma auth_ok_event: "user_event sn sn' \<Longrightarrow> auth_ok (session_auth sn) \<Longrightarrow> auth_ok (session_auth sn')"
proof (induction rule: user_event.induct)
  case (6 sn t e)
  then show ?case
    using rejected_auth [of t e "sn_world sn"] by (auto simp: session_auth_def on_world_def)
qed (auto simp: session_auth_def on_world_def on_fulfilled_auth page_load_def logout_done_def
    handleLogout_def password_done_def changePwd_settled_def navigate_def redirect_timer_def toast_def
    split: outcome.split)

lemma auth_ok_login: "auth_ok (session_auth sn) \<Longrightarrow> auth_ok (session_auth (login_done t out lg sn))"
  by (auto simp: session_auth_def login_done_def on_world_def doLogin_settled_def login_failed_def Let_def
      login_ok_auth toast_def split: outcome.split LoginResult.split)

lemma auth_ok_enable: "auth_ok (session_auth sn) \<Longrightarrow> auth_ok (session_auth (mfa_enabled out a sn))"
  by (auto simp: session_auth_def mfa_enabled_def on_world_def enable_settled_def split: outcome.split option.split)

lemma auth_ok_me: "auth_ok (session_auth sn) \<Longrightarrow> auth_ok (session_auth (me_arrived me sn))"
  by (simp add: session_auth_def me_arrived_def scope_effect_def)

lemma session_run_ok:
  assumes "(session_step matches)\<^sup>*\<^sup>* (settle matches (console_start p)) sn" "router_law matches"
  shows "stable matches sn \<and> auth_ok (session_auth sn)"
  using assms(1)
proof (induction rule: rtranclp_induct)
  case base
  have "auth_ok (session_auth (console_start p))" by (simp add: session_auth_def console_start_def)
  then show ?case using settle_stable [OF assms(2)] auth_ok_settle by blast
next
  case (step sn sn')
  from step(2,3) show ?case
    by (induction rule: session_step.induct)
      (simp_all add: settle_stable [OF assms(2)] auth_ok_settle auth_ok_event auth_ok_login auth_ok_enable auth_ok_me)
qed

lemma stable_policy:
  assumes law: "router_law matches" and st: "stable matches sn"
  shows "policy (access_of (session_auth sn)) (view matches sn) = view matches sn"
proof (cases "view matches sn")
  case E_Login
  with stable_not_login [OF st E_Login law] show ?thesis by (simp add: access_of_def session_auth_def)
next
  case (E_Guarded pg)
  then have "sn_mounted sn" using render_guarded_mounts [OF E_Guarded] st by (simp add: stable_def)
  then show ?thesis using settle_guarded(1) [OF law E_Guarded] stable_settle [OF st] E_Guarded by simp
qed (simp_all add: policy_unguarded)

section \<open>Properties\<close>

text \<open>C2: The guard implements the policy: with nothing in the cache of \<open>/auth/me\<close>, or on a guarded page
  that is already shown, the renders come to rest on the page the policy names for the session and
  the page asked for, and they leave the session as it is.\<close>

theorem guard_refines_policy:
  assumes law: "router_law matches"
    and m: "sn_me sn = None \<or> (\<exists>pg. view matches sn = E_Guarded pg) \<and> sn_mounted sn"
  shows "view matches (settle matches sn) = policy (access_of (session_auth sn)) (view matches sn)
    \<and> session_auth (settle matches sn) = session_auth sn"
proof (cases "view matches sn")
  case (E_Guarded pg)
  then show ?thesis using settle_guarded [OF law E_Guarded] m by auto
next
  case E_Login
  then show ?thesis
  proof (cases "isLoggedIn (session_auth sn)")
    case True
    with settle_login [OF law E_Login] E_Login m show ?thesis by simp
  next
    case False
    then have "settle matches sn = sn\<lparr>sn_mounted := False\<rparr>"
      using E_Login by (intro settle_unguarded) (simp add: session_auth_def)
    with False E_Login show ?thesis by (simp add: view_def session_auth_def access_of_def)
  qed
next
  case E_ChangePassword
  then have "settle matches sn = sn\<lparr>sn_mounted := False\<rparr>" by (intro settle_unguarded) simp
  with E_ChangePassword show ?thesis by (simp add: policy_unguarded view_def session_auth_def)
next
  case E_NotFound
  then have "settle matches sn = sn\<lparr>sn_mounted := False\<rparr>" by (intro settle_unguarded) simp
  with E_NotFound show ?thesis by (simp add: policy_unguarded view_def session_auth_def)
qed

lemma guard_refines_policy_witness:
  "view (=) (settle (=) (sample_session (sample_auth scope_pw) home_path)) = E_ChangePassword"
proof -
  let ?sn = "sample_session (sample_auth scope_pw) home_path"
  have "sn_me ?sn = None" "view (=) ?sn = E_Guarded P_Dashboard" "access_of (session_auth ?sn) = A_pw"
    by (simp_all add: sample_session_def sample_auth_def view_def session_auth_def access_of_def
        isLoggedIn_def element_at_paths [OF router_law_eq])
  then show ?thesis using guard_refines_policy [OF router_law_eq, of ?sn] by simp
qed

text \<open>C4: Nothing but the server lifts a restriction: take a session that must bind MFA, or change its
  password, whose cached answer of \<open>/auth/me\<close>, if there is one, says so too (C10 is what happens
  otherwise). Whatever pages are opened or loaded anew and whatever requests are answered, \<open>/auth/me\<close>
  with the same restriction among them, in any order and number, the session stays restricted or ends;
  while it lasts no page that needs a login is shown but the account page to a session that must bind
  MFA, and otherwise only the page that changes the password, which needs no guard, or the one for
  unknown addresses.\<close>

theorem restriction_survives:
  assumes law: "router_law matches" and st: "stable matches sn" and sc: "sc \<in> {scope_mfa, scope_pw}"
    and "as_scope (session_auth sn) = sc" "\<forall>me. sn_me sn = Some me \<longrightarrow> me_scope_of me = sc"
    and run: "(restricted_step matches sc)\<^sup>*\<^sup>* sn sn'"
  shows "if isLoggedIn (session_auth sn')
    then as_scope (session_auth sn') = sc
      \<and> view matches sn' \<in> {E_ChangePassword, E_NotFound}
          \<union> (if sc = scope_mfa then {E_Guarded P_AccountSecurity} else {})
    else view matches sn' \<in> {E_Login, E_ChangePassword, E_NotFound}"
proof -
  have h: "held sc sn'" using assms(4,5) by (intro held_run [OF run]) (simp add: held_def)
  have "policy (access_of (session_auth sn')) (view matches sn') = view matches sn'"
    by (rule stable_policy [OF law run_stable [OF run law st]])
  with h sc show ?thesis
    by (cases "view matches sn'") (auto simp: held_def access_of_def split: if_splits)
qed

lemma restriction_survives_witness:
  "let sn = settle (=) (sample_session (sample_auth scope_mfa) account_security_path);
       sn1 = settle (=) (me_arrived (sample_me (Some (js ''mfa''))) sn);
       sn' = settle (=) (page_load id home_path (settle (=) (on_world (navigate (js ''/models'')) sn1)))
   in isLoggedIn (session_auth sn') \<longrightarrow> as_scope (session_auth sn') = scope_mfa"
proof -
  let ?s = "sample_session (sample_auth scope_mfa) account_security_path" and ?me = "sample_me (Some (js ''mfa''))"
  let ?sn = "settle (=) ?s"
  let ?sn1 = "settle (=) (me_arrived ?me ?sn)"
  have me: "sn_me ?s = None" by (simp add: sample_session_def)
  have "session_auth ?sn = session_auth ?s" using guard_refines_policy [OF router_law_eq] me by blast
  then have 1: "as_scope (session_auth ?sn) = scope_mfa"
    by (simp add: session_auth_def sample_session_def sample_auth_def)
  have "sn_me ((render (=) ^^ n) ?s) = None" for n
    by (induction n) (simp_all add: me render_no_me)
  then have 2: "\<forall>m. sn_me ?sn = Some m \<longrightarrow> me_scope_of m = scope_mfa" by (simp add: settle_def)
  let ?n = "settle (=) (on_world (navigate (js ''/models'')) ?sn1)"
  have "restricted_step (=) scope_mfa ?sn ?sn1"
    by (rule restricted_step.intros(2)) (simp add: sample_me_def me_scope_of_def scope_mfa_def)
  moreover have "restricted_step (=) scope_mfa ?sn1 ?n"
    by (intro restricted_step.intros(1) user_step.intros user_event.intros)
  moreover have "restricted_step (=) scope_mfa ?n (settle (=) (page_load id home_path ?n))"
    by (intro restricted_step.intros(1) user_step.intros user_event.intros)
  ultimately have 3: "(restricted_step (=) scope_mfa)\<^sup>*\<^sup>* ?sn (settle (=) (page_load id home_path ?n))"
    by (meson converse_rtranclp_into_rtranclp rtranclp.rtrancl_refl)
  show ?thesis
    using restriction_survives [OF router_law_eq settle_stable [OF router_law_eq] _ 1 2 3]
    unfolding Let_def by (simp split: if_splits)
qed

text \<open>C5: Whatever happens from the first load of the console on, in any order and number: the page has come
  to rest, it is one the policy grants to the session, the store holds a token exactly when it holds a
  user, and never an empty token.\<close>

theorem session_invariant:
  assumes "router_law matches" "(session_step matches)\<^sup>*\<^sup>* (settle matches (console_start p)) sn"
  shows "stable matches sn
    \<and> policy (access_of (session_auth sn)) (view matches sn) = view matches sn
    \<and> (as_token (session_auth sn) = None \<longleftrightarrow> as_user (session_auth sn) = None)
    \<and> (isLoggedIn (session_auth sn) \<longleftrightarrow> as_user (session_auth sn) \<noteq> None)"
proof -
  have "stable matches sn" "auth_ok (session_auth sn)"
    using session_run_ok [OF assms(2,1)] by simp_all
  with stable_policy [OF assms(1)] show ?thesis
    by (auto simp: auth_ok_def isLoggedIn_def split: option.splits)
qed

lemma session_invariant_witness:
  "let sn = settle (=) (logout_done (settle (=) (console_start home_path)))
   in policy (access_of (session_auth sn)) (view (=) sn) = view (=) sn"
proof -
  have "(session_step (=))\<^sup>*\<^sup>* (settle (=) (console_start home_path))
      (settle (=) (logout_done (settle (=) (console_start home_path))))"
    by (intro r_into_rtranclp session_step.intros(1) user_event.intros)
  from session_invariant [OF router_law_eq this] show ?thesis by (simp add: Let_def)
qed

text \<open>A request refused with a 401, and the message any other failure shows.\<close>

definition refused :: "axios_error \<Rightarrow> bool" where
  "refused e \<longleftrightarrow> map_option fst (ae_response e) = Some 401"

definition error_text :: "translate \<Rightarrow> axios_error \<Rightarrow> jsstring" where
  "error_text t e = str_or (case ae_response e of None \<Rightarrow> [] | Some (_, b) \<Rightarrow> body_message b)
     (str_or (ae_message e) (t (js ''common.networkError'') []))"

definition shows_all :: "toast list \<Rightarrow> World \<Rightarrow> World" where
  "shows_all ms w = w\<lparr>w_toasts := w_toasts w @ ms\<rparr>"

lemma rejected_effect:
  "snd (on_rejected t e w) = (if refused e then redirectToLogin w else shows_all [T_error (error_text t e)] w)"
  by (simp add: on_rejected_def refused_def error_text_def toast_def shows_all_def str_or_def Let_def)

lemma redirect_shows: "redirectToLogin (shows_all ms w) = shows_all ms (redirectToLogin w)"
  by (cases w) (simp add: redirectToLogin_def shows_all_def)

lemma redirect_twice: "redirectToLogin (redirectToLogin w) = redirectToLogin w"
  by (simp add: redirectToLogin_def)

lemma shows_all_simps: "shows_all [] w = w" "shows_all ms (shows_all ns w) = shows_all (ns @ ms) w"
  by (cases w; simp add: shows_all_def)+

lemma rejections_fold:
  "fold (\<lambda>e w. snd (on_rejected t e w)) es w =
     shows_all (map (T_error \<circ> error_text t) (filter (\<lambda>e. \<not> refused e) es))
       (if \<exists>e \<in> set es. refused e then redirectToLogin w else w)"
  by (induction es arbitrary: w)
    (auto simp: rejected_effect redirect_shows redirect_twice shows_all_simps)

text \<open>C8: Whatever requests fail together, and in whatever order: as soon as one of them is refused with a 401 the
  store is cleared and the login page is next, once; every failure of another kind has shown its own
  message, in the order of the failures, and a 401 has shown none.\<close>

theorem rejections_end_session:
  assumes "\<exists>e \<in> set es. refused e" "\<not> w_redirecting w"
  shows "let w' = fold (\<lambda>e w. snd (on_rejected t e w)) es w
    in w_auth w' = initial_auth \<and> w_path w' = login_path \<and> w_redirecting w'
     \<and> w_toasts w' = w_toasts w @ map (T_error \<circ> error_text t) (filter (\<lambda>e. \<not> refused e) es)"
  using assms by (simp add: rejections_fold shows_all_def redirectToLogin_def)

lemma rejections_end_session_witness:
  "w_auth (fold (\<lambda>e w. snd (on_rejected (\<lambda>k a. k) e w))
     [\<lparr>ae_message = js ''timeout'', ae_response = None\<rparr>, \<lparr>ae_message = [], ae_response = Some (401, None)\<rparr>]
     (sn_world (sample_session (sample_auth scope_full) home_path))) = initial_auth"
proof -
  let ?es = "[\<lparr>ae_message = js ''timeout'', ae_response = None\<rparr>, \<lparr>ae_message = [], ae_response = Some (401, None)\<rparr>]"
  have "\<exists>e \<in> set ?es. refused e"
    "\<not> w_redirecting (sn_world (sample_session (sample_auth scope_full) home_path))"
    by (simp_all add: sample_session_def refused_def)
  from rejections_end_session [OF this, of "\<lambda>k a. k"] show ?thesis by (simp only: Let_def)
qed

end
