(* ===== verification/Uri.thy ===== *)
theory Uri
  imports JsNumber
begin

text \<open>
  \<open>encodeURIComponent\<close> and \<open>decodeURIComponent\<close> of the language, which the console uses for
  the request id in a path (frontend/src/api/endpoints.ts) and for the file name of a download
  (frontend/src/api/client.ts). A \<open>URIError\<close> is \<open>None\<close>. Octets and code points are \<open>int\<close>.
\<close>

section \<open>Code points of a string\<close>

fun code_points :: "jsstring \<Rightarrow> int list option" where
  "code_points [] = Some []"
| "code_points (u # us) =
     (let c = uint u in
      if 0xDC00 \<le> c \<and> c \<le> 0xDFFF then None
      else if c < 0xD800 \<or> 0xDBFF < c then map_option ((#) c) (code_points us)
      else case us of
        [] \<Rightarrow> None
      | v # vs \<Rightarrow>
          (let d = uint v in
           if 0xDC00 \<le> d \<and> d \<le> 0xDFFF
           then map_option ((#) ((c - 0xD800) * 0x400 + (d - 0xDC00) + 0x10000)) (code_points vs)
           else None))"

definition utf16 :: "int \<Rightarrow> jsstring" where
  "utf16 c =
     (if c < 0x10000 then [of_int c]
      else [of_int ((c - 0x10000) div 0x400 + 0xD800), of_int ((c - 0x10000) mod 0x400 + 0xDC00)])"

definition code_point :: "int \<Rightarrow> bool" where
  "code_point c \<longleftrightarrow> 0 \<le> c \<and> c \<le> 0x10FFFF \<and> \<not> (0xD800 \<le> c \<and> c \<le> 0xDFFF)"

definition utf8 :: "int \<Rightarrow> int list" where
  "utf8 c =
     (if c < 0x80 then [c]
      else if c < 0x800 then [0xC0 + c div 0x40, 0x80 + c mod 0x40]
      else if c < 0x10000 then [0xE0 + c div 0x1000, 0x80 + c div 0x40 mod 0x40, 0x80 + c mod 0x40]
      else [0xF0 + c div 0x40000, 0x80 + c div 0x1000 mod 0x40, 0x80 + c div 0x40 mod 0x40, 0x80 + c mod 0x40])"

section \<open>Encoding\<close>

text \<open>Letters, digits and \<open>- _ . ! ~ * ' ( )\<close> stand for themselves.\<close>

definition unescaped :: "int \<Rightarrow> bool" where
  "unescaped c \<longleftrightarrow> 48 \<le> c \<and> c \<le> 57 \<or> 65 \<le> c \<and> c \<le> 90 \<or> 97 \<le> c \<and> c \<le> 122
     \<or> c \<in> set [45, 95, 46, 33, 126, 42, 39, 40, 41]"

definition hex_unit :: "int \<Rightarrow> cu" where
  "hex_unit d = (if d < 10 then of_int (48 + d) else of_int (55 + d))"

definition percent :: "int \<Rightarrow> jsstring" where
  "percent b = [37, hex_unit (b div 16), hex_unit (b mod 16)]"

definition encode_point :: "int \<Rightarrow> jsstring" where
  "encode_point c = (if unescaped c then [of_int c] else concat (map percent (utf8 c)))"

definition encodeURIComponent :: "jsstring \<Rightarrow> jsstring option" where
  "encodeURIComponent s = map_option (\<lambda>cs. concat (map encode_point cs)) (code_points s)"

section \<open>Decoding\<close>

text \<open>\<open>%XY\<close> at the head of a string: the octet and the rest.\<close>

fun percent_octet :: "jsstring \<Rightarrow> (int \<times> jsstring) option" where
  "percent_octet (p # h # l # s) =
     (if p = 37
      then (case (radix_digit 16 h, radix_digit 16 l) of
              (Some a, Some b) \<Rightarrow> Some (16 * a + b, s)
            | _ \<Rightarrow> None)
      else None)"
| "percent_octet _ = None"

text \<open>The continuation octets of a code point whose leading octet has been read.\<close>

fun continuation :: "nat \<Rightarrow> int \<Rightarrow> jsstring \<Rightarrow> (int \<times> jsstring) option" where
  "continuation 0 acc s = Some (acc, s)"
| "continuation (Suc n) acc s =
     (case percent_octet s of
        Some (b, s') \<Rightarrow> if 0x80 \<le> b \<and> b \<le> 0xBF then continuation n (acc * 0x40 + (b - 0x80)) s' else None
      | None \<Rightarrow> None)"

text \<open>
  One escaped code point. An octet sequence that is not the UTF-8 form of one (too long for its
  code point, a surrogate, out of range) is an error.
\<close>

definition decode_multi :: "nat \<Rightarrow> int \<Rightarrow> jsstring \<Rightarrow> (jsstring \<times> jsstring) option" where
  "decode_multi n lead s =
     (case continuation (n - 1) lead s of
        Some (c, s') \<Rightarrow> if code_point c \<and> length (utf8 c) = n then Some (utf16 c, s') else None
      | None \<Rightarrow> None)"

definition decode_escape :: "jsstring \<Rightarrow> (jsstring \<times> jsstring) option" where
  "decode_escape s =
     (case percent_octet s of
        None \<Rightarrow> None
      | Some (b, s') \<Rightarrow>
          if b < 0x80 then Some ([of_int b], s')
          else if b < 0xC0 then None
          else if b < 0xE0 then decode_multi 2 (b - 0xC0) s'
          else if b < 0xF0 then decode_multi 3 (b - 0xE0) s'
          else if b < 0xF8 then decode_multi 4 (b - 0xF0) s'
          else None)"

lemma percent_octet_shorter: "percent_octet s = Some (b, s') \<Longrightarrow> length s' < length s"
  by (induction s rule: percent_octet.induct) (auto split: if_splits option.splits)

lemma continuation_shorter: "continuation n c s = Some (d, s') \<Longrightarrow> length s' \<le> length s"
proof (induction n c s rule: continuation.induct)
  case (2 n acc s)
  then obtain b r where r: "percent_octet s = Some (b, r)"
    and c: "0x80 \<le> b \<and> b \<le> 0xBF" "continuation n (acc * 0x40 + (b - 0x80)) r = Some (d, s')"
    by (auto split: option.splits if_splits)
  from 2(1) [OF r refl c] percent_octet_shorter [OF r] show ?case by simp
qed simp

lemma decode_escape_shorter: "decode_escape s = Some (w, s') \<Longrightarrow> length s' < length s"
  by (auto simp: decode_escape_def decode_multi_def split: option.splits if_splits
      dest!: percent_octet_shorter continuation_shorter)

function decodeURIComponent :: "jsstring \<Rightarrow> jsstring option" where
  "decodeURIComponent [] = Some []"
| "decodeURIComponent (u # us) =
     (if u \<noteq> 37 then map_option ((#) u) (decodeURIComponent us)
      else case decode_escape (u # us) of
        None \<Rightarrow> None
      | Some (w, s') \<Rightarrow> map_option ((@) w) (decodeURIComponent s'))"
  by pat_completeness auto
termination
  by (relation "measure length") (auto dest: decode_escape_shorter)

section \<open>Decoding undoes encoding\<close>

lemma hex_digits:
  "0 \<le> d \<Longrightarrow> d < 16 \<Longrightarrow> d \<in> {0,1,2,3,4,5,6,7,8,9,10,11,12,13,14,15 :: int}"
proof -
  assume "0 \<le> d" "d < 16"
  then have "d \<in> set [0..15]" by simp
  then show ?thesis by (simp add: upto.simps)
qed

lemma hex_unit_digit: "0 \<le> d \<Longrightarrow> d < 16 \<Longrightarrow> radix_digit 16 (hex_unit d) = Some d"
proof -
  assume "0 \<le> d" "d < 16"
  then have "d \<in> {0,1,2,3,4,5,6,7,8,9,10,11,12,13,14,15}" by (rule hex_digits)
  then show ?thesis by (elim insertE) (simp_all add: hex_unit_def radix_digit_def)
qed

lemma percent_octet_percent:
  "0 \<le> b \<Longrightarrow> b < 256 \<Longrightarrow> percent_octet (percent b @ s) = Some (b, s)"
  by (simp add: percent_def hex_unit_digit)

lemma uint_cu: "0 \<le> uint (u :: cu) \<and> uint u < 65536"
  using uint_lt2p [of u] by simp

lemma of_int_uint_cu: "of_int (uint (u :: cu)) = u"
  by simp

lemma code_points_cases:
  assumes "code_points (u # us) = Some cs"
  obtains cs' where "uint u < 0xD800 \<or> 0xDFFF < uint u" "code_points us = Some cs'" "cs = uint u # cs'"
    | v vs cs' where "us = v # vs" "0xD800 \<le> uint u" "uint u \<le> 0xDBFF" "0xDC00 \<le> uint v" "uint v \<le> 0xDFFF"
        "code_points vs = Some cs'" "cs = ((uint u - 0xD800) * 0x400 + (uint v - 0xDC00) + 0x10000) # cs'"
proof (cases "uint u < 0xD800 \<or> 0xDBFF < uint u")
  case True
  with assms that(1) show ?thesis by (auto simp: Let_def split: if_splits)
next
  case False
  with assms obtain v vs where us: "us = v # vs" by (auto simp: Let_def split: if_splits list.splits)
  with assms False that(2) show ?thesis by (auto simp: Let_def split: if_splits)
qed

lemma div_mod_block:
  fixes q r n :: int
  assumes "0 \<le> r" "r < n"
  shows "(q * n + r) div n = q" "(q * n + r) mod n = r"
  using assms by simp_all

lemma surrogate_pair:
  assumes "0xD800 \<le> c" "c \<le> 0xDBFF" "0xDC00 \<le> d" "d \<le> (0xDFFF :: int)"
  defines "p \<equiv> (c - 0xD800) * 0x400 + (d - 0xDC00)"
  shows "p div 0x400 + 0xD800 = c" "p mod 0x400 + 0xDC00 = d" "0 \<le> p" "p \<le> 0xFFFFF"
proof -
  have d: "0 \<le> d - 0xDC00" "d - 0xDC00 < 0x400" using assms(3,4) by simp_all
  show "p div 0x400 + 0xD800 = c" "p mod 0x400 + 0xDC00 = d"
    unfolding p_def div_mod_block [OF d] by simp_all
  show "0 \<le> p" "p \<le> 0xFFFFF"
    unfolding p_def using assms(1-4) by simp_all
qed

lemma utf16_pair:
  assumes "0xD800 \<le> uint u" "uint u \<le> 0xDBFF" "0xDC00 \<le> uint v" "uint v \<le> 0xDFFF"
  shows "utf16 ((uint u - 0xD800) * 0x400 + (uint v - 0xDC00) + 0x10000) = [u, v]"
  using surrogate_pair [OF assms] by (simp add: utf16_def)

lemma utf16_single: "utf16 (uint u) = [u]"
  using uint_cu [of u] by (simp add: utf16_def)

lemma code_points_decode:
  "code_points s = Some cs \<Longrightarrow> concat (map utf16 cs) = s \<and> list_all code_point cs"
proof (induction "length s" arbitrary: s cs rule: less_induct)
  case less
  show ?case
  proof (cases s)
    case Nil
    with less show ?thesis by simp
  next
    case (Cons u us)
    from less(2) [unfolded Cons] show ?thesis
    proof (cases rule: code_points_cases)
      case (1 cs')
      with less(1) [of us cs'] uint_cu [of u] show ?thesis
        by (auto simp: Cons utf16_single code_point_def)
    next
      case (2 v vs cs')
      with less(1) [of vs cs'] utf16_pair [of u v] surrogate_pair [of "uint u" "uint v"] show ?thesis
        by (auto simp: Cons code_point_def)
    qed
  qed
qed

lemma continuation_percents:
  "length bs = n \<Longrightarrow> list_all (\<lambda>b. 0x80 \<le> b \<and> b \<le> 0xBF) bs \<Longrightarrow>
     continuation n acc (concat (map percent bs) @ s) = Some (foldl (\<lambda>a b. a * 0x40 + (b - 0x80)) acc bs, s)"
  by (induction bs arbitrary: n acc) (auto simp: percent_octet_percent)

lemma mod_0x40: "0 \<le> x mod (0x40 :: int)" "x mod (0x40 :: int) \<le> 0x3F"
  by presburger+

lemma div_recompose:
  fixes c :: int
  shows "c div 0x40 * 0x40 + c mod 0x40 = c"
    "(c div 0x1000 * 0x40 + c div 0x40 mod 0x40) * 0x40 + c mod 0x40 = c"
    "((c div 0x40000 * 0x40 + c div 0x1000 mod 0x40) * 0x40 + c div 0x40 mod 0x40) * 0x40 + c mod 0x40 = c"
proof -
  have s: "c div (n * 0x40) * 0x40 + c div n mod 0x40 = c div n" for n
    by (simp add: zdiv_zmult2_eq)
  show "c div 0x40 * 0x40 + c mod 0x40 = c" by simp
  show "(c div 0x1000 * 0x40 + c div 0x40 mod 0x40) * 0x40 + c mod 0x40 = c"
    using s [of "0x40"] by simp
  show "((c div 0x40000 * 0x40 + c div 0x1000 mod 0x40) * 0x40 + c div 0x40 mod 0x40) * 0x40 + c mod 0x40 = c"
    using s [of "0x40"] s [of "0x1000"] by simp
qed

lemma octet_mod_0x40: "0x80 \<le> 0x80 + x mod (0x40 :: int) \<and> 0x80 + x mod (0x40 :: int) \<le> 0xBF"
  using mod_0x40 [of x] by simp

lemma utf8_length:
  "0x80 \<le> c \<Longrightarrow> c < 0x800 \<Longrightarrow> length (utf8 c) = 2"
  "0x800 \<le> c \<Longrightarrow> c < 0x10000 \<Longrightarrow> length (utf8 c) = 3"
  "0x10000 \<le> c \<Longrightarrow> length (utf8 c) = 4"
  by (simp_all add: utf8_def)

lemma decode_multi_utf8:
  assumes "code_point c" "length (utf8 c) = n" "length bs = n - 1" "list_all (\<lambda>b. 0x80 \<le> b \<and> b \<le> 0xBF) bs"
    and "foldl (\<lambda>a b. a * 0x40 + (b - 0x80)) lead bs = c"
  shows "decode_multi n lead (concat (map percent bs) @ s) = Some (utf16 c, s)"
  using assms by (simp add: decode_multi_def continuation_percents)

lemma decode_escape_utf8:
  assumes "code_point c"
  shows "decode_escape (concat (map percent (utf8 c)) @ s) = Some (utf16 c, s)"
proof -
  have c: "0 \<le> c" "c \<le> 0x10FFFF" using assms by (simp_all add: code_point_def)
  consider "c < 0x80" | "0x80 \<le> c" "c < 0x800" | "0x800 \<le> c" "c < 0x10000" | "0x10000 \<le> c"
    by linarith
  then show ?thesis
  proof cases
    case 1
    then show ?thesis
      using c by (simp add: utf8_def decode_escape_def percent_octet_percent utf16_def)
  next
    case 2
    then have b: "2 \<le> c div 0x40" "c div 0x40 < 0x20" by simp_all
    have "decode_multi 2 (c div 0x40) (concat (map percent [0x80 + c mod 0x40]) @ s) = Some (utf16 c, s)"
      by (rule decode_multi_utf8 [OF assms utf8_length(1)])
        (use 2 in \<open>simp_all only: list.pred_inject octet_mod_0x40 foldl_Cons foldl_Nil add_diff_cancel_left' div_recompose
           list.size simp_thms\<close>, simp?)
    with 2 b show ?thesis
      by (simp add: utf8_def decode_escape_def percent_octet_percent)
  next
    case 3
    then have b: "0 \<le> c div 0x1000" "c div 0x1000 < 0x10" by simp_all
    have "decode_multi 3 (c div 0x1000)
        (concat (map percent [0x80 + c div 0x40 mod 0x40, 0x80 + c mod 0x40]) @ s) = Some (utf16 c, s)"
      by (rule decode_multi_utf8 [OF assms utf8_length(2)])
        (use 3 in \<open>simp_all only: list.pred_inject octet_mod_0x40 foldl_Cons foldl_Nil add_diff_cancel_left' div_recompose
           list.size simp_thms\<close>, simp?)
    with 3 b show ?thesis
      by (simp add: utf8_def decode_escape_def percent_octet_percent)
  next
    case 4
    then have b: "0 \<le> c div 0x40000" "c div 0x40000 < 0x08" using c by simp_all
    have "decode_multi 4 (c div 0x40000)
        (concat (map percent [0x80 + c div 0x1000 mod 0x40, 0x80 + c div 0x40 mod 0x40, 0x80 + c mod 0x40]) @ s)
        = Some (utf16 c, s)"
      by (rule decode_multi_utf8 [OF assms utf8_length(3)])
        (use 4 in \<open>simp_all only: list.pred_inject octet_mod_0x40 foldl_Cons foldl_Nil add_diff_cancel_left' div_recompose
           list.size simp_thms\<close>, simp?)
    with 4 b show ?thesis
      by (simp add: utf8_def decode_escape_def percent_octet_percent)
  qed
qed

lemma percent_head: "percent b @ s = 37 # hex_unit (b div 16) # hex_unit (b mod 16) # s"
  by (simp add: percent_def)

lemma cons_append: "(@) [x] = (#) x"
  by (simp add: fun_eq_iff)

lemma decode_encode_point:
  assumes "code_point c"
  shows "decodeURIComponent (encode_point c @ s) = map_option ((@) (utf16 c)) (decodeURIComponent s)"
proof (cases "unescaped c")
  case True
  then have c: "0 \<le> c" "c < 128" "c \<noteq> 37" by (auto simp: unescaped_def)
  then have "uint (of_int c :: cu) = c" by (simp add: uint_of_int16)
  with c have "(of_int c :: cu) \<noteq> 37" by (auto simp del: of_int_eq_iff)
  with True c show ?thesis by (simp add: encode_point_def utf16_def cons_append)
next
  case False
  have "utf8 c \<noteq> []" by (simp add: utf8_def)
  then obtain b bs where u: "utf8 c = b # bs" by (meson neq_Nil_conv)
  then have "encode_point c @ s = 37 # tl (encode_point c @ s)"
    using False by (simp add: encode_point_def percent_head)
  moreover have "decode_escape (encode_point c @ s) = Some (utf16 c, s)"
    using False decode_escape_utf8 [OF assms] by (simp add: encode_point_def)
  ultimately show ?thesis
    by (metis (no_types, lifting) decodeURIComponent.simps(2) option.simps(5) old.prod.case)
qed

lemma decode_encode_points:
  "list_all code_point cs \<Longrightarrow>
     decodeURIComponent (concat (map encode_point cs)) = Some (concat (map utf16 cs))"
  by (induction cs) (simp_all add: decode_encode_point)

lemma decode_encode:
  "encodeURIComponent s = Some e \<Longrightarrow> decodeURIComponent e = Some s"
  by (auto simp: encodeURIComponent_def decode_encode_points dest!: code_points_decode)

section \<open>What an encoded component may contain\<close>

definition component_unit :: "cu \<Rightarrow> bool" where
  "component_unit u \<longleftrightarrow> unescaped (uint u) \<or> u = 37"

lemma hex_unit_component: "0 \<le> d \<Longrightarrow> d < 16 \<Longrightarrow> component_unit (hex_unit d)"
proof -
  assume "0 \<le> d" "d < 16"
  then have "d \<in> {0,1,2,3,4,5,6,7,8,9,10,11,12,13,14,15}" by (rule hex_digits)
  then show ?thesis by (elim insertE) (simp_all add: hex_unit_def component_unit_def unescaped_def)
qed

lemma percent_component: "0 \<le> b \<Longrightarrow> b < 256 \<Longrightarrow> list_all component_unit (percent b)"
  by (simp add: percent_def hex_unit_component) (simp add: component_unit_def)

lemma utf8_octets:
  assumes "code_point c"
  shows "list_all (\<lambda>b. 0 \<le> b \<and> b < 256) (utf8 c)"
proof -
  have c: "0 \<le> c" "c \<le> 0x10FFFF" using assms by (simp_all add: code_point_def)
  have m: "0 \<le> 0x80 + x mod 0x40 \<and> 0x80 + x mod (0x40 :: int) < 256" for x
    using mod_0x40 [of x] by simp
  consider "c < 0x80" | "0x80 \<le> c" "c < 0x800" | "0x800 \<le> c" "c < 0x10000" | "0x10000 \<le> c"
    by linarith
  then show ?thesis by cases (use c in \<open>simp_all add: utf8_def m\<close>)
qed

lemma encode_point_component: "code_point c \<Longrightarrow> list_all component_unit (encode_point c)"
proof (cases "unescaped c")
  case True
  then have "0 \<le> c" "c < 128" by (auto simp: unescaped_def)
  with True show ?thesis by (simp add: encode_point_def component_unit_def uint_of_int16)
next
  case False
  assume "code_point c"
  then have "\<forall>b \<in> set (utf8 c). list_all component_unit (percent b)"
    using percent_component utf8_octets by (auto simp: list_all_iff)
  with False show ?thesis by (auto simp: encode_point_def list_all_iff)
qed

lemma encode_component: "encodeURIComponent s = Some e \<Longrightarrow> list_all component_unit e"
proof -
  assume "encodeURIComponent s = Some e"
  then obtain cs where "code_points s = Some cs" and e: "e = concat (map encode_point cs)"
    by (auto simp: encodeURIComponent_def)
  then have "\<forall>c \<in> set cs. list_all component_unit (encode_point c)"
    using encode_point_component code_points_decode [of s cs] by (metis (full_types) list_all_iff)
  then show ?thesis by (simp add: e list_all_iff)
qed

lemma encode_not_special: "encodeURIComponent s = Some e \<Longrightarrow> set e \<inter> set (js ''/?#& ;'' @ [34]) = {}"
proof -
  assume "encodeURIComponent s = Some e"
  then have "\<forall>u \<in> set e. u = 37 \<or> unescaped (uint u)"
    using encode_component by (auto simp: list_all_iff component_unit_def)
  moreover have "u \<noteq> 37 \<and> \<not> unescaped (uint u)" if "u \<in> set (js ''/?#& ;'' @ [34])" for u
    using that by (auto simp: js_def unescaped_def)
  ultimately show ?thesis by blast
qed

end
