(* ===== verification/AuditStream.thy ===== *)
theory AuditStream
  imports HttpClient Uri
begin

text \<open>
  frontend/src/hooks/useAuditStream.ts and frontend/src/components/LiveAuditStream.tsx: the
  subscription to the live audit log and the card that shows it. A run of the effect is a closure
  with its own socket, timer and flag \<open>closedByUs\<close>; a socket is known by its number and belongs
  to the closure that opened it. The browser decides when a socket opens, receives, closes and
  when a timer fires; these are the steps of \<open>stream_step\<close>.
\<close>

record AuditLiveRow =
  lr_request_id :: jsstring
  lr_created_at :: jsstring
  lr_api_key_label :: jsstring
  lr_protocol :: jsstring
  lr_model_alias :: jsstring
  lr_upstream_provider :: jsstring
  lr_upstream_model :: jsstring
  lr_prompt_tokens :: int
  lr_completion_tokens :: int
  lr_latency_ms :: int
  lr_status :: jsstring
  lr_blocked :: bool
  lr_block_category :: jsstring
  lr_block_reason :: jsstring

datatype stream_phase = Connecting | Live | Disconnected

record closure =
  cl_ws :: "nat option"
  cl_retryTimer :: bool
  cl_closedByUs :: bool

record socket =
  so_owner :: nat
  so_url :: jsstring
  so_closed :: bool

record AuditStreamState =
  st_phase :: stream_phase
  st_events :: "AuditLiveRow list"
  st_total :: int
  st_enabledRef :: bool
  st_maxRef :: nat
  st_closures :: "closure list"
  st_sockets :: "socket list"

definition stream_initial :: "bool \<Rightarrow> nat \<Rightarrow> AuditStreamState" where
  "stream_initial enabled m =
     \<lparr>st_phase = Connecting, st_events = [], st_total = 0, st_enabledRef = enabled, st_maxRef = m,
      st_closures = [], st_sockets = []\<rparr>"

definition reset :: "AuditStreamState \<Rightarrow> AuditStreamState" where
  "reset st = st\<lparr>st_events := [], st_total := 0\<rparr>"

text \<open>The page's own location, which decides the protocol and the host of the socket.\<close>

definition stream_url :: "bool \<Rightarrow> jsstring \<Rightarrow> jsstring \<Rightarrow> jsstring option" where
  "stream_url https host token =
     map_option (\<lambda>e. (if https then js ''wss:'' else js ''ws:'') @ js ''//'' @ host
                     @ js ''/api/admin/v1/audit/ws?token='' @ e) (encodeURIComponent token)"

text \<open>\<open>connect\<close> of closure \<open>c\<close>; the token is the one in the store at that moment.\<close>

definition connect :: "bool \<Rightarrow> jsstring \<Rightarrow> jsstring option \<Rightarrow> nat \<Rightarrow> AuditStreamState \<Rightarrow> AuditStreamState" where
  "connect https host token c st =
     (if \<not> st_enabledRef st then st
      else case token of
        None \<Rightarrow> st
      | Some tok \<Rightarrow>
          if tok = [] then st
          else case stream_url https host tok of
            None \<Rightarrow> st
          | Some url \<Rightarrow>
              st\<lparr>st_phase := (if st_phase st = Live then Live else Connecting),
                 st_sockets := st_sockets st @ [\<lparr>so_owner = c, so_url = url, so_closed = False\<rparr>],
                 st_closures := (st_closures st)[c := (st_closures st ! c)\<lparr>cl_ws := Some (length (st_sockets st))\<rparr>]\<rparr>)"

definition run_effect :: "bool \<Rightarrow> jsstring \<Rightarrow> jsstring option \<Rightarrow> bool \<Rightarrow> AuditStreamState \<Rightarrow> AuditStreamState" where
  "run_effect https host token enabled st =
     (if \<not> enabled then st
      else connect https host token (length (st_closures st))
        (st\<lparr>st_closures := st_closures st @ [\<lparr>cl_ws = None, cl_retryTimer = False, cl_closedByUs = False\<rparr>]\<rparr>))"

definition cleanup :: "nat \<Rightarrow> AuditStreamState \<Rightarrow> AuditStreamState" where
  "cleanup c st =
     st\<lparr>st_closures := (st_closures st)[c := (st_closures st ! c)\<lparr>cl_closedByUs := True, cl_retryTimer := False\<rparr>]\<rparr>"

definition onopen :: "AuditStreamState \<Rightarrow> AuditStreamState" where
  "onopen st = st\<lparr>st_phase := Live\<rparr>"

text \<open>A frame that is not JSON is \<open>None\<close> and ignored.\<close>

definition onmessage :: "AuditLiveRow option \<Rightarrow> AuditStreamState \<Rightarrow> AuditStreamState" where
  "onmessage frame st =
     (case frame of
        None \<Rightarrow> st
      | Some row \<Rightarrow> st\<lparr>st_events := take (st_maxRef st) (row # st_events st), st_total := st_total st + 1\<rparr>)"

definition onclose :: "nat \<Rightarrow> AuditStreamState \<Rightarrow> AuditStreamState" where
  "onclose n st =
     (let c = so_owner (st_sockets st ! n);
          st' = st\<lparr>st_phase := Disconnected,
                   st_sockets := (st_sockets st)[n := (st_sockets st ! n)\<lparr>so_closed := True\<rparr>]\<rparr>
      in if \<not> cl_closedByUs (st_closures st ! c) \<and> st_enabledRef st
         then st'\<lparr>st_closures := (st_closures st)[c := (st_closures st ! c)\<lparr>cl_retryTimer := True\<rparr>]\<rparr>
         else st')"

definition retry :: "bool \<Rightarrow> jsstring \<Rightarrow> jsstring option \<Rightarrow> nat \<Rightarrow> AuditStreamState \<Rightarrow> AuditStreamState" where
  "retry https host token c st =
     connect https host token c
       (st\<lparr>st_closures := (st_closures st)[c := (st_closures st ! c)\<lparr>cl_retryTimer := False\<rparr>]\<rparr>)"

definition auditStreamPhaseText :: "translate \<Rightarrow> stream_phase \<Rightarrow> jsstring" where
  "auditStreamPhaseText t p =
     (case p of Live \<Rightarrow> t (js ''calls.live.live'') []
      | Connecting \<Rightarrow> t (js ''calls.live.connecting'') []
      | Disconnected \<Rightarrow> t (js ''calls.live.disconnected'') [])"

section \<open>Steps\<close>

text \<open>
  What happens to the hook, one event at a time. React runs the effect again only after the cleanup of
  its last run: this is the guard of \<open>ss_effect\<close>, \<open>may_run\<close>, which the runs of the properties instantiate
  with \<open>cleaned_up\<close>; what holds without it is proved for an arbitrary guard.
\<close>

datatype stream_event = Rerender bool | Effect | Cleanup nat | Opened nat | Frame "AuditLiveRow option"
  | Closed nat | Retry nat | Cleared

inductive stream_step :: "(AuditStreamState \<Rightarrow> bool) \<Rightarrow> stream_event \<Rightarrow> AuditStreamState \<Rightarrow> AuditStreamState \<Rightarrow> bool"
  for may_run where
  ss_rerender: "stream_step may_run (Rerender enabled) st (st\<lparr>st_enabledRef := enabled\<rparr>)"
| ss_effect: "may_run st \<Longrightarrow> stream_step may_run Effect st (run_effect https host token enabled st)"
| ss_cleanup: "c < length (st_closures st) \<Longrightarrow> stream_step may_run (Cleanup c) st (cleanup c st)"
| ss_open: "n < length (st_sockets st) \<Longrightarrow> \<not> so_closed (st_sockets st ! n) \<Longrightarrow>
     stream_step may_run (Opened n) st (onopen st)"
| ss_message: "n < length (st_sockets st) \<Longrightarrow> \<not> so_closed (st_sockets st ! n) \<Longrightarrow>
     stream_step may_run (Frame frame) st (onmessage frame st)"
| ss_close: "n < length (st_sockets st) \<Longrightarrow> \<not> so_closed (st_sockets st ! n) \<Longrightarrow>
     stream_step may_run (Closed n) st (onclose n st)"
| ss_retry: "c < length (st_closures st) \<Longrightarrow> cl_retryTimer (st_closures st ! c) \<Longrightarrow>
     stream_step may_run (Retry c) st (retry https host token c st)"
| ss_reset: "stream_step may_run Cleared st (reset st)"

definition cleaned_up :: "AuditStreamState \<Rightarrow> bool" where
  "cleaned_up st \<longleftrightarrow> (\<forall>cl \<in> set (st_closures st). cl_closedByUs cl)"

text \<open>A run with its events, from the first to the last.\<close>

inductive stream_run :: "(AuditStreamState \<Rightarrow> bool) \<Rightarrow> AuditStreamState \<Rightarrow> stream_event list \<Rightarrow> AuditStreamState \<Rightarrow> bool"
  for may_run st where
  "stream_run may_run st [] st"
| "stream_run may_run st evs st' \<Longrightarrow> stream_step may_run e st' st'' \<Longrightarrow> stream_run may_run st (evs @ [e]) st''"

text \<open>The rows a run has received since the list was last cleared, the oldest first.\<close>

definition received :: "stream_event list \<Rightarrow> AuditLiveRow list" where
  "received evs = fold (\<lambda>e rows. case e of Frame (Some r) \<Rightarrow> rows @ [r] | Cleared \<Rightarrow> [] | _ \<Rightarrow> rows) evs []"

lemma received_simps [simp]:
  "received [] = []"
  "received (evs @ [e]) = (case e of Frame (Some r) \<Rightarrow> received evs @ [r] | Cleared \<Rightarrow> [] | _ \<Rightarrow> received evs)"
  by (simp_all add: received_def split: stream_event.split option.split)

lemmas stream_defs [js_eval] = stream_initial_def reset_def stream_url_def connect_def run_effect_def
  cleanup_def onopen_def onmessage_def onclose_def retry_def auditStreamPhaseText_def

section \<open>Invariants\<close>

text \<open>The sockets of a closure that may still deliver.\<close>

definition open_sockets :: "nat \<Rightarrow> AuditStreamState \<Rightarrow> nat set" where
  "open_sockets c st = {n. n < length (st_sockets st) \<and> so_owner (st_sockets st ! n) = c
     \<and> \<not> so_closed (st_sockets st ! n)}"

text \<open>
  Per closure: at most the socket it remembers is open, none while a retry is pending, and a
  closed closure has no retry pending.
\<close>

definition closure_inv :: "AuditStreamState \<Rightarrow> nat \<Rightarrow> bool" where
  "closure_inv st c \<longleftrightarrow>
     open_sockets c st \<subseteq> set_option (cl_ws (st_closures st ! c))
     \<and> (cl_retryTimer (st_closures st ! c) \<longrightarrow> open_sockets c st = {} \<and> \<not> cl_closedByUs (st_closures st ! c))"

definition stream_inv :: "AuditStreamState \<Rightarrow> bool" where
  "stream_inv st \<longleftrightarrow>
     length (st_events st) \<le> st_maxRef st \<and> int (length (st_events st)) \<le> st_total st
     \<and> (\<forall>s \<in> set (st_sockets st). so_owner s < length (st_closures st))
     \<and> (\<forall>c < length (st_closures st). closure_inv st c)"

lemma stream_inv_initial: "stream_inv (stream_initial enabled m)"
  by (simp add: stream_inv_def stream_initial_def)

lemma stream_inv_connect:
  assumes inv: "stream_inv st" and c: "c < length (st_closures st)"
    and idle: "open_sockets c st = {}" "\<not> cl_retryTimer (st_closures st ! c)"
  shows "stream_inv (connect https host token c st)"
proof -
  have "stream_inv st'"
    if st': "st' = st\<lparr>st_phase := p, st_sockets := st_sockets st @ [\<lparr>so_owner = c, so_url = url, so_closed = False\<rparr>],
        st_closures := (st_closures st)[c := (st_closures st ! c)\<lparr>cl_ws := Some (length (st_sockets st))\<rparr>]\<rparr>"
    for st' p url
  proof -
    have o: "open_sockets d st' = (if d = c then {length (st_sockets st)} else open_sockets d st)" for d
      using idle(1) by (auto simp: st' open_sockets_def nth_append less_Suc_eq)
    have "closure_inv st' d" if d: "d < length (st_closures st)" for d
    proof (cases "d = c")
      case True
      with idle(2) c show ?thesis by (simp add: closure_inv_def o) (simp add: st')
    next
      case False
      with inv d show ?thesis
        by (simp add: closure_inv_def o stream_inv_def) (simp add: st')
    qed
    moreover have "length (st_closures st') = length (st_closures st)" by (simp add: st')
    ultimately show ?thesis using inv c by (simp add: stream_inv_def) (auto simp: st')
  qed
  then show ?thesis
    using inv by (auto simp: connect_def split: option.splits)
qed

lemma open_sockets_closures [simp]: "open_sockets c (st\<lparr>st_closures := cs\<rparr>) = open_sockets c st"
  by (simp add: open_sockets_def)

lemma stream_inv_step: "stream_step may_run e st st' \<Longrightarrow> stream_inv st \<Longrightarrow> stream_inv st'"
proof (induction rule: stream_step.induct)
  case (ss_rerender enabled st)
  then show ?case by (simp add: stream_inv_def closure_inv_def open_sockets_def)
next
  case (ss_effect st https host token enabled)
  let ?st = "st\<lparr>st_closures := st_closures st @ [\<lparr>cl_ws = None, cl_retryTimer = False, cl_closedByUs = False\<rparr>]\<rparr>"
  have fresh: "open_sockets (length (st_closures st)) st = {}"
    using ss_effect nth_mem by (fastforce simp: open_sockets_def stream_inv_def)
  then have "stream_inv ?st"
    using ss_effect by (auto simp: stream_inv_def closure_inv_def nth_append less_Suc_eq)
  then have "stream_inv (connect https host token (length (st_closures st)) ?st)"
    by (rule stream_inv_connect) (simp_all add: fresh)
  with ss_effect show ?case by (simp add: run_effect_def)
next
  case (ss_cleanup c st)
  then show ?case
    by (auto simp: stream_inv_def closure_inv_def cleanup_def nth_list_update)
next
  case (ss_open n st)
  then show ?case by (simp add: stream_inv_def closure_inv_def open_sockets_def onopen_def)
next
  case (ss_message n st frame)
  then show ?case
    by (auto simp: stream_inv_def closure_inv_def open_sockets_def onmessage_def min_def split: option.splits)
next
  case (ss_close n st)
  let ?c = "so_owner (st_sockets st ! n)"
  let ?st = "st\<lparr>st_phase := Disconnected,
      st_sockets := (st_sockets st)[n := (st_sockets st ! n)\<lparr>so_closed := True\<rparr>]\<rparr>"
  have o: "open_sockets d ?st = open_sockets d st - {n}" for d
    using ss_close(1) by (auto simp: open_sockets_def nth_list_update)
  have c: "?c < length (st_closures st)" and n: "n \<in> open_sockets ?c st"
    using ss_close by (auto simp: stream_inv_def open_sockets_def)
  have "open_sockets ?c st \<subseteq> set_option (cl_ws (st_closures st ! ?c))"
    using ss_close(3) c by (simp add: stream_inv_def closure_inv_def)
  then have "open_sockets ?c st \<subseteq> {n}"
    using n by (cases "cl_ws (st_closures st ! ?c)") auto
  moreover have "set ((st_sockets st)[n := (st_sockets st ! n)\<lparr>so_closed := True\<rparr>])
      \<subseteq> insert ((st_sockets st ! n)\<lparr>so_closed := True\<rparr>) (set (st_sockets st))"
    by (rule set_update_subset_insert)
  ultimately show ?case
    using ss_close c
    by (auto simp: stream_inv_def closure_inv_def onclose_def o nth_list_update Let_def)
next
  case (ss_retry c st https host token)
  let ?st = "st\<lparr>st_closures := (st_closures st)[c := (st_closures st ! c)\<lparr>cl_retryTimer := False\<rparr>]\<rparr>"
  have "stream_inv ?st"
    using ss_retry by (auto simp: stream_inv_def closure_inv_def nth_list_update)
  then show ?case
    unfolding retry_def using ss_retry
    by (intro stream_inv_connect) (auto simp: stream_inv_def closure_inv_def)
next
  case (ss_reset st)
  then show ?case by (simp add: stream_inv_def closure_inv_def open_sockets_def reset_def)
qed

lemma stream_inv_run: "stream_run may_run st evs st' \<Longrightarrow> stream_inv st \<Longrightarrow> stream_inv st'"
  by (induction rule: stream_run.induct) (auto dest: stream_inv_step)

text \<open>Which closures have been cleaned up, and how many are still in use.\<close>

definition closed_flags :: "AuditStreamState \<Rightarrow> bool list" where
  "closed_flags st = map cl_closedByUs (st_closures st)"

definition in_use :: "AuditStreamState \<Rightarrow> nat" where
  "in_use st = length (filter Not (closed_flags st))"

lemma flags_same:
  "c < length (st_closures st) \<Longrightarrow> cl_closedByUs cl = cl_closedByUs (st_closures st ! c) \<Longrightarrow>
     map cl_closedByUs ((st_closures st)[c := cl]) = closed_flags st"
  by (simp add: closed_flags_def map_update list_update_same_conv)

lemma flags_connect: "c < length (st_closures st) \<Longrightarrow> closed_flags (connect https host token c st) = closed_flags st"
  by (auto simp: connect_def flags_same split: option.splits) (simp add: closed_flags_def flags_same)+

lemma filter_update_True: "length (filter Not (xs[n := True])) \<le> length (filter Not xs)"
  by (induction xs arbitrary: n) (auto split: nat.split simp: le_SucI)

lemma in_use_step:
  "stream_step cleaned_up e st st' \<Longrightarrow> stream_inv st \<Longrightarrow> in_use st \<le> 1 \<Longrightarrow> in_use st' \<le> 1"
proof (induction rule: stream_step.induct)
  case (ss_effect st https host token enabled)
  let ?st = "st\<lparr>st_closures := st_closures st @ [\<lparr>cl_ws = None, cl_retryTimer = False, cl_closedByUs = False\<rparr>]\<rparr>"
  have "filter Not (closed_flags ?st) = [False]"
    using ss_effect(1) by (auto simp: cleaned_up_def closed_flags_def filter_empty_conv)
  then show ?case
    using ss_effect(3) by (simp add: run_effect_def in_use_def flags_connect)
next
  case (ss_cleanup c st)
  have "closed_flags (cleanup c st) = (closed_flags st)[c := True]"
    by (simp add: cleanup_def closed_flags_def map_update)
  then show ?case using ss_cleanup filter_update_True [of "closed_flags st" c] by (simp add: in_use_def)
next
  case (ss_close n st)
  then have "so_owner (st_sockets st ! n) < length (st_closures st)" by (simp add: stream_inv_def)
  then have "closed_flags (onclose n st) = closed_flags st"
    by (simp add: onclose_def Let_def flags_same) (simp add: closed_flags_def flags_same)
  then show ?case using ss_close by (simp add: in_use_def)
next
  case (ss_retry c st https host token)
  then have "closed_flags (retry https host token c st) = closed_flags st"
    by (simp add: retry_def flags_connect) (simp add: closed_flags_def flags_same)
  then show ?case using ss_retry by (simp add: in_use_def)
next
  case (ss_message n st frame)
  then show ?case by (simp add: in_use_def closed_flags_def onmessage_def split: option.splits)
qed (simp_all add: in_use_def closed_flags_def onopen_def reset_def)

lemma in_use_run: "stream_run cleaned_up (stream_initial enabled m) evs st \<Longrightarrow> in_use st \<le> 1"
proof (induction rule: stream_run.induct)
  case 1
  show ?case by (simp add: in_use_def closed_flags_def stream_initial_def)
next
  case (2 evs st' e st'')
  from stream_inv_run [OF 2(1) stream_inv_initial] 2(2,3) show ?case by (metis in_use_step)
qed

lemma in_use_unique:
  assumes "in_use st \<le> 1" "c < length (st_closures st)" "d < length (st_closures st)"
    and "\<not> cl_closedByUs (st_closures st ! c)" "\<not> cl_closedByUs (st_closures st ! d)"
  shows "c = d"
proof -
  have "card {i. i < length (st_closures st) \<and> \<not> cl_closedByUs (st_closures st ! i)} \<le> Suc 0"
    using assms(1) by (simp add: in_use_def closed_flags_def length_filter_conv_card cong: conj_cong)
  with assms(2-5) show ?thesis by (simp add: card_le_Suc0_iff_eq)
qed

text \<open>The sockets still open of the runs of the effect that have not been cleaned up.\<close>

definition wanted :: "AuditStreamState \<Rightarrow> nat set" where
  "wanted st = {n. n < length (st_sockets st) \<and> \<not> so_closed (st_sockets st ! n)
     \<and> \<not> cl_closedByUs (st_closures st ! so_owner (st_sockets st ! n))}"

lemma wanted_one:
  assumes inv: "stream_inv st" and one: "in_use st \<le> 1"
  shows "card (wanted st) \<le> 1"
proof -
  have "a = b" if ab: "a \<in> wanted st" "b \<in> wanted st" for a b
  proof -
    let ?c = "so_owner (st_sockets st ! a)"
    have c: "?c < length (st_closures st)" "so_owner (st_sockets st ! b) < length (st_closures st)"
      using inv ab by (auto simp: wanted_def stream_inv_def)
    have "?c = so_owner (st_sockets st ! b)"
      by (rule in_use_unique [OF one c]) (use ab in \<open>simp_all add: wanted_def\<close>)
    then have "a \<in> open_sockets ?c st" "b \<in> open_sockets ?c st"
      using ab by (simp_all add: wanted_def open_sockets_def)
    moreover have "open_sockets ?c st \<subseteq> set_option (cl_ws (st_closures st ! ?c))"
      using inv c(1) by (simp add: stream_inv_def closure_inv_def)
    ultimately show ?thesis by (cases "cl_ws (st_closures st ! ?c)") auto
  qed
  moreover have "finite (wanted st)" by (simp add: wanted_def)
  ultimately show ?thesis by (simp add: card_le_Suc0_iff_eq)
qed

text \<open>How many sockets a closure has opened so far: a closure without a retry opens no more.\<close>

definition opened :: "nat \<Rightarrow> AuditStreamState \<Rightarrow> nat" where
  "opened c st = length (filter (\<lambda>s. so_owner s = c) (st_sockets st))"

lemma opened_connect: "c \<noteq> d \<Longrightarrow> opened c (connect https host token d st) = opened c st"
  by (simp add: opened_def connect_def split: option.splits)

lemma filter_owner_update:
  "n < length ss \<Longrightarrow> length (filter (\<lambda>s. so_owner s = c) (ss[n := (ss ! n)\<lparr>so_closed := b\<rparr>]))
     = length (filter (\<lambda>s. so_owner s = c) ss)"
  by (induction ss arbitrary: n) (auto split: nat.splits)

lemma opened_step:
  assumes "stream_step may_run e st st'" "c < length (st_closures st)" "\<not> cl_retryTimer (st_closures st ! c)"
  shows "opened c st' = opened c st"
  using assms
proof (induction rule: stream_step.induct)
  case (ss_effect st https host token enabled)
  then have "c \<noteq> length (st_closures st)" by simp
  from opened_connect [OF this] show ?case by (simp add: run_effect_def) (simp add: opened_def)
next
  case (ss_retry d st https host token)
  then have "c \<noteq> d" by auto
  from opened_connect [OF this] show ?case by (simp add: retry_def) (simp add: opened_def)
next
  case (ss_message n st frame)
  then show ?case by (simp add: opened_def onmessage_def split: option.splits)
qed (simp_all add: opened_def onopen_def reset_def cleanup_def onclose_def Let_def filter_owner_update)

section \<open>The card\<close>

record LiveCard =
  lc_frozen :: "AuditLiveRow list option"
  lc_totalAtPause :: int

definition card_initial :: LiveCard where
  "card_initial = \<lparr>lc_frozen = None, lc_totalAtPause = 0\<rparr>"

definition shown :: "LiveCard \<Rightarrow> AuditStreamState \<Rightarrow> AuditLiveRow list" where
  "shown lc st = or_else (lc_frozen lc) (st_events st)"

definition pending :: "LiveCard \<Rightarrow> AuditStreamState \<Rightarrow> int" where
  "pending lc st = (if lc_frozen lc \<noteq> None then st_total st - lc_totalAtPause lc else 0)"

definition pending_badge :: "LiveCard \<Rightarrow> AuditStreamState \<Rightarrow> int option" where
  "pending_badge lc st = (if lc_frozen lc \<noteq> None \<and> pending lc st > 0 then Some (pending lc st) else None)"

definition phaseColor :: "stream_phase \<Rightarrow> jsstring" where
  "phaseColor p = (case p of Live \<Rightarrow> js ''green'' | Connecting \<Rightarrow> js ''gold'' | Disconnected \<Rightarrow> js ''red'')"

definition toggle_pause :: "LiveCard \<Rightarrow> AuditStreamState \<Rightarrow> LiveCard" where
  "toggle_pause lc st =
     (if lc_frozen lc \<noteq> None then lc\<lparr>lc_frozen := None\<rparr>
      else lc\<lparr>lc_frozen := Some (st_events st), lc_totalAtPause := st_total st\<rparr>)"

definition clear_card :: "LiveCard \<Rightarrow> AuditStreamState \<Rightarrow> LiveCard \<times> AuditStreamState" where
  "clear_card lc st = (lc\<lparr>lc_frozen := None\<rparr>, reset st)"

definition row_tokens :: "AuditLiveRow \<Rightarrow> int" where
  "row_tokens row = lr_prompt_tokens row + lr_completion_tokens row"

lemmas card_defs [js_eval] = card_initial_def shown_def pending_def pending_badge_def phaseColor_def
  toggle_pause_def clear_card_def row_tokens_def

section \<open>Progress\<close>

text \<open>
  The steps of a session that stays signed in with token \<open>tok\<close> and whose card stays enabled: every
  connection attempt finds the token.
\<close>

inductive live_step :: "jsstring \<Rightarrow> AuditStreamState \<Rightarrow> AuditStreamState \<Rightarrow> bool" for tok where
  ls_effect: "live_step tok st (run_effect https host (Some tok) True st)"
| ls_cleanup: "c < length (st_closures st) \<Longrightarrow> live_step tok st (cleanup c st)"
| ls_open: "n < length (st_sockets st) \<Longrightarrow> \<not> so_closed (st_sockets st ! n) \<Longrightarrow> live_step tok st (onopen st)"
| ls_message: "n < length (st_sockets st) \<Longrightarrow> \<not> so_closed (st_sockets st ! n) \<Longrightarrow>
     live_step tok st (onmessage frame st)"
| ls_close: "n < length (st_sockets st) \<Longrightarrow> \<not> so_closed (st_sockets st ! n) \<Longrightarrow> live_step tok st (onclose n st)"
| ls_retry: "c < length (st_closures st) \<Longrightarrow> cl_retryTimer (st_closures st ! c) \<Longrightarrow>
     live_step tok st (retry https host (Some tok) c st)"
| ls_reset: "live_step tok st (reset st)"

lemma live_step_stream: "live_step tok st st' \<Longrightarrow> \<exists>e. stream_step (\<lambda>_. True) e st st'"
  by (induction rule: live_step.induct) (blast intro: stream_step.intros [where may_run = "\<lambda>_. True"])+

text \<open>A closure that is in use has an open socket or a retry pending.\<close>

definition progress_inv :: "AuditStreamState \<Rightarrow> bool" where
  "progress_inv st \<longleftrightarrow> st_enabledRef st \<and>
     (\<forall>c < length (st_closures st). \<not> cl_closedByUs (st_closures st ! c) \<longrightarrow>
        open_sockets c st \<noteq> {} \<or> cl_retryTimer (st_closures st ! c))"

definition usable :: "jsstring \<Rightarrow> bool" where
  "usable tok \<longleftrightarrow> tok \<noteq> [] \<and> encodeURIComponent tok \<noteq> None"

lemma connect_opens:
  assumes "st_enabledRef st" "usable tok" "c < length (st_closures st)"
  shows "\<exists>url p. connect https host (Some tok) c st =
      st\<lparr>st_phase := p, st_sockets := st_sockets st @ [\<lparr>so_owner = c, so_url = url, so_closed = False\<rparr>],
         st_closures := (st_closures st)[c := (st_closures st ! c)\<lparr>cl_ws := Some (length (st_sockets st))\<rparr>]\<rparr>
      \<and> (p = Connecting \<or> p = Live)"
proof -
  obtain url where "stream_url https host tok = Some url" using assms(2) by (auto simp: usable_def stream_url_def)
  then show ?thesis
    using assms
    by (intro exI [of _ url] exI [of _ "if st_phase st = Live then Live else Connecting"])
      (simp add: connect_def usable_def)
qed

lemma open_sockets_append:
  "open_sockets d (st\<lparr>st_phase := p, st_sockets := st_sockets st @ [\<lparr>so_owner = c, so_url = url, so_closed = False\<rparr>],
     st_closures := cs\<rparr>) = open_sockets d st \<union> (if d = c then {length (st_sockets st)} else {})"
  by (auto simp: open_sockets_def nth_append less_Suc_eq)

lemma progress_connect:
  assumes "st_enabledRef st" "usable tok" "c < length (st_closures st)"
    and "\<forall>d < length (st_closures st). d \<noteq> c \<longrightarrow> \<not> cl_closedByUs (st_closures st ! d) \<longrightarrow>
      open_sockets d st \<noteq> {} \<or> cl_retryTimer (st_closures st ! d)"
  shows "progress_inv (connect https host (Some tok) c st) \<and> open_sockets c (connect https host (Some tok) c st) \<noteq> {}"
proof -
  obtain url p where c: "connect https host (Some tok) c st =
      st\<lparr>st_phase := p, st_sockets := st_sockets st @ [\<lparr>so_owner = c, so_url = url, so_closed = False\<rparr>],
         st_closures := (st_closures st)[c := (st_closures st ! c)\<lparr>cl_ws := Some (length (st_sockets st))\<rparr>]\<rparr>"
    using connect_opens [OF assms(1-3)] by blast
  show ?thesis
    using assms(1,3,4) unfolding c progress_inv_def open_sockets_append by (auto simp: nth_list_update)
qed

lemma progress_step: "live_step tok st st' \<Longrightarrow> usable tok \<Longrightarrow> stream_inv st \<Longrightarrow> progress_inv st \<Longrightarrow> progress_inv st'"
proof (induction rule: live_step.induct)
  case (ls_effect st https host)
  let ?st = "st\<lparr>st_closures := st_closures st @ [\<lparr>cl_ws = None, cl_retryTimer = False, cl_closedByUs = False\<rparr>]\<rparr>"
  have "progress_inv (connect https host (Some tok) (length (st_closures st)) ?st)"
    by (rule conjunct1 [OF progress_connect])
      (use ls_effect in \<open>auto simp: progress_inv_def nth_append less_Suc_eq\<close>)
  then show ?case by (simp add: run_effect_def)
next
  case (ls_close n st)
  let ?c = "so_owner (st_sockets st ! n)"
  let ?st = "st\<lparr>st_phase := Disconnected,
      st_sockets := (st_sockets st)[n := (st_sockets st ! n)\<lparr>so_closed := True\<rparr>]\<rparr>"
  have o: "open_sockets d ?st = open_sockets d st - {n}" for d
    using ls_close(1) by (auto simp: open_sockets_def nth_list_update)
  have other: "open_sockets d st - {n} = open_sockets d st" if "d \<noteq> ?c" for d
    using that by (auto simp: open_sockets_def)
  have c: "?c < length (st_closures st)" using ls_close by (auto simp: stream_inv_def)
  have e: "open_sockets d (onclose n st) = open_sockets d st - {n}" for d
    by (simp add: onclose_def Let_def o)
  have cl: "st_closures (onclose n st) = (if \<not> cl_closedByUs (st_closures st ! ?c)
      then (st_closures st)[?c := (st_closures st ! ?c)\<lparr>cl_retryTimer := True\<rparr>] else st_closures st)"
    and en: "st_enabledRef (onclose n st)"
    using ls_close by (simp_all add: onclose_def Let_def progress_inv_def)
  have "open_sockets d (onclose n st) \<noteq> {} \<or> cl_retryTimer (st_closures (onclose n st) ! d)"
    if d: "d < length (st_closures st)" "\<not> cl_closedByUs (st_closures (onclose n st) ! d)" for d
  proof (cases "d = ?c")
    case True
    then show ?thesis using d(2) c by (simp add: cl split: if_splits)
  next
    case False
    moreover have "st_closures (onclose n st) ! d = st_closures st ! d" using False by (simp add: cl)
    ultimately show ?thesis using d ls_close(5) by (simp add: e other progress_inv_def)
  qed
  moreover have "length (st_closures (onclose n st)) = length (st_closures st)" by (simp add: cl)
  ultimately show ?case using en by (simp add: progress_inv_def)
next
  case (ls_retry c st https host)
  then show ?case
    unfolding retry_def by (intro conjunct1 [OF progress_connect]) (auto simp: progress_inv_def nth_list_update)
next
  case (ls_cleanup c st)
  then show ?case by (auto simp: progress_inv_def cleanup_def nth_list_update)
next
  case (ls_message n st frame)
  then show ?case by (auto simp: progress_inv_def onmessage_def open_sockets_def split: option.splits)
qed (auto simp: progress_inv_def onopen_def reset_def open_sockets_def)

lemma progress_run:
  assumes "(live_step tok)\<^sup>*\<^sup>* st st'" "usable tok" "stream_inv st" "progress_inv st"
  shows "stream_inv st' \<and> progress_inv st'"
  using assms(1)
proof (induction rule: rtranclp_induct)
  case (step st1 st2)
  with progress_step [OF step(2) assms(2)] show ?case
    by (auto dest: stream_inv_step dest!: live_step_stream)
qed (use assms in simp)

section \<open>Properties\<close>

text \<open>The frames of a period in the order received.\<close>

definition receive_all :: "AuditLiveRow list \<Rightarrow> AuditStreamState \<Rightarrow> AuditStreamState" where
  "receive_all rows st = fold (\<lambda>r. onmessage (Some r)) rows st"

lemma take_append_take: "take m (xs @ take m ys) = take m (xs @ ys)"
  by (simp add: take_append min_def)

lemma receive_all_events:
  "length (st_events st) \<le> st_maxRef st \<Longrightarrow>
     st_events (receive_all rows st) = take (st_maxRef st) (rev rows @ st_events st)
     \<and> st_total (receive_all rows st) = st_total st + int (length rows)
     \<and> st_maxRef (receive_all rows st) = st_maxRef st"
proof (induction rows arbitrary: st)
  case (Cons r rows)
  let ?st = "onmessage (Some r) st"
  have e: "st_events ?st = take (st_maxRef st) (r # st_events st)" "st_maxRef ?st = st_maxRef st"
    "st_total ?st = st_total st + 1" and l: "length (st_events ?st) \<le> st_maxRef ?st"
    by (simp_all add: onmessage_def)
  have r: "receive_all (r # rows) st = receive_all rows ?st" by (simp add: receive_all_def)
  from Cons.IH [OF l] show ?case
    unfolding r by (simp only: e take_append_take) (simp add: e)
qed (simp add: receive_all_def)

text \<open>C31: However the socket opens, closes, retries and delivers, and however often the effect is
  cleaned up and run again: at most one run of the effect is in use and at most one open socket is
  wanted; no run ever has two open sockets, nor an open one while a retry is pending (no frame is
  shown twice); a run that was cleaned up has no retry pending and never opens a socket again.\<close>

theorem stream_invariant:
  assumes "stream_run cleaned_up (stream_initial enabled m) evs st"
  shows "card (wanted st) \<le> 1
    \<and> (\<forall>c < length (st_closures st). \<forall>d < length (st_closures st).
         \<not> cl_closedByUs (st_closures st ! c) \<longrightarrow> \<not> cl_closedByUs (st_closures st ! d) \<longrightarrow> c = d)
    \<and> (\<forall>c < length (st_closures st).
         card (open_sockets c st) \<le> 1
         \<and> (cl_retryTimer (st_closures st ! c) \<longrightarrow> open_sockets c st = {} \<and> \<not> cl_closedByUs (st_closures st ! c))
         \<and> (cl_closedByUs (st_closures st ! c) \<longrightarrow>
              (\<forall>e st'. stream_step cleaned_up e st st' \<longrightarrow> opened c st' = opened c st)))"
proof (intro conjI allI impI)
  have inv: "stream_inv st" by (rule stream_inv_run [OF assms stream_inv_initial])
  have one: "in_use st \<le> 1" by (rule in_use_run [OF assms])
  show "card (wanted st) \<le> 1" by (rule wanted_one [OF inv one])
  show "c = d" if "c < length (st_closures st)" "d < length (st_closures st)"
    "\<not> cl_closedByUs (st_closures st ! c)" "\<not> cl_closedByUs (st_closures st ! d)" for c d
    by (rule in_use_unique [OF one that])
  fix c assume c: "c < length (st_closures st)"
  then have ci: "closure_inv st c" using inv by (simp add: stream_inv_def)
  then have "card (open_sockets c st) \<le> card (set_option (cl_ws (st_closures st ! c)))"
    by (intro card_mono) (cases "cl_ws (st_closures st ! c)"; simp add: closure_inv_def)+
  also have "\<dots> \<le> 1" by (cases "cl_ws (st_closures st ! c)") simp_all
  finally show "card (open_sockets c st) \<le> 1" .
  show "open_sockets c st = {}" "\<not> cl_closedByUs (st_closures st ! c)" if "cl_retryTimer (st_closures st ! c)"
    using ci that by (simp_all add: closure_inv_def)
  show "opened c st' = opened c st" if "cl_closedByUs (st_closures st ! c)" "stream_step cleaned_up e st st'" for e st'
    by (rule opened_step [OF that(2) c]) (use ci that(1) in \<open>auto simp: closure_inv_def\<close>)
qed

lemma stream_invariant_witness:
  "card (wanted (run_effect True (js ''h'') (Some (js ''T'')) True (stream_initial True 30))) \<le> 1"
proof -
  let ?st = "run_effect True (js ''h'') (Some (js ''T'')) True (stream_initial True 30)"
  have "stream_step cleaned_up Effect (stream_initial True 30) ?st"
    by (rule ss_effect) (simp add: cleaned_up_def stream_initial_def)
  from stream_invariant [OF stream_run.intros(2) [OF stream_run.intros(1) this]]
  show ?thesis by blast
qed

text \<open>C33: In every state that is reached, through connections that open, are lost and retried, cleanups,
  new runs of the effect and frames that are no JSON, the list holds the newest \<open>max\<close> rows of all that
  were received since it was last cleared, the newest first, and the total counts all of those.\<close>

theorem stream_keeps_newest:
  assumes "stream_run may_run (stream_initial enabled m) evs st"
  shows "st_events st = take m (rev (received evs)) \<and> st_total st = int (length (received evs))"
proof -
  have "st_events st = take m (rev (received evs)) \<and> st_total st = int (length (received evs)) \<and> st_maxRef st = m"
    using assms
  proof (induction rule: stream_run.induct)
    case 1
    show ?case by (simp add: stream_initial_def)
  next
    case (2 evs st' e st'')
    from 2(2,3) show ?case
      by (induction rule: stream_step.induct)
        (auto simp: run_effect_def connect_def cleanup_def onopen_def onmessage_def onclose_def retry_def
          reset_def Let_def take_Cons take_take split: option.splits nat.splits)
  qed
  then show ?thesis by simp
qed

definition sample_row :: "string \<Rightarrow> AuditLiveRow" where
  "sample_row i = \<lparr>lr_request_id = js i, lr_created_at = [], lr_api_key_label = [], lr_protocol = [],
     lr_model_alias = [], lr_upstream_provider = [], lr_upstream_model = [], lr_prompt_tokens = 1,
     lr_completion_tokens = 2, lr_latency_ms = 3, lr_status = js ''ok'', lr_blocked = False,
     lr_block_category = [], lr_block_reason = []\<rparr>"

lemma stream_keeps_newest_witness:
  "st_events (fold (\<lambda>r. onmessage (Some r)) [sample_row ''a'', sample_row ''b'', sample_row ''c'']
     (run_effect True (js ''h'') (Some (js ''T'')) True (stream_initial True 2)))
   = [sample_row ''c'', sample_row ''b'']"
proof -
  define s0 where "s0 = run_effect True (js ''h'') (Some (js ''T'')) True (stream_initial True 2)"
  let ?m = "\<lambda>i. onmessage (Some (sample_row i))"
  have run0: "stream_run cleaned_up (stream_initial True 2) [Effect] s0"
    using stream_run.intros(2) [OF stream_run.intros(1) ss_effect, of cleaned_up "stream_initial True 2"]
    by (simp add: s0_def cleaned_up_def stream_initial_def)
  have "length (st_sockets s0) = 1" "\<not> so_closed (st_sockets s0 ! 0)"
    unfolding s0_def by (code_simp, code_simp)
  then have more: "stream_run cleaned_up (stream_initial True 2) (evs @ [Frame (Some (sample_row i))]) (?m i st)"
    if "stream_run cleaned_up (stream_initial True 2) evs st" "st_sockets st = st_sockets s0" for evs st i
    by (intro stream_run.intros(2) [OF that(1)] ss_message [of 0]) (simp_all add: that(2))
  have "stream_run cleaned_up (stream_initial True 2)
      ((([Effect] @ [Frame (Some (sample_row ''a''))]) @ [Frame (Some (sample_row ''b''))]) @ [Frame (Some (sample_row ''c''))])
      (?m ''c'' (?m ''b'' (?m ''a'' s0)))"
    by (intro more run0) (simp_all add: onmessage_def)
  from stream_keeps_newest [OF this] show ?thesis by (simp add: received_def s0_def [symmetric])
qed

text \<open>Pausing freezes what is shown: rows that arrive meanwhile change nothing but the badge,
  which counts them; resuming shows the newest rows, and clearing shows none and counts from zero.\<close>

theorem pause_freezes_card:
  assumes "lc_frozen lc = None" "length (st_events st) \<le> st_maxRef st"
  shows "let lc' = toggle_pause lc st; st' = receive_all rows st
    in shown lc' st' = st_events st \<and> pending lc' st' = int (length rows)
       \<and> shown (toggle_pause lc' st') st' = take (st_maxRef st) (rev rows @ st_events st)
       \<and> pending (toggle_pause lc' st') st' = 0
       \<and> shown (fst (clear_card lc' st')) (snd (clear_card lc' st')) = []
       \<and> st_total (snd (clear_card lc' st')) = 0"
  using assms receive_all_events [OF assms(2), of rows]
  by (simp add: toggle_pause_def shown_def pending_def clear_card_def reset_def Let_def)

lemma pause_freezes_card_witness:
  "pending (toggle_pause card_initial (stream_initial True 2))
     (receive_all [sample_row ''a'', sample_row ''b'', sample_row ''c''] (stream_initial True 2)) = 3"
  using pause_freezes_card [of card_initial "stream_initial True 2" "[sample_row ''a'', sample_row ''b'', sample_row ''c'']"]
  by (simp add: card_initial_def stream_initial_def Let_def)

text \<open>C32: As long as the session keeps its token and the card is enabled, the stream never gets stuck: in
  every reachable state each connection in use either is open or has a retry pending, and the firing of
  that retry opens a socket, whose opening shows the stream as live without losing a row.\<close>

theorem stream_reconnects:
  assumes "(live_step tok)\<^sup>*\<^sup>* (stream_initial True m) st" "usable tok"
    and "c < length (st_closures st)" "\<not> cl_closedByUs (st_closures st ! c)"
  shows "open_sockets c st \<noteq> {} \<or>
    (cl_retryTimer (st_closures st ! c)
     \<and> (let st' = retry https host (Some tok) c st in
          live_step tok st st' \<and> open_sockets c st' \<noteq> {} \<and> live_step tok st' (onopen st')
          \<and> st_phase (onopen st') = Live \<and> st_events (onopen st') = st_events st))"
proof -
  have "progress_inv (stream_initial True m)" by (simp add: progress_inv_def stream_initial_def)
  then have inv: "progress_inv st" using progress_run [OF assms(1,2) stream_inv_initial] by blast
  show ?thesis
  proof (cases "open_sockets c st = {}")
    case True
    then have timer: "cl_retryTimer (st_closures st ! c)" and en: "st_enabledRef st"
      using inv assms(3,4) by (auto simp: progress_inv_def)
    let ?off = "st\<lparr>st_closures := (st_closures st)[c := (st_closures st ! c)\<lparr>cl_retryTimer := False\<rparr>]\<rparr>"
    let ?st = "retry https host (Some tok) c st"
    have open_c: "open_sockets c ?st \<noteq> {}"
      unfolding retry_def
      by (rule conjunct2 [OF progress_connect])
        (use inv assms(2,3) in \<open>auto simp: progress_inv_def nth_list_update\<close>)
    obtain n where "n < length (st_sockets ?st)" "\<not> so_closed (st_sockets ?st ! n)"
      using open_c by (auto simp: open_sockets_def)
    then have "live_step tok ?st (onopen ?st)" by (rule ls_open)
    moreover have "st_events ?st = st_events st"
      using connect_opens [of ?off tok c https host] en assms(2,3) by (auto simp: retry_def)
    ultimately show ?thesis
      using ls_retry [OF assms(3) timer] timer open_c by (simp add: Let_def onopen_def)
  qed simp
qed

lemma stream_reconnects_witness:
  "open_sockets 0 (run_effect True (js ''h'') (Some (js ''T'')) True (stream_initial True 5)) \<noteq> {}"
proof -
  let ?st = "run_effect True (js ''h'') (Some (js ''T'')) True (stream_initial True 5)"
  have u: "usable (js ''T'')" unfolding usable_def by code_simp
  have run: "(live_step (js ''T''))\<^sup>*\<^sup>* (stream_initial True 5) ?st"
    by (rule r_into_rtranclp) (rule ls_effect)
  have st: "length (st_closures ?st) = 1" "\<not> cl_closedByUs (st_closures ?st ! 0)" "\<not> cl_retryTimer (st_closures ?st ! 0)"
    by (code_simp, code_simp, code_simp)
  from stream_reconnects [OF run u, of 0] st show ?thesis by simp
qed

text \<open>A retry that finds no token gives up for good.\<close>

lemma retry_without_token:
  "open_sockets c st = {} \<Longrightarrow> c < length (st_closures st) \<Longrightarrow>
     open_sockets c (retry https host None c st) = {}
     \<and> \<not> cl_retryTimer (st_closures (retry https host None c st) ! c)"
  by (simp add: retry_def connect_def)

end
