(* ===== verification/JsonText.thy ===== *)
theory JsonText
  imports JsNumber
begin

text \<open>
  \<open>JSON.parse\<close> and \<open>JSON.stringify\<close>, which frontend/src uses on the restrictions of an API key and
  in frontend/src/components/JsonView.tsx. A value at run time is a \<open>jsval\<close>; an object lists its
  properties in the order of enumeration. The parser runs on fuel; \<open>parse_fuel\<close> shows that the
  fuel \<open>JSON_parse\<close> gives it is enough, whatever the text.
\<close>

datatype jsval = VNull | VBool bool | VNum jsnum | VStr jsstring | VArr "jsval list"
  | VObj "(jsstring \<times> jsval) list"

section \<open>JSON.parse\<close>

definition json_ws :: "cu \<Rightarrow> bool" where
  "json_ws u \<longleftrightarrow> u = 9 \<or> u = 10 \<or> u = 13 \<or> u = 32"

definition skip :: "jsstring \<Rightarrow> jsstring" where
  "skip s = dropWhile json_ws s"

definition hex4 :: "cu \<Rightarrow> cu \<Rightarrow> cu \<Rightarrow> cu \<Rightarrow> cu option" where
  "hex4 a b c d =
     (case (radix_digit 16 a, radix_digit 16 b, radix_digit 16 c, radix_digit 16 d) of
        (Some w, Some x, Some y, Some z) \<Rightarrow> Some (of_int (4096 * w + 256 * x + 16 * y + z))
      | _ \<Rightarrow> None)"

definition simple_escape :: "cu \<Rightarrow> cu option" where
  "simple_escape u =
     (if u = 34 \<or> u = 92 \<or> u = 47 then Some u
      else if u = 98 then Some 8 else if u = 102 then Some 12 else if u = 110 then Some 10
      else if u = 114 then Some 13 else if u = 116 then Some 9 else None)"

definition cons_fst :: "'a \<Rightarrow> ('a list \<times> 'b) option \<Rightarrow> ('a list \<times> 'b) option" where
  "cons_fst x = map_option (\<lambda>p. (x # fst p, snd p))"

text \<open>The text of a string after its opening quote, up to the closing one.\<close>

fun parse_str :: "jsstring \<Rightarrow> (jsstring \<times> jsstring) option" where
  "parse_str [] = None"
| "parse_str [c] = (if c = 34 then Some ([], []) else None)"
| "parse_str (c # e # s) =
     (if c = 34 then Some ([], e # s)
      else if c = 92 then
        if e = 117 then
          (case s of
             h1 # h2 # h3 # h4 # s' \<Rightarrow>
               (case hex4 h1 h2 h3 h4 of None \<Rightarrow> None | Some u \<Rightarrow> cons_fst u (parse_str s'))
           | _ \<Rightarrow> None)
        else (case simple_escape e of None \<Rightarrow> None | Some u \<Rightarrow> cons_fst u (parse_str s))
      else if c < 32 then None
      else cons_fst c (parse_str (e # s)))"

text \<open>A number: the characters a number may have, then the grammar of the literal.\<close>

definition num_char :: "cu \<Rightarrow> bool" where
  "num_char u \<longleftrightarrow> is_digit u \<or> u = 43 \<or> u = 45 \<or> u = 46 \<or> u = 69 \<or> u = 101"

definition json_number :: "jsstring \<Rightarrow> bool" where
  "json_number tok =
     (let body = (if tok \<noteq> [] \<and> hd tok = 45 then tl tok else tok);
          ip = takeWhile is_digit body; r1 = dropWhile is_digit body;
          dot = (r1 \<noteq> [] \<and> hd r1 = 46);
          fp = (if dot then takeWhile is_digit (tl r1) else []);
          r2 = (if dot then dropWhile is_digit (tl r1) else r1)
      in ip \<noteq> [] \<and> (hd ip = 48 \<longrightarrow> tl ip = []) \<and> (dot \<longrightarrow> fp \<noteq> []) \<and> exponent_part r2 \<noteq> None)"

definition parse_num :: "jsstring \<Rightarrow> (jsval \<times> jsstring) option" where
  "parse_num s =
     (let tok = takeWhile num_char s in
      if json_number tok then Some (VNum (decimal_number tok), dropWhile num_char s) else None)"

text \<open>
  The object of a list of members: a repeated name keeps its place and takes the last value; names
  that are array indices come first, in ascending order.
\<close>

fun put_member :: "jsstring \<Rightarrow> jsval \<Rightarrow> (jsstring \<times> jsval) list \<Rightarrow> (jsstring \<times> jsval) list" where
  "put_member k v [] = [(k, v)]"
| "put_member k v ((k', v') # ms) = (if k = k' then (k, v) # ms else (k', v') # put_member k v ms)"

definition index_name :: "jsstring \<Rightarrow> bool" where
  "index_name k \<longleftrightarrow> k \<noteq> [] \<and> list_all is_digit k \<and> (hd k = 48 \<longrightarrow> tl k = []) \<and> digits_val k < 2 ^ 32 - 1"

definition mk_obj :: "(jsstring \<times> jsval) list \<Rightarrow> jsval" where
  "mk_obj es =
     (let ms = fold (\<lambda>(k, v). put_member k v) es [] in
      VObj (sort_key (digits_val \<circ> fst) (filter (index_name \<circ> fst) ms) @ filter (Not \<circ> index_name \<circ> fst) ms))"

definition parse_word :: "jsstring \<Rightarrow> (jsval \<times> jsstring) option" where
  "parse_word s =
     (if starts_with s (js ''true'') then Some (VBool True, drop 4 s)
      else if starts_with s (js ''false'') then Some (VBool False, drop 5 s)
      else if starts_with s (js ''null'') then Some (VNull, drop 4 s)
      else parse_num s)"

text \<open>A value, the elements of an array after its bracket, the members of an object after its brace.\<close>

fun pv :: "nat \<Rightarrow> jsstring \<Rightarrow> (jsval \<times> jsstring) option"
  and pa :: "nat \<Rightarrow> jsstring \<Rightarrow> (jsval list \<times> jsstring) option"
  and po :: "nat \<Rightarrow> jsstring \<Rightarrow> ((jsstring \<times> jsval) list \<times> jsstring) option"
where
  "pv 0 s = None"
| "pv (Suc n) s =
     (case skip s of
        [] \<Rightarrow> None
      | c # r \<Rightarrow>
          if c = 34 then map_option (\<lambda>(x, r'). (VStr x, r')) (parse_str r)
          else if c = 91 then
            if starts_with (skip r) [93] then Some (VArr [], tl (skip r))
            else map_option (\<lambda>(vs, r'). (VArr vs, r')) (pa n r)
          else if c = 123 then
            if starts_with (skip r) [125] then Some (VObj [], tl (skip r))
            else map_option (\<lambda>(ms, r'). (mk_obj ms, r')) (po n r)
          else parse_word (c # r))"
| "pa 0 s = None"
| "pa (Suc n) s =
     (case pv n s of
        None \<Rightarrow> None
      | Some (v, r) \<Rightarrow>
          (case skip r of
             [] \<Rightarrow> None
           | d # r' \<Rightarrow> if d = 93 then Some ([v], r') else if d = 44 then cons_fst v (pa n r') else None))"
| "po 0 s = None"
| "po (Suc n) s =
     (case skip s of
        [] \<Rightarrow> None
      | q # r0 \<Rightarrow>
          if q \<noteq> 34 then None
          else case parse_str r0 of
            None \<Rightarrow> None
          | Some (k, r1) \<Rightarrow>
              (case skip r1 of
                 [] \<Rightarrow> None
               | c # r2 \<Rightarrow>
                   if c \<noteq> 58 then None
                   else case pv n r2 of
                     None \<Rightarrow> None
                   | Some (v, r3) \<Rightarrow>
                       (case skip r3 of
                          [] \<Rightarrow> None
                        | d # r4 \<Rightarrow> if d = 125 then Some ([(k, v)], r4)
                                   else if d = 44 then cons_fst (k, v) (po n r4) else None)))"

definition JSON_parse :: "jsstring \<Rightarrow> jsval option" where
  "JSON_parse s =
     (case pv (2 * length s + 1) s of
        Some (v, r) \<Rightarrow> if skip r = [] then Some v else None
      | None \<Rightarrow> None)"

section \<open>JSON.stringify\<close>

definition hex_digit :: "int \<Rightarrow> cu" where
  "hex_digit d = (if d < 10 then of_int (48 + d) else of_int (87 + d))"

definition unicode_escape :: "cu \<Rightarrow> jsstring" where
  "unicode_escape u =
     (let n = uint u in
      [92, 117, hex_digit (n div 4096), hex_digit (n div 256 mod 16), hex_digit (n div 16 mod 16), hex_digit (n mod 16)])"

definition high_surrogate :: "cu \<Rightarrow> bool" where
  "high_surrogate u \<longleftrightarrow> 0xD800 \<le> u \<and> u \<le> 0xDBFF"

definition low_surrogate :: "cu \<Rightarrow> bool" where
  "low_surrogate u \<longleftrightarrow> 0xDC00 \<le> u \<and> u \<le> 0xDFFF"

definition quote_unit :: "cu \<Rightarrow> jsstring" where
  "quote_unit u =
     (if u = 34 \<or> u = 92 then [92, u]
      else if u = 8 then [92, 98] else if u = 9 then [92, 116] else if u = 10 then [92, 110]
      else if u = 12 then [92, 102] else if u = 13 then [92, 114]
      else if u < 32 \<or> high_surrogate u \<or> low_surrogate u then unicode_escape u
      else [u])"

fun quote_body :: "jsstring \<Rightarrow> jsstring" where
  "quote_body [] = []"
| "quote_body [c] = quote_unit c"
| "quote_body (c # d # s) =
     (if high_surrogate c \<and> low_surrogate d then c # d # quote_body s else quote_unit c @ quote_body (d # s))"

definition quote :: "jsstring \<Rightarrow> jsstring" where
  "quote s = 34 # quote_body s @ [34]"

fun num_text :: "jsnum \<Rightarrow> jsstring" where
  "num_text (Fin x) = num_to_string (Fin x)"
| "num_text _ = js ''null''"

text \<open>
  The serialisation of a value, on one line or with one member per line and two more spaces for
  each level (\<open>ind\<close> is the indentation so far).
\<close>

definition pad :: "bool \<Rightarrow> nat \<Rightarrow> jsstring" where
  "pad nl i = (if nl then 10 # replicate i 32 else [])"

definition block :: "bool \<Rightarrow> cu \<Rightarrow> cu \<Rightarrow> nat \<Rightarrow> jsstring list \<Rightarrow> jsstring" where
  "block nl l r ind ps =
     (if ps = [] then [l, r]
      else l # pad nl (ind + 2) @ join (44 # pad nl (ind + 2)) ps @ pad nl ind @ [r])"

fun serialize :: "bool \<Rightarrow> nat \<Rightarrow> jsval \<Rightarrow> jsstring" where
  "serialize nl ind VNull = js ''null''"
| "serialize nl ind (VBool b) = (if b then js ''true'' else js ''false'')"
| "serialize nl ind (VNum x) = num_text x"
| "serialize nl ind (VStr s) = quote s"
| "serialize nl ind (VArr vs) = block nl 91 93 ind (map (serialize nl (ind + 2)) vs)"
| "serialize nl ind (VObj ms) =
     block nl 123 125 ind
       (map (\<lambda>(k, v). quote k @ 58 # (if nl then [32] else []) @ serialize nl (ind + 2) v) ms)"

text \<open>\<open>JSON.stringify(v)\<close> and \<open>JSON.stringify(v, null, 2)\<close>\<close>

definition stringify :: "jsval \<Rightarrow> jsstring" where
  "stringify v = serialize False 0 v"

definition pretty :: "jsval \<Rightarrow> jsstring" where
  "pretty v = serialize True 0 v"

lemmas json_text_defs [js_eval] = json_ws_def skip_def hex4_def simple_escape_def cons_fst_def
  num_char_def json_number_def parse_num_def index_name_def mk_obj_def parse_word_def
  JSON_parse_def hex_digit_def unicode_escape_def high_surrogate_def low_surrogate_def
  quote_unit_def quote_def pad_def block_def stringify_def pretty_def

section \<open>The fuel is enough\<close>

lemma skip_shorter: "length (skip s) \<le> length s"
  by (simp add: skip_def length_dropWhile_le)

lemma skip_Cons: "skip s = c # r \<Longrightarrow> length r < length s"
  using skip_shorter [of s] by simp

lemma cons_fst_Some [simp]:
  "cons_fst x p = Some (ys, r) \<longleftrightarrow> (\<exists>zs. ys = x # zs \<and> p = Some (zs, r))" "cons_fst x p = None \<longleftrightarrow> p = None"
  by (auto simp: cons_fst_def)

lemma parse_str_shorter: "parse_str s = Some (x, r) \<Longrightarrow> length r < length s"
  by (induction s arbitrary: x r rule: parse_str.induct)
    (fastforce split: if_splits option.splits list.splits)+

lemma parse_num_shorter:
  assumes "parse_num s = Some (v, r)" shows "length r < length s"
proof -
  have t: "takeWhile num_char s \<noteq> []" and r: "r = dropWhile num_char s"
    using assms by (auto simp: parse_num_def json_number_def Let_def split: if_splits)
  have "length (takeWhile num_char s) + length r = length s"
    unfolding r by (metis length_append takeWhile_dropWhile_id)
  with t show ?thesis by (cases "takeWhile num_char s") auto
qed

lemma starts_with_length: "starts_with s p \<Longrightarrow> length p \<le> length s"
  by (induction s p rule: starts_with.induct) auto

lemma parse_word_shorter: "parse_word s = Some (v, r) \<Longrightarrow> length r < length s"
  by (auto simp: parse_word_def parse_num_shorter split: if_splits dest!: starts_with_length)

lemma parse_shorter:
  "pv n s = Some (v, r) \<Longrightarrow> length r < length s"
  "pa n s = Some (vs, r) \<Longrightarrow> length r < length s"
  "po n s = Some (ms, r) \<Longrightarrow> length r < length s"
proof (induction n s and n s and n s arbitrary: v r and vs r and ms r rule: pv_pa_po.induct)
  case (2 n s)
  then obtain c t where s: "skip s = c # t" by (auto split: list.splits)
  note l = skip_Cons [OF s] skip_shorter [of t]
  have e: "length (tl (skip t)) \<le> length t" using l(2) by simp
  show ?case
    using "2.prems" s l e "2.IH" parse_str_shorter [of t] parse_word_shorter [of "c # t"] skip_shorter [of s]
    by (fastforce split: if_splits)
next
  case (4 n s)
  then obtain v r1 d r' where 1: "pv n s = Some (v, r1)" "skip r1 = d # r'"
    by (auto split: option.splits list.splits)
  with "4.IH"(1) skip_Cons [OF 1(2)] have "length r' < length s" by fastforce
  with 1 "4.prems" "4.IH"(2) [OF 1(1) refl 1(2)] show ?case
    by (fastforce split: if_splits)
next
  case (6 n s)
  then obtain r0 k r1 r2 v r3 d r4 where 1: "skip s = 34 # r0" "parse_str r0 = Some (k, r1)"
    "skip r1 = 58 # r2" "pv n r2 = Some (v, r3)" "skip r3 = d # r4"
    by (auto split: option.splits list.splits if_splits)
  have "length r3 < length r2" using "6.IH"(1) 1 by simp
  with parse_str_shorter [OF 1(2)] skip_Cons [OF 1(1)] skip_Cons [OF 1(3)] skip_Cons [OF 1(5)]
  have "length r4 < length s" by linarith
  with 1 "6.prems" "6.IH"(2) show ?case
    by (fastforce split: if_splits)
qed simp_all

declare pv.simps(2) [simp del] pa.simps(2) [simp del] po.simps(2) [simp del]

lemma parse_fuel_step:
  "2 * length s < n \<Longrightarrow> pv (Suc n) s = pv n s"
  "2 * length s + 1 < n \<Longrightarrow> pa (Suc n) s = pa n s"
  "2 * length s + 1 < n \<Longrightarrow> po (Suc n) s = po n s"
proof (induction n s and n s and n s rule: pv_pa_po.induct)
  case (2 n s)
  note unf = pv.simps(2) [of "Suc n" s] pv.simps(2) [of n s]
  show ?case
  proof (cases "skip s")
    case (Cons c t)
    with skip_Cons [OF Cons] "2.prems" have "2 * length t + 1 < n" by linarith
    with "2.IH" Cons show ?thesis by (simp add: unf)
  qed (simp add: unf)
next
  case (4 n s)
  note unf = pa.simps(2) [of "Suc n" s] pa.simps(2) [of n s]
  have 1: "pv (Suc n) s = pv n s" using 4 by simp
  show ?case
  proof (cases "\<exists>v r r'. pv n s = Some (v, r) \<and> skip r = 44 # r'")
    case True
    then obtain v r r' where 2: "pv n s = Some (v, r)" "skip r = 44 # r'" by blast
    have "2 * length r' + 1 < n"
      using parse_shorter(1) [OF 2(1)] skip_Cons [OF 2(2)] "4.prems" by linarith
    then have "pa (Suc n) r' = pa n r'" using "4.IH"(2) 2 by simp
    with 1 2 show ?thesis by (simp add: unf)
  next
    case False
    with 1 show ?thesis by (auto simp: unf split: option.splits list.splits)
  qed
next
  case (6 n s)
  note unf = po.simps(2) [of "Suc n" s] po.simps(2) [of n s]
  show ?case
  proof (cases "\<exists>r0 k r1 r2. skip s = 34 # r0 \<and> parse_str r0 = Some (k, r1) \<and> skip r1 = 58 # r2")
    case True
    then obtain r0 k r1 r2 where 1: "skip s = 34 # r0" "parse_str r0 = Some (k, r1)" "skip r1 = 58 # r2"
      by blast
    note l = parse_str_shorter [OF 1(2)] skip_Cons [OF 1(1)] skip_Cons [OF 1(3)]
    have v: "pv (Suc n) r2 = pv n r2" using "6.IH"(1) 1 l "6.prems" by simp
    show ?thesis
    proof (cases "\<exists>v r3 r4. pv n r2 = Some (v, r3) \<and> skip r3 = 44 # r4")
      case True
      then obtain w r3 r4 where 2: "pv n r2 = Some (w, r3)" "skip r3 = 44 # r4" by blast
      have "2 * length r4 + 1 < n"
        using parse_shorter(1) [OF 2(1)] skip_Cons [OF 2(2)] l "6.prems" by linarith
      then have "po (Suc n) r4 = po n r4" using "6.IH"(2) 1 2 by simp
      with 1 2 v show ?thesis by (simp add: unf)
    next
      case False
      then have "(case skip r3 of [] \<Rightarrow> None | d # r4 \<Rightarrow> if d = 125 then Some ([(k, w)], r4)
            else if d = 44 then cons_fst (k, w) (f r4) else None)
          = (case skip r3 of [] \<Rightarrow> None | d # r4 \<Rightarrow> if d = 125 then Some ([(k, w)], r4) else None)"
        if "pv n r2 = Some (w, r3)" for w r3 f
        using that by (cases "skip r3") auto
      with 1 v show ?thesis by (cases "pv n r2") (auto simp: unf)
    qed
  next
    case False
    then have "po (Suc m) s = None" for m
      by (auto simp: po.simps(2) split: option.split list.split)
    then show ?thesis by simp
  qed
qed simp_all

text \<open>More fuel than \<open>JSON_parse\<close> gives never changes the result: a failure is a syntax error.\<close>

lemma parse_fuel:
  "2 * length s + 1 \<le> n \<Longrightarrow> pv n s = pv (2 * length s + 1) s"
proof (induction n rule: dec_induct)
  case (step n)
  then show ?case using parse_fuel_step(1) [of s n] by simp
qed simp

lemma JSON_parse_fuel:
  "2 * length s + 1 \<le> n \<Longrightarrow>
     JSON_parse s = (case pv n s of Some (v, r) \<Rightarrow> if skip r = [] then Some v else None | None \<Rightarrow> None)"
  using parse_fuel [of s n] by (simp only: JSON_parse_def)

section \<open>Strings are printed and read back\<close>

lemma hex_digit_back: "0 \<le> d \<Longrightarrow> d < 16 \<Longrightarrow> radix_digit 16 (hex_digit d) = Some d"
  by (simp add: hex_digit_def radix_digit_def word_le_def uint_of_int16 del: of_int_add)

lemma hex4_back:
  fixes u :: cu
  shows "hex4 (hex_digit (uint u div 4096)) (hex_digit (uint u div 256 mod 16)) (hex_digit (uint u div 16 mod 16))
     (hex_digit (uint u mod 16)) = Some u"
proof -
  define n where "n = uint u"
  have n: "0 \<le> n" "n < 65536" using uint_bounded [of u] by (simp_all add: n_def)
  have "4096 * (n div 4096) + 256 * (n div 256 mod 16) + 16 * (n div 16 mod 16) + n mod 16 = n"
  proof -
    have "n div 16 div 16 = n div 256" "n div 256 div 16 = n div 4096"
      by (simp_all add: div_mult2_eq [symmetric] zdiv_zmult2_eq [symmetric])
    then show ?thesis
      using mult_div_mod_eq [of 16 n] mult_div_mod_eq [of 16 "n div 16"] mult_div_mod_eq [of 16 "n div 256"]
      by linarith
  qed
  moreover have "radix_digit 16 (hex_digit (n div 4096)) = Some (n div 4096)"
    using n by (intro hex_digit_back) auto
  moreover have "radix_digit 16 (hex_digit (m mod 16)) = Some (m mod 16)" for m
    by (intro hex_digit_back) auto
  ultimately have "hex4 (hex_digit (n div 4096)) (hex_digit (n div 256 mod 16)) (hex_digit (n div 16 mod 16))
     (hex_digit (n mod 16)) = Some (of_int n)"
    by (simp only: hex4_def option.case prod.case)
  then show ?thesis by (simp add: n_def)
qed

lemma quote_unit_back: "parse_str (quote_unit u @ s) = cons_fst u (parse_str s)"
proof -
  have plain: "parse_str (u # s) = cons_fst u (parse_str s)" if "u \<noteq> 34" "u \<noteq> 92" "\<not> u < 32"
    using that by (cases s) (auto simp: cons_fst_def)
  show ?thesis
    using plain by (simp add: quote_unit_def unicode_escape_def simple_escape_def hex4_back Let_def)
qed

lemma parse_quote: "parse_str (quote_body x @ 34 # s) = Some (x, s)"
proof (induction x rule: quote_body.induct)
  case 1
  then show ?case by (cases s) simp_all
next
  case (2 c)
  have "parse_str (34 # s) = Some ([], s)" by (cases s) simp_all
  then show ?case by (simp add: quote_unit_back del: parse_str.simps)
next
  case (3 c d x)
  have sur: "u \<noteq> 34 \<and> u \<noteq> 92 \<and> \<not> u < 32" if "high_surrogate u \<or> low_surrogate u" for u
    using that by (auto simp: high_surrogate_def low_surrogate_def word_le_nat_alt word_less_nat_alt)
  show ?case
  proof (cases "high_surrogate c \<and> low_surrogate d")
    case True
    have "parse_str (u # t) = cons_fst u (parse_str t)" if "high_surrogate u \<or> low_surrogate u" for u t
      using sur [OF that] by (cases t) (auto simp: cons_fst_def)
    with True 3 show ?thesis by (simp del: parse_str.simps)
  next
    case False
    then have "quote_body (c # d # x) = quote_unit c @ quote_body (d # x)" by auto
    with 3 False show ?thesis by (simp add: quote_unit_back del: parse_str.simps quote_body.simps)
  qed
qed


section \<open>Values are printed and read back\<close>

text \<open>
  The values the round trip covers: whole numbers a double holds exactly, and objects in the order
  an object has, without repeated names and without names that are array indices.
\<close>

fun plain_value :: "jsval \<Rightarrow> bool" where
  "plain_value (VNum (Fin x)) = (is_Integer (Fin x) \<and> \<bar>x\<bar> \<le> 2 ^ 53)"
| "plain_value (VNum _) = False"
| "plain_value (VArr vs) = (\<forall>v \<in> set vs. plain_value v)"
| "plain_value (VObj ms) = (distinct (map fst ms) \<and> (\<forall>m \<in> set ms. \<not> index_name (fst m) \<and> plain_value (snd m)))"
| "plain_value _ = True"

definition ended :: "jsstring \<Rightarrow> bool" where
  "ended s \<longleftrightarrow> s = [] \<or> \<not> num_char (hd s)"

lemma skip_ws: "list_all json_ws w \<Longrightarrow> skip (w @ s) = skip s"
  by (induction w) (auto simp: skip_def)

lemma skip_plain [simp]: "\<not> json_ws c \<Longrightarrow> skip (c # s) = c # s"
  by (simp add: skip_def)

lemma not_ws [simp]: "\<not> json_ws 34" "\<not> json_ws 44" "\<not> json_ws 58" "\<not> json_ws 91" "\<not> json_ws 93"
  "\<not> json_ws 123" "\<not> json_ws 125"
  by (simp_all add: json_ws_def)

lemma pv_ws: "list_all json_ws w \<Longrightarrow> pv n (w @ s) = pv n s"
  by (cases n) (simp_all add: pv.simps(2) skip_ws)

lemma po_ws: "list_all json_ws w \<Longrightarrow> po n (w @ s) = po n s"
  by (cases n) (simp_all add: po.simps(2) skip_ws)

lemma pa_ws: "list_all json_ws w \<Longrightarrow> pa n (w @ s) = pa n s"
  by (cases n) (simp_all add: pa.simps(2) pv_ws)

lemma pad_ws: "list_all json_ws (pad nl i)"
  by (auto simp: pad_def json_ws_def list_all_iff)

lemma dec_leading: "0 \<le> n \<Longrightarrow> hd (dec n) = 48 \<Longrightarrow> dec n = [48]"
proof (induction n rule: dec.induct)
  case (1 n)
  show ?case
  proof (cases "n < 10")
    case True
    then have "dec n = [of_int (48 + n)]" by (subst dec.simps) simp
    moreover from this have "(of_int (48 + n) :: cu) = 48" using "1.prems" by simp
    ultimately show ?thesis by metis
  next
    case False
    have d: "dec n = dec (n div 10) @ [of_int (48 + n mod 10)]" using False by (subst dec.simps) simp
    have "dec (n div 10) \<noteq> []" using dec_digits [of "n div 10"] "1.prems" by simp
    with d "1.prems" have "hd (dec (n div 10)) = 48" by simp
    with 1 False have "dec (n div 10) = [48]" by simp
    then have "digits_val (dec (n div 10)) = 0" by (simp add: digits_val_def digit_val_def)
    then have "n div 10 = 0" using digits_val_dec [of "n div 10"] "1.prems" by simp
    with False show ?thesis by simp
  qed
qed

lemma json_number_int: "json_number (int_to_string i)"
proof -
  have base: "json_number (dec n) \<and> json_number (45 # dec n)" if "0 \<le> n" for n
  proof -
    note d = dec_digits [OF that]
    then have t: "takeWhile is_digit (dec n) = dec n" "dropWhile is_digit (dec n) = []"
      by (auto simp: list_all_iff takeWhile_eq_all_conv dropWhile_eq_Nil_conv)
    have "hd (dec n) \<noteq> 45" using d by (cases "dec n") (auto simp: is_digit_def)
    then show ?thesis
      using d(1) dec_leading [OF that]
      by (auto simp: json_number_def Let_def exponent_part_def t list_all_iff)
  qed
  show ?thesis using base [of i] base [of "- i"] by (simp add: int_to_string_def)
qed

lemma int_chars: "list_all num_char (int_to_string i) \<and> int_to_string i \<noteq> []
   \<and> (hd (int_to_string i) = 45 \<or> is_digit (hd (int_to_string i)))"
proof -
  have "list_all num_char (dec n) \<and> dec n \<noteq> [] \<and> is_digit (hd (dec n))" if "0 \<le> n" for n
    using dec_digits [OF that] by (auto simp: list_all_iff num_char_def)
  from this [of i] this [of "- i"] show ?thesis
    by (auto simp: int_to_string_def num_char_def)
qed

lemma decimal_number_int: "\<bar>i\<bar> \<le> 2 ^ 53 \<Longrightarrow> decimal_number (int_to_string i) = Fin (of_int i)"
  using dec_digits [of i] dec_digits [of "- i"] digits_val_dec [of i] digits_val_dec [of "- i"]
    decimal_number_signed [of "dec i" i] decimal_number_signed [of "dec (- i)" "- i"]
  by (cases "i < 0") (auto simp: int_to_string_def)

lemma parse_num_int:
  assumes "\<bar>i\<bar> \<le> 2 ^ 53" "ended rest"
  shows "parse_num (int_to_string i @ rest) = Some (VNum (Fin (of_int i)), rest)"
proof -
  have "takeWhile num_char (int_to_string i @ rest) = int_to_string i"
    "dropWhile num_char (int_to_string i @ rest) = rest"
    using int_chars [of i] assms(2)
    by (cases rest; auto simp: ended_def list_all_iff takeWhile_append dropWhile_append)+
  then show ?thesis using assms(1) by (simp add: parse_num_def json_number_int decimal_number_int)
qed


lemma starts_with_head: "starts_with s (p # q) \<Longrightarrow> s \<noteq> [] \<and> hd s = p"
  by (cases s) auto

lemma parse_word_int:
  assumes "\<bar>i\<bar> \<le> 2 ^ 53" "ended rest"
  shows "parse_word (int_to_string i @ rest) = Some (VNum (Fin (of_int i)), rest)"
proof -
  have "\<not> starts_with (int_to_string i @ rest) (p # q)" if "p \<noteq> 45" "\<not> is_digit p" for p q
    using int_chars [of i] starts_with_head [of _ p q] that by fastforce
  moreover have "\<not> is_digit 116" "\<not> is_digit 102" "\<not> is_digit 110"
    by (simp_all add: is_digit_def)
  ultimately show ?thesis
    using parse_num_int [OF assms] by (simp add: parse_word_def js_def)
qed

text \<open>The first character of a value: never white space, a bracket that closes, or a comma.\<close>

lemma serialize_head:
  assumes "plain_value v"
  obtains c t where "serialize nl ind v = c # t" "\<not> json_ws c" "c \<noteq> 93" "c \<noteq> 125"
proof -
  have num: "\<exists>c t. int_to_string i = c # t \<and> \<not> json_ws c \<and> c \<noteq> 93 \<and> c \<noteq> 125" for i
  proof -
    obtain c t where "int_to_string i = c # t" using int_chars [of i] by (cases "int_to_string i") auto
    moreover from this int_chars [of i] have "\<not> json_ws c \<and> c \<noteq> 93 \<and> c \<noteq> 125"
      by (auto simp: json_ws_def is_digit_def)
    ultimately show ?thesis by blast
  qed
  have "\<exists>c t. serialize nl ind v = c # t \<and> \<not> json_ws c \<and> c \<noteq> 93 \<and> c \<noteq> 125"
  proof (cases v)
    case (VNum x)
    with assms obtain y where y: "x = Fin y" "of_int \<lfloor>y\<rfloor> = y" "\<bar>y\<bar> \<le> 2 ^ 53" by (cases x) auto
    then have "num_to_string (Fin y) = int_to_string \<lfloor>y\<rfloor>" by simp
    with num [of "\<lfloor>y\<rfloor>"] VNum y show ?thesis by (simp del: num_to_string.simps)
  qed (auto simp: js_def json_ws_def quote_def block_def)
  then show ?thesis using that by blast
qed

lemma mk_obj_plain:
  assumes "distinct (map fst ms)" "\<forall>m \<in> set ms. \<not> index_name (fst m)"
  shows "mk_obj ms = VObj ms"
proof -
  have put: "k \<notin> fst ` set acc \<Longrightarrow> put_member k v acc = acc @ [(k, v)]" for k v acc
    by (induction acc) auto
  have "distinct (map fst (acc @ es)) \<Longrightarrow> fold (\<lambda>(k, v). put_member k v) es acc = acc @ es" for acc es
  proof (induction es arbitrary: acc)
    case (Cons m es)
    then show ?case using Cons.IH [of "acc @ [m]"] by (cases m) (auto simp: put)
  qed simp
  from this [of "[]" ms] assms have "fold (\<lambda>(k, v). put_member k v) ms [] = ms" by simp
  moreover have "filter (index_name \<circ> fst) ms = []" "filter (Not \<circ> index_name \<circ> fst) ms = ms"
    using assms(2) by (auto simp: filter_empty_conv filter_id_conv)
  ultimately show ?thesis by (simp add: mk_obj_def)
qed

definition reads :: "(nat \<Rightarrow> jsstring) \<Rightarrow> jsval \<Rightarrow> bool" where
  "reads f v \<longleftrightarrow> (\<forall>ind n rest. ended rest \<longrightarrow> 2 * length (f ind @ rest) < n \<longrightarrow> pv n (f ind @ rest) = Some (v, rest))"

lemma ended_ws: "list_all json_ws w \<Longrightarrow> ended s \<Longrightarrow> ended (w @ s)"
  by (cases w) (auto simp: ended_def json_ws_def num_char_def is_digit_def)

lemma array_elements:
  assumes "\<forall>v \<in> set vs. reads (\<lambda>ind. serialize nl ind v) v" "vs \<noteq> []" "list_all json_ws w" "list_all json_ws w'"
    "2 * length (join (44 # w) (map (serialize nl ind) vs) @ w' @ 93 # rest) + 1 < n"
  shows "pa n (join (44 # w) (map (serialize nl ind) vs) @ w' @ 93 # rest) = Some (vs, rest)"
  using assms
proof (induction vs arbitrary: n)
  case (Cons v vs)
  then obtain m where n: "n = Suc m" by (cases n) auto
  have v: "pv m (serialize nl ind v @ t) = Some (v, t)"
    if "ended t" "2 * length (serialize nl ind v @ t) < m" for t
    using Cons.prems(1) that by (simp add: reads_def)
  show ?case
  proof (cases vs)
    case Nil
    have "ended (w' @ 93 # rest)"
      using Cons.prems(4) by (intro ended_ws) (simp_all add: ended_def num_char_def is_digit_def)
    then have "pv m (serialize nl ind v @ w' @ 93 # rest) = Some (v, w' @ 93 # rest)"
      using Cons.prems(5) Nil n by (intro v) auto
    then show ?thesis
      using Nil n skip_ws [OF Cons.prems(4)] by (simp add: pa.simps(2))
  next
    case (Cons v' vs')
    let ?t = "join (44 # w) (map (serialize nl ind) vs) @ w' @ 93 # rest"
    have "pv m (serialize nl ind v @ 44 # w @ ?t) = Some (v, 44 # w @ ?t)"
      using Cons.prems(5) Cons n by (intro v) (auto simp: ended_def num_char_def is_digit_def)
    moreover have "pa m ?t = Some (vs, rest)"
      using Cons.prems Cons n by (intro Cons.IH) auto
    ultimately show ?thesis
      using Cons n Cons.prems(3) by (simp add: pa.simps(2) pa_ws)
  qed
qed simp


definition member_text :: "bool \<Rightarrow> nat \<Rightarrow> jsstring \<times> jsval \<Rightarrow> jsstring" where
  "member_text nl ind = (\<lambda>(k, v). quote k @ 58 # (if nl then [32] else []) @ serialize nl ind v)"

lemma object_members:
  assumes "\<forall>m \<in> set ms. reads (\<lambda>ind. serialize nl ind (snd m)) (snd m)" "ms \<noteq> []" "list_all json_ws w"
    "list_all json_ws w'" "2 * length (join (44 # w) (map (member_text nl ind) ms) @ w' @ 125 # rest) + 1 < n"
  shows "po n (join (44 # w) (map (member_text nl ind) ms) @ w' @ 125 # rest) = Some (ms, rest)"
  using assms
proof (induction ms arbitrary: n)
  case (Cons m ms)
  then obtain l where n: "n = Suc l" by (cases n) auto
  obtain k v where m: "m = (k, v)" by force
  let ?sp = "if nl then [32] else ([] :: jsstring)"
  have sp: "list_all json_ws ?sp" by (simp add: json_ws_def)
  have v: "pv l (?sp @ serialize nl ind v @ t) = Some (v, t)"
    if "ended t" "2 * length (serialize nl ind v @ t) < l" for t
    using Cons.prems(1) that m by (simp only: pv_ws [OF sp]) (simp add: reads_def)
  have q: "parse_str (quote_body k @ 34 # t) = Some (k, t)" for t
    by (rule parse_quote)
  have e: "ended (44 # t)" "ended (125 # t)" for t
    by (simp_all add: ended_def num_char_def is_digit_def)
  show ?case
  proof (cases ms)
    case Nil
    have "pv l (?sp @ serialize nl ind v @ w' @ 125 # rest) = Some (v, w' @ 125 # rest)"
      using Cons.prems(5) Nil n m ended_ws [OF Cons.prems(4) e(2)]
      by (intro v) (auto simp: member_text_def quote_def)
    then show ?thesis
      using Nil n m q skip_ws [OF Cons.prems(4)] by (simp add: po.simps(2) member_text_def quote_def)
  next
    case (Cons m' ms')
    let ?t = "join (44 # w) (map (member_text nl ind) ms) @ w' @ 125 # rest"
    have "pv l (?sp @ serialize nl ind v @ 44 # w @ ?t) = Some (v, 44 # w @ ?t)"
      using Cons.prems(5) Cons n m e(1) by (intro v) (auto simp: member_text_def quote_def)
    moreover have "po l ?t = Some (ms, rest)"
      using Cons.prems Cons n m by (intro Cons.IH) (auto simp: member_text_def quote_def)
    ultimately show ?thesis
      using Cons n m q Cons.prems(3) by (simp add: po.simps(2) po_ws member_text_def quote_def)
  qed
qed simp

lemma readsI:
  assumes "\<And>ind rest m. ended rest \<Longrightarrow> 2 * length (f ind @ rest) \<le> m \<Longrightarrow> pv (Suc m) (f ind @ rest) = Some (v, rest)"
  shows "reads f v"
  unfolding reads_def
proof (intro allI impI)
  fix ind rest and n :: nat
  assume "ended rest" "2 * length (f ind @ rest) < n"
  then show "pv n (f ind @ rest) = Some (v, rest)"
    using assms [of rest ind "n - 1"] by (cases n) auto
qed

lemma word_units: "js ''null'' = [110, 117, 108, 108]" "js ''true'' = [116, 114, 117, 101]"
  "js ''false'' = [102, 97, 108, 115, 101]"
  by (simp_all add: js_def)

lemma starts_with_bracket: "skip s = c # t \<Longrightarrow> starts_with (skip s) [b] \<longleftrightarrow> c = b"
  by (simp add: starts_with.simps)

lemma array_reads:
  assumes "\<forall>v \<in> set vs. reads (\<lambda>ind. serialize nl ind v) v \<and> plain_value v"
  shows "reads (\<lambda>ind. serialize nl ind (VArr vs)) (VArr vs)"
proof (rule readsI)
  fix ind rest m
  assume m: "2 * length (serialize nl ind (VArr vs) @ rest) \<le> m"
  show "pv (Suc m) (serialize nl ind (VArr vs) @ rest) = Some (VArr vs, rest)"
  proof (cases vs)
    case (Cons v vs')
    let ?body = "join (44 # pad nl (ind + 2)) (map (serialize nl (ind + 2)) vs) @ pad nl ind @ 93 # rest"
    obtain c t where c: "serialize nl (ind + 2) v = c # t" "\<not> json_ws c" "c \<noteq> 93"
      using assms Cons serialize_head [of v nl "ind + 2"] by (metis list.set_intros(1))
    then obtain t' where b: "?body = c # t'" by (cases vs') (auto simp: Cons)
    have ser: "serialize nl ind (VArr vs) @ rest = 91 # pad nl (ind + 2) @ ?body"
      by (simp add: block_def Cons)
    have "pa m ?body = Some (vs, rest)"
      using assms m Cons ser pad_ws by (intro array_elements) auto
    moreover have "skip (pad nl (ind + 2) @ ?body) = c # t'"
      using b c(2) skip_ws [OF pad_ws] by simp
    ultimately show ?thesis
      unfolding ser using c(3) by (simp add: pv.simps(2) pa_ws [OF pad_ws] starts_with_bracket)
  qed (simp add: block_def pv.simps(2))
qed

lemma object_reads:
  assumes "\<forall>m \<in> set ms. reads (\<lambda>ind. serialize nl ind (snd m)) (snd m)" "plain_value (VObj ms)"
  shows "reads (\<lambda>ind. serialize nl ind (VObj ms)) (VObj ms)"
proof (rule readsI)
  fix ind rest m
  assume m: "2 * length (serialize nl ind (VObj ms) @ rest) \<le> m"
  show "pv (Suc m) (serialize nl ind (VObj ms) @ rest) = Some (VObj ms, rest)"
  proof (cases ms)
    case (Cons v ms')
    let ?body = "join (44 # pad nl (ind + 2)) (map (member_text nl (ind + 2)) ms) @ pad nl ind @ 125 # rest"
    obtain t' where b: "?body = 34 # t'"
      by (cases ms'; cases v) (auto simp: Cons member_text_def quote_def)
    have ser: "serialize nl ind (VObj ms) @ rest = 123 # pad nl (ind + 2) @ ?body"
      by (simp add: block_def Cons member_text_def)
    have "po m ?body = Some (ms, rest)"
      using assms m Cons ser pad_ws by (intro object_members) auto
    moreover have "skip (pad nl (ind + 2) @ ?body) = 34 # t'"
      using b skip_ws [OF pad_ws] by simp
    moreover have "mk_obj ms = VObj ms" using assms(2) by (intro mk_obj_plain) auto
    ultimately show ?thesis
      unfolding ser by (simp add: pv.simps(2) po_ws [OF pad_ws] starts_with_bracket)
  qed (simp add: block_def pv.simps(2))
qed

lemma number_reads:
  assumes "\<bar>i\<bar> \<le> 2 ^ 53"
  shows "reads (\<lambda>ind. serialize nl ind (VNum (Fin (of_int i)))) (VNum (Fin (of_int i)))"
proof (rule readsI)
  fix ind :: nat and rest m
  assume e: "ended rest"
  have t: "serialize nl ind (VNum (Fin (of_int i))) = int_to_string i"
    using assms num_to_string_of_int [of i] by (simp del: num_to_string.simps)
  obtain c r where c: "int_to_string i = c # r" using int_chars [of i] by (cases "int_to_string i") auto
  with int_chars [of i] have "\<not> json_ws c" "c \<noteq> 34" "c \<noteq> 91" "c \<noteq> 123"
    by (auto simp: json_ws_def is_digit_def)
  with parse_word_int [OF assms e] c
  show "pv (Suc m) (serialize nl ind (VNum (Fin (of_int i))) @ rest) = Some (VNum (Fin (of_int i)), rest)"
    unfolding t by (simp add: pv.simps(2))
qed

lemma serialize_reads: "plain_value v \<Longrightarrow> reads (\<lambda>ind. serialize nl ind v) v"
proof (induction v)
  case (VNum x)
  then obtain y where y: "x = Fin y" "of_int \<lfloor>y\<rfloor> = y" "\<bar>y\<bar> \<le> 2 ^ 53" by (cases x) auto
  from y(3) have "\<bar>of_int \<lfloor>y\<rfloor>\<bar> \<le> (of_int (2 ^ 53) :: rat)" unfolding y(2) by simp
  then have "\<bar>\<lfloor>y\<rfloor>\<bar> \<le> 2 ^ 53" by (simp only: of_int_abs [symmetric] of_int_le_iff)
  from number_reads [OF this, of nl] y show ?case by (simp del: serialize.simps)
next
  case (VArr vs)
  then show ?case by (intro array_reads) auto
next
  case (VObj ms)
  then have "reads (\<lambda>ind. serialize nl ind (snd m)) (snd m)" if "m \<in> set ms" for m
    using that by (cases m) (auto simp: snds.simps)
  with VObj.prems show ?case by (intro object_reads) auto
next
  case (VStr s)
  show ?case
    by (rule readsI) (simp add: pv.simps(2) quote_def parse_quote)
next
  case (VBool b)
  show ?case
    by (rule readsI) (cases b; simp add: pv.simps(2) word_units parse_word_def js_def json_ws_def)
next
  case VNull
  show ?case
    by (rule readsI) (simp add: pv.simps(2) word_units parse_word_def js_def json_ws_def)
qed

lemma JSON_parse_serialize:
  assumes "plain_value v" shows "JSON_parse (serialize nl ind v) = Some v"
proof -
  let ?s = "serialize nl ind v"
  have "2 * length ?s < 2 * length ?s + 1" by simp
  then have "pv (2 * length ?s + 1) (?s @ []) = Some (v, [])"
    using serialize_reads [OF assms, of nl] unfolding reads_def ended_def by (metis append_Nil2)
  then show ?thesis by (simp add: JSON_parse_def skip_def)
qed

end
