(* ===== verification/JsonView.thy ===== *)
theory JsonView
  imports JsonText HttpClient
begin

text \<open>frontend/src/components/JsonView.tsx: the text shown for a JSON text or an object.\<close>

datatype view_value = V_absent | V_text jsstring | V_value jsval

definition json_view :: "translate \<Rightarrow> view_value \<Rightarrow> jsstring" where
  "json_view t value =
     (case value of
        V_absent \<Rightarrow> js ''-''
      | V_text s \<Rightarrow>
          if trim s = [] then t (js ''common.empty'') []
          else (case JSON_parse s of Some v \<Rightarrow> pretty v | None \<Rightarrow> s)
      | V_value v \<Rightarrow> pretty v)"

lemmas json_view_defs [js_eval] = json_view_def

lemma trim_Nil_spaces:
  assumes "trim s = []" shows "\<forall>u \<in> set s. is_space u"
proof -
  have "\<forall>u \<in> set (dropWhile is_space s). is_space u"
    using assms by (simp add: trim_def dropWhile_eq_Nil_conv)
  then have "dropWhile is_space s = []"
    using hd_dropWhile [of is_space s] list.set_sel(1) by blast
  then show ?thesis by (simp add: dropWhile_eq_Nil_conv)
qed

lemma blank_not_json:
  assumes "trim s = []" shows "JSON_parse s = None"
proof -
  have "pv n s = None" for n
  proof (cases "n = 0 \<or> skip s = []")
    case False
    then obtain m c r where c: "n = Suc m" "skip s = c # r" by (cases n; cases "skip s") auto
    then have "c \<in> set s" by (metis list.set_intros(1) set_dropWhileD skip_def)
    with trim_Nil_spaces [OF assms] have sp: "is_space c" by blast
    then have ne: "c \<noteq> 34" "c \<noteq> 91" "c \<noteq> 123" "c \<noteq> 116" "c \<noteq> 102" "c \<noteq> 110"
      and "\<not> num_char c" by (auto simp: is_space_def num_char_def is_digit_def word_le_nat_alt)
    then have "parse_num (c # r) = None"
      by (simp add: parse_num_def json_number_def Let_def)
    with ne have "parse_word (c # r) = None" by (simp add: parse_word_def js_def)
    with c ne show ?thesis by (simp add: pv.simps(2))
  next
    case True
    then show ?thesis by (cases n) (auto simp: pv.simps(2))
  qed
  then show ?thesis by (simp add: JSON_parse_def)
qed

section \<open>Properties\<close>

text \<open>C34: the text shown never misrepresents a value: whether the value comes as a text or as an
  object, what is shown reads back as the same value (for whole numbers and names that are not
  indices), and a text that is not JSON is shown as it is, unless it is blank.\<close>

theorem json_view_faithful:
  assumes "plain_value v"
  shows "JSON_parse (json_view t (V_value v)) = Some v
    \<and> (\<forall>s. JSON_parse s = Some v \<longrightarrow> JSON_parse (json_view t (V_text s)) = Some v)
    \<and> (\<forall>s. JSON_parse s = None \<longrightarrow> json_view t (V_text s) = (if trim s = [] then t (js ''common.empty'') [] else s))"
  using JSON_parse_serialize [OF assms] blank_not_json by (auto simp: json_view_def pretty_def)

lemma json_view_faithful_witness:
  "JSON_parse (json_view (\<lambda>k a. k) (V_text (js ''{\"a\":[1,true]}''))) = Some (VObj [(js ''a'', VArr [VNum (Fin 1), VBool True])])"
proof -
  let ?v = "VObj [(js ''a'', VArr [VNum (Fin 1), VBool True])]"
  have p: "plain_value ?v" by code_simp
  have "JSON_parse (js ''{\"a\":[1,true]}'') = Some ?v" by code_simp
  with json_view_faithful [OF p, of "\<lambda>k a. k"] show ?thesis by blast
qed

end
