(* ===== verification/Dicts.thy ===== *)
theory Dicts
  imports HttpClient
begin

text \<open>
  frontend/src/constants/dicts.ts: the display dictionaries of the enumerations of the contract,
  with the lookups of a colour and of a label.
\<close>

type_synonym DictMeta = "jsstring \<times> jsstring option"

record DictItem =
  di_value :: jsstring
  di_label :: jsstring
  di_color :: "jsstring option"

definition plain :: "string \<Rightarrow> DictMeta" where "plain v = (js v, None)"
definition coloured :: "string \<Rightarrow> string \<Rightarrow> DictMeta" where "coloured v c = (js v, Some (js c))"

definition PROTOCOL_META :: "DictMeta list" where
  "PROTOCOL_META = [plain ''openai_chat'', plain ''openai_responses'', plain ''anthropic'']"

definition KEYWORD_CATEGORY_META :: "DictMeta list" where
  "KEYWORD_CATEGORY_META =
     [coloured ''political'' ''red'', coloured ''porn'' ''magenta'', coloured ''violence'' ''volcano'',
      coloured ''illegal'' ''orange'', coloured ''discrimination'' ''gold'', coloured ''custom'' ''blue'']"

definition MATCH_MODE_META :: "DictMeta list" where
  "MATCH_MODE_META =
     [coloured ''contains'' ''blue'', coloured ''exact'' ''geekblue'', coloured ''regex'' ''purple'']"

definition ACTION_META :: "DictMeta list" where
  "ACTION_META =
     [coloured ''block'' ''red'', coloured ''warn'' ''orange'', coloured ''log'' ''default'',
      coloured ''mask'' ''cyan'']"

definition QUOTA_TYPE_META :: "DictMeta list" where
  "QUOTA_TYPE_META = [plain ''requests'', plain ''tokens'']"

definition PERIOD_META :: "DictMeta list" where
  "PERIOD_META = [plain ''day'', plain ''week'', plain ''month'']"

definition OVER_ACTION_META :: "DictMeta list" where
  "OVER_ACTION_META = [plain ''reject'', plain ''degrade'']"

definition CALL_STATUS_META :: "DictMeta list" where
  "CALL_STATUS_META =
     [coloured ''ok'' ''green'', coloured ''error'' ''red'', coloured ''blocked'' ''volcano'',
      coloured ''rate_limited'' ''orange'', coloured ''quota_exceeded'' ''purple'']"

definition LOG_LEVEL_META :: "DictMeta list" where
  "LOG_LEVEL_META = [plain ''debug'', plain ''info'', plain ''warn'', plain ''error'']"

definition VIOLATION_STRATEGY_META :: "DictMeta list" where
  "VIOLATION_STRATEGY_META = [plain ''replace'', plain ''block'', plain ''log'']"

definition ALERT_CHANNEL_META :: "DictMeta list" where
  "ALERT_CHANNEL_META = [plain ''ui'', plain ''webhook'']"

definition BACKOFF_META :: "DictMeta list" where
  "BACKOFF_META = [plain ''fixed'', plain ''exponential'']"

definition PII_CATEGORY_META :: "DictMeta list" where
  "PII_CATEGORY_META =
     [coloured ''phone'' ''blue'', coloured ''id_card'' ''geekblue'', coloured ''email'' ''cyan'',
      coloured ''bank_card'' ''purple'', coloured ''address'' ''magenta'', coloured ''custom'' ''default'']"

definition OP_ACTION_META :: "DictMeta list" where
  "OP_ACTION_META =
     [plain ''create'', plain ''update'', plain ''delete'', plain ''enable'', plain ''disable'',
      plain ''reload'', plain ''rollback'', plain ''reset'', plain ''login'', plain ''mfa_bind'',
      plain ''mfa_unbind'', plain ''backup'', plain ''restore'']"

definition OP_MODULE_META :: "DictMeta list" where
  "OP_MODULE_META =
     [plain ''provider'', plain ''model_alias'', plain ''failover'', plain ''guard'', plain ''quota'',
      plain ''rate_limit'', plain ''apikey'', plain ''settings'', plain ''security'', plain ''backup'',
      plain ''auth'']"

text \<open>\<open>metas.find(m => m.value === value)?.color ?? 'default'\<close>\<close>

definition colorOf :: "DictMeta list \<Rightarrow> jsstring option \<Rightarrow> jsstring" where
  "colorOf metas value =
     (case value of
        None \<Rightarrow> js ''default''
      | Some v \<Rightarrow> (case find (\<lambda>m. fst m = v) metas of
                    Some m \<Rightarrow> or_else (snd m) (js ''default'')
                  | None \<Rightarrow> js ''default''))"

definition dictColor :: "DictMeta list \<Rightarrow> jsstring option \<Rightarrow> jsstring" where
  "dictColor metas value =
     (case value of
        None \<Rightarrow> js ''default''
      | Some v \<Rightarrow> (case find (\<lambda>m. fst m = v) metas of
                    Some m \<Rightarrow> or_else (snd m) (js ''default'')
                  | None \<Rightarrow> js ''default''))"

definition dict_key :: "string \<Rightarrow> jsstring \<Rightarrow> jsstring" where
  "dict_key ns v = js ''dicts.'' @ js ns @ js ''.'' @ v"

definition useDictOptions :: "translate \<Rightarrow> string \<Rightarrow> DictMeta list \<Rightarrow> DictItem list" where
  "useDictOptions t ns metas =
     map (\<lambda>m. \<lparr>di_value = fst m, di_label = t (dict_key ns (fst m)) [], di_color = snd m\<rparr>) metas"

definition useDictLabel :: "translate \<Rightarrow> string \<Rightarrow> jsstring option \<Rightarrow> jsstring" where
  "useDictLabel t ns value =
     (case value of
        None \<Rightarrow> js ''-''
      | Some v \<Rightarrow>
          if v = [] then js ''-''
          else let key = dict_key ns v; label = t key [] in if label = key then v else label)"

lemmas dict_defs [js_eval] = plain_def coloured_def PROTOCOL_META_def KEYWORD_CATEGORY_META_def
  MATCH_MODE_META_def ACTION_META_def QUOTA_TYPE_META_def PERIOD_META_def OVER_ACTION_META_def
  CALL_STATUS_META_def LOG_LEVEL_META_def VIOLATION_STRATEGY_META_def ALERT_CHANNEL_META_def
  BACKOFF_META_def PII_CATEGORY_META_def OP_ACTION_META_def OP_MODULE_META_def colorOf_def
  dictColor_def dict_key_def useDictOptions_def useDictLabel_def

section \<open>Properties\<close>

text \<open>A dictionary is complete for an enumeration: it lists the literal of every constructor once.\<close>

definition covers :: "DictMeta list \<Rightarrow> ('e \<Rightarrow> jsstring) \<Rightarrow> bool" where
  "covers metas str \<longleftrightarrow> distinct (map fst metas) \<and> set (map fst metas) = range str"

lemma UNIV_enums:
  "(UNIV :: ProviderProtocol set) = {Openai_chat, Openai_responses, Anthropic}"
  "(UNIV :: KeywordCategory set) = {KC_political, KC_porn, KC_violence, KC_illegal, KC_discrimination, KC_custom}"
  "(UNIV :: MatchMode set) = {MM_contains, MM_exact, MM_regex}"
  "(UNIV :: RuleAction set) = {RA_block, RA_warn, RA_log, RA_mask}"
  "(UNIV :: QuotaType set) = {QT_requests, QT_tokens}"
  "(UNIV :: QuotaPeriod set) = {QP_day, QP_week, QP_month}"
  "(UNIV :: OverAction set) = {OA_reject, OA_degrade}"
  "(UNIV :: CallStatus set) = {CS_ok, CS_error, CS_blocked, CS_rate_limited, CS_quota_exceeded}"
  "(UNIV :: LogLevel set) = {LL_debug, LL_info, LL_warn, LL_error}"
  "(UNIV :: ViolationStrategy set) = {VS_replace, VS_block, VS_log}"
  "(UNIV :: AlertChannel set) = {AC_ui, AC_webhook}"
  "(UNIV :: BackoffStrategy set) = {BS_fixed, BS_exponential}"
  by (rule UNIV_eq_I, rename_tac x, case_tac x; simp)+

text \<open>Every dictionary of an enumeration of the contract lists each of its literals exactly
  once, so that every select offers all the values the server knows and no other.\<close>

theorem dictionaries_cover_enums:
  "covers PROTOCOL_META ProviderProtocol_str \<and> covers KEYWORD_CATEGORY_META KeywordCategory_str
   \<and> covers MATCH_MODE_META MatchMode_str \<and> covers ACTION_META RuleAction_str
   \<and> covers QUOTA_TYPE_META QuotaType_str \<and> covers PERIOD_META QuotaPeriod_str
   \<and> covers OVER_ACTION_META OverAction_str \<and> covers CALL_STATUS_META CallStatus_str
   \<and> covers LOG_LEVEL_META LogLevel_str \<and> covers VIOLATION_STRATEGY_META ViolationStrategy_str
   \<and> covers ALERT_CHANNEL_META AlertChannel_str \<and> covers BACKOFF_META BackoffStrategy_str"
  by (simp add: covers_def dict_defs UNIV_enums)

end
