(* ===== verification/Format.thy ===== *)
theory Format
  imports HttpClient
begin

text \<open>
  frontend/src/utils/format.ts. The date library (dayjs) is the parameter \<open>day\<close>: the text of a
  value in a format, or None when it is not a date; \<open>toLocaleString\<close> of the host is the
  parameter \<open>locale_string\<close>, applied to the language tag. The language of i18next is \<open>lang\<close>.
\<close>

definition fmtTime :: "(jsstring \<Rightarrow> jsstring \<Rightarrow> jsstring option) \<Rightarrow> jsstring option \<Rightarrow> jsstring" where
  "fmtTime day value =
     (case value of
        None \<Rightarrow> js ''-''
      | Some v \<Rightarrow> if v = [] then js ''-'' else or_else (day v (js ''YYYY-MM-DD HH:mm:ss'')) v)"

definition fmtTimeShort :: "(jsstring \<Rightarrow> jsstring \<Rightarrow> jsstring option) \<Rightarrow> jsstring option \<Rightarrow> jsstring" where
  "fmtTimeShort day value =
     (case value of
        None \<Rightarrow> js ''-''
      | Some v \<Rightarrow> if v = [] then js ''-'' else or_else (day v (js ''HH:mm:ss'')) v)"

text \<open>Division of doubles, the divisor not zero.\<close>

fun div_num :: "jsnum \<Rightarrow> rat \<Rightarrow> jsnum" where
  "div_num (Fin x) d = fl (x / d)"
| "div_num PInf d = (if d < 0 then NInf else PInf)"
| "div_num NInf d = (if d < 0 then PInf else NInf)"
| "div_num NaN d = NaN"

text \<open>\<open>toFixed\<close>: from \<open>10 ^ 21\<close> on it is \<open>String\<close>.\<close>

definition num_to_fixed :: "nat \<Rightarrow> jsnum \<Rightarrow> jsstring" where
  "num_to_fixed f x =
     (case x of Fin r \<Rightarrow> if \<bar>r\<bar> < 10 ^ 21 then to_fixed f r else num_to_string x | _ \<Rightarrow> num_to_string x)"

fun less_num :: "jsnum \<Rightarrow> rat \<Rightarrow> bool" where
  "less_num (Fin x) y = (x < y)"
| "less_num NInf y = True"
| "less_num _ y = False"

definition fmtBytes :: "jsnum option \<Rightarrow> jsstring" where
  "fmtBytes bytes =
     (case bytes of
        None \<Rightarrow> js ''-''
      | Some b \<Rightarrow>
          if is_NaN b then js ''-''
          else if less_num b 1024 then num_to_string b @ js '' B''
          else if less_num b (1024 * 1024) then num_to_fixed 1 (div_num b 1024) @ js '' KB''
          else num_to_fixed 2 (div_num (div_num b 1024) 1024) @ js '' MB'')"

text \<open>
  The whole part of \<open>fmtDuration\<close>: \<open>Math.floor\<close> has left a whole number of seconds, and the
  remainders of a number that is not negative are those of \<open>int\<close>.
\<close>

definition duration_parts :: "int \<Rightarrow> int \<times> int \<times> int \<times> int" where
  "duration_parts s = (s div 86400, s mod 86400 div 3600, s mod 3600 div 60, s mod 60)"

definition fmtDuration :: "translate \<Rightarrow> rat option \<Rightarrow> jsstring" where
  "fmtDuration t totalSeconds =
     (case totalSeconds of
        None \<Rightarrow> js ''-''
      | Some x \<Rightarrow>
          let (d, h, m, sec) = duration_parts (max 0 \<lfloor>x\<rfloor>);
              part = (\<lambda>n k. int_to_string n @ t (js k) [])
          in if d > 0 then part d ''common.day'' @ part h ''common.hour'' @ part m ''common.minute''
             else if h > 0 then part h ''common.hour'' @ part m ''common.minute'' @ part sec ''common.second''
             else if m > 0 then part m ''common.minute'' @ part sec ''common.second''
             else part sec ''common.second'')"

definition fmtNumber :: "(jsstring \<Rightarrow> jsnum \<Rightarrow> jsstring) \<Rightarrow> jsstring \<Rightarrow> jsnum option \<Rightarrow> jsstring" where
  "fmtNumber locale_string lang n =
     (case n of
        None \<Rightarrow> js ''-''
      | Some x \<Rightarrow>
          if is_NaN x then js ''-''
          else locale_string (if lang = js ''zh-CN'' then js ''zh-CN'' else js ''en-US'') x)"

datatype progress_status = PS_normal | PS_exception | PS_success | PS_active

fun at_least :: "jsnum \<Rightarrow> rat \<Rightarrow> bool" where
  "at_least (Fin x) y = (y \<le> x)"
| "at_least PInf y = True"
| "at_least _ y = False"

fun more_than :: "jsnum \<Rightarrow> rat \<Rightarrow> bool" where
  "more_than (Fin x) y = (y < x)"
| "more_than PInf y = True"
| "more_than _ y = False"

definition usagePercentColor :: "jsnum \<Rightarrow> progress_status" where
  "usagePercentColor percent =
     (if more_than percent 100 then PS_exception
      else if at_least percent 90 then PS_exception
      else if at_least percent 70 then PS_normal else PS_success)"

definition clampPercent :: "int option \<Rightarrow> int option \<Rightarrow> jsnum" where
  "clampPercent used limit =
     (case limit of
        None \<Rightarrow> Fin 0
      | Some l \<Rightarrow>
          if l = 0 then Fin 0
          else case fl (of_int (or_else used 0) / of_int l) of
            Fin q \<Rightarrow> (case fl (q * 10000) of
                       Fin p \<Rightarrow> fl (of_int (math_round p) / 100)
                     | x \<Rightarrow> x)
          | x \<Rightarrow> x)"

text \<open>The rounding and the arithmetic of the gauges: \<open>Math.round\<close> leaves what is not finite alone.\<close>

fun round_num :: "jsnum \<Rightarrow> jsnum" where
  "round_num (Fin x) = Fin (of_int (math_round x))"
| "round_num x = x"

fun times_num :: "jsnum \<Rightarrow> rat \<Rightarrow> jsnum" where
  "times_num (Fin x) d = fl (x * d)"
| "times_num PInf d = (if d < 0 then NInf else if d = 0 then NaN else PInf)"
| "times_num NInf d = (if d < 0 then PInf else if d = 0 then NaN else NInf)"
| "times_num NaN d = NaN"

text \<open>\<open>Math.min(bound, x)\<close>.\<close>

fun min_num :: "rat \<Rightarrow> jsnum \<Rightarrow> jsnum" where
  "min_num b (Fin x) = Fin (min b x)"
| "min_num b PInf = Fin b"
| "min_num b NInf = NInf"
| "min_num b NaN = NaN"

text \<open>\<open>Math.round((v / total) * 100)\<close>, the total not zero.\<close>

definition percent_of :: "int \<Rightarrow> int \<Rightarrow> jsnum" where
  "percent_of v total_v = round_num (times_num (div_num (Fin (of_int v)) (of_int total_v)) 100)"

lemmas format_defs [js_eval] = fmtTime_def fmtTimeShort_def num_to_fixed_def fmtBytes_def
  duration_parts_def fmtDuration_def fmtNumber_def usagePercentColor_def clampPercent_def percent_of_def

section \<open>Properties\<close>

text \<open>The parts of a duration are its days, hours, minutes and seconds: each but the first is
  within its unit, and together they are the whole seconds; the text shows the three largest from
  days on and nothing that is finer, and below that all parts from the first that is not zero.\<close>

theorem duration_decomposition:
  assumes "duration_parts (max 0 \<lfloor>x\<rfloor>) = (d, h, m, s)"
  shows "0 \<le> d \<and> 0 \<le> h \<and> h < 24 \<and> 0 \<le> m \<and> m < 60 \<and> 0 \<le> s \<and> s < 60
    \<and> 86400 * d + 3600 * h + 60 * m + s = max 0 \<lfloor>x\<rfloor>
    \<and> fmtDuration t (Some x) = concat (map (\<lambda>(n, k). int_to_string n @ t (js k) [])
        (if d > 0 then [(d, ''common.day''), (h, ''common.hour''), (m, ''common.minute'')]
         else dropWhile (\<lambda>(n, k). n = 0) [(h, ''common.hour''), (m, ''common.minute'')]
              @ [(s, ''common.second'')]))"
proof -
  define n where "n = max 0 \<lfloor>x\<rfloor>"
  have n: "0 \<le> n" by (simp add: n_def)
  have parts: "d = n div 86400" "h = n mod 86400 div 3600" "m = n mod 3600 div 60" "s = n mod 60"
    using assms by (simp_all add: duration_parts_def n_def)
  have "0 \<le> d \<and> 0 \<le> h \<and> h < 24 \<and> 0 \<le> m \<and> m < 60 \<and> 0 \<le> s \<and> s < 60"
    using n unfolding parts by (auto simp: div_less_iff_less_mult pos_imp_zdiv_nonneg_iff)
  moreover have "86400 * d + 3600 * h + 60 * m + s = n"
  proof -
    have "n mod 86400 mod 3600 = n mod 3600" "n mod 3600 mod 60 = n mod 60"
      by (simp_all add: mod_mod_cancel)
    then show ?thesis
      unfolding parts
      using mult_div_mod_eq [of 86400 n] mult_div_mod_eq [of 3600 "n mod 86400"]
        mult_div_mod_eq [of 60 "n mod 3600"] by linarith
  qed
  ultimately show ?thesis
    using assms by (auto simp: fmtDuration_def Let_def n_def)
qed

lemma duration_decomposition_witness:
  "fmtDuration (\<lambda>k a. drop 7 k) (Some 3725) = js ''1hour2minute5second''"
proof -
  have "duration_parts (max 0 \<lfloor>3725 :: rat\<rfloor>) = (0, 1, 2, 5)" by (simp add: duration_parts_def)
  from duration_decomposition [OF this, of "\<lambda>k a. drop 7 k"] show ?thesis
    by simp code_simp
qed

end
