(* ===== verification/View.thy ===== *)
theory View
  imports Dicts Format
begin

text \<open>
  The vocabulary in which the pages describe what they show: the columns of a table with their
  cells and row actions, and the items of a form with their rules (the column and form
  descriptions that the pages hand to antd). The rendering itself is antd's.
\<close>

section \<open>What a page knows about language and time\<close>

text \<open>
  The translation and language of i18next, the formats of dayjs and of the host, and the message
  antd shows for a required field whose rule has none.
\<close>

record Ui =
  ui_t :: translate
  ui_lang :: jsstring
  ui_day :: "jsstring \<Rightarrow> jsstring \<Rightarrow> jsstring option"
  ui_locale :: "jsstring \<Rightarrow> jsnum \<Rightarrow> jsstring"
  ui_required :: "string \<Rightarrow> jsstring"

text \<open>\<open>t(key)\<close> without arguments, the formats of times and numbers, the label of an enumeration.\<close>

definition tr :: "Ui \<Rightarrow> string \<Rightarrow> jsstring" where
  "tr u k = ui_t u (js k) []"

definition tr_with :: "Ui \<Rightarrow> string \<Rightarrow> (string \<times> jsstring) list \<Rightarrow> jsstring" where
  "tr_with u k args = ui_t u (js k) (map (\<lambda>(n, v). (js n, v)) args)"

definition show_time :: "Ui \<Rightarrow> jsstring option \<Rightarrow> jsstring" where
  "show_time u = fmtTime (ui_day u)"

definition show_number :: "Ui \<Rightarrow> int \<Rightarrow> jsstring" where
  "show_number u n = fmtNumber (ui_locale u) (ui_lang u) (Some (Fin (of_int n)))"

definition show_enum :: "Ui \<Rightarrow> string \<Rightarrow> jsstring \<Rightarrow> jsstring" where
  "show_enum u ns v = useDictLabel (ui_t u) ns (Some v)"

section \<open>Tables\<close>

datatype row_action =
    Act_button jsstring bool
  | Act_confirm jsstring jsstring jsstring bool

text \<open>
  A button has a label and whether it is disabled; a button that asks first has a label, the title
  and text of the question, and whether it is disabled.
\<close>

datatype cell = Txt jsstring | Tag jsstring jsstring | Cod jsstring | Toggle bool | Acts "row_action list"
  | Cells "cell list"

record 'r column =
  co_title :: jsstring
  co_width :: "int option"
  co_cell :: "'r \<Rightarrow> cell"

definition col :: "jsstring \<Rightarrow> int option \<Rightarrow> ('r \<Rightarrow> cell) \<Rightarrow> 'r column" where
  "col title w f = \<lparr>co_title = title, co_width = w, co_cell = f\<rparr>"

text \<open>A tag without a colour, and \<open>v || '-'\<close>.\<close>

definition plain_tag :: "jsstring \<Rightarrow> cell" where
  "plain_tag s = Tag (js ''default'') s"

definition dash :: "jsstring \<Rightarrow> cell" where
  "dash s = Txt (str_or s (js ''-''))"

definition colored :: "string \<Rightarrow> jsstring \<Rightarrow> cell" where
  "colored c s = Tag (js c) s"

text \<open>\<open>tableLoading\<close> of frontend/src/components/TableSkeleton.tsx.\<close>

datatype table_loading = TL_skeleton | TL_spin bool

definition tableLoading :: "bool \<Rightarrow> bool option \<Rightarrow> bool \<Rightarrow> table_loading" where
  "tableLoading initial busy hasData =
     (if initial \<and> \<not> hasData then TL_skeleton else TL_spin (initial \<or> busy = Some True))"

text \<open>\<open>showTotal\<close> of the pagination.\<close>

definition show_total :: "Ui \<Rightarrow> int \<Rightarrow> jsstring" where
  "show_total u n = tr_with u ''common.total'' [(''total'', int_to_string n)]"

section \<open>Forms\<close>

datatype input = In_text | In_area | In_password | In_switch | In_select | In_tags
  | In_number "int option" "int option"

text \<open>A rule gives the message it shows when the value violates it.\<close>

record 'f form_item =
  fi_name :: string
  fi_label :: jsstring
  fi_input :: input
  fi_rules :: "('f \<Rightarrow> jsstring option) list"

definition item :: "string \<Rightarrow> jsstring \<Rightarrow> input \<Rightarrow> ('f \<Rightarrow> jsstring option) list \<Rightarrow> 'f form_item" where
  "item n l i rs = \<lparr>fi_name = n, fi_label = l, fi_input = i, fi_rules = rs\<rparr>"

definition rule :: "('f \<Rightarrow> bool) \<Rightarrow> jsstring \<Rightarrow> 'f \<Rightarrow> jsstring option" where
  "rule ok msg v = (if ok v then None else Some msg)"

primrec violations :: "('f \<Rightarrow> jsstring option) list \<Rightarrow> 'f \<Rightarrow> jsstring list" where
  "violations [] v = []"
| "violations (r # rs) v = (case r v of None \<Rightarrow> [] | Some msg \<Rightarrow> [msg]) @ violations rs v"

definition form_errors :: "'f form_item list \<Rightarrow> 'f \<Rightarrow> jsstring list" where
  "form_errors is v = concat (map (\<lambda>i. violations (fi_rules i) v) is)"

text \<open>
  \<open>form.validateFields()\<close> of a form: it fails as long as a rule is violated. Which rules a value violates
  does not depend on the language, so that any texts will do.
\<close>

definition ui_silent :: Ui where
  "ui_silent = \<lparr>ui_t = \<lambda>k a. [], ui_lang = [], ui_day = \<lambda>v f. None, ui_locale = \<lambda>l n. [], ui_required = \<lambda>n. []\<rparr>"

definition validateFields :: "(Ui \<Rightarrow> 'f form_item list) \<Rightarrow> 'f \<Rightarrow> bool" where
  "validateFields form v \<longleftrightarrow> form_errors (form ui_silent) v = []"

lemmas view_defs [js_eval] = tr_def tr_with_def show_time_def show_number_def show_enum_def col_def
  plain_tag_def dash_def colored_def tableLoading_def show_total_def item_def rule_def
  form_errors_def validateFields_def

lemma form_errors_simps [simp]:
  "form_errors [] v = []"
  "form_errors (i # is) v = violations (fi_rules i) v @ form_errors is v"
  by (simp_all add: form_errors_def)

lemma item_simps [simp]: "fi_rules (item n l i rs) = rs" "fi_name (item n l i rs) = n"
  "fi_label (item n l i rs) = l" "fi_input (item n l i rs) = i"
  by (simp_all add: item_def)

lemma rule_None [simp]: "rule ok msg v = None \<longleftrightarrow> ok v"
  by (simp add: rule_def)

lemma rule_case [simp]: "(case rule ok msg v of None \<Rightarrow> [] | Some m \<Rightarrow> [m]) = (if ok v then [] else [msg])"
  by (simp add: rule_def)

lemma violations_Nil [simp]: "violations rs v = [] \<longleftrightarrow> (\<forall>r \<in> set rs. r v = None)"
  by (induction rs) (auto split: option.splits)

text \<open>A form without errors meets every rule, and an error names a rule that is violated.\<close>

lemma form_errors_Nil: "form_errors is v = [] \<longleftrightarrow> (\<forall>i \<in> set is. \<forall>r \<in> set (fi_rules i). r v = None)"
  by (simp add: form_errors_def)

end
