(* ===== verification/Endpoints.thy ===== *)
theory Endpoints
  imports HttpClient Uri
begin

text \<open>
  frontend/src/api/endpoints.ts: one definition per function of the API objects, giving the
  request it sends (the answer is typed by the caller), and \<open>downloadFile\<close> of
  frontend/src/api/client.ts: its request and the name it saves the answer under.
\<close>

section \<open>Downloads\<close>

record download =
  dl_request :: request
  dl_fallbackName :: "jsstring option"

definition downloadFile :: "jsstring \<Rightarrow> json option \<Rightarrow> jsstring option \<Rightarrow> download" where
  "downloadFile url params fallback =
     \<lparr>dl_request = (http_get url params)\<lparr>rq_response_type := RT_blob\<rparr>, dl_fallbackName = fallback\<rparr>"

text \<open>Comparison without regard to the case of ASCII letters (the flag \<open>i\<close>).\<close>

definition lower :: "cu \<Rightarrow> cu" where
  "lower u = (if 65 \<le> u \<and> u \<le> 90 then u + 32 else u)"

fun strip_ci :: "jsstring \<Rightarrow> jsstring \<Rightarrow> jsstring option" where
  "strip_ci [] s = Some s"
| "strip_ci (p # ps) [] = None"
| "strip_ci (p # ps) (c # s) = (if lower p = lower c then strip_ci ps s else None)"

definition filename_unit :: "cu \<Rightarrow> bool" where
  "filename_unit u \<longleftrightarrow> u \<noteq> 34 \<and> u \<noteq> 59"

fun optional_quote :: "jsstring \<Rightarrow> jsstring list" where
  "optional_quote (c # s) = (if c = 34 then [s, c # s] else [c # s])"
| "optional_quote [] = [[]]"

text \<open>
  The regular expression at one position: the ways to match its optional parts in the order in
  which they are tried, the first that leaves a name decides.
\<close>

definition filename_here :: "jsstring \<Rightarrow> jsstring option" where
  "filename_here s =
     (case strip_ci (js ''filename'') s of
        None \<Rightarrow> None
      | Some s1 \<Rightarrow>
          let s2 = (case s1 of c # r \<Rightarrow> if c = 42 then r else s1 | [] \<Rightarrow> s1)
          in case s2 of
              [] \<Rightarrow> None
            | c # s3 \<Rightarrow>
                if c \<noteq> 61 then None
                else
                  let tails = (case strip_ci (js ''UTF-8'' @ [39, 39]) s3 of
                                 Some s4 \<Rightarrow> optional_quote s4 | None \<Rightarrow> []) @ optional_quote s3;
                      names = map (takeWhile filename_unit) tails
                  in find (\<lambda>n. n \<noteq> []) names)"

fun filename_match :: "jsstring \<Rightarrow> jsstring option" where
  "filename_match [] = filename_here []"
| "filename_match (c # s) =
     (case filename_here (c # s) of Some n \<Rightarrow> Some n | None \<Rightarrow> filename_match s)"

definition download_name :: "download \<Rightarrow> response \<Rightarrow> jsstring" where
  "download_name d r =
     (let fallback = (case dl_fallbackName d of Some n \<Rightarrow> str_or n (js ''download'') | None \<Rightarrow> js ''download'')
      in case filename_match (or_else (rs_disposition r) []) of
           Some m \<Rightarrow> (case decodeURIComponent m of Some n \<Rightarrow> n | None \<Rightarrow> m)
         | None \<Rightarrow> fallback)"

section \<open>Paths\<close>

definition path_id :: "string \<Rightarrow> int \<Rightarrow> string \<Rightarrow> jsstring" where
  "path_id pre i suf = js pre @ int_to_string i @ js suf"

definition page_params :: "PageParams \<Rightarrow> json option" where
  "page_params p = Some (obj (PageParams_json p))"

definition csv_params :: "(string \<times> json option) list \<Rightarrow> json option" where
  "csv_params fs = Some (obj ((''format'', Some (JStr (js ''csv''))) # fs))"

definition stamped_name :: "string \<Rightarrow> int \<Rightarrow> jsstring" where
  "stamped_name pre now = path_id pre now ''.csv''"

section \<open>Authentication and MFA\<close>

definition authApi_login :: "LoginBody \<Rightarrow> request" where
  "authApi_login body = http_post (js ''/auth/login'') (Some (LoginBody_json body))"
definition authApi_logout :: request where
  "authApi_logout = http_post (js ''/auth/logout'') None"
definition authApi_me :: request where
  "authApi_me = http_get (js ''/auth/me'') None"
definition authApi_changePassword :: "ChangePasswordBody \<Rightarrow> request" where
  "authApi_changePassword body = http_put (js ''/auth/password'') (Some (ChangePasswordBody_json body))"

definition accountMfaApi_setup :: request where
  "accountMfaApi_setup = http_post (js ''/account/mfa/setup'') None"
definition accountMfaApi_enable :: "MfaEnableBody \<Rightarrow> request" where
  "accountMfaApi_enable body =
     http_post (js ''/account/mfa/enable'') (Some (obj [(''code'', Some (JStr (meb_code body)))]))"
definition accountMfaApi_disable :: "MfaDisableBody \<Rightarrow> request" where
  "accountMfaApi_disable body =
     http_post (js ''/account/mfa/disable'') (Some (obj [(''code'', Some (JStr (mdb_code body)))]))"
definition accountMfaApi_status :: request where
  "accountMfaApi_status = http_get (js ''/account/mfa/status'') None"

section \<open>Dashboard, providers, models, failover\<close>

definition dashboardApi_get :: request where
  "dashboardApi_get = http_get (js ''/dashboard'') None"

definition providerApi_list :: "PageParams \<Rightarrow> request" where
  "providerApi_list p = http_get (js ''/providers'') (page_params p)"
definition providerApi_create :: "ProviderInput \<Rightarrow> request" where
  "providerApi_create body = http_post (js ''/providers'') (Some (ProviderInput_json body))"
definition providerApi_update :: "int \<Rightarrow> ProviderInput \<Rightarrow> request" where
  "providerApi_update i body = http_put (path_id ''/providers/'' i '''') (Some (ProviderInput_json body))"
definition providerApi_remove :: "int \<Rightarrow> request" where
  "providerApi_remove i = http_delete (path_id ''/providers/'' i '''')"
definition providerApi_test :: "int \<Rightarrow> request" where
  "providerApi_test i = http_post (path_id ''/providers/'' i ''/test'') None"
definition providerApi_importModels :: "int \<Rightarrow> ProviderImportInput \<Rightarrow> request" where
  "providerApi_importModels i body =
     http_post (path_id ''/providers/'' i ''/import-models'') (Some (ProviderImportInput_json body))"

definition modelApi_list :: "PageParams \<Rightarrow> request" where
  "modelApi_list p = http_get (js ''/models'') (page_params p)"
definition modelApi_create :: "ModelAliasInput \<Rightarrow> request" where
  "modelApi_create body = http_post (js ''/models'') (Some (ModelAliasInput_json body))"
definition modelApi_update :: "int \<Rightarrow> ModelAliasInput \<Rightarrow> request" where
  "modelApi_update i body = http_put (path_id ''/models/'' i '''') (Some (ModelAliasInput_json body))"
definition modelApi_remove :: "int \<Rightarrow> request" where
  "modelApi_remove i = http_delete (path_id ''/models/'' i '''')"
definition modelApi_stats :: "int \<Rightarrow> request" where
  "modelApi_stats i = http_get (path_id ''/models/'' i ''/stats'') None"

definition failoverApi_get :: request where
  "failoverApi_get = http_get (js ''/failover'') None"
definition failoverApi_save :: "FailoverConfig \<Rightarrow> request" where
  "failoverApi_save body = http_put (js ''/failover'') (Some (FailoverConfig_json body))"

section \<open>Guard rules\<close>

definition keywordApi_list :: "KeywordFilter \<Rightarrow> request" where
  "keywordApi_list p = http_get (js ''/guard/keywords'') (Some (obj (KeywordFilter_json p)))"
definition keywordApi_create :: "KeywordInput \<Rightarrow> request" where
  "keywordApi_create body = http_post (js ''/guard/keywords'') (Some (KeywordInput_json body))"
definition keywordApi_update :: "int \<Rightarrow> KeywordInput \<Rightarrow> request" where
  "keywordApi_update i body = http_put (path_id ''/guard/keywords/'' i '''') (Some (KeywordInput_json body))"
definition keywordApi_remove :: "int \<Rightarrow> request" where
  "keywordApi_remove i = http_delete (path_id ''/guard/keywords/'' i '''')"
definition keywordApi_importCsv :: "jsstring \<Rightarrow> request" where
  "keywordApi_importCsv csv =
     http_post (js ''/guard/keywords/import'') (Some (obj [(''csv'', Some (JStr csv))]))"
definition keywordApi_test :: "jsstring \<Rightarrow> request" where
  "keywordApi_test txt = http_post (js ''/guard/keywords/test'') (Some (obj [(''text'', Some (JStr txt))]))"
definition keywordApi_exportCsv :: "int \<Rightarrow> KeywordFilter option \<Rightarrow> download" where
  "keywordApi_exportCsv now p =
     downloadFile (js ''/guard/keywords/export'')
       (csv_params (case p of Some f \<Rightarrow> KeywordFilter_json f | None \<Rightarrow> [])) (Some (stamped_name ''keywords-'' now))"

definition piiApi_list :: "PageParams \<Rightarrow> request" where
  "piiApi_list p = http_get (js ''/guard/pii-rules'') (page_params p)"
definition piiApi_create :: "PiiRuleInput \<Rightarrow> request" where
  "piiApi_create body = http_post (js ''/guard/pii-rules'') (Some (PiiRuleInput_json body))"
definition piiApi_update :: "int \<Rightarrow> PiiRuleInput \<Rightarrow> request" where
  "piiApi_update i body = http_put (path_id ''/guard/pii-rules/'' i '''') (Some (PiiRuleInput_json body))"
definition piiApi_remove :: "int \<Rightarrow> request" where
  "piiApi_remove i = http_delete (path_id ''/guard/pii-rules/'' i '''')"
definition piiApi_templates :: request where
  "piiApi_templates = http_get (js ''/guard/pii-rules/templates'') None"
definition piiApi_test :: "jsstring \<Rightarrow> request" where
  "piiApi_test txt = http_post (js ''/guard/pii-rules/test'') (Some (obj [(''text'', Some (JStr txt))]))"

definition injectionApi_list :: "PageParams \<Rightarrow> request" where
  "injectionApi_list p = http_get (js ''/guard/injection-rules'') (page_params p)"
definition injectionApi_create :: "InjectionRuleInput \<Rightarrow> request" where
  "injectionApi_create body = http_post (js ''/guard/injection-rules'') (Some (InjectionRuleInput_json body))"
definition injectionApi_update :: "int \<Rightarrow> InjectionRuleInput \<Rightarrow> request" where
  "injectionApi_update i body =
     http_put (path_id ''/guard/injection-rules/'' i '''') (Some (InjectionRuleInput_json body))"
definition injectionApi_remove :: "int \<Rightarrow> request" where
  "injectionApi_remove i = http_delete (path_id ''/guard/injection-rules/'' i '''')"
definition injectionApi_templates :: request where
  "injectionApi_templates = http_get (js ''/guard/injection-rules/templates'') None"

definition outputApi_get :: request where
  "outputApi_get = http_get (js ''/guard/output'') None"
definition outputApi_save :: "OutputConfig \<Rightarrow> request" where
  "outputApi_save body = http_put (js ''/guard/output'') (Some (OutputConfig_json body))"

section \<open>Quotas, rate limits, alerts\<close>

definition quotaApi_list :: "PageParams \<Rightarrow> request" where
  "quotaApi_list p = http_get (js ''/quotas'') (page_params p)"
definition quotaApi_create :: "QuotaInput \<Rightarrow> request" where
  "quotaApi_create body = http_post (js ''/quotas'') (Some (QuotaInput_json body))"
definition quotaApi_update :: "int \<Rightarrow> QuotaInput \<Rightarrow> request" where
  "quotaApi_update i body = http_put (path_id ''/quotas/'' i '''') (Some (QuotaInput_json body))"
definition quotaApi_remove :: "int \<Rightarrow> request" where
  "quotaApi_remove i = http_delete (path_id ''/quotas/'' i '''')"
definition quotaApi_reset :: "int \<Rightarrow> request" where
  "quotaApi_reset i = http_post (path_id ''/quotas/'' i ''/reset'') None"
definition quotaApi_batch :: "QuotaBatchBody \<Rightarrow> request" where
  "quotaApi_batch body =
     http_post (js ''/quotas/batch'') (Some (obj [(''items'', Some (JArr (map QuotaInput_json (qb_items body))))]))"

definition rateLimitApi_list :: "PageParams \<Rightarrow> request" where
  "rateLimitApi_list p = http_get (js ''/rate-limits'') (page_params p)"
definition rateLimitApi_create :: "RateLimitInput \<Rightarrow> request" where
  "rateLimitApi_create body = http_post (js ''/rate-limits'') (Some (RateLimitInput_json body))"
definition rateLimitApi_update :: "int \<Rightarrow> RateLimitInput \<Rightarrow> request" where
  "rateLimitApi_update i body = http_put (path_id ''/rate-limits/'' i '''') (Some (RateLimitInput_json body))"
definition rateLimitApi_remove :: "int \<Rightarrow> request" where
  "rateLimitApi_remove i = http_delete (path_id ''/rate-limits/'' i '''')"

definition quotaAlertApi_get :: request where
  "quotaAlertApi_get = http_get (js ''/quota-alerts'') None"
definition quotaAlertApi_save :: "QuotaAlertConfig \<Rightarrow> request" where
  "quotaAlertApi_save body = http_put (js ''/quota-alerts'') (Some (QuotaAlertConfig_json body))"

section \<open>Audit logs and statistics\<close>

definition callLogApi_list :: "CallLogFilter \<Rightarrow> request" where
  "callLogApi_list p = http_get (js ''/audit/calls'') (Some (obj (CallLogFilter_json p)))"

text \<open>\<open>encodeURIComponent\<close> throws on an id with a lone surrogate: no request is made.\<close>

definition callLogApi_detail :: "jsstring \<Rightarrow> request option" where
  "callLogApi_detail requestId =
     map_option (\<lambda>e. http_get (js ''/audit/calls/'' @ e) None) (encodeURIComponent requestId)"
definition callLogApi_exportCsv :: "int \<Rightarrow> CallLogFilter \<Rightarrow> download" where
  "callLogApi_exportCsv now p =
     downloadFile (js ''/audit/calls/export'') (csv_params (CallLogFilter_json p)) (Some (stamped_name ''call-logs-'' now))"

definition opLogApi_list :: "OpLogFilter \<Rightarrow> request" where
  "opLogApi_list p = http_get (js ''/audit/operations'') (Some (obj (OpLogFilter_json p)))"
definition opLogApi_exportCsv :: "int \<Rightarrow> OpLogFilter \<Rightarrow> download" where
  "opLogApi_exportCsv now p =
     downloadFile (js ''/audit/operations/export'') (csv_params (OpLogFilter_json p)) (Some (stamped_name ''operation-logs-'' now))"

definition tokenStatsApi_get :: "TokenStatsFilter \<Rightarrow> request" where
  "tokenStatsApi_get p = http_get (js ''/token-stats'') (Some (obj (TokenStatsFilter_json p)))"
definition tokenStatsApi_exportCsv :: "int \<Rightarrow> TokenStatsFilter \<Rightarrow> download" where
  "tokenStatsApi_exportCsv now p =
     downloadFile (js ''/token-stats/export'') (csv_params (TokenStatsFilter_json p)) (Some (stamped_name ''token-stats-'' now))"

section \<open>Settings, keys, users, operations\<close>

definition settingsApi_get :: request where
  "settingsApi_get = http_get (js ''/settings'') None"
definition settingsApi_save :: "SystemSettingsInput \<Rightarrow> request" where
  "settingsApi_save body = http_put (js ''/settings'') (Some (SystemSettingsInput_json body))"

definition apikeyApi_list :: "PageParams \<Rightarrow> request" where
  "apikeyApi_list p = http_get (js ''/apikeys'') (page_params p)"
definition apikeyApi_create :: "ApiKeyCreateBody \<Rightarrow> request" where
  "apikeyApi_create body = http_post (js ''/apikeys'') (Some (ApiKeyCreateBody_json body))"
definition apikeyApi_update :: "int \<Rightarrow> ApiKeyUpdateBody \<Rightarrow> request" where
  "apikeyApi_update i body = http_put (path_id ''/apikeys/'' i '''') (Some (ApiKeyUpdateBody_json body))"
definition apikeyApi_remove :: "int \<Rightarrow> request" where
  "apikeyApi_remove i = http_delete (path_id ''/apikeys/'' i '''')"

definition securityApi_get :: request where
  "securityApi_get = http_get (js ''/settings/security'') None"
definition securityApi_save :: "SecuritySettings \<Rightarrow> request" where
  "securityApi_save body = http_put (js ''/settings/security'') (Some (SecuritySettings_json body))"

definition userApi_list :: "PageParams \<Rightarrow> request" where
  "userApi_list p = http_get (js ''/users'') (page_params p)"
definition userApi_create :: "UserCreateBody \<Rightarrow> request" where
  "userApi_create body = http_post (js ''/users'') (Some (UserCreateBody_json body))"
definition userApi_changePassword :: "int \<Rightarrow> UserChangePasswordBody \<Rightarrow> request" where
  "userApi_changePassword i body =
     http_put (path_id ''/users/'' i ''/password'') (Some (UserChangePasswordBody_json body))"
definition userApi_changeRole :: "int \<Rightarrow> UserChangeRoleBody \<Rightarrow> request" where
  "userApi_changeRole i body =
     http_put (path_id ''/users/'' i ''/role'') (Some (obj [(''role'', Some (JStr (Role_str (ucr_role body))))]))"
definition userApi_setMfaRequired :: "int \<Rightarrow> UserSetMfaRequiredBody \<Rightarrow> request" where
  "userApi_setMfaRequired i body =
     http_put (path_id ''/users/'' i ''/mfa-required'') (Some (obj [(''mfa_required'', Some (JBool (usm_mfa_required body)))]))"
definition userApi_remove :: "int \<Rightarrow> request" where
  "userApi_remove i = http_delete (path_id ''/users/'' i '''')"
definition userApi_unbindMfa :: "int \<Rightarrow> request" where
  "userApi_unbindMfa i = http_post (path_id ''/users/'' i ''/unbind-mfa'') None"
definition userApi_unlock :: "int \<Rightarrow> request" where
  "userApi_unlock i = http_post (path_id ''/users/'' i ''/unlock'') None"

definition configStatusApi_get :: request where
  "configStatusApi_get = http_get (js ''/config-status'') None"
definition configStatusApi_reload :: request where
  "configStatusApi_reload = http_post (js ''/config/reload'') None"
definition configStatusApi_rollback :: request where
  "configStatusApi_rollback = http_post (js ''/config/rollback'') None"
definition configStatusApi_exportJson :: download where
  "configStatusApi_exportJson =
     downloadFile (js ''/config/export'') (Some (obj [(''format'', Some (JStr (js ''json'')))])) (Some (js ''config.json''))"

definition runtimeStatusApi_get :: request where
  "runtimeStatusApi_get = http_get (js ''/status'') None"

definition backupApi_list :: request where
  "backupApi_list = http_get (js ''/backups'') None"
definition backupApi_create :: request where
  "backupApi_create = http_post (js ''/backups'') None"
definition backupApi_restore :: "BackupRestoreBody \<Rightarrow> request" where
  "backupApi_restore body = http_post (js ''/backups/restore'') (Some (BackupRestoreBody_json body))"
definition backupApi_remove :: "int \<Rightarrow> request" where
  "backupApi_remove i = http_delete (path_id ''/backups/'' i '''')"
definition backupApi_download :: "int \<Rightarrow> download" where
  "backupApi_download i =
     downloadFile (path_id ''/backups/'' i ''/download'') None (Some (path_id ''backup-'' i ''.json''))"

section \<open>Properties\<close>

text \<open>The detail of a call is asked for under the request id of its row: the part of the address
  after the fixed prefix is one path component (no slash, question mark, number sign, ampersand or
  blank), and decoding it gives the id back, whatever characters the id holds.\<close>

theorem call_detail_path:
  assumes "callLogApi_detail requestId = Some rq"
  shows "\<exists>seg. rq_url rq = js ''/audit/calls/'' @ seg \<and> decodeURIComponent seg = Some requestId
    \<and> set seg \<inter> set (js ''/?#& '') = {} \<and> rq_method rq = M_get"
proof -
  from assms obtain e where e: "encodeURIComponent requestId = Some e"
    "rq = http_get (js ''/audit/calls/'' @ e) None"
    by (auto simp: callLogApi_detail_def)
  have "set (js ''/?#& '') \<subseteq> set (js ''/?#& ;'' @ [34])" by (auto simp: js_def)
  with encode_not_special [OF e(1)] decode_encode [OF e(1)] e(2) show ?thesis
    by (intro exI [of _ e]) (auto simp: http_get_def)
qed

lemma call_detail_path_witness:
  "\<exists>seg. js ''/audit/calls/'' @ js ''a%2Fb'' = js ''/audit/calls/'' @ seg
     \<and> decodeURIComponent seg = Some (js ''a/b'')"
proof -
  have "encodeURIComponent (js ''a/b'') = Some (js ''a%2Fb'')" by code_simp
  then have "callLogApi_detail (js ''a/b'') = Some (http_get (js ''/audit/calls/'' @ js ''a%2Fb'') None)"
    by (simp add: callLogApi_detail_def)
  from call_detail_path [OF this] show ?thesis by (auto simp: http_get_def)
qed

lemma takeWhile_filename:
  "encodeURIComponent n = Some e \<Longrightarrow> takeWhile filename_unit (e @ s) = e @ takeWhile filename_unit s"
  using encode_not_special [of n e]
  by (subst takeWhile_append2) (auto simp: filename_unit_def js_def)

lemma find_first_name: "e \<noteq> [] \<Longrightarrow> find (\<lambda>n. n \<noteq> []) (e # xs) = Some e"
  by simp

lemma encode_nonempty: "encodeURIComponent n = Some e \<Longrightarrow> n \<noteq> [] \<Longrightarrow> e \<noteq> []"
  using decode_encode by fastforce

lemma encode_head: "encodeURIComponent n = Some (c # e) \<Longrightarrow> c \<noteq> 34"
  using encode_not_special [of n "c # e"] by auto

text \<open>The beginning of the header, up to the equals sign, and after it.\<close>

lemma header_literals:
  "js ''filename'' = [102, 105, 108, 101, 110, 97, 109, 101]"
  "js ''attachment; filename'' = [97, 116, 116, 97, 99, 104, 109, 101, 110, 116, 59, 32, 102, 105, 108, 101, 110, 97, 109, 101]"
  "js ''UTF-8'' = [85, 84, 70, 45, 56]"
  by code_simp+

lemma lower_numerals [simp]:
  "lower 97 = 97" "lower 116 = 116" "lower 99 = 99" "lower 104 = 104" "lower 109 = 109"
  "lower 101 = 101" "lower 110 = 110" "lower 59 = 59" "lower 32 = 32" "lower 102 = 102"
  "lower 105 = 105" "lower 108 = 108" "lower 85 = 117" "lower 84 = 116" "lower 70 = 102"
  "lower 45 = 45" "lower 56 = 56" "lower 34 = 34"
  by (simp_all add: lower_def)

lemma js_append_literals:
  "js ''attachment; filename='' = js ''attachment; filename'' @ [61]"
  "js ''attachment; filename*=UTF-8'' = js ''attachment; filename'' @ 42 # 61 # js ''UTF-8''"
  by code_simp+

lemma filename_match_skip: "lower c \<noteq> 102 \<Longrightarrow> filename_match (c # s) = filename_match s"
  by (simp add: filename_here_def header_literals)

lemma filename_match_attachment:
  "filename_here (js ''filename'' @ s) = Some m \<Longrightarrow>
     filename_match (js ''attachment; filename'' @ s) = Some m"
  unfolding header_literals by (simp add: filename_match_skip del: filename_match.simps)
    (simp add: filename_match.simps)

text \<open>C15: the name a download is saved under is the one its header gives: a name that the server
  sends percent-encoded, in quotes or in the extended form, is decoded to the name itself, and
  without a header the fallback of the call is used.\<close>

theorem download_name_roundtrip:
  assumes "encodeURIComponent n = Some e" "n \<noteq> []"
  shows "download_name d (r\<lparr>rs_disposition := Some (js ''attachment; filename='' @ [34] @ e @ [34])\<rparr>) = n
    \<and> download_name d (r\<lparr>rs_disposition := Some (js ''attachment; filename*=UTF-8'' @ [39, 39] @ e)\<rparr>) = n
    \<and> download_name d (r\<lparr>rs_disposition := None\<rparr>) =
        (case dl_fallbackName d of Some f \<Rightarrow> str_or f (js ''download'') | None \<Rightarrow> js ''download'')"
proof -
  have e: "e \<noteq> []" by (rule encode_nonempty [OF assms])
  have q: "filename_here (js ''filename'' @ (61 # 34 # e @ [34])) = Some e"
    using e takeWhile_filename [OF assms(1), of "[34]"]
    by (simp add: filename_here_def header_literals filename_unit_def)
  have u: "filename_here (js ''filename'' @ (42 # 61 # js ''UTF-8'' @ [39, 39] @ e)) = Some e"
    using e encode_head [of n] assms(1) takeWhile_filename [OF assms(1), of "[]"]
    by (cases e) (auto simp: filename_here_def header_literals)
  have "download_name d (r\<lparr>rs_disposition := Some (js ''attachment; filename='' @ [34] @ e @ [34])\<rparr>) = n"
    using filename_match_attachment [OF q] decode_encode [OF assms(1)]
    by (simp add: download_name_def js_append_literals)
  moreover have "download_name d (r\<lparr>rs_disposition := Some (js ''attachment; filename*=UTF-8'' @ [39, 39] @ e)\<rparr>) = n"
    using filename_match_attachment [OF u] decode_encode [OF assms(1)]
    by (simp add: download_name_def js_append_literals)
  moreover have "filename_match [] = None" by (simp add: filename_here_def js_def)
  ultimately show ?thesis by (simp add: download_name_def)
qed

lemma download_name_roundtrip_witness:
  "download_name (backupApi_download 3)
     \<lparr>rs_status = 200, rs_response_type = RT_blob, rs_body = None,
      rs_disposition = Some (js ''attachment; filename='' @ [34] @ js ''a%20b.json'' @ [34])\<rparr> = js ''a b.json''"
proof -
  have "encodeURIComponent (js ''a b.json'') = Some (js ''a%20b.json'')" by code_simp
  from download_name_roundtrip [OF this, of "backupApi_download 3"
      "\<lparr>rs_status = 200, rs_response_type = RT_blob, rs_body = None, rs_disposition = None\<rparr>"]
  show ?thesis by simp
qed

end
