(* ===== verification/Crud.thy ===== *)
theory Crud
  imports Endpoints View
begin

text \<open>
  What the list pages of the console share: a dialog that creates or edits a row, the request a
  save sends, the switch of a row (frontend/src/components/StatusSwitch.tsx) and the paging of the
  table. The pages of the later theories instantiate these operations with their own form and
  bodies; the locale \<open>crud_page\<close> is the contract such a page meets, and its lemmas hold for each
  page through its interpretation.
\<close>

section \<open>State and operations\<close>

record ('r, 'f) CrudPage =
  cr_page :: int
  cr_pageSize :: int
  cr_modalOpen :: bool
  cr_editing :: "'r option"
  cr_form :: 'f
  cr_stale :: bool

definition crud_initial :: "'f \<Rightarrow> ('r, 'f) CrudPage" where
  "crud_initial f = \<lparr>cr_page = 1, cr_pageSize = 10, cr_modalOpen = False, cr_editing = None,
     cr_form = f, cr_stale = False\<rparr>"

definition crud_openCreate :: "'f \<Rightarrow> ('r, 'f) CrudPage \<Rightarrow> ('r, 'f) CrudPage" where
  "crud_openCreate blank s = s\<lparr>cr_editing := None, cr_form := blank, cr_modalOpen := True\<rparr>"

definition crud_openEdit :: "('r \<Rightarrow> 'f) \<Rightarrow> 'r \<Rightarrow> ('r, 'f) CrudPage \<Rightarrow> ('r, 'f) CrudPage" where
  "crud_openEdit prefill r s = s\<lparr>cr_editing := Some r, cr_form := prefill r, cr_modalOpen := True\<rparr>"

text \<open>The user types in the form.\<close>

definition crud_input :: "'f \<Rightarrow> ('r, 'f) CrudPage \<Rightarrow> ('r, 'f) CrudPage" where
  "crud_input f s = s\<lparr>cr_form := f\<rparr>"

definition crud_cancel :: "('r, 'f) CrudPage \<Rightarrow> ('r, 'f) CrudPage" where
  "crud_cancel s = s\<lparr>cr_modalOpen := False\<rparr>"

definition invalidate :: "('r, 'f) CrudPage \<Rightarrow> ('r, 'f) CrudPage" where
  "invalidate s = s\<lparr>cr_stale := True\<rparr>"

text \<open>The function of the save mutation: an update of the row being edited, else a creation.\<close>

definition save_request ::
  "('r \<Rightarrow> int) \<Rightarrow> (int \<Rightarrow> 'b \<Rightarrow> request) \<Rightarrow> ('b \<Rightarrow> request) \<Rightarrow> 'r option \<Rightarrow> 'b \<Rightarrow> request" where
  "save_request ident upd crt editing body =
     (case editing of Some r \<Rightarrow> upd (ident r) body | None \<Rightarrow> crt body)"

text \<open>The save button: nothing is sent while the form does not validate (\<open>body_of\<close> is None).\<close>

definition crud_submit ::
  "('r \<Rightarrow> int) \<Rightarrow> ('f \<Rightarrow> 'b option) \<Rightarrow> (int \<Rightarrow> 'b \<Rightarrow> request) \<Rightarrow> ('b \<Rightarrow> request) \<Rightarrow> ('r, 'f) CrudPage \<Rightarrow> request option" where
  "crud_submit ident body_of upd crt s =
     map_option (save_request ident upd crt (cr_editing s)) (body_of (cr_form s))"

text \<open>The save mutation settles; \<open>updated\<close> and \<open>created\<close> are the keys of its messages.\<close>

definition crud_saved ::
  "translate \<Rightarrow> string \<Rightarrow> string \<Rightarrow> 'a outcome \<Rightarrow> ('r, 'f) CrudPage \<Rightarrow> World \<Rightarrow> ('r, 'f) CrudPage \<times> World" where
  "crud_saved t updated created out s w =
     (case out of
        Resolved _ \<Rightarrow>
          (invalidate (s\<lparr>cr_modalOpen := False\<rparr>),
           toast (T_success (t (js (if cr_editing s \<noteq> None then updated else created)) [])) w)
      | Rejected _ \<Rightarrow> (s, w))"

definition crud_removed ::
  "translate \<Rightarrow> string \<Rightarrow> 'a outcome \<Rightarrow> ('r, 'f) CrudPage \<Rightarrow> World \<Rightarrow> ('r, 'f) CrudPage \<times> World" where
  "crud_removed t key out s w =
     (case out of
        Resolved _ \<Rightarrow> (invalidate s, toast (T_success (t (js key) [])) w)
      | Rejected _ \<Rightarrow> (s, w))"

text \<open>The table's change of page: \<open>p.current ?? 1\<close>, \<open>p.pageSize ?? 10\<close>.\<close>

definition crud_table :: "int option \<Rightarrow> int option \<Rightarrow> ('r, 'f) CrudPage \<Rightarrow> ('r, 'f) CrudPage" where
  "crud_table current psize s = s\<lparr>cr_page := or_else current 1, cr_pageSize := or_else psize 10\<rparr>"

section \<open>The switch of a row\<close>

text \<open>
  \<open>handleChange\<close> of StatusSwitch: a change is ignored while one is under way; when the page's
  action rejects, its message is shown.
\<close>

definition switch_start :: "bool \<Rightarrow> (bool \<times> bool)" where
  "switch_start loading = (if loading then (loading, False) else (True, True))"

definition switch_settled :: "'a outcome \<Rightarrow> World \<Rightarrow> bool \<times> World" where
  "switch_settled out w =
     (case out of
        Resolved _ \<Rightarrow> (False, w)
      | Rejected e \<Rightarrow> (False, toast (T_error (e_message e)) w))"

lemmas crud_defs [js_eval] = crud_initial_def crud_openCreate_def crud_openEdit_def crud_input_def
  crud_cancel_def invalidate_def save_request_def crud_submit_def crud_saved_def crud_removed_def
  crud_table_def switch_start_def switch_settled_def

section \<open>Form helpers\<close>

text \<open>The rule \<open>required\<close> on a text: present and not empty; \<open>v?.trim() || ''\<close>.\<close>

definition filled :: "jsstring option \<Rightarrow> bool" where
  "filled v \<longleftrightarrow> v \<noteq> None \<and> v \<noteq> Some []"

definition trim_or_empty :: "jsstring option \<Rightarrow> jsstring" where
  "trim_or_empty v = (case v of None \<Rightarrow> [] | Some s \<Rightarrow> trim s)"

definition trimmed :: "jsstring \<Rightarrow> bool" where
  "trimmed s \<longleftrightarrow> trim s = s"

lemmas form_defs [js_eval] = filled_def trim_or_empty_def trimmed_def

section \<open>Addresses\<close>

lemma int_to_string_inject: "\<bar>i\<bar> \<le> 2 ^ 53 \<Longrightarrow> \<bar>j\<bar> \<le> 2 ^ 53 \<Longrightarrow> int_to_string i = int_to_string j \<longleftrightarrow> i = j"
  by (metis js_Number_of_int jsnum.inject of_int_eq_iff)

lemma path_id_inject:
  "\<bar>i\<bar> \<le> 2 ^ 53 \<Longrightarrow> \<bar>j\<bar> \<le> 2 ^ 53 \<Longrightarrow> path_id pre i suf = path_id pre j suf \<longleftrightarrow> i = j"
  by (simp add: path_id_def int_to_string_inject)

lemma path_id_longer: "length q < length pre \<Longrightarrow> path_id pre i suf \<noteq> js q"
  by (auto simp: path_id_def dest!: arg_cong [of _ _ length])

lemma http_simps [simp]:
  "rq_method (http_put u d) = M_put" "rq_method (http_post u d) = M_post"
  "rq_method (http_get u p) = M_get" "rq_method (http_delete u) = M_delete"
  "rq_url (http_put u d) = u" "rq_url (http_post u d) = u" "rq_url (http_get u p) = u"
  "rq_url (http_delete u) = u" "rq_data (http_put u d) = d" "rq_data (http_post u d) = d"
  by (simp_all add: http_put_def http_post_def http_get_def http_delete_def)

section \<open>The contract of a list page\<close>

locale crud_page =
  fixes ident :: "'r \<Rightarrow> int"
    and blank :: 'f
    and prefill :: "'r \<Rightarrow> 'f"
    and body_of :: "'f \<Rightarrow> 'b option"
    and row_body :: "'r \<Rightarrow> bool \<Rightarrow> 'b"
    and row_enabled :: "'r \<Rightarrow> bool"
    and upd :: "int \<Rightarrow> 'b \<Rightarrow> request"
    and crt :: "'b \<Rightarrow> request"
    and clean :: "'r \<Rightarrow> bool"
  assumes upd_method: "rq_method (upd i b) = M_put"
    and crt_method: "rq_method (crt b) = M_post"
    and same_payload: "rq_data (upd i b) = rq_data (crt b)"
    and upd_target: "\<bar>i\<bar> \<le> 2 ^ 53 \<Longrightarrow> \<bar>j\<bar> \<le> 2 ^ 53 \<Longrightarrow> rq_url (upd i b) = rq_url (upd j b') \<longleftrightarrow> i = j"
    and upd_not_crt: "rq_url (upd i b) \<noteq> rq_url (crt b')"
    and prefill_body: "clean r \<Longrightarrow> body_of (prefill r) = Some (row_body r (row_enabled r))"
    and blank_rejected: "body_of blank = None"
begin

abbreviation "submit \<equiv> crud_submit ident body_of upd crt"

text \<open>Whatever is typed into an edit dialog, the save is a PUT on the row that was opened.\<close>

lemma edit_targets_row:
  assumes "submit (crud_input f (crud_openEdit prefill r s)) = Some rq"
  shows "rq_method rq = M_put \<and> (\<exists>b. body_of f = Some b \<and> rq = upd (ident r) b)"
  using assms by (auto simp: crud_defs upd_method)

text \<open>Opening a row and saving it unchanged writes the row back as it is.\<close>

lemma unchanged_edit:
  "clean r \<Longrightarrow> submit (crud_openEdit prefill r s) = Some (upd (ident r) (row_body r (row_enabled r)))"
  by (simp add: crud_defs prefill_body)

text \<open>A creation dialog never overwrites a row, also after an edit was cancelled.\<close>

lemma create_after_edit:
  assumes "submit (crud_input f (crud_openCreate blank (crud_cancel (crud_openEdit prefill r s)))) = Some rq"
  shows "rq_method rq = M_post \<and> (\<forall>i b. rq_url rq \<noteq> rq_url (upd i b))"
  using assms upd_not_crt [symmetric] by (auto simp: crud_defs crt_method)

lemma blank_not_sent: "submit (crud_openCreate blank s) = None"
  by (simp add: crud_defs blank_rejected)

lemma distinct_rows_distinct_targets:
  assumes "\<bar>ident r\<bar> \<le> 2 ^ 53" "\<bar>ident r'\<bar> \<le> 2 ^ 53" "ident r \<noteq> ident r'"
  shows "rq_url (upd (ident r) b) \<noteq> rq_url (upd (ident r') b')"
  using assms upd_target by blast

text \<open>
  A save that settles after its dialog was cancelled and another row opened closes the dialog of
  the other row.
\<close>

lemma late_save_closes:
  "\<not> cr_modalOpen (fst (crud_saved t u c (Resolved x) (crud_openEdit prefill r' (crud_cancel s)) w))"
  by (simp add: crud_defs)

end

end
