(* ===== verification/Providers.thy ===== *)
theory Providers
  imports Crud
begin

text \<open>
  frontend/src/pages/providers/Providers.tsx: the list of upstream providers with its dialog, the
  connection test, and the import of the models a test has found. What antd's form checks beyond
  the presence of a value (\<open>type: 'url'\<close>) is the parameter \<open>is_url\<close>.
\<close>

record ProviderFormValues =
  prvf_name :: "jsstring option"
  prvf_protocol :: "ProviderProtocol option"
  prvf_base_url :: "jsstring option"
  prvf_api_key :: "jsstring option"
  prvf_enabled :: "bool option"
  prvf_remark :: "jsstring option"

type_synonym ProvidersPage = "(Provider, ProviderFormValues) CrudPage"

definition providers_blank :: ProviderFormValues where
  "providers_blank = \<lparr>prvf_name = None, prvf_protocol = Some Openai_chat, prvf_base_url = None,
     prvf_api_key = None, prvf_enabled = Some True, prvf_remark = None\<rparr>"

definition providers_prefill :: "Provider \<Rightarrow> ProviderFormValues" where
  "providers_prefill r = \<lparr>prvf_name = Some (prov_name r), prvf_protocol = Some (prov_protocol r),
     prvf_base_url = Some (prov_base_url r), prvf_api_key = None,
     prvf_enabled = Some (prov_enabled r), prvf_remark = Some (prov_remark r)\<rparr>"

definition providers_openCreate :: "ProvidersPage \<Rightarrow> ProvidersPage" where
  "providers_openCreate = crud_openCreate providers_blank"

definition providers_openEdit :: "Provider \<Rightarrow> ProvidersPage \<Rightarrow> ProvidersPage" where
  "providers_openEdit = crud_openEdit providers_prefill"

text \<open>The form with its rules; the key is required of a new provider only.\<close>

definition providers_form :: "Ui \<Rightarrow> (jsstring \<Rightarrow> bool) \<Rightarrow> bool \<Rightarrow> ProviderFormValues form_item list" where
  "providers_form u is_url editing =
     [item ''name'' (tr u ''providers.nameLabel'') In_text
        [rule (\<lambda>v. filled (prvf_name v)) (tr u ''providers.nameReq'')],
      item ''protocol'' (tr u ''providers.protocolLabel'') In_select
        [rule (\<lambda>v. prvf_protocol v \<noteq> None) (tr u ''providers.protocolReq'')],
      item ''base_url'' (tr u ''providers.urlLabel'') In_text
        [rule (\<lambda>v. filled (prvf_base_url v)) (tr u ''providers.urlReq''),
         rule (\<lambda>v. filled (prvf_base_url v) \<longrightarrow> is_url (the (prvf_base_url v))) (tr u ''providers.urlInvalid'')],
      item ''api_key'' (js ''API Key'') In_password
        (if editing then [] else [rule (\<lambda>v. filled (prvf_api_key v)) (tr u ''providers.keyReq'')]),
      item ''enabled'' (tr u ''common.status'') In_switch [],
      item ''remark'' (tr u ''common.remark'') In_area []]"

definition providers_body :: "ProviderFormValues \<Rightarrow> ProviderInput" where
  "providers_body v =
     \<lparr>pin_name = trim_or_empty (prvf_name v), pin_protocol = the (prvf_protocol v),
      pin_base_url = trim_or_empty (prvf_base_url v), pin_api_key = Some (trim_or_empty (prvf_api_key v)),
      pin_enabled = Some (or_else (prvf_enabled v) True), pin_remark = Some (trim_or_empty (prvf_remark v))\<rparr>"

definition providers_handleOk :: "(jsstring \<Rightarrow> bool) \<Rightarrow> ProvidersPage \<Rightarrow> request option" where
  "providers_handleOk is_url s =
     crud_submit prov_id
       (\<lambda>v. if validateFields (\<lambda>u. providers_form u is_url (cr_editing s \<noteq> None)) v
            then Some (providers_body v) else None)
       providerApi_update providerApi_create s"

definition providers_toggle_body :: "Provider \<Rightarrow> bool \<Rightarrow> ProviderInput" where
  "providers_toggle_body r enabled =
     \<lparr>pin_name = prov_name r, pin_protocol = prov_protocol r, pin_base_url = prov_base_url r,
      pin_api_key = Some [], pin_enabled = Some enabled, pin_remark = Some (prov_remark r)\<rparr>"

definition providers_toggleEnabled :: "Provider \<Rightarrow> bool \<Rightarrow> request" where
  "providers_toggleEnabled r enabled = providerApi_update (prov_id r) (providers_toggle_body r enabled)"

definition providers_toggled :: "translate \<Rightarrow> bool \<Rightarrow> 'a outcome \<Rightarrow> ProvidersPage \<Rightarrow> World \<Rightarrow> ProvidersPage \<times> World" where
  "providers_toggled t enabled out s w =
     (case out of
        Resolved _ \<Rightarrow>
          (invalidate s,
           toast (T_success (t (if enabled then js ''providers.enabledOk'' else js ''providers.disabledOk'') [])) w)
      | Rejected _ \<Rightarrow> (s, w))"

definition providers_saved :: "translate \<Rightarrow> 'a outcome \<Rightarrow> ProvidersPage \<Rightarrow> World \<Rightarrow> ProvidersPage \<times> World" where
  "providers_saved t = crud_saved t ''providers.updated'' ''providers.created''"

definition providers_removed :: "translate \<Rightarrow> 'a outcome \<Rightarrow> ProvidersPage \<Rightarrow> World \<Rightarrow> ProvidersPage \<times> World" where
  "providers_removed t = crud_removed t ''common.deleteSuccess''"

section \<open>Search\<close>

record ProviderSearch =
  prvs_keyword :: jsstring
  prvs_searchText :: jsstring
  prvs_page :: int

definition providers_search :: "jsstring \<Rightarrow> ProviderSearch \<Rightarrow> ProviderSearch" where
  "providers_search v s = s\<lparr>prvs_page := 1, prvs_keyword := v, prvs_searchText := v\<rparr>"

definition providers_reset_search :: "ProviderSearch \<Rightarrow> ProviderSearch" where
  "providers_reset_search s = s\<lparr>prvs_keyword := [], prvs_searchText := [], prvs_page := 1\<rparr>"

definition providers_query :: "int \<Rightarrow> ProviderSearch \<Rightarrow> request" where
  "providers_query pageSize s =
     providerApi_list \<lparr>pp_page = Some (prvs_page s), pp_page_size = Some pageSize,
       pp_keyword = str_or_undef (prvs_searchText s)\<rparr>"

section \<open>Connection test and import of models\<close>

record ImportState =
  im_testingId :: "int option"
  im_modalOpen :: bool
  im_provider :: "Provider option"
  im_modelList :: "jsstring list"
  im_selected :: "jsstring list"
  im_importing :: bool
  im_models_stale :: bool

definition import_initial :: ImportState where
  "import_initial = \<lparr>im_testingId = None, im_modalOpen = False, im_provider = None, im_modelList = [],
     im_selected = [], im_importing = False, im_models_stale = False\<rparr>"

definition handleTest :: "Provider \<Rightarrow> ImportState \<Rightarrow> ImportState \<times> request" where
  "handleTest r s = (s\<lparr>im_testingId := Some (prov_id r)\<rparr>, providerApi_test (prov_id r))"

definition test_models :: "ProviderTestResult \<Rightarrow> jsstring list" where
  "test_models res = or_else (ptr_models res) []"

definition test_settled ::
  "translate \<Rightarrow> Provider \<Rightarrow> ProviderTestResult outcome \<Rightarrow> ImportState \<Rightarrow> World \<Rightarrow> ImportState \<times> World" where
  "test_settled t r out s w =
     (let done = s\<lparr>im_testingId := None\<rparr> in
      case out of
        Rejected _ \<Rightarrow> (done, w)
      | Resolved res \<Rightarrow>
          if \<not> ptr_ok res
          then (done, toast (T_error (t (js ''providers.testFail'') [(js ''msg'', ptr_message res)])) w)
          else
            let models = test_models res;
                extra = (if models \<noteq> []
                         then t (js ''providers.testModels'') [(js ''n'', int_to_string (int (length models)))]
                         else []);
                w1 = toast (T_success (t (js ''providers.testOk'') [(js ''ms'', int_to_string (ptr_latency_ms res))] @ extra)) w
            in if models = []
               then (done, toast (T_info (t (js ''providers.testNoModels'') [])) w1)
               else (done\<lparr>im_provider := Some r, im_modelList := models, im_selected := models,
                          im_modalOpen := True\<rparr>, w1))"

definition select_models :: "jsstring list \<Rightarrow> ImportState \<Rightarrow> ImportState" where
  "select_models ks s = s\<lparr>im_selected := ks\<rparr>"

definition handleImport :: "ImportState \<Rightarrow> ImportState \<times> request option" where
  "handleImport s =
     (case im_provider s of
        None \<Rightarrow> (s, None)
      | Some p \<Rightarrow>
          if im_selected s = [] then (s, None)
          else (s\<lparr>im_importing := True\<rparr>,
                Some (providerApi_importModels (prov_id p) \<lparr>pii_models = im_selected s, pii_enabled = True\<rparr>)))"

definition import_settled ::
  "translate \<Rightarrow> ProviderImportResult outcome \<Rightarrow> ImportState \<Rightarrow> World \<Rightarrow> ImportState \<times> World" where
  "import_settled t out s w =
     (case out of
        Rejected _ \<Rightarrow> (s\<lparr>im_importing := False\<rparr>, w)
      | Resolved res \<Rightarrow>
          (s\<lparr>im_importing := False, im_modalOpen := False, im_models_stale := True\<rparr>,
           toast (T_success
             (t (js ''providers.importOk'') [(js ''created'', int_to_string (pir_created res))]
              @ (if pir_added res \<noteq> 0 then t (js ''providers.importAdded'') [(js ''n'', int_to_string (pir_added res))] else [])
              @ (if pir_skipped res \<noteq> 0 then t (js ''providers.importSkipped'') [(js ''n'', int_to_string (pir_skipped res))] else []))) w))"

text \<open>What the rules of the form come down to.\<close>

definition providers_valid :: "(jsstring \<Rightarrow> bool) \<Rightarrow> bool \<Rightarrow> ProviderFormValues \<Rightarrow> bool" where
  "providers_valid is_url editing v \<longleftrightarrow>
     filled (prvf_name v) \<and> prvf_protocol v \<noteq> None \<and> filled (prvf_base_url v)
     \<and> is_url (the (prvf_base_url v)) \<and> (editing \<or> filled (prvf_api_key v))"

lemma providers_required: "form_errors (providers_form u is_url e) v = [] \<longleftrightarrow> providers_valid is_url e v"
  by (auto simp: providers_form_def providers_valid_def filled_def)

lemma providers_validate: "validateFields (\<lambda>u. providers_form u is_url e) v \<longleftrightarrow> providers_valid is_url e v"
  by (simp add: validateFields_def providers_required)

lemmas provider_defs [js_eval] = providers_blank_def providers_prefill_def providers_openCreate_def
  providers_openEdit_def providers_valid_def providers_validate providers_body_def providers_handleOk_def
  providers_toggle_body_def providers_toggleEnabled_def providers_toggled_def providers_saved_def
  providers_removed_def providers_search_def providers_reset_search_def providers_query_def
  import_initial_def handleTest_def test_models_def test_settled_def select_models_def
  handleImport_def import_settled_def

section \<open>The page meets the contract\<close>

definition provider_clean :: "(jsstring \<Rightarrow> bool) \<Rightarrow> Provider \<Rightarrow> bool" where
  "provider_clean is_url r \<longleftrightarrow> prov_name r \<noteq> [] \<and> trimmed (prov_name r) \<and> prov_base_url r \<noteq> []
     \<and> trimmed (prov_base_url r) \<and> is_url (prov_base_url r) \<and> trimmed (prov_remark r)"

text \<open>In a dialog that edits, the key may be left empty; the contract is met with these rules.\<close>

interpretation provider_list: crud_page prov_id providers_blank providers_prefill
  "\<lambda>v. if validateFields (\<lambda>u. providers_form u (\<lambda>a. True) True) v then Some (providers_body v) else None"
  providers_toggle_body prov_enabled providerApi_update providerApi_create "provider_clean (\<lambda>u. True)"
  by unfold_locales
    (auto simp: providerApi_update_def providerApi_create_def path_id_inject path_id_longer
      providers_validate providers_valid_def providers_body_def providers_prefill_def providers_toggle_body_def
      providers_blank_def provider_clean_def form_defs)

section \<open>Properties\<close>

text \<open>Opening a provider and saving it unchanged sends the row back as it is, with an empty key,
  which leaves the stored key alone: the same request as switching the row to the state it has.\<close>

theorem provider_edit_preserves:
  assumes "provider_clean is_url r"
  shows "providers_handleOk is_url (providers_openEdit r s) = Some (providers_toggleEnabled r (prov_enabled r))
    \<and> pin_api_key (providers_toggle_body r (prov_enabled r)) = Some []"
  using assms
  by (simp add: provider_defs crud_defs form_defs provider_clean_def)

definition sample_provider :: Provider where
  "sample_provider = \<lparr>prov_id = 4, prov_name = js ''main'', prov_protocol = Anthropic,
     prov_base_url = js ''https://x'', prov_api_key_masked = js ''sk-***'', prov_enabled = True,
     prov_remark = [], prov_created_at = None, prov_updated_at = None\<rparr>"

lemma sample_provider_clean: "provider_clean (\<lambda>u. True) sample_provider"
  by code_simp

lemma provider_edit_preserves_witness:
  "providers_handleOk (\<lambda>u. True) (providers_openEdit sample_provider (crud_initial providers_blank))
   = Some (providers_toggleEnabled sample_provider True)"
  using conjunct1 [OF provider_edit_preserves [OF sample_provider_clean]] by (simp add: sample_provider_def)

text \<open>A new provider is only sent with a name, an address and a key; the request is a creation,
  with the fields trimmed, whatever was edited before.\<close>

theorem provider_create_complete:
  assumes "providers_handleOk is_url (crud_input v (providers_openCreate s)) = Some rq"
  shows "rq = providerApi_create (providers_body v) \<and> rq_method rq = M_post
    \<and> filled (prvf_name v) \<and> filled (prvf_base_url v) \<and> filled (prvf_api_key v)"
  using assms
  by (auto simp: provider_defs crud_defs providerApi_create_def split: if_splits)

lemma provider_create_complete_witness:
  "rq_method (providerApi_create (providers_body
     (providers_blank\<lparr>prvf_name := Some (js ''n''), prvf_base_url := Some (js ''u''), prvf_api_key := Some (js ''k'')\<rparr>))) = M_post"
proof -
  let ?v = "providers_blank\<lparr>prvf_name := Some (js ''n''), prvf_base_url := Some (js ''u''), prvf_api_key := Some (js ''k'')\<rparr>"
  have "providers_handleOk (\<lambda>u. True) (crud_input ?v (providers_openCreate (crud_initial providers_blank)))
      = Some (providerApi_create (providers_body ?v))"
    by (simp add: provider_defs crud_defs form_defs)
  from provider_create_complete [OF this] show ?thesis by blast
qed

text \<open>The models a connection test has found are offered for import, all selected, and the import
  sends exactly the ones that are still selected, to the provider that was tested; when none was
  found or none is left, no dialog opens and nothing is sent.\<close>

theorem import_sends_selection:
  assumes "ptr_ok res"
  shows "let s1 = fst (test_settled t r (Resolved res) s w);
             sent = snd (handleImport (select_models ks s1))
    in im_testingId s1 = None
       \<and> (test_models res = [] \<longrightarrow> s1 = s\<lparr>im_testingId := None\<rparr>)
       \<and> (test_models res \<noteq> [] \<longrightarrow> im_modalOpen s1 \<and> im_selected s1 = test_models res
            \<and> sent = (if ks = [] then None
                 else Some (providerApi_importModels (prov_id r) \<lparr>pii_models = ks, pii_enabled = True\<rparr>)))"
  using assms by (simp add: test_settled_def Let_def select_models_def handleImport_def)

lemma import_sends_selection_witness:
  "snd (handleImport (select_models [js ''b'']
     (fst (test_settled (\<lambda>k a. k) sample_provider
       (Resolved \<lparr>ptr_ok = True, ptr_latency_ms = 5, ptr_message = [], ptr_models = Some [js ''a'', js ''b'']\<rparr>)
       import_initial sample_world))))
   = Some (providerApi_importModels 4 \<lparr>pii_models = [js ''b''], pii_enabled = True\<rparr>)"
  using import_sends_selection
    [of "\<lparr>ptr_ok = True, ptr_latency_ms = 5, ptr_message = [], ptr_models = Some [js ''a'', js ''b'']\<rparr>"
        "\<lambda>k a. k" sample_provider import_initial sample_world "[js ''b'']"]
  by (simp add: test_models_def sample_provider_def Let_def)

end
