(* ===== verification/RateLimits.thy ===== *)
theory RateLimits
  imports Crud
begin

text \<open>frontend/src/pages/quota/RateLimits.tsx: the list of rate limits with its dialog.\<close>

record RateLimitFormValues =
  rlf_api_key_id :: "int option"
  rlf_model_alias :: "jsstring option"
  rlf_window_seconds :: "int option"
  rlf_max_requests :: "int option"
  rlf_enabled :: "bool option"

type_synonym RateLimitsPage = "(RateLimit, RateLimitFormValues) CrudPage"

definition rateLimits_blank :: RateLimitFormValues where
  "rateLimits_blank = \<lparr>rlf_api_key_id = Some 0, rlf_model_alias = Some (js ''*''),
     rlf_window_seconds = None, rlf_max_requests = None, rlf_enabled = Some True\<rparr>"

definition rateLimits_prefill :: "RateLimit \<Rightarrow> RateLimitFormValues" where
  "rateLimits_prefill r = \<lparr>rlf_api_key_id = Some (rl_api_key_id r), rlf_model_alias = Some (rl_model_alias r),
     rlf_window_seconds = Some (rl_window_seconds r), rlf_max_requests = Some (rl_max_requests r),
     rlf_enabled = Some (rl_enabled r)\<rparr>"

definition rateLimits_openCreate :: "RateLimitsPage \<Rightarrow> RateLimitsPage" where
  "rateLimits_openCreate = crud_openCreate rateLimits_blank"

definition rateLimits_openEdit :: "RateLimit \<Rightarrow> RateLimitsPage \<Rightarrow> RateLimitsPage" where
  "rateLimits_openEdit = crud_openEdit rateLimits_prefill"

text \<open>\<open>v.model_alias.trim() || '*'\<close>: a blank alias limits every model.\<close>

definition rateLimits_form :: "Ui \<Rightarrow> RateLimitFormValues form_item list" where
  "rateLimits_form u =
     [item ''api_key_id'' (tr u ''rateLimits.targetLabel'') In_select
        [rule (\<lambda>v. rlf_api_key_id v \<noteq> None) (tr u ''rateLimits.targetReq'')],
      item ''model_alias'' (tr u ''rateLimits.modelLabel'') In_text
        [rule (\<lambda>v. filled (rlf_model_alias v)) (tr u ''rateLimits.modelReq'')],
      item ''window_seconds'' (tr u ''rateLimits.windowLabel'') (In_number (Some 1) (Some 86400))
        [rule (\<lambda>v. rlf_window_seconds v \<noteq> None) (tr u ''rateLimits.windowReq'')],
      item ''max_requests'' (tr u ''rateLimits.maxReqLabel'') (In_number (Some 1) None)
        [rule (\<lambda>v. rlf_max_requests v \<noteq> None) (tr u ''rateLimits.maxReqReq'')],
      item ''enabled'' (tr u ''common.status'') In_switch []]"

definition rateLimits_handleSave :: "RateLimitFormValues \<Rightarrow> RateLimitInput option" where
  "rateLimits_handleSave v =
     (if validateFields rateLimits_form v
      then Some \<lparr>rli_api_key_id = the (rlf_api_key_id v),
                 rli_model_alias = str_or (trim_or_empty (rlf_model_alias v)) (js ''*''),
                 rli_window_seconds = the (rlf_window_seconds v), rli_max_requests = the (rlf_max_requests v),
                 rli_enabled = or_else (rlf_enabled v) True\<rparr>
      else None)"

definition rateLimits_submit :: "RateLimitsPage \<Rightarrow> request option" where
  "rateLimits_submit = crud_submit rl_id rateLimits_handleSave rateLimitApi_update rateLimitApi_create"

definition rateLimits_toggle_body :: "RateLimit \<Rightarrow> bool \<Rightarrow> RateLimitInput" where
  "rateLimits_toggle_body r enabled =
     \<lparr>rli_api_key_id = rl_api_key_id r, rli_model_alias = rl_model_alias r,
      rli_window_seconds = rl_window_seconds r, rli_max_requests = rl_max_requests r, rli_enabled = enabled\<rparr>"

definition rateLimits_toggleEnabled :: "RateLimit \<Rightarrow> bool \<Rightarrow> request" where
  "rateLimits_toggleEnabled r enabled = rateLimitApi_update (rl_id r) (rateLimits_toggle_body r enabled)"

definition rateLimits_saved :: "translate \<Rightarrow> 'a outcome \<Rightarrow> RateLimitsPage \<Rightarrow> World \<Rightarrow> RateLimitsPage \<times> World" where
  "rateLimits_saved t = crud_saved t ''rateLimits.updated'' ''rateLimits.created''"

definition rateLimits_removed :: "translate \<Rightarrow> 'a outcome \<Rightarrow> RateLimitsPage \<Rightarrow> World \<Rightarrow> RateLimitsPage \<times> World" where
  "rateLimits_removed t = crud_removed t ''common.deleteSuccess''"

definition rateLimits_query :: "RateLimitsPage \<Rightarrow> request" where
  "rateLimits_query s =
     rateLimitApi_list \<lparr>pp_page = Some (cr_page s), pp_page_size = Some (cr_pageSize s), pp_keyword = None\<rparr>"

text \<open>The cell of the key column: a tag for the limit of all keys.\<close>

definition rateLimits_key_label :: "translate \<Rightarrow> RateLimit \<Rightarrow> jsstring" where
  "rateLimits_key_label t r =
     (if rl_api_key_id r = 0 then str_or (rl_api_key_label r) (t (js ''rateLimits.global'') []) else rl_api_key_label r)"

definition rateLimits_model_label :: "translate \<Rightarrow> RateLimit \<Rightarrow> jsstring" where
  "rateLimits_model_label t r =
     (if rl_model_alias r = js ''*'' then t (js ''rateLimits.allModels'') [] else rl_model_alias r)"

text \<open>The choices of the key: every key of the list after the one for all.\<close>

definition rateLimits_key_options :: "translate \<Rightarrow> ApiKey list \<Rightarrow> (int \<times> jsstring) list" where
  "rateLimits_key_options t keys =
     (0, t (js ''rateLimits.globalOption'') [])
     # map (\<lambda>k. (ak_id k, int_to_string (ak_id k) @ [32, 0x2014, 32] @ ak_name k @ js '' ('' @ ak_key_masked k @ js '')'')) keys"

text \<open>What the rules of the form come down to.\<close>

lemma rateLimits_required:
  "form_errors (rateLimits_form u) v = [] \<longleftrightarrow> rlf_api_key_id v \<noteq> None \<and> filled (rlf_model_alias v)
     \<and> rlf_window_seconds v \<noteq> None \<and> rlf_max_requests v \<noteq> None"
  by (auto simp: rateLimits_form_def)

lemma rateLimits_handleSave_eq:
  "rateLimits_handleSave v =
     (case (rlf_api_key_id v, rlf_window_seconds v, rlf_max_requests v) of
        (Some k, Some ws, Some m) \<Rightarrow>
          if filled (rlf_model_alias v)
          then Some \<lparr>rli_api_key_id = k, rli_model_alias = str_or (trim_or_empty (rlf_model_alias v)) (js ''*''),
                     rli_window_seconds = ws, rli_max_requests = m,
                     rli_enabled = or_else (rlf_enabled v) True\<rparr>
          else None
      | _ \<Rightarrow> None)"
  by (auto simp: rateLimits_handleSave_def validateFields_def rateLimits_required split: option.split)

lemmas rateLimit_defs [js_eval] = rateLimits_blank_def rateLimits_prefill_def rateLimits_openCreate_def
  rateLimits_openEdit_def rateLimits_handleSave_eq rateLimits_submit_def rateLimits_toggle_body_def
  rateLimits_toggleEnabled_def rateLimits_saved_def rateLimits_removed_def rateLimits_query_def
  rateLimits_key_label_def rateLimits_model_label_def rateLimits_key_options_def

definition rateLimit_clean :: "RateLimit \<Rightarrow> bool" where
  "rateLimit_clean r \<longleftrightarrow> rl_model_alias r \<noteq> [] \<and> trimmed (rl_model_alias r)"

interpretation rate_limits: crud_page rl_id rateLimits_blank rateLimits_prefill rateLimits_handleSave
  rateLimits_toggle_body rl_enabled rateLimitApi_update rateLimitApi_create rateLimit_clean
  by unfold_locales
    (simp_all add: rateLimitApi_update_def rateLimitApi_create_def path_id_inject path_id_longer
      rateLimits_handleSave_eq rateLimits_prefill_def rateLimits_toggle_body_def
      rateLimits_blank_def rateLimit_clean_def form_defs str_or_def)

section \<open>Properties\<close>

text \<open>A rate limit that is saved always names a model: what a blank or padded alias turns into is
  the alias for all models or the alias itself without its padding, and the numbers, the key and
  the state are those of the form.\<close>

theorem rate_limit_body:
  assumes "rateLimits_handleSave v = Some b"
  shows "rli_model_alias b \<noteq> [] \<and> trimmed (rli_model_alias b)
    \<and> rlf_api_key_id v = Some (rli_api_key_id b) \<and> rlf_window_seconds v = Some (rli_window_seconds b)
    \<and> rlf_max_requests v = Some (rli_max_requests b) \<and> rli_enabled b = (rlf_enabled v \<noteq> Some False)"
proof -
  have star: "trim (js ''*'') = js ''*''" by code_simp
  from assms star show ?thesis
    by (cases "rlf_enabled v")
      (auto simp: rateLimits_handleSave_eq str_or_def trimmed_def trim_or_empty_def split: option.splits if_splits)
qed

lemma rate_limit_body_witness:
  "rli_model_alias (the (rateLimits_handleSave (rateLimits_blank\<lparr>rlf_model_alias := Some (js ''  ''),
     rlf_window_seconds := Some 60, rlf_max_requests := Some 10\<rparr>))) \<noteq> []"
proof -
  let ?v = "rateLimits_blank\<lparr>rlf_model_alias := Some (js ''  ''), rlf_window_seconds := Some 60, rlf_max_requests := Some 10\<rparr>"
  have "rateLimits_handleSave ?v = Some \<lparr>rli_api_key_id = 0, rli_model_alias = str_or (trim (js ''  '')) (js ''*''),
      rli_window_seconds = 60, rli_max_requests = 10, rli_enabled = True\<rparr>"
    by (simp add: rateLimits_handleSave_eq rateLimits_blank_def filled_def trim_or_empty_def)
  from rate_limit_body [OF this] this show ?thesis by simp
qed

end
