(* ===== verification/Models.thy ===== *)
theory Models
  imports Crud
begin

text \<open>
  frontend/src/pages/models/Models.tsx: the list of model aliases with the dialog that edits their
  upstreams, the search and the statistics drawer.
\<close>

record UpstreamForm =
  uf_provider_id :: "int option"
  uf_upstream_model :: jsstring
  uf_weight :: "int option"

record ModelFormValues =
  mf_alias :: "jsstring option"
  mf_enabled :: "bool option"
  mf_remark :: "jsstring option"
  mf_default_max_tokens :: "int option"
  mf_upstreams :: "UpstreamForm list"

type_synonym ModelsPage = "(ModelAlias, ModelFormValues) CrudPage"

text \<open>The row a new alias starts with, which is also the one the add button appends.\<close>

definition blank_upstream :: UpstreamForm where
  "blank_upstream = \<lparr>uf_provider_id = None, uf_upstream_model = [], uf_weight = Some 1\<rparr>"

definition models_blank :: ModelFormValues where
  "models_blank = \<lparr>mf_alias = None, mf_enabled = Some True, mf_remark = None,
     mf_default_max_tokens = None, mf_upstreams = [blank_upstream]\<rparr>"

definition upstream_prefill :: "Upstream \<Rightarrow> UpstreamForm" where
  "upstream_prefill u = \<lparr>uf_provider_id = Some (up_provider_id u), uf_upstream_model = up_upstream_model u,
     uf_weight = Some (up_weight u)\<rparr>"

definition models_prefill :: "ModelAlias \<Rightarrow> ModelFormValues" where
  "models_prefill r = \<lparr>mf_alias = Some (ma_alias r), mf_enabled = Some (ma_enabled r),
     mf_remark = Some (ma_remark r),
     mf_default_max_tokens = (if ma_default_max_tokens r = 0 then None else Some (ma_default_max_tokens r)),
     mf_upstreams = map upstream_prefill (ma_upstreams r)\<rparr>"

definition models_openCreate :: "ModelsPage \<Rightarrow> ModelsPage" where
  "models_openCreate = crud_openCreate models_blank"

definition models_openEdit :: "ModelAlias \<Rightarrow> ModelsPage \<Rightarrow> ModelsPage" where
  "models_openEdit = crud_openEdit models_prefill"

definition add_upstream :: "ModelFormValues \<Rightarrow> ModelFormValues" where
  "add_upstream v = v\<lparr>mf_upstreams := mf_upstreams v @ [blank_upstream]\<rparr>"

definition remove_upstream :: "nat \<Rightarrow> ModelFormValues \<Rightarrow> ModelFormValues" where
  "remove_upstream i v = v\<lparr>mf_upstreams := take i (mf_upstreams v) @ drop (Suc i) (mf_upstreams v)\<rparr>"

text \<open>The rules of one row of upstreams.\<close>

definition upstream_items :: "Ui \<Rightarrow> UpstreamForm form_item list" where
  "upstream_items u =
     [item ''provider_id'' [] In_select [rule (\<lambda>v. uf_provider_id v \<noteq> None) (tr u ''models.providerReq'')],
      item ''upstream_model'' [] In_text [rule (\<lambda>v. uf_upstream_model v \<noteq> []) (tr u ''models.upstreamModelReq'')],
      item ''weight'' [] (In_number (Some 1) None)
        [rule (\<lambda>v. uf_weight v \<noteq> None) (tr u ''models.weightReq''),
         rule (\<lambda>v. case uf_weight v of Some w \<Rightarrow> 1 \<le> w | None \<Rightarrow> True) (tr u ''models.weightInt'')]]"

definition models_form :: "Ui \<Rightarrow> ModelFormValues form_item list" where
  "models_form u =
     [item ''alias'' (tr u ''models.aliasLabel'') In_text [rule (\<lambda>v. filled (mf_alias v)) (tr u ''models.aliasReq'')],
      item ''enabled'' (tr u ''common.status'') In_switch [],
      item ''remark'' (tr u ''common.remark'') In_text [],
      item ''default_max_tokens'' (tr u ''models.defaultMaxTokensLabel'') (In_number (Some 0) None)
        [rule (\<lambda>v. case mf_default_max_tokens v of Some n \<Rightarrow> 0 \<le> n | None \<Rightarrow> True) (tr u ''models.defaultMaxTokensRange'')]]"

definition models_errors :: "Ui \<Rightarrow> ModelFormValues \<Rightarrow> jsstring list" where
  "models_errors u v = form_errors (models_form u) v @ concat (map (form_errors (upstream_items u)) (mf_upstreams v))"

definition upstream_body :: "UpstreamForm \<Rightarrow> UpstreamInput" where
  "upstream_body u = \<lparr>ui_provider_id = the (uf_provider_id u), ui_upstream_model = trim (uf_upstream_model u),
     ui_weight = the (uf_weight u)\<rparr>"

definition models_handleOk :: "ModelFormValues \<Rightarrow> ModelAliasInput option" where
  "models_handleOk v =
     (if models_errors ui_silent v = []
      then Some \<lparr>mai_alias = trim_or_empty (mf_alias v), mai_enabled = or_else (mf_enabled v) True,
                 mai_remark = Some (trim_or_empty (mf_remark v)),
                 mai_default_max_tokens = Some (or_else (mf_default_max_tokens v) 0),
                 mai_upstreams = map upstream_body
                   (filter (\<lambda>u. uf_provider_id u \<noteq> None \<and> uf_upstream_model u \<noteq> []) (mf_upstreams v))\<rparr>
      else None)"

definition models_submit :: "ModelsPage \<Rightarrow> request option" where
  "models_submit = crud_submit ma_id models_handleOk modelApi_update modelApi_create"

definition upstream_input :: "Upstream \<Rightarrow> UpstreamInput" where
  "upstream_input u = \<lparr>ui_provider_id = up_provider_id u, ui_upstream_model = up_upstream_model u, ui_weight = up_weight u\<rparr>"

definition models_toggle_body :: "ModelAlias \<Rightarrow> bool \<Rightarrow> ModelAliasInput" where
  "models_toggle_body r enabled =
     \<lparr>mai_alias = ma_alias r, mai_enabled = enabled, mai_remark = Some (ma_remark r),
      mai_default_max_tokens = Some (ma_default_max_tokens r), mai_upstreams = map upstream_input (ma_upstreams r)\<rparr>"

definition models_toggleEnabled :: "ModelAlias \<Rightarrow> bool \<Rightarrow> request" where
  "models_toggleEnabled r enabled = modelApi_update (ma_id r) (models_toggle_body r enabled)"

definition models_toggled :: "translate \<Rightarrow> bool \<Rightarrow> 'a outcome \<Rightarrow> ModelsPage \<Rightarrow> World \<Rightarrow> ModelsPage \<times> World" where
  "models_toggled t enabled out s w =
     (case out of
        Resolved _ \<Rightarrow>
          (invalidate s,
           toast (T_success (t (if enabled then js ''models.enabledOk'' else js ''models.disabledOk'') [])) w)
      | Rejected _ \<Rightarrow> (s, w))"

definition models_saved :: "translate \<Rightarrow> 'a outcome \<Rightarrow> ModelsPage \<Rightarrow> World \<Rightarrow> ModelsPage \<times> World" where
  "models_saved t = crud_saved t ''models.updated'' ''models.created''"

definition models_removed :: "translate \<Rightarrow> 'a outcome \<Rightarrow> ModelsPage \<Rightarrow> World \<Rightarrow> ModelsPage \<times> World" where
  "models_removed t = crud_removed t ''common.deleteSuccess''"

definition models_query :: "int \<Rightarrow> int \<Rightarrow> jsstring \<Rightarrow> request" where
  "models_query page pageSize searchText =
     modelApi_list \<lparr>pp_page = Some page, pp_page_size = Some pageSize, pp_keyword = str_or_undef searchText\<rparr>"

text \<open>The name of a provider in the table, or its number when the list does not hold it.\<close>

definition providerName :: "Provider list option \<Rightarrow> int \<Rightarrow> jsstring" where
  "providerName providers i =
     (case providers of
        None \<Rightarrow> int_to_string i
      | Some ps \<Rightarrow> (case find (\<lambda>p. prov_id p = i) ps of Some p \<Rightarrow> prov_name p | None \<Rightarrow> int_to_string i))"

definition upstream_tag :: "translate \<Rightarrow> Provider list option \<Rightarrow> Upstream \<Rightarrow> jsstring" where
  "upstream_tag t providers u =
     providerName providers (up_provider_id u) @ js '' / '' @ up_upstream_model u @ [32, 0xD7] @ int_to_string (up_weight u)
     @ (if up_provider_enabled u then [] else t (js ''models.disabled'') [])"

text \<open>The providers a row may choose: label, number, and whether the choice is disabled.\<close>

definition provider_options :: "(jsstring \<Rightarrow> jsstring) \<Rightarrow> Provider list \<Rightarrow> (int \<times> jsstring \<times> bool) list" where
  "provider_options protoLbl ps =
     map (\<lambda>p. (prov_id p, prov_name p @ js '' ('' @ protoLbl (ProviderProtocol_str (prov_protocol p)) @ js '')'',
               \<not> prov_enabled p)) ps"

definition stats_request :: "ModelAlias option \<Rightarrow> request option" where
  "stats_request target = map_option (\<lambda>r. modelApi_stats (ma_id r)) target"

text \<open>What the rules of the form come down to.\<close>

definition upstream_valid :: "UpstreamForm \<Rightarrow> bool" where
  "upstream_valid u \<longleftrightarrow> uf_provider_id u \<noteq> None \<and> uf_upstream_model u \<noteq> []
     \<and> (case uf_weight u of Some w \<Rightarrow> 1 \<le> w | None \<Rightarrow> False)"

definition models_valid :: "ModelFormValues \<Rightarrow> bool" where
  "models_valid v \<longleftrightarrow> filled (mf_alias v)
     \<and> (case mf_default_max_tokens v of Some n \<Rightarrow> 0 \<le> n | None \<Rightarrow> True)
     \<and> list_all upstream_valid (mf_upstreams v)"

lemma models_required: "models_errors u v = [] \<longleftrightarrow> models_valid v"
proof -
  have "form_errors (upstream_items u) x = [] \<longleftrightarrow> upstream_valid x" for x
    by (auto simp: upstream_items_def upstream_valid_def split: option.splits)
  then show ?thesis
    by (auto simp: models_errors_def models_form_def models_valid_def list_all_iff)
qed

lemmas model_defs [js_eval] = blank_upstream_def models_blank_def upstream_prefill_def
  models_prefill_def models_openCreate_def models_openEdit_def add_upstream_def remove_upstream_def
  upstream_valid_def models_valid_def upstream_body_def models_required models_handleOk_def models_submit_def
  upstream_input_def models_toggle_body_def models_toggleEnabled_def models_toggled_def
  models_saved_def models_removed_def models_query_def providerName_def upstream_tag_def
  provider_options_def stats_request_def

section \<open>The page meets the contract\<close>

definition upstream_clean :: "Upstream \<Rightarrow> bool" where
  "upstream_clean u \<longleftrightarrow> up_upstream_model u \<noteq> [] \<and> trimmed (up_upstream_model u) \<and> 1 \<le> up_weight u"

definition model_clean :: "ModelAlias \<Rightarrow> bool" where
  "model_clean r \<longleftrightarrow> ma_alias r \<noteq> [] \<and> trimmed (ma_alias r) \<and> trimmed (ma_remark r)
     \<and> 0 \<le> ma_default_max_tokens r \<and> list_all upstream_clean (ma_upstreams r)"

lemma upstreams_clean:
  "list_all upstream_clean us \<Longrightarrow>
     list_all upstream_valid (map upstream_prefill us)
     \<and> filter (\<lambda>u. uf_provider_id u \<noteq> None \<and> uf_upstream_model u \<noteq> []) (map upstream_prefill us) = map upstream_prefill us
     \<and> map (upstream_body \<circ> upstream_prefill) us = map upstream_input us"
  by (induction us)
    (auto simp: upstream_clean_def upstream_valid_def upstream_prefill_def upstream_body_def
      upstream_input_def trimmed_def)

lemma models_prefill_handleOk:
  "model_clean r \<Longrightarrow> models_handleOk (models_prefill r) = Some (models_toggle_body r (ma_enabled r))"
  using upstreams_clean [of "ma_upstreams r"]
  by (auto simp: model_clean_def models_handleOk_def models_required models_valid_def models_prefill_def
      models_toggle_body_def form_defs)

lemma models_blank_rejected: "models_handleOk models_blank = None"
  by (simp add: models_handleOk_def models_required models_valid_def models_blank_def form_defs)

lemma upstream_validD:
  assumes "upstream_valid u"
  shows "uf_provider_id u = Some (ui_provider_id (upstream_body u))
    \<and> ui_upstream_model (upstream_body u) = trim (uf_upstream_model u) \<and> 1 \<le> ui_weight (upstream_body u)"
  using assms by (auto simp: upstream_valid_def upstream_body_def split: option.splits)

interpretation model_list: crud_page ma_id models_blank models_prefill models_handleOk
  models_toggle_body ma_enabled modelApi_update modelApi_create model_clean
  by unfold_locales
    (simp_all add: modelApi_update_def modelApi_create_def path_id_inject path_id_longer
      models_prefill_handleOk models_blank_rejected)

section \<open>Properties\<close>

text \<open>An alias that is saved has only complete upstreams: each names a provider and a model and
  has a weight of at least one, none that was typed is lost, and the limit of tokens is not
  negative.\<close>

theorem model_body_complete:
  assumes "models_handleOk v = Some b"
  shows "length (mai_upstreams b) = length (mf_upstreams v)
    \<and> (\<forall>i < length (mf_upstreams v). uf_provider_id (mf_upstreams v ! i) = Some (ui_provider_id (mai_upstreams b ! i))
         \<and> ui_upstream_model (mai_upstreams b ! i) = trim (uf_upstream_model (mf_upstreams v ! i))
         \<and> 1 \<le> ui_weight (mai_upstreams b ! i))
    \<and> (\<exists>n \<ge> 0. mai_default_max_tokens b = Some n)"
proof -
  have v: "models_valid v" and ups: "mai_upstreams b = map upstream_body
      (filter (\<lambda>u. uf_provider_id u \<noteq> None \<and> uf_upstream_model u \<noteq> []) (mf_upstreams v))"
    and n: "mai_default_max_tokens b = Some (or_else (mf_default_max_tokens v) 0)"
    using assms by (auto simp: models_handleOk_def models_required split: if_splits)
  have all: "\<forall>u \<in> set (mf_upstreams v). upstream_valid u"
    using v by (simp add: models_valid_def list_all_iff)
  then have "filter (\<lambda>u. uf_provider_id u \<noteq> None \<and> uf_upstream_model u \<noteq> []) (mf_upstreams v) = mf_upstreams v"
    by (auto simp: filter_id_conv upstream_valid_def)
  with ups have ups: "mai_upstreams b = map upstream_body (mf_upstreams v)" by simp
  have "0 \<le> or_else (mf_default_max_tokens v) 0"
    using v by (cases "mf_default_max_tokens v") (simp_all add: models_valid_def)
  moreover have "upstream_valid (mf_upstreams v ! i)" if "i < length (mf_upstreams v)" for i
    using all that by simp
  ultimately show ?thesis
    by (simp add: ups n upstream_validD)
qed

lemma model_body_complete_witness:
  "length (mai_upstreams (the (models_handleOk
     (models_blank\<lparr>mf_alias := Some (js ''gpt''), mf_upstreams := [\<lparr>uf_provider_id = Some 3,
        uf_upstream_model = js ''m'', uf_weight = Some 2\<rparr>]\<rparr>)))) = 1"
proof -
  let ?v = "models_blank\<lparr>mf_alias := Some (js ''gpt''), mf_upstreams := [\<lparr>uf_provider_id = Some 3,
        uf_upstream_model = js ''m'', uf_weight = Some 2\<rparr>]\<rparr>"
  obtain b where b: "models_handleOk ?v = Some b"
    by (simp add: models_handleOk_def models_required models_valid_def upstream_valid_def models_blank_def filled_def)
  from model_body_complete [OF b] show ?thesis by (simp add: b)
qed

end
