(* ===== verification/Quotas.thy ===== *)
theory Quotas
  imports Crud Format
begin

text \<open>
  frontend/src/pages/quota/Quotas.tsx, its list: the dialog that creates or edits a quota, the
  switch, the manual reset and the cell that shows the usage. QuotaBatch holds the batch dialog.
\<close>

record QuotaFormValues =
  qf_api_key_id :: "int option"
  qf_model_alias :: "jsstring option"
  qf_quota_type :: "QuotaType option"
  qf_period :: "QuotaPeriod option"
  qf_limit :: "int option"
  qf_over_action :: "OverAction option"
  qf_degrade_alias :: "jsstring option"
  qf_enabled :: "bool option"

type_synonym QuotasPage = "(Quota, QuotaFormValues) CrudPage"

text \<open>The choices of the alias: \<open>*\<close> for all, then every alias of the list once.\<close>

definition aliasOptions :: "translate \<Rightarrow> ModelAlias list \<Rightarrow> (jsstring \<times> jsstring) list" where
  "aliasOptions t models =
     map (\<lambda>a. (a, if a = js ''*'' then t (js ''quotas.allModels'') [] else a))
       (js ''*'' # uniq (map ma_alias models))"

definition quotas_blank :: QuotaFormValues where
  "quotas_blank = \<lparr>qf_api_key_id = None, qf_model_alias = None, qf_quota_type = Some QT_requests,
     qf_period = Some QP_day, qf_limit = None, qf_over_action = Some OA_reject, qf_degrade_alias = None,
     qf_enabled = Some True\<rparr>"

definition quotas_prefill :: "Quota \<Rightarrow> QuotaFormValues" where
  "quotas_prefill r = \<lparr>qf_api_key_id = Some (q_api_key_id r), qf_model_alias = Some (q_model_alias r),
     qf_quota_type = Some (q_quota_type r), qf_period = Some (q_period r), qf_limit = Some (q_limit r),
     qf_over_action = Some (q_over_action r), qf_degrade_alias = str_or_undef (q_degrade_alias r),
     qf_enabled = Some (q_enabled r)\<rparr>"

definition quotas_openCreate :: "QuotasPage \<Rightarrow> QuotasPage" where
  "quotas_openCreate = crud_openCreate quotas_blank"

definition quotas_openEdit :: "Quota \<Rightarrow> QuotasPage \<Rightarrow> QuotasPage" where
  "quotas_openEdit = crud_openEdit quotas_prefill"

text \<open>The item of the fallback alias exists only while \<open>degrading\<close>, the watched action, says so.\<close>

definition quotas_form :: "Ui \<Rightarrow> bool \<Rightarrow> QuotaFormValues form_item list" where
  "quotas_form u degrading =
     [item ''api_key_id'' (js ''API Key'') In_select [rule (\<lambda>v. qf_api_key_id v \<noteq> None) (tr u ''quotas.keyReq'')],
      item ''model_alias'' (tr u ''quotas.colModel'') In_text
        [rule (\<lambda>v. filled (qf_model_alias v)) (tr u ''quotas.modelReq'')],
      item ''quota_type'' (tr u ''quotas.typeLabel'') In_select
        [rule (\<lambda>v. qf_quota_type v \<noteq> None) (ui_required u ''quota_type'')],
      item ''period'' (tr u ''quotas.periodLabel'') In_select
        [rule (\<lambda>v. qf_period v \<noteq> None) (ui_required u ''period'')],
      item ''limit'' (tr u ''quotas.limitLabel'') (In_number (Some 1) None)
        [rule (\<lambda>v. qf_limit v \<noteq> None) (tr u ''quotas.limitReq'')],
      item ''over_action'' (tr u ''quotas.overActionLabel'') In_select
        [rule (\<lambda>v. qf_over_action v \<noteq> None) (ui_required u ''over_action'')]]
     @ (if degrading
        then [item ''degrade_alias'' (tr u ''quotas.degradeLabel'') In_text
                [rule (\<lambda>v. filled (qf_degrade_alias v)) (tr u ''quotas.degradeReq'')]]
        else [])
     @ [item ''enabled'' (tr u ''common.status'') In_switch []]"

definition quotas_handleSave :: "QuotaFormValues \<Rightarrow> QuotaInput option" where
  "quotas_handleSave v =
     (if validateFields (\<lambda>u. quotas_form u (qf_over_action v = Some OA_degrade)) v
      then Some \<lparr>qi_api_key_id = Fin (of_int (the (qf_api_key_id v))),
                 qi_model_alias = str_or (trim_or_empty (qf_model_alias v)) (js ''*''),
                 qi_quota_type = the (qf_quota_type v), qi_period = the (qf_period v),
                 qi_limit = the (qf_limit v), qi_over_action = the (qf_over_action v),
                 qi_degrade_alias =
                   (if qf_over_action v = Some OA_degrade then map_option trim (qf_degrade_alias v) else Some []),
                 qi_enabled = or_else (qf_enabled v) True\<rparr>
      else None)"

definition quotas_submit :: "QuotasPage \<Rightarrow> request option" where
  "quotas_submit = crud_submit q_id quotas_handleSave quotaApi_update quotaApi_create"

definition quotas_toggle_body :: "Quota \<Rightarrow> bool \<Rightarrow> QuotaInput" where
  "quotas_toggle_body r enabled =
     \<lparr>qi_api_key_id = Fin (of_int (q_api_key_id r)), qi_model_alias = q_model_alias r,
      qi_quota_type = q_quota_type r, qi_period = q_period r, qi_limit = q_limit r,
      qi_over_action = q_over_action r, qi_degrade_alias = Some (q_degrade_alias r), qi_enabled = enabled\<rparr>"

definition quotas_toggleEnabled :: "Quota \<Rightarrow> bool \<Rightarrow> request" where
  "quotas_toggleEnabled r enabled = quotaApi_update (q_id r) (quotas_toggle_body r enabled)"

definition quotas_saved :: "translate \<Rightarrow> 'a outcome \<Rightarrow> QuotasPage \<Rightarrow> World \<Rightarrow> QuotasPage \<times> World" where
  "quotas_saved t = crud_saved t ''quotas.updated'' ''quotas.created''"

definition quotas_removed :: "translate \<Rightarrow> 'a outcome \<Rightarrow> QuotasPage \<Rightarrow> World \<Rightarrow> QuotasPage \<times> World" where
  "quotas_removed t = crud_removed t ''common.deleteSuccess''"

text \<open>The manual reset of a quota's counter.\<close>

definition quotas_reset_done :: "translate \<Rightarrow> 'a outcome \<Rightarrow> QuotasPage \<Rightarrow> World \<Rightarrow> QuotasPage \<times> World" where
  "quotas_reset_done t = crud_removed t ''quotas.resetOk''"

definition quotas_query :: "QuotasPage \<Rightarrow> request" where
  "quotas_query s =
     quotaApi_list \<lparr>pp_page = Some (cr_page s), pp_page_size = Some (cr_pageSize s), pp_keyword = None\<rparr>"

section \<open>The usage of a quota\<close>

fun positive :: "jsnum \<Rightarrow> bool" where
  "positive (Fin x) = (0 < x)"
| "positive PInf = True"
| "positive _ = False"

record UsageCell =
  uc_percent :: jsnum
  uc_status :: "progress_status option"
  uc_format :: jsstring
  uc_danger :: bool
  uc_text :: jsstring

text \<open>The parameter \<open>fmt\<close> is \<open>fmtNumber\<close> in the language of the console.\<close>

definition usage_cell :: "translate \<Rightarrow> (int \<Rightarrow> jsstring) \<Rightarrow> Quota \<Rightarrow> UsageCell" where
  "usage_cell t fmt r =
     (let pct = clampPercent (Some (q_used r)) (Some (q_limit r)); over = q_used r \<ge> q_limit r in
      \<lparr>uc_percent = min_num 100 pct,
       uc_status = (if over \<or> at_least pct 90 then Some PS_exception
                    else if positive pct then Some PS_active else None),
       uc_format = fmt (q_used r) @ js ''/'' @ fmt (q_limit r),
       uc_danger = over,
       uc_text = (if over then t (js ''quotas.overBy'') [(js ''n'', fmt (q_used r - q_limit r))]
                  else t (js ''quotas.remaining'') [(js ''n'', fmt (max 0 (q_limit r - q_used r)))])\<rparr>)"

text \<open>The tag of the action on excess: its colour and text.\<close>

definition over_action_tag :: "translate \<Rightarrow> Quota \<Rightarrow> jsstring \<times> jsstring" where
  "over_action_tag t r =
     (if q_over_action r = OA_degrade
      then (js ''orange'', t (js ''quotas.degradeTo'') [(js ''alias'', str_or (q_degrade_alias r) (js ''-''))])
      else (js ''red'', t (js ''quotas.reject'') []))"

text \<open>What the rules of the form come down to.\<close>

lemma quotas_required:
  "form_errors (quotas_form u degrading) v = [] \<longleftrightarrow> qf_api_key_id v \<noteq> None \<and> filled (qf_model_alias v)
     \<and> qf_quota_type v \<noteq> None \<and> qf_period v \<noteq> None \<and> qf_limit v \<noteq> None \<and> qf_over_action v \<noteq> None
     \<and> (degrading \<longrightarrow> filled (qf_degrade_alias v))"
  by (auto simp: quotas_form_def)

lemma quotas_validate:
  "validateFields (\<lambda>u. quotas_form u degrading) v \<longleftrightarrow> qf_api_key_id v \<noteq> None \<and> filled (qf_model_alias v)
     \<and> qf_quota_type v \<noteq> None \<and> qf_period v \<noteq> None \<and> qf_limit v \<noteq> None \<and> qf_over_action v \<noteq> None
     \<and> (degrading \<longrightarrow> filled (qf_degrade_alias v))"
  by (simp add: validateFields_def quotas_required)

lemmas quota_defs [js_eval] = aliasOptions_def quotas_blank_def quotas_prefill_def quotas_openCreate_def
  quotas_openEdit_def quotas_validate quotas_handleSave_def quotas_submit_def quotas_toggle_body_def
  quotas_toggleEnabled_def quotas_saved_def quotas_removed_def quotas_reset_done_def quotas_query_def
  usage_cell_def over_action_tag_def

section \<open>The page meets the contract\<close>

text \<open>A row as the form can have written it: an alias to fall back to goes with that action only.\<close>

definition quota_clean :: "Quota \<Rightarrow> bool" where
  "quota_clean r \<longleftrightarrow> q_model_alias r \<noteq> [] \<and> trimmed (q_model_alias r) \<and> trimmed (q_degrade_alias r)
     \<and> (q_over_action r = OA_degrade \<longleftrightarrow> q_degrade_alias r \<noteq> [])"

lemma quotas_prefill_handleSave:
  "quota_clean r \<Longrightarrow> quotas_handleSave (quotas_prefill r) = Some (quotas_toggle_body r (q_enabled r))"
  by (auto simp: quota_clean_def quotas_validate quotas_handleSave_def quotas_prefill_def
      quotas_toggle_body_def form_defs str_or_def str_or_undef_def)

lemma quotas_blank_rejected: "quotas_handleSave quotas_blank = None"
  by (simp add: quotas_validate quotas_handleSave_def quotas_blank_def)

interpretation quota_list: crud_page q_id quotas_blank quotas_prefill quotas_handleSave
  quotas_toggle_body q_enabled quotaApi_update quotaApi_create quota_clean
  by unfold_locales
    (simp_all add: quotaApi_update_def quotaApi_create_def path_id_inject path_id_longer
      quotas_prefill_handleSave quotas_blank_rejected)

section \<open>Properties\<close>

text \<open>A quota is saved only when it is complete: it names a model (a blank alias becomes the one
  for all models), and an alias to fall back to is sent exactly for the action that falls back,
  an empty text clearing it for the other.\<close>

theorem quota_body:
  assumes "quotas_handleSave v = Some b"
  shows "qi_model_alias b \<noteq> [] \<and> trimmed (qi_model_alias b)
    \<and> qf_over_action v = Some (qi_over_action b) \<and> qf_limit v = Some (qi_limit b)
    \<and> (qi_over_action b = OA_degrade \<longrightarrow>
         qi_degrade_alias b = Some (trim (the (qf_degrade_alias v))) \<and> filled (qf_degrade_alias v))
    \<and> (qi_over_action b = OA_reject \<longrightarrow> qi_degrade_alias b = Some [])"
proof -
  have star: "trim (js ''*'') = js ''*''" by code_simp
  from assms star show ?thesis
    by (auto simp: quotas_validate quotas_handleSave_def form_defs str_or_def split: option.splits if_splits)
qed

lemma quota_body_witness:
  "qi_degrade_alias (the (quotas_handleSave (quotas_blank\<lparr>qf_api_key_id := Some 1,
     qf_model_alias := Some (js ''gpt''), qf_limit := Some 5\<rparr>))) = Some []"
proof -
  let ?v = "quotas_blank\<lparr>qf_api_key_id := Some 1, qf_model_alias := Some (js ''gpt''), qf_limit := Some 5\<rparr>"
  obtain b where b: "quotas_handleSave ?v = Some b"
    by (simp add: quotas_validate quotas_handleSave_def quotas_blank_def filled_def)
  from quota_body [OF b] have "qi_degrade_alias b = Some []" by (simp add: quotas_blank_def)
  with b show ?thesis by simp
qed

end
