(* ===== verification/ApiKeys.thy ===== *)
theory ApiKeys
  imports Crud JsonText
begin

text \<open>
  frontend/src/pages/settings/ApiKeys.tsx: the list of API keys with a dialog that creates or edits
  one, and the dialog that shows a new key once. The restrictions of a key are kept by the server
  as JSON texts.
\<close>

record KeyFormValues =
  kf_name :: "jsstring option"
  kf_remark :: "jsstring option"
  kf_enabled :: "bool option"
  kf_allowed_models :: "jsval list option"
  kf_ip_allowlist_text :: "jsstring option"
  kf_ip_allowlist_enabled :: "bool option"

record ApiKeysPage =
  kp_page :: int
  kp_pageSize :: int
  kp_createOpen :: bool
  kp_editing :: "ApiKey option"
  kp_created :: "ApiKeyCreated option"
  kp_form :: KeyFormValues
  kp_stale :: bool

text \<open>A restriction that is absent, not JSON or not an array is the empty list.\<close>

definition parseStrArr :: "jsstring \<Rightarrow> jsval list" where
  "parseStrArr s =
     (if s = [] then []
      else case JSON_parse s of Some (VArr vs) \<Rightarrow> vs | _ \<Rightarrow> [])"

text \<open>An element as \<open>join\<close> prints it.\<close>

fun join_text :: "jsval \<Rightarrow> jsstring" where
  "join_text VNull = []"
| "join_text (VBool b) = (if b then js ''true'' else js ''false'')"
| "join_text (VNum x) = num_to_string x"
| "join_text (VStr s) = s"
| "join_text (VArr vs) = join [44] (map join_text vs)"
| "join_text (VObj _) = js ''[object Object]''"

definition key_form_blank :: KeyFormValues where
  "key_form_blank = \<lparr>kf_name = None, kf_remark = None, kf_enabled = None, kf_allowed_models = None,
     kf_ip_allowlist_text = None, kf_ip_allowlist_enabled = None\<rparr>"

definition key_form_prefill :: "ApiKey \<Rightarrow> KeyFormValues" where
  "key_form_prefill r = \<lparr>kf_name = Some (ak_name r), kf_remark = Some (ak_remark r), kf_enabled = Some (ak_enabled r),
     kf_allowed_models = Some (parseStrArr (ak_allowed_models_json r)),
     kf_ip_allowlist_text = Some (join [10] (map join_text (parseStrArr (ak_ip_allowlist_json r)))),
     kf_ip_allowlist_enabled = Some (ak_ip_allowlist_enabled r)\<rparr>"

definition apikeys_initial :: ApiKeysPage where
  "apikeys_initial = \<lparr>kp_page = 1, kp_pageSize = 10, kp_createOpen = False, kp_editing = None, kp_created = None,
     kp_form = key_form_blank, kp_stale = False\<rparr>"

definition apikeys_openCreate :: "ApiKeysPage \<Rightarrow> ApiKeysPage" where
  "apikeys_openCreate s = s\<lparr>kp_editing := None, kp_form := key_form_blank, kp_createOpen := True\<rparr>"

definition apikeys_openEdit :: "ApiKey \<Rightarrow> ApiKeysPage \<Rightarrow> ApiKeysPage" where
  "apikeys_openEdit r s = s\<lparr>kp_createOpen := False, kp_editing := Some r, kp_form := key_form_prefill r\<rparr>"

definition apikeys_input :: "KeyFormValues \<Rightarrow> ApiKeysPage \<Rightarrow> ApiKeysPage" where
  "apikeys_input v s = s\<lparr>kp_form := v\<rparr>"

definition apikeys_cancel :: "ApiKeysPage \<Rightarrow> ApiKeysPage" where
  "apikeys_cancel s = s\<lparr>kp_createOpen := False, kp_editing := None\<rparr>"

definition apikeys_modal_open :: "ApiKeysPage \<Rightarrow> bool" where
  "apikeys_modal_open s \<longleftrightarrow> kp_createOpen s \<or> kp_editing s \<noteq> None"

text \<open>The texts of the restrictions: the empty text for no restriction.\<close>

definition allowed_models_text :: "KeyFormValues \<Rightarrow> jsstring" where
  "allowed_models_text v =
     (case kf_allowed_models v of
        None \<Rightarrow> []
      | Some vs \<Rightarrow> if vs = [] then [] else stringify (VArr vs))"

definition ip_list :: "KeyFormValues \<Rightarrow> jsstring list" where
  "ip_list v = filter (\<lambda>s. s \<noteq> []) (map trim (split_on (\<lambda>u. u = 10) (or_else (kf_ip_allowlist_text v) [])))"

definition ip_allowlist_text :: "KeyFormValues \<Rightarrow> jsstring" where
  "ip_allowlist_text v = (if ip_list v = [] then [] else stringify (VArr (map VStr (ip_list v))))"

definition key_update_body :: "ApiKey \<Rightarrow> KeyFormValues \<Rightarrow> ApiKeyUpdateBody" where
  "key_update_body r v =
     \<lparr>aku_name = or_else (kf_name v) [], aku_remark = kf_remark v, aku_enabled = or_else (kf_enabled v) (ak_enabled r),
      aku_allowed_models_json = Some (allowed_models_text v), aku_ip_allowlist_json = Some (ip_allowlist_text v),
      aku_ip_allowlist_enabled = Some (or_else (kf_ip_allowlist_enabled v) False)\<rparr>"

definition key_create_body :: "KeyFormValues \<Rightarrow> ApiKeyCreateBody" where
  "key_create_body v =
     \<lparr>akc_name = or_else (kf_name v) [], akc_remark = kf_remark v,
      akc_allowed_models_json = Some (allowed_models_text v), akc_ip_allowlist_json = Some (ip_allowlist_text v),
      akc_ip_allowlist_enabled = Some (or_else (kf_ip_allowlist_enabled v) False)\<rparr>"

definition apikeys_form :: "Ui \<Rightarrow> bool \<Rightarrow> KeyFormValues form_item list" where
  "apikeys_form u editing =
     [item ''name'' (tr u ''apikeys.colName'') In_text [rule (\<lambda>v. filled (kf_name v)) (tr u ''apikeys.nameReq'')],
      item ''remark'' (tr u ''common.remark'') In_area []]
     @ (if editing then [item ''enabled'' (tr u ''common.status'') In_switch []] else [])
     @ [item ''allowed_models'' (tr u ''apikeys.modelsLabel'') In_tags [],
        item ''ip_allowlist_enabled'' (tr u ''apikeys.ipEnabled'') In_switch [],
        item ''ip_allowlist_text'' (tr u ''apikeys.ipLabel'') In_area []]"

definition apikeys_handleOk :: "ApiKeysPage \<Rightarrow> request option" where
  "apikeys_handleOk s =
     (let v = kp_form s in
      if \<not> validateFields (\<lambda>u. apikeys_form u (kp_editing s \<noteq> None)) v then None
      else case kp_editing s of
             Some r \<Rightarrow> Some (apikeyApi_update (ak_id r) (key_update_body r v))
           | None \<Rightarrow> Some (apikeyApi_create (key_create_body v)))"

definition apikeys_created :: "ApiKeyCreated outcome \<Rightarrow> ApiKeysPage \<Rightarrow> ApiKeysPage" where
  "apikeys_created out s =
     (case out of
        Resolved res \<Rightarrow>
          s\<lparr>kp_createOpen := False, kp_form := key_form_blank, kp_created := Some res, kp_stale := True\<rparr>
      | Rejected _ \<Rightarrow> s)"

definition apikeys_updated :: "translate \<Rightarrow> 'a outcome \<Rightarrow> ApiKeysPage \<Rightarrow> World \<Rightarrow> ApiKeysPage \<times> World" where
  "apikeys_updated t out s w =
     (case out of
        Resolved _ \<Rightarrow> (s\<lparr>kp_editing := None, kp_stale := True\<rparr>, toast (T_success (t (js ''apikeys.updated'') [])) w)
      | Rejected _ \<Rightarrow> (s, w))"

definition apikeys_removed :: "translate \<Rightarrow> 'a outcome \<Rightarrow> ApiKeysPage \<Rightarrow> World \<Rightarrow> ApiKeysPage \<times> World" where
  "apikeys_removed t out s w =
     (case out of
        Resolved _ \<Rightarrow> (s\<lparr>kp_stale := True\<rparr>, toast (T_success (t (js ''common.deleteSuccess'') [])) w)
      | Rejected _ \<Rightarrow> (s, w))"

definition apikeys_toggle_body :: "ApiKey \<Rightarrow> bool \<Rightarrow> ApiKeyUpdateBody" where
  "apikeys_toggle_body r enabled =
     \<lparr>aku_name = ak_name r, aku_remark = Some (ak_remark r), aku_enabled = enabled,
      aku_allowed_models_json = Some (ak_allowed_models_json r), aku_ip_allowlist_json = Some (ak_ip_allowlist_json r),
      aku_ip_allowlist_enabled = Some (ak_ip_allowlist_enabled r)\<rparr>"

definition apikeys_toggleEnabled :: "ApiKey \<Rightarrow> bool \<Rightarrow> request" where
  "apikeys_toggleEnabled r enabled = apikeyApi_update (ak_id r) (apikeys_toggle_body r enabled)"

text \<open>The dialog of the new key is closed; the copy button writes the key to the clipboard.\<close>

definition apikeys_acknowledge :: "ApiKeysPage \<Rightarrow> ApiKeysPage" where
  "apikeys_acknowledge s = s\<lparr>kp_created := None\<rparr>"

definition apikeys_copy :: "translate \<Rightarrow> ApiKeysPage \<Rightarrow> World \<Rightarrow> jsstring option \<times> World" where
  "apikeys_copy t s w =
     (case kp_created s of
        Some c \<Rightarrow>
          if akd_key c = [] then (None, w)
          else (Some (akd_key c), toast (T_success (t (js ''apikeys.copied'') [])) w)
      | None \<Rightarrow> (None, w))"

definition apikeys_query :: "ApiKeysPage \<Rightarrow> request" where
  "apikeys_query s =
     apikeyApi_list \<lparr>pp_page = Some (kp_page s), pp_page_size = Some (kp_pageSize s), pp_keyword = None\<rparr>"

definition apikeys_table :: "int option \<Rightarrow> int option \<Rightarrow> ApiKeysPage \<Rightarrow> ApiKeysPage" where
  "apikeys_table current psize s = s\<lparr>kp_page := or_else current 1, kp_pageSize := or_else psize 10\<rparr>"

text \<open>What the rules of the form come down to.\<close>

lemma apikeys_required: "form_errors (apikeys_form u e) v = [] \<longleftrightarrow> filled (kf_name v)"
  by (auto simp: apikeys_form_def)

lemma apikeys_handleOk_eq:
  "apikeys_handleOk s =
     (let v = kp_form s in
      if \<not> filled (kf_name v) then None
      else case kp_editing s of
             Some r \<Rightarrow> Some (apikeyApi_update (ak_id r) (key_update_body r v))
           | None \<Rightarrow> Some (apikeyApi_create (key_create_body v)))"
  by (simp add: apikeys_handleOk_def validateFields_def apikeys_required)

lemmas apikey_defs [js_eval] = parseStrArr_def key_form_blank_def key_form_prefill_def apikeys_initial_def
  apikeys_openCreate_def apikeys_openEdit_def apikeys_input_def apikeys_cancel_def apikeys_modal_open_def
  allowed_models_text_def ip_list_def ip_allowlist_text_def key_update_body_def key_create_body_def
  apikeys_handleOk_eq apikeys_created_def apikeys_updated_def apikeys_removed_def apikeys_toggle_body_def
  apikeys_toggleEnabled_def apikeys_acknowledge_def apikeys_copy_def apikeys_query_def apikeys_table_def

section \<open>The restrictions survive the form\<close>

text \<open>A restriction as the console writes it: the empty text, or a list of texts that is not empty.\<close>

definition restriction :: "jsstring list \<Rightarrow> jsstring" where
  "restriction xs = (if xs = [] then [] else stringify (VArr (map VStr xs)))"

lemma parse_restriction: "parseStrArr (restriction xs) = map VStr xs"
proof (cases "xs = []")
  case False
  have "stringify (VArr (map VStr xs)) \<noteq> []" by (simp add: stringify_def block_def)
  moreover have "JSON_parse (stringify (VArr (map VStr xs))) = Some (VArr (map VStr xs))"
    unfolding stringify_def by (rule JSON_parse_serialize) auto
  ultimately show ?thesis using False by (simp add: restriction_def parseStrArr_def)
qed (simp add: restriction_def parseStrArr_def)

text \<open>One address per line: trimmed, not empty, without a line break.\<close>

definition ip_entry :: "jsstring \<Rightarrow> bool" where
  "ip_entry s \<longleftrightarrow> s \<noteq> [] \<and> trimmed s \<and> 10 \<notin> set s"

lemma ip_list_lines:
  assumes "list_all ip_entry ips" "kf_ip_allowlist_text v = Some (join [10] ips)"
  shows "ip_list v = ips"
proof (cases "ips = []")
  case False
  have "split_on (\<lambda>u. u = 10) (join [10] ips) = ips"
    using assms(1) False by (intro split_on_join) (auto simp: list_all_iff ip_entry_def)
  moreover have "map trim ips = ips" "filter (\<lambda>s. s \<noteq> []) ips = ips"
    using assms(1) by (auto simp: list_all_iff ip_entry_def trimmed_def filter_id_conv intro: map_idI)
  ultimately show ?thesis using assms(2) by (simp add: ip_list_def)
qed (simp add: ip_list_def assms)

lemma ip_list_entries: "list_all ip_entry (ip_list v)"
proof -
  have "10 \<notin> set w" if "w \<in> set (split_on (\<lambda>u. u = 10) s)" for w s
    using split_on_pieces [OF that] by blast
  moreover have "set (trim w) \<subseteq> set w" for w
    by (auto simp: trim_def dest!: set_dropWhileD)
  ultimately show ?thesis
    by (fastforce simp: ip_list_def list_all_iff ip_entry_def trimmed_def)
qed

section \<open>Properties\<close>

text \<open>C26: opening a key and saving it unchanged writes back the row, with the restrictions of models
  and addresses as they were, whatever characters their texts contain.\<close>

theorem key_edit_keeps_restrictions:
  assumes "ak_allowed_models_json r = restriction models" "ak_ip_allowlist_json r = restriction ips"
    "list_all ip_entry ips" "ak_name r \<noteq> []"
  shows "apikeys_handleOk (apikeys_openEdit r s) = Some (apikeyApi_update (ak_id r) (apikeys_toggle_body r (ak_enabled r)))"
proof -
  have j: "map join_text (map VStr xs) = xs" for xs by (induction xs) auto
  let ?v = "key_form_prefill r"
  have "kf_ip_allowlist_text ?v = Some (join [10] ips)"
    by (simp add: key_form_prefill_def assms(2) parse_restriction j del: map_map)
  from ip_list_lines [OF assms(3) this] have "ip_allowlist_text ?v = restriction ips"
    by (simp add: ip_allowlist_text_def restriction_def)
  moreover have "allowed_models_text ?v = restriction models"
    by (simp add: allowed_models_text_def key_form_prefill_def assms(1) parse_restriction) (simp add: restriction_def)
  ultimately show ?thesis
    using assms by (simp add: apikeys_handleOk_eq apikeys_openEdit_def key_update_body_def apikeys_toggle_body_def
        filled_def Let_def) (simp add: key_form_prefill_def)
qed

definition sample_key :: ApiKey where
  "sample_key = \<lparr>ak_id = 4, ak_name = js ''ci'', ak_key_masked = js ''sk-***'', ak_remark = [],
     ak_allowed_models_json = js ''[\"gpt\",\"a/b\"]'', ak_ip_allowlist_json = js ''[\"10.0.0.0/8\"]'',
     ak_ip_allowlist_enabled = True, ak_enabled = False, ak_last_used_at = None, ak_created_at = None\<rparr>"

lemma key_edit_keeps_restrictions_witness:
  "apikeys_handleOk (apikeys_openEdit sample_key apikeys_initial)
     = Some (apikeyApi_update 4 (apikeys_toggle_body sample_key False))"
proof -
  have "ak_allowed_models_json sample_key = restriction [js ''gpt'', js ''a/b'']"
    "ak_ip_allowlist_json sample_key = restriction [js ''10.0.0.0/8'']"
    "list_all ip_entry [js ''10.0.0.0/8'']" "ak_name sample_key \<noteq> []"
    by code_simp+
  from key_edit_keeps_restrictions [OF this] show ?thesis by (simp add: sample_key_def)
qed

text \<open>C27: what a save stores as the allow list is exactly the lines of the text that are not blank,
  in order and trimmed: the stored text reads back as these lines, none of which is empty or
  contains a line break, and a text of blank lines stores no list at all.\<close>

theorem ip_allowlist_roundtrip:
  "parseStrArr (ip_allowlist_text v) = map VStr (ip_list v) \<and> list_all ip_entry (ip_list v)
   \<and> (ip_allowlist_text v = [] \<longleftrightarrow> ip_list v = [])
   \<and> (kf_ip_allowlist_text v = Some txt \<longrightarrow> ip_list v = filter (\<lambda>l. l \<noteq> []) (map trim (split_on (\<lambda>u. u = 10) txt)))"
  using parse_restriction [of "ip_list v"] ip_list_entries [of v]
  by (auto simp: ip_allowlist_text_def restriction_def ip_list_def stringify_def block_def)

lemma ip_allowlist_roundtrip_witness:
  "ip_list (key_form_blank\<lparr>kf_ip_allowlist_text := Some (js ''a'' @ [10, 32] @ js ''b'')\<rparr>) = [js ''a'', js ''b'']"
proof -
  let ?v = "key_form_blank\<lparr>kf_ip_allowlist_text := Some (js ''a'' @ [10, 32] @ js ''b'')\<rparr>"
  have "kf_ip_allowlist_text ?v = Some (js ''a'' @ [10, 32] @ js ''b'')" by simp
  then have "ip_list ?v = filter (\<lambda>l. l \<noteq> []) (map trim (split_on (\<lambda>u. u = 10) (js ''a'' @ [10, 32] @ js ''b'')))"
    using ip_allowlist_roundtrip [of ?v] by blast
  also have "\<dots> = [js ''a'', js ''b'']" by code_simp
  finally show ?thesis .
qed

text \<open>The states the page can be in.\<close>

inductive key_reach :: "ApiKeysPage \<Rightarrow> bool" where
  reach_initial: "key_reach apikeys_initial"
| reach_openCreate: "key_reach s \<Longrightarrow> key_reach (apikeys_openCreate s)"
| reach_openEdit: "key_reach s \<Longrightarrow> key_reach (apikeys_openEdit r s)"
| reach_input: "key_reach s \<Longrightarrow> key_reach (apikeys_input v s)"
| reach_cancel: "key_reach s \<Longrightarrow> key_reach (apikeys_cancel s)"
| reach_created: "key_reach s \<Longrightarrow> key_reach (apikeys_created out s)"
| reach_updated: "key_reach s \<Longrightarrow> key_reach (fst (apikeys_updated t (out :: unit outcome) s w))"
| reach_removed: "key_reach s \<Longrightarrow> key_reach (fst (apikeys_removed t (out :: unit outcome) s w))"
| reach_acknowledge: "key_reach s \<Longrightarrow> key_reach (apikeys_acknowledge s)"
| reach_table: "key_reach s \<Longrightarrow> key_reach (apikeys_table c p s)"

lemma dialogs_exclusive: "key_reach s \<Longrightarrow> kp_createOpen s \<longrightarrow> kp_editing s = None"
  by (induction rule: key_reach.induct) (auto simp: apikey_defs split: outcome.splits)

text \<open>C28: in every state the page can reach, also when requests settle late, a save from the creation
  dialog creates a key and a save from the edit dialog writes the key that was opened: no save
  overwrites another key.\<close>

theorem key_save_purpose:
  assumes "key_reach s" "apikeys_modal_open s" "apikeys_handleOk s = Some rq"
  shows "if kp_createOpen s then rq = apikeyApi_create (key_create_body (kp_form s))
    else \<exists>r. kp_editing s = Some r \<and> rq = apikeyApi_update (ak_id r) (key_update_body r (kp_form s))"
  using dialogs_exclusive [OF assms(1)] assms(2,3)
  by (auto simp: apikeys_modal_open_def apikeys_handleOk_eq Let_def split: if_splits option.splits)

lemma key_save_purpose_witness:
  "apikeys_handleOk (apikeys_input (key_form_blank\<lparr>kf_name := Some (js ''n'')\<rparr>)
     (apikeys_openCreate (apikeys_openEdit sample_key apikeys_initial)))
   = Some (apikeyApi_create (key_create_body (key_form_blank\<lparr>kf_name := Some (js ''n'')\<rparr>)))"
proof -
  let ?s = "apikeys_input (key_form_blank\<lparr>kf_name := Some (js ''n'')\<rparr>)
     (apikeys_openCreate (apikeys_openEdit sample_key apikeys_initial))"
  have r: "key_reach ?s" by (intro key_reach.intros)
  have o: "apikeys_modal_open ?s" by (simp add: apikey_defs)
  obtain rq where h: "apikeys_handleOk ?s = Some rq"
    by (auto simp: apikeys_handleOk_eq apikeys_input_def filled_def apikeys_openCreate_def Let_def split: option.splits)
  have "kp_createOpen ?s" by (simp add: apikey_defs)
  with key_save_purpose [OF r o h] h show ?thesis by (simp add: apikeys_input_def)
qed

end
