(* ===== verification/ListViews.thy ===== *)
theory ListViews
  imports View Providers RateLimits Models Quotas ApiKeys
begin

text \<open>
  The tables of the pages Providers.tsx, Models.tsx, RateLimits.tsx, Quotas.tsx and ApiKeys.tsx: what
  each column shows of a row, and the actions of a row.
\<close>

section \<open>Providers\<close>

definition providers_columns :: "Ui \<Rightarrow> int option \<Rightarrow> Provider column list" where
  "providers_columns u testingId =
     [col (js ''ID'') (Some 64) (\<lambda>r. plain_tag (int_to_string (prov_id r))),
      col (tr u ''providers.colName'') (Some 140) (\<lambda>r. Txt (prov_name r)),
      col (tr u ''providers.colProtocol'') (Some 180)
        (\<lambda>r. Txt (show_enum u ''protocol'' (ProviderProtocol_str (prov_protocol r)))),
      col (tr u ''providers.colEndpoint'') None (\<lambda>r. Txt (prov_base_url r)),
      col (js ''API Key'') (Some 150) (\<lambda>r. Cod (str_or (prov_api_key_masked r) (js ''-''))),
      col (tr u ''common.status'') (Some 80) (\<lambda>r. Toggle (prov_enabled r)),
      col (tr u ''common.remark'') (Some 120) (\<lambda>r. dash (prov_remark r)),
      col (tr u ''providers.colUpdatedAt'') (Some 160) (\<lambda>r. Txt (show_time u (prov_updated_at r))),
      col (tr u ''common.action'') (Some 220) (\<lambda>r. Acts
        [Act_button (tr u ''providers.test'') (testingId = Some (prov_id r)),
         Act_button (tr u ''common.edit'') False,
         Act_confirm (tr u ''common.delete'') (tr u ''providers.deleteTitle'')
           (tr_with u ''providers.deleteConfirm'' [(''name'', prov_name r)]) False])]"

section \<open>Model aliases\<close>

definition upstreams_cell :: "Ui \<Rightarrow> Provider list option \<Rightarrow> ModelAlias \<Rightarrow> cell" where
  "upstreams_cell u providers r =
     Cells (map (\<lambda>x. colored (if up_provider_enabled x then ''geekblue'' else ''default'') (upstream_tag (ui_t u) providers x))
              (ma_upstreams r)
            @ (if ma_upstreams r = [] then [Txt (tr u ''models.noUpstreams'')] else []))"

definition models_columns :: "Ui \<Rightarrow> Provider list option \<Rightarrow> ModelAlias column list" where
  "models_columns u providers =
     [col (js ''ID'') (Some 64) (\<lambda>r. plain_tag (int_to_string (ma_id r))),
      col (tr u ''models.colAlias'') (Some 160) (\<lambda>r. Txt (ma_alias r)),
      col (tr u ''models.colUpstreams'') None (upstreams_cell u providers),
      col (tr u ''common.status'') (Some 80) (\<lambda>r. Toggle (ma_enabled r)),
      col (tr u ''models.colRemark'') (Some 120) (\<lambda>r. dash (ma_remark r)),
      col (tr u ''common.updatedAt'') (Some 160) (\<lambda>r. Txt (show_time u (ma_updated_at r))),
      col (tr u ''common.action'') (Some 250) (\<lambda>r. Acts
        [Act_button (tr u ''models.stats'') False, Act_button (tr u ''common.edit'') False,
         Act_confirm (tr u ''common.delete'') (tr u ''models.deleteTitle'')
           (tr_with u ''models.deleteConfirm'' [(''alias'', ma_alias r)]) False])]"

section \<open>Rate limits\<close>

definition rateLimits_columns :: "Ui \<Rightarrow> RateLimit column list" where
  "rateLimits_columns u =
     [col (js ''ID'') (Some 60) (\<lambda>r. plain_tag (int_to_string (rl_id r))),
      col (js ''API Key'') (Some 160)
        (\<lambda>r. if rl_api_key_id r = 0 then colored ''purple'' (rateLimits_key_label (ui_t u) r)
             else Txt (rateLimits_key_label (ui_t u) r)),
      col (tr u ''rateLimits.colModel'') (Some 130)
        (\<lambda>r. if rl_model_alias r = js ''*'' then colored ''blue'' (rateLimits_model_label (ui_t u) r)
             else Txt (rateLimits_model_label (ui_t u) r)),
      col (tr u ''rateLimits.colWindow'') (Some 110) (\<lambda>r. Txt (int_to_string (rl_window_seconds r))),
      col (tr u ''rateLimits.colMaxReq'') (Some 120) (\<lambda>r. Txt (int_to_string (rl_max_requests r))),
      col (tr u ''common.status'') (Some 80) (\<lambda>r. Toggle (rl_enabled r)),
      col (tr u ''rateLimits.colHits'') (Some 100) (\<lambda>r. colored ''volcano'' (show_number u (rl_total_hits r))),
      col (tr u ''common.action'') (Some 140) (\<lambda>r. Acts
        [Act_button (tr u ''common.edit'') False,
         Act_confirm (tr u ''common.delete'') (tr u ''rateLimits.deleteTitle'') (tr u ''rateLimits.deleteConfirm'') False])]"

section \<open>Quotas\<close>

definition quotas_columns :: "Ui \<Rightarrow> Quota column list" where
  "quotas_columns u =
     [col (js ''ID'') (Some 60) (\<lambda>r. plain_tag (int_to_string (q_id r))),
      col (js ''API Key'') (Some 130) (\<lambda>r. Txt (q_api_key_label r)),
      col (tr u ''quotas.colModel'') (Some 110)
        (\<lambda>r. if q_model_alias r = js ''*'' then colored ''blue'' (tr u ''quotas.allModelsTag'') else Txt (q_model_alias r)),
      col (tr u ''quotas.colType'') (Some 100) (\<lambda>r. Txt (show_enum u ''quotaType'' (QuotaType_str (q_quota_type r)))),
      col (tr u ''quotas.colPeriod'') (Some 80) (\<lambda>r. Txt (show_enum u ''period'' (QuotaPeriod_str (q_period r)))),
      col (tr u ''quotas.colUsage'') (Some 220)
        (\<lambda>r. let c = usage_cell (ui_t u) (show_number u) r in Cells [Txt (uc_format c), Txt (uc_text c)]),
      col (tr u ''quotas.colOverAction'') (Some 130) (\<lambda>r. case over_action_tag (ui_t u) r of (c, s) \<Rightarrow> Tag c s),
      col (tr u ''common.status'') (Some 80) (\<lambda>r. Toggle (q_enabled r)),
      col (tr u ''quotas.colResetAt'') (Some 160) (\<lambda>r. Txt (show_time u (q_reset_at r))),
      col (tr u ''common.action'') (Some 210) (\<lambda>r. Acts
        [Act_confirm (tr u ''quotas.reset'') (tr u ''quotas.resetTitle'') (tr u ''quotas.resetConfirm'') False,
         Act_button (tr u ''common.edit'') False,
         Act_confirm (tr u ''common.delete'') (tr u ''quotas.deleteTitle'') (tr u ''quotas.deleteConfirm'') False])]"

section \<open>API keys\<close>

definition apikeys_columns :: "Ui \<Rightarrow> ApiKey column list" where
  "apikeys_columns u =
     [col (js ''ID'') (Some 60) (\<lambda>r. plain_tag (int_to_string (ak_id r))),
      col (tr u ''apikeys.colName'') (Some 160) (\<lambda>r. Txt (ak_name r)),
      col (tr u ''apikeys.colKey'') (Some 180) (\<lambda>r. Cod (ak_key_masked r)),
      col (tr u ''common.remark'') None (\<lambda>r. Txt (ak_remark r)),
      col (tr u ''common.status'') (Some 80) (\<lambda>r. Toggle (ak_enabled r)),
      col (tr u ''apikeys.colLastUsed'') (Some 170) (\<lambda>r. Txt (show_time u (ak_last_used_at r))),
      col (tr u ''common.createdAt'') (Some 170) (\<lambda>r. Txt (show_time u (ak_created_at r))),
      col (tr u ''common.action'') (Some 140) (\<lambda>r. Acts
        [Act_button (tr u ''common.edit'') False,
         Act_confirm (tr u ''common.delete'') (tr u ''apikeys.deleteTitle'')
           (tr_with u ''apikeys.deleteConfirm'' [(''name'', ak_name r)]) False])]"

lemmas list_view_defs [js_eval] = providers_columns_def upstreams_cell_def models_columns_def
  rateLimits_columns_def quotas_columns_def apikeys_columns_def

end
