(* ===== verification/GuardTools.thy ===== *)
theory GuardTools
  imports Crud
begin

text \<open>
  What the pages of the guard rules share: the test drawer (\<open>runTest\<close> of Keywords.tsx and
  PiiRules.tsx), the creation of rules from templates (\<open>createTemplates\<close> of PiiRules.tsx and
  InjectionRules.tsx) and the search of the list.
\<close>

section \<open>Test drawer\<close>

record 'res TestTool =
  tool_open :: bool
  tool_text :: jsstring
  tool_loading :: bool
  tool_result :: "'res option"

definition tool_initial :: "'res TestTool" where
  "tool_initial = \<lparr>tool_open = False, tool_text = [], tool_loading = False, tool_result = None\<rparr>"

text \<open>\<open>runTest\<close>: a blank text is refused; otherwise the text goes out as typed.\<close>

definition run_test ::
  "translate \<Rightarrow> string \<Rightarrow> (jsstring \<Rightarrow> request) \<Rightarrow> 'res TestTool \<Rightarrow> World \<Rightarrow> 'res TestTool \<times> request option \<times> World" where
  "run_test t missing api s w =
     (if trim (tool_text s) = [] then (s, None, toast (T_warning (t (js missing) [])) w)
      else (s\<lparr>tool_loading := True\<rparr>, Some (api (tool_text s)), w))"

definition test_tool_settled :: "'res outcome \<Rightarrow> 'res TestTool \<Rightarrow> 'res TestTool" where
  "test_tool_settled out s =
     (case out of
        Resolved r \<Rightarrow> s\<lparr>tool_result := Some r, tool_loading := False\<rparr>
      | Rejected _ \<Rightarrow> s\<lparr>tool_loading := False\<rparr>)"

section \<open>Templates\<close>

record TemplateDialog =
  td_open :: bool
  td_checked :: "jsstring list"

definition openTemplateModal :: "TemplateDialog \<Rightarrow> TemplateDialog" where
  "openTemplateModal d = d\<lparr>td_checked := [], td_open := True\<rparr>"

definition check_all :: "jsstring list \<Rightarrow> bool \<Rightarrow> TemplateDialog \<Rightarrow> TemplateDialog" where
  "check_all names on d = d\<lparr>td_checked := (if on then names else [])\<rparr>"

definition selected_templates :: "('t \<Rightarrow> jsstring) \<Rightarrow> 't list \<Rightarrow> TemplateDialog \<Rightarrow> 't list" where
  "selected_templates name templates d = filter (\<lambda>t. name t \<in> set (td_checked d)) templates"

text \<open>One turn of the loop: the template and whether its creation resolved.\<close>

definition template_turn :: "('t \<Rightarrow> jsstring) \<Rightarrow> 't \<times> bool \<Rightarrow> int \<times> jsstring list \<Rightarrow> int \<times> jsstring list" where
  "template_turn name x acc =
     (case (x, acc) of ((t, created), (ok, errors)) \<Rightarrow>
        if created then (ok + 1, errors) else (ok, errors @ [name t]))"

text \<open>
  The mutation: the message it throws when nothing is checked, or the requests it sends one after
  the other, and the result when creation \<open>i\<close> resolves as \<open>outcomes ! i\<close> says.
\<close>

definition create_templates ::
  "translate \<Rightarrow> string \<Rightarrow> ('t \<Rightarrow> jsstring) \<Rightarrow> ('t \<Rightarrow> request) \<Rightarrow> 't list \<Rightarrow> TemplateDialog \<Rightarrow> bool list
     \<Rightarrow> jsstring + request list \<times> (int \<times> jsstring list)" where
  "create_templates t none name crt templates d outcomes =
     (let sel = selected_templates name templates d
      in if sel = [] then Inl (t (js none) [])
         else Inr (map crt sel, fold (template_turn name) (zip sel outcomes) (0, [])))"

text \<open>\<open>onSuccess\<close> and \<open>onError\<close> of the mutation.\<close>

definition templates_settled ::
  "translate \<Rightarrow> string \<Rightarrow> string \<Rightarrow> jsstring + request list \<times> (int \<times> jsstring list) \<Rightarrow> TemplateDialog \<Rightarrow>
     ('r, 'f) CrudPage \<Rightarrow> World \<Rightarrow> TemplateDialog \<times> ('r, 'f) CrudPage \<times> World" where
  "templates_settled t some all_ok res d s w =
     (case res of
        Inl m \<Rightarrow> (d, s, if m \<noteq> [] then toast (T_error m) w else w)
      | Inr (_, ok, failed) \<Rightarrow>
          (d\<lparr>td_open := False, td_checked := []\<rparr>, invalidate s,
           toast (T_success
             (if failed \<noteq> []
              then t (js some) [(js ''ok'', int_to_string ok), (js ''n'', int_to_string (int (length failed))),
                                (js ''failed'', join (js '', '') failed)]
              else t (js all_ok) [(js ''ok'', int_to_string ok)])) w))"

section \<open>Search\<close>

record RuleSearch =
  se_page :: int
  se_keyword :: jsstring

definition rule_search :: "jsstring \<Rightarrow> RuleSearch \<Rightarrow> RuleSearch" where
  "rule_search v s = s\<lparr>se_page := 1, se_keyword := v\<rparr>"

text \<open>The reset button of the PII and injection pages empties the keyword and leaves the page.\<close>

definition rule_search_reset :: "RuleSearch \<Rightarrow> RuleSearch" where
  "rule_search_reset s = s\<lparr>se_keyword := []\<rparr>"

lemmas guard_tool_defs [js_eval] = tool_initial_def run_test_def test_tool_settled_def
  openTemplateModal_def check_all_def selected_templates_def template_turn_def create_templates_def
  templates_settled_def rule_search_def rule_search_reset_def

section \<open>The loop over the templates\<close>

lemma template_loop:
  "length outcomes = length sel \<Longrightarrow>
     fold (template_turn name) (zip sel outcomes) (ok, errs) =
       (ok + int (length (filter id outcomes)),
        errs @ map (name \<circ> fst) (filter (\<lambda>x. \<not> snd x) (zip sel outcomes)))"
  by (induction sel outcomes arbitrary: ok errs rule: list_induct2')
    (auto simp: template_turn_def)

lemma template_counts:
  "length outcomes = length sel \<Longrightarrow>
     length (filter id outcomes) + length (filter (\<lambda>x. \<not> snd x) (zip sel outcomes)) = length sel"
  by (induction sel outcomes rule: list_induct2') auto

lemma selected_none: "selected_templates name templates (check_all [] b d) = []"
  by (cases b) (simp_all add: selected_templates_def check_all_def)

section \<open>Properties\<close>

text \<open>Creating rules from templates sends one creation per checked template, in the order of the
  list, and goes on after a failure; what it reports accounts for every one of them: the number
  created and the names of exactly those that failed. With nothing checked nothing is sent.\<close>

theorem templates_all_accounted:
  assumes "sel = selected_templates name templates d" "sel \<noteq> []" "length outcomes = length sel"
  shows "\<exists>ok failed. create_templates t none name crt templates d outcomes = Inr (map crt sel, (ok, failed))
    \<and> ok + int (length failed) = int (length sel)
    \<and> failed = map (name \<circ> fst) (filter (\<lambda>x. \<not> snd x) (zip sel outcomes))
    \<and> create_templates t none name crt templates (check_all [] True d) outcomes = Inl (t (js none) [])"
  using assms template_loop [of outcomes sel name 0 "[]"] template_counts [of outcomes sel]
  by (simp add: create_templates_def Let_def selected_none flip: of_nat_add)

lemma templates_all_accounted_witness:
  "\<exists>ok failed. create_templates (\<lambda>k a. k) ''none'' it_name (\<lambda>x. http_post (it_name x) None)
     [\<lparr>it_name = js ''a'', it_pattern = [], it_match_mode = MM_regex, it_action = RA_block\<rparr>,
      \<lparr>it_name = js ''b'', it_pattern = [], it_match_mode = MM_regex, it_action = RA_block\<rparr>]
     \<lparr>td_open = True, td_checked = [js ''a'', js ''b'']\<rparr> [True, False]
     = Inr ([http_post (js ''a'') None, http_post (js ''b'') None], (ok, failed)) \<and> failed = [js ''b'']"
  using templates_all_accounted [of _ it_name
      "[\<lparr>it_name = js ''a'', it_pattern = [], it_match_mode = MM_regex, it_action = RA_block\<rparr>,
        \<lparr>it_name = js ''b'', it_pattern = [], it_match_mode = MM_regex, it_action = RA_block\<rparr>]"
      "\<lparr>td_open = True, td_checked = [js ''a'', js ''b'']\<rparr>" "[True, False]" "\<lambda>k a. k" "''none''"
      "\<lambda>x. http_post (it_name x) None", OF refl]
  by (simp add: selected_templates_def)

text \<open>The dialog announces success, and closes, also when every single creation has failed.\<close>

theorem templates_success_when_all_fail:
  assumes "sel = selected_templates name templates d" "sel \<noteq> []" "outcomes = replicate (length sel) False"
  shows "\<exists>m d' s'. templates_settled t some all_ok (create_templates t none name crt templates d outcomes) d s w
      = (d', s', w\<lparr>w_toasts := w_toasts w @ [T_success m]\<rparr>)
    \<and> \<not> td_open d' \<and> m = t (js some)
        [(js ''ok'', int_to_string 0), (js ''n'', int_to_string (int (length sel))),
         (js ''failed'', join (js '', '') (map name sel))]"
proof -
  have z: "map (name \<circ> fst) (filter (\<lambda>x. \<not> snd x) (zip sel (replicate (length sel) False))) = map name sel"
    by (induction sel) auto
  have "filter id (replicate (length sel) False) = []" by (induction sel) auto
  then have "fold (template_turn name) (zip sel outcomes) (0, []) = (0, map name sel)"
    using template_loop [of outcomes sel name 0 "[]"] z assms(3) by simp
  with assms show ?thesis
    by (simp add: templates_settled_def create_templates_def Let_def toast_def)
qed

lemma templates_success_when_all_fail_witness:
  "\<exists>m d' s'. templates_settled (\<lambda>k a. k) ''some'' ''all''
     (create_templates (\<lambda>k a. k) ''none'' it_name (\<lambda>x. http_post (it_name x) None)
       [\<lparr>it_name = js ''a'', it_pattern = [], it_match_mode = MM_regex, it_action = RA_block\<rparr>]
       \<lparr>td_open = True, td_checked = [js ''a'']\<rparr> [False])
     \<lparr>td_open = True, td_checked = [js ''a'']\<rparr> (crud_initial () :: (unit, unit) CrudPage) sample_world
     = (d', s', sample_world\<lparr>w_toasts := w_toasts sample_world @ [T_success m]\<rparr>)"
  using templates_success_when_all_fail [of _ it_name
      "[\<lparr>it_name = js ''a'', it_pattern = [], it_match_mode = MM_regex, it_action = RA_block\<rparr>]"
      "\<lparr>td_open = True, td_checked = [js ''a'']\<rparr>" "[False]" "\<lambda>k a. k" "''some''" "''all''" "''none''"
      "\<lambda>x. http_post (it_name x) None" "crud_initial () :: (unit, unit) CrudPage" sample_world, OF refl]
  by (simp add: selected_templates_def) blast

end
