(* ===== verification/Keywords.thy ===== *)
theory Keywords
  imports GuardTools
begin

text \<open>
  frontend/src/pages/guard/Keywords.tsx: the list of sensitive words with its filters, its dialog,
  the bulk import and the test drawer. Reading a file is the browser's: its outcome is an argument
  of \<open>import_file_read\<close>.
\<close>

record KeywordFormValues =
  kwf_word :: "jsstring option"
  kwf_category :: "KeywordCategory option"
  kwf_match_mode :: "MatchMode option"
  kwf_action :: "RuleAction option"
  kwf_enabled :: "bool option"

type_synonym KeywordsPage = "(Keyword, KeywordFormValues) CrudPage"

definition CSV_HEADER :: jsstring where
  "CSV_HEADER = js ''word,category,match_mode,action''"

definition keywords_blank :: KeywordFormValues where
  "keywords_blank = \<lparr>kwf_word = None, kwf_category = Some KC_political, kwf_match_mode = Some MM_contains,
     kwf_action = Some RA_block, kwf_enabled = Some True\<rparr>"

definition keywords_prefill :: "Keyword \<Rightarrow> KeywordFormValues" where
  "keywords_prefill r = \<lparr>kwf_word = Some (kw_word r), kwf_category = Some (kw_category r),
     kwf_match_mode = Some (kw_match_mode r), kwf_action = Some (kw_action r), kwf_enabled = Some (kw_enabled r)\<rparr>"

definition keywords_openCreate :: "KeywordsPage \<Rightarrow> KeywordsPage" where
  "keywords_openCreate = crud_openCreate keywords_blank"

definition keywords_openEdit :: "Keyword \<Rightarrow> KeywordsPage \<Rightarrow> KeywordsPage" where
  "keywords_openEdit = crud_openEdit keywords_prefill"

definition keywords_form :: "Ui \<Rightarrow> KeywordFormValues form_item list" where
  "keywords_form u =
     [item ''word'' (tr u ''keywords.wordLabel'') In_text
        [rule (\<lambda>v. filled (kwf_word v)) (tr u ''keywords.wordRequired'')],
      item ''category'' (tr u ''keywords.catLabel'') In_select
        [rule (\<lambda>v. kwf_category v \<noteq> None) (ui_required u ''category'')],
      item ''match_mode'' (tr u ''keywords.matchModeLabel'') In_select
        [rule (\<lambda>v. kwf_match_mode v \<noteq> None) (ui_required u ''match_mode'')],
      item ''action'' (tr u ''keywords.actLabel'') In_select
        [rule (\<lambda>v. kwf_action v \<noteq> None) (ui_required u ''action'')],
      item ''enabled'' (tr u ''keywords.enabledLabel'') In_switch []]"

definition keywords_handleSave :: "KeywordFormValues \<Rightarrow> KeywordInput option" where
  "keywords_handleSave v =
     (if validateFields keywords_form v
      then Some \<lparr>ki_word = trim_or_empty (kwf_word v), ki_category = the (kwf_category v),
                 ki_match_mode = the (kwf_match_mode v), ki_action = the (kwf_action v),
                 ki_enabled = or_else (kwf_enabled v) True\<rparr>
      else None)"

definition keywords_submit :: "KeywordsPage \<Rightarrow> request option" where
  "keywords_submit = crud_submit kw_id keywords_handleSave keywordApi_update keywordApi_create"

definition keywords_toggle_body :: "Keyword \<Rightarrow> bool \<Rightarrow> KeywordInput" where
  "keywords_toggle_body r enabled =
     \<lparr>ki_word = kw_word r, ki_category = kw_category r, ki_match_mode = kw_match_mode r,
      ki_action = kw_action r, ki_enabled = enabled\<rparr>"

definition keywords_toggleEnabled :: "Keyword \<Rightarrow> bool \<Rightarrow> request" where
  "keywords_toggleEnabled r enabled = keywordApi_update (kw_id r) (keywords_toggle_body r enabled)"

definition keywords_saved :: "translate \<Rightarrow> 'a outcome \<Rightarrow> KeywordsPage \<Rightarrow> World \<Rightarrow> KeywordsPage \<times> World" where
  "keywords_saved t = crud_saved t ''keywords.savedEdit'' ''keywords.savedNew''"

definition keywords_removed :: "translate \<Rightarrow> 'a outcome \<Rightarrow> KeywordsPage \<Rightarrow> World \<Rightarrow> KeywordsPage \<times> World" where
  "keywords_removed t = crud_removed t ''keywords.deleted''"

text \<open>The actions a keyword can have: all but masking.\<close>

definition keyword_actions :: "RuleAction list" where
  "keyword_actions = filter (\<lambda>a. a \<noteq> RA_mask) [RA_block, RA_warn, RA_log, RA_mask]"

section \<open>Filters\<close>

text \<open>The empty string of a filter is \<open>None\<close>, as is null of \<open>enabled\<close>.\<close>

record KeywordFilters =
  kfs_page :: int
  kfs_keyword :: jsstring
  kfs_category :: "KeywordCategory option"
  kfs_enabled :: "bool option"
  kfs_action :: "RuleAction option"

definition filters_initial :: KeywordFilters where
  "filters_initial = \<lparr>kfs_page = 1, kfs_keyword = [], kfs_category = None, kfs_enabled = None, kfs_action = None\<rparr>"

definition filter_keyword :: "jsstring \<Rightarrow> KeywordFilters \<Rightarrow> KeywordFilters" where
  "filter_keyword v f = f\<lparr>kfs_page := 1, kfs_keyword := v\<rparr>"

definition filter_category :: "KeywordCategory option \<Rightarrow> KeywordFilters \<Rightarrow> KeywordFilters" where
  "filter_category v f = f\<lparr>kfs_page := 1, kfs_category := v\<rparr>"

definition filter_action :: "RuleAction option \<Rightarrow> KeywordFilters \<Rightarrow> KeywordFilters" where
  "filter_action v f = f\<lparr>kfs_page := 1, kfs_action := v\<rparr>"

definition filter_enabled :: "bool option \<Rightarrow> KeywordFilters \<Rightarrow> KeywordFilters" where
  "filter_enabled v f = f\<lparr>kfs_page := 1, kfs_enabled := v\<rparr>"

definition filter_reset :: "KeywordFilters \<Rightarrow> KeywordFilters" where
  "filter_reset f = filters_initial"

definition keywords_query :: "int \<Rightarrow> KeywordFilters \<Rightarrow> request" where
  "keywords_query pageSize f =
     keywordApi_list \<lparr>pp_page = Some (kfs_page f), pp_page_size = Some pageSize,
       pp_keyword = str_or_undef (kfs_keyword f), kf_category = kfs_category f,
       kf_enabled = kfs_enabled f, kf_action = kfs_action f\<rparr>"

section \<open>Bulk import\<close>

datatype import_mode = IM_paste | IM_upload

record ImportDialog =
  id_open :: bool
  id_mode :: import_mode
  id_pasteText :: jsstring
  id_csvFile :: "jsstring option"

text \<open>
  \<open>doImport\<close>: what happens at once. A pasted text goes out; a chosen file (kept by its name) is
  read first.
\<close>

datatype import_step = IS_nothing | IS_send request | IS_read jsstring

definition doImport :: "translate \<Rightarrow> ImportDialog \<Rightarrow> World \<Rightarrow> import_step \<times> World" where
  "doImport t d w =
     (case id_mode d of
        IM_paste \<Rightarrow>
          if trim (id_pasteText d) = []
          then (IS_nothing, toast (T_warning (t (js ''keywords.pasteFirst'') [])) w)
          else (IS_send (keywordApi_importCsv (id_pasteText d)), w)
      | IM_upload \<Rightarrow>
          (case id_csvFile d of
             None \<Rightarrow> (IS_nothing, toast (T_warning (t (js ''keywords.selectFileFirst'') [])) w)
           | Some f \<Rightarrow> (IS_read f, w)))"

definition import_file_read :: "jsstring outcome \<Rightarrow> World \<Rightarrow> import_step \<times> World" where
  "import_file_read out w =
     (case out of
        Resolved txt \<Rightarrow> (IS_send (keywordApi_importCsv txt), w)
      | Rejected e \<Rightarrow> (IS_nothing, toast (T_error (e_message e)) w))"

definition import_done ::
  "translate \<Rightarrow> KeywordImportResult outcome \<Rightarrow> ImportDialog \<Rightarrow> KeywordsPage \<Rightarrow> World \<Rightarrow> ImportDialog \<times> KeywordsPage \<times> World" where
  "import_done t out d s w =
     (case out of
        Resolved res \<Rightarrow>
          (d\<lparr>id_open := False, id_pasteText := [], id_csvFile := None\<rparr>, invalidate s,
           toast (T_success (t (js ''keywords.importDone'')
             [(js ''created'', int_to_string (kir_created res)), (js ''skipped'', int_to_string (kir_skipped res))])) w)
      | Rejected _ \<Rightarrow> (d, s, w))"

definition keywords_runTest :: "translate \<Rightarrow> GuardTestResult TestTool \<Rightarrow> World \<Rightarrow> GuardTestResult TestTool \<times> request option \<times> World" where
  "keywords_runTest t = run_test t ''keywords.testTextRequired'' keywordApi_test"

definition keywords_export :: "int \<Rightarrow> download" where
  "keywords_export now = keywordApi_exportCsv now None"

text \<open>What the rules of the form come down to.\<close>

lemma keywords_required:
  "form_errors (keywords_form u) v = [] \<longleftrightarrow> filled (kwf_word v) \<and> kwf_category v \<noteq> None \<and> kwf_match_mode v \<noteq> None
     \<and> kwf_action v \<noteq> None"
  by (auto simp: keywords_form_def)

lemma keywords_handleSave_eq:
  "keywords_handleSave v =
     (case (kwf_category v, kwf_match_mode v, kwf_action v) of
        (Some c, Some m, Some a) \<Rightarrow>
          if filled (kwf_word v)
          then Some \<lparr>ki_word = trim_or_empty (kwf_word v), ki_category = c, ki_match_mode = m,
                     ki_action = a, ki_enabled = or_else (kwf_enabled v) True\<rparr>
          else None
      | _ \<Rightarrow> None)"
  by (auto simp: keywords_handleSave_def validateFields_def keywords_required split: option.split)

lemmas keyword_defs [js_eval] = CSV_HEADER_def keywords_blank_def keywords_prefill_def
  keywords_openCreate_def keywords_openEdit_def keywords_handleSave_eq keywords_submit_def
  keywords_toggle_body_def keywords_toggleEnabled_def keywords_saved_def keywords_removed_def
  keyword_actions_def filters_initial_def filter_keyword_def filter_category_def filter_action_def
  filter_enabled_def filter_reset_def keywords_query_def doImport_def import_file_read_def
  import_done_def keywords_runTest_def keywords_export_def

definition keyword_clean :: "Keyword \<Rightarrow> bool" where
  "keyword_clean r \<longleftrightarrow> kw_word r \<noteq> [] \<and> trimmed (kw_word r)"

interpretation keyword_list: crud_page kw_id keywords_blank keywords_prefill keywords_handleSave
  keywords_toggle_body kw_enabled keywordApi_update keywordApi_create keyword_clean
  by unfold_locales
    (simp_all add: keywordApi_update_def keywordApi_create_def path_id_inject path_id_longer
      keywords_handleSave_eq keywords_prefill_def keywords_toggle_body_def keywords_blank_def
      keyword_clean_def form_defs)

section \<open>Properties\<close>

text \<open>Every change of a filter goes back to the first page and keeps the other filters, so that
  the list asked for is the conjunction of the filters last chosen; a filter that is not set is not
  sent, and the reset asks for the whole list.\<close>

theorem keyword_filters_query:
  "keywords_query n (filter_enabled e (filter_action a (filter_category c (filter_keyword k f))))
     = keywordApi_list \<lparr>pp_page = Some 1, pp_page_size = Some n, pp_keyword = str_or_undef k,
         kf_category = c, kf_enabled = e, kf_action = a\<rparr>
   \<and> keywords_query n (filter_keyword k (filter_enabled e (filter_category c (filter_action a f))))
     = keywords_query n (filter_enabled e (filter_action a (filter_category c (filter_keyword k f))))
   \<and> rq_params (keywords_query n (filter_reset f)) =
       Some (JObj [(js ''page'', JNum 1), (js ''page_size'', JNum (of_int n))])"
  by (simp add: keyword_defs keywordApi_list_def http_get_def KeywordFilter_json_def PageParams_json_def
      obj_def int_json_def str_or_undef_def)

end
