(* ===== verification/PiiRules.thy ===== *)
theory PiiRules
  imports GuardTools
begin

text \<open>frontend/src/pages/guard/PiiRules.tsx: the list of PII rules with dialog and templates.\<close>

record PiiFormValues =
  pif_name :: "jsstring option"
  pif_category :: "jsstring option"
  pif_pattern :: "jsstring option"
  pif_replacement :: "jsstring option"
  pif_action :: "RuleAction option"
  pif_enabled :: "bool option"

type_synonym PiiPage = "(PiiRule, PiiFormValues) CrudPage"

definition pii_blank :: PiiFormValues where
  "pii_blank = \<lparr>pif_name = None, pif_category = None, pif_pattern = None, pif_replacement = None,
     pif_action = Some RA_mask, pif_enabled = Some True\<rparr>"

definition pii_prefill :: "PiiRule \<Rightarrow> PiiFormValues" where
  "pii_prefill r = \<lparr>pif_name = Some (pr_name r), pif_category = Some (pr_category r),
     pif_pattern = Some (pr_pattern r), pif_replacement = Some (pr_replacement r),
     pif_action = Some (pr_action r), pif_enabled = Some (pr_enabled r)\<rparr>"

definition pii_openCreate :: "PiiPage \<Rightarrow> PiiPage" where
  "pii_openCreate = crud_openCreate pii_blank"

definition pii_openEdit :: "PiiRule \<Rightarrow> PiiPage \<Rightarrow> PiiPage" where
  "pii_openEdit = crud_openEdit pii_prefill"

definition pii_form :: "Ui \<Rightarrow> PiiFormValues form_item list" where
  "pii_form u =
     [item ''name'' (tr u ''pii.nameLabel'') In_text [rule (\<lambda>v. filled (pif_name v)) (tr u ''pii.nameReq'')],
      item ''category'' (tr u ''pii.colCategory'') In_select
        [rule (\<lambda>v. filled (pif_category v)) (tr u ''pii.categoryReq'')],
      item ''pattern'' (tr u ''pii.colPattern'') In_text [rule (\<lambda>v. filled (pif_pattern v)) (tr u ''pii.patternReq'')],
      item ''replacement'' (tr u ''pii.replacementLabel'') In_text [],
      item ''action'' (tr u ''pii.actionLabel'') In_select
        [rule (\<lambda>v. pif_action v \<noteq> None) (ui_required u ''action'')],
      item ''enabled'' (tr u ''common.status'') In_switch []]"

text \<open>The pattern is sent as typed: only name, category and replacement are trimmed.\<close>

definition pii_handleSave :: "PiiFormValues \<Rightarrow> PiiRuleInput option" where
  "pii_handleSave v =
     (if validateFields pii_form v
      then Some \<lparr>pri_name = trim_or_empty (pif_name v), pri_category = trim_or_empty (pif_category v),
                 pri_pattern = the (pif_pattern v), pri_replacement = Some (trim_or_empty (pif_replacement v)),
                 pri_action = the (pif_action v), pri_enabled = or_else (pif_enabled v) True\<rparr>
      else None)"

definition pii_submit :: "PiiPage \<Rightarrow> request option" where
  "pii_submit = crud_submit pr_id pii_handleSave piiApi_update piiApi_create"

definition pii_toggle_body :: "PiiRule \<Rightarrow> bool \<Rightarrow> PiiRuleInput" where
  "pii_toggle_body r enabled =
     \<lparr>pri_name = pr_name r, pri_category = pr_category r, pri_pattern = pr_pattern r,
      pri_replacement = Some (pr_replacement r), pri_action = pr_action r, pri_enabled = enabled\<rparr>"

definition pii_toggleEnabled :: "PiiRule \<Rightarrow> bool \<Rightarrow> request" where
  "pii_toggleEnabled r enabled = piiApi_update (pr_id r) (pii_toggle_body r enabled)"

definition pii_saved :: "translate \<Rightarrow> 'a outcome \<Rightarrow> PiiPage \<Rightarrow> World \<Rightarrow> PiiPage \<times> World" where
  "pii_saved t = crud_saved t ''pii.updated'' ''pii.created''"

definition pii_removed :: "translate \<Rightarrow> 'a outcome \<Rightarrow> PiiPage \<Rightarrow> World \<Rightarrow> PiiPage \<times> World" where
  "pii_removed t = crud_removed t ''common.deleteSuccess''"

definition pii_query :: "int \<Rightarrow> RuleSearch \<Rightarrow> request" where
  "pii_query pageSize s =
     piiApi_list \<lparr>pp_page = Some (se_page s), pp_page_size = Some pageSize, pp_keyword = str_or_undef (se_keyword s)\<rparr>"

definition pii_template_body :: "PiiRuleTemplate \<Rightarrow> PiiRuleInput" where
  "pii_template_body x =
     \<lparr>pri_name = pt_name x, pri_category = pt_category x, pri_pattern = pt_pattern x,
      pri_replacement = Some (pt_replacement x),
      pri_action = (if pt_action x = RA_mask then RA_mask else pt_action x), pri_enabled = True\<rparr>"

definition pii_createTemplates ::
  "translate \<Rightarrow> PiiRuleTemplate list option \<Rightarrow> TemplateDialog \<Rightarrow> bool list
     \<Rightarrow> jsstring + request list \<times> (int \<times> jsstring list)" where
  "pii_createTemplates t templates =
     create_templates t ''pii.noTemplateChecked'' pt_name (piiApi_create \<circ> pii_template_body) (or_else templates [])"

definition pii_templates_settled ::
  "translate \<Rightarrow> jsstring + request list \<times> (int \<times> jsstring list) \<Rightarrow> TemplateDialog \<Rightarrow> PiiPage \<Rightarrow> World
     \<Rightarrow> TemplateDialog \<times> PiiPage \<times> World" where
  "pii_templates_settled t = templates_settled t ''pii.tplCreated'' ''pii.tplCreatedAll''"

text \<open>The state of the box that checks all.\<close>

definition select_all_box :: "jsstring list \<Rightarrow> TemplateDialog \<Rightarrow> bool \<times> bool" where
  "select_all_box templateNames d =
     (length (td_checked d) > 0 \<and> length (td_checked d) < length templateNames,
      length (td_checked d) = length templateNames \<and> length templateNames > 0)"

definition pii_runTest :: "translate \<Rightarrow> PiiTestResult TestTool \<Rightarrow> World \<Rightarrow> PiiTestResult TestTool \<times> request option \<times> World" where
  "pii_runTest t = run_test t ''pii.testInputReq'' piiApi_test"

definition pii_masked_text :: "translate \<Rightarrow> PiiTestResult \<Rightarrow> jsstring" where
  "pii_masked_text t r = str_or (ptest_masked_text r) (t (js ''pii.testMaskedNone'') [])"

text \<open>What the rules of the form come down to.\<close>

lemma pii_required:
  "form_errors (pii_form u) v = [] \<longleftrightarrow> filled (pif_name v) \<and> filled (pif_category v) \<and> filled (pif_pattern v)
     \<and> pif_action v \<noteq> None"
  by (auto simp: pii_form_def)

lemma pii_handleSave_eq:
  "pii_handleSave v =
     (case pif_action v of
        None \<Rightarrow> None
      | Some a \<Rightarrow>
          if filled (pif_name v) \<and> filled (pif_category v) \<and> filled (pif_pattern v)
          then Some \<lparr>pri_name = trim_or_empty (pif_name v), pri_category = trim_or_empty (pif_category v),
                     pri_pattern = the (pif_pattern v), pri_replacement = Some (trim_or_empty (pif_replacement v)),
                     pri_action = a, pri_enabled = or_else (pif_enabled v) True\<rparr>
          else None)"
  by (auto simp: pii_handleSave_def validateFields_def pii_required split: option.split)

lemmas pii_defs [js_eval] = pii_blank_def pii_prefill_def pii_openCreate_def pii_openEdit_def
  pii_handleSave_eq pii_submit_def pii_toggle_body_def pii_toggleEnabled_def pii_saved_def
  pii_removed_def pii_query_def pii_template_body_def pii_createTemplates_def
  pii_templates_settled_def select_all_box_def pii_runTest_def pii_masked_text_def

definition pii_clean :: "PiiRule \<Rightarrow> bool" where
  "pii_clean r \<longleftrightarrow> pr_name r \<noteq> [] \<and> trimmed (pr_name r) \<and> pr_category r \<noteq> [] \<and> trimmed (pr_category r)
     \<and> pr_pattern r \<noteq> [] \<and> trimmed (pr_replacement r)"

interpretation pii_rules: crud_page pr_id pii_blank pii_prefill pii_handleSave
  pii_toggle_body pr_enabled piiApi_update piiApi_create pii_clean
  by unfold_locales
    (simp_all add: piiApi_update_def piiApi_create_def path_id_inject path_id_longer
      pii_handleSave_eq pii_prefill_def pii_toggle_body_def pii_blank_def pii_clean_def form_defs)

end
