(* ===== verification/InjectionRules.thy ===== *)
theory InjectionRules
  imports GuardTools
begin

text \<open>frontend/src/pages/guard/InjectionRules.tsx: the list of injection rules, dialog and templates.\<close>

record InjectionFormValues =
  inf_name :: "jsstring option"
  inf_pattern :: "jsstring option"
  inf_match_mode :: "MatchMode option"
  inf_action :: "RuleAction option"
  inf_enabled :: "bool option"

type_synonym InjectionPage = "(InjectionRule, InjectionFormValues) CrudPage"

definition injection_blank :: InjectionFormValues where
  "injection_blank = \<lparr>inf_name = None, inf_pattern = None, inf_match_mode = Some MM_regex,
     inf_action = Some RA_block, inf_enabled = Some True\<rparr>"

definition injection_prefill :: "InjectionRule \<Rightarrow> InjectionFormValues" where
  "injection_prefill r = \<lparr>inf_name = Some (ir_name r), inf_pattern = Some (ir_pattern r),
     inf_match_mode = Some (ir_match_mode r), inf_action = Some (ir_action r), inf_enabled = Some (ir_enabled r)\<rparr>"

definition injection_openCreate :: "InjectionPage \<Rightarrow> InjectionPage" where
  "injection_openCreate = crud_openCreate injection_blank"

definition injection_openEdit :: "InjectionRule \<Rightarrow> InjectionPage \<Rightarrow> InjectionPage" where
  "injection_openEdit = crud_openEdit injection_prefill"

definition injection_form :: "Ui \<Rightarrow> InjectionFormValues form_item list" where
  "injection_form u =
     [item ''name'' (tr u ''injection.nameLabel'') In_text [rule (\<lambda>v. filled (inf_name v)) (tr u ''injection.nameReq'')],
      item ''match_mode'' (tr u ''injection.modeLabel'') In_select
        [rule (\<lambda>v. inf_match_mode v \<noteq> None) (ui_required u ''match_mode'')],
      item ''pattern'' (tr u ''injection.patternLabel'') In_text
        [rule (\<lambda>v. filled (inf_pattern v)) (tr u ''injection.patternReq'')],
      item ''action'' (tr u ''injection.actionLabel'') In_select
        [rule (\<lambda>v. inf_action v \<noteq> None) (ui_required u ''action'')],
      item ''enabled'' (tr u ''common.status'') In_switch []]"

definition injection_handleSave :: "InjectionFormValues \<Rightarrow> InjectionRuleInput option" where
  "injection_handleSave v =
     (if validateFields injection_form v
      then Some \<lparr>iri_name = trim_or_empty (inf_name v), iri_pattern = the (inf_pattern v),
                 iri_match_mode = the (inf_match_mode v), iri_action = the (inf_action v),
                 iri_enabled = or_else (inf_enabled v) True\<rparr>
      else None)"

definition injection_submit :: "InjectionPage \<Rightarrow> request option" where
  "injection_submit = crud_submit ir_id injection_handleSave injectionApi_update injectionApi_create"

definition injection_toggle_body :: "InjectionRule \<Rightarrow> bool \<Rightarrow> InjectionRuleInput" where
  "injection_toggle_body r enabled =
     \<lparr>iri_name = ir_name r, iri_pattern = ir_pattern r, iri_match_mode = ir_match_mode r,
      iri_action = ir_action r, iri_enabled = enabled\<rparr>"

definition injection_toggleEnabled :: "InjectionRule \<Rightarrow> bool \<Rightarrow> request" where
  "injection_toggleEnabled r enabled = injectionApi_update (ir_id r) (injection_toggle_body r enabled)"

definition injection_saved :: "translate \<Rightarrow> 'a outcome \<Rightarrow> InjectionPage \<Rightarrow> World \<Rightarrow> InjectionPage \<times> World" where
  "injection_saved t = crud_saved t ''injection.updated'' ''injection.created''"

definition injection_removed :: "translate \<Rightarrow> 'a outcome \<Rightarrow> InjectionPage \<Rightarrow> World \<Rightarrow> InjectionPage \<times> World" where
  "injection_removed t = crud_removed t ''common.deleteSuccess''"

definition injection_query :: "int \<Rightarrow> RuleSearch \<Rightarrow> request" where
  "injection_query pageSize s =
     injectionApi_list \<lparr>pp_page = Some (se_page s), pp_page_size = Some pageSize, pp_keyword = str_or_undef (se_keyword s)\<rparr>"

definition injection_template_body :: "InjectionRuleTemplate \<Rightarrow> InjectionRuleInput" where
  "injection_template_body x =
     \<lparr>iri_name = it_name x, iri_pattern = it_pattern x, iri_match_mode = it_match_mode x,
      iri_action = it_action x, iri_enabled = True\<rparr>"

definition injection_createTemplates ::
  "translate \<Rightarrow> InjectionRuleTemplate list option \<Rightarrow> TemplateDialog \<Rightarrow> bool list
     \<Rightarrow> jsstring + request list \<times> (int \<times> jsstring list)" where
  "injection_createTemplates t templates =
     create_templates t ''injection.noTemplateChecked'' it_name (injectionApi_create \<circ> injection_template_body)
       (or_else templates [])"

definition injection_templates_settled ::
  "translate \<Rightarrow> jsstring + request list \<times> (int \<times> jsstring list) \<Rightarrow> TemplateDialog \<Rightarrow> InjectionPage \<Rightarrow> World
     \<Rightarrow> TemplateDialog \<times> InjectionPage \<times> World" where
  "injection_templates_settled t = templates_settled t ''injection.tplCreated'' ''injection.tplCreatedAll''"

text \<open>What the rules of the form come down to.\<close>

lemma injection_required:
  "form_errors (injection_form u) v = [] \<longleftrightarrow> filled (inf_name v) \<and> inf_match_mode v \<noteq> None \<and> filled (inf_pattern v)
     \<and> inf_action v \<noteq> None"
  by (auto simp: injection_form_def)

lemma injection_handleSave_eq:
  "injection_handleSave v =
     (case (inf_match_mode v, inf_action v) of
        (Some m, Some a) \<Rightarrow>
          if filled (inf_name v) \<and> filled (inf_pattern v)
          then Some \<lparr>iri_name = trim_or_empty (inf_name v), iri_pattern = the (inf_pattern v),
                     iri_match_mode = m, iri_action = a, iri_enabled = or_else (inf_enabled v) True\<rparr>
          else None
      | _ \<Rightarrow> None)"
  by (auto simp: injection_handleSave_def validateFields_def injection_required split: option.split)

lemmas injection_defs [js_eval] = injection_blank_def injection_prefill_def injection_openCreate_def
  injection_openEdit_def injection_handleSave_eq injection_submit_def injection_toggle_body_def
  injection_toggleEnabled_def injection_saved_def injection_removed_def injection_query_def
  injection_template_body_def injection_createTemplates_def injection_templates_settled_def

definition injection_clean :: "InjectionRule \<Rightarrow> bool" where
  "injection_clean r \<longleftrightarrow> ir_name r \<noteq> [] \<and> trimmed (ir_name r) \<and> ir_pattern r \<noteq> []"

interpretation injection_rules: crud_page ir_id injection_blank injection_prefill injection_handleSave
  injection_toggle_body ir_enabled injectionApi_update injectionApi_create injection_clean
  by unfold_locales
    (simp_all add: injectionApi_update_def injectionApi_create_def path_id_inject path_id_longer
      injection_handleSave_eq injection_prefill_def injection_toggle_body_def injection_blank_def
      injection_clean_def form_defs)

end
