(* ===== verification/GuardViews.thy ===== *)
theory GuardViews
  imports View Keywords PiiRules InjectionRules
begin

text \<open>
  The tables, template lists and test results of the pages Keywords.tsx, PiiRules.tsx and
  InjectionRules.tsx.
\<close>

definition action_tag :: "Ui \<Rightarrow> jsstring \<Rightarrow> cell" where
  "action_tag u a = Tag (dictColor ACTION_META (Some a)) (show_enum u ''action'' a)"

section \<open>Keywords\<close>

definition keywords_columns :: "Ui \<Rightarrow> Keyword column list" where
  "keywords_columns u =
     [col (tr u ''keywords.colId'') (Some 60) (\<lambda>r. plain_tag (int_to_string (kw_id r))),
      col (tr u ''keywords.colWord'') None (\<lambda>r. Txt (kw_word r)),
      col (tr u ''keywords.colCategory'') (Some 110)
        (\<lambda>r. Tag (dictColor KEYWORD_CATEGORY_META (Some (KeywordCategory_str (kw_category r))))
               (show_enum u ''keywordCategory'' (KeywordCategory_str (kw_category r)))),
      col (tr u ''keywords.colMatchMode'') (Some 120)
        (\<lambda>r. Txt (show_enum u ''matchMode'' (MatchMode_str (kw_match_mode r)))),
      col (tr u ''keywords.colAction'') (Some 90) (\<lambda>r. action_tag u (RuleAction_str (kw_action r))),
      col (tr u ''keywords.colEnabled'') (Some 80) (\<lambda>r. Toggle (kw_enabled r)),
      col (tr u ''keywords.colCreatedAt'') (Some 160) (\<lambda>r. Txt (show_time u (kw_created_at r))),
      col (tr u ''keywords.colOperation'') (Some 140) (\<lambda>r. Acts
        [Act_button (tr u ''keywords.edit'') False,
         Act_confirm (tr u ''keywords.delete'') (tr u ''keywords.deleteTitle'')
           (tr_with u ''keywords.deleteConfirm'' [(''word'', kw_word r)]) False])]"

text \<open>The result of the test drawer: the verdict and a row per hit.\<close>

definition keyword_hits_columns :: "Ui \<Rightarrow> GuardHit column list" where
  "keyword_hits_columns u =
     [col (tr u ''keywords.colHitType'') (Some 100) (\<lambda>r. Txt (gh_type r)),
      col (tr u ''keywords.colHitValue'') None (\<lambda>r. Txt (gh_value r)),
      col (tr u ''keywords.colCategory'') (Some 120) (\<lambda>r. Txt (show_enum u ''keywordCategory'' (gh_category r))),
      col (tr u ''keywords.colAction'') (Some 100) (\<lambda>r. action_tag u (gh_action r))]"

definition keyword_test_result :: "Ui \<Rightarrow> GuardTestResult \<Rightarrow> cell" where
  "keyword_test_result u r =
     Cells [Txt (tr u ''keywords.testResultLabel''),
            (if gtr_blocked r then colored ''error'' (tr u ''keywords.testBlocked'')
             else colored ''success'' (tr u ''keywords.testNotBlocked'')),
            (if gtr_hits r = [] then Txt (tr u ''keywords.testNoHits'')
             else Cells (concat (map (\<lambda>h. map (\<lambda>c. co_cell c h) (keyword_hits_columns u)) (gtr_hits r))))]"

section \<open>PII rules\<close>

definition pii_columns :: "Ui \<Rightarrow> PiiRule column list" where
  "pii_columns u =
     [col (js ''ID'') (Some 60) (\<lambda>r. plain_tag (int_to_string (pr_id r))),
      col (tr u ''pii.colName'') (Some 140) (\<lambda>r. Txt (pr_name r)),
      col (tr u ''pii.colCategory'') (Some 120) (\<lambda>r. Txt (show_enum u ''piiCategory'' (pr_category r))),
      col (tr u ''pii.colPattern'') None (\<lambda>r. Cod (pr_pattern r)),
      col (tr u ''pii.colReplacement'') (Some 130) (\<lambda>r. dash (pr_replacement r)),
      col (tr u ''pii.colAction'') (Some 90)
        (\<lambda>r. Tag (colorOf ACTION_META (Some (RuleAction_str (pr_action r)))) (show_enum u ''action'' (RuleAction_str (pr_action r)))),
      col (tr u ''common.status'') (Some 80) (\<lambda>r. Toggle (pr_enabled r)),
      col (tr u ''common.createdAt'') (Some 160) (\<lambda>r. Txt (show_time u (pr_created_at r))),
      col (tr u ''common.action'') (Some 140) (\<lambda>r. Acts
        [Act_button (tr u ''common.edit'') False,
         Act_confirm (tr u ''common.delete'') (tr u ''pii.deleteTitle'')
           (tr_with u ''pii.deleteConfirm'' [(''name'', pr_name r)]) False])]"

definition pii_template_columns :: "Ui \<Rightarrow> PiiRuleTemplate column list" where
  "pii_template_columns u =
     [col (tr u ''pii.colName'') None (\<lambda>r. Txt (pt_name r)),
      col (tr u ''pii.colCategory'') (Some 120) (\<lambda>r. Txt (pt_category r)),
      col (tr u ''pii.colPattern'') None (\<lambda>r. Cod (pt_pattern r)),
      col (tr u ''pii.colReplacement'') (Some 130) (\<lambda>r. Txt (pt_replacement r)),
      col (tr u ''pii.colAction'') (Some 90)
        (\<lambda>r. Tag (colorOf ACTION_META (Some (RuleAction_str (pt_action r)))) (show_enum u ''action'' (RuleAction_str (pt_action r))))]"

definition pii_findings_columns :: "Ui \<Rightarrow> PiiFinding column list" where
  "pii_findings_columns u =
     [col (tr u ''pii.testColRule'') None (\<lambda>r. Txt (pf_rule r)),
      col (tr u ''pii.colCategory'') (Some 140) (\<lambda>r. Txt (pf_category r)),
      col (tr u ''pii.testColSample'') None (\<lambda>r. Txt (pf_sample r))]"

section \<open>Injection rules\<close>

definition injection_columns :: "Ui \<Rightarrow> InjectionRule column list" where
  "injection_columns u =
     [col (js ''ID'') (Some 60) (\<lambda>r. plain_tag (int_to_string (ir_id r))),
      col (tr u ''injection.colName'') (Some 160) (\<lambda>r. Txt (ir_name r)),
      col (tr u ''injection.colMode'') (Some 110) (\<lambda>r. Txt (show_enum u ''matchMode'' (MatchMode_str (ir_match_mode r)))),
      col (tr u ''injection.colPattern'') None (\<lambda>r. Cod (ir_pattern r)),
      col (tr u ''pii.colAction'') (Some 90)
        (\<lambda>r. Tag (colorOf ACTION_META (Some (RuleAction_str (ir_action r)))) (show_enum u ''action'' (RuleAction_str (ir_action r)))),
      col (tr u ''common.status'') (Some 80) (\<lambda>r. Toggle (ir_enabled r)),
      col (tr u ''common.createdAt'') (Some 160) (\<lambda>r. Txt (show_time u (ir_created_at r))),
      col (tr u ''common.action'') (Some 140) (\<lambda>r. Acts
        [Act_button (tr u ''common.edit'') False,
         Act_confirm (tr u ''common.delete'') (tr u ''injection.deleteTitle'')
           (tr_with u ''injection.deleteConfirm'' [(''name'', ir_name r)]) False])]"

definition injection_template_columns :: "Ui \<Rightarrow> InjectionRuleTemplate column list" where
  "injection_template_columns u =
     [col (tr u ''injection.colName'') (Some 160) (\<lambda>r. Txt (it_name r)),
      col (tr u ''injection.colMode'') (Some 110) (\<lambda>r. Txt (show_enum u ''matchMode'' (MatchMode_str (it_match_mode r)))),
      col (tr u ''injection.tplColPattern'') None (\<lambda>r. Cod (it_pattern r)),
      col (tr u ''pii.colAction'') (Some 90)
        (\<lambda>r. Tag (colorOf ACTION_META (Some (RuleAction_str (it_action r)))) (show_enum u ''action'' (RuleAction_str (it_action r))))]"

lemmas guard_view_defs [js_eval] = action_tag_def keywords_columns_def
  keyword_hits_columns_def keyword_test_result_def pii_columns_def pii_template_columns_def
  pii_findings_columns_def injection_columns_def injection_template_columns_def

end
