(* ===== verification/Security.thy ===== *)
theory Security
  imports View Crud
begin

text \<open>
  frontend/src/pages/settings/Security.tsx: the global MFA settings and the users of the console,
  with their dialogs (create, change password) and the actions of a row. The number of characters
  antd counts in a text is the parameter \<open>chars\<close>.
\<close>

section \<open>State\<close>

record SecurityFormValues =
  sf_mfa_enabled :: "bool option"
  sf_mfa_required_for_all :: "bool option"
  sf_recovery_code_count :: "int option"
  sf_grace_days :: "int option"

record UserFormValues =
  uf_username :: "jsstring option"
  uf_password :: "jsstring option"
  uf_role :: "Role option"
  uf_force_change_password :: "bool option"

record PwdFormValues =
  pf_password :: "jsstring option"
  pf_force_change_password :: "bool option"

record SecurityPage =
  sp_form :: SecurityFormValues
  sp_page :: int
  sp_pageSize :: int
  sp_createOpen :: bool
  sp_pwdOpen :: bool
  sp_pwdTarget :: "AdminUserRow option"
  sp_createForm :: UserFormValues
  sp_pwdForm :: PwdFormValues
  sp_users_stale :: bool

definition user_blank :: UserFormValues where
  "user_blank = \<lparr>uf_username = None, uf_password = None, uf_role = Some R_admin,
     uf_force_change_password = Some True\<rparr>"

definition pwd_blank :: PwdFormValues where
  "pwd_blank = \<lparr>pf_password = None, pf_force_change_password = None\<rparr>"

definition security_initial :: SecurityPage where
  "security_initial = \<lparr>sp_form = \<lparr>sf_mfa_enabled = None, sf_mfa_required_for_all = None,
     sf_recovery_code_count = None, sf_grace_days = None\<rparr>, sp_page = 1, sp_pageSize = 10,
     sp_createOpen = False, sp_pwdOpen = False, sp_pwdTarget = None, sp_createForm = user_blank,
     sp_pwdForm = pwd_blank, sp_users_stale = False\<rparr>"

definition security_query :: "SecurityPage \<Rightarrow> request" where
  "security_query s = userApi_list \<lparr>pp_page = Some (sp_page s), pp_page_size = Some (sp_pageSize s), pp_keyword = None\<rparr>"

definition security_table :: "int option \<Rightarrow> int option \<Rightarrow> SecurityPage \<Rightarrow> SecurityPage" where
  "security_table current psize s = s\<lparr>sp_page := or_else current 1, sp_pageSize := or_else psize 10\<rparr>"

section \<open>Global settings\<close>

definition security_prefill :: "SecuritySettings \<Rightarrow> SecurityFormValues" where
  "security_prefill c = \<lparr>sf_mfa_enabled = Some (sec_mfa_enabled c),
     sf_mfa_required_for_all = Some (sec_mfa_required_for_all c),
     sf_recovery_code_count = Some (sec_recovery_code_count c), sf_grace_days = Some (sec_grace_days c)\<rparr>"

definition security_loaded :: "SecuritySettings option \<Rightarrow> SecurityPage \<Rightarrow> SecurityPage" where
  "security_loaded data s = (case data of None \<Rightarrow> s | Some d \<Rightarrow> s\<lparr>sp_form := security_prefill d\<rparr>)"

definition security_form :: "Ui \<Rightarrow> SecurityFormValues form_item list" where
  "security_form u =
     [item ''mfa_enabled'' (tr u ''security.mfaEnabled'') In_switch [],
      item ''mfa_required_for_all'' (tr u ''security.mfaRequired'') In_switch [],
      item ''recovery_code_count'' (tr u ''security.recoveryCount'') (In_number (Some 4) (Some 20))
        [rule (\<lambda>v. sf_recovery_code_count v \<noteq> None) (tr u ''security.recoveryReq'')],
      item ''grace_days'' (tr u ''security.graceDays'') (In_number (Some 0) (Some 90))
        [rule (\<lambda>v. sf_grace_days v \<noteq> None) (tr u ''security.graceReq'')]]"

text \<open>The values are sent as they are: a switch that was never set is left out.\<close>

definition security_save :: "Ui \<Rightarrow> SecurityPage \<Rightarrow> request option" where
  "security_save u s =
     (let v = sp_form s in
      if form_errors (security_form u) v = []
      then Some (http_put (js ''/settings/security'') (Some (obj
             [(''mfa_enabled'', map_option JBool (sf_mfa_enabled v)),
              (''mfa_required_for_all'', map_option JBool (sf_mfa_required_for_all v)),
              (''recovery_code_count'', map_option int_json (sf_recovery_code_count v)),
              (''grace_days'', map_option int_json (sf_grace_days v))])))
      else None)"

definition security_saved :: "translate \<Rightarrow> 'a outcome \<Rightarrow> World \<Rightarrow> World" where
  "security_saved t out w =
     (case out of Resolved _ \<Rightarrow> toast (T_success (t (js ''security.saveOk'') [])) w | Rejected _ \<Rightarrow> w)"

section \<open>Creating a user\<close>

definition security_openCreate :: "SecurityPage \<Rightarrow> SecurityPage" where
  "security_openCreate s = s\<lparr>sp_createForm := user_blank, sp_createOpen := True\<rparr>"

definition security_cancelCreate :: "SecurityPage \<Rightarrow> SecurityPage" where
  "security_cancelCreate s = s\<lparr>sp_createOpen := False\<rparr>"

definition security_create_input :: "UserFormValues \<Rightarrow> SecurityPage \<Rightarrow> SecurityPage" where
  "security_create_input v s = s\<lparr>sp_createForm := v\<rparr>"

text \<open>Length rules do not apply to an empty text.\<close>

definition user_form :: "Ui \<Rightarrow> (jsstring \<Rightarrow> nat) \<Rightarrow> UserFormValues form_item list" where
  "user_form u chars =
     [item ''username'' (tr u ''security.colUsername'') In_text
        [rule (\<lambda>v. filled (uf_username v)) (tr u ''security.usernameReq''),
         rule (\<lambda>v. filled (uf_username v) \<longrightarrow> chars (the (uf_username v)) \<le> 64) (tr u ''security.usernameMax'')],
      item ''password'' (tr u ''security.passwordLabel'') In_password
        [rule (\<lambda>v. filled (uf_password v)) (tr u ''security.passwordReq''),
         rule (\<lambda>v. filled (uf_password v) \<longrightarrow> 10 \<le> chars (the (uf_password v))) (tr u ''security.passwordMin'')],
      item ''role'' (tr u ''security.colRole'') In_select [],
      item ''force_change_password'' (tr u ''security.forceChange'') In_switch []]"

definition user_body :: "UserFormValues \<Rightarrow> UserCreateBody" where
  "user_body v = \<lparr>ucb_username = the (uf_username v), ucb_password = the (uf_password v), ucb_role = uf_role v,
     ucb_force_change_password = uf_force_change_password v\<rparr>"

definition security_create :: "Ui \<Rightarrow> (jsstring \<Rightarrow> nat) \<Rightarrow> SecurityPage \<Rightarrow> request option" where
  "security_create u chars s =
     (if form_errors (user_form u chars) (sp_createForm s) = []
      then Some (userApi_create (user_body (sp_createForm s))) else None)"

definition security_created :: "translate \<Rightarrow> 'a outcome \<Rightarrow> SecurityPage \<Rightarrow> World \<Rightarrow> SecurityPage \<times> World" where
  "security_created t out s w =
     (case out of
        Resolved _ \<Rightarrow> (s\<lparr>sp_users_stale := True, sp_createOpen := False, sp_createForm := user_blank\<rparr>,
                       toast (T_success (t (js ''security.createOk'') [])) w)
      | Rejected _ \<Rightarrow> (s, w))"

section \<open>Changing a password\<close>

definition security_openPwd :: "AdminUserRow \<Rightarrow> SecurityPage \<Rightarrow> SecurityPage" where
  "security_openPwd r s = s\<lparr>sp_pwdForm := pwd_blank, sp_pwdTarget := Some r, sp_pwdOpen := True\<rparr>"

definition security_cancelPwd :: "SecurityPage \<Rightarrow> SecurityPage" where
  "security_cancelPwd s = s\<lparr>sp_pwdOpen := False, sp_pwdTarget := None\<rparr>"

definition security_pwd_input :: "PwdFormValues \<Rightarrow> SecurityPage \<Rightarrow> SecurityPage" where
  "security_pwd_input v s = s\<lparr>sp_pwdForm := v\<rparr>"

definition pwd_form :: "Ui \<Rightarrow> (jsstring \<Rightarrow> nat) \<Rightarrow> PwdFormValues form_item list" where
  "pwd_form u chars =
     [item ''password'' (tr u ''security.newPassword'') In_password
        [rule (\<lambda>v. filled (pf_password v)) (tr u ''security.passwordReq''),
         rule (\<lambda>v. filled (pf_password v) \<longrightarrow> 10 \<le> chars (the (pf_password v))) (tr u ''security.passwordMin'')],
      item ''force_change_password'' (tr u ''security.forceChange'') In_switch []]"

definition pwd_body :: "PwdFormValues \<Rightarrow> UserChangePasswordBody" where
  "pwd_body v = \<lparr>ucp_password = the (pf_password v),
     ucp_force_change_password = Some (or_else (pf_force_change_password v) False)\<rparr>"

text \<open>The title names the user of the dialog: \<open>{pwdTarget?.username}\<close>.\<close>

definition pwd_title :: "Ui \<Rightarrow> SecurityPage \<Rightarrow> jsstring" where
  "pwd_title u s = tr u ''security.changePwdTitle'' @ [32, 0x2014, 32]
     @ (case sp_pwdTarget s of None \<Rightarrow> [] | Some r \<Rightarrow> au_username r)"

definition security_changePwd :: "Ui \<Rightarrow> (jsstring \<Rightarrow> nat) \<Rightarrow> SecurityPage \<Rightarrow> request option" where
  "security_changePwd u chars s =
     (case sp_pwdTarget s of
        None \<Rightarrow> None
      | Some r \<Rightarrow>
          if form_errors (pwd_form u chars) (sp_pwdForm s) = []
          then Some (userApi_changePassword (au_id r) (pwd_body (sp_pwdForm s))) else None)"

definition security_pwdChanged :: "translate \<Rightarrow> 'a outcome \<Rightarrow> SecurityPage \<Rightarrow> World \<Rightarrow> SecurityPage \<times> World" where
  "security_pwdChanged t out s w =
     (case out of
        Resolved _ \<Rightarrow> (s\<lparr>sp_users_stale := True, sp_pwdOpen := False, sp_pwdForm := pwd_blank, sp_pwdTarget := None\<rparr>,
                       toast (T_success (t (js ''security.pwdOk'') [])) w)
      | Rejected _ \<Rightarrow> (s, w))"

section \<open>Actions of a row\<close>

definition next_role :: "AdminUserRow \<Rightarrow> Role" where
  "next_role r = (if au_role r = js ''viewer'' then R_admin else R_viewer)"

definition change_role :: "AdminUserRow \<Rightarrow> request" where
  "change_role r = userApi_changeRole (au_id r) \<lparr>ucr_role = next_role r\<rparr>"

definition set_mfa_required :: "AdminUserRow \<Rightarrow> bool \<Rightarrow> request" where
  "set_mfa_required r required = userApi_setMfaRequired (au_id r) \<lparr>usm_mfa_required = required\<rparr>"

text \<open>A question that is disabled does not open, so that its action is not taken.\<close>

definition unbind_user :: "AdminUserRow \<Rightarrow> request option" where
  "unbind_user r = (if \<not> au_mfa_enabled r then None else Some (userApi_unbindMfa (au_id r)))"

definition unlock_user :: "AdminUserRow \<Rightarrow> request option" where
  "unlock_user r = (if \<not> au_locked r then None else Some (userApi_unlock (au_id r)))"

definition delete_user :: "AdminUserRow \<Rightarrow> request" where
  "delete_user r = userApi_remove (au_id r)"

datatype user_action = UA_role | UA_delete | UA_unbind | UA_mfa_required bool | UA_unlock

fun action_message :: "user_action \<Rightarrow> string" where
  "action_message UA_role = ''security.roleOk''"
| "action_message UA_delete = ''security.deleteOk''"
| "action_message UA_unbind = ''security.unbindOk''"
| "action_message (UA_mfa_required required) =
     (if required then ''security.mfaRequiredOnOk'' else ''security.mfaRequiredOffOk'')"
| "action_message UA_unlock = ''security.unlockOk''"

text \<open>The settling of the five mutations of a row.\<close>

definition user_acted :: "translate \<Rightarrow> user_action \<Rightarrow> 'a outcome \<Rightarrow> SecurityPage \<Rightarrow> World \<Rightarrow> SecurityPage \<times> World" where
  "user_acted t a out s w =
     (case out of
        Resolved _ \<Rightarrow> (s\<lparr>sp_users_stale := True\<rparr>, toast (T_success (t (js (action_message a)) [])) w)
      | Rejected _ \<Rightarrow> (s, w))"

section \<open>The table of users\<close>

definition role_tag :: "Ui \<Rightarrow> jsstring \<Rightarrow> cell" where
  "role_tag u role =
     (if role = js ''viewer'' then colored ''orange'' (tr u ''security.roleViewer'')
      else colored ''purple'' (tr u ''security.roleAdmin''))"

definition users_columns :: "Ui \<Rightarrow> AdminUserRow column list" where
  "users_columns u =
     [col (js ''ID'') (Some 60) (\<lambda>r. plain_tag (int_to_string (au_id r))),
      col (tr u ''security.colUsername'') (Some 140) (\<lambda>r. Txt (au_username r)),
      col (tr u ''security.colRole'') (Some 100) (\<lambda>r. role_tag u (au_role r)),
      col (tr u ''security.colMfa'') (Some 110)
        (\<lambda>r. if au_mfa_enabled r then colored ''green'' (tr u ''security.mfaBound'')
             else colored ''default'' (tr u ''security.mfaUnbound'')),
      col (tr u ''security.colMfaRequired'') (Some 130) (\<lambda>r. Toggle (au_mfa_required r)),
      col (tr u ''security.colLock'') (Some 90)
        (\<lambda>r. if au_locked r then colored ''red'' (tr u ''security.locked'')
             else colored ''blue'' (tr u ''security.normal'')),
      col (tr u ''security.colLastLogin'') (Some 170) (\<lambda>r. Txt (show_time u (au_last_login_at r))),
      col (tr u ''common.action'') (Some 360) (\<lambda>r. Acts
        [Act_button (tr u ''security.changePwd'') False,
         Act_confirm (tr u ''security.changeRole'') (tr u ''security.changeRoleTitle'')
           (tr_with u ''security.changeRoleConfirm''
              [(''username'', au_username r),
               (''role'', tr u (if au_role r = js ''viewer'' then ''security.roleAdmin'' else ''security.roleViewer''))]) False,
         Act_confirm (tr u ''security.unbind'') (tr u ''security.unbindTitle'')
           (tr_with u ''security.unbindConfirm'' [(''username'', au_username r)]) (\<not> au_mfa_enabled r),
         Act_confirm (tr u ''security.unlock'') (tr u ''security.unlockTitle'')
           (tr_with u ''security.unlockConfirm'' [(''username'', au_username r)]) (\<not> au_locked r),
         Act_confirm (tr u ''security.delete'') (tr u ''security.deleteTitle'')
           (tr_with u ''security.deleteConfirm'' [(''username'', au_username r)]) False])]"

lemmas security_defs [js_eval] = user_blank_def pwd_blank_def security_initial_def security_query_def
  security_table_def security_prefill_def security_loaded_def security_form_def security_save_def
  security_saved_def security_openCreate_def security_cancelCreate_def security_create_input_def
  user_form_def user_body_def security_create_def security_created_def security_openPwd_def
  security_cancelPwd_def security_pwd_input_def pwd_form_def pwd_body_def pwd_title_def
  security_changePwd_def security_pwdChanged_def next_role_def change_role_def set_mfa_required_def
  unbind_user_def unlock_user_def delete_user_def user_acted_def role_tag_def users_columns_def

section \<open>The dialog of the password\<close>

text \<open>What a user of the page can do, and what the server can answer.\<close>

inductive security_step :: "translate \<Rightarrow> SecurityPage \<Rightarrow> SecurityPage \<Rightarrow> bool" for t where
  "security_step t s (security_loaded data s)"
| "security_step t s (security_table current psize s)"
| "security_step t s (security_openCreate s)"
| "security_step t s (security_cancelCreate s)"
| "security_step t s (security_create_input v s)"
| "security_step t s (fst (security_created t (out :: unit outcome) s w))"
| "security_step t s (security_openPwd r s)"
| "security_step t s (security_cancelPwd s)"
| "security_step t s (security_pwd_input p s)"
| "security_step t s (fst (security_pwdChanged t (out :: unit outcome) s w))"
| "security_step t s (fst (user_acted t a (out :: unit outcome) s w))"

lemma pwd_target_step:
  "security_step t s s' \<Longrightarrow> (sp_pwdOpen s \<longleftrightarrow> sp_pwdTarget s \<noteq> None) \<Longrightarrow> (sp_pwdOpen s' \<longleftrightarrow> sp_pwdTarget s' \<noteq> None)"
  by (induction rule: security_step.induct)
    (auto simp: security_loaded_def security_table_def security_openCreate_def security_cancelCreate_def
      security_create_input_def security_created_def security_openPwd_def security_cancelPwd_def
      security_pwd_input_def security_pwdChanged_def user_acted_def split: option.splits outcome.splits)

lemma pwd_target_run:
  "(security_step t)\<^sup>*\<^sup>* security_initial s \<Longrightarrow> sp_pwdOpen s \<longleftrightarrow> sp_pwdTarget s \<noteq> None"
  by (induction rule: rtranclp_induct) (simp_all add: security_initial_def pwd_target_step)

section \<open>Properties\<close>

text \<open>C36: In every reachable state of the user administration a new password is sent only from the open
  dialog, to the user its title names, and has at least ten characters; and a dialog that has just been
  opened sends nothing, so that what was typed for one user never reaches another.\<close>

theorem password_reaches_its_user:
  assumes "(security_step t)\<^sup>*\<^sup>* security_initial s" "security_changePwd u chars s = Some rq"
  shows "sp_pwdOpen s \<and> (\<exists>r p. sp_pwdTarget s = Some r
      \<and> pwd_title u s = tr u ''security.changePwdTitle'' @ [32, 0x2014, 32] @ au_username r
      \<and> pf_password (sp_pwdForm s) = Some p \<and> 10 \<le> chars p
      \<and> rq = userApi_changePassword (au_id r) \<lparr>ucp_password = p,
               ucp_force_change_password = Some (pf_force_change_password (sp_pwdForm s) = Some True)\<rparr>)
    \<and> security_changePwd u chars (security_openPwd r' s) = None"
proof -
  obtain r where r: "sp_pwdTarget s = Some r" "form_errors (pwd_form u chars) (sp_pwdForm s) = []"
    "rq = userApi_changePassword (au_id r) (pwd_body (sp_pwdForm s))"
    using assms(2) by (auto simp: security_changePwd_def split: option.splits if_splits)
  from r(2) obtain p where p: "pf_password (sp_pwdForm s) = Some p" "10 \<le> chars p"
    by (auto simp: pwd_form_def filled_def split: if_splits)
  have "or_else (pf_force_change_password (sp_pwdForm s)) False \<longleftrightarrow> pf_force_change_password (sp_pwdForm s) = Some True"
    by (cases "pf_force_change_password (sp_pwdForm s)") auto
  moreover have "security_changePwd u chars (security_openPwd r' s) = None"
    by (simp add: security_changePwd_def security_openPwd_def pwd_form_def pwd_blank_def filled_def)
  ultimately show ?thesis
    using pwd_target_run [OF assms(1)] r p by (simp add: pwd_body_def pwd_title_def)
qed

definition sample_user :: AdminUserRow where
  "sample_user = \<lparr>au_id = 7, au_username = js ''ann'', au_role = js ''viewer'', au_mfa_enabled = False,
     au_mfa_required = True, au_last_login_at = None, au_locked = True\<rparr>"

definition sample_ui :: Ui where
  "sample_ui = \<lparr>ui_t = \<lambda>k a. k, ui_lang = [], ui_day = \<lambda>v f. None, ui_locale = \<lambda>l n. [], ui_required = js\<rparr>"

lemma password_reaches_its_user_witness:
  "\<exists>s. security_changePwd sample_ui length s
     = Some (userApi_changePassword 7 \<lparr>ucp_password = js ''secret-0123'', ucp_force_change_password = Some False\<rparr>)
   \<and> sp_pwdOpen s"
proof -
  let ?v = "\<lparr>pf_password = Some (js ''secret-0123''), pf_force_change_password = None\<rparr>"
  let ?s = "security_pwd_input ?v (security_openPwd sample_user security_initial)"
  let ?rq = "userApi_changePassword 7 \<lparr>ucp_password = js ''secret-0123'', ucp_force_change_password = Some False\<rparr>"
  have run: "(security_step (\<lambda>k a. k))\<^sup>*\<^sup>* security_initial ?s"
    by (rule rtranclp.rtrancl_into_rtrancl [OF r_into_rtranclp]) (rule security_step.intros)+
  have send: "security_changePwd sample_ui length ?s = Some ?rq"
    by (simp add: security_changePwd_def security_pwd_input_def security_openPwd_def pwd_form_def pwd_body_def
        filled_def sample_user_def)
  from password_reaches_its_user [OF run send] send show ?thesis by blast
qed

text \<open>The actions of a user's row are consistent with what they do: unbinding and unlocking can be
  pressed exactly when they send a request, and the question about the role names the role that the
  request sets, which is the other one of the two; every request is for the user of the row.\<close>

theorem user_actions_consistent:
  assumes "au_role r = js ''admin'' \<or> au_role r = js ''viewer''"
  shows "\<exists>pwd mfa lock del q1 q2 q3 q4.
    co_cell (last (users_columns u)) r = Acts
      [pwd, Act_confirm (tr u ''security.changeRole'') q1
         (tr_with u ''security.changeRoleConfirm'' [(''username'', au_username r),
            (''role'', tr u (if next_role r = R_admin then ''security.roleAdmin'' else ''security.roleViewer''))]) False,
       Act_confirm (tr u ''security.unbind'') q2 mfa (unbind_user r = None),
       Act_confirm (tr u ''security.unlock'') q3 lock (unlock_user r = None),
       Act_confirm (tr u ''security.delete'') q4 del False]
    \<and> Role_str (next_role r) \<in> {js ''admin'', js ''viewer''} - {au_role r}
    \<and> (\<forall>rq. unbind_user r = Some rq \<longrightarrow> au_mfa_enabled r \<and> rq = userApi_unbindMfa (au_id r))
    \<and> (\<forall>rq. unlock_user r = Some rq \<longrightarrow> au_locked r \<and> rq = userApi_unlock (au_id r))
    \<and> change_role r = userApi_changeRole (au_id r) \<lparr>ucr_role = next_role r\<rparr>"
  using assms
  by (auto simp: users_columns_def col_def unbind_user_def unlock_user_def next_role_def change_role_def)

lemma user_actions_consistent_witness:
  "next_role sample_user = R_admin \<and> unbind_user sample_user = None \<and> unlock_user sample_user = Some (userApi_unlock 7)"
proof -
  have "au_role sample_user = js ''admin'' \<or> au_role sample_user = js ''viewer''" by (simp add: sample_user_def)
  from user_actions_consistent [OF this, of sample_ui]
  have "Role_str (next_role sample_user) \<noteq> js ''viewer''" by (auto simp: sample_user_def)
  moreover have "unbind_user sample_user = None" "unlock_user sample_user = Some (userApi_unlock 7)"
    by (simp_all add: unbind_user_def unlock_user_def sample_user_def)
  ultimately show ?thesis by (cases "next_role sample_user") simp_all
qed

text \<open>A change that settles after its dialog was cancelled and another user's opened closes the other
  dialog and discards what was typed there.\<close>

lemma late_change_closes:
  "\<not> sp_pwdOpen (fst (security_pwdChanged t (Resolved x)
       (security_pwd_input v (security_openPwd r' (security_cancelPwd (security_openPwd r s)))) w))"
  by (simp add: security_pwdChanged_def)

end
