(* ===== verification/Forms.thy ===== *)
theory Forms
  imports ListViews GuardViews Security
begin

text \<open>
  The dialogs of the list pages as one kind: what a dialog needs before its button sends anything, and
  that it says so. The locale \<open>dialog_form\<close> is their contract: the rules of the rendered form, in whatever
  language, are silent exactly on the values that are complete, and exactly these are sent.
\<close>

text \<open>A request goes out exactly when the form is complete, and otherwise the form shows a message.\<close>

definition sent_iff :: "'b option \<Rightarrow> bool \<Rightarrow> jsstring list \<Rightarrow> bool" where
  "sent_iff rq needed msgs \<longleftrightarrow> (rq \<noteq> None \<longleftrightarrow> needed) \<and> (rq = None \<longleftrightarrow> (\<exists>m. m \<in> set msgs))"

locale dialog_form =
  fixes errors :: "'f \<Rightarrow> jsstring list"
    and sends :: "'f \<Rightarrow> 'b option"
    and needed :: "'f \<Rightarrow> bool"
  assumes errors_iff: "errors v = [] \<longleftrightarrow> needed v"
    and sends_needed: "sends v \<noteq> None \<longleftrightarrow> needed v"
begin

lemma complains_or_sends: "sent_iff (sends v) (needed v) (errors v)"
  using errors_iff [of v] sends_needed [of v] by (cases "errors v") (auto simp: sent_iff_def)

end

interpretation providers_dialog: dialog_form
  "\<lambda>s. form_errors (providers_form u is_url (cr_editing s \<noteq> None)) (cr_form s)" "providers_handleOk is_url"
  "\<lambda>s. filled (prvf_name (cr_form s)) \<and> prvf_protocol (cr_form s) \<noteq> None \<and> filled (prvf_base_url (cr_form s))
     \<and> is_url (the (prvf_base_url (cr_form s))) \<and> (cr_editing s \<noteq> None \<or> filled (prvf_api_key (cr_form s)))" for u is_url
  by unfold_locales
    (simp_all add: providers_required providers_validate providers_valid_def providers_handleOk_def crud_submit_def)

interpretation models_dialog: dialog_form "models_errors u" models_handleOk
  "\<lambda>v. filled (mf_alias v) \<and> (\<forall>n. mf_default_max_tokens v = Some n \<longrightarrow> 0 \<le> n)
     \<and> (\<forall>x \<in> set (mf_upstreams v). uf_provider_id x \<noteq> None \<and> uf_upstream_model x \<noteq> []
          \<and> (\<exists>w. uf_weight x = Some w \<and> 1 \<le> w))" for u
  by unfold_locales
    (auto simp: models_required models_handleOk_def models_valid_def upstream_valid_def list_all_iff split: option.splits)

interpretation quotas_dialog: dialog_form
  "\<lambda>v. form_errors (quotas_form u (qf_over_action v = Some OA_degrade)) v" quotas_handleSave
  "\<lambda>v. qf_api_key_id v \<noteq> None \<and> filled (qf_model_alias v) \<and> qf_quota_type v \<noteq> None \<and> qf_period v \<noteq> None
     \<and> qf_limit v \<noteq> None \<and> qf_over_action v \<noteq> None
     \<and> (qf_over_action v = Some OA_degrade \<longrightarrow> filled (qf_degrade_alias v))" for u
  by unfold_locales (simp_all add: quotas_required quotas_validate quotas_handleSave_def)

interpretation rateLimits_dialog: dialog_form "form_errors (rateLimits_form u)" rateLimits_handleSave
  "\<lambda>v. rlf_api_key_id v \<noteq> None \<and> filled (rlf_model_alias v) \<and> rlf_window_seconds v \<noteq> None \<and> rlf_max_requests v \<noteq> None" for u
  by unfold_locales (simp_all add: rateLimits_required rateLimits_handleSave_def validateFields_def)

interpretation keywords_dialog: dialog_form "form_errors (keywords_form u)" keywords_handleSave
  "\<lambda>v. filled (kwf_word v) \<and> kwf_category v \<noteq> None \<and> kwf_match_mode v \<noteq> None \<and> kwf_action v \<noteq> None" for u
  by unfold_locales (simp_all add: keywords_required keywords_handleSave_def validateFields_def)

interpretation pii_dialog: dialog_form "form_errors (pii_form u)" pii_handleSave
  "\<lambda>v. filled (pif_name v) \<and> filled (pif_category v) \<and> filled (pif_pattern v) \<and> pif_action v \<noteq> None" for u
  by unfold_locales (simp_all add: pii_required pii_handleSave_def validateFields_def)

interpretation injection_dialog: dialog_form "form_errors (injection_form u)" injection_handleSave
  "\<lambda>v. filled (inf_name v) \<and> inf_match_mode v \<noteq> None \<and> filled (inf_pattern v) \<and> inf_action v \<noteq> None" for u
  by unfold_locales (simp_all add: injection_required injection_handleSave_def validateFields_def)

interpretation apikeys_dialog: dialog_form
  "\<lambda>s. form_errors (apikeys_form u (kp_editing s \<noteq> None)) (kp_form s)" apikeys_handleOk
  "\<lambda>s. filled (kf_name (kp_form s))" for u
  by unfold_locales (simp_all add: apikeys_required apikeys_handleOk_eq Let_def split: option.split)

lemma user_required:
  "form_errors (user_form u chars) v = [] \<longleftrightarrow> filled (uf_username v) \<and> chars (the (uf_username v)) \<le> 64
     \<and> filled (uf_password v) \<and> 10 \<le> chars (the (uf_password v))"
  by (auto simp: user_form_def)

interpretation users_dialog: dialog_form "\<lambda>s. form_errors (user_form u chars) (sp_createForm s)" "security_create u' chars"
  "\<lambda>s. filled (uf_username (sp_createForm s)) \<and> chars (the (uf_username (sp_createForm s))) \<le> 64
     \<and> filled (uf_password (sp_createForm s)) \<and> 10 \<le> chars (the (uf_password (sp_createForm s)))" for u u' chars
  by unfold_locales (simp_all add: user_required security_create_def)

section \<open>Properties\<close>

text \<open>C18: What every dialog of the console asks for, and that it says so: its button sends a request exactly
  when the fields listed here are there (a key for a new provider only, a fallback alias for the action
  that falls back, a weight of at least one for each upstream, a password of ten characters for a user), and
  in all other cases the form shows a message, in every language and in both kinds of dialog.\<close>

theorem dialogs_complain_or_send:
  "sent_iff (providers_handleOk is_url p)
     (filled (prvf_name (cr_form p)) \<and> prvf_protocol (cr_form p) \<noteq> None \<and> filled (prvf_base_url (cr_form p))
        \<and> is_url (the (prvf_base_url (cr_form p))) \<and> (cr_editing p \<noteq> None \<or> filled (prvf_api_key (cr_form p))))
     (form_errors (providers_form u is_url (cr_editing p \<noteq> None)) (cr_form p))
   \<and> sent_iff (models_handleOk mv)
     (filled (mf_alias mv) \<and> (\<forall>n. mf_default_max_tokens mv = Some n \<longrightarrow> 0 \<le> n)
        \<and> (\<forall>x \<in> set (mf_upstreams mv). uf_provider_id x \<noteq> None \<and> uf_upstream_model x \<noteq> []
             \<and> (\<exists>w. uf_weight x = Some w \<and> 1 \<le> w)))
     (models_errors u mv)
   \<and> sent_iff (rateLimits_handleSave rv)
     (rlf_api_key_id rv \<noteq> None \<and> filled (rlf_model_alias rv) \<and> rlf_window_seconds rv \<noteq> None \<and> rlf_max_requests rv \<noteq> None)
     (form_errors (rateLimits_form u) rv)
   \<and> sent_iff (quotas_handleSave qv)
     (qf_api_key_id qv \<noteq> None \<and> filled (qf_model_alias qv) \<and> qf_quota_type qv \<noteq> None \<and> qf_period qv \<noteq> None
        \<and> qf_limit qv \<noteq> None \<and> qf_over_action qv \<noteq> None
        \<and> (qf_over_action qv = Some OA_degrade \<longrightarrow> filled (qf_degrade_alias qv)))
     (form_errors (quotas_form u (qf_over_action qv = Some OA_degrade)) qv)
   \<and> sent_iff (keywords_handleSave kv)
     (filled (kwf_word kv) \<and> kwf_category kv \<noteq> None \<and> kwf_match_mode kv \<noteq> None \<and> kwf_action kv \<noteq> None)
     (form_errors (keywords_form u) kv)
   \<and> sent_iff (pii_handleSave iv)
     (filled (pif_name iv) \<and> filled (pif_category iv) \<and> filled (pif_pattern iv) \<and> pif_action iv \<noteq> None)
     (form_errors (pii_form u) iv)
   \<and> sent_iff (injection_handleSave jv)
     (filled (inf_name jv) \<and> inf_match_mode jv \<noteq> None \<and> filled (inf_pattern jv) \<and> inf_action jv \<noteq> None)
     (form_errors (injection_form u) jv)
   \<and> sent_iff (apikeys_handleOk a) (filled (kf_name (kp_form a)))
     (form_errors (apikeys_form u (kp_editing a \<noteq> None)) (kp_form a))
   \<and> sent_iff (security_create u' chars s)
     (filled (uf_username (sp_createForm s)) \<and> chars (the (uf_username (sp_createForm s))) \<le> 64
        \<and> filled (uf_password (sp_createForm s)) \<and> 10 \<le> chars (the (uf_password (sp_createForm s))))
     (form_errors (user_form u chars) (sp_createForm s))"
  by (intro conjI providers_dialog.complains_or_sends models_dialog.complains_or_sends
      rateLimits_dialog.complains_or_sends quotas_dialog.complains_or_sends keywords_dialog.complains_or_sends
      pii_dialog.complains_or_sends injection_dialog.complains_or_sends apikeys_dialog.complains_or_sends
      users_dialog.complains_or_sends)

text \<open>A name of blanks meets the rule, is trimmed and sent empty; an untouched quota is not sent.\<close>

lemma dialogs_complain_or_send_witness:
  "models_handleOk (models_blank\<lparr>mf_alias := Some (js '' ''), mf_upstreams := []\<rparr>) \<noteq> None
   \<and> quotas_handleSave quotas_blank = None"
  using dialogs_complain_or_send
    [where mv = "models_blank\<lparr>mf_alias := Some (js '' ''), mf_upstreams := []\<rparr>" and qv = quotas_blank]
  by (simp add: sent_iff_def models_blank_def quotas_blank_def filled_def)

end
