(* ===== verification/ConfigPages.thy ===== *)
theory ConfigPages
  imports View Crud
begin

text \<open>
  The pages that edit one configuration object: frontend/src/pages/models/Failover.tsx,
  frontend/src/pages/quota/QuotaAlerts.tsx, frontend/src/pages/guard/OutputFilter.tsx and
  frontend/src/pages/settings/General.tsx. The configuration that arrives fills the form, a valid
  form is sent, and a save that succeeds is announced. The locale \<open>config_page\<close> is the contract of
  such a page.
\<close>

section \<open>State and operations\<close>

record 'f ConfigPage =
  cp_form :: 'f
  cp_stale :: bool

text \<open>The effect that fills the form when the query has data.\<close>

definition config_loaded :: "('c \<Rightarrow> 'f) \<Rightarrow> 'c option \<Rightarrow> 'f ConfigPage \<Rightarrow> 'f ConfigPage" where
  "config_loaded prefill data s = (case data of None \<Rightarrow> s | Some d \<Rightarrow> s\<lparr>cp_form := prefill d\<rparr>)"

definition config_input :: "'f \<Rightarrow> 'f ConfigPage \<Rightarrow> 'f ConfigPage" where
  "config_input f s = s\<lparr>cp_form := f\<rparr>"

text \<open>\<open>form.submit()\<close>: \<open>onFinish\<close> runs only when no rule is violated.\<close>

definition config_submit :: "'f form_item list \<Rightarrow> ('f \<Rightarrow> request) \<Rightarrow> 'f ConfigPage \<Rightarrow> request option" where
  "config_submit items req s = (if form_errors items (cp_form s) = [] then Some (req (cp_form s)) else None)"

text \<open>The save settles; \<open>refetch\<close> tells whether the page invalidates its query.\<close>

definition config_saved :: "translate \<Rightarrow> string \<Rightarrow> bool \<Rightarrow> 'a outcome \<Rightarrow> 'f ConfigPage \<Rightarrow> World \<Rightarrow> 'f ConfigPage \<times> World" where
  "config_saved t key refetch out s w =
     (case out of
        Resolved _ \<Rightarrow> (s\<lparr>cp_stale := cp_stale s \<or> refetch\<rparr>, toast (T_success (t (js key) [])) w)
      | Rejected _ \<Rightarrow> (s, w))"

lemmas config_defs [js_eval] = config_loaded_def config_input_def config_submit_def config_saved_def

locale config_page =
  fixes prefill :: "'c \<Rightarrow> 'f"
    and items :: "Ui \<Rightarrow> 'f form_item list"
    and req :: "'f \<Rightarrow> request"
    and save :: "'c \<Rightarrow> request"
    and clean :: "'c \<Rightarrow> bool"
  assumes prefill_valid: "clean c \<Longrightarrow> form_errors (items u) (prefill c) = []"
    and prefill_req: "clean c \<Longrightarrow> req (prefill c) = save c"
begin

text \<open>A configuration that arrives and is saved as it is goes back unchanged.\<close>

lemma load_save: "clean c \<Longrightarrow> config_submit (items u) req (config_loaded prefill (Some c) s) = Some (save c)"
  by (simp add: config_defs prefill_valid prefill_req)

text \<open>Until data arrives, and when a form has errors, nothing is sent on its behalf.\<close>

lemma invalid_not_sent: "form_errors (items u) f \<noteq> [] \<Longrightarrow> config_submit (items u) req (config_input f s) = None"
  by (simp add: config_defs)

text \<open>Data that arrives again replaces what the user has typed.\<close>

lemma reload_discards: "clean c \<Longrightarrow>
  config_submit (items u) req (config_loaded prefill (Some c) (config_input f s)) = Some (save c)"
  by (simp add: config_defs prefill_valid prefill_req)

end

section \<open>Failover\<close>

record FailoverFormValues =
  ff_enabled :: "bool option"
  ff_retry_count :: "int option"
  ff_backoff :: "BackoffStrategy option"
  ff_retry_interval_ms :: "int option"
  ff_trigger_status_codes :: "jsstring list"
  ff_circuit_failure_threshold :: "int option"
  ff_circuit_reset_seconds :: "int option"

definition failover_initial :: FailoverFormValues where
  "failover_initial = \<lparr>ff_enabled = None, ff_retry_count = None, ff_backoff = None, ff_retry_interval_ms = None,
     ff_trigger_status_codes = map js [''429'', ''500'', ''502'', ''503''], ff_circuit_failure_threshold = None,
     ff_circuit_reset_seconds = None\<rparr>"

definition failover_prefill :: "FailoverConfig \<Rightarrow> FailoverFormValues" where
  "failover_prefill c = \<lparr>ff_enabled = Some (fc_enabled c), ff_retry_count = Some (fc_retry_count c),
     ff_backoff = Some (fc_backoff c), ff_retry_interval_ms = Some (fc_retry_interval_ms c),
     ff_trigger_status_codes = map num_to_string (fc_trigger_status_codes c),
     ff_circuit_failure_threshold = Some (fc_circuit_failure_threshold c),
     ff_circuit_reset_seconds = Some (fc_circuit_reset_seconds c)\<rparr>"

definition trigger_codes :: "jsstring list \<Rightarrow> jsnum list" where
  "trigger_codes tags = uniq (filter (\<lambda>n. \<not> is_NaN n) (map js_Number tags))"

definition failover_body :: "FailoverFormValues \<Rightarrow> FailoverConfig" where
  "failover_body v = \<lparr>fc_enabled = or_else (ff_enabled v) True, fc_retry_count = the (ff_retry_count v),
     fc_backoff = the (ff_backoff v), fc_retry_interval_ms = the (ff_retry_interval_ms v),
     fc_trigger_status_codes = trigger_codes (ff_trigger_status_codes v),
     fc_circuit_failure_threshold = the (ff_circuit_failure_threshold v),
     fc_circuit_reset_seconds = the (ff_circuit_reset_seconds v)\<rparr>"

definition failover_items :: "Ui \<Rightarrow> FailoverFormValues form_item list" where
  "failover_items u =
     [item ''enabled'' (tr u ''failover.enabled'') In_switch [],
      item ''retry_count'' (tr u ''failover.retryCount'') (In_number (Some 0) (Some 10))
        [rule (\<lambda>v. ff_retry_count v \<noteq> None) (tr u ''failover.retryCountReq'')],
      item ''backoff'' (tr u ''failover.backoff'') In_select
        [rule (\<lambda>v. ff_backoff v \<noteq> None) (tr u ''failover.backoffReq'')],
      item ''retry_interval_ms'' (tr u ''failover.retryInterval'') (In_number (Some 50) None)
        [rule (\<lambda>v. ff_retry_interval_ms v \<noteq> None) (tr u ''failover.retryIntervalReq'')],
      item ''trigger_status_codes'' (tr u ''failover.trigger'') In_tags
        [rule (\<lambda>v. ff_trigger_status_codes v \<noteq> []) (tr u ''failover.triggerReq'')],
      item ''circuit_failure_threshold'' (tr u ''failover.circuitThreshold'') (In_number (Some 1) (Some 100))
        [rule (\<lambda>v. ff_circuit_failure_threshold v \<noteq> None) (tr u ''failover.circuitThresholdReq'')],
      item ''circuit_reset_seconds'' (tr u ''failover.circuitReset'') (In_number (Some 5) (Some 3600))
        [rule (\<lambda>v. ff_circuit_reset_seconds v \<noteq> None) (tr u ''failover.circuitResetReq'')]]"

definition failover_submit :: "Ui \<Rightarrow> FailoverFormValues ConfigPage \<Rightarrow> request option" where
  "failover_submit u = config_submit (failover_items u) (failoverApi_save \<circ> failover_body)"

definition failover_saved :: "translate \<Rightarrow> 'a outcome \<Rightarrow> FailoverFormValues ConfigPage \<Rightarrow> World \<Rightarrow> FailoverFormValues ConfigPage \<times> World" where
  "failover_saved t = config_saved t ''failover.saveOk'' True"

section \<open>Quota alerts\<close>

record AlertFormValues =
  af_enabled :: "bool option"
  af_thresholds :: "jsstring list"
  af_channel :: "AlertChannel option"
  af_webhook_url :: "jsstring option"
  af_receivers :: "jsstring option"

definition alerts_initial :: AlertFormValues where
  "alerts_initial = \<lparr>af_enabled = None, af_thresholds = map js [''80'', ''95''], af_channel = Some AC_ui,
     af_webhook_url = None, af_receivers = None\<rparr>"

definition alerts_prefill :: "QuotaAlertConfig \<Rightarrow> AlertFormValues" where
  "alerts_prefill c = \<lparr>af_enabled = Some (qa_enabled c), af_thresholds = map num_to_string (qa_thresholds c),
     af_channel = Some (qa_channel c), af_webhook_url = str_or_undef (qa_webhook_url c),
     af_receivers = str_or_undef (qa_receivers c)\<rparr>"

text \<open>\<open>!Number.isNaN(n) && n > 0 && n <= 100\<close>, and the numeric sort of what passes.\<close>

fun in_percent :: "jsnum \<Rightarrow> bool" where
  "in_percent (Fin x) = (0 < x \<and> x \<le> 100)"
| "in_percent _ = False"

fun fin_val :: "jsnum \<Rightarrow> rat" where
  "fin_val (Fin x) = x"
| "fin_val _ = 0"

definition alert_thresholds :: "jsstring list \<Rightarrow> jsnum list" where
  "alert_thresholds tags = sort_key fin_val (uniq (filter in_percent (map js_Number tags)))"

definition alerts_body :: "AlertFormValues \<Rightarrow> QuotaAlertConfig" where
  "alerts_body v = \<lparr>qa_enabled = or_else (af_enabled v) False, qa_thresholds = alert_thresholds (af_thresholds v),
     qa_channel = the (af_channel v),
     qa_webhook_url = (if af_channel v = Some AC_webhook then trim_or_empty (af_webhook_url v) else []),
     qa_receivers = trim_or_empty (af_receivers v)\<rparr>"

text \<open>The address of the webhook is an item of the form only for that channel; \<open>is_url\<close> is antd's.\<close>

definition alerts_items :: "(jsstring \<Rightarrow> bool) \<Rightarrow> bool \<Rightarrow> Ui \<Rightarrow> AlertFormValues form_item list" where
  "alerts_items is_url webhook u =
     [item ''enabled'' (tr u ''quotaAlerts.enabled'') In_switch [],
      item ''thresholds'' (tr u ''quotaAlerts.thresholds'') In_tags
        [rule (\<lambda>v. af_thresholds v \<noteq> []) (tr u ''quotaAlerts.thresholdsReq'')],
      item ''channel'' (tr u ''quotaAlerts.channel'') In_select
        [rule (\<lambda>v. af_channel v \<noteq> None) (ui_required u ''channel'')]]
     @ (if webhook
        then [item ''webhook_url'' (js ''Webhook URL'') In_text
                [rule (\<lambda>v. filled (af_webhook_url v)) (tr u ''quotaAlerts.webhookUrlReq''),
                 rule (\<lambda>v. filled (af_webhook_url v) \<longrightarrow> is_url (the (af_webhook_url v))) (tr u ''quotaAlerts.urlInvalid'')]]
        else [])
     @ [item ''receivers'' (tr u ''quotaAlerts.receivers'') In_text []]"

definition alerts_submit :: "(jsstring \<Rightarrow> bool) \<Rightarrow> Ui \<Rightarrow> AlertFormValues ConfigPage \<Rightarrow> request option" where
  "alerts_submit is_url u s =
     config_submit (alerts_items is_url (af_channel (cp_form s) = Some AC_webhook) u) (quotaAlertApi_save \<circ> alerts_body) s"

definition alerts_saved :: "translate \<Rightarrow> 'a outcome \<Rightarrow> AlertFormValues ConfigPage \<Rightarrow> World \<Rightarrow> AlertFormValues ConfigPage \<times> World" where
  "alerts_saved t = config_saved t ''quotaAlerts.saveOk'' True"

section \<open>Output filter\<close>

record OutputFormValues =
  ouf_enabled :: "bool option"
  ouf_violation_strategy :: "ViolationStrategy option"
  ouf_safe_message :: "jsstring option"
  ouf_stream_chunk_threshold :: "int option"

definition output_initial :: OutputFormValues where
  "output_initial = \<lparr>ouf_enabled = None, ouf_violation_strategy = None, ouf_safe_message = None,
     ouf_stream_chunk_threshold = None\<rparr>"

definition output_prefill :: "OutputConfig \<Rightarrow> OutputFormValues" where
  "output_prefill c = \<lparr>ouf_enabled = Some (oc_enabled c), ouf_violation_strategy = Some (oc_violation_strategy c),
     ouf_safe_message = Some (oc_safe_message c), ouf_stream_chunk_threshold = Some (oc_stream_chunk_threshold c)\<rparr>"

definition output_body :: "OutputFormValues \<Rightarrow> OutputConfig" where
  "output_body v = \<lparr>oc_enabled = or_else (ouf_enabled v) True, oc_violation_strategy = the (ouf_violation_strategy v),
     oc_safe_message = trim_or_empty (ouf_safe_message v),
     oc_stream_chunk_threshold = the (ouf_stream_chunk_threshold v)\<rparr>"

definition output_items :: "Ui \<Rightarrow> OutputFormValues form_item list" where
  "output_items u =
     [item ''enabled'' (tr u ''outputFilter.enabled'') In_switch [],
      item ''violation_strategy'' (tr u ''outputFilter.strategy'') In_select
        [rule (\<lambda>v. ouf_violation_strategy v \<noteq> None) (tr u ''outputFilter.strategyReq'')],
      item ''safe_message'' (tr u ''outputFilter.safeMessage'') In_area
        [rule (\<lambda>v. filled (ouf_safe_message v)) (tr u ''outputFilter.safeMessageReq'')],
      item ''stream_chunk_threshold'' (tr u ''outputFilter.chunkThreshold'') (In_number (Some 16) (Some 65536))
        [rule (\<lambda>v. ouf_stream_chunk_threshold v \<noteq> None) (tr u ''outputFilter.chunkReq'')]]"

definition output_submit :: "Ui \<Rightarrow> OutputFormValues ConfigPage \<Rightarrow> request option" where
  "output_submit u = config_submit (output_items u) (outputApi_save \<circ> output_body)"

definition output_saved :: "translate \<Rightarrow> 'a outcome \<Rightarrow> OutputFormValues ConfigPage \<Rightarrow> World \<Rightarrow> OutputFormValues ConfigPage \<times> World" where
  "output_saved t = config_saved t ''outputFilter.saveOk'' True"

section \<open>General settings\<close>

record GeneralFormValues =
  gf_log_level :: "LogLevel option"
  gf_audit_retention_days :: "int option"
  gf_default_timeout_seconds :: "int option"
  gf_max_connections :: "int option"
  gf_guard_enabled :: "bool option"
  gf_hot_reload_seconds :: "int option"
  gf_call_audit_enabled :: "bool option"
  gf_call_audit_only_errors :: "bool option"
  gf_call_audit_sampling :: "int option"
  gf_log_reasoning :: "bool option"

definition general_initial :: GeneralFormValues where
  "general_initial = \<lparr>gf_log_level = None, gf_audit_retention_days = None, gf_default_timeout_seconds = None,
     gf_max_connections = None, gf_guard_enabled = None, gf_hot_reload_seconds = None, gf_call_audit_enabled = None,
     gf_call_audit_only_errors = None, gf_call_audit_sampling = None, gf_log_reasoning = None\<rparr>"

definition general_prefill :: "SystemSettings \<Rightarrow> GeneralFormValues" where
  "general_prefill c = \<lparr>gf_log_level = Some (ss_log_level c), gf_audit_retention_days = Some (ss_audit_retention_days c),
     gf_default_timeout_seconds = Some (ss_default_timeout_seconds c), gf_max_connections = Some (ss_max_connections c),
     gf_guard_enabled = Some (ss_guard_enabled c), gf_hot_reload_seconds = Some (ss_hot_reload_seconds c),
     gf_call_audit_enabled = Some (ss_call_audit_enabled c),
     gf_call_audit_only_errors = Some (ss_call_audit_only_errors c),
     gf_call_audit_sampling = Some (ss_call_audit_sampling c), gf_log_reasoning = Some (ss_log_reasoning c)\<rparr>"

text \<open>The values of the form are sent as they are: one that is absent is left out.\<close>

definition general_json :: "GeneralFormValues \<Rightarrow> json" where
  "general_json v = obj
     [(''log_level'', map_option (JStr \<circ> LogLevel_str) (gf_log_level v)),
      (''audit_retention_days'', map_option int_json (gf_audit_retention_days v)),
      (''default_timeout_seconds'', map_option int_json (gf_default_timeout_seconds v)),
      (''max_connections'', map_option int_json (gf_max_connections v)),
      (''guard_enabled'', map_option JBool (gf_guard_enabled v)),
      (''hot_reload_seconds'', map_option int_json (gf_hot_reload_seconds v)),
      (''call_audit_enabled'', map_option JBool (gf_call_audit_enabled v)),
      (''call_audit_only_errors'', map_option JBool (gf_call_audit_only_errors v)),
      (''call_audit_sampling'', map_option int_json (gf_call_audit_sampling v)),
      (''log_reasoning'', map_option JBool (gf_log_reasoning v))]"

definition general_items :: "Ui \<Rightarrow> GeneralFormValues form_item list" where
  "general_items u =
     [item ''log_level'' (tr u ''general.logLevel'') In_select
        [rule (\<lambda>v. gf_log_level v \<noteq> None) (ui_required u ''log_level'')],
      item ''audit_retention_days'' (tr u ''general.auditRetention'') (In_number (Some 1) (Some 3650))
        [rule (\<lambda>v. gf_audit_retention_days v \<noteq> None) (tr u ''general.auditRetentionReq'')],
      item ''default_timeout_seconds'' (tr u ''general.timeout'') (In_number (Some 1) (Some 3600))
        [rule (\<lambda>v. gf_default_timeout_seconds v \<noteq> None) (tr u ''general.timeoutReq'')],
      item ''max_connections'' (tr u ''general.maxConn'') (In_number (Some 1) (Some 100000))
        [rule (\<lambda>v. gf_max_connections v \<noteq> None) (tr u ''general.maxConnReq'')],
      item ''guard_enabled'' (tr u ''general.guardEnabled'') In_switch [],
      item ''call_audit_enabled'' (tr u ''general.auditWrite'') In_switch [],
      item ''call_audit_only_errors'' (tr u ''general.auditOnlyErrors'') In_switch [],
      item ''call_audit_sampling'' (tr u ''general.auditSampling'') (In_number (Some 1) (Some 1000))
        [rule (\<lambda>v. gf_call_audit_sampling v \<noteq> None) (tr u ''general.auditSamplingReq'')],
      item ''log_reasoning'' (tr u ''general.logReasoning'') In_switch [],
      item ''hot_reload_seconds'' (tr u ''general.hotReload'') (In_number (Some 1) (Some 60))
        [rule (\<lambda>v. gf_hot_reload_seconds v \<noteq> None) (ui_required u ''hot_reload_seconds'')]]"

definition general_req :: "GeneralFormValues \<Rightarrow> request" where
  "general_req v = http_put (js ''/settings'') (Some (general_json v))"

definition general_onSubmit :: "Ui \<Rightarrow> GeneralFormValues ConfigPage \<Rightarrow> request option" where
  "general_onSubmit u = config_submit (general_items u) general_req"

definition general_saved :: "translate \<Rightarrow> 'a outcome \<Rightarrow> GeneralFormValues ConfigPage \<Rightarrow> World \<Rightarrow> GeneralFormValues ConfigPage \<times> World" where
  "general_saved t = config_saved t ''general.saveOk'' False"

text \<open>What the server's settings are as a body of the interface.\<close>

definition settings_input :: "SystemSettings \<Rightarrow> SystemSettingsInput" where
  "settings_input c = \<lparr>ssi_log_level = ss_log_level c, ssi_audit_retention_days = ss_audit_retention_days c,
     ssi_default_timeout_seconds = ss_default_timeout_seconds c, ssi_max_connections = ss_max_connections c,
     ssi_guard_enabled = ss_guard_enabled c, ssi_hot_reload_seconds = ss_hot_reload_seconds c,
     ssi_call_audit_enabled = ss_call_audit_enabled c, ssi_call_audit_only_errors = ss_call_audit_only_errors c,
     ssi_call_audit_sampling = ss_call_audit_sampling c, ssi_log_reasoning = ss_log_reasoning c\<rparr>"

lemmas config_page_defs [js_eval] = failover_initial_def failover_prefill_def trigger_codes_def failover_body_def
  failover_items_def failover_submit_def failover_saved_def alerts_initial_def alerts_prefill_def
  alert_thresholds_def alerts_body_def alerts_items_def alerts_submit_def alerts_saved_def output_initial_def
  output_prefill_def output_body_def output_items_def output_submit_def output_saved_def general_initial_def
  general_prefill_def general_json_def general_items_def general_req_def general_onSubmit_def general_saved_def
  settings_input_def

section \<open>The pages meet the contract\<close>

text \<open>Whole numbers a double holds exactly survive the tags of a form.\<close>

definition whole :: "jsnum \<Rightarrow> bool" where
  "whole n \<longleftrightarrow> (case n of Fin x \<Rightarrow> is_Integer (Fin x) \<and> \<bar>x\<bar> \<le> 2 ^ 53 | _ \<Rightarrow> False)"

lemma whole_tag: "whole n \<Longrightarrow> js_Number (num_to_string n) = n"
proof -
  assume "whole n"
  then obtain x where x: "n = Fin x" "of_int \<lfloor>x\<rfloor> = x" "\<bar>x\<bar> \<le> 2 ^ 53"
    by (auto simp: whole_def split: jsnum.splits)
  from x(3) have "\<bar>of_int \<lfloor>x\<rfloor>\<bar> \<le> (of_int (2 ^ 53) :: rat)" unfolding x(2) by simp
  then have "\<bar>\<lfloor>x\<rfloor>\<bar> \<le> 2 ^ 53" by (simp only: of_int_abs [symmetric] of_int_le_iff)
  from js_Number_num_to_string [OF this] x(1,2) show ?thesis by simp
qed

lemma whole_tags: "list_all whole ns \<Longrightarrow> map js_Number (map num_to_string ns) = ns"
  by (induction ns) (simp_all add: whole_tag)

lemma whole_not_NaN: "whole n \<Longrightarrow> \<not> is_NaN n"
  by (auto simp: whole_def is_NaN_def)

definition failover_clean :: "FailoverConfig \<Rightarrow> bool" where
  "failover_clean c \<longleftrightarrow> fc_trigger_status_codes c \<noteq> [] \<and> distinct (fc_trigger_status_codes c)
     \<and> list_all whole (fc_trigger_status_codes c)"

lemma failover_tags:
  assumes "failover_clean c"
  shows "trigger_codes (map num_to_string (fc_trigger_status_codes c)) = fc_trigger_status_codes c"
proof -
  have "filter (\<lambda>n. \<not> is_NaN n) (fc_trigger_status_codes c) = fc_trigger_status_codes c"
    using assms whole_not_NaN by (auto simp: failover_clean_def list_all_iff filter_id_conv)
  then show ?thesis
    using assms by (simp add: failover_clean_def trigger_codes_def whole_tags uniq_id del: map_map)
qed

lemma failover_unchanged: "failover_clean c \<Longrightarrow> failover_body (failover_prefill c) = c"
  using failover_tags [of c] by (cases c) (simp add: failover_body_def failover_prefill_def)

interpretation failover: config_page failover_prefill failover_items "failoverApi_save \<circ> failover_body"
  failoverApi_save failover_clean
proof unfold_locales
  fix c u assume c: "failover_clean c"
  then show "form_errors (failover_items u) (failover_prefill c) = []"
    by (auto simp: failover_items_def failover_prefill_def failover_clean_def)
  show "(failoverApi_save \<circ> failover_body) (failover_prefill c) = failoverApi_save c"
    using c by (simp add: failover_unchanged)
qed

lemma output_unchanged: "trimmed (oc_safe_message c) \<Longrightarrow> output_body (output_prefill c) = c"
  by (cases c) (simp add: output_body_def output_prefill_def form_defs)

interpretation output_filter: config_page output_prefill output_items "outputApi_save \<circ> output_body" outputApi_save
  "\<lambda>c. oc_safe_message c \<noteq> [] \<and> trimmed (oc_safe_message c)"
proof unfold_locales
  fix c :: OutputConfig and u :: Ui assume c: "oc_safe_message c \<noteq> [] \<and> trimmed (oc_safe_message c)"
  then show "form_errors (output_items u) (output_prefill c) = []"
    by (auto simp: output_items_def output_prefill_def filled_def)
  show "(outputApi_save \<circ> output_body) (output_prefill c) = outputApi_save c"
    using c by (simp add: output_unchanged)
qed

interpretation general: config_page general_prefill general_items general_req "settingsApi_save \<circ> settings_input"
  "\<lambda>c. True"
  by unfold_locales
    (auto simp: general_items_def general_prefill_def general_req_def general_json_def settings_input_def
      settingsApi_save_def SystemSettingsInput_json_def)

text \<open>The alert page's items depend on the channel, so its contract is that of each channel.\<close>

definition alerts_clean :: "(jsstring \<Rightarrow> bool) \<Rightarrow> bool \<Rightarrow> QuotaAlertConfig \<Rightarrow> bool" where
  "alerts_clean is_url webhook c \<longleftrightarrow> qa_thresholds c \<noteq> [] \<and> distinct (qa_thresholds c)
     \<and> sorted (map fin_val (qa_thresholds c)) \<and> list_all (\<lambda>n. whole n \<and> in_percent n) (qa_thresholds c)
     \<and> trimmed (qa_receivers c) \<and> (qa_channel c = AC_webhook \<longleftrightarrow> webhook)
     \<and> (webhook \<longrightarrow> trimmed (qa_webhook_url c) \<and> qa_webhook_url c \<noteq> [] \<and> is_url (qa_webhook_url c))"

text \<open>What comes back: only the webhook channel keeps its address.\<close>

definition alerts_kept :: "QuotaAlertConfig \<Rightarrow> QuotaAlertConfig" where
  "alerts_kept c = (if qa_channel c = AC_webhook then c else c\<lparr>qa_webhook_url := []\<rparr>)"

lemma alerts_tags:
  assumes "alerts_clean is_url webhook c"
  shows "alert_thresholds (map num_to_string (qa_thresholds c)) = qa_thresholds c"
proof -
  have "list_all whole (qa_thresholds c)" "filter in_percent (qa_thresholds c) = qa_thresholds c"
    using assms by (auto simp: alerts_clean_def list_all_iff filter_id_conv)
  then show ?thesis
    using assms by (simp add: alerts_clean_def alert_thresholds_def whole_tags uniq_id sorted_sort_id sort_key_id_if_sorted
        del: map_map)
qed


lemma alerts_unchanged:
  assumes "alerts_clean is_url webhook c"
  shows "alerts_body (alerts_prefill c) = alerts_kept c"
  using alerts_tags [OF assms] assms
  by (cases c) (auto simp: alerts_kept_def alerts_body_def alerts_prefill_def alerts_clean_def trim_or_empty_def trimmed_def
      str_or_undef_def split: if_splits option.splits)

interpretation alerts: config_page alerts_prefill "alerts_items is_url webhook" "quotaAlertApi_save \<circ> alerts_body"
  "quotaAlertApi_save \<circ> alerts_kept" "alerts_clean is_url webhook"
  for is_url webhook
proof unfold_locales
  fix c :: QuotaAlertConfig and u :: Ui assume c: "alerts_clean is_url webhook c"
  then show "form_errors (alerts_items is_url webhook u) (alerts_prefill c) = []"
    by (auto simp: alerts_items_def alerts_prefill_def alerts_clean_def filled_def str_or_undef_def split: if_splits)
  show "(quotaAlertApi_save \<circ> alerts_body) (alerts_prefill c) = (quotaAlertApi_save \<circ> alerts_kept) c"
    using c by (simp add: alerts_unchanged)
qed

text \<open>What the thresholds of a saved configuration are, whatever tags were typed.\<close>

lemma in_percent_fin: "in_percent n \<Longrightarrow> n = Fin (fin_val n)"
  by (cases n) simp_all

lemma alert_thresholds_set: "set (alert_thresholds tags) = {n. in_percent n \<and> n \<in> js_Number ` set tags}"
  by (auto simp: alert_thresholds_def)

lemma alert_thresholds_sorted: "sorted_wrt (\<lambda>a b. fin_val a < fin_val b) (alert_thresholds tags)"
proof -
  let ?ns = "alert_thresholds tags"
  have "sorted (map fin_val ?ns)" by (simp add: alert_thresholds_def)
  moreover have "distinct (map fin_val ?ns)"
  proof -
    have "inj_on fin_val (set ?ns)"
      by (rule inj_onI) (metis alert_thresholds_set in_percent_fin mem_Collect_eq)
    moreover have "distinct ?ns" by (simp add: alert_thresholds_def)
    ultimately show ?thesis by (simp add: distinct_map)
  qed
  ultimately have "sorted_wrt (<) (map fin_val ?ns)" by (simp add: strict_sorted_iff)
  then show ?thesis by (simp add: sorted_wrt_map)
qed

section \<open>Properties\<close>

text \<open>C20: A configuration page sends a configuration that arrived and was not touched back as it is:
  the failover configuration, the alert configuration, the output filter and the general settings survive
  the trip through their form, whose rules they meet; but the address of an alert configuration is
  erased when its channel is not the webhook. (There are status codes and thresholds, and they are whole
  numbers without repetition, the thresholds increasing percentages; the webhook channel has a valid
  address; the safe message is not empty; and the texts carry no surrounding blanks.)\<close>

theorem config_pages_roundtrip:
  assumes "failover_clean c" "alerts_clean is_url (qa_channel a = AC_webhook) a"
    and "oc_safe_message f \<noteq> []" "trimmed (oc_safe_message f)"
  shows "failover_submit u (config_loaded failover_prefill (Some c) s) = Some (failoverApi_save c)
    \<and> alerts_submit is_url u (config_loaded alerts_prefill (Some a) s')
        = Some (quotaAlertApi_save (if qa_channel a = AC_webhook then a else a\<lparr>qa_webhook_url := []\<rparr>))
    \<and> output_submit u (config_loaded output_prefill (Some f) s'') = Some (outputApi_save f)
    \<and> general_onSubmit u (config_loaded general_prefill (Some g) s''') = Some (settingsApi_save (settings_input g))"
proof -
  have "alerts_submit is_url u (config_loaded alerts_prefill (Some a) s')
      = config_submit (alerts_items is_url (qa_channel a = AC_webhook) u) (quotaAlertApi_save \<circ> alerts_body)
          (config_loaded alerts_prefill (Some a) s')"
    by (simp add: alerts_submit_def config_loaded_def alerts_prefill_def)
  then show ?thesis
    using assms by (simp add: failover_submit_def output_submit_def general_onSubmit_def failover.load_save
        alerts.load_save output_filter.load_save general.load_save alerts_kept_def)
qed

lemma config_pages_roundtrip_witness:
  "output_submit \<lparr>ui_t = \<lambda>k a. k, ui_lang = [], ui_day = \<lambda>v f. None, ui_locale = \<lambda>l n. [], ui_required = js\<rparr>
     (config_loaded output_prefill (Some \<lparr>oc_enabled = True, oc_violation_strategy = VS_block,
        oc_safe_message = js ''blocked'', oc_stream_chunk_threshold = 64\<rparr>) \<lparr>cp_form = output_initial, cp_stale = False\<rparr>)
   = Some (outputApi_save \<lparr>oc_enabled = True, oc_violation_strategy = VS_block,
        oc_safe_message = js ''blocked'', oc_stream_chunk_threshold = 64\<rparr>)"
proof -
  let ?c = "\<lparr>fc_enabled = True, fc_retry_count = 2, fc_backoff = BS_fixed, fc_retry_interval_ms = 100,
    fc_trigger_status_codes = [Fin 429], fc_circuit_failure_threshold = 5, fc_circuit_reset_seconds = 30\<rparr>"
  let ?a = "\<lparr>qa_enabled = True, qa_thresholds = [Fin 80, Fin 95], qa_channel = AC_ui, qa_webhook_url = [], qa_receivers = []\<rparr>"
  let ?f = "\<lparr>oc_enabled = True, oc_violation_strategy = VS_block, oc_safe_message = js ''blocked'',
    oc_stream_chunk_threshold = 64\<rparr>"
  have 1: "failover_clean ?c" by (simp add: failover_clean_def whole_def)
  have 2: "alerts_clean (\<lambda>v. True) (qa_channel ?a = AC_webhook) ?a"
    by (simp add: alerts_clean_def whole_def trimmed_def)
  have 3: "oc_safe_message ?f \<noteq> []" "trimmed (oc_safe_message ?f)" by code_simp+
  show ?thesis using config_pages_roundtrip [OF 1 2 3] by blast
qed

text \<open>C38: Whatever tags are typed, a saved alert configuration has thresholds that are strictly
  increasing percentages above 0 and at most 100, namely exactly the numbers among the tags that
  are such percentages, and an address only when the channel is a webhook. It may have none: a form
  whose tags are all out of range is still sent.\<close>

theorem alert_thresholds_normal:
  assumes "alerts_submit is_url u s = Some rq"
  shows "\<exists>c. rq = quotaAlertApi_save c
    \<and> sorted_wrt (\<lambda>a b. fin_val a < fin_val b) (qa_thresholds c)
    \<and> (\<forall>n. n \<in> set (qa_thresholds c) \<longleftrightarrow>
          n \<in> js_Number ` set (af_thresholds (cp_form s)) \<and> (\<exists>x. n = Fin x \<and> 0 < x \<and> x \<le> 100))
    \<and> (qa_webhook_url c \<noteq> [] \<longrightarrow> qa_channel c = AC_webhook \<and> is_url (the (af_webhook_url (cp_form s))))"
proof -
  let ?v = "cp_form s"
  have rq: "rq = quotaAlertApi_save (alerts_body ?v)"
    and ok: "form_errors (alerts_items is_url (af_channel ?v = Some AC_webhook) u) ?v = []"
    using assms by (auto simp: alerts_submit_def config_submit_def split: if_splits)
  have range: "in_percent n \<longleftrightarrow> (\<exists>x. n = Fin x \<and> 0 < x \<and> x \<le> 100)" for n by (cases n) auto
  have url: "qa_webhook_url (alerts_body ?v) \<noteq> [] \<longrightarrow>
      qa_channel (alerts_body ?v) = AC_webhook \<and> is_url (the (af_webhook_url ?v))"
    using ok by (auto simp: alerts_body_def alerts_items_def split: if_splits)
  have "qa_thresholds (alerts_body ?v) = alert_thresholds (af_thresholds ?v)" by (simp add: alerts_body_def)
  then show ?thesis
    using rq url alert_thresholds_sorted alert_thresholds_set range
    by (intro exI [of _ "alerts_body ?v"]) auto
qed

lemma alert_thresholds_normal_witness:
  "sorted_wrt (\<lambda>a b. fin_val a < fin_val b) [Fin 80, Fin 95 :: jsnum]
   \<and> alert_thresholds (map js [''95'', ''80'', ''150'', ''80'', ''x'']) = [Fin 80, Fin 95]"
proof -
  let ?u = "\<lparr>ui_t = \<lambda>k a. k, ui_lang = [], ui_day = \<lambda>v f. None, ui_locale = \<lambda>l n. [], ui_required = js\<rparr>"
  let ?s = "\<lparr>cp_form = alerts_initial\<lparr>af_thresholds := map js [''95'', ''80'', ''150'', ''80'', ''x'']\<rparr>, cp_stale = False\<rparr>"
  let ?rq = "quotaAlertApi_save (alerts_body (cp_form ?s))"
  have run: "alerts_submit (\<lambda>v. True) ?u ?s = Some ?rq"
    by (simp add: alerts_submit_def config_submit_def alerts_items_def alerts_initial_def)
  have val: "alert_thresholds (map js [''95'', ''80'', ''150'', ''80'', ''x'']) = [Fin 80, Fin 95]" by code_simp
  from alert_thresholds_normal [OF run] val show ?thesis by auto
qed

text \<open>The filter of the failover page lets the tag \<open>Infinity\<close> pass, which no JSON number can carry.\<close>

lemma infinity_is_a_code: "trigger_codes [js ''Infinity''] = [PInf]"
  by code_simp

end
