(* ===== verification/QuotaBatch.thy ===== *)
theory QuotaBatch
  imports Quotas
begin

text \<open>
  The batch dialog of frontend/src/pages/quota/Quotas.tsx: a text with one quota per line is parsed
  into the bodies of one request, or into a list of complaints.
\<close>

datatype batch_error = BE_key jsstring | BE_fields | BE_enum | BE_limit

text \<open>\<open>/^\\d+$/\<close> on the trimmed token: a number is an id, anything else a name.\<close>

definition apiKeyIdOf :: "ApiKey list \<Rightarrow> jsstring \<Rightarrow> jsnum option" where
  "apiKeyIdOf keys token =
     (let s = trim token in
      if s \<noteq> [] \<and> list_all is_digit s then Some (js_Number s)
      else map_option (\<lambda>k. Fin (of_int (ak_id k))) (find (\<lambda>k. ak_name k = s) keys))"

definition quota_type_of :: "jsstring \<Rightarrow> QuotaType option" where
  "quota_type_of s = (if s = js ''requests'' then Some QT_requests
                      else if s = js ''tokens'' then Some QT_tokens else None)"

definition quota_period_of :: "jsstring \<Rightarrow> QuotaPeriod option" where
  "quota_period_of s = (if s = js ''day'' then Some QP_day else if s = js ''week'' then Some QP_week
                        else if s = js ''month'' then Some QP_month else None)"

definition over_action_of :: "jsstring \<Rightarrow> OverAction" where
  "over_action_of s = (if s = js ''degrade'' then OA_degrade else OA_reject)"

text \<open>\<open>Number.isInteger(limit)\<close> and not \<open>limit <= 0\<close>\<close>

definition batch_limit :: "jsstring \<Rightarrow> int option" where
  "batch_limit s = (case js_Number s of
     Fin x \<Rightarrow> if is_Integer (Fin x) \<and> 0 < x then Some \<lfloor>x\<rfloor> else None
   | _ \<Rightarrow> None)"

text \<open>The separators are the comma, the full-width comma and the tab.\<close>

definition batch_sep :: "cu \<Rightarrow> bool" where
  "batch_sep u \<longleftrightarrow> u = 44 \<or> u = 0xFF0C \<or> u = 9"

definition batch_parts :: "jsstring \<Rightarrow> jsstring list" where
  "batch_parts line = map trim (split_on batch_sep line)"

definition parse_fields :: "jsnum \<Rightarrow> jsstring list \<Rightarrow> batch_error + QuotaInput" where
  "parse_fields keyId fs =
     (case fs of
        alias # qtype # period # limitStr # rest \<Rightarrow>
          if alias = [] \<or> qtype = [] \<or> period = [] \<or> limitStr = [] then Inl BE_fields
          else (case (quota_type_of qtype, quota_period_of period) of
            (Some qt, Some per) \<Rightarrow>
              (case batch_limit limitStr of
                 None \<Rightarrow> Inl BE_limit
               | Some n \<Rightarrow>
                   Inr \<lparr>qi_api_key_id = keyId, qi_model_alias = alias, qi_quota_type = qt, qi_period = per,
                        qi_limit = n,
                        qi_over_action = over_action_of (case rest of [] \<Rightarrow> js ''reject'' | v # _ \<Rightarrow> v),
                        qi_degrade_alias = None, qi_enabled = True\<rparr>)
          | _ \<Rightarrow> Inl BE_enum)
      | _ \<Rightarrow> Inl BE_fields)"

definition parse_line :: "ApiKey list \<Rightarrow> jsstring \<Rightarrow> batch_error + QuotaInput" where
  "parse_line keys line =
     (let parts = batch_parts line in
      case apiKeyIdOf keys (hd parts) of
        None \<Rightarrow> Inl (BE_key (hd parts))
      | Some keyId \<Rightarrow> parse_fields keyId (tl parts))"

text \<open>Blank lines and comments are dropped, so the numbers of the messages count the others.\<close>

definition batch_lines :: "jsstring \<Rightarrow> jsstring list" where
  "batch_lines txt =
     filter (\<lambda>l. l \<noteq> [] \<and> \<not> starts_with l (js ''#'')) (map trim (split_on (\<lambda>u. u = 10) txt))"

definition batch_message :: "translate \<Rightarrow> nat \<Rightarrow> batch_error \<Rightarrow> jsstring" where
  "batch_message t idx e =
     (let n = (js ''n'', int_to_string (int idx + 1)) in
      case e of
        BE_key k \<Rightarrow> t (js ''quotas.batchErrKey'') [n, (js ''key'', k)]
      | BE_fields \<Rightarrow> t (js ''quotas.batchErrFields'') [n]
      | BE_enum \<Rightarrow> t (js ''quotas.batchErrEnum'') [n]
      | BE_limit \<Rightarrow> t (js ''quotas.batchErrLimit'') [n])"

text \<open>One turn of the loop over the lines, on the items and the errors so far.\<close>

definition batch_turn ::
  "translate \<Rightarrow> ApiKey list \<Rightarrow> nat \<times> jsstring \<Rightarrow> QuotaInput list \<times> jsstring list \<Rightarrow> QuotaInput list \<times> jsstring list" where
  "batch_turn t keys l acc =
     (case parse_line keys (snd l) of
        Inl e \<Rightarrow> (fst acc, snd acc @ [batch_message t (fst l) e])
      | Inr q \<Rightarrow> (fst acc @ [q], snd acc))"

text \<open>What \<open>parseBatch\<close> sets as the error of the dialog, and what it returns.\<close>

definition parseBatch :: "translate \<Rightarrow> ApiKey list \<Rightarrow> jsstring \<Rightarrow> jsstring \<times> QuotaInput list" where
  "parseBatch t keys txt =
     (let lines = batch_lines txt in
      if lines = [] then (t (js ''quotas.batchErrEmpty'') [], [])
      else let (items, errors) = fold (batch_turn t keys) (enumerate 0 lines) ([], []) in
        if errors \<noteq> [] then (join [10] errors, []) else ([], items))"

record BatchDialog =
  bd_open :: bool
  bd_text :: jsstring
  bd_error :: jsstring

definition batch_open :: "BatchDialog \<Rightarrow> BatchDialog" where
  "batch_open d = d\<lparr>bd_open := True\<rparr>"

definition batch_cancel :: "BatchDialog \<Rightarrow> BatchDialog" where
  "batch_cancel d = d\<lparr>bd_open := False\<rparr>"

definition batch_input :: "jsstring \<Rightarrow> BatchDialog \<Rightarrow> BatchDialog" where
  "batch_input v d = d\<lparr>bd_text := v, bd_error := []\<rparr>"

definition doBatch :: "translate \<Rightarrow> ApiKey list \<Rightarrow> BatchDialog \<Rightarrow> BatchDialog \<times> request option" where
  "doBatch t keys d =
     (let (err, items) = parseBatch t keys (bd_text d) in
      (d\<lparr>bd_error := err\<rparr>, if items \<noteq> [] then Some (quotaApi_batch \<lparr>qb_items = items\<rparr>) else None))"

definition batch_settled ::
  "translate \<Rightarrow> 'a outcome \<Rightarrow> BatchDialog \<Rightarrow> QuotasPage \<Rightarrow> World \<Rightarrow> BatchDialog \<times> QuotasPage \<times> World" where
  "batch_settled t out d s w =
     (case out of
        Resolved _ \<Rightarrow>
          (d\<lparr>bd_open := False, bd_text := []\<rparr>, invalidate s,
           toast (T_success (t (js ''quotas.batchDone'') [])) w)
      | Rejected _ \<Rightarrow> (d, s, w))"

lemmas batch_defs [js_eval] = apiKeyIdOf_def quota_type_of_def quota_period_of_def over_action_of_def
  batch_limit_def batch_sep_def batch_parts_def parse_fields_def parse_line_def batch_lines_def
  batch_message_def batch_turn_def parseBatch_def batch_open_def batch_cancel_def batch_input_def
  doBatch_def batch_settled_def

section \<open>The loop over the lines\<close>

definition is_error :: "'a + 'b \<Rightarrow> bool" where
  "is_error r = (case r of Inl _ \<Rightarrow> True | Inr _ \<Rightarrow> False)"

lemma batch_loop:
  "fold (batch_turn t keys) (enumerate n ls) (items, errs) =
     (items @ map projr (filter (Not \<circ> is_error) (map (parse_line keys) ls)),
      errs @ map (\<lambda>(i, e). batch_message t i (projl e))
        (filter (is_error \<circ> snd) (enumerate n (map (parse_line keys) ls))))"
  by (induction ls arbitrary: n items errs)
    (auto simp: batch_turn_def is_error_def split: sum.splits)

lemma parseBatch_ok:
  assumes "batch_lines txt \<noteq> []" "\<forall>l \<in> set (batch_lines txt). parse_line keys l = Inr (f l)"
  shows "parseBatch t keys txt = ([], map f (batch_lines txt))"
proof -
  have f: "map (parse_line keys) (batch_lines txt) = map (Inr \<circ> f) (batch_lines txt)"
    using assms(2) by simp
  have e: "filter (Not \<circ> is_error) (map (Inr \<circ> f) ls) = map (Inr \<circ> f) ls"
    "filter (is_error \<circ> snd) (enumerate n (map (Inr \<circ> f) ls)) = []" for n ls
    by (induction ls arbitrary: n) (auto simp: is_error_def)
  show ?thesis
    using assms(1) by (simp add: parseBatch_def batch_loop f e)
qed

lemma parseBatch_errors:
  assumes "l \<in> set (batch_lines txt)" "parse_line keys l = Inl e"
  shows "snd (parseBatch t keys txt) = []"
proof -
  have "filter (is_error \<circ> snd) (enumerate n (map (parse_line keys) ls)) \<noteq> []" if "l \<in> set ls" for ls n
    using that assms(2) by (induction ls arbitrary: n) (auto simp: is_error_def)
  then show ?thesis
    using assms(1) by (auto simp: parseBatch_def batch_loop Let_def)
qed

lemma parse_line_item:
  assumes "parse_line keys line = Inr q"
  shows "0 < qi_limit q \<and> qi_model_alias q \<noteq> [] \<and> qi_degrade_alias q = None \<and> qi_enabled q
    \<and> apiKeyIdOf keys (hd (batch_parts line)) = Some (qi_api_key_id q)
    \<and> (qi_over_action q = OA_degrade \<longleftrightarrow> 5 < length (batch_parts line) \<and> batch_parts line ! 5 = js ''degrade'')"
proof -
  have lim: "0 < n" if "batch_limit s = Some n" for s n
    using that by (auto simp: batch_limit_def less_floor_iff split: jsnum.splits if_splits)
  from assms obtain k parts where p: "batch_parts line = parts" "apiKeyIdOf keys (hd parts) = Some k"
    "parse_fields k (tl parts) = Inr q"
    by (auto simp: parse_line_def Let_def split: option.splits)
  then have "parts \<noteq> []" by (auto simp: batch_parts_def)
  with p obtain h where "parts = h # tl parts" by (cases parts) auto
  with p lim show ?thesis
    by (auto simp: parse_fields_def over_action_of_def nth_Cons' split: list.splits if_splits option.splits)
qed

lemma parse_line_result:
  assumes "snd (parseBatch t keys txt) \<noteq> []"
  obtains f where "\<forall>l \<in> set (batch_lines txt). parse_line keys l = Inr (f l)"
    and "parseBatch t keys txt = ([], map f (batch_lines txt))"
proof -
  have "\<exists>q. parse_line keys l = Inr q" if "l \<in> set (batch_lines txt)" for l
    using parseBatch_errors [OF that] assms by (cases "parse_line keys l") auto
  then obtain f where f: "\<forall>l \<in> set (batch_lines txt). parse_line keys l = Inr (f l)" by metis
  have "batch_lines txt \<noteq> []" using assms by (auto simp: parseBatch_def)
  from parseBatch_ok [OF this f] f show ?thesis using that by blast
qed

section \<open>Properties\<close>

text \<open>C30: a batch is all or nothing: when anything is sent, every line that is neither blank nor a
  comment gave one item, in the order of the text, and no complaint was raised. Every item has a
  positive limit and names a model; it falls back exactly when the sixth field of its line says
  so, any other text there meaning rejection, and it never carries an alias to fall back to.\<close>

theorem batch_all_or_nothing:
  assumes "parseBatch t keys txt = (err, items)" "items \<noteq> []"
  shows "err = [] \<and> length items = length (batch_lines txt)
    \<and> (\<forall>i < length items. parse_line keys (batch_lines txt ! i) = Inr (items ! i)
        \<and> 0 < qi_limit (items ! i) \<and> qi_model_alias (items ! i) \<noteq> []
        \<and> (qi_over_action (items ! i) = OA_degrade \<longleftrightarrow>
             5 < length (batch_parts (batch_lines txt ! i)) \<and> batch_parts (batch_lines txt ! i) ! 5 = js ''degrade'')
        \<and> qi_degrade_alias (items ! i) = None)"
proof -
  from assms have "snd (parseBatch t keys txt) \<noteq> []" by simp
  then obtain f where f: "\<forall>l \<in> set (batch_lines txt). parse_line keys l = Inr (f l)"
    and r: "parseBatch t keys txt = ([], map f (batch_lines txt))" by (rule parse_line_result)
  from r assms have i: "err = []" "items = map f (batch_lines txt)" by simp_all
  have line: "parse_line keys (batch_lines txt ! n) = Inr (items ! n)" if "n < length items" for n
    using f that by (simp add: i)
  note item = parse_line_item [OF line]
  from item line i(1) show ?thesis by (simp add: i(2))
qed

lemma batch_all_or_nothing_witness:
  "snd (parseBatch (\<lambda>k a. k) [] (js ''1,*,requests,day,5,degrade'')) \<noteq> []
   \<and> qi_degrade_alias (hd (snd (parseBatch (\<lambda>k a. k) [] (js ''1,*,requests,day,5,degrade'')))) = None"
proof -
  let ?r = "parseBatch (\<lambda>k a. k) [] (js ''1,*,requests,day,5,degrade'')"
  have n: "snd ?r \<noteq> []" by code_simp
  have "?r = (fst ?r, snd ?r)" by simp
  note b = batch_all_or_nothing [OF this n]
  have "0 < length (snd ?r)" using n by blast
  with b have "qi_degrade_alias (snd ?r ! 0) = None" by blast
  with n show ?thesis by (metis hd_conv_nth)
qed

text \<open>The line of a quota, in the format the hint of the dialog describes.\<close>

definition quota_line_fields :: "QuotaInput \<Rightarrow> jsstring list" where
  "quota_line_fields q =
     [num_to_string (qi_api_key_id q), qi_model_alias q, QuotaType_str (qi_quota_type q),
      QuotaPeriod_str (qi_period q), int_to_string (qi_limit q), OverAction_str (qi_over_action q)]"

definition quota_line :: "QuotaInput \<Rightarrow> jsstring" where
  "quota_line q = join [44] (quota_line_fields q)"

text \<open>What a line can say: a whole key, an alias without separators, a positive limit.\<close>

definition batchable :: "QuotaInput \<Rightarrow> bool" where
  "batchable q \<longleftrightarrow> (case qi_api_key_id q of Fin x \<Rightarrow> is_Integer (Fin x) \<and> 0 \<le> x \<and> x \<le> 2 ^ 53 | _ \<Rightarrow> False)
     \<and> qi_model_alias q \<noteq> [] \<and> trimmed (qi_model_alias q)
     \<and> list_all (\<lambda>u. \<not> batch_sep u \<and> u \<noteq> 10) (qi_model_alias q)
     \<and> 0 < qi_limit q \<and> qi_limit q \<le> 2 ^ 53 \<and> qi_degrade_alias q = None \<and> qi_enabled q"

lemma type_field:
  "list_all (\<lambda>u. \<not> batch_sep u \<and> u \<noteq> 10) (QuotaType_str a) \<and> trim (QuotaType_str a) = QuotaType_str a \<and> QuotaType_str a \<noteq> [] \<and> quota_type_of (QuotaType_str a) = Some a"
  by (cases a; simp; code_simp)

lemma period_field:
  "list_all (\<lambda>u. \<not> batch_sep u \<and> u \<noteq> 10) (QuotaPeriod_str p) \<and> trim (QuotaPeriod_str p) = QuotaPeriod_str p \<and> QuotaPeriod_str p \<noteq> [] \<and> quota_period_of (QuotaPeriod_str p) = Some p"
  by (cases p; simp; code_simp)

lemma over_field:
  "list_all (\<lambda>u. \<not> batch_sep u \<and> u \<noteq> 10) (OverAction_str v) \<and> trim (OverAction_str v) = OverAction_str v \<and> OverAction_str v \<noteq> [] \<and> over_action_of (OverAction_str v) = v \<and> \<not> is_space (last (OverAction_str v))"
  by (cases v; simp; code_simp)

lemmas enum_fields = type_field period_field over_field

lemma digits_field:
  assumes "0 \<le> i"
  shows "int_to_string i \<noteq> []" "list_all is_digit (int_to_string i)" "trim (int_to_string i) = int_to_string i"
    "list_all (\<lambda>u. \<not> batch_sep u \<and> u \<noteq> 10) (int_to_string i)"
proof -
  show d: "int_to_string i \<noteq> []" "list_all is_digit (int_to_string i)"
    using dec_digits [OF assms] assms by (simp_all add: int_to_string_def)
  show "trim (int_to_string i) = int_to_string i"
    using digits_edges [OF d] by (intro trim_id) simp
  have "is_digit u \<Longrightarrow> \<not> batch_sep u \<and> u \<noteq> 10" for u
    by (auto simp: is_digit_def batch_sep_def word_le_nat_alt)
  with d(2) show "list_all (\<lambda>u. \<not> batch_sep u \<and> u \<noteq> 10) (int_to_string i)"
    by (simp add: list_all_iff)
qed

lemma batchable_key:
  assumes "batchable q"
  obtains i where "0 \<le> i" "i \<le> 2 ^ 53" "qi_api_key_id q = Fin (of_int i)"
    "num_to_string (qi_api_key_id q) = int_to_string i"
proof -
  from assms obtain x where x: "qi_api_key_id q = Fin x" "of_int \<lfloor>x\<rfloor> = x" "0 \<le> x" "x \<le> 2 ^ 53"
    by (auto simp: batchable_def split: jsnum.splits)
  from x(2,4) have "of_int \<lfloor>x\<rfloor> \<le> (of_int (2 ^ 53) :: rat)" by simp
  then have le: "\<lfloor>x\<rfloor> \<le> 2 ^ 53" by (simp only: of_int_le_iff)
  moreover have ge: "0 \<le> \<lfloor>x\<rfloor>" using x(3) by simp
  moreover have "num_to_string (Fin (of_int \<lfloor>x\<rfloor>)) = int_to_string \<lfloor>x\<rfloor>"
    using le ge by (intro num_to_string_of_int) simp
  ultimately show ?thesis using that [of "\<lfloor>x\<rfloor>"] x by metis
qed

lemma quota_line_parts:
  assumes "batchable q"
  shows "batch_parts (quota_line q) = quota_line_fields q" "list_all (\<lambda>u. u \<noteq> 10) (quota_line q)"
    "trim (quota_line q) = quota_line q" "quota_line q \<noteq> []" "\<not> starts_with (quota_line q) (js ''#'')"
proof -
  obtain i where i: "0 \<le> i" "num_to_string (qi_api_key_id q) = int_to_string i"
    using batchable_key [OF assms] by metis
  note d = digits_field [OF i(1)] and q = assms [unfolded batchable_def]
  have lim: "0 \<le> qi_limit q" using q by simp
  have fs: "\<forall>w \<in> set (quota_line_fields q). list_all (\<lambda>u. \<not> batch_sep u \<and> u \<noteq> 10) w \<and> trim w = w"
    using d digits_field [OF lim] enum_fields q by (simp add: quota_line_fields_def i(2) trimmed_def)
  have "split_on batch_sep (quota_line q) = quota_line_fields q"
    using fs unfolding quota_line_def
    by (intro split_on_join) (auto simp: quota_line_fields_def list_all_iff batch_sep_def)
  moreover have "map trim (quota_line_fields q) = quota_line_fields q"
    using fs by (simp add: map_idI)
  ultimately show "batch_parts (quota_line q) = quota_line_fields q"
    by (simp add: batch_parts_def)
  show "list_all (\<lambda>u. u \<noteq> 10) (quota_line q)"
    using fs by (auto simp: quota_line_def quota_line_fields_def list_all_iff)
  have h: "quota_line q \<noteq> []" "is_digit (hd (quota_line q))"
    "last (quota_line q) = last (OverAction_str (qi_over_action q))"
    using d(1,2) enum_fields by (auto simp: quota_line_def quota_line_fields_def i(2) list_all_iff)
  then show "quota_line q \<noteq> []" by simp
  from h over_field show "trim (quota_line q) = quota_line q"
    by (intro trim_id) (simp add: is_digit_not_space)
  from h(1,2) show "\<not> starts_with (quota_line q) (js ''#'')"
    by (cases "quota_line q") (auto simp: js_def is_digit_def)
qed

lemma batch_limit_of_int: "0 < n \<Longrightarrow> n \<le> 2 ^ 53 \<Longrightarrow> batch_limit (int_to_string n) = Some n"
  by (simp add: batch_limit_def js_Number_of_int)

lemma parse_line_quota_line:
  assumes "batchable q"
  shows "parse_line keys (quota_line q) = Inr q"
proof -
  obtain i where i: "0 \<le> i" "i \<le> 2 ^ 53" "qi_api_key_id q = Fin (of_int i)"
    "num_to_string (qi_api_key_id q) = int_to_string i"
    using assms by (rule batchable_key)
  note d = digits_field [OF i(1)] and q = assms [unfolded batchable_def]
  have "apiKeyIdOf keys (int_to_string i) = Some (qi_api_key_id q)"
    using d i by (simp add: apiKeyIdOf_def js_Number_of_int)
  moreover have "int_to_string (qi_limit q) \<noteq> []" using q by (intro digits_field) simp
  moreover have "q = \<lparr>qi_api_key_id = qi_api_key_id q, qi_model_alias = qi_model_alias q,
      qi_quota_type = qi_quota_type q, qi_period = qi_period q, qi_limit = qi_limit q,
      qi_over_action = qi_over_action q, qi_degrade_alias = None, qi_enabled = True\<rparr>"
    using q by simp
  ultimately show ?thesis
    using enum_fields q
    by (simp add: parse_line_def quota_line_parts(1) [OF assms] quota_line_fields_def i(4)
        parse_fields_def batch_limit_of_int)
qed

lemma batch_lines_quota_lines:
  assumes "list_all batchable qs" "qs \<noteq> []"
  shows "batch_lines (join [10] (map quota_line qs)) = map quota_line qs"
proof -
  have "split_on (\<lambda>u. u = 10) (join [10] (map quota_line qs)) = map quota_line qs"
    using assms quota_line_parts(2) by (intro split_on_join) (auto simp: list_all_iff)
  moreover have "map trim (map quota_line qs) = map quota_line qs"
    using assms(1) quota_line_parts(3) by (auto simp: list_all_iff)
  moreover have "filter (\<lambda>l. l \<noteq> [] \<and> \<not> starts_with l (js ''#'')) (map quota_line qs) = map quota_line qs"
    using assms(1) quota_line_parts(4,5) by (auto simp: list_all_iff filter_id_conv)
  ultimately show ?thesis by (simp add: batch_lines_def del: map_map)
qed

text \<open>C29: writing quotas as lines and parsing the text gives them back, in their order and without a
  complaint, for every list of quotas a line can express.\<close>

theorem batch_roundtrip:
  assumes "list_all batchable qs" "qs \<noteq> []"
  shows "parseBatch t keys (join [10] (map quota_line qs)) = ([], qs)"
proof -
  note ls = batch_lines_quota_lines [OF assms]
  have "parse_line keys l = Inr (projr (parse_line keys l))" if "l \<in> set (map quota_line qs)" for l
    using that assms(1) parse_line_quota_line by (auto simp: list_all_iff)
  with ls assms(2) have "parseBatch t keys (join [10] (map quota_line qs))
      = ([], map (\<lambda>l. projr (parse_line keys l)) (map quota_line qs))"
    by (subst parseBatch_ok) auto
  moreover have "map (\<lambda>l. projr (parse_line keys l)) (map quota_line qs) = qs"
    using assms(1) parse_line_quota_line by (auto simp: list_all_iff intro: map_idI)
  ultimately show ?thesis by simp
qed

definition sample_quota :: QuotaInput where
  "sample_quota = \<lparr>qi_api_key_id = Fin 7, qi_model_alias = js ''gpt'', qi_quota_type = QT_tokens,
     qi_period = QP_week, qi_limit = 1000, qi_over_action = OA_reject, qi_degrade_alias = None, qi_enabled = True\<rparr>"

lemma batch_roundtrip_witness:
  "parseBatch (\<lambda>k a. k) [] (js ''7,gpt,tokens,week,1000,reject'') = ([], [sample_quota])"
proof -
  have "list_all batchable [sample_quota]" by code_simp
  moreover have "join [10] (map quota_line [sample_quota]) = js ''7,gpt,tokens,week,1000,reject''" by code_simp
  ultimately show ?thesis using batch_roundtrip [of "[sample_quota]" "\<lambda>k a. k" "[]"] by simp
qed

end
