(* ===== verification/StatusPages.thy ===== *)
theory StatusPages
  imports View Crud
begin

text \<open>
  The pages frontend/src/pages/settings/Backup.tsx, ConfigStatus.tsx and RuntimeStatus.tsx: backups
  and their restoration, the state of the loaded configuration, and the health of the service.
\<close>

section \<open>Backups\<close>

text \<open>
  \<open>bp_file\<close> is the name and text of the chosen file, \<open>bp_notice\<close> the title and text of the box that
  announces a success. \<open>bp_confirm\<close> is the restoration whose question is open (\<open>modal.confirm\<close>),
  \<open>bp_question\<close> the number of that question and \<open>bp_waiting\<close> whether its button waits for the promise of
  \<open>onOk\<close>: antd then ignores the button, closes the question when the promise is resolved, and offers
  the button again when it is rejected.
\<close>

record BackupPage =
  bp_pasteOpen :: bool
  bp_pasteContent :: jsstring
  bp_file :: "(jsstring \<times> jsstring) option"
  bp_confirm :: "BackupRestoreBody option"
  bp_question :: nat
  bp_waiting :: bool
  bp_notice :: "(jsstring \<times> jsstring) option"
  bp_stale :: bool

definition backup_initial :: BackupPage where
  "backup_initial = \<lparr>bp_pasteOpen = False, bp_pasteContent = [], bp_file = None, bp_confirm = None,
     bp_question = 0, bp_waiting = False, bp_notice = None, bp_stale = False\<rparr>"

definition backup_created :: "translate \<Rightarrow> 'a outcome \<Rightarrow> BackupPage \<Rightarrow> World \<Rightarrow> BackupPage \<times> World" where
  "backup_created t out s w =
     (case out of
        Resolved _ \<Rightarrow> (s\<lparr>bp_stale := True\<rparr>, toast (T_success (t (js ''backup.created'') [])) w)
      | Rejected _ \<Rightarrow> (s, w))"

definition backup_removed :: "translate \<Rightarrow> 'a outcome \<Rightarrow> BackupPage \<Rightarrow> World \<Rightarrow> BackupPage \<times> World" where
  "backup_removed t out s w =
     (case out of
        Resolved _ \<Rightarrow> (s\<lparr>bp_stale := True\<rparr>, toast (T_success (t (js ''common.deleteSuccess'') [])) w)
      | Rejected _ \<Rightarrow> (s, w))"

definition backup_restored :: "translate \<Rightarrow> 'a outcome \<Rightarrow> BackupPage \<Rightarrow> BackupPage" where
  "backup_restored t out s =
     (case out of
        Resolved _ \<Rightarrow> s\<lparr>bp_notice := Some (t (js ''backup.restoreOk'') [], t (js ''backup.restoreOkContent'') []),
                        bp_pasteOpen := False, bp_pasteContent := [], bp_file := None, bp_stale := True\<rparr>
      | Rejected _ \<Rightarrow> s)"

text \<open>\<open>confirmRestore(id, content)\<close> asks; \<open>onOk\<close> sends the body it was opened with.\<close>

definition restore_body :: "int option \<Rightarrow> jsstring option \<Rightarrow> BackupRestoreBody" where
  "restore_body i content =
     (case i of Some _ \<Rightarrow> \<lparr>br_id = i, br_content = None\<rparr> | None \<Rightarrow> \<lparr>br_id = None, br_content = content\<rparr>)"

definition confirmRestore :: "int option \<Rightarrow> jsstring option \<Rightarrow> BackupPage \<Rightarrow> BackupPage" where
  "confirmRestore i content s =
     s\<lparr>bp_confirm := Some (restore_body i content), bp_question := Suc (bp_question s), bp_waiting := False\<rparr>"

definition confirm_ok :: "BackupPage \<Rightarrow> BackupPage \<times> request option" where
  "confirm_ok s =
     (case bp_confirm s of
        Some b \<Rightarrow> if bp_waiting s then (s, None) else (s\<lparr>bp_waiting := True\<rparr>, Some (backupApi_restore b))
      | None \<Rightarrow> (s, None))"

text \<open>The promise of the \<open>n\<close>-th question, after the handlers of the mutation have run.\<close>

definition confirm_settled :: "translate \<Rightarrow> nat \<Rightarrow> 'a outcome \<Rightarrow> BackupPage \<Rightarrow> BackupPage" where
  "confirm_settled t n out s =
     (let s' = backup_restored t out s in
      if n \<noteq> bp_question s then s'
      else case out of
        Resolved _ \<Rightarrow> s'\<lparr>bp_confirm := None, bp_waiting := False\<rparr>
      | Rejected _ \<Rightarrow> s'\<lparr>bp_waiting := False\<rparr>)"

definition confirm_cancel :: "BackupPage \<Rightarrow> BackupPage" where
  "confirm_cancel s = s\<lparr>bp_confirm := None, bp_waiting := False\<rparr>"

definition backup_restore_row :: "BackupItem \<Rightarrow> BackupPage \<Rightarrow> BackupPage" where
  "backup_restore_row r = confirmRestore (Some (bk_id r)) None"

definition backup_openPaste :: "BackupPage \<Rightarrow> BackupPage" where
  "backup_openPaste s = s\<lparr>bp_pasteOpen := True\<rparr>"

text \<open>The cross of the dialog and its cancel button.\<close>

definition backup_closePaste :: "BackupPage \<Rightarrow> BackupPage" where
  "backup_closePaste s = s\<lparr>bp_pasteOpen := False, bp_file := None\<rparr>"

definition backup_cancelPaste :: "BackupPage \<Rightarrow> BackupPage" where
  "backup_cancelPaste s = s\<lparr>bp_pasteOpen := False\<rparr>"

text \<open>The file reader has read a file; the file is removed; text is typed, which the page offers only
  without a file.\<close>

definition file_loaded :: "jsstring \<Rightarrow> jsstring \<Rightarrow> BackupPage \<Rightarrow> BackupPage" where
  "file_loaded name content s = s\<lparr>bp_file := Some (name, content)\<rparr>"

definition file_removed :: "BackupPage \<Rightarrow> BackupPage" where
  "file_removed s = s\<lparr>bp_file := None\<rparr>"

definition paste_change :: "jsstring \<Rightarrow> BackupPage \<Rightarrow> BackupPage" where
  "paste_change v s = (if bp_file s = None then s\<lparr>bp_pasteContent := v\<rparr> else s)"

definition start_disabled :: "BackupPage \<Rightarrow> bool" where
  "start_disabled s \<longleftrightarrow> bp_file s = None \<and> trim (bp_pasteContent s) = []"

definition restore_start :: "BackupPage \<Rightarrow> BackupPage" where
  "restore_start s =
     (if start_disabled s then s
      else confirmRestore None (Some (or_else (map_option snd (bp_file s)) (bp_pasteContent s))) s)"

definition backup_columns :: "Ui \<Rightarrow> BackupItem column list" where
  "backup_columns u =
     [col (js ''ID'') (Some 60) (\<lambda>r. plain_tag (int_to_string (bk_id r))),
      col (tr u ''backup.colFilename'') None (\<lambda>r. Txt (bk_filename r)),
      col (tr u ''backup.colSize'') (Some 110) (\<lambda>r. Txt (fmtBytes (Some (Fin (of_int (bk_size_bytes r)))))),
      col (tr u ''common.createdAt'') (Some 180) (\<lambda>r. Txt (show_time u (Some (bk_created_at r)))),
      col (tr u ''common.action'') (Some 260) (\<lambda>r. Acts
        [Act_button (tr u ''backup.download'') False, Act_button (tr u ''backup.restore'') False,
         Act_confirm (tr u ''common.delete'') (tr u ''backup.deleteTitle'')
           (tr_with u ''backup.deleteConfirm'' [(''filename'', bk_filename r)]) False])]"

section \<open>Configuration status\<close>

text \<open>\<open>csp_timers\<close> counts the delayed refreshes that have not fired yet.\<close>

record ConfigStatusPage =
  csp_historyOpen :: bool
  csp_timers :: nat
  csp_stale :: bool
  csp_notice :: "(jsstring \<times> jsstring) option"

definition config_status_initial :: ConfigStatusPage where
  "config_status_initial = \<lparr>csp_historyOpen = False, csp_timers = 0, csp_stale = False, csp_notice = None\<rparr>"

definition reload_settled :: "translate \<Rightarrow> 'a outcome \<Rightarrow> ConfigStatusPage \<Rightarrow> World \<Rightarrow> ConfigStatusPage \<times> World" where
  "reload_settled t out s w =
     (case out of
        Resolved _ \<Rightarrow> (s\<lparr>csp_timers := Suc (csp_timers s)\<rparr>, toast (T_success (t (js ''cfg.reloadOk'') [])) w)
      | Rejected _ \<Rightarrow> (s, w))"

definition reload_timer :: "ConfigStatusPage \<Rightarrow> ConfigStatusPage" where
  "reload_timer s = (if csp_timers s = 0 then s else s\<lparr>csp_timers := csp_timers s - 1, csp_stale := True\<rparr>)"

definition rollback_settled :: "translate \<Rightarrow> RollbackResult outcome \<Rightarrow> ConfigStatusPage \<Rightarrow> ConfigStatusPage" where
  "rollback_settled t out s =
     (case out of
        Resolved res \<Rightarrow> s\<lparr>csp_notice := Some (t (js ''cfg.rollbackOk'') [],
                            t (js ''cfg.rollbackOkContent'') [(js ''v'', rr_rolled_back_to res)]), csp_stale := True\<rparr>
      | Rejected _ \<Rightarrow> s)"

definition export_settled :: "translate \<Rightarrow> 'a outcome \<Rightarrow> World \<Rightarrow> World" where
  "export_settled t out w =
     (case out of Resolved _ \<Rightarrow> toast (T_success (t (js ''cfg.exportOk'') [])) w | Rejected _ \<Rightarrow> w)"

definition set_historyOpen :: "bool \<Rightarrow> ConfigStatusPage \<Rightarrow> ConfigStatusPage" where
  "set_historyOpen b s = s\<lparr>csp_historyOpen := b\<rparr>"

definition moduleLabel :: "Ui \<Rightarrow> jsstring \<Rightarrow> jsstring" where
  "moduleLabel u k =
     (let key = js ''cfg.mod.'' @ k in if ui_t u key [] \<noteq> key then ui_t u key [] else k)"

definition statusOk :: "ConfigStatus option \<Rightarrow> bool" where
  "statusOk data \<longleftrightarrow> map_option cs_status data = Some (js ''ok'')"

definition load_card :: "Ui \<Rightarrow> ConfigStatus option \<Rightarrow> (jsstring \<times> cell) list" where
  "load_card u data =
     [(tr u ''cfg.version'', Cod (case data of None \<Rightarrow> js ''-'' | Some d \<Rightarrow> cs_version d)),
      (tr u ''cfg.lastLoaded'', Txt (show_time u (map_option cs_last_loaded_at data))),
      (tr u ''cfg.loadStatus'',
       if statusOk data then colored ''success'' (tr u ''cfg.ok'') else colored ''error'' (tr u ''cfg.err'')),
      (tr u ''cfg.modules'',
       Cells (map (\<lambda>(k, v). colored ''blue'' (moduleLabel u k @ js ''('' @ int_to_string v @ js '')''))
                (case data of None \<Rightarrow> [] | Some d \<Rightarrow> cs_modules d)))]"

definition load_alert :: "Ui \<Rightarrow> ConfigStatus option \<Rightarrow> (jsstring \<times> jsstring \<times> jsstring) option" where
  "load_alert u data =
     (case data of
        None \<Rightarrow> None
      | Some d \<Rightarrow> if \<not> statusOk data \<and> cs_error_message d \<noteq> []
                  then Some (tr u ''cfg.loadErr'', cs_error_message d, tr u ''cfg.loadErrHint'') else None)"

text \<open>An entry of the time line: its colour, time, tag and text; without logs the card is empty.\<close>

definition log_line :: "Ui \<Rightarrow> ConfigLoadLog \<Rightarrow> jsstring \<times> jsstring \<times> cell \<times> jsstring" where
  "log_line u l =
     (let ok = ll_status l = js ''success'' in
      (js (if ok then ''green'' else ''red''), fmtTimeShort (ui_day u) (Some (ll_time l)),
       colored (if ok then ''green'' else ''red'') (tr u (if ok then ''cfg.logSuccess'' else ''cfg.logFail'')),
       js ''['' @ moduleLabel u (ll_module l) @ js ''] '' @ ll_message l))"

definition log_card :: "Ui \<Rightarrow> ConfigStatus option \<Rightarrow> jsstring + (jsstring \<times> jsstring \<times> cell \<times> jsstring) list" where
  "log_card u data =
     (case data of
        None \<Rightarrow> Inl (tr u ''cfg.noLogs'')
      | Some d \<Rightarrow> if cs_logs d = [] then Inl (tr u ''cfg.noLogs'') else Inr (map (log_line u) (cs_logs d)))"

definition history_columns :: "Ui \<Rightarrow> ConfigHistory column list" where
  "history_columns u =
     [col (tr u ''cfg.colVersion'') None (\<lambda>r. Cod (ch_version r)),
      col (tr u ''cfg.colTime'') (Some 110) (\<lambda>r. Txt (fmtTimeShort (ui_day u) (Some (ch_created_at r)))),
      col (tr u ''common.status'') (Some 70)
        (\<lambda>r. if ch_status r = js ''ok'' then colored ''green'' (tr u ''cfg.ok'')
             else colored ''red'' (tr u ''cfg.err''))]"

definition history_modal_columns :: "Ui \<Rightarrow> ConfigHistory column list" where
  "history_modal_columns u =
     [col (tr u ''cfg.colVersion'') (Some 180) (\<lambda>r. Txt (ch_version r)),
      col (tr u ''cfg.colTime'') (Some 170) (\<lambda>r. Txt (show_time u (Some (ch_created_at r)))),
      col (tr u ''common.status'') (Some 80) (\<lambda>r. Txt (ch_status r)),
      col (tr u ''cfg.colMessage'') None (\<lambda>r. Txt (ch_message r))]"

section \<open>Runtime status\<close>

definition memMb :: "RuntimeStatus option \<Rightarrow> jsnum" where
  "memMb data =
     (case data of None \<Rightarrow> Fin 0 | Some d \<Rightarrow> round_num (div_num (Fin (of_int (rs_memory_alloc_kb d))) 1024))"

definition running_badge :: "Ui \<Rightarrow> RuntimeStatus option \<Rightarrow> jsstring \<times> jsstring" where
  "running_badge u data =
     (if map_option rs_running data = Some True then (js ''processing'', tr u ''rt.running'')
      else (js ''error'', tr u ''rt.error''))"

datatype stat_value = SV_text jsstring | SV_num jsnum jsstring

definition show_opt_number :: "Ui \<Rightarrow> int option \<Rightarrow> jsstring" where
  "show_opt_number u n = fmtNumber (ui_locale u) (ui_lang u) (map_option (\<lambda>i. Fin (of_int i)) n)"

definition runtime_statistics :: "Ui \<Rightarrow> RuntimeStatus option \<Rightarrow> (jsstring \<times> stat_value) list" where
  "runtime_statistics u data =
     [(tr u ''rt.uptime'', SV_text (fmtDuration (ui_t u) (map_option (\<lambda>d. of_int (rs_uptime_seconds d)) data))),
      (tr u ''rt.memory'', SV_num (memMb data) (js ''MB'')),
      (tr u ''rt.connections'', SV_text (show_opt_number u (map_option rs_open_connections data))),
      (js ''Goroutines'', SV_text (show_opt_number u (map_option rs_goroutines data)))]"

definition upstream_columns :: "Ui \<Rightarrow> UpstreamRuntime column list" where
  "upstream_columns u =
     [col (tr u ''rt.colProvider'') None (\<lambda>r. Txt (ur_provider r)),
      col (tr u ''rt.colHealth'') (Some 90)
        (\<lambda>r. if ur_healthy r then colored ''green'' (tr u ''rt.healthy'') else colored ''red'' (tr u ''rt.breaking'')),
      col (tr u ''rt.colFailCount'') (Some 90) (\<lambda>r. Txt (int_to_string (ur_fail_count r))),
      col (tr u ''rt.colLastError'') None (\<lambda>r. dash (ur_last_error r))]"

definition qps_columns :: "Ui \<Rightarrow> QpsByModel column list" where
  "qps_columns u =
     [col (tr u ''rt.colModel'') None (\<lambda>r. Txt (qm_model r)),
      col (js ''QPS'') (Some 100) (\<lambda>r. colored ''blue'' (num_to_fixed 2 (Fin (qm_qps r)))),
      col (tr u ''rt.colErrors1m'') (Some 130) (\<lambda>r. Txt (int_to_string (qm_errors_1m r)))]"

definition error_line :: "Ui \<Rightarrow> RecentError \<Rightarrow> jsstring \<times> jsstring \<times> jsstring" where
  "error_line u e = (show_time u (Some (re_time e)), take 8 (re_request_id e), re_message e)"

definition errors_card :: "Ui \<Rightarrow> RuntimeStatus option \<Rightarrow> jsstring + (jsstring \<times> jsstring \<times> jsstring) list" where
  "errors_card u data =
     (case data of
        None \<Rightarrow> Inl (tr u ''rt.noErrors'')
      | Some d \<Rightarrow> if rs_recent_errors d = [] then Inl (tr u ''rt.noErrors'')
                  else Inr (map (error_line u) (rs_recent_errors d)))"

definition system_card :: "Ui \<Rightarrow> RuntimeStatus option \<Rightarrow> jsstring \<times> jsstring \<times> cell" where
  "system_card u data =
     ((case data of None \<Rightarrow> js ''-'' | Some d \<Rightarrow> rs_version d),
      tr_with u ''rt.configVersion''
        [(''v'', case data of None \<Rightarrow> js ''-'' | Some d \<Rightarrow> rc_version (rs_config_status d)),
         (''time'', show_time u (map_option (rc_last_loaded_at \<circ> rs_config_status) data))],
      if map_option (rc_status \<circ> rs_config_status) data = Some (js ''ok'') then colored ''green'' (tr u ''rt.cfgOk'')
      else colored ''red'' (tr u ''rt.cfgErr''))"

definition cpu_percent :: "RuntimeStatus option \<Rightarrow> rat" where
  "cpu_percent data = or_else (map_option rs_cpu_percent data) 0"

definition cpu_gauge :: "RuntimeStatus option \<Rightarrow> jsnum \<times> jsstring" where
  "cpu_gauge data =
     (min_num 100 (div_num (round_num (times_num (Fin (cpu_percent data)) 10)) 10),
      num_to_fixed 1 (Fin (cpu_percent data)) @ js ''%'')"

lemmas status_defs [js_eval] = backup_initial_def backup_created_def backup_removed_def backup_restored_def
  restore_body_def confirmRestore_def confirm_ok_def confirm_settled_def confirm_cancel_def backup_restore_row_def
  backup_openPaste_def backup_closePaste_def backup_cancelPaste_def file_loaded_def file_removed_def
  paste_change_def start_disabled_def restore_start_def backup_columns_def config_status_initial_def
  reload_settled_def reload_timer_def rollback_settled_def export_settled_def set_historyOpen_def
  moduleLabel_def statusOk_def load_card_def load_alert_def log_line_def log_card_def
  history_columns_def history_modal_columns_def memMb_def running_badge_def show_opt_number_def
  runtime_statistics_def upstream_columns_def qps_columns_def error_line_def errors_card_def
  system_card_def cpu_percent_def cpu_gauge_def

section \<open>Steps of the backup page\<close>

text \<open>What happens on the page while a question is open, and all that can happen.\<close>

inductive backup_edit :: "translate \<Rightarrow> BackupPage \<Rightarrow> BackupPage \<Rightarrow> bool" for t where
  "backup_edit t s (backup_openPaste s)"
| "backup_edit t s (backup_closePaste s)"
| "backup_edit t s (backup_cancelPaste s)"
| "backup_edit t s (file_loaded name content s)"
| "backup_edit t s (file_removed s)"
| "backup_edit t s (paste_change v s)"
| "backup_edit t s (fst (backup_created t (out :: unit outcome) s w))"
| "backup_edit t s (fst (backup_removed t (out :: unit outcome) s w))"
| "n \<noteq> bp_question s \<Longrightarrow> backup_edit t s (confirm_settled t n (out :: unit outcome) s)"

inductive backup_step :: "translate \<Rightarrow> BackupPage \<Rightarrow> BackupPage \<Rightarrow> bool" for t where
  "backup_edit t s s' \<Longrightarrow> backup_step t s s'"
| "backup_step t s (backup_restore_row r s)"
| "backup_step t s (restore_start s)"
| "backup_step t s (fst (confirm_ok s))"
| "backup_step t s (confirm_settled t n (out :: unit outcome) s)"
| "backup_step t s (confirm_cancel s)"

lemma backup_edit_confirm:
  "backup_edit t s s' \<Longrightarrow> bp_confirm s' = bp_confirm s \<and> bp_waiting s' = bp_waiting s"
  by (induction rule: backup_edit.induct)
    (auto simp: status_defs split: outcome.splits option.splits)

lemma backup_edits_confirm:
  "(backup_edit t)\<^sup>*\<^sup>* s s' \<Longrightarrow> bp_confirm s' = bp_confirm s \<and> bp_waiting s' = bp_waiting s"
  by (induction rule: rtranclp_induct) (simp_all add: backup_edit_confirm)

text \<open>The body of a question names a backup or carries a text, never both and never neither.\<close>

definition one_source :: "BackupPage \<Rightarrow> bool" where
  "one_source s \<longleftrightarrow> (\<forall>b. bp_confirm s = Some b \<longrightarrow> (br_id b = None) \<noteq> (br_content b = None))"

lemma one_source_step: "backup_step t s s' \<Longrightarrow> one_source s \<Longrightarrow> one_source s'"
  by (induction rule: backup_step.induct)
    (auto simp: one_source_def backup_edit_confirm restore_start_def confirmRestore_def restore_body_def
      backup_restore_row_def confirm_ok_def confirm_settled_def backup_restored_def confirm_cancel_def Let_def
      split: option.splits outcome.splits)

lemma one_source_run: "(backup_step t)\<^sup>*\<^sup>* backup_initial s \<Longrightarrow> one_source s"
  by (induction rule: rtranclp_induct) (simp_all add: one_source_def backup_initial_def one_source_step [unfolded one_source_def])

section \<open>Properties\<close>

text \<open>C35: A confirmed restoration restores what was on the page when the question was opened, whatever
  happens meanwhile: the backup of the row, or the text of the chosen file, else the text that was
  pasted, which is not blank. In every reachable state what is sent has exactly one of the two
  sources. While the answer is awaited the button sends nothing more; a failure offers the same
  restoration again, a success closes the question.\<close>

theorem restore_is_what_was_confirmed:
  assumes "(backup_step t)\<^sup>*\<^sup>* backup_initial s" "\<not> start_disabled s"
    and "(backup_edit t)\<^sup>*\<^sup>* (restore_start s) s1" "(backup_edit t)\<^sup>*\<^sup>* (backup_restore_row r s) s2"
  shows "snd (confirm_ok s1) = Some (backupApi_restore \<lparr>br_id = None,
        br_content = Some (case bp_file s of Some (name, content) \<Rightarrow> content | None \<Rightarrow> bp_pasteContent s)\<rparr>)
    \<and> (bp_file s = None \<longrightarrow> trim (bp_pasteContent s) \<noteq> [])
    \<and> snd (confirm_ok s2) = Some (backupApi_restore \<lparr>br_id = Some (bk_id r), br_content = None\<rparr>)
    \<and> (\<forall>rq. snd (confirm_ok s) = Some rq \<longrightarrow>
          (\<exists>b. rq = backupApi_restore b \<and> (br_id b = None) \<noteq> (br_content b = None)))
    \<and> snd (confirm_ok (fst (confirm_ok s1))) = None
    \<and> snd (confirm_ok (confirm_settled t (bp_question s1) (Rejected e :: unit outcome) (fst (confirm_ok s1))))
      = snd (confirm_ok s1)
    \<and> snd (confirm_ok (confirm_settled t (bp_question s1) (Resolved ()) (fst (confirm_ok s1)))) = None"
proof -
  have "bp_confirm s2 = Some \<lparr>br_id = Some (bk_id r), br_content = None\<rparr> \<and> \<not> bp_waiting s2"
    using backup_edits_confirm [OF assms(4)] by (simp add: backup_restore_row_def confirmRestore_def restore_body_def)
  moreover have "bp_confirm s1 = Some \<lparr>br_id = None,
      br_content = Some (or_else (map_option snd (bp_file s)) (bp_pasteContent s))\<rparr> \<and> \<not> bp_waiting s1"
    using backup_edits_confirm [OF assms(3)] assms(2)
    by (simp add: restore_start_def confirmRestore_def restore_body_def)
  moreover have "bp_file s = None \<Longrightarrow> trim (bp_pasteContent s) \<noteq> []"
    using assms(2) by (simp add: start_disabled_def)
  ultimately show ?thesis
    using one_source_run [OF assms(1)]
    by (auto simp: confirm_ok_def confirm_settled_def backup_restored_def one_source_def
      split: option.splits if_splits)
qed

lemma restore_is_what_was_confirmed_witness:
  "snd (confirm_ok (file_removed (restore_start (file_loaded (js ''a.json'') (js ''[]'') backup_initial))))
   = Some (backupApi_restore \<lparr>br_id = None, br_content = Some (js ''[]'')\<rparr>)"
proof -
  let ?t = "\<lambda>k a. k :: jsstring"
  let ?s = "file_loaded (js ''a.json'') (js ''[]'') backup_initial"
  let ?r = "\<lparr>bk_id = 3, bk_filename = [], bk_created_at = [], bk_size_bytes = 0\<rparr>"
  have 1: "(backup_step ?t)\<^sup>*\<^sup>* backup_initial ?s"
    by (intro r_into_rtranclp backup_step.intros(1) backup_edit.intros(4))
  have 2: "\<not> start_disabled ?s" by (simp add: start_disabled_def file_loaded_def)
  have 3: "(backup_edit ?t)\<^sup>*\<^sup>* (restore_start ?s) (file_removed (restore_start ?s))"
    by (intro r_into_rtranclp backup_edit.intros(5))
  show ?thesis
    using restore_is_what_was_confirmed [OF 1 2 3 rtranclp.rtrancl_refl, of ?r] by (auto simp: file_loaded_def)
qed

text \<open>The cancel button of the dialog keeps the file that its cross forgets; an empty file can be
  restored, an empty text cannot.\<close>

lemma cancel_keeps_file: "bp_file (backup_cancelPaste s) = bp_file s" "bp_file (backup_closePaste s) = None"
  by (simp_all add: backup_cancelPaste_def backup_closePaste_def)

lemma empty_file_enables: "\<not> start_disabled (file_loaded name [] s)"
  by (simp add: start_disabled_def file_loaded_def)

text \<open>Until data arrive the card of the configuration shows its status as failed.\<close>

lemma unknown_shown_as_error: "map snd (load_card u None) ! 2 = colored ''error'' (tr u ''cfg.err'')"
  by (simp add: load_card_def statusOk_def)

end
