(* ===== verification/BodyTypes.thy ===== *)
theory BodyTypes
  imports Forms ConfigPages ApiKeys QuotaBatch LoginPages AccountSecurity StatusPages
begin

text \<open>
  The types of the bodies the console sends, in the terms of the server's contract
  (frontend/src/api/types.ts): which fields a body has, which of them may be missing, and which
  literals a field may hold, taken from the dictionaries the selects offer.
\<close>

datatype jtype = JT_bool | JT_str | JT_num | JT_int "int option" | JT_enum "DictMeta list" | JT_list jtype
  | JT_obj "(string \<times> bool \<times> jtype) list"

text \<open>A field is its name, whether it must be there, and its type; no other field may be there.\<close>

function conforms :: "jtype \<Rightarrow> json \<Rightarrow> bool" where
  "conforms JT_bool j = (case j of JBool b \<Rightarrow> True | _ \<Rightarrow> False)"
| "conforms JT_str j = (case j of JStr s \<Rightarrow> True | _ \<Rightarrow> False)"
| "conforms JT_num j = (case j of JNum x \<Rightarrow> True | _ \<Rightarrow> False)"
| "conforms (JT_int lo) j =
     (case j of JNum x \<Rightarrow> of_int \<lfloor>x\<rfloor> = x \<and> (case lo of None \<Rightarrow> True | Some l \<Rightarrow> of_int l \<le> x) | _ \<Rightarrow> False)"
| "conforms (JT_enum metas) j = (case j of JStr s \<Rightarrow> s \<in> set (map fst metas) | _ \<Rightarrow> False)"
| "conforms (JT_list ty) j = (case j of JArr xs \<Rightarrow> list_all (conforms ty) xs | _ \<Rightarrow> False)"
| "conforms (JT_obj fs) j =
     (case j of
        JObj kvs \<Rightarrow>
          (\<forall>f \<in> set fs. case map_of kvs (js (fst f)) of
               None \<Rightarrow> \<not> fst (snd f)
             | Some v \<Rightarrow> conforms (snd (snd f)) v)
          \<and> list_all (\<lambda>kv. list_ex (\<lambda>f. fst kv = js (fst f)) fs) kvs
      | _ \<Rightarrow> False)"
  by pat_completeness auto
termination
proof (relation "measure (\<lambda>(ty, j). size ty)")
  fix fs :: "(string \<times> bool \<times> jtype) list" and j f and kvs :: "(jsstring \<times> json) list" and v
  assume "f \<in> set fs"
  then have "size_prod (\<lambda>_. 0) (size_prod (\<lambda>_. 0) size) f \<le> size_list (size_prod (\<lambda>_. 0) (size_prod (\<lambda>_. 0) size)) fs"
    by (rule size_list_estimation') simp
  then show "((snd (snd f), v), (JT_obj fs, j)) \<in> measure (\<lambda>(ty, j). size ty)"
    by (cases f) simp
qed auto











definition role_meta :: "DictMeta list" where
  "role_meta = [(js ''admin'', None), (js ''viewer'', None)]"



definition role_type :: jtype where
  "role_type = JT_obj [(''role'', True, JT_enum role_meta)]"

definition mfa_required_type :: jtype where
  "mfa_required_type = JT_obj [(''mfa_required'', True, JT_bool)]"








definition text_type :: "string \<Rightarrow> jtype" where
  "text_type n = JT_obj [(n, True, JT_str)]"




definition body_has :: "jtype \<Rightarrow> request \<Rightarrow> bool" where
  "body_has ty rq \<longleftrightarrow> (case rq_data rq of None \<Rightarrow> False | Some j \<Rightarrow> conforms ty j)"


section \<open>Who sends a body\<close>


section \<open>Bodies of the contract\<close>

lemma enum_values:
  "ProviderProtocol_str a \<in> set (map fst PROTOCOL_META)" "KeywordCategory_str b \<in> set (map fst KEYWORD_CATEGORY_META)"
  "MatchMode_str c \<in> set (map fst MATCH_MODE_META)" "RuleAction_str d \<in> set (map fst ACTION_META)"
  "BackoffStrategy_str e \<in> set (map fst BACKOFF_META)" "AlertChannel_str f \<in> set (map fst ALERT_CHANNEL_META)"
  "ViolationStrategy_str g \<in> set (map fst VIOLATION_STRATEGY_META)"
  "QuotaType_str h \<in> set (map fst QUOTA_TYPE_META)" "QuotaPeriod_str k \<in> set (map fst PERIOD_META)"
  "OverAction_str l \<in> set (map fst OVER_ACTION_META)" "LogLevel_str m \<in> set (map fst LOG_LEVEL_META)"
  "Role_str n \<in> set (map fst role_meta)"
proof -
  show "QuotaType_str h \<in> set (map fst QUOTA_TYPE_META)" by (cases h) (simp_all add: dict_defs)
  show "QuotaPeriod_str k \<in> set (map fst PERIOD_META)" by (cases k) (simp_all add: dict_defs)
  show "OverAction_str l \<in> set (map fst OVER_ACTION_META)" by (cases l) (simp_all add: dict_defs)
  show "LogLevel_str m \<in> set (map fst LOG_LEVEL_META)" by (cases m) (simp_all add: dict_defs)
  show "Role_str n \<in> set (map fst role_meta)" by (cases n) (simp_all add: role_meta_def)
  show "ProviderProtocol_str a \<in> set (map fst PROTOCOL_META)" by (cases a) (simp_all add: dict_defs)
  show "KeywordCategory_str b \<in> set (map fst KEYWORD_CATEGORY_META)" by (cases b) (simp_all add: dict_defs)
  show "MatchMode_str c \<in> set (map fst MATCH_MODE_META)" by (cases c) (simp_all add: dict_defs)
  show "RuleAction_str d \<in> set (map fst ACTION_META)" by (cases d) (simp_all add: dict_defs)
  show "BackoffStrategy_str e \<in> set (map fst BACKOFF_META)" by (cases e) (simp_all add: dict_defs)
  show "AlertChannel_str f \<in> set (map fst ALERT_CHANNEL_META)" by (cases f) (simp_all add: dict_defs)
  show "ViolationStrategy_str g \<in> set (map fst VIOLATION_STRATEGY_META)" by (cases g) (simp_all add: dict_defs)
qed

lemma conforms_int [simp]: "conforms (JT_int lo) (int_json i) \<longleftrightarrow> (case lo of None \<Rightarrow> True | Some l \<Rightarrow> l \<le> i)"
  by (simp add: int_json_def split: option.splits)

declare conforms.simps(4) [simp del]











lemma text_typed: "conforms (text_type n) (obj [(n, Some (JStr v))])"
  by (simp add: text_type_def obj_def)

lemma row_typed: "conforms role_type (obj [(''role'', Some (JStr (Role_str x)))])"
  "conforms mfa_required_type (obj [(''mfa_required'', Some (JBool b))])"
  using enum_values(12) by (auto simp: role_type_def mfa_required_type_def obj_def)

















text \<open>The functions of the client put exactly the body they are given into the request.\<close>

lemma body_of_api [simp]:
  "body_has ty (providerApi_create b1) \<longleftrightarrow> conforms ty (ProviderInput_json b1)"
  "body_has ty (providerApi_update i b1) \<longleftrightarrow> conforms ty (ProviderInput_json b1)"
  "body_has ty (providerApi_importModels i b2) \<longleftrightarrow> conforms ty (ProviderImportInput_json b2)"
  "body_has ty (modelApi_create b3) \<longleftrightarrow> conforms ty (ModelAliasInput_json b3)"
  "body_has ty (modelApi_update i b3) \<longleftrightarrow> conforms ty (ModelAliasInput_json b3)"
  "body_has ty (keywordApi_create b4) \<longleftrightarrow> conforms ty (KeywordInput_json b4)"
  "body_has ty (keywordApi_update i b4) \<longleftrightarrow> conforms ty (KeywordInput_json b4)"
  "body_has ty (piiApi_create b5) \<longleftrightarrow> conforms ty (PiiRuleInput_json b5)"
  "body_has ty (piiApi_update i b5) \<longleftrightarrow> conforms ty (PiiRuleInput_json b5)"
  "body_has ty (injectionApi_create b6) \<longleftrightarrow> conforms ty (InjectionRuleInput_json b6)"
  "body_has ty (injectionApi_update i b6) \<longleftrightarrow> conforms ty (InjectionRuleInput_json b6)"
  "body_has ty (quotaApi_create b7) \<longleftrightarrow> conforms ty (QuotaInput_json b7)"
  "body_has ty (quotaApi_update i b7) \<longleftrightarrow> conforms ty (QuotaInput_json b7)"
  "body_has ty (rateLimitApi_create b8) \<longleftrightarrow> conforms ty (RateLimitInput_json b8)"
  "body_has ty (rateLimitApi_update i b8) \<longleftrightarrow> conforms ty (RateLimitInput_json b8)"
  "body_has ty (quotaAlertApi_save b9) \<longleftrightarrow> conforms ty (QuotaAlertConfig_json b9)"
  "body_has ty (outputApi_save c1) \<longleftrightarrow> conforms ty (OutputConfig_json c1)"
  "body_has ty (failoverApi_save c2) \<longleftrightarrow> conforms ty (FailoverConfig_json c2)"
  by (simp_all add: body_has_def providerApi_create_def providerApi_update_def providerApi_importModels_def
      modelApi_create_def modelApi_update_def keywordApi_create_def keywordApi_update_def piiApi_create_def
      piiApi_update_def injectionApi_create_def injectionApi_update_def quotaApi_create_def quotaApi_update_def
      rateLimitApi_create_def rateLimitApi_update_def quotaAlertApi_save_def outputApi_save_def failoverApi_save_def)

lemma body_of_session_api [simp]:
  "body_has ty (apikeyApi_create b1) \<longleftrightarrow> conforms ty (ApiKeyCreateBody_json b1)"
  "body_has ty (apikeyApi_update i b2) \<longleftrightarrow> conforms ty (ApiKeyUpdateBody_json b2)"
  "body_has ty (userApi_create b3) \<longleftrightarrow> conforms ty (UserCreateBody_json b3)"
  "body_has ty (userApi_changePassword i b4) \<longleftrightarrow> conforms ty (UserChangePasswordBody_json b4)"
  "body_has ty (authApi_changePassword b5) \<longleftrightarrow> conforms ty (ChangePasswordBody_json b5)"
  "body_has ty (authApi_login b6) \<longleftrightarrow> conforms ty (LoginBody_json b6)"
  "body_has ty (backupApi_restore b7) \<longleftrightarrow> conforms ty (BackupRestoreBody_json b7)"
  by (simp_all add: body_has_def apikeyApi_create_def apikeyApi_update_def userApi_create_def userApi_changePassword_def
      authApi_changePassword_def authApi_login_def backupApi_restore_def)

lemma body_of_field_api [simp]:
  "body_has role_type (userApi_changeRole i c1)" "body_has mfa_required_type (userApi_setMfaRequired i c2)"
  "body_has (text_type ''code'') (accountMfaApi_enable c3)" "body_has (text_type ''code'') (accountMfaApi_disable c4)"
  "body_has (text_type ''csv'') (keywordApi_importCsv x)" "body_has (text_type ''text'') (keywordApi_test x)"
  "body_has (text_type ''text'') (piiApi_test x)"
  by (simp_all add: body_has_def userApi_changeRole_def userApi_setMfaRequired_def accountMfaApi_enable_def
      accountMfaApi_disable_def keywordApi_importCsv_def keywordApi_test_def piiApi_test_def text_typed row_typed)





section \<open>Properties\<close>



end
