(* ===== verification/ListPages.thy ===== *)
theory ListPages
  imports Providers RateLimits Models Quotas Keywords PiiRules InjectionRules
begin

text \<open>
  What the seven list pages have in common, page by page: the laws of \<open>crud_page\<close> written out over the
  operations of each page.
\<close>

definition put_on :: "jsstring \<Rightarrow> request \<Rightarrow> bool" where
  "put_on url rq \<longleftrightarrow> rq_method rq = M_put \<and> rq_url rq = url"

definition post_on :: "jsstring \<Rightarrow> request \<Rightarrow> bool" where
  "post_on url rq \<longleftrightarrow> rq_method rq = M_post \<and> rq_url rq = url"

text \<open>
  The contract of a dialog over rows: an edit that changes nothing writes the row back as it is; what is
  typed into an edit dialog goes to the row it was opened for; what is typed into a creation dialog is
  posted to the list; an untouched creation dialog sends nothing.
\<close>

definition dialog_contract ::
  "('r \<Rightarrow> ('r, 'f) CrudPage \<Rightarrow> ('r, 'f) CrudPage) \<Rightarrow> (('r, 'f) CrudPage \<Rightarrow> ('r, 'f) CrudPage) \<Rightarrow>
   (('r, 'f) CrudPage \<Rightarrow> request option) \<Rightarrow> ('r \<Rightarrow> jsstring) \<Rightarrow> jsstring \<Rightarrow> ('r \<Rightarrow> bool) \<Rightarrow> ('r \<Rightarrow> request) \<Rightarrow> bool" where
  "dialog_contract openEdit openCreate submit row_url list_url clean write_back \<longleftrightarrow>
     (\<forall>r s. clean r \<longrightarrow> submit (openEdit r s) = Some (write_back r))
   \<and> (\<forall>r s f rq. submit (crud_input f (openEdit r s)) = Some rq \<longrightarrow> put_on (row_url r) rq)
   \<and> (\<forall>s f rq. submit (crud_input f (openCreate s)) = Some rq \<longrightarrow> post_on list_url rq)
   \<and> (\<forall>s. submit (openCreate s) = None)"

lemma dialog_contractI:
  assumes "\<And>r s. openEdit r s = crud_openEdit prefill r s" "\<And>s. openCreate s = crud_openCreate blank s"
    and "\<And>s. submit s = crud_submit ident (body (cr_editing s \<noteq> None)) upd crt s"
    and "\<And>r. clean r \<Longrightarrow> map_option (upd (ident r)) (body True (prefill r)) = Some (write_back r)"
    and "\<And>r b. put_on (row_url r) (upd (ident r) b)" "\<And>b. post_on list_url (crt b)" "body False blank = None"
  shows "dialog_contract openEdit openCreate submit row_url list_url clean write_back"
  using assms(4-7) unfolding dialog_contract_def assms(1-3) by (auto simp: crud_defs)

lemmas write_addresses = providerApi_update_def providerApi_create_def rateLimitApi_update_def
  rateLimitApi_create_def modelApi_update_def modelApi_create_def quotaApi_update_def quotaApi_create_def
  keywordApi_update_def keywordApi_create_def piiApi_update_def piiApi_create_def injectionApi_update_def
  injectionApi_create_def put_on_def post_on_def

lemma providers_contract:
  "dialog_contract providers_openEdit providers_openCreate (providers_handleOk is_url)
      (\<lambda>r. path_id ''/providers/'' (prov_id r) '''') (js ''/providers'') (provider_clean is_url) (\<lambda>r. providers_toggleEnabled r (prov_enabled r))"
  by (rule dialog_contractI [where ident = prov_id and prefill = providers_prefill and blank = providers_blank
        and body = "\<lambda>e v. if validateFields (\<lambda>u. providers_form u is_url e) v then Some (providers_body v) else None"
        and upd = providerApi_update and crt = providerApi_create])
    (auto simp: providers_openEdit_def providers_openCreate_def providers_handleOk_def providers_toggleEnabled_def
      providers_validate providers_valid_def providers_body_def providers_prefill_def providers_toggle_body_def providers_blank_def
      provider_clean_def form_defs write_addresses)

lemma rateLimits_contract:
  "dialog_contract rateLimits_openEdit rateLimits_openCreate rateLimits_submit
      (\<lambda>r. path_id ''/rate-limits/'' (rl_id r) '''') (js ''/rate-limits'') rateLimit_clean (\<lambda>r. rateLimits_toggleEnabled r (rl_enabled r))"
  by (rule dialog_contractI [where ident = rl_id and prefill = rateLimits_prefill and blank = rateLimits_blank
        and body = "\<lambda>_. rateLimits_handleSave" and upd = rateLimitApi_update and crt = rateLimitApi_create])
    (simp_all add: rateLimits_openEdit_def rateLimits_openCreate_def rateLimits_submit_def rateLimits_toggleEnabled_def
      rate_limits.prefill_body rate_limits.blank_rejected write_addresses)

lemma models_contract:
  "dialog_contract models_openEdit models_openCreate models_submit
      (\<lambda>r. path_id ''/models/'' (ma_id r) '''') (js ''/models'') model_clean (\<lambda>r. models_toggleEnabled r (ma_enabled r))"
  by (rule dialog_contractI [where ident = ma_id and prefill = models_prefill and blank = models_blank
        and body = "\<lambda>_. models_handleOk" and upd = modelApi_update and crt = modelApi_create])
    (simp_all add: models_openEdit_def models_openCreate_def models_submit_def models_toggleEnabled_def
      model_list.prefill_body model_list.blank_rejected write_addresses)

lemma quotas_contract:
  "dialog_contract quotas_openEdit quotas_openCreate quotas_submit
      (\<lambda>r. path_id ''/quotas/'' (q_id r) '''') (js ''/quotas'') quota_clean (\<lambda>r. quotas_toggleEnabled r (q_enabled r))"
  by (rule dialog_contractI [where ident = q_id and prefill = quotas_prefill and blank = quotas_blank
        and body = "\<lambda>_. quotas_handleSave" and upd = quotaApi_update and crt = quotaApi_create])
    (simp_all add: quotas_openEdit_def quotas_openCreate_def quotas_submit_def quotas_toggleEnabled_def
      quota_list.prefill_body quota_list.blank_rejected write_addresses)

lemma keywords_contract:
  "dialog_contract keywords_openEdit keywords_openCreate keywords_submit
      (\<lambda>r. path_id ''/guard/keywords/'' (kw_id r) '''') (js ''/guard/keywords'') keyword_clean (\<lambda>r. keywords_toggleEnabled r (kw_enabled r))"
  by (rule dialog_contractI [where ident = kw_id and prefill = keywords_prefill and blank = keywords_blank
        and body = "\<lambda>_. keywords_handleSave" and upd = keywordApi_update and crt = keywordApi_create])
    (simp_all add: keywords_openEdit_def keywords_openCreate_def keywords_submit_def keywords_toggleEnabled_def
      keyword_list.prefill_body keyword_list.blank_rejected write_addresses)

lemma pii_contract:
  "dialog_contract pii_openEdit pii_openCreate pii_submit
      (\<lambda>r. path_id ''/guard/pii-rules/'' (pr_id r) '''') (js ''/guard/pii-rules'') pii_clean (\<lambda>r. pii_toggleEnabled r (pr_enabled r))"
  by (rule dialog_contractI [where ident = pr_id and prefill = pii_prefill and blank = pii_blank
        and body = "\<lambda>_. pii_handleSave" and upd = piiApi_update and crt = piiApi_create])
    (simp_all add: pii_openEdit_def pii_openCreate_def pii_submit_def pii_toggleEnabled_def
      pii_rules.prefill_body pii_rules.blank_rejected write_addresses)

lemma injection_contract:
  "dialog_contract injection_openEdit injection_openCreate injection_submit
      (\<lambda>r. path_id ''/guard/injection-rules/'' (ir_id r) '''') (js ''/guard/injection-rules'') injection_clean (\<lambda>r. injection_toggleEnabled r (ir_enabled r))"
  by (rule dialog_contractI [where ident = ir_id and prefill = injection_prefill and blank = injection_blank
        and body = "\<lambda>_. injection_handleSave" and upd = injectionApi_update and crt = injectionApi_create])
    (simp_all add: injection_openEdit_def injection_openCreate_def injection_submit_def injection_toggleEnabled_def
      injection_rules.prefill_body injection_rules.blank_rejected write_addresses)

section \<open>Properties\<close>

text \<open>C17: The dialogs of all seven list pages keep one contract: opening a clean row and saving it unchanged
  writes it back as it is; a save from an edit dialog is a PUT on the row it was opened for, whatever was
  typed and whatever the page did before; a save from a creation dialog is a POST on the list; and an
  untouched creation dialog sends nothing.\<close>

theorem list_dialogs_contract:
  "dialog_contract providers_openEdit providers_openCreate (providers_handleOk is_url)
      (\<lambda>r. path_id ''/providers/'' (prov_id r) '''') (js ''/providers'') (provider_clean is_url) (\<lambda>r. providers_toggleEnabled r (prov_enabled r))
   \<and> dialog_contract rateLimits_openEdit rateLimits_openCreate rateLimits_submit
      (\<lambda>r. path_id ''/rate-limits/'' (rl_id r) '''') (js ''/rate-limits'') rateLimit_clean (\<lambda>r. rateLimits_toggleEnabled r (rl_enabled r))
   \<and> dialog_contract models_openEdit models_openCreate models_submit
      (\<lambda>r. path_id ''/models/'' (ma_id r) '''') (js ''/models'') model_clean (\<lambda>r. models_toggleEnabled r (ma_enabled r))
   \<and> dialog_contract quotas_openEdit quotas_openCreate quotas_submit
      (\<lambda>r. path_id ''/quotas/'' (q_id r) '''') (js ''/quotas'') quota_clean (\<lambda>r. quotas_toggleEnabled r (q_enabled r))
   \<and> dialog_contract keywords_openEdit keywords_openCreate keywords_submit
      (\<lambda>r. path_id ''/guard/keywords/'' (kw_id r) '''') (js ''/guard/keywords'') keyword_clean (\<lambda>r. keywords_toggleEnabled r (kw_enabled r))
   \<and> dialog_contract pii_openEdit pii_openCreate pii_submit
      (\<lambda>r. path_id ''/guard/pii-rules/'' (pr_id r) '''') (js ''/guard/pii-rules'') pii_clean (\<lambda>r. pii_toggleEnabled r (pr_enabled r))
   \<and> dialog_contract injection_openEdit injection_openCreate injection_submit
      (\<lambda>r. path_id ''/guard/injection-rules/'' (ir_id r) '''') (js ''/guard/injection-rules'') injection_clean (\<lambda>r. injection_toggleEnabled r (ir_enabled r))"
  by (intro conjI providers_contract rateLimits_contract models_contract quotas_contract
      keywords_contract pii_contract injection_contract)

end
