(* ===== verification/LogPages.thy ===== *)
theory LogPages
  imports View Endpoints JsonView
begin

text \<open>
  The pages frontend/src/pages/audit/Calls.tsx and Operations.tsx: logs with filters that are typed
  first and applied by the search button, their tables, the export, the detail of a call and the
  comparison of an operation. The date library is the parameter \<open>iso_text\<close> (\<open>toISOString\<close>). The locale
  \<open>filter_page\<close> is the contract of a page whose filters are applied by a button.
\<close>

section \<open>Pages with filters that are applied\<close>

locale filter_page =
  fixes typed :: "'s \<Rightarrow> 'f"
    and query :: "'s \<Rightarrow> request"
    and request_for :: "int \<Rightarrow> int \<Rightarrow> 'f \<Rightarrow> request"
    and size_of :: "'s \<Rightarrow> int"
    and export :: "'s \<Rightarrow> download"
    and export_for :: "int \<Rightarrow> int \<Rightarrow> 'f \<Rightarrow> download"
    and input :: "('f \<Rightarrow> 'f) \<Rightarrow> 's \<Rightarrow> 's"
    and search :: "'s \<Rightarrow> 's"
  assumes typed_input: "typed (input g s) = g (typed s)"
    and query_input: "query (input g s) = query s"
    and size_input: "size_of (input g s) = size_of s"
    and query_search: "query (search s) = request_for 1 (size_of s) (typed s)"
    and export_input: "export (input g s) = export s"
    and export_search: "export (search s) = export_for 1 (size_of s) (typed s)"
begin

text \<open>Whatever is typed, the list asked for and the file exported stay the same until the search.\<close>

lemma typing_keeps_query: "query (fold input gs s) = query s" "export (fold input gs s) = export s"
  by (induction gs arbitrary: s) (simp_all add: query_input export_input)

lemma typing_accumulates: "typed (fold input gs s) = fold id gs (typed s) \<and> size_of (fold input gs s) = size_of s"
  by (induction gs arbitrary: s) (simp_all add: typed_input size_input)

text \<open>The search asks for the first page of exactly what has been typed, and so does the export after it.\<close>

lemma search_applies:
  "query (search (fold input gs s)) = request_for 1 (size_of s) (fold id gs (typed s))"
  "export (search (fold input gs s)) = export_for 1 (size_of s) (fold id gs (typed s))"
  by (simp_all add: query_search export_search typing_accumulates)

end

type_synonym 'd date_range = "('d option \<times> 'd option) option"

text \<open>\<open>if (range?.[0]) p.start = range[0].toISOString()\<close>, and the same of the end.\<close>

definition range_start :: "('d \<Rightarrow> jsstring) \<Rightarrow> 'd date_range \<Rightarrow> jsstring option" where
  "range_start iso_text r = (case r of Some (Some d, _) \<Rightarrow> Some (iso_text d) | _ \<Rightarrow> None)"

definition range_end :: "('d \<Rightarrow> jsstring) \<Rightarrow> 'd date_range \<Rightarrow> jsstring option" where
  "range_end iso_text r = (case r of Some (_, Some d) \<Rightarrow> Some (iso_text d) | _ \<Rightarrow> None)"

section \<open>Calls\<close>

text \<open>A status of None is the empty string of the source.\<close>

record 'd CallFilters =
  cfl_range :: "'d date_range"
  cfl_api_key_id :: "int option"
  cfl_model :: jsstring
  cfl_status :: "CallStatus option"
  cfl_blocked :: "bool option"
  cfl_category :: jsstring

record 'd CallsPage =
  cap_page :: int
  cap_pageSize :: int
  cap_filters :: "'d CallFilters"
  cap_applied :: "'d CallFilters"
  cap_detail :: "CallLogDetail option"
  cap_detailLoading :: bool

definition calls_empty :: "'d CallFilters" where
  "calls_empty = \<lparr>cfl_range = None, cfl_api_key_id = None, cfl_model = [], cfl_status = None,
     cfl_blocked = None, cfl_category = []\<rparr>"

definition calls_initial :: "'d CallsPage" where
  "calls_initial = \<lparr>cap_page = 1, cap_pageSize = 10, cap_filters = calls_empty, cap_applied = calls_empty,
     cap_detail = None, cap_detailLoading = False\<rparr>"

definition calls_filter :: "('d CallFilters \<Rightarrow> 'd CallFilters) \<Rightarrow> 'd CallsPage \<Rightarrow> 'd CallsPage" where
  "calls_filter g s = s\<lparr>cap_filters := g (cap_filters s)\<rparr>"

text \<open>The changes the six inputs of the filter bar make.\<close>

definition calls_range :: "'d date_range \<Rightarrow> 'd CallFilters \<Rightarrow> 'd CallFilters" where
  "calls_range v f = f\<lparr>cfl_range := v\<rparr>"

definition calls_api_key :: "int option \<Rightarrow> 'd CallFilters \<Rightarrow> 'd CallFilters" where
  "calls_api_key v f = f\<lparr>cfl_api_key_id := v\<rparr>"

definition calls_model :: "jsstring \<Rightarrow> 'd CallFilters \<Rightarrow> 'd CallFilters" where
  "calls_model v f = f\<lparr>cfl_model := v\<rparr>"

definition calls_status :: "CallStatus option \<Rightarrow> 'd CallFilters \<Rightarrow> 'd CallFilters" where
  "calls_status v f = f\<lparr>cfl_status := v\<rparr>"

definition calls_blocked :: "bool option \<Rightarrow> 'd CallFilters \<Rightarrow> 'd CallFilters" where
  "calls_blocked v f = f\<lparr>cfl_blocked := v\<rparr>"

definition calls_category :: "jsstring \<Rightarrow> 'd CallFilters \<Rightarrow> 'd CallFilters" where
  "calls_category v f = f\<lparr>cfl_category := v\<rparr>"

definition calls_search :: "'d CallsPage \<Rightarrow> 'd CallsPage" where
  "calls_search s = s\<lparr>cap_page := 1, cap_applied := cap_filters s\<rparr>"

definition calls_reset :: "'d CallsPage \<Rightarrow> 'd CallsPage" where
  "calls_reset s = s\<lparr>cap_page := 1, cap_filters := calls_empty, cap_applied := calls_empty\<rparr>"

definition calls_table :: "int option \<Rightarrow> int option \<Rightarrow> 'd CallsPage \<Rightarrow> 'd CallsPage" where
  "calls_table current psize s = s\<lparr>cap_page := or_else current 1, cap_pageSize := or_else psize 10\<rparr>"

definition calls_params :: "('d \<Rightarrow> jsstring) \<Rightarrow> int \<Rightarrow> int \<Rightarrow> 'd CallFilters \<Rightarrow> CallLogFilter" where
  "calls_params iso_text pg psize f =
     \<lparr>cf_start = range_start iso_text (cfl_range f), cf_end = range_end iso_text (cfl_range f),
      cf_api_key_id = cfl_api_key_id f, cf_model = str_or_undef (cfl_model f), cf_status = cfl_status f,
      cf_blocked = cfl_blocked f, cf_category = str_or_undef (cfl_category f), cf_page = Some pg,
      cf_page_size = Some psize\<rparr>"

definition calls_page_params :: "('d \<Rightarrow> jsstring) \<Rightarrow> 'd CallsPage \<Rightarrow> CallLogFilter" where
  "calls_page_params iso_text s = calls_params iso_text (cap_page s) (cap_pageSize s) (cap_applied s)"

definition calls_query :: "('d \<Rightarrow> jsstring) \<Rightarrow> 'd CallsPage \<Rightarrow> request" where
  "calls_query iso_text s = callLogApi_list (calls_page_params iso_text s)"

text \<open>The export is given the page and its size as well, past the type of its parameter.\<close>

definition calls_export :: "('d \<Rightarrow> jsstring) \<Rightarrow> int \<Rightarrow> 'd CallsPage \<Rightarrow> download" where
  "calls_export iso_text now s = callLogApi_exportCsv now (calls_page_params iso_text s)"

definition calls_exported :: "translate \<Rightarrow> 'a outcome \<Rightarrow> World \<Rightarrow> World" where
  "calls_exported t out w =
     (case out of Resolved _ \<Rightarrow> toast (T_success (t (js ''calls.exportOk'') [])) w | Rejected _ \<Rightarrow> w)"

text \<open>The keys a call can be filtered by: the first 500.\<close>

definition apikeys_all :: request where
  "apikeys_all = apikeyApi_list \<lparr>pp_page = Some 1, pp_page_size = Some 500, pp_keyword = None\<rparr>"

text \<open>\<open>showDetail\<close>: an id that cannot be encoded throws within the \<open>try\<close>, before a request.\<close>

definition showDetail :: "jsstring \<Rightarrow> 'd CallsPage \<Rightarrow> 'd CallsPage \<times> request option" where
  "showDetail i s =
     (case callLogApi_detail i of
        Some rq \<Rightarrow> (s\<lparr>cap_detailLoading := True, cap_detail := None\<rparr>, Some rq)
      | None \<Rightarrow> (s\<lparr>cap_detail := None, cap_detailLoading := False\<rparr>, None))"

definition detail_settled :: "CallLogDetail outcome \<Rightarrow> 'd CallsPage \<Rightarrow> 'd CallsPage" where
  "detail_settled out s =
     (case out of
        Resolved d \<Rightarrow> s\<lparr>cap_detail := Some d, cap_detailLoading := False\<rparr>
      | Rejected _ \<Rightarrow> s\<lparr>cap_detailLoading := False\<rparr>)"

definition detail_close :: "'d CallsPage \<Rightarrow> 'd CallsPage" where
  "detail_close s = s\<lparr>cap_detail := None\<rparr>"

definition detail_open :: "'d CallsPage \<Rightarrow> bool" where
  "detail_open s \<longleftrightarrow> cap_detail s \<noteq> None \<or> cap_detailLoading s"

definition status_tag :: "Ui \<Rightarrow> CallStatus \<Rightarrow> cell" where
  "status_tag u v = Tag (colorOf CALL_STATUS_META (Some (CallStatus_str v))) (show_enum u ''callStatus'' (CallStatus_str v))"

definition blocked_cell :: "Ui \<Rightarrow> 'z CallLogRow_scheme \<Rightarrow> cell" where
  "blocked_cell u r =
     (if cl_blocked r
      then Cells [colored ''error'' (tr u ''calls.blockedYes''),
                  Txt (str_or (cl_block_category r) (js ''-'')
                       @ (if cl_block_reason r \<noteq> [] then js '': '' @ cl_block_reason r else []))]
      else plain_tag (tr u ''calls.blockedNo''))"

definition calls_columns :: "Ui \<Rightarrow> CallLogRow column list" where
  "calls_columns u =
     [col (tr u ''calls.colTime'') (Some 165) (\<lambda>r. Txt (show_time u (Some (cl_created_at r)))),
      col (tr u ''calls.colReqId'') (Some 100) (\<lambda>r. Cod (take 8 (cl_request_id r))),
      col (js ''API Key'') (Some 110) (\<lambda>r. Txt (cl_api_key_label r)),
      col (tr u ''calls.colModel'') (Some 110) (\<lambda>r. Txt (cl_model_alias r)),
      col (tr u ''calls.colUpstream'') (Some 170) (\<lambda>r. dash (cl_upstream r)),
      col (tr u ''calls.colInput'') None (\<lambda>r. dash (cl_input_preview r)),
      col (tr u ''calls.colOutput'') None (\<lambda>r. dash (cl_output_preview r)),
      col (js ''Tokens'') (Some 110)
        (\<lambda>r. Txt (show_number u (cl_prompt_tokens r) @ js ''/'' @ show_number u (cl_completion_tokens r))),
      col (tr u ''calls.colLatency'') (Some 90) (\<lambda>r. Txt (show_number u (cl_latency_ms r) @ js '' ms'')),
      col (tr u ''common.status'') (Some 100) (\<lambda>r. status_tag u (cl_status r)),
      col (tr u ''calls.colBlocked'') (Some 170) (blocked_cell u),
      col (tr u ''common.action'') (Some 90) (\<lambda>r. Acts [Act_button (tr u ''calls.detail'') False])]"

definition detail_title :: "Ui \<Rightarrow> 'd CallsPage \<Rightarrow> jsstring" where
  "detail_title u s =
     tr_with u ''calls.detailTitle'' [(''id'', case cap_detail s of None \<Rightarrow> [] | Some d \<Rightarrow> cl_request_id d)]"

definition detail_items :: "Ui \<Rightarrow> CallLogDetail \<Rightarrow> (jsstring \<times> cell) list" where
  "detail_items u d =
     [(tr u ''calls.colTime'', Txt (show_time u (Some (cl_created_at d)))),
      (js ''API Key'', Txt (cl_api_key_label d)),
      (tr u ''calls.protocol'', Txt (cl_protocol d)),
      (tr u ''calls.modelPh'', Txt (cl_model_alias d)),
      (tr u ''calls.colUpstream'', dash (cl_upstream d)),
      (tr u ''common.status'', status_tag u (cl_status d)),
      (tr u ''calls.tokenUsage'', Txt (js ''prompt '' @ show_number u (cl_prompt_tokens d)
         @ js '' / completion '' @ show_number u (cl_completion_tokens d))),
      (tr u ''calls.colLatency'', Txt (show_number u (cl_latency_ms d) @ js '' ms'')),
      (tr u ''calls.colBlocked'',
       Txt (if cl_blocked d
            then str_or (cl_block_category d) (js ''-'') @ [32, 0x2014, 32] @ str_or (cl_block_reason d) (js ''-'')
            else tr u ''calls.blockNone'')),
      (tr u ''calls.errorLabel'', dash (cd_error_msg d))]"

definition detail_texts :: "Ui \<Rightarrow> CallLogDetail \<Rightarrow> (jsstring \<times> jsstring) list" where
  "detail_texts u d =
     [(tr u ''calls.inputFull'', str_or (cd_input_text d) (tr u ''calls.none'')),
      (tr u ''calls.outputFull'', str_or (cd_output_text d) (tr u ''calls.none'')),
      (tr u ''calls.findings'', json_view (ui_t u) (V_text (cd_guard_findings d)))]"

section \<open>Operations\<close>

record 'd OpFilters =
  ofl_range :: "'d date_range"
  ofl_operator :: jsstring
  ofl_module :: jsstring
  ofl_action :: jsstring

record 'd OperationsPage =
  opp_page :: int
  opp_pageSize :: int
  opp_filters :: "'d OpFilters"
  opp_applied :: "'d OpFilters"
  opp_diffRow :: "OpLogRow option"

definition operations_empty :: "'d OpFilters" where
  "operations_empty = \<lparr>ofl_range = None, ofl_operator = [], ofl_module = [], ofl_action = []\<rparr>"

definition operations_initial :: "'d OperationsPage" where
  "operations_initial = \<lparr>opp_page = 1, opp_pageSize = 20, opp_filters = operations_empty,
     opp_applied = operations_empty, opp_diffRow = None\<rparr>"

definition operations_filter :: "('d OpFilters \<Rightarrow> 'd OpFilters) \<Rightarrow> 'd OperationsPage \<Rightarrow> 'd OperationsPage" where
  "operations_filter g s = s\<lparr>opp_filters := g (opp_filters s)\<rparr>"

text \<open>The changes of the four inputs: a select that is cleared gives the empty string.\<close>

definition operations_range :: "'d date_range \<Rightarrow> 'd OpFilters \<Rightarrow> 'd OpFilters" where
  "operations_range v f = f\<lparr>ofl_range := v\<rparr>"

definition operations_operator :: "jsstring \<Rightarrow> 'd OpFilters \<Rightarrow> 'd OpFilters" where
  "operations_operator v f = f\<lparr>ofl_operator := v\<rparr>"

definition operations_module :: "jsstring option \<Rightarrow> 'd OpFilters \<Rightarrow> 'd OpFilters" where
  "operations_module v f = f\<lparr>ofl_module := or_else v []\<rparr>"

definition operations_action :: "jsstring option \<Rightarrow> 'd OpFilters \<Rightarrow> 'd OpFilters" where
  "operations_action v f = f\<lparr>ofl_action := or_else v []\<rparr>"

definition operations_search :: "'d OperationsPage \<Rightarrow> 'd OperationsPage" where
  "operations_search s = s\<lparr>opp_applied := opp_filters s, opp_page := 1\<rparr>"

definition operations_table :: "int option \<Rightarrow> int option \<Rightarrow> 'd OperationsPage \<Rightarrow> 'd OperationsPage" where
  "operations_table current psize s = s\<lparr>opp_page := or_else current 1, opp_pageSize := or_else psize 20\<rparr>"

definition operations_params :: "('d \<Rightarrow> jsstring) \<Rightarrow> int \<Rightarrow> int \<Rightarrow> 'd OpFilters \<Rightarrow> OpLogFilter" where
  "operations_params iso_text pg psize f =
     \<lparr>of_start = range_start iso_text (ofl_range f), of_end = range_end iso_text (ofl_range f),
      of_operator = str_or_undef (ofl_operator f), of_module = str_or_undef (ofl_module f),
      of_action = str_or_undef (ofl_action f), of_page = Some pg, of_page_size = Some psize\<rparr>"

definition operations_page_params :: "('d \<Rightarrow> jsstring) \<Rightarrow> 'd OperationsPage \<Rightarrow> OpLogFilter" where
  "operations_page_params iso_text s = operations_params iso_text (opp_page s) (opp_pageSize s) (opp_applied s)"

definition operations_query :: "('d \<Rightarrow> jsstring) \<Rightarrow> 'd OperationsPage \<Rightarrow> request" where
  "operations_query iso_text s = opLogApi_list (operations_page_params iso_text s)"

definition operations_export :: "('d \<Rightarrow> jsstring) \<Rightarrow> int \<Rightarrow> 'd OperationsPage \<Rightarrow> download" where
  "operations_export iso_text now s = opLogApi_exportCsv now (operations_page_params iso_text s)"

definition operations_exported :: "translate \<Rightarrow> 'a outcome \<Rightarrow> World \<Rightarrow> World" where
  "operations_exported t out w =
     (case out of Resolved _ \<Rightarrow> toast (T_success (t (js ''ops.exportOk'') [])) w | Rejected _ \<Rightarrow> w)"

definition show_diff :: "OpLogRow option \<Rightarrow> 'd OperationsPage \<Rightarrow> 'd OperationsPage" where
  "show_diff r s = s\<lparr>opp_diffRow := r\<rparr>"

definition effective_label :: "Ui \<Rightarrow> bool \<Rightarrow> jsstring" where
  "effective_label u b = tr u (if b then ''ops.effectiveYes'' else ''ops.effectiveNo'')"

definition operations_columns :: "Ui \<Rightarrow> OpLogRow column list" where
  "operations_columns u =
     [col (tr u ''ops.colTime'') (Some 170) (\<lambda>r. Txt (show_time u (Some (op_created_at r)))),
      col (tr u ''ops.colOperator'') (Some 110) (\<lambda>r. Txt (op_operator r)),
      col (tr u ''ops.colAction'') (Some 100)
        (\<lambda>r. colored (if op_action r = js ''delete'' then ''red'' else if op_action r = js ''create'' then ''green'' else ''blue'')
               (show_enum u ''opAction'' (op_action r))),
      col (tr u ''ops.colModule'') (Some 110) (\<lambda>r. plain_tag (show_enum u ''opModule'' (op_module r))),
      col (tr u ''ops.colTarget'') (Some 160) (\<lambda>r. Txt (op_target r)),
      col (js ''IP'') (Some 130) (\<lambda>r. Txt (op_ip r)),
      col (tr u ''ops.effective'') (Some 90)
        (\<lambda>r. colored (if op_effective r then ''green'' else ''orange'') (effective_label u (op_effective r))),
      col (tr u ''common.action'') (Some 100) (\<lambda>r. Acts [Act_button (tr u ''ops.diff'') False])]"

text \<open>The comparison: its title, the two texts, and the line below them.\<close>

definition diff_title :: "Ui \<Rightarrow> OpLogRow option \<Rightarrow> jsstring" where
  "diff_title u row =
     tr_with u ''ops.diffTitle''
       [(''detail'', case row of None \<Rightarrow> [] | Some r \<Rightarrow> show_enum u ''opModule'' (op_module r) @ js '' / '' @ op_target r)]"

definition diff_values :: "Ui \<Rightarrow> OpLogRow option \<Rightarrow> jsstring \<times> jsstring" where
  "diff_values u row =
     (let view = (\<lambda>f. json_view (ui_t u) (case row of None \<Rightarrow> V_absent | Some r \<Rightarrow> V_text (f r)))
      in (view op_before_json, view op_after_json))"

definition diff_meta :: "Ui \<Rightarrow> OpLogRow option \<Rightarrow> jsstring" where
  "diff_meta u row =
     tr_with u ''ops.meta''
       [(''operator'', or_else (map_option op_operator row) (js ''-'')),
        (''time'', show_time u (map_option op_created_at row)),
        (''ip'', or_else (map_option op_ip row) (js ''-'')),
        (''state'', effective_label u (map_option op_effective row = Some True))]"

lemmas log_defs [js_eval] = range_start_def range_end_def calls_empty_def calls_initial_def calls_filter_def
  calls_range_def calls_api_key_def calls_model_def calls_status_def calls_blocked_def calls_category_def
  calls_search_def calls_reset_def calls_table_def calls_params_def calls_page_params_def calls_query_def
  calls_export_def calls_exported_def apikeys_all_def showDetail_def detail_settled_def detail_close_def
  detail_open_def status_tag_def blocked_cell_def calls_columns_def detail_title_def detail_items_def
  detail_texts_def operations_empty_def operations_initial_def operations_filter_def operations_range_def
  operations_operator_def operations_module_def operations_action_def operations_search_def
  operations_table_def operations_params_def operations_page_params_def operations_query_def
  operations_export_def operations_exported_def show_diff_def effective_label_def operations_columns_def
  diff_title_def diff_values_def diff_meta_def

section \<open>The contract\<close>

interpretation calls: filter_page cap_filters "calls_query iso_text"
  "\<lambda>pg psize f. callLogApi_list (calls_params iso_text pg psize f)" cap_pageSize
  "calls_export iso_text now" "\<lambda>pg psize f. callLogApi_exportCsv now (calls_params iso_text pg psize f)"
  calls_filter calls_search
  for iso_text :: "'d \<Rightarrow> jsstring" and now
  by unfold_locales (simp_all add: log_defs)

interpretation operations: filter_page opp_filters "operations_query iso_text"
  "\<lambda>pg psize f. opLogApi_list (operations_params iso_text pg psize f)" opp_pageSize
  "operations_export iso_text now" "\<lambda>pg psize f. opLogApi_exportCsv now (operations_params iso_text pg psize f)"
  operations_filter operations_search
  for iso_text :: "'d \<Rightarrow> jsstring" and now
  by unfold_locales (simp_all add: log_defs)


section \<open>Properties\<close>

text \<open>C39: On both log pages what is typed into the filters changes neither the list that is asked of the
  server nor the file the export asks for, until the search button is pressed; then the list is the first
  page of exactly what has been typed, input after input, and the export carries the same parameters.
  Resetting the calls asks for the first page, and exports, without any filter.\<close>

theorem log_filters_applied:
  "calls_query iso_text (fold calls_filter gs s) = calls_query iso_text s
   \<and> calls_export iso_text now (fold calls_filter gs s) = calls_export iso_text now s
   \<and> calls_query iso_text (calls_search (fold calls_filter gs s))
     = callLogApi_list (calls_params iso_text 1 (cap_pageSize s) (fold id gs (cap_filters s)))
   \<and> calls_export iso_text now (calls_search (fold calls_filter gs s))
     = callLogApi_exportCsv now (calls_params iso_text 1 (cap_pageSize s) (fold id gs (cap_filters s)))
   \<and> calls_query iso_text (calls_reset s) = http_get (js ''/audit/calls'')
       (Some (obj [(''page'', Some (int_json 1)), (''page_size'', Some (int_json (cap_pageSize s)))]))
   \<and> calls_export iso_text now (calls_reset s)
     = callLogApi_exportCsv now (calls_params iso_text 1 (cap_pageSize s) calls_empty)
   \<and> operations_query iso_text (fold operations_filter hs r) = operations_query iso_text r
   \<and> operations_export iso_text now (fold operations_filter hs r) = operations_export iso_text now r
   \<and> operations_query iso_text (operations_search (fold operations_filter hs r))
     = opLogApi_list (operations_params iso_text 1 (opp_pageSize r) (fold id hs (opp_filters r)))
   \<and> operations_export iso_text now (operations_search (fold operations_filter hs r))
     = opLogApi_exportCsv now (operations_params iso_text 1 (opp_pageSize r) (fold id hs (opp_filters r)))"
proof -
  have "calls_query iso_text (calls_reset s) = http_get (js ''/audit/calls'')
       (Some (obj [(''page'', Some (int_json 1)), (''page_size'', Some (int_json (cap_pageSize s)))]))"
    by (simp add: calls_query_def calls_page_params_def calls_reset_def calls_params_def calls_empty_def
        callLogApi_list_def CallLogFilter_json_def range_start_def range_end_def str_or_undef_def obj_def)
  moreover have "calls_export iso_text now (calls_reset s)
      = callLogApi_exportCsv now (calls_params iso_text 1 (cap_pageSize s) calls_empty)"
    by (simp add: calls_export_def calls_page_params_def calls_reset_def)
  ultimately show ?thesis
    by (simp add: calls.typing_keeps_query calls.search_applies operations.typing_keeps_query operations.search_applies)
qed

text \<open>While a detail loads the drawer cannot be closed, and of two details the one that is answered last
  is shown, not the one that was asked for last.\<close>

lemma detail_cannot_be_closed:
  "callLogApi_detail i = Some rq \<Longrightarrow> detail_open (detail_close (fst (showDetail i s)))"
  by (simp add: log_defs)

lemma detail_race:
  "cap_detail (detail_settled (Resolved a) (detail_settled (Resolved b)
     (fst (showDetail j (fst (showDetail i s)))))) = Some a"
  by (simp add: log_defs)

end
