(* ===== verification/Doubles.thy ===== *)
theory Doubles
  imports JsNumber
begin

text \<open>
  Rounding to a double is monotone and leaves whole numbers in place: the facts from which the
  bounds of the percentages and gauges follow.
\<close>

section \<open>Powers of two\<close>

lemma pow2_powi: "pow2 e = 2 powi e"
  by (simp add: pow2_def power_int_def power_one_over inverse_eq_divide)

lemma pow2_pos [simp]: "0 < pow2 e"
  by (simp add: pow2_def)

lemma pow2_add: "pow2 (a + b) = pow2 a * pow2 b"
  by (simp add: pow2_powi power_int_add)

lemma pow2_le: "a \<le> b \<Longrightarrow> pow2 a \<le> pow2 b"
  by (simp add: pow2_powi power_int_increasing)

lemma pow2_less: "pow2 a < pow2 b \<Longrightarrow> a < b"
  by (meson linorder_not_less pow2_le)

lemma pow2_nat: "0 \<le> e \<Longrightarrow> pow2 e = of_int (2 ^ nat e)"
  by (simp add: pow2_def)

lemma bitlen_pow2:
  assumes "0 < n" shows "pow2 (bitlen n - 1) \<le> of_int n" "of_int n < pow2 (bitlen n)"
proof -
  note b = bitlen_bounds [OF assms]
  have "pow2 (bitlen n - 1) = of_int (2 ^ nat (bitlen n - 1))" "pow2 (bitlen n) = of_int (2 ^ nat (bitlen n))"
    using b by (intro pow2_nat; simp)+
  with b show "pow2 (bitlen n - 1) \<le> of_int n" "of_int n < pow2 (bitlen n)"
    by (simp_all only: of_int_le_iff of_int_less_iff)
qed

lemma ilog2_bounds:
  assumes "0 < x" shows "pow2 (ilog2 x) \<le> x \<and> x < pow2 (ilog2 x + 1)"
proof -
  obtain p q where pq: "quotient_of x = (p, q)" by (cases "quotient_of x")
  have q: "0 < q" using quotient_of_denom_pos [OF pq] .
  have x: "x = of_int p / of_int q" using quotient_of_div [OF pq] .
  have p: "0 < p" using assms q unfolding x by (simp add: zero_less_divide_iff)
  let ?a = "bitlen p" and ?b = "bitlen q"
  have P: "pow2 (?a - 1) \<le> of_int p" "of_int p < pow2 ?a" by (rule bitlen_pow2 [OF p])+
  have Q: "pow2 (?b - 1) \<le> of_int q" "of_int q < pow2 ?b" by (rule bitlen_pow2 [OF q])+
  have q': "(0 :: rat) < of_int q" using q by simp
  have "pow2 (?a - ?b - 1) * of_int q \<le> pow2 (?a - ?b - 1) * pow2 ?b"
    using Q(2) by (intro mult_left_mono) (simp_all add: less_imp_le)
  also have "\<dots> = pow2 (?a - 1)" by (simp flip: pow2_add)
  finally have lo: "pow2 (?a - ?b - 1) \<le> x"
    using P(1) q' by (simp add: x pos_le_divide_eq)
  have "pow2 ?a = pow2 (?a - ?b + 1) * pow2 (?b - 1)" by (simp flip: pow2_add)
  also have "\<dots> \<le> pow2 (?a - ?b + 1) * of_int q"
    using Q(1) by (intro mult_left_mono) (simp_all add: less_imp_le)
  finally have hi: "x < pow2 (?a - ?b + 1)"
    using P(2) q' by (simp add: x pos_divide_less_eq)
  show ?thesis using lo hi by (auto simp: ilog2_def pq Let_def add.commute)
qed

lemma ilog2_mono:
  assumes "0 < x" "x \<le> y" shows "ilog2 x \<le> ilog2 y"
proof -
  have "pow2 (ilog2 x) < pow2 (ilog2 y + 1)"
    using ilog2_bounds [of x] ilog2_bounds [of y] assms by linarith
  then show ?thesis by (drule_tac pow2_less) simp
qed

section \<open>Rounding\<close>

lemma round_half_even_near: "\<lfloor>x\<rfloor> \<le> round_half_even x \<and> round_half_even x \<le> \<lfloor>x\<rfloor> + 1"
  by (simp add: round_half_even_def Let_def)

lemma round_half_even_mono:
  assumes "x \<le> y" shows "round_half_even x \<le> round_half_even y"
proof (cases "\<lfloor>x\<rfloor> = \<lfloor>y\<rfloor>")
  case True
  with assms show ?thesis by (auto simp: round_half_even_def Let_def)
next
  case False
  then have "\<lfloor>x\<rfloor> < \<lfloor>y\<rfloor>" using floor_mono [OF assms] by simp
  then show ?thesis using round_half_even_near [of x] round_half_even_near [of y] by linarith
qed

lemma round_half_even_le: "x \<le> of_int m \<Longrightarrow> round_half_even x \<le> m"
  using round_half_even_mono [of x "of_int m"] by simp

lemma round_half_even_ge: "of_int m \<le> x \<Longrightarrow> m \<le> round_half_even x"
  using round_half_even_mono [of "of_int m" x] by simp

definition ulp_exp :: "rat \<Rightarrow> int" where
  "ulp_exp x = max (ilog2 x - 52) (- 1074)"

lemma fl_pos_ulp: "fl_pos x = of_int (round_half_even (x / pow2 (ulp_exp x))) * pow2 (ulp_exp x)"
  by (simp add: fl_pos_def ulp_exp_def Let_def)

lemma scaled_le:
  "0 < x \<Longrightarrow> x \<le> of_int m * pow2 e \<Longrightarrow> of_int (round_half_even (x / pow2 e)) * pow2 e \<le> of_int m * pow2 e"
  by (intro mult_right_mono) (simp_all add: round_half_even_le pos_divide_le_eq less_imp_le)

lemma scaled_ge:
  "of_int m * pow2 e \<le> x \<Longrightarrow> of_int m * pow2 e \<le> of_int (round_half_even (x / pow2 e)) * pow2 e"
  by (intro mult_right_mono) (simp_all add: round_half_even_ge pos_le_divide_eq less_imp_le)

lemma fl_pos_mono:
  assumes "0 < x" "x \<le> y" shows "fl_pos x \<le> fl_pos y"
proof (cases "ulp_exp x = ulp_exp y")
  case True
  have "x / pow2 (ulp_exp y) \<le> y / pow2 (ulp_exp y)" using assms by (simp add: divide_right_mono less_imp_le)
  from round_half_even_mono [OF this] show ?thesis
    unfolding fl_pos_ulp True by (intro mult_right_mono) (simp_all add: less_imp_le)
next
  case False
  let ?e = "ulp_exp x" and ?f = "ulp_exp y"
  have lt: "?e < ?f" using False ilog2_mono [OF assms] by (auto simp: ulp_exp_def)
  then have f: "?f = ilog2 y - 52" by (auto simp: ulp_exp_def)
  have e: "ilog2 x - 52 \<le> ?e" by (simp add: ulp_exp_def)
  have p52: "of_int (2 ^ 52) * pow2 k = pow2 (k + 52)" for k by (simp add: pow2_add pow2_nat)
  have p53: "of_int (2 ^ 53) * pow2 k = pow2 (k + 53)" for k by (simp add: pow2_add pow2_nat)
  have "x \<le> pow2 (ilog2 x + 1)" using ilog2_bounds [OF assms(1)] by simp
  also have "\<dots> \<le> pow2 (?e + 53)" using e by (intro pow2_le) simp
  finally have "fl_pos x \<le> pow2 (?e + 53)"
    using scaled_le [OF assms(1), of "2 ^ 53" ?e] unfolding fl_pos_ulp p53 by blast
  also have "\<dots> \<le> pow2 (?f + 52)" using lt by (intro pow2_le) simp
  also have "\<dots> \<le> fl_pos y"
  proof -
    have "pow2 (?f + 52) \<le> y" using ilog2_bounds [of y] assms f by simp
    then show ?thesis using scaled_ge [of "2 ^ 52" ?f y] unfolding fl_pos_ulp p52 by blast
  qed
  finally show ?thesis .
qed

section \<open>Numbers between zero and a whole number\<close>

lemma fl_pos_bounds:
  assumes "0 < x" "x \<le> of_int m" "m \<le> 2 ^ 53"
  shows "0 \<le> fl_pos x \<and> fl_pos x \<le> of_int m"
proof -
  have "(0 :: rat) < of_int m" using assms by linarith
  then have "fl_pos x \<le> of_int m" using fl_pos_mono [OF assms(1,2)] fl_pos_of_int [of m] assms by simp
  moreover have "0 \<le> fl_pos x"
    using assms(1) round_half_even_ge [of 0 "x / pow2 (ulp_exp x)"]
    unfolding fl_pos_ulp by (simp add: less_imp_le)
  ultimately show ?thesis by blast
qed

lemma fl_range:
  assumes "0 \<le> x" "x \<le> of_int m" "m \<le> 2 ^ 53"
  shows "fl x = Fin (if x = 0 then 0 else fl_pos x)"
proof (cases "x = 0")
  case False
  with assms have x: "0 < x" by simp
  note b = fl_pos_bounds [OF x assms(2,3)]
  have "ilog2 (fl_pos x) < 1024"
  proof (cases "fl_pos x = 0")
    case True
    have "ilog2 0 = - 2" by (simp add: ilog2_def pow2_def bitlen.simps Let_def)
    then show ?thesis by (simp add: True)
  next
    case False
    with b have "0 < fl_pos x" by simp
    then have "pow2 (ilog2 (fl_pos x)) \<le> of_int m" using ilog2_bounds b by force
    also have "\<dots> \<le> of_int (2 ^ 53)" using assms(3) by (simp only: of_int_le_iff)
    also have "\<dots> < pow2 1024" by (simp add: pow2_def)
    finally show ?thesis by (rule pow2_less)
  qed
  then show ?thesis using x b by (simp add: fl_def Let_def)
qed (simp add: fl_def)

lemma fl_bounds:
  assumes "0 \<le> x" "x \<le> of_int m" "m \<le> 2 ^ 53"
  obtains y where "fl x = Fin y" "0 \<le> y" "y \<le> of_int m"
  using fl_range [OF assms] fl_pos_bounds [of x m] assms by (cases "x = 0") auto

lemma fl_mono:
  assumes "0 \<le> x" "x \<le> y" "y \<le> of_int m" "m \<le> 2 ^ 53" "fl x = Fin a" "fl y = Fin b"
  shows "a \<le> b"
proof -
  have "fl x = Fin (if x = 0 then 0 else fl_pos x)" "fl y = Fin (if y = 0 then 0 else fl_pos y)"
    using assms by (intro fl_range [of _ m]; simp)+
  then show ?thesis
    using assms fl_pos_mono [of x y] fl_pos_bounds [of y m] by (auto split: if_splits)
qed

lemma math_round_mono: "x \<le> y \<Longrightarrow> math_round x \<le> math_round y"
  by (simp add: math_round_def floor_mono)

lemma math_round_of_int [simp]: "math_round (of_int n) = n"
  by (simp add: math_round_def floor_eq_iff)

lemma math_round_bounds: "0 \<le> x \<Longrightarrow> x \<le> of_int m \<Longrightarrow> 0 \<le> math_round x \<and> math_round x \<le> m"
  using math_round_mono [of 0 x] math_round_mono [of x "of_int m"] math_round_of_int [of 0] by simp

end
