(* ===== verification/Charts.thy ===== *)
theory Charts
  imports "HOL-Library.Multiset" Dicts Format Doubles
begin

text \<open>
  frontend/src/components/Charts.tsx: the data the two charts hand to ECharts. The drawing and the
  styles that do not depend on data are the library's.
\<close>

definition COLORS :: "jsstring list" where
  "COLORS = map js [''#1677ff'', ''#ff4d4f'']"

definition DONUT_COLORS :: "jsstring list" where
  "DONUT_COLORS = map js [''#1677ff'', ''#f5222d'', ''#faad14'', ''#52c41a'', ''#722ed1'', ''#13c2c2'', ''#eb2f96'']"

section \<open>Lines\<close>

record Point =
  pt_label :: jsstring
  pt_value :: int
  pt_value2 :: "int option"

record LineSeries =
  se_name :: jsstring
  se_symbol :: jsstring
  se_data :: "int list"
  se_color :: jsstring
  se_dashed :: bool

record LineOption =
  lo_legend :: "(jsstring \<times> jsstring) option"
  lo_labels :: "jsstring list"
  lo_series :: "LineSeries list"

definition series_names :: "translate \<Rightarrow> (jsstring \<times> jsstring) option \<Rightarrow> jsstring \<times> jsstring" where
  "series_names t seriesName =
     or_else seriesName (t (js ''charts.primarySeries'') [], t (js ''charts.secondarySeries'') [])"

definition hasSecond :: "Point list \<Rightarrow> bool" where
  "hasSecond ps \<longleftrightarrow> list_ex (\<lambda>d. pt_value2 d \<noteq> None) ps"

definition line_series :: "jsstring \<times> jsstring \<Rightarrow> Point list \<Rightarrow> LineSeries list" where
  "line_series names ps =
     [\<lparr>se_name = fst names, se_symbol = js ''circle'', se_data = map pt_value ps, se_color = COLORS ! 0,
       se_dashed = False\<rparr>]
     @ (if hasSecond ps
        then [\<lparr>se_name = snd names, se_symbol = js ''none'', se_data = map (\<lambda>d. or_else (pt_value2 d) 0) ps,
               se_color = COLORS ! 1, se_dashed = True\<rparr>]
        else [])"

text \<open>Without data the chart is \<open>NoData\<close>, here None.\<close>

definition LineChart :: "translate \<Rightarrow> Point list \<Rightarrow> (jsstring \<times> jsstring) option \<Rightarrow> LineOption option" where
  "LineChart t ps seriesName =
     (let names = series_names t seriesName in
      if ps = [] then None
      else Some \<lparr>lo_legend = (if hasSecond ps then Some names else None), lo_labels = map pt_label ps,
                lo_series = line_series names ps\<rparr>)"

section \<open>Shares\<close>

record Share =
  sh_label :: jsstring
  sh_value :: int

record Slice =
  sl_name :: jsstring
  sl_value :: int
  sl_color :: jsstring

record DonutOption =
  do_total :: jsstring
  do_center :: jsstring
  do_legend :: "jsstring list"
  do_slices :: "Slice list"

definition donut_total :: "Share list \<Rightarrow> int" where
  "donut_total ds = foldl (\<lambda>s d. s + sh_value d) 0 ds"

text \<open>\<open>sort((a, b) => b.value - a.value)\<close> is stable.\<close>

definition donut_items :: "Share list \<Rightarrow> Share list" where
  "donut_items ds = sort_key (\<lambda>d. - sh_value d) ds"

definition share_percent :: "int \<Rightarrow> int \<Rightarrow> jsnum" where
  "share_percent v tot =
     div_num (round_num (times_num (div_num (Fin (of_int v)) (of_int tot)) 1000)) 10"

text \<open>The entry of the legend for a name: the first datum of that label.\<close>

definition legend_text :: "Share list \<Rightarrow> jsstring \<Rightarrow> jsstring" where
  "legend_text ds name =
     (case find (\<lambda>d. sh_label d = name) ds of
        None \<Rightarrow> name
      | Some it \<Rightarrow>
          if donut_total ds = 0 then name
          else name @ js ''  '' @ num_to_string (share_percent (sh_value it) (donut_total ds)) @ js ''%'')"

fun color_slices :: "nat \<Rightarrow> Share list \<Rightarrow> Slice list" where
  "color_slices i [] = []"
| "color_slices i (d # ds) =
     \<lparr>sl_name = sh_label d, sl_value = sh_value d, sl_color = DONUT_COLORS ! (i mod length DONUT_COLORS)\<rparr>
     # color_slices (Suc i) ds"

definition DonutChart :: "translate \<Rightarrow> Share list \<Rightarrow> jsstring option \<Rightarrow> DonutOption option" where
  "DonutChart t ds centerText =
     (if donut_total ds = 0 \<or> ds = [] then None
      else Some \<lparr>do_total = int_to_string (donut_total ds), do_center = or_else centerText (t (js ''charts.total'') []),
                do_legend = map (\<lambda>d. legend_text ds (sh_label d)) (donut_items ds),
                do_slices = color_slices 0 (donut_items ds)\<rparr>)"

lemmas chart_defs [js_eval] = COLORS_def DONUT_COLORS_def series_names_def hasSecond_def line_series_def
  LineChart_def donut_total_def donut_items_def share_percent_def legend_text_def DonutChart_def

section \<open>Arithmetic of the shares\<close>

text \<open>The quotient of two counts as the charts compute it.\<close>

lemma div_num_share:
  assumes "0 \<le> v" "v \<le> tot" "0 < tot"
  obtains q where "div_num (Fin (of_int v)) (of_int tot) = Fin q" "0 \<le> q" "q \<le> 1"
proof -
  have "0 \<le> (of_int v / of_int tot :: rat)" "(of_int v / of_int tot :: rat) \<le> of_int 1"
    using assms by (simp_all add: divide_le_eq)
  from fl_bounds [OF this] show ?thesis using that by auto
qed

lemma round_times_bounds:
  assumes "0 \<le> q" "q \<le> 1" "0 \<le> k" "k \<le> 2 ^ 53"
  obtains n where "round_num (times_num (Fin q) (of_int k)) = Fin (of_int n)" "0 \<le> n" "n \<le> k"
proof -
  have "0 \<le> q * of_int k" "q * of_int k \<le> of_int k"
    using assms mult_right_mono [of q 1 "of_int k"] by (simp_all add: zero_le_mult_iff)
  from fl_bounds [OF this assms(4)] obtain y where "fl (q * of_int k) = Fin y" "0 \<le> y" "y \<le> of_int k" .
  then show ?thesis using math_round_bounds [of y k] that [of "math_round y"] by simp
qed

lemma percent_of_bounds:
  assumes "0 \<le> v" "v \<le> tot" "0 < tot"
  obtains n where "percent_of v tot = Fin (of_int n)" "0 \<le> n" "n \<le> 100"
proof -
  obtain q where q: "div_num (Fin (of_int v)) (of_int tot) = Fin q" "0 \<le> q" "q \<le> 1"
    using div_num_share [OF assms] .
  obtain n where "round_num (times_num (Fin q) (of_int 100)) = Fin (of_int n)" "0 \<le> n" "n \<le> 100"
    using round_times_bounds [OF q(2,3), of 100] by auto
  then show ?thesis using that q(1) by (simp add: percent_of_def)
qed

lemma percent_of_full: "0 < tot \<Longrightarrow> percent_of tot tot = Fin 100"
  using fl_of_int [of 1] fl_of_int [of 100] math_round_of_int [of 100] by (simp add: percent_of_def)

lemma percent_of_mono:
  assumes "0 \<le> v" "v \<le> w" "w \<le> tot" "0 < tot" "percent_of v tot = Fin a" "percent_of w tot = Fin b"
  shows "a \<le> b"
proof -
  have r: "0 \<le> (of_int v / of_int tot :: rat)" "(of_int v / of_int tot :: rat) \<le> of_int w / of_int tot"
    "(of_int w / of_int tot :: rat) \<le> of_int 1"
    using assms by (simp_all add: divide_le_eq divide_right_mono)
  obtain x where x: "div_num (Fin (of_int v)) (of_int tot) = Fin x" "0 \<le> x" "x \<le> 1"
    using div_num_share [of v tot] assms by auto
  obtain y where y: "div_num (Fin (of_int w)) (of_int tot) = Fin y" "0 \<le> y" "y \<le> 1"
    using div_num_share [of w tot] assms by auto
  have "x \<le> y" using fl_mono [OF r] x(1) y(1) by simp
  then have s: "0 \<le> x * 100" "x * 100 \<le> y * 100" "y * 100 \<le> of_int 100" using x y by simp_all
  obtain x' where x': "fl (x * 100) = Fin x'" using fl_bounds [OF s(1), of 100] s by auto
  obtain y' where y': "fl (y * 100) = Fin y'" using fl_bounds [of "y * 100" 100] s by auto
  have "x' \<le> y'" using fl_mono [OF s _ x' y'] by simp
  then show ?thesis using assms(5,6) x y x' y' math_round_mono by (auto simp: percent_of_def)
qed

lemma share_percent_bounds:
  assumes "0 \<le> v" "v \<le> tot" "0 < tot"
  obtains p where "share_percent v tot = Fin p" "0 \<le> p" "p \<le> 100"
proof -
  obtain q where q: "div_num (Fin (of_int v)) (of_int tot) = Fin q" "0 \<le> q" "q \<le> 1"
    using div_num_share [OF assms] .
  obtain n where n: "round_num (times_num (Fin q) (of_int 1000)) = Fin (of_int n)" "0 \<le> n" "n \<le> 1000"
    using round_times_bounds [OF q(2,3), of 1000] by auto
  have "0 \<le> (of_int n / 10 :: rat)" "(of_int n / 10 :: rat) \<le> of_int 100" using n by simp_all
  from fl_bounds [OF this] obtain p where "fl (of_int n / 10) = Fin p" "0 \<le> p" "p \<le> 100" by auto
  then show ?thesis using that q(1) n(1) by (simp add: share_percent_def)
qed

lemma donut_total_sum: "donut_total ds = sum_list (map sh_value ds)"
proof -
  have "foldl (\<lambda>s d. s + sh_value d) a ds = a + sum_list (map sh_value ds)" for a
    by (induction ds arbitrary: a) simp_all
  then show ?thesis by (simp add: donut_total_def)
qed

lemma color_slices_map:
  "map (\<lambda>s. (sl_name s, sl_value s)) (color_slices i ds) = map (\<lambda>d. (sh_label d, sh_value d)) ds"
  by (induction ds arbitrary: i) simp_all

lemma color_slices_color: "s \<in> set (color_slices i ds) \<Longrightarrow> sl_color s \<in> set DONUT_COLORS"
proof (induction ds arbitrary: i)
  case (Cons d ds)
  have "DONUT_COLORS ! (i mod length DONUT_COLORS) \<in> set DONUT_COLORS"
    by (intro nth_mem mod_less_divisor) (simp add: DONUT_COLORS_def)
  with Cons show ?case by auto
qed simp

lemma legend_of_slices:
  assumes "distinct (map sh_label ds)" "donut_total ds \<noteq> 0"
  shows "map (\<lambda>d. legend_text ds (sh_label d)) (donut_items ds)
    = map (\<lambda>s. sl_name s @ js ''  '' @ num_to_string (share_percent (sl_value s) (donut_total ds)) @ js ''%'')
        (color_slices 0 (donut_items ds))"
proof -
  have found: "find (\<lambda>e. sh_label e = sh_label d) xs = Some d" if "d \<in> set xs" "distinct (map sh_label xs)" for d xs
    using that by (induction xs) (auto simp: image_iff)
  have "legend_text ds (sh_label d) = sh_label d @ js ''  '' @ num_to_string (share_percent (sh_value d) (donut_total ds)) @ js ''%''"
    if "d \<in> set ds" for d
    using found [OF that assms(1)] assms(2) by (simp add: legend_text_def)
  moreover have "map (\<lambda>s. sl_name s @ js ''  '' @ num_to_string (share_percent (sl_value s) n) @ js ''%'') (color_slices i xs)
      = map (\<lambda>d. sh_label d @ js ''  '' @ num_to_string (share_percent (sh_value d) n) @ js ''%'') xs" for n i xs
    by (induction xs arbitrary: i) simp_all
  ultimately show ?thesis by (simp add: donut_items_def)
qed

section \<open>Properties\<close>

text \<open>C23: A share chart of non-negative values shows each datum as one slice, largest first, in a colour
  of the palette; the number in the middle is the sum of the slices, each share is a percentage between 0 and 100,
  and the legend names the slices in their order with these percentages, as long as no two data have one label.
  The chart is absent exactly when there is nothing to share.\<close>

theorem donut_complete:
  assumes "\<forall>d \<in> set ds. 0 \<le> sh_value d"
  shows "case DonutChart t ds center of
      None \<Rightarrow> \<forall>d \<in> set ds. sh_value d = 0
    | Some c \<Rightarrow> (\<exists>d \<in> set ds. 0 < sh_value d)
        \<and> mset (map (\<lambda>s. (sl_name s, sl_value s)) (do_slices c)) = mset (map (\<lambda>d. (sh_label d, sh_value d)) ds)
        \<and> sorted_wrt (\<ge>) (map sl_value (do_slices c))
        \<and> do_total c = int_to_string (sum_list (map sl_value (do_slices c)))
        \<and> (\<forall>s \<in> set (do_slices c). sl_color s \<in> set DONUT_COLORS)
        \<and> (\<forall>d \<in> set ds. \<exists>p. share_percent (sh_value d) (donut_total ds) = Fin p \<and> 0 \<le> p \<and> p \<le> 100)
        \<and> (distinct (map sh_label ds) \<longrightarrow>
             do_legend c = map (\<lambda>s. sl_name s @ js ''  '' @ num_to_string (share_percent (sl_value s) (donut_total ds)) @ js ''%'')
               (do_slices c))"
proof (cases "donut_total ds = 0 \<or> ds = []")
  case True
  then have "sum_list (map sh_value ds) = 0" by (auto simp: donut_total_sum)
  then have "\<forall>d \<in> set ds. sh_value d = 0"
    using assms sum_list_nonneg_eq_0_iff [of "map sh_value ds"] by auto
  with True show ?thesis by (simp add: DonutChart_def)
next
  case False
  let ?is = "donut_items ds"
  have pos: "0 < donut_total ds"
    using False assms sum_list_nonneg [of "map sh_value ds"] by (force simp: donut_total_sum)
  have some: "\<exists>d \<in> set ds. 0 < sh_value d"
  proof (rule ccontr)
    assume "\<not> ?thesis"
    then have "sum_list (map sh_value ds) \<le> 0" by (intro sum_list_nonpos) (auto simp: not_less)
    with pos show False by (simp add: donut_total_sum)
  qed
  have perm: "mset ?is = mset ds" by (simp add: donut_items_def)
  have vals: "map sl_value (color_slices 0 ?is) = map sh_value ?is"
    using arg_cong [OF color_slices_map [of 0 ?is], of "map snd"] by (simp add: comp_def)
  have "sorted (map (\<lambda>d. - sh_value d) ?is)" by (simp add: donut_items_def)
  then have sorted: "sorted_wrt (\<ge>) (map sh_value ?is)" by (simp add: sorted_wrt_map)
  have sum: "sum_list (map sh_value ?is) = donut_total ds"
    using perm by (metis donut_total_sum mset_map sum_mset_sum_list)
  have share: "\<exists>p. share_percent (sh_value d) (donut_total ds) = Fin p \<and> 0 \<le> p \<and> p \<le> 100" if "d \<in> set ds" for d
  proof -
    have "sh_value d \<le> donut_total ds"
      using that assms by (auto simp: donut_total_sum intro!: member_le_sum_list)
    then show ?thesis using share_percent_bounds [of "sh_value d" "donut_total ds"] assms that pos by metis
  qed
  show ?thesis
    using False sorted sum share perm some color_slices_color legend_of_slices [of ds]
    by (simp add: DonutChart_def color_slices_map vals del: map_map map_eq_conv)
qed

lemma donut_complete_witness:
  "case DonutChart (\<lambda>k a. k) [\<lparr>sh_label = js ''a'', sh_value = 1\<rparr>, \<lparr>sh_label = js ''b'', sh_value = 3\<rparr>] None of
      None \<Rightarrow> False | Some c \<Rightarrow> sorted_wrt (\<ge>) (map sl_value (do_slices c)) \<and> do_total c = js ''4''"
proof -
  let ?ds = "[\<lparr>sh_label = js ''a'', sh_value = 1\<rparr>, \<lparr>sh_label = js ''b'', sh_value = 3\<rparr>]"
  have "\<forall>d \<in> set ?ds. 0 \<le> sh_value d" by simp
  from donut_complete [OF this, where t = "\<lambda>k a. k" and center = None] show ?thesis
    by (simp add: DonutChart_def donut_total_def donut_items_def int_to_string_def dec.simps js_def)
qed

text \<open>A line chart has one series of as many points as the data, and a second one exactly when some
  datum has a second value; the legend names the series that are drawn, in their order.\<close>

theorem line_chart_series:
  assumes "LineChart t ps names = Some c"
  shows "(\<forall>s \<in> set (lo_series c). length (se_data s) = length (lo_labels c))
    \<and> length (lo_series c) = (if \<exists>p \<in> set ps. pt_value2 p \<noteq> None then 2 else 1)
    \<and> (case lo_legend c of None \<Rightarrow> length (lo_series c) = 1
        | Some (a, b) \<Rightarrow> map se_name (lo_series c) = [a, b])
    \<and> distinct (map se_color (lo_series c))"
  using assms by (auto simp: LineChart_def Let_def line_series_def hasSecond_def list_ex_iff COLORS_def
      split: if_splits)

lemma line_chart_series_witness:
  "length (lo_series (the (LineChart (\<lambda>k a. k) [\<lparr>pt_label = [], pt_value = 1, pt_value2 = Some 2\<rparr>] None))) = 2"
proof -
  let ?ps = "[\<lparr>pt_label = [], pt_value = 1, pt_value2 = Some 2\<rparr>]"
  obtain c where c: "LineChart (\<lambda>k a. k) ?ps None = Some c" by (simp add: LineChart_def Let_def)
  from line_chart_series [OF c] c show ?thesis by simp
qed

end
