(* ===== verification/StatsPages.thy ===== *)
theory StatsPages
  imports Charts View Endpoints LogPages
begin

text \<open>
  frontend/src/pages/usage/TokenStats.tsx and frontend/src/pages/Dashboard.tsx: the statistics, with
  the filters of the first and the ranks and quotas of the second. The date library is the parameter
  \<open>Dayjs\<close>: the current moment, \<open>startOf\<close>, \<open>subtract\<close> and \<open>toISOString\<close>.
\<close>

section \<open>Token statistics: filters\<close>

record 'd Dayjs =
  dj_now :: 'd
  dj_startOf :: "'d \<Rightarrow> string \<Rightarrow> 'd"
  dj_subtract :: "'d \<Rightarrow> int \<Rightarrow> string \<Rightarrow> 'd"
  dj_iso :: "'d \<Rightarrow> jsstring"

record 'd TokenFilters =
  tkf_range :: "'d date_range"
  tkf_api_key_id :: "int option"
  tkf_model :: jsstring
  tkf_granularity :: Granularity

record 'd TokenPage =
  tkp_filters :: "'d TokenFilters"
  tkp_applied :: "'d TokenFilters"
  tkp_activePreset :: jsstring

record 'd Preset =
  ps_key :: jsstring
  ps_label :: jsstring
  ps_range :: "'d Dayjs \<Rightarrow> 'd \<times> 'd"
  ps_granularity :: Granularity

definition buildPresets :: "translate \<Rightarrow> 'd Preset list" where
  "buildPresets t =
     [\<lparr>ps_key = js ''today'', ps_label = t (js ''tokenStats.presetToday'') [],
       ps_range = (\<lambda>D. (dj_startOf D (dj_now D) ''day'', dj_now D)), ps_granularity = G_hour\<rparr>,
      \<lparr>ps_key = js ''7d'', ps_label = t (js ''tokenStats.preset7d'') [],
       ps_range = (\<lambda>D. (dj_startOf D (dj_subtract D (dj_now D) 6 ''day'') ''day'', dj_now D)), ps_granularity = G_day\<rparr>,
      \<lparr>ps_key = js ''30d'', ps_label = t (js ''tokenStats.preset30d'') [],
       ps_range = (\<lambda>D. (dj_startOf D (dj_subtract D (dj_now D) 29 ''day'') ''day'', dj_now D)), ps_granularity = G_day\<rparr>,
      \<lparr>ps_key = js ''month'', ps_label = t (js ''tokenStats.presetMonth'') [],
       ps_range = (\<lambda>D. (dj_startOf D (dj_now D) ''month'', dj_now D)), ps_granularity = G_day\<rparr>]"

definition some_range :: "'d \<times> 'd \<Rightarrow> 'd date_range" where
  "some_range r = Some (Some (fst r), Some (snd r))"

text \<open>The filters of a render, with the range of the last 30 days up to its moment.\<close>

definition defaultFilters :: "translate \<Rightarrow> 'd Dayjs \<Rightarrow> 'd TokenFilters" where
  "defaultFilters t D = \<lparr>tkf_range = some_range (ps_range (buildPresets t ! 2) D), tkf_api_key_id = None,
     tkf_model = [], tkf_granularity = G_day\<rparr>"

definition token_initial :: "translate \<Rightarrow> 'd Dayjs \<Rightarrow> 'd TokenPage" where
  "token_initial t D = \<lparr>tkp_filters = defaultFilters t D, tkp_applied = defaultFilters t D,
     tkp_activePreset = js ''30d''\<rparr>"

definition token_params :: "('d \<Rightarrow> jsstring) \<Rightarrow> 'd TokenFilters \<Rightarrow> TokenStatsFilter" where
  "token_params iso_text f =
     \<lparr>tf_start = range_start iso_text (tkf_range f), tf_end = range_end iso_text (tkf_range f),
      tf_api_key_id = tkf_api_key_id f, tf_model = str_or_undef (tkf_model f),
      tf_granularity = Some (tkf_granularity f)\<rparr>"

definition token_query :: "('d \<Rightarrow> jsstring) \<Rightarrow> 'd TokenPage \<Rightarrow> request" where
  "token_query iso_text s = tokenStatsApi_get (token_params iso_text (tkp_applied s))"

text \<open>The export leaves the granularity out.\<close>

definition token_export :: "('d \<Rightarrow> jsstring) \<Rightarrow> int \<Rightarrow> 'd TokenPage \<Rightarrow> download" where
  "token_export iso_text now s =
     tokenStatsApi_exportCsv now ((token_params iso_text (tkp_applied s))\<lparr>tf_granularity := None\<rparr>)"

definition token_exported :: "translate \<Rightarrow> 'a outcome \<Rightarrow> World \<Rightarrow> World" where
  "token_exported t out w =
     (case out of Resolved _ \<Rightarrow> toast (T_success (t (js ''tokenStats.exportSuccess'') [])) w | Rejected _ \<Rightarrow> w)"

definition applyPreset :: "translate \<Rightarrow> 'd Dayjs \<Rightarrow> jsstring \<Rightarrow> 'd TokenPage \<Rightarrow> 'd TokenPage" where
  "applyPreset t D key s =
     (case find (\<lambda>x. ps_key x = key) (buildPresets t) of
        None \<Rightarrow> s
      | Some preset \<Rightarrow>
          let next' = (tkp_filters s)\<lparr>tkf_range := some_range (ps_range preset D),
                                      tkf_granularity := ps_granularity preset\<rparr>
          in s\<lparr>tkp_activePreset := key, tkp_filters := next', tkp_applied := next'\<rparr>)"

definition choose_preset :: "translate \<Rightarrow> 'd Dayjs \<Rightarrow> jsstring \<Rightarrow> 'd TokenPage \<Rightarrow> 'd TokenPage" where
  "choose_preset t D v s =
     (if v = js ''custom'' then s\<lparr>tkp_activePreset := js ''custom''\<rparr> else applyPreset t D v s)"

definition preset_options :: "translate \<Rightarrow> (jsstring \<times> jsstring) list" where
  "preset_options t =
     map (\<lambda>p. (ps_key p, ps_label p)) (buildPresets t :: unit Preset list)
     @ [(js ''custom'', t (js ''tokenStats.presetCustom'') [])]"

definition token_range :: "'d date_range \<Rightarrow> 'd TokenPage \<Rightarrow> 'd TokenPage" where
  "token_range v s = s\<lparr>tkp_activePreset := js ''custom'', tkp_filters := (tkp_filters s)\<lparr>tkf_range := v\<rparr>\<rparr>"

definition token_filter :: "('d TokenFilters \<Rightarrow> 'd TokenFilters) \<Rightarrow> 'd TokenPage \<Rightarrow> 'd TokenPage" where
  "token_filter g s = s\<lparr>tkp_filters := g (tkp_filters s)\<rparr>"

definition token_api_key :: "int option \<Rightarrow> 'd TokenFilters \<Rightarrow> 'd TokenFilters" where
  "token_api_key v f = f\<lparr>tkf_api_key_id := v\<rparr>"

definition token_model :: "jsstring \<Rightarrow> 'd TokenFilters \<Rightarrow> 'd TokenFilters" where
  "token_model v f = f\<lparr>tkf_model := v\<rparr>"

definition token_granularity :: "Granularity \<Rightarrow> 'd TokenFilters \<Rightarrow> 'd TokenFilters" where
  "token_granularity v f = f\<lparr>tkf_granularity := v\<rparr>"

definition token_search :: "'d TokenPage \<Rightarrow> 'd TokenPage" where
  "token_search s = s\<lparr>tkp_applied := tkp_filters s\<rparr>"

definition token_reset :: "translate \<Rightarrow> 'd Dayjs \<Rightarrow> 'd TokenPage \<Rightarrow> 'd TokenPage" where
  "token_reset t D s = s\<lparr>tkp_activePreset := js ''30d'', tkp_filters := defaultFilters t D,
     tkp_applied := defaultFilters t D\<rparr>"

section \<open>Token statistics: what is shown\<close>

definition opt_number :: "Ui \<Rightarrow> int option \<Rightarrow> jsstring" where
  "opt_number u n = fmtNumber (ui_locale u) (ui_lang u) (map_option (\<lambda>i. Fin (of_int i)) n)"

definition maxKeyTokens :: "TokenStatsData option \<Rightarrow> int" where
  "maxKeyTokens data = foldl max 1 (map tk_total_tokens (case data of None \<Rightarrow> [] | Some d \<Rightarrow> td_by_key d))"

text \<open>The five figures: title, value and suffix.\<close>

definition token_statistics :: "Ui \<Rightarrow> TokenStatsData option \<Rightarrow> (jsstring \<times> jsstring \<times> jsstring) list" where
  "token_statistics u data =
     (let get = (\<lambda>f. map_option (\<lambda>d. f (td_summary d)) data) in
      [(tr u ''tokenStats.totalTokensTitle'', opt_number u (get ts_total_tokens), []),
       (tr u ''tokenStats.colPromptTokens'', opt_number u (get ts_prompt_tokens), []),
       (tr u ''tokenStats.colCompletionTokens'', opt_number u (get ts_completion_tokens), []),
       (tr u ''tokenStats.colCallsCount'', opt_number u (get ts_calls), []),
       (tr u ''tokenStats.totalKeys'', int_to_string (or_else (get ts_keys_with_usage) 0),
        js ''/ '' @ int_to_string (or_else (get ts_total_keys) 0))])"

definition trend_title :: "Ui \<Rightarrow> 'd TokenPage \<Rightarrow> jsstring" where
  "trend_title u s =
     tr u (if tkf_granularity (tkp_applied s) = G_hour then ''tokenStats.trendByHour'' else ''tokenStats.trendByDay'')"

definition token_trend :: "Ui \<Rightarrow> TokenStatsData option \<Rightarrow> LineOption option" where
  "token_trend u data =
     LineChart (ui_t u)
       (map (\<lambda>p. \<lparr>pt_label = drop 5 (tt_bucket p), pt_value = tt_prompt_tokens p,
                   pt_value2 = Some (tt_completion_tokens p)\<rparr>) (case data of None \<Rightarrow> [] | Some d \<Rightarrow> td_trend d))
       (Some (tr u ''tokenStats.seriesPrompt'', tr u ''tokenStats.seriesCompletion''))"

definition token_by_model :: "Ui \<Rightarrow> TokenStatsData option \<Rightarrow> DonutOption option" where
  "token_by_model u data =
     DonutChart (ui_t u)
       (map (\<lambda>m. \<lparr>sh_label = tm_model m, sh_value = tm_total_tokens m\<rparr>) (case data of None \<Rightarrow> [] | Some d \<Rightarrow> td_by_model d))
       (Some (tr u ''tokenStats.byModelCenter''))"

definition token_columns :: "Ui \<Rightarrow> TokenUsageByKey column list" where
  "token_columns u =
     [col (tr u ''tokenStats.colApiKey'') None
        (\<lambda>r. Cells [Txt (tk_api_key_label r), Txt (js ''#'' @ int_to_string (tk_api_key_id r))]),
      col (tr u ''tokenStats.colCallsCount'') (Some 110) (\<lambda>r. Txt (show_number u (tk_calls r))),
      col (tr u ''tokenStats.colPromptTokens'') (Some 140) (\<lambda>r. Txt (show_number u (tk_prompt_tokens r))),
      col (tr u ''tokenStats.colCompletionTokens'') (Some 150) (\<lambda>r. Txt (show_number u (tk_completion_tokens r))),
      col (tr u ''tokenStats.colTotalTokens'') (Some 140) (\<lambda>r. Txt (show_number u (tk_total_tokens r))),
      col (tr u ''tokenStats.colShare'') (Some 180) (\<lambda>r. Txt (show_number u (tk_total_tokens r)))]"

text \<open>The share of a key, and the comparison of each column that sorts.\<close>

definition token_share :: "TokenStatsData option \<Rightarrow> TokenUsageByKey \<Rightarrow> jsnum" where
  "token_share data r = percent_of (tk_total_tokens r) (maxKeyTokens data)"

definition token_sorters :: "(string \<times> (TokenUsageByKey \<Rightarrow> TokenUsageByKey \<Rightarrow> int)) list" where
  "token_sorters =
     [(''calls'', \<lambda>a b. tk_calls a - tk_calls b),
      (''prompt_tokens'', \<lambda>a b. tk_prompt_tokens a - tk_prompt_tokens b),
      (''completion_tokens'', \<lambda>a b. tk_completion_tokens a - tk_completion_tokens b),
      (''total_tokens'', \<lambda>a b. tk_total_tokens a - tk_total_tokens b)]"

section \<open>Dashboard\<close>

definition dashboard_statistics :: "Ui \<Rightarrow> DashboardData option \<Rightarrow> (jsstring \<times> jsstring) list" where
  "dashboard_statistics u data =
     (let get = (\<lambda>f. map_option (\<lambda>d. f (dd_today d)) data) in
      [(tr u ''dashboard.totalCalls'', opt_number u (get dt_calls)),
       (tr u ''dashboard.successCount'', opt_number u (get dt_success)),
       (tr u ''dashboard.blockedCount'', opt_number u (get dt_blocked)),
       (tr u ''dashboard.errorCount'', opt_number u (get dt_errors))])"

text \<open>The mean latency, which the figure takes as a number, absent until there are data.\<close>

definition dashboard_latency :: "Ui \<Rightarrow> DashboardData option \<Rightarrow> jsstring \<times> int option" where
  "dashboard_latency u data = (tr u ''dashboard.avgLatency'', map_option (\<lambda>d. dt_avg_latency_ms (dd_today d)) data)"

definition dashboard_trend :: "Ui \<Rightarrow> DashboardData option \<Rightarrow> LineOption option" where
  "dashboard_trend u data =
     LineChart (ui_t u)
       (map (\<lambda>d. \<lparr>pt_label = drop 5 (tp_date d), pt_value = tp_calls d, pt_value2 = Some (tp_blocked d)\<rparr>)
          (case data of None \<Rightarrow> [] | Some d \<Rightarrow> dd_trend_7d d))
       (Some (tr u ''dashboard.trendCalls'', tr u ''dashboard.trendBlocked''))"

definition dashboard_categories :: "Ui \<Rightarrow> DashboardData option \<Rightarrow> DonutOption option" where
  "dashboard_categories u data =
     DonutChart (ui_t u)
       (map (\<lambda>c. \<lparr>sh_label = show_enum u ''keywordCategory'' (bc_category c), sh_value = bc_count c\<rparr>)
          (case data of None \<Rightarrow> [] | Some d \<Rightarrow> dd_block_categories d))
       (Some (tr u ''dashboard.blockTotal''))"

record RankLine =
  ra_label :: jsstring
  ra_calls :: jsstring
  ra_percent :: jsnum
  ra_first :: bool

definition max_calls :: "ModelRank list \<Rightarrow> int" where
  "max_calls ms = foldl max 1 (map mr_calls ms)"

definition rank_line :: "Ui \<Rightarrow> ModelRank list \<Rightarrow> nat \<Rightarrow> ModelRank \<Rightarrow> RankLine" where
  "rank_line u ms i m =
     \<lparr>ra_label = int_to_string (int i + 1) @ js ''. '' @ mr_model m, ra_calls = show_number u (mr_calls m),
      ra_percent = percent_of (mr_calls m) (max_calls ms), ra_first = (i = 0)\<rparr>"

text \<open>The ranking, or its text when there is none.\<close>

definition top_models :: "Ui \<Rightarrow> DashboardData option \<Rightarrow> jsstring + RankLine list" where
  "top_models u data =
     (let ms = (case data of None \<Rightarrow> [] | Some d \<Rightarrow> dd_top_models d) in
      if ms = [] then Inl (tr u ''dashboard.noData'')
      else Inr (map (\<lambda>(i, m). rank_line u ms i m) (zip [0..<length ms] ms)))"

definition health_columns :: "Ui \<Rightarrow> UpstreamHealth column list" where
  "health_columns u =
     [col (tr u ''dashboard.colProvider'') None (\<lambda>r. Txt (uh_provider r)),
      col (tr u ''dashboard.colProtocol'') (Some 150) (\<lambda>r. Txt (show_enum u ''protocol'' (uh_protocol r))),
      col (tr u ''dashboard.colStatus'') (Some 90)
        (\<lambda>r. if uh_healthy r then colored ''success'' (tr u ''common.enabled'')
             else colored ''error'' (tr u ''dashboard.abnormal'')),
      col (tr u ''dashboard.colFailCount'') (Some 90)
        (\<lambda>r. Txt (if uh_fail_count r = 0 then js ''-'' else int_to_string (uh_fail_count r)))]"

record QuotaLine =
  ql_name :: jsstring
  ql_text :: jsstring
  ql_over :: bool
  ql_percent :: jsnum
  ql_status :: progress_status

definition quota_line :: "Ui \<Rightarrow> QuotaUsageItem \<Rightarrow> QuotaLine" where
  "quota_line u q =
     (let pct = (if qu_limit q \<noteq> 0 then min_num 200 (percent_of (qu_used q) (qu_limit q)) else Fin 0);
          over = qu_used q \<ge> qu_limit q
      in \<lparr>ql_name = qu_name q,
          ql_text = show_number u (qu_used q) @ js ''/'' @ show_number u (qu_limit q)
            @ (if over then tr u ''dashboard.overused'' else []),
          ql_over = over, ql_percent = pct,
          ql_status = (if at_least pct 90 \<or> over then PS_exception else PS_active)\<rparr>)"

definition quota_usage :: "Ui \<Rightarrow> DashboardData option \<Rightarrow> jsstring + QuotaLine list" where
  "quota_usage u data =
     (let qs = (case data of None \<Rightarrow> [] | Some d \<Rightarrow> dd_quota_usage d) in
      if qs = [] then Inl (tr u ''dashboard.noQuotaData'') else Inr (map (quota_line u) qs))"

definition dashboard_system :: "Ui \<Rightarrow> DashboardData \<Rightarrow> (jsstring \<times> cell) list" where
  "dashboard_system u d =
     (let sys = dd_system d in
      [(tr u ''dashboard.version'', colored ''blue'' (ds_version sys)),
       (tr u ''dashboard.uptime'', Txt (fmtDuration (ui_t u) (Some (of_int (ds_uptime_seconds sys))))),
       (tr u ''dashboard.configLoad'',
        if ds_config_status sys = js ''ok'' then colored ''success'' (tr u ''dashboard.configOk'')
        else colored ''error'' (ds_config_status sys)),
       (tr u ''dashboard.goVersion'', Txt (ds_go_version sys))])"

text \<open>The alert about calls blocked today, whether it warns, and its text; its link leads to the calls.\<close>

definition intercepted_alert :: "Ui \<Rightarrow> DashboardData \<Rightarrow> (bool \<times> jsstring) option" where
  "intercepted_alert u d =
     (let today = dd_today d in
      if dt_blocked today > 0
      then Some (dt_blocked today > dt_errors today,
                 tr_with u ''dashboard.todayIntercepted''
                   [(''blocked'', show_number u (dt_blocked today)), (''errors'', show_number u (dt_errors today))])
      else None)"

definition view_logs :: "World \<Rightarrow> World" where
  "view_logs w = w\<lparr>w_path := js ''/audit/calls''\<rparr>"

lemmas stats_defs [js_eval] = buildPresets_def some_range_def defaultFilters_def token_initial_def token_params_def
  token_query_def token_export_def token_exported_def applyPreset_def choose_preset_def preset_options_def
  token_range_def token_filter_def token_api_key_def token_model_def token_granularity_def token_search_def
  token_reset_def opt_number_def maxKeyTokens_def token_statistics_def trend_title_def token_trend_def
  token_by_model_def token_columns_def token_share_def token_sorters_def dashboard_statistics_def
  dashboard_latency_def dashboard_trend_def dashboard_categories_def max_calls_def rank_line_def top_models_def
  health_columns_def quota_line_def quota_usage_def dashboard_system_def intercepted_alert_def view_logs_def

section \<open>The filters\<close>

interpretation tokens: filter_page tkp_filters "token_query iso_text"
  "\<lambda>pg psize f. tokenStatsApi_get (token_params iso_text f)" "\<lambda>s. 0"
  "token_export iso_text now" "\<lambda>pg psize f. tokenStatsApi_exportCsv now ((token_params iso_text f)\<lparr>tf_granularity := None\<rparr>)"
  token_filter token_search
  for iso_text :: "'d \<Rightarrow> jsstring" and now
  by unfold_locales (simp_all add: token_query_def token_export_def token_filter_def token_search_def)

section \<open>Properties\<close>

lemma foldl_max_bounds: "m \<le> foldl max m xs \<and> (\<forall>x \<in> set xs. x \<le> foldl max m (xs :: int list))"
proof (induction xs arbitrary: m)
  case (Cons a xs)
  from Cons [of "max m a"] show ?case by auto
qed simp

lemma percent_of_max:
  assumes "x \<in> set xs" "0 \<le> (x :: int)"
  obtains n where "percent_of x (foldl max 1 xs) = Fin (of_int n)" "0 \<le> n" "n \<le> 100"
  using percent_of_bounds [of x "foldl max 1 xs"] foldl_max_bounds [of 1 xs] assms that by force

text \<open>Every bar of the console that compares counts lies between 0 and 100: the share of a key among
  the keys, and the rank of a model among the models, whose bars grow with the calls; the key and the
  model with the most have a full bar. A quota's bar reaches at most 200.\<close>

theorem usage_bars_bounded:
  assumes "\<forall>k \<in> set (td_by_key d). 0 \<le> tk_total_tokens k" "\<forall>m \<in> set ms. 0 \<le> mr_calls m"
  shows "(\<forall>k \<in> set (td_by_key d). \<exists>n. token_share (Some d) k = Fin (of_int n) \<and> 0 \<le> n \<and> n \<le> 100
           \<and> (tk_total_tokens k = maxKeyTokens (Some d) \<longrightarrow> n = 100))
    \<and> (\<forall>m \<in> set ms. \<exists>n. ra_percent (rank_line u ms i m) = Fin (of_int n) \<and> 0 \<le> n \<and> n \<le> 100)
    \<and> (\<forall>m \<in> set ms. \<forall>m' \<in> set ms. mr_calls m \<le> mr_calls m' \<longrightarrow>
          (\<forall>a b. ra_percent (rank_line u ms i m) = Fin a \<and> ra_percent (rank_line u ms j m') = Fin b \<longrightarrow> a \<le> b))
    \<and> (0 \<le> qu_used q \<and> qu_used q \<le> qu_limit q \<longrightarrow>
          (\<exists>n. ql_percent (quota_line u q) = Fin (of_int n) \<and> 0 \<le> n \<and> n \<le> 100))"
proof (intro conjI ballI impI allI)
  fix k assume k: "k \<in> set (td_by_key d)"
  let ?max = "maxKeyTokens (Some d)"
  have pos: "0 < ?max" using foldl_max_bounds [of 1 "map tk_total_tokens (td_by_key d)"] by (simp add: maxKeyTokens_def)
  have "tk_total_tokens k \<in> set (map tk_total_tokens (td_by_key d))" "0 \<le> tk_total_tokens k" using k assms(1) by auto
  from percent_of_max [OF this] obtain n where n: "token_share (Some d) k = Fin (of_int n)" "0 \<le> n" "n \<le> 100"
    by (auto simp: token_share_def maxKeyTokens_def)
  moreover have "n = 100" if "tk_total_tokens k = ?max"
    using percent_of_full [OF pos] n(1) that by (simp add: token_share_def)
  ultimately show "\<exists>n. token_share (Some d) k = Fin (of_int n) \<and> 0 \<le> n \<and> n \<le> 100
      \<and> (tk_total_tokens k = ?max \<longrightarrow> n = 100)" by blast
next
  fix m assume "m \<in> set ms"
  then have "mr_calls m \<in> set (map mr_calls ms)" "0 \<le> mr_calls m" using assms(2) by auto
  from percent_of_max [OF this]
  show "\<exists>n. ra_percent (rank_line u ms i m) = Fin (of_int n) \<and> 0 \<le> n \<and> n \<le> 100"
    by (auto simp: rank_line_def max_calls_def)
next
  fix m m' a b
  assume m: "m \<in> set ms" "m' \<in> set ms" "mr_calls m \<le> mr_calls m'"
    and p: "ra_percent (rank_line u ms i m) = Fin a \<and> ra_percent (rank_line u ms j m') = Fin b"
  have "mr_calls m' \<le> max_calls ms" "0 < max_calls ms"
    using foldl_max_bounds [of 1 "map mr_calls ms"] m(2) by (auto simp: max_calls_def)
  then show "a \<le> b"
    using percent_of_mono [of "mr_calls m" "mr_calls m'" "max_calls ms" a b] m p assms(2)
    by (auto simp: rank_line_def)
next
  assume q: "0 \<le> qu_used q \<and> qu_used q \<le> qu_limit q"
  show "\<exists>n. ql_percent (quota_line u q) = Fin (of_int n) \<and> 0 \<le> n \<and> n \<le> 100"
  proof (cases "qu_limit q = 0")
    case False
    then obtain n where n: "percent_of (qu_used q) (qu_limit q) = Fin (of_int n)" "0 \<le> n" "n \<le> 100"
      using percent_of_bounds [of "qu_used q" "qu_limit q"] q by auto
    then have "min_num 200 (Fin (of_int n)) = Fin (of_int n)" by simp
    with n False show ?thesis by (simp add: quota_line_def Let_def)
  qed (simp add: quota_line_def Let_def)
qed

lemma usage_bars_bounded_witness:
  "\<exists>n. ra_percent (rank_line \<lparr>ui_t = \<lambda>k a. k, ui_lang = [], ui_day = \<lambda>v f. None, ui_locale = \<lambda>l n. [], ui_required = js\<rparr>
       [\<lparr>mr_model = js ''a'', mr_calls = 3\<rparr>, \<lparr>mr_model = js ''b'', mr_calls = 7\<rparr>] 0
       \<lparr>mr_model = js ''a'', mr_calls = 3\<rparr>) = Fin (of_int n) \<and> 0 \<le> n \<and> n \<le> 100"
proof -
  let ?z = "\<lparr>ts_calls = 0, ts_prompt_tokens = 0, ts_completion_tokens = 0, ts_total_tokens = 0,
    ts_keys_with_usage = 0, ts_total_keys = 0\<rparr>"
  let ?d = "\<lparr>td_range = \<lparr>tr_start = [], tr_end = [], tr_granularity = G_day\<rparr>, td_summary = ?z, td_by_key = [],
    td_by_model = [], td_trend = []\<rparr>"
  let ?ms = "[\<lparr>mr_model = js ''a'', mr_calls = 3\<rparr>, \<lparr>mr_model = js ''b'', mr_calls = 7\<rparr>]"
  have "\<forall>k \<in> set (td_by_key ?d). 0 \<le> tk_total_tokens k" "\<forall>m \<in> set ?ms. 0 \<le> mr_calls m" by simp_all
  from usage_bars_bounded [OF this] show ?thesis by simp
qed

text \<open>A quota whose limit is zero, or is used up exactly, is shown as exceeded.\<close>

lemma zero_limit_overused: "qu_limit q = 0 \<Longrightarrow> 0 \<le> qu_used q \<Longrightarrow> ql_over (quota_line u q) \<and> ql_percent (quota_line u q) = Fin 0"
  by (simp add: quota_line_def Let_def)

end
