(* ===== verification/QueryCache.thy ===== *)
theory QueryCache
  imports Providers ApiKeys QuotaBatch Keywords PiiRules InjectionRules Models RateLimits Security StatusPages
    LogPages StatsPages ConfigPages
begin

text \<open>
  The queries of the pages as they share one cache (the \<open>QueryClient\<close> of frontend/src/App.tsx): the
  key and the request of every \<open>useQuery\<close>, and the keys every mutation invalidates. A key is the JSON
  react-query hashes: its elements in order, an object by its present fields. The cache itself is
  react-query's; what the pages rely on is \<open>key_law\<close>: a filter of one string matches the keys that
  begin with it.
\<close>

section \<open>Keys and requests of the hooks\<close>

definition key_name :: "string \<Rightarrow> json" where
  "key_name s = JStr (js s)"

definition auth_me_key :: "json list" where
  "auth_me_key = [key_name ''auth-me'']"
definition auth_me_query :: "AuthState \<Rightarrow> request option" where
  "auth_me_query s = (if isLoggedIn s then Some authApi_me else None)"
definition account_me_query :: request where
  "account_me_query = authApi_me"
definition mfa_status_key :: "json list" where
  "mfa_status_key = [key_name ''account-mfa-status'']"

definition dashboard_key :: "json list" where
  "dashboard_key = [key_name ''dashboard'']"

definition providers_key :: "int \<Rightarrow> ProviderSearch \<Rightarrow> json list" where
  "providers_key pageSize s =
     [key_name ''providers'', int_json (prvs_page s), int_json pageSize, JStr (prvs_searchText s)]"

definition models_key :: "int \<Rightarrow> int \<Rightarrow> jsstring \<Rightarrow> json list" where
  "models_key page pageSize searchText =
     [key_name ''models'', int_json page, int_json pageSize, JStr searchText]"
definition providers_all_key :: "json list" where
  "providers_all_key = [key_name ''providers-all'']"
definition providers_all :: request where
  "providers_all = providerApi_list \<lparr>pp_page = Some 1, pp_page_size = Some 500, pp_keyword = None\<rparr>"

text \<open>\<open>statsTarget?.id\<close> is undefined without a target, which the hash of a key writes as null.\<close>

definition model_stats_key :: "ModelAlias option \<Rightarrow> json list" where
  "model_stats_key target =
     [key_name ''model-stats'', (case target of Some r \<Rightarrow> int_json (ma_id r) | None \<Rightarrow> JNull)]"

definition failover_key :: "json list" where "failover_key = [key_name ''failover'']"

text \<open>The object \<open>applied\<close>: an unset choice is the empty text, an unset switch null.\<close>

definition applied_json :: "KeywordFilters \<Rightarrow> json" where
  "applied_json f = obj
     [(''keyword'', Some (JStr (kfs_keyword f))),
      (''category'', Some (JStr (or_else (map_option KeywordCategory_str (kfs_category f)) []))),
      (''enabled'', Some (or_else (map_option JBool (kfs_enabled f)) JNull)),
      (''action'', Some (JStr (or_else (map_option RuleAction_str (kfs_action f)) [])))]"
definition keywords_key :: "int \<Rightarrow> KeywordFilters \<Rightarrow> json list" where
  "keywords_key pageSize f =
     [key_name ''keywords'', int_json (kfs_page f), int_json pageSize, applied_json f]"

definition pii_key :: "int \<Rightarrow> RuleSearch \<Rightarrow> json list" where
  "pii_key pageSize s = [key_name ''pii-rules'', int_json (se_page s), int_json pageSize, JStr (se_keyword s)]"
definition pii_templates_key :: "json list" where "pii_templates_key = [key_name ''pii-templates'']"
definition pii_templates_query :: "bool \<Rightarrow> request option" where
  "pii_templates_query templateOpen = (if templateOpen then Some piiApi_templates else None)"

definition injection_key :: "int \<Rightarrow> RuleSearch \<Rightarrow> json list" where
  "injection_key pageSize s =
     [key_name ''injection-rules'', int_json (se_page s), int_json pageSize, JStr (se_keyword s)]"
definition injection_templates_key :: "json list" where
  "injection_templates_key = [key_name ''injection-templates'']"
definition injection_templates_query :: "bool \<Rightarrow> request option" where
  "injection_templates_query templateOpen = (if templateOpen then Some injectionApi_templates else None)"

definition output_key :: "json list" where "output_key = [key_name ''guard-output'']"

definition quotas_key :: "QuotasPage \<Rightarrow> json list" where
  "quotas_key s = [key_name ''quotas'', int_json (cr_page s), int_json (cr_pageSize s)]"
definition quotas_apikeys_query :: "json list \<times> request" where
  "quotas_apikeys_query = ([key_name ''apikeys-all''],
     apikeyApi_list \<lparr>pp_page = Some 1, pp_page_size = Some 500, pp_keyword = None\<rparr>)"
definition quotas_models_query :: "json list \<times> request" where
  "quotas_models_query = ([key_name ''models-all''],
     modelApi_list \<lparr>pp_page = Some 1, pp_page_size = Some 500, pp_keyword = None\<rparr>)"

definition rateLimits_key :: "RateLimitsPage \<Rightarrow> json list" where
  "rateLimits_key s = [key_name ''rate-limits'', int_json (cr_page s), int_json (cr_pageSize s)]"
definition rateLimits_apikeys_query :: "json list \<times> request" where
  "rateLimits_apikeys_query = ([key_name ''apikeys-all''],
     apikeyApi_list \<lparr>pp_page = Some 1, pp_page_size = Some 500, pp_keyword = None\<rparr>)"

definition alerts_key :: "json list" where "alerts_key = [key_name ''quota-alerts'']"

definition calls_key :: "CallLogFilter \<Rightarrow> json list" where
  "calls_key params = [key_name ''call-logs'', obj (CallLogFilter_json params)]"
definition calls_apikeys_query :: "json list \<times> request" where
  "calls_apikeys_query = ([key_name ''apikeys-all''], apikeys_all)"
definition operations_key :: "OpLogFilter \<Rightarrow> json list" where
  "operations_key params = [key_name ''op-logs'', obj (OpLogFilter_json params)]"
definition token_key :: "TokenStatsFilter \<Rightarrow> json list" where
  "token_key params = [key_name ''token-stats'', obj (TokenStatsFilter_json params)]"
definition token_apikeys_query :: "json list \<times> request" where
  "token_apikeys_query = ([key_name ''apikeys-all''],
     apikeyApi_list \<lparr>pp_page = Some 1, pp_page_size = Some 500, pp_keyword = None\<rparr>)"

definition general_key :: "json list" where "general_key = [key_name ''settings-general'']"
definition apikeys_key :: "ApiKeysPage \<Rightarrow> json list" where
  "apikeys_key s = [key_name ''apikeys'', int_json (kp_page s), int_json (kp_pageSize s)]"
definition apikeys_models_query :: "json list \<times> request" where
  "apikeys_models_query = ([key_name ''models-all''],
     modelApi_list \<lparr>pp_page = Some 1, pp_page_size = Some 1000, pp_keyword = None\<rparr>)"
definition security_settings_key :: "json list" where "security_settings_key = [key_name ''settings-security'']"
definition users_key :: "SecurityPage \<Rightarrow> json list" where
  "users_key s = [key_name ''users'', int_json (sp_page s), int_json (sp_pageSize s)]"
definition config_status_key :: "json list" where "config_status_key = [key_name ''config-status'']"
definition runtime_status_key :: "json list" where "runtime_status_key = [key_name ''runtime-status'']"
definition backups_key :: "json list" where "backups_key = [key_name ''backups'']"

text \<open>\<open>modelOptions\<close>: what the key dialog offers of the aliases it has loaded.\<close>

definition apikeys_modelOptions :: "ModelAlias list option \<Rightarrow> (jsstring \<times> jsstring) list" where
  "apikeys_modelOptions items = map (\<lambda>m. (ma_alias m, ma_alias m)) (or_else items [])"

section \<open>All queries of the console\<close>

text \<open>A hook with the variables of the page it closes over. A query that is disabled has no request.\<close>

datatype query =
    Q_auth_me AuthState | Q_account_me | Q_mfa_status | Q_dashboard
  | Q_providers int ProviderSearch | Q_models int int jsstring | Q_providers_all | Q_model_stats "ModelAlias option"
  | Q_failover | Q_keywords int KeywordFilters | Q_pii int RuleSearch | Q_pii_templates bool
  | Q_injection int RuleSearch | Q_injection_templates bool | Q_output
  | Q_quotas QuotasPage | Q_quotas_apikeys | Q_quotas_models | Q_rateLimits RateLimitsPage | Q_rateLimits_apikeys
  | Q_alerts | Q_calls CallLogFilter | Q_calls_apikeys | Q_operations OpLogFilter
  | Q_token TokenStatsFilter | Q_token_apikeys | Q_general | Q_apikeys ApiKeysPage | Q_apikeys_models
  | Q_security | Q_users SecurityPage | Q_config_status | Q_runtime_status | Q_backups

fun query_key :: "query \<Rightarrow> json list" where
  "query_key (Q_auth_me s) = auth_me_key"
| "query_key Q_account_me = auth_me_key"
| "query_key Q_mfa_status = mfa_status_key"
| "query_key Q_dashboard = dashboard_key"
| "query_key (Q_providers n s) = providers_key n s"
| "query_key (Q_models p n t) = models_key p n t"
| "query_key Q_providers_all = providers_all_key"
| "query_key (Q_model_stats r) = model_stats_key r"
| "query_key Q_failover = failover_key"
| "query_key (Q_keywords n f) = keywords_key n f"
| "query_key (Q_pii n s) = pii_key n s"
| "query_key (Q_pii_templates b) = pii_templates_key"
| "query_key (Q_injection n s) = injection_key n s"
| "query_key (Q_injection_templates b) = injection_templates_key"
| "query_key Q_output = output_key"
| "query_key (Q_quotas s) = quotas_key s"
| "query_key Q_quotas_apikeys = fst quotas_apikeys_query"
| "query_key Q_quotas_models = fst quotas_models_query"
| "query_key (Q_rateLimits s) = rateLimits_key s"
| "query_key Q_rateLimits_apikeys = fst rateLimits_apikeys_query"
| "query_key Q_alerts = alerts_key"
| "query_key (Q_calls p) = calls_key p"
| "query_key Q_calls_apikeys = fst calls_apikeys_query"
| "query_key (Q_operations p) = operations_key p"
| "query_key (Q_token p) = token_key p"
| "query_key Q_token_apikeys = fst token_apikeys_query"
| "query_key Q_general = general_key"
| "query_key (Q_apikeys s) = apikeys_key s"
| "query_key Q_apikeys_models = fst apikeys_models_query"
| "query_key Q_security = security_settings_key"
| "query_key (Q_users s) = users_key s"
| "query_key Q_config_status = config_status_key"
| "query_key Q_runtime_status = runtime_status_key"
| "query_key Q_backups = backups_key"

fun query_request :: "query \<Rightarrow> request option" where
  "query_request (Q_auth_me s) = auth_me_query s"
| "query_request Q_account_me = Some account_me_query"
| "query_request Q_mfa_status = Some accountMfaApi_status"
| "query_request Q_dashboard = Some dashboardApi_get"
| "query_request (Q_providers n s) = Some (providers_query n s)"
| "query_request (Q_models p n t) = Some (models_query p n t)"
| "query_request Q_providers_all = Some providers_all"
| "query_request (Q_model_stats r) = stats_request r"
| "query_request Q_failover = Some failoverApi_get"
| "query_request (Q_keywords n f) = Some (keywords_query n f)"
| "query_request (Q_pii n s) = Some (pii_query n s)"
| "query_request (Q_pii_templates b) = pii_templates_query b"
| "query_request (Q_injection n s) = Some (injection_query n s)"
| "query_request (Q_injection_templates b) = injection_templates_query b"
| "query_request Q_output = Some outputApi_get"
| "query_request (Q_quotas s) = Some (quotas_query s)"
| "query_request Q_quotas_apikeys = Some (snd quotas_apikeys_query)"
| "query_request Q_quotas_models = Some (snd quotas_models_query)"
| "query_request (Q_rateLimits s) = Some (rateLimits_query s)"
| "query_request Q_rateLimits_apikeys = Some (snd rateLimits_apikeys_query)"
| "query_request Q_alerts = Some quotaAlertApi_get"
| "query_request (Q_calls p) = Some (callLogApi_list p)"
| "query_request Q_calls_apikeys = Some (snd calls_apikeys_query)"
| "query_request (Q_operations p) = Some (opLogApi_list p)"
| "query_request (Q_token p) = Some (tokenStatsApi_get p)"
| "query_request Q_token_apikeys = Some (snd token_apikeys_query)"
| "query_request Q_general = Some settingsApi_get"
| "query_request (Q_apikeys s) = Some (apikeys_query s)"
| "query_request Q_apikeys_models = Some (snd apikeys_models_query)"
| "query_request Q_security = Some securityApi_get"
| "query_request (Q_users s) = Some (security_query s)"
| "query_request Q_config_status = Some configStatusApi_get"
| "query_request Q_runtime_status = Some runtimeStatusApi_get"
| "query_request Q_backups = Some backupApi_list"

section \<open>What a mutation invalidates\<close>

definition providers_invalidates :: "string list" where "providers_invalidates = [''providers'']"
definition import_invalidates :: "string list" where "import_invalidates = [''models'']"
definition models_invalidates :: "string list" where "models_invalidates = [''models'']"
definition failover_invalidates :: "string list" where "failover_invalidates = [''failover'']"
definition keywords_invalidates :: "string list" where "keywords_invalidates = [''keywords'']"
definition pii_invalidates :: "string list" where "pii_invalidates = [''pii-rules'']"
definition injection_invalidates :: "string list" where "injection_invalidates = [''injection-rules'']"
definition output_invalidates :: "string list" where "output_invalidates = [''guard-output'']"
definition quotas_invalidates :: "string list" where "quotas_invalidates = [''quotas'']"
definition rateLimits_invalidates :: "string list" where "rateLimits_invalidates = [''rate-limits'']"
definition alerts_invalidates :: "string list" where "alerts_invalidates = [''quota-alerts'']"
definition apikeys_invalidates :: "string list" where "apikeys_invalidates = [''apikeys'', ''apikeys-all'']"
definition users_invalidates :: "string list" where "users_invalidates = [''users'']"
definition backups_invalidates :: "string list" where "backups_invalidates = [''backups'']"

text \<open>The two saves of settings only announce their success.\<close>

definition general_invalidates :: "string list" where "general_invalidates = []"
definition security_invalidates :: "string list" where "security_invalidates = []"

text \<open>Of the account page only the removal of MFA calls \<open>invalidateStatus\<close>; a reload does so half a second later.\<close>

definition mfa_setup_invalidates :: "string list" where "mfa_setup_invalidates = []"
definition mfa_enable_invalidates :: "string list" where "mfa_enable_invalidates = []"
definition mfa_disable_invalidates :: "string list" where "mfa_disable_invalidates = [''account-mfa-status'']"
definition password_invalidates :: "string list" where "password_invalidates = []"
definition config_invalidates :: "string list" where "config_invalidates = [''config-status'']"

datatype mutation =
    MU_provider | MU_import | MU_model | MU_failover | MU_keyword | MU_pii | MU_injection | MU_output
  | MU_quota | MU_rateLimit | MU_alert | MU_apikey | MU_general | MU_security | MU_user | MU_backup
  | MU_mfa_setup | MU_mfa_enable | MU_mfa_disable | MU_password | MU_reload | MU_rollback

fun invalidated :: "mutation \<Rightarrow> string list" where
  "invalidated MU_provider = providers_invalidates"
| "invalidated MU_import = import_invalidates"
| "invalidated MU_model = models_invalidates"
| "invalidated MU_failover = failover_invalidates"
| "invalidated MU_keyword = keywords_invalidates"
| "invalidated MU_pii = pii_invalidates"
| "invalidated MU_injection = injection_invalidates"
| "invalidated MU_output = output_invalidates"
| "invalidated MU_quota = quotas_invalidates"
| "invalidated MU_rateLimit = rateLimits_invalidates"
| "invalidated MU_alert = alerts_invalidates"
| "invalidated MU_apikey = apikeys_invalidates"
| "invalidated MU_general = general_invalidates"
| "invalidated MU_security = security_invalidates"
| "invalidated MU_user = users_invalidates"
| "invalidated MU_backup = backups_invalidates"
| "invalidated MU_mfa_setup = mfa_setup_invalidates"
| "invalidated MU_mfa_enable = mfa_enable_invalidates"
| "invalidated MU_mfa_disable = mfa_disable_invalidates"
| "invalidated MU_password = password_invalidates"
| "invalidated MU_reload = config_invalidates"
| "invalidated MU_rollback = config_invalidates"

text \<open>The requests a mutation sends (a test of a rule or of a provider writes nothing).\<close>

inductive sends :: "mutation \<Rightarrow> request \<Rightarrow> bool" where
  "sends MU_provider (providerApi_create pb)"
| "sends MU_provider (providerApi_update i pb)"
| "sends MU_provider (providerApi_remove i)"
| "sends MU_import (providerApi_importModels i ib)"
| "sends MU_model (modelApi_create mb)"
| "sends MU_model (modelApi_update i mb)"
| "sends MU_model (modelApi_remove i)"
| "sends MU_failover (failoverApi_save fb)"
| "sends MU_keyword (keywordApi_create kb)"
| "sends MU_keyword (keywordApi_update i kb)"
| "sends MU_keyword (keywordApi_remove i)"
| "sends MU_keyword (keywordApi_importCsv csv)"
| "sends MU_pii (piiApi_create rb)"
| "sends MU_pii (piiApi_update i rb)"
| "sends MU_pii (piiApi_remove i)"
| "sends MU_injection (injectionApi_create jb)"
| "sends MU_injection (injectionApi_update i jb)"
| "sends MU_injection (injectionApi_remove i)"
| "sends MU_output (outputApi_save ob)"
| "sends MU_quota (quotaApi_create qb)"
| "sends MU_quota (quotaApi_update i qb)"
| "sends MU_quota (quotaApi_remove i)"
| "sends MU_quota (quotaApi_reset i)"
| "sends MU_quota (quotaApi_batch bb)"
| "sends MU_rateLimit (rateLimitApi_create lb)"
| "sends MU_rateLimit (rateLimitApi_update i lb)"
| "sends MU_rateLimit (rateLimitApi_remove i)"
| "sends MU_alert (quotaAlertApi_save ab)"
| "sends MU_apikey (apikeyApi_create cb)"
| "sends MU_apikey (apikeyApi_update i ub)"
| "sends MU_apikey (apikeyApi_remove i)"
| "sends MU_general (settingsApi_save sb)"
| "sends MU_security (securityApi_save eb)"
| "sends MU_user (userApi_create nb)"
| "sends MU_user (userApi_changePassword i cp)"
| "sends MU_user (userApi_changeRole i cr)"
| "sends MU_user (userApi_setMfaRequired i mr)"
| "sends MU_user (userApi_remove i)"
| "sends MU_user (userApi_unbindMfa i)"
| "sends MU_user (userApi_unlock i)"
| "sends MU_backup backupApi_create"
| "sends MU_backup (backupApi_restore rs)"
| "sends MU_backup (backupApi_remove i)"
| "sends MU_mfa_setup accountMfaApi_setup"
| "sends MU_mfa_enable (accountMfaApi_enable eb')"
| "sends MU_mfa_disable (accountMfaApi_disable db')"
| "sends MU_password (authApi_changePassword wb)"
| "sends MU_reload configStatusApi_reload"
| "sends MU_rollback configStatusApi_rollback"

text \<open>
  What a mutation changes, as the address it is read from (an import creates model aliases; nothing reads a
  password or an MFA secret that is not yet enabled), and the address its requests go to or below.
\<close>

fun resource :: "mutation \<Rightarrow> string" where
  "resource MU_provider = ''/providers''"
| "resource MU_import = ''/models''"
| "resource MU_model = ''/models''"
| "resource MU_failover = ''/failover''"
| "resource MU_keyword = ''/guard/keywords''"
| "resource MU_pii = ''/guard/pii-rules''"
| "resource MU_injection = ''/guard/injection-rules''"
| "resource MU_output = ''/guard/output''"
| "resource MU_quota = ''/quotas''"
| "resource MU_rateLimit = ''/rate-limits''"
| "resource MU_alert = ''/quota-alerts''"
| "resource MU_apikey = ''/apikeys''"
| "resource MU_general = ''/settings''"
| "resource MU_security = ''/settings/security''"
| "resource MU_user = ''/users''"
| "resource MU_backup = ''/backups''"
| "resource MU_mfa_setup = ''/account/mfa/setup''"
| "resource MU_mfa_enable = ''/account/mfa/status''"
| "resource MU_mfa_disable = ''/account/mfa/status''"
| "resource MU_password = ''/auth/password''"
| "resource MU_reload = ''/config-status''"
| "resource MU_rollback = ''/config-status''"

fun written_at :: "mutation \<Rightarrow> string" where
  "written_at MU_import = ''/providers''"
| "written_at MU_mfa_enable = ''/account/mfa''"
| "written_at MU_mfa_disable = ''/account/mfa''"
| "written_at MU_reload = ''/config''"
| "written_at MU_rollback = ''/config''"
| "written_at m = resource m"

definition below :: "string \<Rightarrow> jsstring \<Rightarrow> bool" where
  "below r url \<longleftrightarrow> url = js r \<or> (\<exists>rest. url = js (r @ ''/'') @ rest)"

definition key_law :: "(json list \<Rightarrow> json list \<Rightarrow> bool) \<Rightarrow> bool" where
  "key_law match_key \<longleftrightarrow> (\<forall>s k. match_key [key_name s] k \<longleftrightarrow> (\<exists>ks. k = key_name s # ks))"

definition covered :: "(json list \<Rightarrow> json list \<Rightarrow> bool) \<Rightarrow> mutation \<Rightarrow> query \<Rightarrow> bool" where
  "covered match_key m q \<longleftrightarrow> (\<exists>s \<in> set (invalidated m). match_key [key_name s] (query_key q))"

section \<open>Lemmas\<close>

lemmas key_defs = auth_me_key_def mfa_status_key_def dashboard_key_def providers_key_def models_key_def
  providers_all_key_def model_stats_key_def failover_key_def keywords_key_def pii_key_def
  pii_templates_key_def injection_key_def injection_templates_key_def output_key_def quotas_key_def
  quotas_apikeys_query_def quotas_models_query_def rateLimits_key_def rateLimits_apikeys_query_def
  alerts_key_def calls_key_def calls_apikeys_query_def operations_key_def token_key_def
  token_apikeys_query_def general_key_def apikeys_key_def apikeys_models_query_def
  security_settings_key_def users_key_def config_status_key_def runtime_status_key_def backups_key_def

lemmas query_defs = auth_me_query_def account_me_query_def providers_query_def models_query_def
  providers_all_def stats_request_def keywords_query_def pii_query_def pii_templates_query_def
  injection_query_def injection_templates_query_def quotas_query_def rateLimits_query_def
  apikeys_query_def security_query_def apikeys_all_def

lemmas invalidates_defs = providers_invalidates_def import_invalidates_def models_invalidates_def
  failover_invalidates_def keywords_invalidates_def pii_invalidates_def injection_invalidates_def
  output_invalidates_def quotas_invalidates_def rateLimits_invalidates_def alerts_invalidates_def
  apikeys_invalidates_def users_invalidates_def backups_invalidates_def general_invalidates_def
  security_invalidates_def mfa_setup_invalidates_def mfa_enable_invalidates_def mfa_disable_invalidates_def
  password_invalidates_def config_invalidates_def

lemma key_name_inject [simp]: "key_name s = key_name t \<longleftrightarrow> js s = js t"
  by (simp add: key_name_def)

lemma int_json_inject [simp]: "int_json i = int_json j \<longleftrightarrow> i = j" "int_json i \<noteq> JNull" "JNull \<noteq> int_json i"
  by (simp_all add: int_json_def)

lemma choice_inject:
  assumes "\<And>a b. f a = f b \<Longrightarrow> a = b" "\<And>a. f a \<noteq> []"
  shows "or_else (map_option f x) [] = or_else (map_option f y) [] \<longleftrightarrow> x = y"
  using assms(1) assms(2) assms(2) [symmetric] by (cases x; cases y) auto

lemma category_inject: "KeywordCategory_str a = KeywordCategory_str b \<Longrightarrow> a = b"
  by (cases a; cases b) simp_all

lemma category_text: "KeywordCategory_str a \<noteq> []"
  by (cases a) simp_all

lemma action_inject: "RuleAction_str a = RuleAction_str b \<Longrightarrow> a = b"
  by (cases a; cases b) simp_all

lemma action_text: "RuleAction_str a \<noteq> []"
  by (cases a) simp_all

lemmas choices = choice_inject [of KeywordCategory_str, OF category_inject category_text]
  choice_inject [of RuleAction_str, OF action_inject action_text]

lemma switch_inject: "or_else (map_option JBool x) JNull = or_else (map_option JBool y) JNull \<longleftrightarrow> x = y"
  by (cases x; cases y) auto

lemma applied_json_inject:
  "applied_json f = applied_json g \<Longrightarrow> kfs_keyword f = kfs_keyword g \<and> kfs_category f = kfs_category g
     \<and> kfs_enabled f = kfs_enabled g \<and> kfs_action f = kfs_action g"
  by (simp add: applied_json_def obj_def choices switch_inject)

text \<open>The name a key begins with.\<close>

fun query_name :: "query \<Rightarrow> string" where
  "query_name (Q_auth_me s) = ''auth-me''"
| "query_name Q_account_me = ''auth-me''"
| "query_name Q_mfa_status = ''account-mfa-status''"
| "query_name Q_dashboard = ''dashboard''"
| "query_name (Q_providers n s) = ''providers''"
| "query_name (Q_models p n t) = ''models''"
| "query_name Q_providers_all = ''providers-all''"
| "query_name (Q_model_stats r) = ''model-stats''"
| "query_name Q_failover = ''failover''"
| "query_name (Q_keywords n f) = ''keywords''"
| "query_name (Q_pii n s) = ''pii-rules''"
| "query_name (Q_pii_templates b) = ''pii-templates''"
| "query_name (Q_injection n s) = ''injection-rules''"
| "query_name (Q_injection_templates b) = ''injection-templates''"
| "query_name Q_output = ''guard-output''"
| "query_name (Q_quotas s) = ''quotas''"
| "query_name Q_quotas_apikeys = ''apikeys-all''"
| "query_name Q_quotas_models = ''models-all''"
| "query_name (Q_rateLimits s) = ''rate-limits''"
| "query_name Q_rateLimits_apikeys = ''apikeys-all''"
| "query_name Q_alerts = ''quota-alerts''"
| "query_name (Q_calls p) = ''call-logs''"
| "query_name Q_calls_apikeys = ''apikeys-all''"
| "query_name (Q_operations p) = ''op-logs''"
| "query_name (Q_token p) = ''token-stats''"
| "query_name Q_token_apikeys = ''apikeys-all''"
| "query_name Q_general = ''settings-general''"
| "query_name (Q_apikeys s) = ''apikeys''"
| "query_name Q_apikeys_models = ''models-all''"
| "query_name Q_security = ''settings-security''"
| "query_name (Q_users s) = ''users''"
| "query_name Q_config_status = ''config-status''"
| "query_name Q_runtime_status = ''runtime-status''"
| "query_name Q_backups = ''backups''"

lemma query_key_name: "\<exists>ks. query_key q = key_name (query_name q) # ks"
  by (cases q) (simp_all add: key_defs)

lemma query_key_hd: "hd (query_key q) = key_name (query_name q)"
  by (cases q) (simp_all add: key_defs)

lemma same_key_name: "query_key q = query_key q' \<Longrightarrow> query_name q = query_name q'"
  using query_key_hd [of q] query_key_hd [of q'] by simp

lemma covered_name: "key_law pm \<Longrightarrow> covered pm m q \<longleftrightarrow> query_name q \<in> set (invalidated m)"
proof -
  assume law: "key_law pm"
  obtain ks where "query_key q = key_name (query_name q) # ks" using query_key_name by blast
  with law show ?thesis by (auto simp: covered_def key_law_def)
qed

text \<open>The address of a query, for the queries that read a whole resource.\<close>

lemma path_id_starts:
  assumes "path_id pre i suf = js r"
  shows "take (length pre) r = pre"
proof -
  have "take (length pre) (js r) = take (length (js pre)) (js pre @ int_to_string i @ js suf)"
    using assms by (simp only: path_id_def length_js)
  then have "take (length pre) (js r) = js pre" by simp
  moreover have "take n (js r) = js (take n r)" for n by (simp add: js_def take_map)
  ultimately show ?thesis by simp
qed

lemma stats_url: "path_id ''/models/'' i ''/stats'' \<noteq> js (resource m)"
  using path_id_starts [of "''/models/''" i "''/stats''" "resource m"] by (cases m) auto

fun query_kind :: "query \<Rightarrow> nat" where
  "query_kind (Q_auth_me s) = 0"
| "query_kind Q_account_me = 0"
| "query_kind Q_mfa_status = 1"
| "query_kind Q_dashboard = 2"
| "query_kind (Q_providers n s) = 3"
| "query_kind (Q_models p n t) = 4"
| "query_kind Q_providers_all = 5"
| "query_kind (Q_model_stats r) = 6"
| "query_kind Q_failover = 7"
| "query_kind (Q_keywords n f) = 8"
| "query_kind (Q_pii n s) = 9"
| "query_kind (Q_pii_templates b) = 10"
| "query_kind (Q_injection n s) = 11"
| "query_kind (Q_injection_templates b) = 12"
| "query_kind Q_output = 13"
| "query_kind (Q_quotas s) = 14"
| "query_kind Q_quotas_apikeys = 15"
| "query_kind Q_quotas_models = 16"
| "query_kind (Q_rateLimits s) = 17"
| "query_kind Q_rateLimits_apikeys = 15"
| "query_kind Q_alerts = 18"
| "query_kind (Q_calls p) = 19"
| "query_kind Q_calls_apikeys = 15"
| "query_kind (Q_operations p) = 20"
| "query_kind (Q_token p) = 21"
| "query_kind Q_token_apikeys = 15"
| "query_kind Q_general = 22"
| "query_kind (Q_apikeys s) = 23"
| "query_kind Q_apikeys_models = 16"
| "query_kind Q_security = 24"
| "query_kind (Q_users s) = 25"
| "query_kind Q_config_status = 26"
| "query_kind Q_runtime_status = 27"
| "query_kind Q_backups = 28"

lemma same_name_kind: "query_name q = query_name q' \<Longrightarrow> query_kind q = query_kind q'"
  by (cases q; cases q'; simp)

lemma same_kind:
  assumes "query_kind q = query_kind q'" "query_key q = query_key q'"
    and "query_request q = Some rq" "query_request q' = Some rq'"
  shows "rq = rq' \<or> {q, q'} = {Q_quotas_models, Q_apikeys_models}"
  using assms
  by (cases q; cases q'; simp only: query_kind.simps rel_simps refl simp_thms)
    (auto simp: key_defs query_defs callLogApi_list_def opLogApi_list_def tokenStatsApi_get_def
      dest: applied_json_inject split: if_splits option.splits)

section \<open>Addresses\<close>

text \<open>The address a query reads, but for the statistics of one alias.\<close>

fun query_address :: "query \<Rightarrow> string" where
  "query_address (Q_auth_me s) = ''/auth/me''"
| "query_address Q_account_me = ''/auth/me''"
| "query_address Q_mfa_status = ''/account/mfa/status''"
| "query_address Q_dashboard = ''/dashboard''"
| "query_address (Q_providers n s) = ''/providers''"
| "query_address (Q_models p n t) = ''/models''"
| "query_address Q_providers_all = ''/providers''"
| "query_address (Q_model_stats r) = []"
| "query_address Q_failover = ''/failover''"
| "query_address (Q_keywords n f) = ''/guard/keywords''"
| "query_address (Q_pii n s) = ''/guard/pii-rules''"
| "query_address (Q_pii_templates b) = ''/guard/pii-rules/templates''"
| "query_address (Q_injection n s) = ''/guard/injection-rules''"
| "query_address (Q_injection_templates b) = ''/guard/injection-rules/templates''"
| "query_address Q_output = ''/guard/output''"
| "query_address (Q_quotas s) = ''/quotas''"
| "query_address Q_quotas_apikeys = ''/apikeys''"
| "query_address Q_quotas_models = ''/models''"
| "query_address (Q_rateLimits s) = ''/rate-limits''"
| "query_address Q_rateLimits_apikeys = ''/apikeys''"
| "query_address Q_alerts = ''/quota-alerts''"
| "query_address (Q_calls p) = ''/audit/calls''"
| "query_address Q_calls_apikeys = ''/apikeys''"
| "query_address (Q_operations p) = ''/audit/operations''"
| "query_address (Q_token p) = ''/token-stats''"
| "query_address Q_token_apikeys = ''/apikeys''"
| "query_address Q_general = ''/settings''"
| "query_address (Q_apikeys s) = ''/apikeys''"
| "query_address Q_apikeys_models = ''/models''"
| "query_address Q_security = ''/settings/security''"
| "query_address (Q_users s) = ''/users''"
| "query_address Q_config_status = ''/config-status''"
| "query_address Q_runtime_status = ''/status''"
| "query_address Q_backups = ''/backups''"

lemmas read_defs = authApi_me_def accountMfaApi_status_def dashboardApi_get_def providerApi_list_def
  modelApi_list_def modelApi_stats_def failoverApi_get_def keywordApi_list_def piiApi_list_def
  piiApi_templates_def injectionApi_list_def injectionApi_templates_def outputApi_get_def quotaApi_list_def
  rateLimitApi_list_def quotaAlertApi_get_def callLogApi_list_def opLogApi_list_def tokenStatsApi_get_def
  settingsApi_get_def apikeyApi_list_def securityApi_get_def userApi_list_def configStatusApi_get_def
  runtimeStatusApi_get_def backupApi_list_def

lemmas write_defs = providerApi_create_def providerApi_update_def providerApi_remove_def
  modelApi_create_def modelApi_update_def modelApi_remove_def failoverApi_save_def
  keywordApi_create_def keywordApi_update_def keywordApi_remove_def keywordApi_importCsv_def
  piiApi_create_def piiApi_update_def piiApi_remove_def injectionApi_create_def injectionApi_update_def
  injectionApi_remove_def outputApi_save_def quotaApi_create_def quotaApi_update_def quotaApi_remove_def
  quotaApi_reset_def quotaApi_batch_def rateLimitApi_create_def rateLimitApi_update_def
  rateLimitApi_remove_def quotaAlertApi_save_def apikeyApi_create_def apikeyApi_update_def
  apikeyApi_remove_def settingsApi_save_def securityApi_save_def userApi_create_def
  userApi_changePassword_def userApi_changeRole_def userApi_setMfaRequired_def userApi_remove_def
  userApi_unbindMfa_def userApi_unlock_def accountMfaApi_setup_def accountMfaApi_enable_def
  accountMfaApi_disable_def authApi_changePassword_def configStatusApi_reload_def
  configStatusApi_rollback_def providerApi_importModels_def backupApi_create_def backupApi_restore_def backupApi_remove_def

lemma query_reads:
  assumes "query_request q = Some rd"
  shows "rq_url rd = js (query_address q)
    \<or> query_address q = [] \<and> (\<exists>i. rq_url rd = path_id ''/models/'' i ''/stats'')"
  using assms
  by (cases q) (auto simp: query_defs key_defs read_defs split: if_splits)

text \<open>A mutation that does not ask again for what it has changed, or not for all of it.\<close>

definition forgotten :: "(mutation \<times> query) set" where
  "forgotten = {(MU_provider, Q_providers_all),
     (MU_model, Q_quotas_models), (MU_model, Q_apikeys_models),
     (MU_import, Q_quotas_models), (MU_import, Q_apikeys_models),
     (MU_general, Q_general), (MU_security, Q_security), (MU_mfa_enable, Q_mfa_status)}"

lemma address_readers:
  "query_name q \<in> set (invalidated m) \<longleftrightarrow> query_address q = resource m \<and> (m, q) \<notin> forgotten"
  by (cases q; cases m; simp add: invalidates_defs forgotten_def)

lemma request_reads:
  assumes "query_request q = Some rd"
  shows "rq_url rd = js (resource m) \<longleftrightarrow> query_address q = resource m"
  using query_reads [OF assms]
proof
  assume "query_address q = [] \<and> (\<exists>i. rq_url rd = path_id ''/models/'' i ''/stats'')"
  moreover have "resource m \<noteq> []" by (cases m) simp_all
  ultimately show ?thesis using stats_url [of _ m] by metis
qed simp

lemma below_path: "pre = r @ ''/'' \<Longrightarrow> below r (path_id pre i suf)"
  by (auto simp: below_def path_id_def)

lemma below_refl: "below r (js r)"
  by (simp add: below_def)

lemma below_js: "u = r @ ''/'' @ v \<Longrightarrow> below r (js u)"
  unfolding below_def by (intro disjI2 exI [of _ "js v"]) (simp only: js_append append_assoc)

lemma sends_below: "sends m rq \<Longrightarrow> below (written_at m) (rq_url rq)"
  by (induction rule: sends.induct)
    (simp_all add: write_defs below_path below_refl below_js [where v = "''import''"]
      below_js [where v = "''batch''"] below_js [where v = "''restore''"] below_js [where v = "''enable''"]
      below_js [where v = "''disable''"] below_js [where v = "''reload''"] below_js [where v = "''rollback''"])

section \<open>Properties\<close>

text \<open>C21: Queries that share a key ask the same request, whatever the state of their pages, so that
  what one of them has cached is what the other would have received. The one exception is the pair of
  hooks that load the aliases for a selection: they share a key and ask for pages of different size.\<close>

theorem query_keys_determine_requests:
  assumes "query_key q = query_key q'" "query_request q = Some rq" "query_request q' = Some rq'"
  shows "rq = rq' \<or> {q, q'} = {Q_quotas_models, Q_apikeys_models}"
  by (rule same_kind [OF same_name_kind [OF same_key_name [OF assms(1)]] assms])

lemma query_keys_determine_requests_witness:
  "Q_quotas_apikeys \<noteq> Q_calls_apikeys \<and> query_request Q_quotas_apikeys = query_request Q_calls_apikeys
   \<and> query_key Q_quotas_models = query_key Q_apikeys_models
   \<and> query_request Q_quotas_models \<noteq> query_request Q_apikeys_models"
proof -
  have k: "query_key Q_quotas_apikeys = query_key Q_calls_apikeys" by (simp add: key_defs)
  have "snd quotas_apikeys_query = snd calls_apikeys_query"
    using query_keys_determine_requests [OF k, of "snd quotas_apikeys_query" "snd calls_apikeys_query"] by auto
  then show ?thesis
    by (simp add: key_defs modelApi_list_def page_params_def PageParams_json_def obj_def http_get_def int_json_def)
qed

text \<open>C22: A mutation that succeeds invalidates exactly the queries that read its resource, on
  whatever page and with whatever filters, with eight exceptions, which it forgets: a change of the
  providers the selection of providers; a change or import of aliases the two selections of aliases,
  which other pages load under a key of their own; a save of the general or the security settings its
  own form; and the enabling of MFA its status. All requests of a mutation go to its address or below it. (The
  resource is what the address names: what a restoration or a rollback changes elsewhere is not counted.)\<close>

theorem mutations_invalidate_readers:
  assumes "key_law match_key" "sends m rq" "query_request q = Some rd"
  shows "(covered match_key m q \<longleftrightarrow> rq_url rd = js (resource m) \<and> (m, q) \<notin>
      {(MU_provider, Q_providers_all),
       (MU_model, Q_quotas_models), (MU_model, Q_apikeys_models),
       (MU_import, Q_quotas_models), (MU_import, Q_apikeys_models),
       (MU_general, Q_general), (MU_security, Q_security), (MU_mfa_enable, Q_mfa_status)})
    \<and> below (written_at m) (rq_url rq)"
  using sends_below [OF assms(2)] request_reads [OF assms(3)]
  by (simp only: covered_name [OF assms(1)] address_readers forgotten_def)

lemma key_law_prefix: "key_law (\<lambda>f k. take (length f) k = f)"
proof -
  have "take (length [key_name s]) k = [key_name s] \<longleftrightarrow> (\<exists>ks. k = key_name s # ks)" for s k
    by (cases k) auto
  then show ?thesis unfolding key_law_def by blast
qed

lemma mutations_invalidate_readers_witness:
  "covered (\<lambda>f k. take (length f) k = f) MU_apikey Q_calls_apikeys
   \<and> \<not> covered (\<lambda>f k. take (length f) k = f) MU_apikey Q_dashboard
   \<and> \<not> covered (\<lambda>f k. take (length f) k = f) MU_mfa_enable Q_mfa_status"
proof -
  have "query_request Q_calls_apikeys = Some (snd calls_apikeys_query)"
    "rq_url (snd calls_apikeys_query) = js (resource MU_apikey)"
    "query_request Q_mfa_status = Some accountMfaApi_status"
    "query_request Q_dashboard = Some dashboardApi_get" "rq_url dashboardApi_get \<noteq> js (resource MU_apikey)"
    by (simp_all add: key_defs query_defs read_defs)
  moreover have "sends MU_apikey (apikeyApi_remove 1)" "sends MU_mfa_enable (accountMfaApi_enable \<lparr>meb_code = []\<rparr>)"
    by (rule sends.intros)+
  ultimately show ?thesis
    using mutations_invalidate_readers [OF key_law_prefix, of MU_apikey _ Q_calls_apikeys]
      mutations_invalidate_readers [OF key_law_prefix, of MU_apikey _ Q_dashboard]
      mutations_invalidate_readers [OF key_law_prefix, of MU_mfa_enable _ Q_mfa_status]
    by blast
qed

text \<open>Restoring a backup replaces the whole configuration, and invalidates the list of backups alone.\<close>

lemma restore_invalidates_backups: "key_law match_key \<Longrightarrow> covered match_key MU_backup q \<longleftrightarrow> q = Q_backups"
  by (cases q) (simp_all add: covered_name invalidates_defs)

end
