(* ===== verification/Freshness.thy ===== *)
theory Freshness
  imports QueryCache Session
begin

text \<open>
  How old the data of a page may be: the options of the \<open>QueryClient\<close> of frontend/src/App.tsx and of
  the single hooks, and what a hook shows that mounts while an earlier answer is still cached. The
  cache is react-query's, the parameter \<open>C\<close>; what the pages rely on is its documented behaviour,
  \<open>client_law\<close>: an answer is kept for five minutes, a hook that mounts shows it since once, and asks the
  server again exactly when the answer is older than the hook's \<open>staleTime\<close> or was invalidated.
  Times are in milliseconds.
\<close>

section \<open>Options of the hooks\<close>

definition default_staleTime :: int where "default_staleTime = 15000"
definition auth_me_staleTime :: int where "auth_me_staleTime = 30000"
definition apikeys_models_staleTime :: int where "apikeys_models_staleTime = 60000"

fun stale_time :: "query \<Rightarrow> int" where
  "stale_time (Q_auth_me s) = auth_me_staleTime"
| "stale_time Q_apikeys_models = apikeys_models_staleTime"
| "stale_time q = default_staleTime"

text \<open>The pages that ask again by themselves.\<close>

definition dashboard_interval :: int where "dashboard_interval = 30000"
definition runtime_interval :: int where "runtime_interval = 5000"
definition config_interval :: int where "config_interval = 5000"

fun refetch_interval :: "query \<Rightarrow> int option" where
  "refetch_interval Q_dashboard = Some dashboard_interval"
| "refetch_interval Q_runtime_status = Some runtime_interval"
| "refetch_interval Q_config_status = Some config_interval"
| "refetch_interval q = None"

text \<open>\<open>retry: 1\<close>, and \<open>retry: false\<close> of the guard: how often a request that keeps failing is sent.\<close>

definition default_attempts :: nat where "default_attempts = 2"
definition auth_me_attempts :: nat where "auth_me_attempts = 1"

fun attempts :: "query \<Rightarrow> nat" where
  "attempts (Q_auth_me s) = auth_me_attempts"
| "attempts q = default_attempts"

section \<open>The client\<close>

text \<open>
  An answer arrives at a time; a filter is invalidated; a hook mounts with its \<open>staleTime\<close> at a time,
  and has the data it shows since once and whether it asks the server.
\<close>

record ('c, 'd) Client =
  received :: "json list \<Rightarrow> 'd \<Rightarrow> int \<Rightarrow> 'c \<Rightarrow> 'c"
  invalidate :: "json list \<Rightarrow> 'c \<Rightarrow> 'c"
  mounted :: "int \<Rightarrow> json list \<Rightarrow> int \<Rightarrow> 'c \<Rightarrow> 'd option \<times> bool"

definition gc_time :: int where "gc_time = 300000"

definition client_law :: "(json list \<Rightarrow> json list \<Rightarrow> bool) \<Rightarrow> ('c, 'd) Client \<Rightarrow> bool" where
  "client_law match_key C \<longleftrightarrow>
     (\<forall>st k now d since c. 0 \<le> now - since \<and> now - since < gc_time \<longrightarrow>
        mounted C st k now (received C k d since c) = (Some d, st \<le> now - since))
   \<and> (\<forall>st k k' now d since c. k \<noteq> k' \<longrightarrow> mounted C st k now (received C k' d since c) = mounted C st k now c)
   \<and> (\<forall>st k f now c. mounted C st k now (invalidate C f c) =
        (let (d, go) = mounted C st k now c in (d, go \<or> match_key f k)))"

section \<open>What happens between two visits\<close>

text \<open>
  Between two visits of a page, answers of other queries arrive and mutations succeed. A mutation that
  succeeds invalidates its filters in their order.
\<close>

definition succeeded :: "('c, 'd) Client \<Rightarrow> mutation \<Rightarrow> 'c \<Rightarrow> 'c" where
  "succeeded C m = fold (\<lambda>s. invalidate C [key_name s]) (invalidated m)"

datatype 'd cache_event = Ev_answer query 'd int | Ev_success mutation

fun happens :: "('c, 'd) Client \<Rightarrow> 'd cache_event \<Rightarrow> 'c \<Rightarrow> 'c" where
  "happens C (Ev_answer q d since) c = received C (query_key q) d since c"
| "happens C (Ev_success m) c = succeeded C m c"

text \<open>A hook that is disabled shows what is cached and never asks.\<close>

definition visit :: "('c, 'd) Client \<Rightarrow> query \<Rightarrow> int \<Rightarrow> 'c \<Rightarrow> 'd option \<times> bool" where
  "visit C q now c =
     (let (d, go) = mounted C (stale_time q) (query_key q) now c in (d, go \<and> query_request q \<noteq> None))"

fun answers :: "query \<Rightarrow> 'd cache_event \<Rightarrow> bool" where
  "answers q (Ev_answer q' d since) = (query_key q' = query_key q)"
| "answers q (Ev_success m) = False"

fun successes :: "'d cache_event list \<Rightarrow> mutation list" where
  "successes [] = []"
| "successes (Ev_answer q d since # es) = successes es"
| "successes (Ev_success m # es) = m # successes es"

lemma visit_received:
  assumes "client_law match_key C" "0 \<le> now - since" "now - since < gc_time"
  shows "visit C q now (received C (query_key q) d since c) = (Some d, stale_time q \<le> now - since \<and> query_request q \<noteq> None)"
  using assms by (simp add: client_law_def visit_def)

lemma visit_other:
  assumes "client_law match_key C" "query_key q' \<noteq> query_key q"
  shows "visit C q now (received C (query_key q') d since c) = visit C q now c"
  using assms by (simp add: client_law_def visit_def)

lemma visit_invalidates:
  assumes "client_law match_key C"
  shows "visit C q now (fold (\<lambda>s. invalidate C [key_name s]) ss c) =
    (let (d, go) = visit C q now c
     in (d, go \<or> (\<exists>s \<in> set ss. match_key [key_name s] (query_key q)) \<and> query_request q \<noteq> None))"
proof (induction ss arbitrary: c)
  case (Cons s ss)
  have "visit C q now (invalidate C [key_name s] c)
      = (let (d, go) = visit C q now c in (d, go \<or> match_key [key_name s] (query_key q) \<and> query_request q \<noteq> None))"
    using assms by (auto simp: client_law_def visit_def split: prod.splits)
  then show ?case by (auto simp: Cons.IH split: prod.splits)
qed simp

lemma visit_succeeded:
  assumes "client_law match_key C"
  shows "visit C q now (succeeded C m c) = (let (d, go) = visit C q now c in (d, go \<or> covered match_key m q \<and> query_request q \<noteq> None))"
  unfolding succeeded_def covered_def by (rule visit_invalidates [OF assms])

lemma visit_events:
  assumes "client_law match_key C" "\<forall>e \<in> set es. \<not> answers q e"
  shows "visit C q now (fold (happens C) es c) =
    (let (d, go) = visit C q now c
     in (d, go \<or> (\<exists>m \<in> set (successes es). covered match_key m q) \<and> query_request q \<noteq> None))"
  using assms(2)
proof (induction es arbitrary: c)
  case (Cons e es)
  then show ?case
    by (cases e) (auto simp: visit_other [OF assms(1)] visit_succeeded [OF assms(1)] split: prod.splits)
qed simp

section \<open>A client that keeps the law\<close>

text \<open>A map from keys to the last answer, its time, and whether it was invalidated.\<close>

type_synonym 'd entries = "json list \<Rightarrow> ('d \<times> int \<times> bool) option"

definition entries_client :: "('d entries, 'd) Client" where
  "entries_client = \<lparr>received = \<lambda>k d since c. c(k \<mapsto> (d, since, False)),
     invalidate = \<lambda>f c k. map_option (\<lambda>(d, since, old). (d, since, old \<or> take (length f) k = f)) (c k),
     mounted = \<lambda>st k now c. case c k of
        Some (d, since, old) \<Rightarrow> if now - since < gc_time then (Some d, old \<or> st \<le> now - since) else (None, True)
      | None \<Rightarrow> (None, True)\<rparr>"

lemma entries_client_law: "client_law (\<lambda>f k. take (length f) k = f) entries_client"
  by (auto simp: client_law_def entries_client_def split: option.splits)

section \<open>Repeated requests\<close>

text \<open>A request that is sent until it succeeds or its attempts are used up: the answers in their order.\<close>

fun run_attempts :: "translate \<Rightarrow> request \<Rightarrow> (request \<Rightarrow> axios_result) list \<Rightarrow> World \<Rightarrow> resolved outcome option \<times> World" where
  "run_attempts t rq [] w = (None, w)"
| "run_attempts t rq (net # nets) w =
     (case send t net rq w of
        (Resolved r, w') \<Rightarrow> (Some (Resolved r), w')
      | (Rejected e, w') \<Rightarrow> if nets = [] then (Some (Rejected e), w') else run_attempts t rq nets w')"

lemma failing_attempts:
  "\<lbrakk>ts \<noteq> []; list_all (\<lambda>net. \<forall>rq. net rq = Failed e) ts\<rbrakk>
   \<Longrightarrow> run_attempts t rq ts w = (Some (Rejected (error_of e)), fold (\<lambda>e w. snd (on_rejected t e w)) (replicate (length ts) e) w)"
proof (induction ts arbitrary: w)
  case (Cons net ts)
  have "fst (on_rejected t e w) = error_of e" for w by (simp add: on_rejected_def Let_def)
  then have "send t net rq w = (Rejected (error_of e), snd (on_rejected t e w))"
    using Cons.prems by (simp add: send_def map_prod_def split: prod.splits) (metis fst_conv)
  then show ?case using Cons by (cases "ts = []") auto
qed simp

section \<open>Properties\<close>

text \<open>C24: A saved setting is shown with its old value: who loads the general or the security settings,
  changes and saves them, leaves the page and comes back within fifteen seconds of the load finds the form filled
  with the settings of the load, without a request, and pressing save again writes those back, undoing
  the change. The failover, output filter and alert pages ask again in the same situation.\<close>

theorem settings_return_old:
  assumes "client_law match_key C" "key_law match_key" "0 \<le> now - since" "now - since < default_staleTime"
  shows "visit C Q_general now (succeeded C MU_general (received C general_key old since c)) = (Some old, False)
    \<and> general_onSubmit u (config_loaded general_prefill (Some g) \<lparr>cp_form = general_initial, cp_stale = False\<rparr>)
        = Some (settingsApi_save (settings_input g))
    \<and> visit C Q_security now (succeeded C MU_security (received C security_settings_key old since c)) = (Some old, False)
    \<and> security_save u (security_loaded (Some s) security_initial) = Some (securityApi_save s)
    \<and> snd (visit C Q_failover now (succeeded C MU_failover (received C failover_key old since c)))
    \<and> snd (visit C Q_output now (succeeded C MU_output (received C output_key old since c)))
    \<and> snd (visit C Q_alerts now (succeeded C MU_alert (received C alerts_key old since c)))"
proof -
  have again: "visit C q now (succeeded C m (received C (query_key q) old since c))
      = (Some old, (stale_time q \<le> now - since \<or> query_name q \<in> set (invalidated m)) \<and> query_request q \<noteq> None)" for q m
    using assms by (auto simp: visit_succeeded visit_received covered_name gc_time_def default_staleTime_def)
  have sec: "security_save u (security_loaded (Some s) security_initial) = Some (securityApi_save s)"
    by (simp add: security_save_def security_loaded_def security_form_def security_prefill_def
        securityApi_save_def SecuritySettings_json_def Let_def)
  show ?thesis
    using again [of Q_general MU_general] again [of Q_security MU_security] again [of Q_failover MU_failover]
      again [of Q_output MU_output] again [of Q_alerts MU_alert] assms(4) sec
    by (simp add: general_onSubmit_def general.load_save invalidates_defs)
qed

lemma settings_return_old_witness:
  "visit entries_client Q_general 14999
     (succeeded entries_client MU_general (received entries_client general_key (5::nat) 0 Map.empty)) = (Some 5, False)"
  using settings_return_old [OF entries_client_law key_law_prefix, of 14999 0 "5::nat" Map.empty sample_ui]
  by (simp add: default_staleTime_def)

text \<open>The answer of \<open>/auth/me\<close> that is still fresh is applied without asking, whatever mutations
  succeeded, also to a session that was begun after it arrived: this is the cached answer of
  \<open>stale_me_lifts_restriction\<close>.\<close>

lemma me_served_from_cache:
  assumes "client_law match_key C" "key_law match_key" "0 \<le> now - since" "now - since < 30000"
    and "\<forall>e \<in> set es. \<not> answers (Q_auth_me s) e"
  shows "visit C (Q_auth_me s') now (fold (happens C) es (received C auth_me_key me since c)) = (Some me, False)"
proof -
  have "query_name (Q_auth_me s') \<notin> set (invalidated m)" for m by (cases m) (simp_all add: invalidates_defs)
  moreover have "\<forall>e \<in> set es. \<not> answers (Q_auth_me s') e"
  proof
    fix e assume "e \<in> set es"
    with assms(5) show "\<not> answers (Q_auth_me s') e" by (cases e) auto
  qed
  ultimately show ?thesis
    using assms visit_events [of match_key C es "Q_auth_me s'"] visit_received [of match_key C now since "Q_auth_me s'"]
    by (simp add: covered_name gc_time_def auth_me_staleTime_def)
qed

text \<open>A query that fails twice with the same answer tells the user twice.\<close>

lemma failing_query_told_twice:
  assumes "map_option fst (ae_response e) \<noteq> Some 401" "\<forall>s. q \<noteq> Q_auth_me s" "length ts = attempts q"
    and "list_all (\<lambda>net. \<forall>rq. net rq = Failed e) ts"
  shows "\<exists>m. w_toasts (snd (run_attempts t rq ts w)) = w_toasts w @ [m, m]"
proof -
  have two: "length ts = 2" using assms(2,3) by (cases q) (simp_all add: default_attempts_def)
  then have ne: "ts \<noteq> []" by auto
  have "w_toasts (snd (on_rejected t e w)) = w_toasts w @ [T_error (str_or (case ae_response e of None \<Rightarrow> [] | Some (_, b) \<Rightarrow> body_message b)
      (str_or (ae_message e) (t (js ''common.networkError'') [])))]" for w
    using assms(1) by (auto simp: on_rejected_def Let_def str_or_def split: option.splits prod.splits)
  then show ?thesis
    using failing_attempts [OF ne assms(4)] two by (simp add: numeral_2_eq_2)
qed

end
