(* ===== verification/Frame.thy ===== *)
theory Frame
  imports View Crud
begin

text \<open>
  The elements a page renders, as a tree: its header (frontend/src/components/PageContainer.tsx), its
  toolbar, its tables with their pager, its dialogs. A page of the later theories is a function of its
  state, of the data its queries have, and of what is under way. Of an element the model keeps what is
  read and what can be pressed: texts, placeholders, whether it is disabled, whether it is open. The library groups the
  digits of the figures it is given as numbers; the model shows them plain.
\<close>

section \<open>Elements\<close>

record pager =
  pg_current :: int
  pg_pageSize :: int
  pg_total :: int
  pg_text :: jsstring

text \<open>A table without a pager, with one the page controls, with one of its own over all rows (page size, text).\<close>

datatype paging = Unpaged | Controlled pager | Local int jsstring

text \<open>
  A text, the data of a cell, a button (its label, whether it is disabled; a button that shows that it is
  busy is disabled), a button that asks first
  (its label, the title and text of the question, whether it is disabled), an input (its placeholder and
  text), a selection among translated choices or among data (its placeholder, the values and their labels, the
  value chosen),
  a table (titles, rows, pager, loading state), the items of a form (label, input, the placeholder,
  tooltip, suffix and note of the input, the choices of a selection), labelled values, a notice (kind, message, description), a
  card, a dialog or drawer (title, whether it is open, its button with label and whether it is disabled, its
  content), the tabs or radio buttons, a link, a checkbox (its label, whether it is half checked, checked), numbered steps (their names, the current one), and the page itself (title, description, buttons, content).
\<close>

datatype node =
    Words jsstring
  | Shown cell
  | Press jsstring bool
  | Ask jsstring jsstring jsstring bool
  | Entry jsstring jsstring
  | Pick jsstring "(jsstring \<times> jsstring) list" "jsstring option"
  | Pick_data jsstring "(jsstring \<times> jsstring) list" "jsstring option"
  | Grid "jsstring list" "cell list list" paging table_loading
  | Fields "(jsstring \<times> input \<times> jsstring list \<times> (jsstring \<times> jsstring) list) list"
  | Pairs "(jsstring \<times> cell) list"
  | Notice string jsstring jsstring
  | Card jsstring "node list"
  | Dialog "node list" bool "(jsstring \<times> bool) option" "node list"
  | Tabs "(jsstring \<times> node list) list"
  | Hyperlink jsstring jsstring
  | Check jsstring bool bool
  | Steps "jsstring list" nat
  | Page jsstring jsstring "node list" "node list"

text \<open>The header of a page shows its description only when there is one.\<close>

definition PageContainer :: "jsstring \<Rightarrow> jsstring \<Rightarrow> node list \<Rightarrow> node list \<Rightarrow> node" where
  "PageContainer title description extra children = Page title description extra children"

section \<open>Tables\<close>

definition rows_of :: "'r PageData option \<Rightarrow> 'r list" where
  "rows_of data = (case data of None \<Rightarrow> [] | Some d \<Rightarrow> pd_items d)"

definition total_of :: "'r PageData option \<Rightarrow> int" where
  "total_of data = (case data of None \<Rightarrow> 0 | Some d \<Rightarrow> pd_total d)"

definition cells_of :: "'r column list \<Rightarrow> 'r list \<Rightarrow> cell list list" where
  "cells_of cols rows = map (\<lambda>r. map (\<lambda>c. co_cell c r) cols) rows"

definition pager_of :: "Ui \<Rightarrow> int \<Rightarrow> int \<Rightarrow> 'r PageData option \<Rightarrow> pager" where
  "pager_of u page pageSize data =
     \<lparr>pg_current = page, pg_pageSize = pageSize, pg_total = total_of data, pg_text = show_total u (total_of data)\<rparr>"

text \<open>The table of a page with its pager, and a table without one.\<close>

definition paged_grid ::
  "Ui \<Rightarrow> 'r column list \<Rightarrow> int \<Rightarrow> int \<Rightarrow> 'r PageData option \<Rightarrow> bool \<Rightarrow> bool option \<Rightarrow> node" where
  "paged_grid u cols page pageSize data isLoading busy =
     Grid (map co_title cols) (cells_of cols (rows_of data)) (Controlled (pager_of u page pageSize data))
       (tableLoading isLoading busy (rows_of data \<noteq> []))"

definition busy_grid :: "'r column list \<Rightarrow> 'r list \<Rightarrow> bool \<Rightarrow> node" where
  "busy_grid cols rows busy = Grid (map co_title cols) (cells_of cols rows) Unpaged (TL_spin busy)"

definition local_grid :: "'r column list \<Rightarrow> 'r list \<Rightarrow> int \<Rightarrow> jsstring \<Rightarrow> table_loading \<Rightarrow> node" where
  "local_grid cols rows n txt loading = Grid (map co_title cols) (cells_of cols rows) (Local n txt) loading"

definition plain_grid :: "'r column list \<Rightarrow> 'r list \<Rightarrow> node" where
  "plain_grid cols rows = busy_grid cols rows False"

section \<open>Forms\<close>

text \<open>The items of a form, with the texts around their inputs and the choices of their selections, by name.\<close>

definition form_node ::
  "'f form_item list \<Rightarrow> (string \<times> jsstring list) list \<Rightarrow> (string \<times> (jsstring \<times> jsstring) list) list \<Rightarrow> node" where
  "form_node is hints choices =
     Fields (map (\<lambda>i. (fi_label i, fi_input i, or_else (map_of hints (fi_name i)) [], or_else (map_of choices (fi_name i)) [])) is)"

definition dict_choices :: "Ui \<Rightarrow> string \<Rightarrow> DictMeta list \<Rightarrow> (jsstring \<times> jsstring) list" where
  "dict_choices u ns metas = map (\<lambda>d. (di_value d, di_label d)) (useDictOptions (ui_t u) ns metas)"

text \<open>A dialog whose button has antd's own label and shows that a save is under way, and a drawer.\<close>

definition modal :: "jsstring \<Rightarrow> bool \<Rightarrow> bool \<Rightarrow> node list \<Rightarrow> node" where
  "modal title isOpen busy content = Dialog [Words title] isOpen (Some ([], busy)) content"

definition drawer :: "jsstring \<Rightarrow> bool \<Rightarrow> node list \<Rightarrow> node" where
  "drawer title isOpen content = Dialog [Words title] isOpen None content"

lemmas frame_defs [js_eval] = PageContainer_def rows_of_def total_of_def cells_of_def pager_of_def
  paged_grid_def busy_grid_def local_grid_def plain_grid_def form_node_def dict_choices_def modal_def drawer_def

section \<open>The pagers of a tree\<close>

fun node_pagers :: "node \<Rightarrow> pager list" where
  "node_pagers (Grid ts rows pg ld) = (case pg of Controlled p \<Rightarrow> [p] | _ \<Rightarrow> [])"
| "node_pagers (Card t ns) = concat (map node_pagers ns)"
| "node_pagers (Dialog t isOpen ok ns) = (if isOpen then concat (map node_pagers ns) else [])"
| "node_pagers (Tabs ts) = concat (map (\<lambda>(t, ns). concat (map node_pagers ns)) ts)"
| "node_pagers (Page t d extra ns) = concat (map node_pagers ns)"
| "node_pagers n = []"

text \<open>A translation that shows the key of every text behind a mark, by which the buttons of a page are told apart.\<close>

definition ui_marked :: Ui where
  "ui_marked = \<lparr>ui_t = \<lambda>k a. 0 # k, ui_lang = [], ui_day = \<lambda>v f. None, ui_locale = \<lambda>l n. [], ui_required = \<lambda>n. []\<rparr>"

lemma marked_tr [simp]: "tr ui_marked k = 0 # js k" "tr_with ui_marked k args = 0 # js k"
  "ui_t ui_marked k' as = 0 # k'" "show_total ui_marked n = 0 # js ''common.total''"
  by (simp_all add: tr_def tr_with_def ui_marked_def show_total_def)

end
