(* ===== verification/ListFrames.thy ===== *)
theory ListFrames
  imports Frame ListViews QuotaBatch
begin

text \<open>
  The pages Providers.tsx, Models.tsx, RateLimits.tsx, Quotas.tsx and ApiKeys.tsx as they are rendered: the
  header with its buttons, the toolbar, the table with its pager, the dialogs.
\<close>

section \<open>Providers\<close>

definition providers_toolbar :: "Ui \<Rightarrow> ProviderSearch \<Rightarrow> node list" where
  "providers_toolbar u q = [Entry (tr u ''providers.searchPh'') (prvs_keyword q), Press (tr u ''common.reset'') False]"

definition providers_table ::
  "Ui \<Rightarrow> ImportState \<Rightarrow> int \<Rightarrow> ProviderSearch \<Rightarrow> Provider PageData option \<Rightarrow> bool \<Rightarrow> bool \<Rightarrow> node" where
  "providers_table u im pageSize q data isLoading deleting =
     paged_grid u (providers_columns u (im_testingId im)) (prvs_page q) pageSize data isLoading (Some deleting)"

definition providers_dialog :: "Ui \<Rightarrow> (jsstring \<Rightarrow> bool) \<Rightarrow> ProvidersPage \<Rightarrow> bool \<Rightarrow> node" where
  "providers_dialog u is_url s saving =
     (let editing = cr_editing s \<noteq> None in
      modal
       (case cr_editing s of
          Some r \<Rightarrow> tr_with u ''providers.editTitle'' [(''name'', prov_name r)]
        | None \<Rightarrow> tr u ''providers.createTitle'')
       (cr_modalOpen s) saving
       [form_node (providers_form u is_url editing)
         [(''name'', [tr u ''providers.namePh'']),
          (''base_url'', [js ''https://api.openai.com/v1'']),
          (''api_key'', [tr u (if editing then ''providers.keyExtraEdit'' else ''providers.keyExtraNew''),
                         if editing then tr u ''providers.keyPhKeep'' else js ''sk-...'']),
          (''enabled'', [tr u ''providers.on'', tr u ''providers.off'']),
          (''remark'', [tr u ''providers.remarkPh''])]
         [(''protocol'', dict_choices u ''protocol'' PROTOCOL_META)]])"

text \<open>The dialog that imports the models a test has found.\<close>

definition import_dialog :: "Ui \<Rightarrow> ImportState \<Rightarrow> node" where
  "import_dialog u im =
     Dialog [Words (tr_with u ''providers.importTitle'' [(''name'', case im_provider im of Some p \<Rightarrow> prov_name p | None \<Rightarrow> [])])]
       (im_modalOpen im)
       (Some (tr_with u ''providers.importOkText'' [(''n'', int_to_string (int (length (im_selected im))))],
              im_selected im = [] \<or> im_importing im))
       [Press (tr u ''common.cancel'') False, Words (tr u ''providers.importHint''),
        plain_grid [col (tr u ''providers.colModel'') None Txt] (im_modelList im)]"

definition providers_page ::
  "Ui \<Rightarrow> (jsstring \<Rightarrow> bool) \<Rightarrow> ProvidersPage \<Rightarrow> ProviderSearch \<Rightarrow> ImportState \<Rightarrow> Provider PageData option \<Rightarrow> bool \<Rightarrow> bool \<Rightarrow> bool \<Rightarrow> node" where
  "providers_page u is_url s q im data isLoading deleting saving =
     PageContainer (tr u ''providers.title'') (tr u ''providers.desc'')
       [Press (tr u ''providers.refresh'') False, Press (tr u ''providers.add'') False]
       (providers_toolbar u q
        @ [providers_table u im (cr_pageSize s) q data isLoading deleting, providers_dialog u is_url s saving,
           import_dialog u im])"

section \<open>Model aliases\<close>

definition models_table ::
  "Ui \<Rightarrow> Provider list option \<Rightarrow> ModelsPage \<Rightarrow> ModelAlias PageData option \<Rightarrow> bool \<Rightarrow> node" where
  "models_table u providers s data isLoading =
     paged_grid u (models_columns u providers) (cr_page s) (cr_pageSize s) data isLoading None"

text \<open>A row of the upstreams: its selection, input and number, whose rules are \<open>upstream_items\<close>.\<close>

definition upstream_row :: "Ui \<Rightarrow> Provider list \<Rightarrow> node" where
  "upstream_row u providers =
     form_node (upstream_items u)
       [(''provider_id'', [tr u ''models.providerPh'']), (''upstream_model'', [tr u ''models.upstreamModelPh'']),
        (''weight'', [tr u ''models.weightPh''])]
       [(''provider_id'', map (\<lambda>(i, l, off). (int_to_string i, l)) (provider_options (show_enum u ''protocol'') providers))]"

definition models_dialog :: "Ui \<Rightarrow> Provider list \<Rightarrow> ModelsPage \<Rightarrow> bool \<Rightarrow> node" where
  "models_dialog u providers s saving =
     modal
       (case cr_editing s of
          Some r \<Rightarrow> tr_with u ''models.editTitle'' [(''alias'', ma_alias r)]
        | None \<Rightarrow> tr u ''models.createTitle'')
       (cr_modalOpen s) saving
       ([form_node (models_form u)
           [(''alias'', [tr u ''models.aliasPh'']), (''remark'', [tr u ''models.remarkPh'']),
            (''default_max_tokens'', [tr u ''models.defaultMaxTokensTip'', js ''0''])] [],
         Words (tr u ''models.upstreamsTitle''), Words (tr u ''models.upstreamsHint'')]
        @ map (\<lambda>x. upstream_row u providers) (mf_upstreams (cr_form s))
        @ [Press (tr u ''models.addUpstream'') False])"

text \<open>The drawer of the statistics; a figure that has not arrived is a skeleton.\<close>

definition stat :: "Ui \<Rightarrow> string \<Rightarrow> jsstring \<Rightarrow> jsstring \<times> cell" where
  "stat u k v = (tr u k, Txt v)"

definition stat_number :: "Ui \<Rightarrow> int option \<Rightarrow> jsstring" where
  "stat_number u n = fmtNumber (ui_locale u) (ui_lang u) (map_option (\<lambda>i. Fin (of_int i)) n)"

definition stat_figure :: "Ui \<Rightarrow> string \<Rightarrow> ModelStats option \<Rightarrow> (ModelStats \<Rightarrow> jsstring) \<Rightarrow> jsstring \<times> cell" where
  "stat_figure u k stats f = stat u k (case stats of None \<Rightarrow> [] | Some x \<Rightarrow> f x)"

definition alias_facts :: "Ui \<Rightarrow> ModelAlias \<Rightarrow> node" where
  "alias_facts u r =
     Pairs
       [stat u ''models.colAlias'' (ma_alias r),
        stat u ''models.upstreamCount''
          (tr_with u ''models.upstreamCountUnit'' [(''n'', int_to_string (int (length (ma_upstreams r))))]),
        stat u ''models.statusLabel'' (tr u (if ma_enabled r then ''models.on'' else ''models.off'')),
        stat u ''common.createdAt'' (show_time u (ma_created_at r))]"

definition alias_figures :: "Ui \<Rightarrow> ModelStats option \<Rightarrow> node" where
  "alias_figures u stats =
     Pairs
       [stat_figure u ''models.calls7d'' stats (\<lambda>x. stat_number u (Some (mos_calls_7d x))),
        stat_figure u ''models.callsToday'' stats (\<lambda>x. stat_number u (Some (mos_calls_today x))),
        stat_figure u ''models.blocked7d'' stats (\<lambda>x. stat_number u (Some (mos_blocked_7d x))),
        stat_figure u ''models.avgLatency'' stats (\<lambda>x. int_to_string (mos_avg_latency_ms x) @ js ''ms'')]"

definition stats_drawer :: "Ui \<Rightarrow> ModelAlias option \<Rightarrow> ModelStats option \<Rightarrow> node" where
  "stats_drawer u target stats =
     drawer (tr_with u ''models.statsTitle'' [(''alias'', case target of Some r \<Rightarrow> ma_alias r | None \<Rightarrow> [])])
       (target \<noteq> None)
       (case target of None \<Rightarrow> [] | Some r \<Rightarrow> [alias_facts u r, alias_figures u stats])"

definition models_page ::
  "Ui \<Rightarrow> ModelsPage \<Rightarrow> Provider list option \<Rightarrow> ModelAlias option \<Rightarrow> ModelStats option \<Rightarrow> ModelAlias PageData option \<Rightarrow> bool \<Rightarrow> bool \<Rightarrow> node" where
  "models_page u s providers target stats data isLoading saving =
     PageContainer (tr u ''models.title'') (tr u ''models.desc'') [Press (tr u ''models.add'') False]
       [Entry (tr u ''models.searchPh'') [], Press (tr u ''common.reset'') False,
        models_table u providers s data isLoading, models_dialog u (or_else providers []) s saving,
        stats_drawer u target stats]"

section \<open>Rate limits\<close>

definition rateLimits_grid :: "Ui \<Rightarrow> RateLimitsPage \<Rightarrow> RateLimit PageData option \<Rightarrow> bool \<Rightarrow> bool \<Rightarrow> node" where
  "rateLimits_grid u s data isLoading deleting =
     paged_grid u (rateLimits_columns u) (cr_page s) (cr_pageSize s) data isLoading (Some deleting)"

definition rateLimits_dialog :: "Ui \<Rightarrow> ApiKey list \<Rightarrow> RateLimitsPage \<Rightarrow> bool \<Rightarrow> node" where
  "rateLimits_dialog u keys s saving =
     modal
       (case cr_editing s of
          Some r \<Rightarrow> tr_with u ''rateLimits.editTitle'' [(''id'', int_to_string (rl_id r))]
        | None \<Rightarrow> tr u ''rateLimits.createTitle'')
       (cr_modalOpen s) saving
       [form_node (rateLimits_form u)
         [(''model_alias'', [tr u ''rateLimits.modelTooltip'', tr u ''rateLimits.modelPh'']),
          (''window_seconds'', [js ''60'']), (''max_requests'', [js ''60''])]
         [(''api_key_id'', map (\<lambda>(i, l). (int_to_string i, l)) (rateLimits_key_options (ui_t u) keys))]]"

definition rateLimits_page ::
  "Ui \<Rightarrow> ApiKey list \<Rightarrow> RateLimitsPage \<Rightarrow> RateLimit PageData option \<Rightarrow> bool \<Rightarrow> bool \<Rightarrow> bool \<Rightarrow> node" where
  "rateLimits_page u keys s data isLoading deleting saving =
     PageContainer (tr u ''rateLimits.title'') (tr u ''rateLimits.desc'') [Press (tr u ''rateLimits.add'') False]
       [rateLimits_grid u s data isLoading deleting, rateLimits_dialog u keys s saving]"

section \<open>Quotas\<close>

definition quotas_grid ::
  "Ui \<Rightarrow> QuotasPage \<Rightarrow> Quota PageData option \<Rightarrow> bool \<Rightarrow> bool \<Rightarrow> bool \<Rightarrow> node" where
  "quotas_grid u s data isLoading deleting resetting =
     paged_grid u (quotas_columns u) (cr_page s) (cr_pageSize s) data isLoading (Some (deleting \<or> resetting))"

definition quotas_dialog :: "Ui \<Rightarrow> ApiKey list \<Rightarrow> ModelAlias list \<Rightarrow> QuotasPage \<Rightarrow> bool \<Rightarrow> node" where
  "quotas_dialog u keys models s saving =
     modal (tr u (if cr_editing s \<noteq> None then ''quotas.editTitle'' else ''quotas.createTitle'')) (cr_modalOpen s) saving
       [form_node (quotas_form u (qf_over_action (cr_form s) = Some OA_degrade))
         [(''api_key_id'', [tr u ''quotas.keyPh'']),
          (''model_alias'', [tr u ''quotas.modelTooltip'', tr u ''quotas.modelPh'']),
          (''limit'', [js ''1000'']), (''degrade_alias'', [tr u ''quotas.degradePh''])]
         [(''api_key_id'', map (\<lambda>k. (int_to_string (ak_id k), ak_name k @ js '' ('' @ ak_key_masked k @ js '')'')) keys),
          (''model_alias'', aliasOptions (ui_t u) models),
          (''quota_type'', dict_choices u ''quotaType'' QUOTA_TYPE_META),
          (''period'', dict_choices u ''period'' PERIOD_META),
          (''over_action'', dict_choices u ''overAction'' OVER_ACTION_META),
          (''degrade_alias'', aliasOptions (ui_t u) models)]]"

text \<open>The dialog of a batch shows its complaint only while there is one.\<close>

definition batch_dialog :: "Ui \<Rightarrow> BatchDialog \<Rightarrow> bool \<Rightarrow> node" where
  "batch_dialog u d busy =
     modal (tr u ''quotas.batchTitle'') (bd_open d) busy
       ([Words (tr u ''quotas.batchHint''), Words (tr u ''quotas.batchFormat''), Words (tr u ''quotas.batchHint2''),
         Entry (tr u ''quotas.batchPh'') (bd_text d)]
        @ (if bd_error d \<noteq> [] then [Shown (Txt (bd_error d))] else []))"

definition quotas_page ::
  "Ui \<Rightarrow> ApiKey list \<Rightarrow> ModelAlias list \<Rightarrow> QuotasPage \<Rightarrow> BatchDialog \<Rightarrow> Quota PageData option \<Rightarrow> bool \<Rightarrow> bool \<Rightarrow> bool \<Rightarrow> bool \<Rightarrow> bool \<Rightarrow> node" where
  "quotas_page u keys models s d data isLoading deleting resetting saving sending =
     PageContainer (tr u ''quotas.title'') (tr u ''quotas.desc'')
       [Press (tr u ''quotas.refresh'') False, Press (tr u ''quotas.batch'') False, Press (tr u ''quotas.add'') False]
       [quotas_grid u s data isLoading deleting resetting, quotas_dialog u keys models s saving, batch_dialog u d sending]"

section \<open>API keys\<close>

definition apikeys_grid :: "Ui \<Rightarrow> ApiKeysPage \<Rightarrow> ApiKey PageData option \<Rightarrow> bool \<Rightarrow> node" where
  "apikeys_grid u s data isLoading =
     paged_grid u (apikeys_columns u) (kp_page s) (kp_pageSize s) data isLoading None"

definition apikeys_dialog :: "Ui \<Rightarrow> ModelAlias list option \<Rightarrow> ApiKeysPage \<Rightarrow> bool \<Rightarrow> bool \<Rightarrow> node" where
  "apikeys_dialog u models s creating updating =
     modal
       (case kp_editing s of
          Some r \<Rightarrow> tr_with u ''apikeys.editTitle'' [(''name'', ak_name r)]
        | None \<Rightarrow> tr u ''apikeys.createTitle'')
       (apikeys_modal_open s) (creating \<or> updating)
       [form_node (apikeys_form u (kp_editing s \<noteq> None))
         [(''name'', [tr u ''apikeys.namePh'']), (''remark'', [tr u ''apikeys.remarkPh'']),
          (''allowed_models'', [tr u ''apikeys.modelsTooltip'', tr u ''apikeys.modelsPh'']),
          (''ip_allowlist_enabled'', [tr u ''apikeys.ipEnabledTooltip'']),
          (''ip_allowlist_text'', [tr u ''apikeys.ipTooltip'', join [10] (map js [''10.0.0.0/8'', ''192.168.1.5'', ''2001:db8::/32''])])]
         [(''allowed_models'', map (\<lambda>m. (ma_alias m, ma_alias m)) (or_else models []))]]"

text \<open>The key that was created is shown once, with a footer of its own; without one the dialog is closed and empty.\<close>

definition created_dialog :: "Ui \<Rightarrow> ApiKeysPage \<Rightarrow> node" where
  "created_dialog u s =
     drawer (tr u ''apikeys.createdTitle'') (kp_created s \<noteq> None)
       [Notice ''warning'' (tr u ''apikeys.createdWarn'') [],
        Entry [] (case kp_created s of Some c \<Rightarrow> akd_key c | None \<Rightarrow> []),
        Press (tr u ''apikeys.copy'') False,
        Words (tr_with u ''apikeys.meta''
          (case kp_created s of
             Some c \<Rightarrow> [(''name'', akd_name c), (''id'', int_to_string (akd_id c))]
           | None \<Rightarrow> [(''name'', []), (''id'', [])])),
        Press (tr u ''apikeys.saved'') False]"

definition apikeys_page :: "Ui \<Rightarrow> ModelAlias list option \<Rightarrow> ApiKeysPage \<Rightarrow> ApiKey PageData option \<Rightarrow> bool \<Rightarrow> bool \<Rightarrow> bool \<Rightarrow> node" where
  "apikeys_page u models s data isLoading creating updating =
     PageContainer (tr u ''apikeys.title'') (tr u ''apikeys.desc'') [Press (tr u ''apikeys.add'') False]
       [apikeys_grid u s data isLoading, apikeys_dialog u models s creating updating, created_dialog u s]"

lemmas list_frame_defs [js_eval] = providers_toolbar_def providers_table_def providers_dialog_def
  import_dialog_def providers_page_def models_table_def upstream_row_def models_dialog_def stat_def
  stat_number_def stat_figure_def alias_facts_def alias_figures_def stats_drawer_def models_page_def rateLimits_grid_def rateLimits_dialog_def
  rateLimits_page_def quotas_grid_def quotas_dialog_def batch_dialog_def quotas_page_def
  apikeys_grid_def apikeys_dialog_def created_dialog_def apikeys_page_def

end
