(* ===== verification/GuardFrames.thy ===== *)
theory GuardFrames
  imports Frame GuardViews ConfigPages
begin

text \<open>
  The pages Keywords.tsx, PiiRules.tsx, InjectionRules.tsx and OutputFilter.tsx of frontend/src/pages/guard
  as they are rendered: header, toolbar, table, dialogs, the drawer that tests a text and the dialog that
  adds rules from templates.
\<close>

section \<open>Opening and typing\<close>

definition tool_show :: "bool \<Rightarrow> 'res TestTool \<Rightarrow> 'res TestTool" where
  "tool_show on s = s\<lparr>tool_open := on\<rparr>"

definition tool_input :: "jsstring \<Rightarrow> 'res TestTool \<Rightarrow> 'res TestTool" where
  "tool_input v s = s\<lparr>tool_text := v\<rparr>"

definition import_show :: "bool \<Rightarrow> ImportDialog \<Rightarrow> ImportDialog" where
  "import_show on d = d\<lparr>id_open := on\<rparr>"

definition import_switch :: "import_mode \<Rightarrow> ImportDialog \<Rightarrow> ImportDialog" where
  "import_switch m d = d\<lparr>id_mode := m\<rparr>"

definition import_paste :: "jsstring \<Rightarrow> ImportDialog \<Rightarrow> ImportDialog" where
  "import_paste v d = d\<lparr>id_pasteText := v\<rparr>"

definition import_file :: "jsstring option \<Rightarrow> ImportDialog \<Rightarrow> ImportDialog" where
  "import_file f d = d\<lparr>id_csvFile := f\<rparr>"

text \<open>The dialog of the injection templates opens with the boxes as they were left.\<close>

definition injection_openTemplates :: "TemplateDialog \<Rightarrow> TemplateDialog" where
  "injection_openTemplates d = d\<lparr>td_open := True\<rparr>"

definition templates_cancel :: "TemplateDialog \<Rightarrow> TemplateDialog" where
  "templates_cancel d = d\<lparr>td_open := False\<rparr>"

definition templates_check :: "jsstring list \<Rightarrow> TemplateDialog \<Rightarrow> TemplateDialog" where
  "templates_check ks d = d\<lparr>td_checked := ks\<rparr>"

section \<open>Keywords\<close>

text \<open>The toolbar; the actions to choose from are those a keyword can have.\<close>

definition keyword_action_choices :: "Ui \<Rightarrow> (jsstring \<times> jsstring) list" where
  "keyword_action_choices u = filter (\<lambda>(v, l). v \<noteq> js ''mask'') (dict_choices u ''action'' ACTION_META)"

definition keywords_toolbar :: "Ui \<Rightarrow> KeywordFilters \<Rightarrow> node list" where
  "keywords_toolbar u f =
     [Entry (tr u ''keywords.searchPlaceholder'') [],
      Pick (tr u ''keywords.categoryPlaceholder'') (dict_choices u ''keywordCategory'' KEYWORD_CATEGORY_META)
        (map_option KeywordCategory_str (kfs_category f)),
      Pick (tr u ''keywords.actionPlaceholder'') (keyword_action_choices u) (map_option RuleAction_str (kfs_action f)),
      Pick (tr u ''keywords.enabledFilter'')
        [(js ''true'', tr u ''keywords.enabledTrue''), (js ''false'', tr u ''keywords.enabledFalse'')]
        (map_option (\<lambda>b. if b then js ''true'' else js ''false'') (kfs_enabled f)),
      Press (tr u ''common.reset'') False]"

definition keywords_grid ::
  "Ui \<Rightarrow> int \<Rightarrow> KeywordFilters \<Rightarrow> Keyword PageData option \<Rightarrow> bool \<Rightarrow> bool \<Rightarrow> node" where
  "keywords_grid u pageSize f data isLoading deleting =
     paged_grid u (keywords_columns u) (kfs_page f) pageSize data isLoading (Some deleting)"

definition keywords_dialog :: "Ui \<Rightarrow> KeywordsPage \<Rightarrow> bool \<Rightarrow> node" where
  "keywords_dialog u s saving =
     modal
       (case cr_editing s of
          Some r \<Rightarrow> tr_with u ''keywords.editTitle'' [(''id'', int_to_string (kw_id r))]
        | None \<Rightarrow> tr u ''keywords.addTitle'')
       (cr_modalOpen s) saving
       [form_node (keywords_form u) [(''word'', [tr u ''keywords.wordPlaceholder''])]
         [(''category'', dict_choices u ''keywordCategory'' KEYWORD_CATEGORY_META),
          (''match_mode'', dict_choices u ''matchMode'' MATCH_MODE_META),
          (''action'', keyword_action_choices u)]]"

text \<open>The import shows the text area or the chosen file, as the mode says.\<close>

definition import_node :: "Ui \<Rightarrow> ImportDialog \<Rightarrow> bool \<Rightarrow> node" where
  "import_node u d importing =
     Dialog [Words (tr u ''keywords.importTitle'')] (id_open d) (Some (tr u ''keywords.importOk'', importing))
       ([Words (tr_with u ''keywords.importFormat'' [(''header'', CSV_HEADER)]), Words (tr u ''keywords.importEnums''),
         Pick [] [(js ''paste'', tr u ''keywords.importPaste''), (js ''upload'', tr u ''keywords.importUpload'')]
           (Some (case id_mode d of IM_paste \<Rightarrow> js ''paste'' | IM_upload \<Rightarrow> js ''upload''))]
        @ (case id_mode d of
             IM_paste \<Rightarrow> [Entry (tr u ''keywords.importPastePlaceholder'') (id_pasteText d)]
           | IM_upload \<Rightarrow>
               (case id_csvFile d of None \<Rightarrow> [] | Some name \<Rightarrow> [Shown (Txt name)])
               @ [Press (tr u ''keywords.selectFile'') False]))"

definition keywords_test_drawer :: "Ui \<Rightarrow> GuardTestResult TestTool \<Rightarrow> node" where
  "keywords_test_drawer u tool =
     drawer (tr u ''keywords.testDrawerTitle'') (tool_open tool)
       ([Press (tr u ''keywords.testRun'') (tool_loading tool), Words (tr u ''keywords.testHint''),
         Entry (tr u ''keywords.testPlaceholder'') (tool_text tool)]
        @ (case tool_result tool of
             None \<Rightarrow> []
           | Some r \<Rightarrow>
               [Words (tr u ''keywords.testResultLabel''),
                Words (tr u (if gtr_blocked r then ''keywords.testBlocked'' else ''keywords.testNotBlocked'')),
                if gtr_hits r = [] then Words (tr u ''keywords.testNoHits'')
                else plain_grid (keyword_hits_columns u) (gtr_hits r)]))"

definition keywords_page ::
  "Ui \<Rightarrow> KeywordsPage \<Rightarrow> KeywordFilters \<Rightarrow> ImportDialog \<Rightarrow> GuardTestResult TestTool \<Rightarrow> Keyword PageData option
     \<Rightarrow> bool \<Rightarrow> bool \<Rightarrow> bool \<Rightarrow> bool \<Rightarrow> node" where
  "keywords_page u s f d tool data isLoading deleting saving importing =
     PageContainer (tr u ''keywords.title'') (tr u ''keywords.description'')
       [Press (tr u ''keywords.testTool'') False, Press (tr u ''keywords.exportCsv'') False,
        Press (tr u ''keywords.bulkImport'') False, Press (tr u ''keywords.add'') False]
       (keywords_toolbar u f
        @ [keywords_grid u (cr_pageSize s) f data isLoading deleting, keywords_dialog u s saving,
           import_node u d importing, keywords_test_drawer u tool])"

section \<open>PII rules\<close>

definition pii_grid :: "Ui \<Rightarrow> int \<Rightarrow> RuleSearch \<Rightarrow> PiiRule PageData option \<Rightarrow> bool \<Rightarrow> bool \<Rightarrow> node" where
  "pii_grid u pageSize q data isLoading deleting =
     paged_grid u (pii_columns u) (se_page q) pageSize data isLoading (Some deleting)"

definition pii_dialog :: "Ui \<Rightarrow> PiiPage \<Rightarrow> bool \<Rightarrow> node" where
  "pii_dialog u s saving =
     modal
       (case cr_editing s of
          Some r \<Rightarrow> tr_with u ''pii.editTitle'' [(''name'', pr_name r)]
        | None \<Rightarrow> tr u ''pii.createTitle'')
       (cr_modalOpen s) saving
       [form_node (pii_form u)
         [(''name'', [tr u ''pii.namePh'']), (''category'', [tr u ''pii.categoryPh'']),
          (''pattern'', [tr u ''pii.patternTooltip'', tr u ''pii.patternPh'']),
          (''replacement'', [tr u ''pii.replacementPh''])]
         [(''category'', dict_choices u ''piiCategory'' PII_CATEGORY_META),
          (''action'', dict_choices u ''action'' ACTION_META)]]"

definition AlertTip :: "Ui \<Rightarrow> node" where
  "AlertTip u = Words (tr u ''pii.tplTip'')"

definition pii_template_dialog :: "Ui \<Rightarrow> PiiRuleTemplate list option \<Rightarrow> TemplateDialog \<Rightarrow> bool \<Rightarrow> node" where
  "pii_template_dialog u templates d creating =
     (let (some, every) = select_all_box (map pt_name (or_else templates [])) d in
      modal (tr u ''pii.templateTitle'') (td_open d) creating
        [AlertTip u, Check (tr u ''pii.selectAll'') some every,
         busy_grid (pii_template_columns u) (or_else templates []) (templates = None)])"

definition pii_test_drawer :: "Ui \<Rightarrow> PiiTestResult TestTool \<Rightarrow> node" where
  "pii_test_drawer u tool =
     drawer (tr u ''pii.testTitle'') (tool_open tool)
       ([Press (tr u ''pii.testRun'') (tool_loading tool), Words (tr u ''pii.testHint''),
         Entry (tr u ''pii.testPh'') (tool_text tool)]
        @ (case tool_result tool of
             None \<Rightarrow> []
           | Some r \<Rightarrow>
               [if ptest_findings r = [] then Words (tr u ''pii.testNone'')
                else plain_grid (pii_findings_columns u) (ptest_findings r),
                Words (tr u ''pii.testMasked''), Shown (Txt (pii_masked_text (ui_t u) r))]))"

definition pii_page ::
  "Ui \<Rightarrow> PiiPage \<Rightarrow> RuleSearch \<Rightarrow> PiiRuleTemplate list option \<Rightarrow> TemplateDialog \<Rightarrow> PiiTestResult TestTool
     \<Rightarrow> PiiRule PageData option \<Rightarrow> bool \<Rightarrow> bool \<Rightarrow> bool \<Rightarrow> bool \<Rightarrow> node" where
  "pii_page u s q templates d tool data isLoading deleting saving creating =
     PageContainer (tr u ''pii.title'') (tr u ''pii.desc'')
       [Press (tr u ''pii.testTool'') False, Press (tr u ''pii.fromTemplates'') False, Press (tr u ''pii.add'') False]
       [Entry (tr u ''pii.searchPh'') [], Press (tr u ''common.reset'') False, pii_grid u (cr_pageSize s) q data isLoading deleting,
        pii_dialog u s saving, pii_template_dialog u templates d creating, pii_test_drawer u tool]"

section \<open>Injection rules\<close>

definition injection_grid ::
  "Ui \<Rightarrow> int \<Rightarrow> RuleSearch \<Rightarrow> InjectionRule PageData option \<Rightarrow> bool \<Rightarrow> bool \<Rightarrow> node" where
  "injection_grid u pageSize q data isLoading deleting =
     paged_grid u (injection_columns u) (se_page q) pageSize data isLoading (Some deleting)"

definition injection_dialog :: "Ui \<Rightarrow> InjectionPage \<Rightarrow> bool \<Rightarrow> node" where
  "injection_dialog u s saving =
     modal
       (case cr_editing s of
          Some r \<Rightarrow> tr_with u ''injection.editTitle'' [(''name'', ir_name r)]
        | None \<Rightarrow> tr u ''injection.createTitle'')
       (cr_modalOpen s) saving
       [form_node (injection_form u)
         [(''name'', [tr u ''injection.namePh'']),
          (''pattern'', [tr u ''injection.patternTooltip'', tr u ''injection.patternPh''])]
         [(''match_mode'', dict_choices u ''matchMode'' MATCH_MODE_META),
          (''action'', dict_choices u ''action'' ACTION_META)]]"

definition injection_template_dialog ::
  "Ui \<Rightarrow> InjectionRuleTemplate list option \<Rightarrow> TemplateDialog \<Rightarrow> bool \<Rightarrow> node" where
  "injection_template_dialog u templates d creating =
     (let list = or_else templates []; n = length (td_checked d) in
      modal (tr u ''injection.templateTitle'') (td_open d) creating
        [Words (tr u ''injection.tplTip''),
         Check (tr u ''injection.selectAll'') (length list > 0 \<and> n > 0 \<and> n < length list)
           (length list > 0 \<and> n = length list),
         busy_grid (injection_template_columns u) list (templates = None)])"

definition injection_page ::
  "Ui \<Rightarrow> InjectionPage \<Rightarrow> RuleSearch \<Rightarrow> InjectionRuleTemplate list option \<Rightarrow> TemplateDialog
     \<Rightarrow> InjectionRule PageData option \<Rightarrow> bool \<Rightarrow> bool \<Rightarrow> bool \<Rightarrow> bool \<Rightarrow> node" where
  "injection_page u s q templates d data isLoading deleting saving creating =
     PageContainer (tr u ''injection.title'') (tr u ''injection.desc'')
       [Press (tr u ''injection.fromTemplates'') False, Press (tr u ''injection.add'') False]
       [Entry (tr u ''injection.searchPh'') [], Press (tr u ''common.reset'') False,
        injection_grid u (cr_pageSize s) q data isLoading deleting, injection_dialog u s saving,
        injection_template_dialog u templates d creating]"

section \<open>Output filter\<close>

definition output_page :: "Ui \<Rightarrow> bool \<Rightarrow> bool \<Rightarrow> node" where
  "output_page u isLoading saving =
     PageContainer (tr u ''outputFilter.title'') (tr u ''outputFilter.desc'') [Press (tr u ''outputFilter.save'') saving]
       [Card [] (if isLoading then []
          else [form_node (output_items u)
            [(''enabled'', [tr u ''outputFilter.on'', tr u ''outputFilter.off'']),
             (''safe_message'', [tr u ''outputFilter.safeMessagePh'']),
             (''stream_chunk_threshold'', [tr u ''outputFilter.chunkTooltip''])]
            [(''violation_strategy'', dict_choices u ''violationStrategy'' VIOLATION_STRATEGY_META)]])]"

lemmas guard_frame_defs [js_eval] = tool_show_def tool_input_def import_show_def import_switch_def
  import_paste_def import_file_def injection_openTemplates_def templates_cancel_def templates_check_def
  keyword_action_choices_def keywords_toolbar_def keywords_grid_def keywords_dialog_def import_node_def
  keywords_test_drawer_def keywords_page_def pii_grid_def pii_dialog_def AlertTip_def
  pii_template_dialog_def pii_test_drawer_def pii_page_def injection_grid_def injection_dialog_def
  injection_template_dialog_def injection_page_def output_page_def

end
