(* ===== verification/SettingsFrames.thy ===== *)
theory SettingsFrames
  imports Frame ConfigPages Security StatusPages
begin

text \<open>
  The pages that edit one configuration object (Failover.tsx, QuotaAlerts.tsx, General.tsx), the page of
  the security settings and users, and the pages of backups, configuration and service state
  (frontend/src/pages/settings) as they are rendered.
\<close>

section \<open>One object\<close>

text \<open>A page of one form: while its object is loading the card shows a skeleton in the place of the form.\<close>

definition form_page :: "Ui \<Rightarrow> string \<Rightarrow> string \<Rightarrow> string \<Rightarrow> bool \<Rightarrow> bool \<Rightarrow> node \<Rightarrow> node" where
  "form_page u title desc save isLoading saving form =
     PageContainer (tr u title) (tr u desc) [Press (tr u save) saving] [Card [] (if isLoading then [] else [form])]"

definition failover_page :: "Ui \<Rightarrow> bool \<Rightarrow> bool \<Rightarrow> node" where
  "failover_page u isLoading saving =
     form_page u ''failover.title'' ''failover.desc'' ''failover.save'' isLoading saving
       (form_node (failover_items u)
         [(''enabled'', [tr u ''failover.on'', tr u ''failover.off'']),
          (''trigger_status_codes'', [tr u ''failover.triggerTooltip'', tr u ''failover.triggerPh''])]
         [(''backoff'', dict_choices u ''backoff'' BACKOFF_META)])"

definition alerts_page :: "Ui \<Rightarrow> (jsstring \<Rightarrow> bool) \<Rightarrow> AlertFormValues ConfigPage \<Rightarrow> bool \<Rightarrow> bool \<Rightarrow> node" where
  "alerts_page u is_url s isLoading saving =
     form_page u ''quotaAlerts.title'' ''quotaAlerts.desc'' ''quotaAlerts.save'' isLoading saving
       (form_node (alerts_items is_url (af_channel (cp_form s) = Some AC_webhook) u)
         [(''enabled'', [tr u ''quotaAlerts.on'', tr u ''quotaAlerts.off'']),
          (''thresholds'', [tr u ''quotaAlerts.thresholdsTooltip'', tr u ''quotaAlerts.thresholdsPh'']),
          (''webhook_url'', [js ''https://hooks.example.com/xxx'']),
          (''receivers'', [tr u ''quotaAlerts.receiversTooltip'', tr u ''quotaAlerts.receiversPh''])]
         [(''channel'', dict_choices u ''alertChannel'' ALERT_CHANNEL_META)])"

text \<open>The port is shown and cannot be changed; its tooltip is the note of the server when there is one. While the
  settings are loading the form takes no input, which is not part of what is shown here.\<close>

definition listen_port_item :: "Ui \<Rightarrow> SystemSettings option \<Rightarrow> node list" where
  "listen_port_item u data =
     [Words (tr u ''general.listenPort''),
      (case data of
         Some d \<Rightarrow> if ss_listen_port_note d \<noteq> [] then Shown (Txt (ss_listen_port_note d))
                   else Words (tr u ''general.listenPortNote'')
       | None \<Rightarrow> Words (tr u ''general.listenPortNote'')),
      Shown (Txt (case data of Some d \<Rightarrow> int_to_string (ss_listen_port d) | None \<Rightarrow> [])),
      Words (tr u ''general.listenPortInput'')]"

definition general_page :: "Ui \<Rightarrow> SystemSettings option \<Rightarrow> bool \<Rightarrow> node" where
  "general_page u data saving =
     PageContainer (tr u ''general.title'') (tr u ''general.desc'') [Press (tr u ''general.save'') saving]
       (form_node (general_items u)
         [(''audit_retention_days'', [tr u ''general.auditRetentionTooltip'', tr u ''general.auditRetentionUnit'']),
          (''default_timeout_seconds'', [tr u ''general.timeoutUnit'']),
          (''guard_enabled'', [tr u ''general.guardTooltip'']),
          (''call_audit_enabled'', [tr u ''general.auditWriteTooltip'']),
          (''call_audit_only_errors'', [tr u ''general.auditOnlyErrorsTooltip'', tr u ''general.auditOnlyErrorsWarn'']),
          (''call_audit_sampling'', [tr u ''general.auditSamplingTooltip'', js ''1/N'']),
          (''log_reasoning'', [tr u ''general.logReasoningTooltip'']),
          (''hot_reload_seconds'', [tr u ''general.hotReloadTooltip'', tr u ''general.timeoutUnit''])]
         [(''log_level'', dict_choices u ''logLevel'' LOG_LEVEL_META)]
        # listen_port_item u data)"

section \<open>Security\<close>

definition mfa_card :: "Ui \<Rightarrow> bool \<Rightarrow> node" where
  "mfa_card u isLoading =
     Card (tr u ''security.mfaCard'') (if isLoading then []
       else [form_node (security_form u)
              [(''mfa_required_for_all'', [tr u ''security.mfaRequiredTooltip'']),
               (''grace_days'', [tr u ''security.dayUnit''])] [],
             Notice ''info'' (tr u ''security.totpTip'') []])"

definition users_card :: "Ui \<Rightarrow> SecurityPage \<Rightarrow> AdminUserRow PageData option \<Rightarrow> bool \<Rightarrow> node" where
  "users_card u s users isLoading =
     Card (tr u ''security.usersCard'')
       [Grid (map co_title (users_columns u)) (cells_of (users_columns u) (rows_of users))
          (Controlled (pager_of u (sp_page s) (sp_pageSize s) users)) (TL_spin isLoading)]"

definition create_user_dialog :: "Ui \<Rightarrow> (jsstring \<Rightarrow> nat) \<Rightarrow> SecurityPage \<Rightarrow> bool \<Rightarrow> node" where
  "create_user_dialog u chars s creating =
     modal (tr u ''security.createUser'') (sp_createOpen s) creating
       [form_node (user_form u chars)
         [(''password'', [tr u ''security.pwdPolicy'']),
          (''force_change_password'', [tr u ''security.forceChangeTooltip''])]
         [(''role'', [(js ''admin'', tr u ''security.roleAdmin''), (js ''viewer'', tr u ''security.roleViewer'')])]]"

text \<open>The title names the user, behind a dash.\<close>

definition pwd_dialog :: "Ui \<Rightarrow> (jsstring \<Rightarrow> nat) \<Rightarrow> SecurityPage \<Rightarrow> bool \<Rightarrow> node" where
  "pwd_dialog u chars s changing =
     Dialog
       [Words (tr u ''security.changePwdTitle''),
        Shown (Txt ([32, 0x2014, 32] @ (case sp_pwdTarget s of Some r \<Rightarrow> au_username r | None \<Rightarrow> [])))]
       (sp_pwdOpen s) (Some ([], changing))
       [form_node (pwd_form u chars)
         [(''password'', [tr u ''security.pwdPolicy'']),
          (''force_change_password'', [tr u ''security.forceChangeTooltip''])] []]"

definition security_page ::
  "Ui \<Rightarrow> (jsstring \<Rightarrow> nat) \<Rightarrow> SecurityPage \<Rightarrow> AdminUserRow PageData option \<Rightarrow> bool \<Rightarrow> bool \<Rightarrow> bool \<Rightarrow> bool \<Rightarrow> bool \<Rightarrow> node" where
  "security_page u chars s users isLoading usersLoading saving creating changing =
     PageContainer (tr u ''security.title'') (tr u ''security.desc'')
       [Press (tr u ''security.addUser'') False, Press (tr u ''security.save'') saving]
       [mfa_card u isLoading, users_card u s users usersLoading, create_user_dialog u chars s creating,
        pwd_dialog u chars s changing]"

section \<open>Backups\<close>

definition backup_grid :: "Ui \<Rightarrow> BackupItem PageData option \<Rightarrow> bool \<Rightarrow> node" where
  "backup_grid u data isLoading =
     local_grid (backup_columns u) (rows_of data) 10 (show_total u (int (length (rows_of data))))
       (tableLoading isLoading None (rows_of data \<noteq> []))"

definition paste_dialog :: "Ui \<Rightarrow> BackupPage \<Rightarrow> bool \<Rightarrow> node" where
  "paste_dialog u s restoring =
     drawer (tr u ''backup.pasteTitle'') (bp_pasteOpen s)
       ([Notice ''warning'' (tr u ''backup.pasteWarn'') [], Words (tr u ''backup.dropHint'')]
        @ (case bp_file s of
             Some (name, content) \<Rightarrow> [Words (tr_with u ''backup.selected'' [(''name'', name)])]
           | None \<Rightarrow> [Entry (tr u ''backup.pastePh'') (bp_pasteContent s)])
        @ [Press (tr u ''common.cancel'') False, Press (tr u ''backup.start'') (restoring \<or> start_disabled s)])"

definition backup_page :: "Ui \<Rightarrow> BackupPage \<Rightarrow> BackupItem PageData option \<Rightarrow> bool \<Rightarrow> bool \<Rightarrow> bool \<Rightarrow> node" where
  "backup_page u s data isLoading creating restoring =
     PageContainer (tr u ''backup.title'') (tr u ''backup.desc'')
       [Press (tr u ''backup.restoreJson'') False, Press (tr u ''backup.create'') creating]
       [backup_grid u data isLoading, paste_dialog u s restoring]"

section \<open>Configuration and service\<close>

definition load_node :: "Ui \<Rightarrow> ConfigStatus option \<Rightarrow> bool \<Rightarrow> node" where
  "load_node u data isLoading =
     Card (tr u ''cfg.loadCard'') (if isLoading \<and> data = None then []
       else Pairs (load_card u data)
         # (case load_alert u data of
              None \<Rightarrow> []
            | Some (m, d, h) \<Rightarrow> [Notice ''error'' m h, Shown (Txt d)]))"

definition logs_node :: "Ui \<Rightarrow> ConfigStatus option \<Rightarrow> node" where
  "logs_node u data =
     Card (tr u ''cfg.logsCard'')
       (Press (tr u ''cfg.history'') False
        # (case log_card u data of
             Inl m \<Rightarrow> [Words m]
           | Inr ls \<Rightarrow> map (\<lambda>(c, time, tag, txt). Shown (Cells [Txt time, tag, Txt txt])) ls))"

definition history_rows :: "ConfigStatus option \<Rightarrow> ConfigHistory list" where
  "history_rows data = (case data of None \<Rightarrow> [] | Some d \<Rightarrow> cs_history d)"

definition history_node :: "Ui \<Rightarrow> ConfigStatus option \<Rightarrow> node" where
  "history_node u data = Card (tr u ''cfg.historyCard'') [plain_grid (history_columns u) (history_rows data)]"

definition history_dialog :: "Ui \<Rightarrow> ConfigStatusPage \<Rightarrow> ConfigStatus option \<Rightarrow> node" where
  "history_dialog u s data =
     drawer (tr u ''cfg.historyTitle'') (csp_historyOpen s)
       [local_grid (history_modal_columns u) (history_rows data) 10 [] (TL_spin False)]"

definition config_status_page ::
  "Ui \<Rightarrow> ConfigStatusPage \<Rightarrow> ConfigStatus option \<Rightarrow> bool \<Rightarrow> bool \<Rightarrow> bool \<Rightarrow> bool \<Rightarrow> node" where
  "config_status_page u s data isLoading reloading exporting rollingBack =
     PageContainer (tr u ''cfg.title'') (tr u ''cfg.desc'')
       [Press (tr u ''cfg.reload'') reloading, Press (tr u ''cfg.export'') exporting,
        Ask (tr u ''cfg.rollback'') (tr u ''cfg.rollbackConfirmTitle'') (tr u ''cfg.rollbackConfirmDesc'') rollingBack]
       [load_node u data isLoading, logs_node u data, history_node u data, history_dialog u s data]"

fun stat_cell :: "stat_value \<Rightarrow> cell" where
  "stat_cell (SV_text s) = Txt s"
| "stat_cell (SV_num n unit) = Txt (num_to_string n @ unit)"

text \<open>A card of one number, which shows a skeleton until the first answer.\<close>

definition number_cards :: "Ui \<Rightarrow> RuntimeStatus option \<Rightarrow> bool \<Rightarrow> node list" where
  "number_cards u data isLoading =
     map (\<lambda>(t, v). Card [] (if isLoading \<and> data = None then [] else [Pairs [(t, stat_cell v)]])) (runtime_statistics u data)"

definition errors_node :: "Ui \<Rightarrow> RuntimeStatus option \<Rightarrow> node" where
  "errors_node u data =
     Card (tr u ''rt.errorsCard'')
       (case errors_card u data of
          Inl m \<Rightarrow> [Words m]
        | Inr es \<Rightarrow> map (\<lambda>(time, rid, msg). Shown (Cells [Txt time, Cod rid, Txt msg])) es)"

definition system_node :: "Ui \<Rightarrow> RuntimeStatus option \<Rightarrow> node" where
  "system_node u data =
     (let (version, config, tag) = system_card u data in
      Card (tr u ''rt.sysCard'')
        [Pairs [(tr u ''rt.version'', Txt version)], Words config, Shown tag, Words (tr u ''rt.cpu''),
         Shown (Txt (snd (cpu_gauge data)))])"

definition upstream_node :: "Ui \<Rightarrow> RuntimeStatus option \<Rightarrow> node" where
  "upstream_node u data =
     Card (tr u ''rt.upstreamCard'')
       [plain_grid (upstream_columns u) (case data of None \<Rightarrow> [] | Some d \<Rightarrow> rs_upstreams d)]"

definition qps_node :: "Ui \<Rightarrow> RuntimeStatus option \<Rightarrow> node" where
  "qps_node u data =
     Card (tr u ''rt.qpsCard'')
       [plain_grid (qps_columns u) (case data of None \<Rightarrow> [] | Some d \<Rightarrow> rs_qps_by_model d)]"

definition runtime_status_page :: "Ui \<Rightarrow> RuntimeStatus option \<Rightarrow> bool \<Rightarrow> node" where
  "runtime_status_page u data isLoading =
     PageContainer (tr u ''rt.title'') (tr u ''rt.desc'') [Words (snd (running_badge u data))]
       (number_cards u data isLoading @ [upstream_node u data, qps_node u data, errors_node u data, system_node u data])"

lemmas settings_frame_defs [js_eval] = form_page_def failover_page_def alerts_page_def listen_port_item_def
  general_page_def mfa_card_def users_card_def create_user_dialog_def pwd_dialog_def security_page_def
  backup_grid_def paste_dialog_def backup_page_def load_node_def logs_node_def history_rows_def
  history_node_def history_dialog_def config_status_page_def number_cards_def errors_node_def
  system_node_def upstream_node_def qps_node_def runtime_status_page_def

end
