(* ===== verification/LogFrames.thy ===== *)
theory LogFrames
  imports Frame StatsPages AuditStream
begin

text \<open>
  The pages of the logs and of the statistics as they are rendered: frontend/src/pages/audit/Calls.tsx with the
  card of components/LiveAuditStream.tsx, Operations.tsx, pages/usage/TokenStats.tsx and pages/Dashboard.tsx.
\<close>

section \<open>Calls\<close>

text \<open>The bar of the filters; the moments of the range are shown by the date library, \<open>show_moment\<close>.\<close>

definition range_entries :: "('d \<Rightarrow> jsstring) \<Rightarrow> 'd date_range \<Rightarrow> jsstring \<times> jsstring \<Rightarrow> node list" where
  "range_entries show_moment r placeholders =
     (let txt = (\<lambda>m. case m of Some d \<Rightarrow> show_moment d | None \<Rightarrow> []) in
      case r of
        Some (a, b) \<Rightarrow> [Entry (fst placeholders) (txt a), Entry (snd placeholders) (txt b)]
      | None \<Rightarrow> [Entry (fst placeholders) [], Entry (snd placeholders) []])"

definition key_names :: "ApiKey list \<Rightarrow> (jsstring \<times> jsstring) list" where
  "key_names keys = map (\<lambda>k. (int_to_string (ak_id k), ak_name k)) keys"

definition calls_toolbar :: "Ui \<Rightarrow> ('d \<Rightarrow> jsstring) \<Rightarrow> ApiKey list \<Rightarrow> 'd CallFilters \<Rightarrow> node list" where
  "calls_toolbar u show_moment keys f =
     range_entries show_moment (cfl_range f) (tr u ''calls.start'', tr u ''calls.end'')
     @ [Pick_data (js ''API Key'') (key_names keys) (map_option int_to_string (cfl_api_key_id f)),
        Entry (tr u ''calls.modelPh'') (cfl_model f),
        Pick (tr u ''calls.statusPh'') (dict_choices u ''callStatus'' CALL_STATUS_META)
          (map_option CallStatus_str (cfl_status f)),
        Pick (tr u ''calls.blockedPh'')
          [(js ''true'', tr u ''calls.blockedYes''), (js ''false'', tr u ''calls.blockedNo'')]
          (map_option (\<lambda>b. if b then js ''true'' else js ''false'') (cfl_blocked f)),
        Entry (tr u ''calls.categoryPh'') (cfl_category f),
        Press (tr u ''calls.search'') False, Press (tr u ''common.reset'') False]"

text \<open>The card of the live stream: the phase, the count of what came while paused, and the newest calls.\<close>

definition live_row :: "Ui \<Rightarrow> AuditLiveRow \<Rightarrow> cell" where
  "live_row u r =
     Cells [Tag (colorOf CALL_STATUS_META (Some (lr_status r))) (show_enum u ''callStatus'' (lr_status r)),
            Txt (lr_model_alias r), Txt (lr_api_key_label r),
            Txt (show_number u (row_tokens r) @ js '' tok '' @ [0xB7, 32] @ show_number u (lr_latency_ms r) @ js '' ms''),
            Txt (show_time u (Some (lr_created_at r)))]"

definition LiveAuditStream :: "Ui \<Rightarrow> LiveCard \<Rightarrow> AuditStreamState \<Rightarrow> node" where
  "LiveAuditStream u lc st =
     Card (tr u ''calls.live.title'')
       ([Shown (Tag (phaseColor (st_phase st)) (auditStreamPhaseText (ui_t u) (st_phase st)))]
        @ (case pending_badge lc st of None \<Rightarrow> [] | Some n \<Rightarrow> [Shown (colored ''orange'' (js ''+'' @ int_to_string n))])
        @ [Press (tr u (if lc_frozen lc \<noteq> None then ''calls.live.resume'' else ''calls.live.pause'')) False,
           Press (tr u ''calls.live.clear'') False,
           Words (tr_with u ''calls.live.total'' [(''n'', int_to_string (st_total st))])]
        @ (if shown lc st = [] then [Words (tr u ''calls.live.empty'')]
           else map (\<lambda>r. Shown (live_row u r)) (shown lc st)))"

definition calls_grid :: "Ui \<Rightarrow> 'd CallsPage \<Rightarrow> CallLogRow PageData option \<Rightarrow> bool \<Rightarrow> node" where
  "calls_grid u s data isLoading =
     paged_grid u (calls_columns u) (cap_page s) (cap_pageSize s) data isLoading None"

text \<open>While the detail is loading the drawer shows a skeleton, whatever it would show.\<close>

definition detail_drawer :: "Ui \<Rightarrow> 'd CallsPage \<Rightarrow> node" where
  "detail_drawer u s =
     drawer (detail_title u s) (detail_open s)
       (if cap_detailLoading s then []
        else case cap_detail s of
          None \<Rightarrow> []
        | Some d \<Rightarrow> Pairs (detail_items u d)
            # concat (map (\<lambda>(t, v). [Words t, Shown (Txt v)]) (detail_texts u d)))"

definition calls_page ::
  "Ui \<Rightarrow> ('d \<Rightarrow> jsstring) \<Rightarrow> ApiKey list \<Rightarrow> 'd CallsPage \<Rightarrow> LiveCard \<Rightarrow> AuditStreamState
     \<Rightarrow> CallLogRow PageData option \<Rightarrow> bool \<Rightarrow> bool \<Rightarrow> node" where
  "calls_page u show_moment keys s lc st data isLoading exporting =
     PageContainer (tr u ''calls.title'') (tr u ''calls.desc'') [Press (tr u ''calls.export'') exporting]
       (calls_toolbar u show_moment keys (cap_filters s)
        @ [LiveAuditStream u lc st, calls_grid u s data isLoading, detail_drawer u s])"

section \<open>Operations\<close>

definition operations_toolbar :: "Ui \<Rightarrow> ('d \<Rightarrow> jsstring) \<Rightarrow> 'd OpFilters \<Rightarrow> node list" where
  "operations_toolbar u show_moment f =
     range_entries show_moment (ofl_range f) ([], [])
     @ [Entry (tr u ''ops.operatorPh'') (ofl_operator f),
        Pick (tr u ''ops.modulePh'') (dict_choices u ''opModule'' OP_MODULE_META) (str_or_undef (ofl_module f)),
        Pick (tr u ''ops.actionPh'') (dict_choices u ''opAction'' OP_ACTION_META) (str_or_undef (ofl_action f)),
        Press (tr u ''ops.search'') False]"

definition operations_grid :: "Ui \<Rightarrow> 'd OperationsPage \<Rightarrow> OpLogRow PageData option \<Rightarrow> bool \<Rightarrow> node" where
  "operations_grid u s data isLoading =
     paged_grid u (operations_columns u) (opp_page s) (opp_pageSize s) data isLoading None"

definition diff_dialog :: "Ui \<Rightarrow> 'd OperationsPage \<Rightarrow> node" where
  "diff_dialog u s =
     drawer (diff_title u (opp_diffRow s)) (opp_diffRow s \<noteq> None)
       [Words (tr u ''ops.before''), Shown (Txt (fst (diff_values u (opp_diffRow s)))),
        Words (tr u ''ops.after''), Shown (Txt (snd (diff_values u (opp_diffRow s)))),
        Words (diff_meta u (opp_diffRow s))]"

definition operations_view ::
  "Ui \<Rightarrow> ('d \<Rightarrow> jsstring) \<Rightarrow> 'd OperationsPage \<Rightarrow> OpLogRow PageData option \<Rightarrow> bool \<Rightarrow> bool \<Rightarrow> node" where
  "operations_view u show_moment s data isLoading exporting =
     PageContainer (tr u ''ops.title'') (tr u ''ops.desc'') [Press (tr u ''ops.export'') exporting]
       (operations_toolbar u show_moment (opp_filters s) @ [operations_grid u s data isLoading, diff_dialog u s])"

section \<open>Charts\<close>

definition NoData :: "Ui \<Rightarrow> node" where
  "NoData u = Words (tr u ''common.noData'')"

definition line_node :: "Ui \<Rightarrow> LineOption option \<Rightarrow> node list" where
  "line_node u c =
     (case c of
        None \<Rightarrow> [NoData u]
      | Some l \<Rightarrow> map (\<lambda>x. Words (se_name x)) (lo_series l) @ [Shown (Cells (map Txt (lo_labels l)))])"

definition donut_node :: "Ui \<Rightarrow> DonutOption option \<Rightarrow> node list" where
  "donut_node u c =
     (case c of
        None \<Rightarrow> [NoData u]
      | Some d \<Rightarrow> [Shown (Txt (do_total d)), Words (do_center d),
                  Shown (Cells (map Txt (do_legend d))), Shown (Cells (map (\<lambda>x. Tag (sl_color x) (sl_name x)) (do_slices d)))])"

section \<open>Token statistics\<close>

definition token_toolbar :: "Ui \<Rightarrow> ('d \<Rightarrow> jsstring) \<Rightarrow> ApiKey list \<Rightarrow> 'd TokenPage \<Rightarrow> node list" where
  "token_toolbar u show_moment keys s =
     (let f = tkp_filters s in
      [Pick [] (preset_options (ui_t u)) (Some (tkp_activePreset s))]
      @ range_entries show_moment (tkf_range f) (tr u ''tokenStats.placeholderStart'', tr u ''tokenStats.placeholderEnd'')
      @ [Pick_data (tr u ''tokenStats.placeholderApikey'') (key_names keys) (map_option int_to_string (tkf_api_key_id f)),
         Entry (tr u ''tokenStats.placeholderModelAlias'') (tkf_model f),
         Pick [] [(js ''day'', tr u ''tokenStats.granDay''), (js ''hour'', tr u ''tokenStats.granHour'')]
           (Some (Granularity_str (tkf_granularity f))),
         Press (tr u ''common.search'') False, Press (tr u ''common.reset'') False])"

text \<open>A figure shows a skeleton while loading; antd sorts the table by the total, the largest first.\<close>

definition loading_card :: "jsstring \<Rightarrow> bool \<Rightarrow> node list \<Rightarrow> node" where
  "loading_card title isLoading ns = Card title (if isLoading then [] else ns)"

definition token_figures :: "Ui \<Rightarrow> TokenStatsData option \<Rightarrow> bool \<Rightarrow> node list" where
  "token_figures u data isLoading =
     map (\<lambda>(t, v, suffix). Card [] [if isLoading then Words t else Pairs [(t, Txt (v @ suffix))]]) (token_statistics u data)"

definition token_charts :: "Ui \<Rightarrow> 'd TokenPage \<Rightarrow> TokenStatsData option \<Rightarrow> bool \<Rightarrow> node list" where
  "token_charts u s data isLoading =
     [loading_card (trend_title u s) isLoading (line_node u (token_trend u data)),
      loading_card (tr u ''tokenStats.byModelTitle'') isLoading (donut_node u (token_by_model u data))]"

definition token_rows :: "TokenStatsData option \<Rightarrow> TokenUsageByKey list" where
  "token_rows data = sort_key (\<lambda>r. - tk_total_tokens r) (case data of None \<Rightarrow> [] | Some d \<Rightarrow> td_by_key d)"

definition token_ranking :: "Ui \<Rightarrow> TokenStatsData option \<Rightarrow> bool \<Rightarrow> node" where
  "token_ranking u data isLoading =
     loading_card (tr u ''tokenStats.byKeyTitle'') isLoading
       ((if token_rows data = [] then [Words (tr u ''tokenStats.byKeyEmpty'')] else [])
        @ [local_grid (token_columns u) (token_rows data) 10 [] (tableLoading isLoading None (token_rows data \<noteq> []))])"

definition token_page ::
  "Ui \<Rightarrow> ('d \<Rightarrow> jsstring) \<Rightarrow> ApiKey list \<Rightarrow> 'd TokenPage \<Rightarrow> TokenStatsData option \<Rightarrow> bool \<Rightarrow> bool \<Rightarrow> node" where
  "token_page u show_moment keys s data isLoading exporting =
     Page (tr u ''tokenStats.title'') (tr u ''tokenStats.desc'')
       [Press (tr u ''common.export'') exporting, Shown (Txt (js ''CSV''))]
       (Card [] (token_toolbar u show_moment keys s) # token_figures u data isLoading
        @ token_charts u s data isLoading @ [token_ranking u data isLoading])"

section \<open>Dashboard\<close>

definition dashboard_figures :: "Ui \<Rightarrow> DashboardData option \<Rightarrow> bool \<Rightarrow> node list" where
  "dashboard_figures u data isLoading =
     map (\<lambda>(t, v). Card [] [if isLoading then Words t else Pairs [(t, Txt v)]])
       (dashboard_statistics u data
        @ [(fst (dashboard_latency u data),
            (case snd (dashboard_latency u data) of Some n \<Rightarrow> int_to_string n | None \<Rightarrow> []) @ js ''ms'')])"

definition ranking_node :: "Ui \<Rightarrow> DashboardData option \<Rightarrow> node list" where
  "ranking_node u data =
     (case top_models u data of
        Inl m \<Rightarrow> [Words m]
      | Inr ls \<Rightarrow> map (\<lambda>l. Shown (Cells [Txt (ra_label l), Txt (ra_calls l)])) ls)"

definition health_node :: "Ui \<Rightarrow> DashboardData option \<Rightarrow> node list" where
  "health_node u data =
     (let rows = (case data of None \<Rightarrow> [] | Some d \<Rightarrow> dd_upstream_health d) in
      (if rows = [] then [Words (tr u ''dashboard.noUpstreams'')] else []) @ [plain_grid (health_columns u) rows])"

definition quota_usage_node :: "Ui \<Rightarrow> DashboardData option \<Rightarrow> node list" where
  "quota_usage_node u data =
     (case quota_usage u data of
        Inl m \<Rightarrow> [Words m]
      | Inr ls \<Rightarrow> map (\<lambda>l. Shown (Cells [Txt (ql_name l), Txt (ql_text l)])) ls)"

definition system_card_node :: "Ui \<Rightarrow> DashboardData option \<Rightarrow> node list" where
  "system_card_node u data =
     (case data of
        None \<Rightarrow> []
      | Some d \<Rightarrow> Pairs (dashboard_system u d)
          # (case intercepted_alert u d of
               None \<Rightarrow> []
             | Some (warns, m) \<Rightarrow> [Notice (if warns then ''warning'' else ''info'') m [],
                 Hyperlink (tr u ''dashboard.viewLogs'') (js ''/audit/calls'')]))"

definition dashboard_page :: "Ui \<Rightarrow> DashboardData option \<Rightarrow> bool \<Rightarrow> node list" where
  "dashboard_page u data isLoading =
     dashboard_figures u data isLoading
     @ [loading_card (tr u ''dashboard.trend7d'') isLoading (line_node u (dashboard_trend u data)),
        loading_card (tr u ''dashboard.blockCategories'') isLoading (donut_node u (dashboard_categories u data)),
        loading_card (tr u ''dashboard.topModels'') isLoading (ranking_node u data),
        loading_card (tr u ''dashboard.upstreamHealth'') isLoading (health_node u data),
        loading_card (tr u ''dashboard.quotaUsage'') isLoading (quota_usage_node u data),
        loading_card (tr u ''dashboard.systemStatus'') isLoading (system_card_node u data)]"

lemmas log_frame_defs [js_eval] = range_entries_def key_names_def calls_toolbar_def live_row_def
  LiveAuditStream_def calls_grid_def detail_drawer_def calls_page_def operations_toolbar_def
  operations_grid_def diff_dialog_def operations_view_def NoData_def line_node_def donut_node_def
  token_toolbar_def loading_card_def token_figures_def token_charts_def token_rows_def
  token_ranking_def token_page_def dashboard_figures_def ranking_node_def health_node_def
  quota_usage_node_def system_card_node_def dashboard_page_def

end
