(* ===== verification/Paging.thy ===== *)
theory Paging
  imports ListFrames GuardFrames SettingsFrames LogFrames
begin

text \<open>
  The pager of a list page and the request of its list: the page and size the pager shows are those the
  request asks for, before and after the user turns the page. The locale \<open>paged_list\<close> is the contract; the
  eleven pages with a pager meet it.
\<close>

section \<open>Turning the page\<close>

text \<open>The table's \<open>onChange\<close> of the pages that keep the page with their search.\<close>

definition providers_turn ::
  "int option \<Rightarrow> int option \<Rightarrow> ProviderSearch \<times> ProvidersPage \<Rightarrow> ProviderSearch \<times> ProvidersPage" where
  "providers_turn current psize s =
     ((fst s)\<lparr>prvs_page := or_else current 1\<rparr>, (snd s)\<lparr>cr_pageSize := or_else psize 10\<rparr>)"

definition keywords_turn ::
  "int option \<Rightarrow> int option \<Rightarrow> KeywordFilters \<times> KeywordsPage \<Rightarrow> KeywordFilters \<times> KeywordsPage" where
  "keywords_turn current psize s =
     ((fst s)\<lparr>kfs_page := or_else current 1\<rparr>, (snd s)\<lparr>cr_pageSize := or_else psize 10\<rparr>)"

definition pii_turn :: "int option \<Rightarrow> int option \<Rightarrow> RuleSearch \<times> PiiPage \<Rightarrow> RuleSearch \<times> PiiPage" where
  "pii_turn current psize s =
     ((fst s)\<lparr>se_page := or_else current 1\<rparr>, (snd s)\<lparr>cr_pageSize := or_else psize 10\<rparr>)"

definition injection_turn :: "int option \<Rightarrow> int option \<Rightarrow> RuleSearch \<times> InjectionPage \<Rightarrow> RuleSearch \<times> InjectionPage" where
  "injection_turn current psize s =
     ((fst s)\<lparr>se_page := or_else current 1\<rparr>, (snd s)\<lparr>cr_pageSize := or_else psize 10\<rparr>)"

section \<open>The contract\<close>

definition asks :: "request \<Rightarrow> int \<Rightarrow> int \<Rightarrow> bool" where
  "asks rq page pageSize \<longleftrightarrow>
     (case rq_params rq of
        None \<Rightarrow> False
      | Some ps \<Rightarrow> field ''page'' ps = Some (int_json page) \<and> field ''page_size'' ps = Some (int_json pageSize))"

locale paged_list =
  fixes pagers :: "'s \<Rightarrow> pager list"
    and query :: "'s \<Rightarrow> request"
    and turn :: "int option \<Rightarrow> int option \<Rightarrow> 's \<Rightarrow> 's"
    and page :: "'s \<Rightarrow> int"
    and size :: "'s \<Rightarrow> int"
    and tot :: int
  assumes one_pager: "map (\<lambda>p. (pg_current p, pg_pageSize p, pg_total p)) (pagers s) = [(page s, size s, tot)]"
    and query_asks: "asks (query s) (page s) (size s)"
    and turned: "page (turn (Some c) (Some n) s) = c" "size (turn (Some c) (Some n) s) = n"
begin

lemma pager_shown: obtains p where "pagers s = [p]" "pg_current p = page s" "pg_pageSize p = size s" "pg_total p = tot"
  using one_pager [of s] by auto

text \<open>The pager shows what is asked for, and the page the user turns to is the one shown and asked for.\<close>

lemma shown_is_asked: "\<exists>p. pagers s = [p] \<and> asks (query s) (pg_current p) (pg_pageSize p) \<and> pg_total p = tot"
proof -
  obtain p where "pagers s = [p]" "pg_current p = page s" "pg_pageSize p = size s" "pg_total p = tot"
    by (rule pager_shown)
  with query_asks [of s] show ?thesis by simp
qed

lemma turn_is_shown: "\<exists>p. pagers (turn (Some c) (Some n) s) = [p] \<and> pg_current p = c \<and> pg_pageSize p = n"
  using pager_shown [of "turn (Some c) (Some n) s"] turned by metis

end

section \<open>The pages\<close>

lemmas asks_defs = asks_def int_json_def page_params_def PageParams_json_def obj_def http_get_def

lemmas pager_frames = PageContainer_def paged_grid_def busy_grid_def local_grid_def plain_grid_def form_node_def
  modal_def drawer_def pager_of_def

lemma no_pagers [simp]: "(\<And>x. x \<in> set xs \<Longrightarrow> f x = []) \<Longrightarrow> concat (map f xs) = []"
  by (induction xs) auto

interpretation providers_list: paged_list
  "\<lambda>(q, s). node_pagers (providers_page u is_url s q im data l d sv)" "\<lambda>(q, s). providers_query (cr_pageSize s) q"
  providers_turn "\<lambda>(q, s). prvs_page q" "\<lambda>(q, s). cr_pageSize s" "total_of data"
  for u is_url im l d sv and data :: "Provider PageData option"
  by unfold_locales (auto simp: list_frame_defs pager_frames Let_def providers_query_def providers_turn_def
      providerApi_list_def asks_defs)

interpretation models_list: paged_list
  "\<lambda>s. node_pagers (models_page u s ps target stats data l sv)" "\<lambda>s. models_query (cr_page s) (cr_pageSize s) search"
  "crud_table" "cr_page" "cr_pageSize" "total_of data"
  for u ps target stats l sv search and data :: "ModelAlias PageData option"
  by unfold_locales (auto simp: list_frame_defs pager_frames Let_def asks_defs
      models_query_def crud_table_def modelApi_list_def split: option.splits prod.splits)

interpretation rateLimits_list: paged_list
  "\<lambda>s. node_pagers (rateLimits_page u keys s data l d sv)" "rateLimits_query"
  "crud_table" "cr_page" "cr_pageSize" "total_of data"
  for u keys l d sv and data :: "RateLimit PageData option"
  by unfold_locales (auto simp: list_frame_defs pager_frames Let_def asks_defs
      rateLimits_query_def crud_table_def rateLimitApi_list_def split: option.splits prod.splits)

interpretation quotas_list: paged_list
  "\<lambda>s. node_pagers (quotas_page u keys models s b data l d rs sv sd)" "quotas_query"
  "crud_table" "cr_page" "cr_pageSize" "total_of data"
  for u keys models b l d rs sv sd and data :: "Quota PageData option"
  by unfold_locales (auto simp: list_frame_defs pager_frames Let_def asks_defs
      quotas_query_def crud_table_def quotaApi_list_def split: option.splits prod.splits)

interpretation keywords_list: paged_list
  "\<lambda>(f, s). node_pagers (keywords_page u s f im tool data l d sv imp)" "\<lambda>(f, s). keywords_query (cr_pageSize s) f"
  "keywords_turn" "\<lambda>(f, s). kfs_page f" "\<lambda>(f, s). cr_pageSize s" "total_of data"
  for u im tool l d sv imp and data :: "Keyword PageData option"
  by unfold_locales (auto simp: guard_frame_defs pager_frames Let_def asks_defs
      keywords_query_def keywords_turn_def keywordApi_list_def KeywordFilter_json_def split: option.splits import_mode.splits)

interpretation pii_list: paged_list
  "\<lambda>(q, s). node_pagers (pii_page u s q ts td tool data l d sv c)" "\<lambda>(q, s). pii_query (cr_pageSize s) q"
  "pii_turn" "\<lambda>(q, s). se_page q" "\<lambda>(q, s). cr_pageSize s" "total_of data"
  for u ts td tool l d sv c and data :: "PiiRule PageData option"
  by unfold_locales (auto simp: guard_frame_defs pager_frames Let_def asks_defs
      pii_query_def pii_turn_def piiApi_list_def split: option.splits prod.splits)

interpretation injection_list: paged_list
  "\<lambda>(q, s). node_pagers (injection_page u s q ts td data l d sv c)" "\<lambda>(q, s). injection_query (cr_pageSize s) q"
  "injection_turn" "\<lambda>(q, s). se_page q" "\<lambda>(q, s). cr_pageSize s" "total_of data"
  for u ts td l d sv c and data :: "InjectionRule PageData option"
  by unfold_locales (auto simp: guard_frame_defs pager_frames Let_def asks_defs
      injection_query_def injection_turn_def injectionApi_list_def split: option.splits prod.splits)

interpretation apikeys_list: paged_list
  "\<lambda>s. node_pagers (apikeys_page u models s data l c up)" "apikeys_query"
  "apikeys_table" "kp_page" "kp_pageSize" "total_of data"
  for u models l c up and data :: "ApiKey PageData option"
  by unfold_locales (auto simp: list_frame_defs pager_frames Let_def asks_defs
      apikeys_query_def apikeys_table_def apikeyApi_list_def split: option.splits prod.splits)

interpretation users_list: paged_list
  "\<lambda>s. node_pagers (security_page u chars s data l ul sv c ch)" "security_query"
  "security_table" "sp_page" "sp_pageSize" "total_of data"
  for u chars l ul sv c ch and data :: "AdminUserRow PageData option"
  by unfold_locales (auto simp: settings_frame_defs pager_frames Let_def asks_defs
      security_query_def security_table_def userApi_list_def split: option.splits prod.splits)

interpretation calls_list: paged_list
  "\<lambda>s. node_pagers (calls_page u sm keys s lc st data l x)" "calls_query iso_text"
  "calls_table" "cap_page" "cap_pageSize" "total_of data"
  for u sm keys lc st l x iso_text and data :: "CallLogRow PageData option"
  by unfold_locales (auto simp: log_frame_defs pager_frames Let_def asks_defs
      calls_query_def calls_page_params_def calls_params_def calls_table_def callLogApi_list_def CallLogFilter_json_def split: option.splits prod.splits)

interpretation operations_list: paged_list
  "\<lambda>s. node_pagers (operations_view u sm s data l x)" "operations_query iso_text"
  "operations_table" "opp_page" "opp_pageSize" "total_of data"
  for u sm l x iso_text and data :: "OpLogRow PageData option"
  by unfold_locales (auto simp: log_frame_defs pager_frames Let_def asks_defs
      operations_query_def operations_page_params_def operations_params_def operations_table_def opLogApi_list_def OpLogFilter_json_def split: option.splits prod.splits)

section \<open>Properties\<close>

text \<open>
  A page whose pager shows what its request asks for and the total of the answer, and shows, and asks for,
  the page and size the user turns to.
\<close>

definition pager_follows ::
  "('s \<Rightarrow> node) \<Rightarrow> ('s \<Rightarrow> request) \<Rightarrow> (int option \<Rightarrow> int option \<Rightarrow> 's \<Rightarrow> 's) \<Rightarrow> int \<Rightarrow> bool" where
  "pager_follows view query turn tot \<longleftrightarrow>
     (\<forall>s. \<exists>p. node_pagers (view s) = [p] \<and> asks (query s) (pg_current p) (pg_pageSize p) \<and> pg_total p = tot)
   \<and> (\<forall>c n s. \<exists>p. node_pagers (view (turn (Some c) (Some n) s)) = [p] \<and> pg_current p = c \<and> pg_pageSize p = n)"

lemma pager_followsI:
  assumes "paged_list (\<lambda>s. node_pagers (view s)) query turn pg sz tot"
  shows "pager_follows view query turn tot"
  using paged_list.shown_is_asked [OF assms] paged_list.turn_is_shown [OF assms] unfolding pager_follows_def by simp

lemma pagers_of_pair: "(\<lambda>s. node_pagers (case s of (q, r) \<Rightarrow> view q r)) = (\<lambda>(q, r). node_pagers (view q r))"
  by auto

text \<open>C25: On every page with a pager, in whatever state its dialogs are, there is one pager; it shows the
  page and the size that the request of the list asks the server for, and the total of the answer, and after
  the user turns to a page or chooses a size the pager shows these and the request asks for them.\<close>

theorem pagers_follow_requests:
  "pager_follows (\<lambda>(q, s). providers_page u is_url s q im prs l d sv) (\<lambda>(q, s). providers_query (cr_pageSize s) q)
      providers_turn (total_of prs)
   \<and> pager_follows (\<lambda>s. models_page u s ps target stats mas l sv) (\<lambda>s. models_query (cr_page s) (cr_pageSize s) search)
      crud_table (total_of mas)
   \<and> pager_follows (\<lambda>s. rateLimits_page u keys s rls l d sv) rateLimits_query crud_table (total_of rls)
   \<and> pager_follows (\<lambda>s. quotas_page u keys models s b qs l d rs sv sd) quotas_query crud_table (total_of qs)
   \<and> pager_follows (\<lambda>(f, s). keywords_page u s f imp tool kws l d sv i) (\<lambda>(f, s). keywords_query (cr_pageSize s) f)
      keywords_turn (total_of kws)
   \<and> pager_follows (\<lambda>(q, s). pii_page u s q ts td ptool pis l d sv c) (\<lambda>(q, s). pii_query (cr_pageSize s) q)
      pii_turn (total_of pis)
   \<and> pager_follows (\<lambda>(q, s). injection_page u s q its td irs l d sv c) (\<lambda>(q, s). injection_query (cr_pageSize s) q)
      injection_turn (total_of irs)
   \<and> pager_follows (\<lambda>s. apikeys_page u ms s aks l c up) apikeys_query apikeys_table (total_of aks)
   \<and> pager_follows (\<lambda>s. security_page u chars s us l ul sv c ch) security_query security_table (total_of us)
   \<and> pager_follows (\<lambda>s. calls_page u sm keys s lc st cls l x) (calls_query iso_text) calls_table (total_of cls)
   \<and> pager_follows (\<lambda>s. operations_view u sm s ops l x) (operations_query iso_text) operations_table (total_of ops)"
  (is "?a \<and> ?b \<and> ?c \<and> ?d \<and> ?e \<and> ?f \<and> ?g \<and> ?h \<and> ?i \<and> ?j \<and> ?k")
proof (intro conjI)
  show ?a by (rule pager_followsI, unfold pagers_of_pair) (rule providers_list.paged_list_axioms)
  show ?b by (rule pager_followsI [OF models_list.paged_list_axioms])
  show ?c by (rule pager_followsI [OF rateLimits_list.paged_list_axioms])
  show ?d by (rule pager_followsI [OF quotas_list.paged_list_axioms])
  show ?e by (rule pager_followsI, unfold pagers_of_pair) (rule keywords_list.paged_list_axioms)
  show ?f by (rule pager_followsI, unfold pagers_of_pair) (rule pii_list.paged_list_axioms)
  show ?g by (rule pager_followsI, unfold pagers_of_pair) (rule injection_list.paged_list_axioms)
  show ?h by (rule pager_followsI [OF apikeys_list.paged_list_axioms])
  show ?i by (rule pager_followsI [OF users_list.paged_list_axioms])
  show ?j by (rule pager_followsI [OF calls_list.paged_list_axioms])
  show ?k by (rule pager_followsI [OF operations_list.paged_list_axioms])
qed

end
