(* ===== verification/HelpPages.thy ===== *)
theory HelpPages
  imports View
begin

text \<open>
  frontend/src/pages/Help.tsx, NotFound.tsx and frontend/src/components/PageContainer.tsx,
  TableSkeleton.tsx: what the help page shows of the interface of the gateway, the page of an unknown
  path, and the frame of a page.
\<close>

section \<open>Help\<close>

record Endpoint =
  ep_proto :: jsstring
  ep_method :: jsstring
  ep_path :: jsstring
  ep_client :: jsstring

definition help_endpoints :: "translate \<Rightarrow> Endpoint list" where
  "help_endpoints t =
     [\<lparr>ep_proto = js ''OpenAI Chat'', ep_method = js ''POST'', ep_path = js ''/v1/chat/completions'',
       ep_client = t (js ''help.client1'') []\<rparr>,
      \<lparr>ep_proto = js ''OpenAI Responses'', ep_method = js ''POST'', ep_path = js ''/v1/responses'',
       ep_client = t (js ''help.client2'') []\<rparr>,
      \<lparr>ep_proto = js ''Anthropic Messages'', ep_method = js ''POST'', ep_path = js ''/v1/messages'',
       ep_client = t (js ''help.client3'') []\<rparr>,
      \<lparr>ep_proto = t (js ''help.proto4'') [], ep_method = js ''GET'', ep_path = js ''/v1/models'',
       ep_client = t (js ''help.client4'') []\<rparr>]"

definition help_columns :: "Ui \<Rightarrow> Endpoint column list" where
  "help_columns u =
     [col (tr u ''help.colProto'') (Some 160) (\<lambda>r. colored ''blue'' (ep_proto r)),
      col (tr u ''help.colMethodPath'') None (\<lambda>r. Cod (ep_method r @ js '' '' @ ep_path r)),
      col (tr u ''help.colClient'') None (\<lambda>r. Txt (ep_client r))]"

text \<open>The components the texts with markup are given: the code each tag shows.\<close>

definition deployment_codes :: "(string \<times> jsstring) list" where
  "deployment_codes = [(''c1'', js '':8080''), (''c2'', js ''PORT''), (''c3'', js ''/v1/*'')]"

definition addr_codes :: "translate \<Rightarrow> (string \<times> jsstring) list" where
  "addr_codes t =
     [(''c1'', js ''http://'' @ t (js ''help.yourHost'') [] @ js '':<port>/v1''),
      (''c2'', js ''http://localhost:8080/v1''), (''c3'', t (js ''help.yourHost'') [])]"

definition alias_codes :: "(string \<times> jsstring) list \<times> (string \<times> jsstring) list" where
  "alias_codes = ([(''c1'', js ''model'')], [(''c1'', js ''gpt-4o''), (''c2'', js ''404 unknown model'')])"

definition deploy_codes :: "translate \<Rightarrow> (string \<times> jsstring) list" where
  "deploy_codes t =
     [(''c1'', js ''localhost:8080''),
      (''c2'', js ''http://'' @ t (js ''help.serverAddr'') [] @ js '':8080/v1/...''), (''c3'', js '':8080'')]"

text \<open>The two examples, as text that can be copied.\<close>

definition example_openai :: "translate \<Rightarrow> jsstring" where
  "example_openai t =
     js ''curl http://localhost:8080/v1/chat/completions '' @ [92]
     @ [10] @ js ''  -H '' @ [34] @ js ''Authorization: Bearer ''
     @ t (js ''help.curlKey'') []
     @ [34] @ js '' '' @ [92]
     @ [10] @ js ''  -H '' @ [34] @ js ''Content-Type: application/json'' @ [34] @ js '' '' @ [92]
     @ [10] @ js ''  -d '' @ [39] @ js ''{''
     @ [10] @ js ''    '' @ [34] @ js ''model'' @ [34] @ js '': '' @ [34] @ js ''gpt-4o'' @ [34] @ js '',''
     @ [10] @ js ''    '' @ [34] @ js ''messages'' @ [34] @ js '': [{'' @ [34] @ js ''role'' @ [34] @ js '':'' @ [34] @ js ''user'' @ [34] @ js '','' @ [34] @ js ''content'' @ [34] @ js '':'' @ [34, 20320, 22909, 34] @ js ''}],''
     @ [10] @ js ''    '' @ [34] @ js ''stream'' @ [34] @ js '': false''
     @ [10] @ js ''  }'' @ [39]"

definition example_anthropic :: "translate \<Rightarrow> jsstring" where
  "example_anthropic t =
     js ''curl http://localhost:8080/v1/messages '' @ [92]
     @ [10] @ js ''  -H '' @ [34] @ js ''x-api-key: ''
     @ t (js ''help.curlKey'') []
     @ [34] @ js '' '' @ [92]
     @ [10] @ js ''  -H '' @ [34] @ js ''anthropic-version: 2023-06-01'' @ [34] @ js '' '' @ [92]
     @ [10] @ js ''  -H '' @ [34] @ js ''Content-Type: application/json'' @ [34] @ js '' '' @ [92]
     @ [10] @ js ''  -d '' @ [39] @ js ''{''
     @ [10] @ js ''    '' @ [34] @ js ''model'' @ [34] @ js '': '' @ [34] @ js ''claude-3-5-sonnet-20241022'' @ [34] @ js '',''
     @ [10] @ js ''    '' @ [34] @ js ''max_tokens'' @ [34] @ js '': 256,''
     @ [10] @ js ''    '' @ [34] @ js ''messages'' @ [34] @ js '': [{'' @ [34] @ js ''role'' @ [34] @ js '':'' @ [34] @ js ''user'' @ [34] @ js '','' @ [34] @ js ''content'' @ [34] @ js '':'' @ [34, 20320, 22909, 34] @ js ''}]''
     @ [10] @ js ''  }'' @ [39]"

definition help_security :: "translate \<Rightarrow> (jsstring \<times> jsstring) list" where
  "help_security t =
     map (\<lambda>(l, b). (t (js l) [], t (js b) []))
       [(''help.securityIpLabel'', ''help.securityIp''),
        (''help.securityHeadersLabel'', ''help.securityHeaders''),
        (''help.securitySecretsLabel'', ''help.securitySecrets''),
        (''help.securityJwtLabel'', ''help.securityJwt''),
        (''help.securityStorageLabel'', ''help.securityStorage''),
        (''help.securityTopologyLabel'', ''help.securityTopology''),
        (''help.securityTlsLabel'', ''help.securityTls'')]"

text \<open>An item of the list: the label in bold with a full-width colon, then the text.\<close>

definition security_line :: "jsstring \<times> jsstring \<Rightarrow> jsstring \<times> jsstring" where
  "security_line it = (fst it @ [0xFF1A], snd it)"

definition help_auth_text :: "translate \<Rightarrow> jsstring" where
  "help_auth_text t = t (js ''help.authBody1'') [] @ t (js ''help.authKey'') [] @ t (js ''help.authBody2'') []"

definition help_cards :: "translate \<Rightarrow> jsstring list" where
  "help_cards t =
     map (\<lambda>k. t (js k) [])
       [''help.addrTitle'', ''help.authTitle'', ''help.aliasTitle'', ''help.exampleTitle'', ''help.deployTitle'',
        ''help.securityTitle'']"

section \<open>Unknown paths, frames\<close>

definition not_found :: "translate \<Rightarrow> jsstring \<times> jsstring \<times> (jsstring \<times> jsstring)" where
  "not_found t = (js ''404'', t (js ''notFound.subTitle'') [], (t (js ''notFound.backHome'') [], js ''/''))"

text \<open>The frame shows the description only when there is one.\<close>

definition page_header :: "jsstring \<Rightarrow> jsstring option \<Rightarrow> jsstring list" where
  "page_header title description =
     title # (case description of None \<Rightarrow> [] | Some d \<Rightarrow> if d = [] then [] else [d])"

text \<open>The widths of the lines of a skeleton, in percent.\<close>

definition skeleton_widths :: "nat \<Rightarrow> nat list" where
  "skeleton_widths rows = map (\<lambda>i. 72 + (i * 13) mod 22) [0..<rows]"

lemma skeleton_fits: "\<forall>w \<in> set (skeleton_widths rows). 72 \<le> w \<and> w < 94"
  by (simp add: skeleton_widths_def)

lemmas help_defs [js_eval] = help_endpoints_def help_columns_def deployment_codes_def addr_codes_def
  alias_codes_def deploy_codes_def example_openai_def example_anthropic_def help_security_def
  security_line_def help_auth_text_def help_cards_def not_found_def page_header_def skeleton_widths_def

end
