(* ===== verification/Catalogs.thy ===== *)
theory Catalogs
  imports HttpClient
begin

text \<open>
  The shared message catalogues of frontend/src/i18n/locales (common.ts, menu.ts, dicts.ts) in
  both languages: a list of key and text in the order of the file. A text outside ASCII is written
  as its UTF-16 code units.
\<close>

definition zh_common :: "(jsstring \<times> jsstring) list" where
  "zh_common =
     [(js ''common.save'', [20445, 23384]),
      (js ''common.cancel'', [21462, 28040]),
      (js ''common.create'', [26032, 24314]),
      (js ''common.add'', [28155, 21152]),
      (js ''common.edit'', [32534, 36753]),
      (js ''common.update'', [26356, 26032]),
      (js ''common.delete'', [21024, 38500]),
      (js ''common.remove'', [31227, 38500]),
      (js ''common.submit'', [25552, 20132]),
      (js ''common.search'', [25628, 32034]),
      (js ''common.reset'', [37325, 32622]),
      (js ''common.refresh'', [21047, 26032]),
      (js ''common.export'', [23548, 20986]),
      (js ''common.import'', [23548, 20837]),
      (js ''common.download'', [19979, 36733]),
      (js ''common.upload'', [19978, 20256]),
      (js ''common.copy'', [22797, 21046]),
      (js ''common.copied'', [24050, 22797, 21046]),
      (js ''common.copyFailed'', [22797, 21046, 22833, 36133]),
      (js ''common.confirm'', [30830, 35748]),
      (js ''common.ok'', [30830, 23450]),
      (js ''common.close'', [20851, 38381]),
      (js ''common.back'', [36820, 22238]),
      (js ''common.more'', [26356, 22810]),
      (js ''common.detail'', [35814, 24773]),
      (js ''common.operation'', [25805, 20316]),
      (js ''common.status'', [29366, 24577]),
      (js ''common.enabled'', [24050, 21551, 29992]),
      (js ''common.disabled'', [24050, 31105, 29992]),
      (js ''common.enable'', [21551, 29992]),
      (js ''common.disable'', [31105, 29992]),
      (js ''common.yes'', [26159]),
      (js ''common.no'', [21542]),
      (js ''common.all'', [20840, 37096]),
      (js ''common.none'', [26080]),
      (js ''common.required'', [24517, 22635]),
      (js ''common.optional'', [21487, 36873]),
      (js ''common.name'', [21517, 31216]),
      (js ''common.remark'', [22791, 27880]),
      (js ''common.description'', [25551, 36848]),
      (js ''common.createdAt'', [21019, 24314, 26102, 38388]),
      (js ''common.updatedAt'', [26356, 26032, 26102, 38388]),
      (js ''common.action'', [25805, 20316]),
      (js ''common.total'', [20849] @ js '' {{total}} '' @ [26465]),
      (js ''common.noData'', [26242, 26080, 25968, 25454]),
      (js ''common.loading'', [21152, 36733, 20013, 8230]),
      (js ''common.pleaseSelect'', [35831, 36873, 25321]),
      (js ''common.pleaseEnter'', [35831, 36755, 20837]),
      (js ''common.unknown'', [26410, 30693]),
      (js ''common.saveSuccess'', [20445, 23384, 25104, 21151]),
      (js ''common.saveFailed'', [20445, 23384, 22833, 36133]),
      (js ''common.deleteSuccess'', [21024, 38500, 25104, 21151]),
      (js ''common.deleteFailed'', [21024, 38500, 22833, 36133]),
      (js ''common.operationSuccess'', [25805, 20316, 25104, 21151]),
      (js ''common.operationFailed'', [25805, 20316, 22833, 36133]),
      (js ''common.requestFailed'', [35831, 27714, 22833, 36133]),
      (js ''common.networkError'', [32593, 32476, 38169, 35823, 65292, 35831, 31245, 21518, 37325, 35797]),
      (js ''common.loadingFailed'', [21152, 36733, 22833, 36133]),
      (js ''common.deleteConfirm'', [30830, 23450, 35201, 21024, 38500, 21527, 65311, 27492, 25805, 20316, 19981, 21487, 24674, 22797, 12290]),
      (js ''common.deleteConfirmTitle'', [21024, 38500, 30830, 35748]),
      (js ''common.testSuccess'', [27979, 35797, 25104, 21151]),
      (js ''common.testFailed'', [27979, 35797, 22833, 36133]),
      (js ''common.uploadSuccess'', [19978, 20256, 25104, 21151]),
      (js ''common.uploadFailed'', [19978, 20256, 22833, 36133]),
      (js ''common.copySuccess'', [22797, 21046, 25104, 21151]),
      (js ''common.ms'', [27627, 31186]),
      (js ''common.second'', [31186]),
      (js ''common.minute'', [20998, 38047]),
      (js ''common.hour'', [23567, 26102]),
      (js ''common.day'', [22825]),
      (js ''common.times'', [27425]),
      (js ''common.tokens'', js ''Tokens''),
      (js ''common.requiredField'', [27492, 39033, 20026, 24517, 22635, 39033]),
      (js ''common.invalidFormat'', [26684, 24335, 19981, 27491, 30830]),
      (js ''common.empty'', [65288, 31354, 65289])]"

definition en_common :: "(jsstring \<times> jsstring) list" where
  "en_common =
     [(js ''common.save'', js ''Save''),
      (js ''common.cancel'', js ''Cancel''),
      (js ''common.create'', js ''Create''),
      (js ''common.add'', js ''Add''),
      (js ''common.edit'', js ''Edit''),
      (js ''common.update'', js ''Update''),
      (js ''common.delete'', js ''Delete''),
      (js ''common.remove'', js ''Remove''),
      (js ''common.submit'', js ''Submit''),
      (js ''common.search'', js ''Search''),
      (js ''common.reset'', js ''Reset''),
      (js ''common.refresh'', js ''Refresh''),
      (js ''common.export'', js ''Export''),
      (js ''common.import'', js ''Import''),
      (js ''common.download'', js ''Download''),
      (js ''common.upload'', js ''Upload''),
      (js ''common.copy'', js ''Copy''),
      (js ''common.copied'', js ''Copied''),
      (js ''common.copyFailed'', js ''Copy failed''),
      (js ''common.confirm'', js ''Confirm''),
      (js ''common.ok'', js ''OK''),
      (js ''common.close'', js ''Close''),
      (js ''common.back'', js ''Back''),
      (js ''common.more'', js ''More''),
      (js ''common.detail'', js ''Detail''),
      (js ''common.operation'', js ''Operation''),
      (js ''common.status'', js ''Status''),
      (js ''common.enabled'', js ''Enabled''),
      (js ''common.disabled'', js ''Disabled''),
      (js ''common.enable'', js ''Enable''),
      (js ''common.disable'', js ''Disable''),
      (js ''common.yes'', js ''Yes''),
      (js ''common.no'', js ''No''),
      (js ''common.all'', js ''All''),
      (js ''common.none'', js ''None''),
      (js ''common.required'', js ''Required''),
      (js ''common.optional'', js ''Optional''),
      (js ''common.name'', js ''Name''),
      (js ''common.remark'', js ''Remark''),
      (js ''common.description'', js ''Description''),
      (js ''common.createdAt'', js ''Created At''),
      (js ''common.updatedAt'', js ''Updated At''),
      (js ''common.action'', js ''Action''),
      (js ''common.total'', js ''{{total}} items in total''),
      (js ''common.noData'', js ''No data''),
      (js ''common.loading'', js ''Loading'' @ [8230]),
      (js ''common.pleaseSelect'', js ''Please select''),
      (js ''common.pleaseEnter'', js ''Please enter''),
      (js ''common.unknown'', js ''Unknown''),
      (js ''common.saveSuccess'', js ''Saved successfully''),
      (js ''common.saveFailed'', js ''Save failed''),
      (js ''common.deleteSuccess'', js ''Deleted successfully''),
      (js ''common.deleteFailed'', js ''Delete failed''),
      (js ''common.operationSuccess'', js ''Operation successful''),
      (js ''common.operationFailed'', js ''Operation failed''),
      (js ''common.requestFailed'', js ''Request failed''),
      (js ''common.networkError'', js ''Network error, please try again later''),
      (js ''common.loadingFailed'', js ''Failed to load''),
      (js ''common.deleteConfirm'', js ''Are you sure you want to delete? This action cannot be undone.''),
      (js ''common.deleteConfirmTitle'', js ''Delete Confirmation''),
      (js ''common.testSuccess'', js ''Test successful''),
      (js ''common.testFailed'', js ''Test failed''),
      (js ''common.uploadSuccess'', js ''Upload successful''),
      (js ''common.uploadFailed'', js ''Upload failed''),
      (js ''common.copySuccess'', js ''Copied successfully''),
      (js ''common.ms'', js ''ms''),
      (js ''common.second'', js ''s''),
      (js ''common.minute'', js ''min''),
      (js ''common.hour'', js ''h''),
      (js ''common.day'', js ''d''),
      (js ''common.times'', js ''times''),
      (js ''common.tokens'', js ''Tokens''),
      (js ''common.requiredField'', js ''This field is required''),
      (js ''common.invalidFormat'', js ''Invalid format''),
      (js ''common.empty'', js ''(Empty)'')]"

definition zh_menu :: "(jsstring \<times> jsstring) list" where
  "zh_menu =
     [(js ''menu.brand'', js ''AI '' @ [32593, 20851, 31649, 29702, 24179, 21488]),
      (js ''menu.home'', [39318, 39029]),
      (js ''menu.tokenUsage'', js ''Token '' @ [29992, 37327]),
      (js ''menu.models'', [27169, 22411, 31649, 29702]),
      (js ''menu.providers'', [20379, 24212, 21830, 31649, 29702]),
      (js ''menu.modelAliases'', [27169, 22411, 21035, 21517]),
      (js ''menu.failover'', [25925, 38556, 36716, 31227, 35774, 32622]),
      (js ''menu.guard'', [25252, 26639, 31649, 29702]),
      (js ''menu.keywords'', [25935, 24863, 35789]),
      (js ''menu.piiRules'', js ''PII '' @ [35268, 21017]),
      (js ''menu.injectionRules'', [27880, 20837, 35268, 21017]),
      (js ''menu.outputFilter'', [36755, 20986, 36807, 28388]),
      (js ''menu.quota'', [37197, 39069, 31649, 29702]),
      (js ''menu.quotas'', [37197, 39069, 21015, 34920]),
      (js ''menu.rateLimits'', [36895, 29575, 38480, 21046]),
      (js ''menu.quotaAlerts'', [39044, 35686, 35774, 32622]),
      (js ''menu.audit'', [23457, 35745, 26085, 24535]),
      (js ''menu.callLogs'', [35843, 29992, 26085, 24535]),
      (js ''menu.operationLogs'', [25805, 20316, 23457, 35745]),
      (js ''menu.settings'', [31995, 32479, 35774, 32622]),
      (js ''menu.general'', [36890, 29992, 35774, 32622]),
      (js ''menu.apiKeys'', js ''API Key''),
      (js ''menu.security'', [23433, 20840, 35774, 32622]),
      (js ''menu.configStatus'', [37197, 32622, 29366, 24577]),
      (js ''menu.runtimeStatus'', [29366, 24577, 30417, 25511]),
      (js ''menu.backup'', [25968, 25454, 22791, 20221]),
      (js ''menu.accountSecurity'', [20010, 20154, 23433, 20840, 35774, 32622]),
      (js ''menu.help'', [20351, 29992, 24110, 21161]),
      (js ''menu.mfaRestricted'', [24403, 21069, 20026, 21463, 38480, 20250, 35805, 65306, 35831, 20808, 22312, 26412, 39029, 23436, 25104] @ js '' MFA '' @ [32465, 23450, 65292, 23436, 25104, 21518, 37325, 26032, 30331, 24405, 21363, 21487, 35775, 38382, 20840, 37096, 21151, 33021, 12290]),
      (js ''menu.logout'', [36864, 20986, 30331, 24405]),
      (js ''menu.account'', [36134, 25143, 23433, 20840]),
      (js ''menu.language'', [20999, 25442, 35821, 35328]),
      (js ''pageName.dashboard'', [27010, 35272] @ js '' Dashboard''),
      (js ''pageName.tokenUsage'', js ''Token '' @ [29992, 37327, 32479, 35745]),
      (js ''pageName.providers'', [20379, 24212, 21830, 31649, 29702]),
      (js ''pageName.models'', [27169, 22411, 21035, 21517, 31649, 29702]),
      (js ''pageName.failover'', [25925, 38556, 36716, 31227, 35774, 32622]),
      (js ''pageName.keywords'', [25935, 24863, 35789, 31649, 29702]),
      (js ''pageName.piiRules'', js ''PII '' @ [35268, 21017, 31649, 29702]),
      (js ''pageName.injectionRules'', [27880, 20837, 35268, 21017, 31649, 29702]),
      (js ''pageName.outputFilter'', [36755, 20986, 36807, 28388, 37197, 32622]),
      (js ''pageName.quotas'', [37197, 39069, 31649, 29702]),
      (js ''pageName.rateLimits'', [36895, 29575, 38480, 21046]),
      (js ''pageName.quotaAlerts'', [39044, 35686, 35774, 32622]),
      (js ''pageName.callLogs'', [35843, 29992, 26085, 24535]),
      (js ''pageName.operationLogs'', [25805, 20316, 23457, 35745]),
      (js ''pageName.general'', [36890, 29992, 35774, 32622]),
      (js ''pageName.apiKeys'', js ''API Key '' @ [31649, 29702]),
      (js ''pageName.security'', [23433, 20840, 35774, 32622]),
      (js ''pageName.configStatus'', [37197, 32622, 29366, 24577]),
      (js ''pageName.runtimeStatus'', [29366, 24577, 30417, 25511]),
      (js ''pageName.backup'', [25968, 25454, 22791, 20221]),
      (js ''pageName.accountSecurity'', [20010, 20154, 23433, 20840, 35774, 32622]),
      (js ''pageName.help'', [20351, 29992, 24110, 21161])]"

definition en_menu :: "(jsstring \<times> jsstring) list" where
  "en_menu =
     [(js ''menu.brand'', js ''AI Gateway Admin''),
      (js ''menu.home'', js ''Home''),
      (js ''menu.tokenUsage'', js ''Token Usage''),
      (js ''menu.models'', js ''Models''),
      (js ''menu.providers'', js ''Providers''),
      (js ''menu.modelAliases'', js ''Model Aliases''),
      (js ''menu.failover'', js ''Failover Settings''),
      (js ''menu.guard'', js ''Guardrails''),
      (js ''menu.keywords'', js ''Keywords''),
      (js ''menu.piiRules'', js ''PII Rules''),
      (js ''menu.injectionRules'', js ''Injection Rules''),
      (js ''menu.outputFilter'', js ''Output Filter''),
      (js ''menu.quota'', js ''Quota''),
      (js ''menu.quotas'', js ''Quotas''),
      (js ''menu.rateLimits'', js ''Rate Limits''),
      (js ''menu.quotaAlerts'', js ''Alert Rules''),
      (js ''menu.audit'', js ''Audit Logs''),
      (js ''menu.callLogs'', js ''Call Logs''),
      (js ''menu.operationLogs'', js ''Operation Logs''),
      (js ''menu.settings'', js ''Settings''),
      (js ''menu.general'', js ''General''),
      (js ''menu.apiKeys'', js ''API Keys''),
      (js ''menu.security'', js ''Security''),
      (js ''menu.configStatus'', js ''Config Status''),
      (js ''menu.runtimeStatus'', js ''Status''),
      (js ''menu.backup'', js ''Backup''),
      (js ''menu.accountSecurity'', js ''Account Security''),
      (js ''menu.help'', js ''Help''),
      (js ''menu.mfaRestricted'', js ''This is a restricted session: please complete MFA enrollment on this page first. After enrolling, log in again to access all features.''),
      (js ''menu.logout'', js ''Logout''),
      (js ''menu.account'', js ''Account Security''),
      (js ''menu.language'', js ''Language''),
      (js ''pageName.dashboard'', js ''Dashboard''),
      (js ''pageName.tokenUsage'', js ''Token Usage Statistics''),
      (js ''pageName.providers'', js ''Provider Management''),
      (js ''pageName.models'', js ''Model Alias Management''),
      (js ''pageName.failover'', js ''Failover Settings''),
      (js ''pageName.keywords'', js ''Keyword Management''),
      (js ''pageName.piiRules'', js ''PII Rule Management''),
      (js ''pageName.injectionRules'', js ''Injection Rule Management''),
      (js ''pageName.outputFilter'', js ''Output Filter Configuration''),
      (js ''pageName.quotas'', js ''Quota Management''),
      (js ''pageName.rateLimits'', js ''Rate Limits''),
      (js ''pageName.quotaAlerts'', js ''Alert Settings''),
      (js ''pageName.callLogs'', js ''Call Logs''),
      (js ''pageName.operationLogs'', js ''Operation Logs''),
      (js ''pageName.general'', js ''General Settings''),
      (js ''pageName.apiKeys'', js ''API Key Management''),
      (js ''pageName.security'', js ''Security Settings''),
      (js ''pageName.configStatus'', js ''Config Status''),
      (js ''pageName.runtimeStatus'', js ''Runtime Status''),
      (js ''pageName.backup'', js ''Data Backup''),
      (js ''pageName.accountSecurity'', js ''Account Security''),
      (js ''pageName.help'', js ''Help'')]"

definition zh_dicts :: "(jsstring \<times> jsstring) list" where
  "zh_dicts =
     [(js ''dicts.protocol.openai_chat'', js ''OpenAI Chat Completions''),
      (js ''dicts.protocol.openai_responses'', js ''OpenAI Responses''),
      (js ''dicts.protocol.anthropic'', js ''Anthropic Messages''),
      (js ''dicts.keywordCategory.political'', [28041, 25919]),
      (js ''dicts.keywordCategory.porn'', [33394, 24773]),
      (js ''dicts.keywordCategory.violence'', [26292, 21147]),
      (js ''dicts.keywordCategory.illegal'', [36829, 27861]),
      (js ''dicts.keywordCategory.discrimination'', [27495, 35270]),
      (js ''dicts.keywordCategory.custom'', [33258, 23450, 20041]),
      (js ''dicts.matchMode.contains'', [21253, 21547, 21305, 37197]),
      (js ''dicts.matchMode.exact'', [31934, 30830, 21305, 37197]),
      (js ''dicts.matchMode.regex'', [27491, 21017, 21305, 37197]),
      (js ''dicts.action.block'', [25318, 25130]),
      (js ''dicts.action.warn'', [21578, 35686]),
      (js ''dicts.action.log'', [20165, 35760, 24405]),
      (js ''dicts.action.mask'', [33073, 25935]),
      (js ''dicts.quotaType.requests'', [35831, 27714, 27425, 25968]),
      (js ''dicts.quotaType.tokens'', js ''Token '' @ [25968]),
      (js ''dicts.period.day'', [25353, 22825]),
      (js ''dicts.period.week'', [25353, 21608]),
      (js ''dicts.period.month'', [25353, 26376]),
      (js ''dicts.overAction.reject'', [25298, 32477, 35831, 27714]),
      (js ''dicts.overAction.degrade'', [38477, 32423, 21040, 20854, 20182, 27169, 22411]),
      (js ''dicts.callStatus.ok'', [25104, 21151]),
      (js ''dicts.callStatus.error'', [38169, 35823]),
      (js ''dicts.callStatus.blocked'', [25318, 25130]),
      (js ''dicts.callStatus.rate_limited'', [38480, 27969]),
      (js ''dicts.callStatus.quota_exceeded'', [36229, 37197, 39069]),
      (js ''dicts.logLevel.debug'', js ''debug''),
      (js ''dicts.logLevel.info'', js ''info''),
      (js ''dicts.logLevel.warn'', js ''warn''),
      (js ''dicts.logLevel.error'', js ''error''),
      (js ''dicts.violationStrategy.replace'', [26367, 25442, 20026, 23433, 20840, 25552, 31034, 35821]),
      (js ''dicts.violationStrategy.block'', [38459, 26029, 36755, 20986]),
      (js ''dicts.violationStrategy.log'', [20165, 35760, 24405]),
      (js ''dicts.alertChannel.ui'', [39029, 38754, 20869, 36890, 30693]),
      (js ''dicts.alertChannel.webhook'', js ''Webhook''),
      (js ''dicts.backoff.fixed'', [22266, 23450, 38388, 38548]),
      (js ''dicts.backoff.exponential'', [25351, 25968, 36864, 36991]),
      (js ''dicts.piiCategory.phone'', [25163, 26426, 21495]),
      (js ''dicts.piiCategory.id_card'', [36523, 20221, 35777, 21495]),
      (js ''dicts.piiCategory.email'', [37038, 31665]),
      (js ''dicts.piiCategory.bank_card'', [38134, 34892, 21345, 21495]),
      (js ''dicts.piiCategory.address'', [22320, 22336]),
      (js ''dicts.piiCategory.custom'', [33258, 23450, 20041]),
      (js ''dicts.opAction.create'', [21019, 24314]),
      (js ''dicts.opAction.update'', [20462, 25913]),
      (js ''dicts.opAction.delete'', [21024, 38500]),
      (js ''dicts.opAction.enable'', [21551, 29992]),
      (js ''dicts.opAction.disable'', [31105, 29992]),
      (js ''dicts.opAction.reload'', [37325, 36733, 37197, 32622]),
      (js ''dicts.opAction.rollback'', [37197, 32622, 22238, 28378]),
      (js ''dicts.opAction.reset'', [37197, 39069, 37325, 32622]),
      (js ''dicts.opAction.login'', [30331, 24405]),
      (js ''dicts.opAction.mfa_bind'', js ''MFA '' @ [32465, 23450]),
      (js ''dicts.opAction.mfa_unbind'', js ''MFA '' @ [35299, 32465]),
      (js ''dicts.opAction.backup'', [22791, 20221]),
      (js ''dicts.opAction.restore'', [24674, 22797]),
      (js ''dicts.opModule.provider'', [20379, 24212, 21830]),
      (js ''dicts.opModule.model_alias'', [27169, 22411, 21035, 21517]),
      (js ''dicts.opModule.failover'', [25925, 38556, 36716, 31227]),
      (js ''dicts.opModule.guard'', [25252, 26639]),
      (js ''dicts.opModule.quota'', [37197, 39069]),
      (js ''dicts.opModule.rate_limit'', [36895, 29575, 38480, 21046]),
      (js ''dicts.opModule.apikey'', js ''API Key''),
      (js ''dicts.opModule.settings'', [31995, 32479, 35774, 32622]),
      (js ''dicts.opModule.security'', [23433, 20840, 35774, 32622]),
      (js ''dicts.opModule.backup'', [25968, 25454, 22791, 20221]),
      (js ''dicts.opModule.auth'', [35748, 35777])]"

definition en_dicts :: "(jsstring \<times> jsstring) list" where
  "en_dicts =
     [(js ''dicts.protocol.openai_chat'', js ''OpenAI Chat Completions''),
      (js ''dicts.protocol.openai_responses'', js ''OpenAI Responses''),
      (js ''dicts.protocol.anthropic'', js ''Anthropic Messages''),
      (js ''dicts.keywordCategory.political'', js ''Political''),
      (js ''dicts.keywordCategory.porn'', js ''Pornography''),
      (js ''dicts.keywordCategory.violence'', js ''Violence''),
      (js ''dicts.keywordCategory.illegal'', js ''Illegal''),
      (js ''dicts.keywordCategory.discrimination'', js ''Discrimination''),
      (js ''dicts.keywordCategory.custom'', js ''Custom''),
      (js ''dicts.matchMode.contains'', js ''Contains''),
      (js ''dicts.matchMode.exact'', js ''Exact''),
      (js ''dicts.matchMode.regex'', js ''Regex''),
      (js ''dicts.action.block'', js ''Block''),
      (js ''dicts.action.warn'', js ''Warn''),
      (js ''dicts.action.log'', js ''Log Only''),
      (js ''dicts.action.mask'', js ''Mask''),
      (js ''dicts.quotaType.requests'', js ''Requests''),
      (js ''dicts.quotaType.tokens'', js ''Tokens''),
      (js ''dicts.period.day'', js ''Day''),
      (js ''dicts.period.week'', js ''Week''),
      (js ''dicts.period.month'', js ''Month''),
      (js ''dicts.overAction.reject'', js ''Reject''),
      (js ''dicts.overAction.degrade'', js ''Degrade''),
      (js ''dicts.callStatus.ok'', js ''Success''),
      (js ''dicts.callStatus.error'', js ''Error''),
      (js ''dicts.callStatus.blocked'', js ''Blocked''),
      (js ''dicts.callStatus.rate_limited'', js ''Rate Limited''),
      (js ''dicts.callStatus.quota_exceeded'', js ''Quota Exceeded''),
      (js ''dicts.logLevel.debug'', js ''debug''),
      (js ''dicts.logLevel.info'', js ''info''),
      (js ''dicts.logLevel.warn'', js ''warn''),
      (js ''dicts.logLevel.error'', js ''error''),
      (js ''dicts.violationStrategy.replace'', js ''Replace with safe message''),
      (js ''dicts.violationStrategy.block'', js ''Block output''),
      (js ''dicts.violationStrategy.log'', js ''Log only''),
      (js ''dicts.alertChannel.ui'', js ''UI Notice''),
      (js ''dicts.alertChannel.webhook'', js ''Webhook''),
      (js ''dicts.backoff.fixed'', js ''Fixed''),
      (js ''dicts.backoff.exponential'', js ''Exponential''),
      (js ''dicts.piiCategory.phone'', js ''Phone''),
      (js ''dicts.piiCategory.id_card'', js ''ID Card''),
      (js ''dicts.piiCategory.email'', js ''Email''),
      (js ''dicts.piiCategory.bank_card'', js ''Bank Card''),
      (js ''dicts.piiCategory.address'', js ''Address''),
      (js ''dicts.piiCategory.custom'', js ''Custom''),
      (js ''dicts.opAction.create'', js ''Create''),
      (js ''dicts.opAction.update'', js ''Update''),
      (js ''dicts.opAction.delete'', js ''Delete''),
      (js ''dicts.opAction.enable'', js ''Enable''),
      (js ''dicts.opAction.disable'', js ''Disable''),
      (js ''dicts.opAction.reload'', js ''Reload Config''),
      (js ''dicts.opAction.rollback'', js ''Rollback Config''),
      (js ''dicts.opAction.reset'', js ''Reset Quota''),
      (js ''dicts.opAction.login'', js ''Login''),
      (js ''dicts.opAction.mfa_bind'', js ''MFA Bind''),
      (js ''dicts.opAction.mfa_unbind'', js ''MFA Unbind''),
      (js ''dicts.opAction.backup'', js ''Backup''),
      (js ''dicts.opAction.restore'', js ''Restore''),
      (js ''dicts.opModule.provider'', js ''Provider''),
      (js ''dicts.opModule.model_alias'', js ''Model Alias''),
      (js ''dicts.opModule.failover'', js ''Failover''),
      (js ''dicts.opModule.guard'', js ''Guardrail''),
      (js ''dicts.opModule.quota'', js ''Quota''),
      (js ''dicts.opModule.rate_limit'', js ''Rate Limit''),
      (js ''dicts.opModule.apikey'', js ''API Key''),
      (js ''dicts.opModule.settings'', js ''Settings''),
      (js ''dicts.opModule.security'', js ''Security''),
      (js ''dicts.opModule.backup'', js ''Backup''),
      (js ''dicts.opModule.auth'', js ''Auth'')]"

end
