(* ===== verification/I18n.thy ===== *)
theory I18n
  imports Catalogs Dicts Layout
begin

text \<open>
  frontend/src/i18n/index.ts and frontend/src/components/LanguageSwitch.tsx: the languages, which
  one the console starts in, how the catalogues are merged, and the switch of language. The lookup
  of i18next is the parameter \<open>tr\<close> (language, key); localStorage may throw, which is \<open>None\<close>.
\<close>

definition lang_zh :: jsstring where "lang_zh = js ''zh-CN''"
definition lang_en :: jsstring where "lang_en = js ''en-US''"

definition DEFAULT_LANG :: jsstring where "DEFAULT_LANG = lang_zh"
definition SUPPORTED_LANGS :: "jsstring list" where "SUPPORTED_LANGS = [lang_zh, lang_en]"

definition LANG_LABELS :: "(jsstring \<times> jsstring) list" where
  "LANG_LABELS = [(lang_zh, [20013, 25991]), (lang_en, js ''English'')]"

text \<open>\<open>stored\<close> is the outcome of reading localStorage: None when the access throws.\<close>

definition getInitialLang :: "jsstring option option \<Rightarrow> jsstring \<Rightarrow> jsstring" where
  "getInitialLang stored navigator_language =
     (case stored of
        None \<Rightarrow> lang_en
      | Some s \<Rightarrow>
          if (case s of Some l \<Rightarrow> l \<noteq> [] \<and> l \<in> set SUPPORTED_LANGS | None \<Rightarrow> False) then the s
          else if starts_with navigator_language (js ''zh'') then lang_zh else lang_en)"

section \<open>Resources\<close>

text \<open>
  The language a page catalogue belongs to: the regular expression over the normalised path, at
  the first position where it matches.
\<close>

definition page_tail :: "jsstring \<Rightarrow> jsstring \<Rightarrow> bool" where
  "page_tail pre s \<longleftrightarrow>
     starts_with s pre \<and> length s > length pre + 3 \<and> drop (length s - 3) s = js ''.ts''"

fun catalogue_lang :: "jsstring \<Rightarrow> jsstring option" where
  "catalogue_lang [] = None"
| "catalogue_lang (c # s) =
     (if page_tail (js ''locales/zh-CN/pages/'') (c # s) then Some lang_zh
      else if page_tail (js ''locales/en-US/pages/'') (c # s) then Some lang_en
      else catalogue_lang s)"

definition normalize_path :: "jsstring \<Rightarrow> jsstring" where
  "normalize_path p = map (\<lambda>u. if u = 92 then 47 else u) p"

type_synonym catalogue = "(jsstring \<times> jsstring) list"

definition base_resources :: "jsstring \<Rightarrow> jsstring \<Rightarrow> jsstring option" where
  "base_resources lang =
     (if lang = lang_zh then map_of zh_common ++ map_of zh_menu ++ map_of zh_dicts
      else if lang = lang_en then map_of en_common ++ map_of en_menu ++ map_of en_dicts
      else Map.empty)"

definition add_module ::
  "jsstring \<times> catalogue \<Rightarrow> (jsstring \<Rightarrow> jsstring \<Rightarrow> jsstring option) \<Rightarrow> jsstring \<Rightarrow> jsstring \<Rightarrow> jsstring option" where
  "add_module m res =
     (case catalogue_lang (normalize_path (fst m)) of
        None \<Rightarrow> res
      | Some l \<Rightarrow> res(l := res l ++ map_of (snd m)))"

definition buildResources :: "(jsstring \<times> catalogue) list \<Rightarrow> jsstring \<Rightarrow> jsstring \<Rightarrow> jsstring option" where
  "buildResources modules = fold add_module modules base_resources"

section \<open>Switching\<close>

record I18nState =
  il_language :: jsstring
  il_stored :: "jsstring option"
  il_dayjs :: jsstring
  il_html_lang :: jsstring
  il_title :: jsstring

definition sync_document :: "(jsstring \<Rightarrow> jsstring \<Rightarrow> jsstring) \<Rightarrow> jsstring \<Rightarrow> I18nState \<Rightarrow> I18nState" where
  "sync_document tr lang s =
     s\<lparr>il_dayjs := (if lang = lang_zh then js ''zh-cn'' else js ''en''), il_html_lang := lang,
       il_title := tr lang (js ''menu.brand'')\<rparr>"

text \<open>\<open>changeLanguage\<close> sets the language and fires \<open>languageChanged\<close>; \<open>writable\<close> tells
  whether localStorage accepts the write.\<close>

definition setLanguage :: "(jsstring \<Rightarrow> jsstring \<Rightarrow> jsstring) \<Rightarrow> bool \<Rightarrow> jsstring \<Rightarrow> I18nState \<Rightarrow> I18nState" where
  "setLanguage tr writable lang s =
     (if lang \<notin> set SUPPORTED_LANGS then s
      else sync_document tr lang
        (s\<lparr>il_stored := (if writable then Some lang else il_stored s), il_language := lang\<rparr>))"

definition init_i18n :: "(jsstring \<Rightarrow> jsstring \<Rightarrow> jsstring) \<Rightarrow> jsstring option \<Rightarrow> jsstring \<Rightarrow> I18nState" where
  "init_i18n tr stored nav =
     (let l = getInitialLang (Some stored) nav
      in sync_document tr l
           \<lparr>il_language = l, il_stored = stored, il_dayjs = [], il_html_lang = [], il_title = []\<rparr>)"

text \<open>The language the switch shows as current.\<close>

definition current_lang :: "I18nState \<Rightarrow> jsstring" where
  "current_lang s = (if il_language s \<in> set SUPPORTED_LANGS then il_language s else lang_zh)"

lemmas i18n_defs [js_eval] = lang_zh_def lang_en_def DEFAULT_LANG_def SUPPORTED_LANGS_def
  LANG_LABELS_def getInitialLang_def page_tail_def normalize_path_def base_resources_def
  add_module_def buildResources_def sync_document_def setLanguage_def init_i18n_def current_lang_def

section \<open>Properties\<close>

text \<open>The console always runs in a supported language; a language chosen with the switch is in
  force at once, in the texts, the dates, the document and its title, it is the one a later page
  load starts in when it could be stored, and an unsupported one is ignored.\<close>

theorem language_choice_persists:
  "getInitialLang stored nav \<in> set SUPPORTED_LANGS
   \<and> setLanguage tr writable l s =
      (if l \<in> set SUPPORTED_LANGS
       then \<lparr>il_language = l, il_stored = (if writable then Some l else il_stored s),
             il_dayjs = (if l = lang_zh then js ''zh-cn'' else js ''en''),
             il_html_lang = l, il_title = tr l (js ''menu.brand'')\<rparr>
       else s)
   \<and> getInitialLang (Some (il_stored (setLanguage tr True l s))) nav =
      (if l \<in> set SUPPORTED_LANGS then l else getInitialLang (Some (il_stored s)) nav)"
proof -
  have "getInitialLang stored nav \<in> set SUPPORTED_LANGS"
    by (auto simp: getInitialLang_def SUPPORTED_LANGS_def split: option.splits)
  moreover have "getInitialLang (Some (Some l)) nav = l" if "l \<in> set SUPPORTED_LANGS"
    using that by (auto simp: getInitialLang_def SUPPORTED_LANGS_def lang_zh_def lang_en_def)
  ultimately show ?thesis
    by (cases s) (simp add: setLanguage_def sync_document_def)
qed

text \<open>The keys of a shared catalogue are the same, in the same order, in both languages.\<close>

lemma catalogue_parity:
  "map fst zh_common = map fst en_common" "map fst zh_menu = map fst en_menu"
  "map fst zh_dicts = map fst en_dicts"
  by (simp_all add: zh_common_def en_common_def zh_menu_def en_menu_def zh_dicts_def en_dicts_def)

lemma base_resources_dom:
  "l \<in> set SUPPORTED_LANGS \<Longrightarrow> dom (base_resources l) =
     set (map fst zh_common) \<union> set (map fst zh_menu) \<union> set (map fst zh_dicts)"
  using catalogue_parity [THEN arg_cong [of _ _ set]]
  by (auto simp: base_resources_def SUPPORTED_LANGS_def dom_map_of_conv_image_fst lang_zh_def lang_en_def)

lemma add_module_keeps: "base l k \<noteq> None \<Longrightarrow> add_module m base l k \<noteq> None"
  by (auto simp: add_module_def map_add_def split: option.splits)

lemma buildResources_keeps: "base_resources l k \<noteq> None \<Longrightarrow> buildResources ms l k \<noteq> None"
proof -
  have "base l k \<noteq> None \<Longrightarrow> fold add_module ms base l k \<noteq> None" for base
    by (induction ms arbitrary: base) (use add_module_keeps in auto)
  then show "base_resources l k \<noteq> None \<Longrightarrow> ?thesis" by (simp add: buildResources_def)
qed

text \<open>The keys the dictionaries, the menu and the breadcrumb look up.\<close>

definition dictionaries :: "(string \<times> DictMeta list) list" where
  "dictionaries =
     [(''protocol'', PROTOCOL_META), (''keywordCategory'', KEYWORD_CATEGORY_META),
      (''matchMode'', MATCH_MODE_META), (''action'', ACTION_META), (''quotaType'', QUOTA_TYPE_META),
      (''period'', PERIOD_META), (''overAction'', OVER_ACTION_META), (''callStatus'', CALL_STATUS_META),
      (''logLevel'', LOG_LEVEL_META), (''violationStrategy'', VIOLATION_STRATEGY_META),
      (''alertChannel'', ALERT_CHANNEL_META), (''backoff'', BACKOFF_META),
      (''piiCategory'', PII_CATEGORY_META), (''opAction'', OP_ACTION_META), (''opModule'', OP_MODULE_META)]"

definition dict_keys :: "jsstring list" where
  "dict_keys = concat (map (\<lambda>(ns, metas). map (\<lambda>m. dict_key ns (fst m)) metas) dictionaries)"

fun menu_labels :: "MenuItem \<Rightarrow> jsstring list" where
  "menu_labels (MI_leaf k l) = [l]"
| "menu_labels (MI_group k l cs) = l # map snd cs"

definition shell_keys :: "jsstring list" where
  "shell_keys = js ''menu.brand'' # js ''menu.home'' # js ''menu.mfaRestricted'' # js ''menu.logout''
     # js ''menu.account'' # concat (map menu_labels MENU) @ map snd PAGE_NAME_KEYS"

lemma shell_keys_in_menu: "set shell_keys \<subseteq> set (map fst zh_menu)"
  by (simp add: shell_keys_def MENU_def PAGE_NAME_KEYS_def zh_menu_def)

lemma dict_keys_eq: "dict_keys = map fst zh_dicts"
  by (simp add: dict_keys_def dictionaries_def dict_defs zh_dicts_def flip: js_append)

text \<open>In both languages, whatever page catalogues are merged in, every label of a dictionary,
  of the menu and of the breadcrumb has a text, and the catalogue of the dictionaries holds the
  keys of their values and no other.\<close>

theorem shell_labels_resolve:
  assumes "l \<in> set SUPPORTED_LANGS" "k \<in> set dict_keys \<union> set shell_keys"
  shows "buildResources modules l k \<noteq> None \<and> set dict_keys = set (map fst zh_dicts)
    \<and> set dict_keys = set (map fst en_dicts)"
proof -
  have "k \<in> dom (base_resources l)"
    using assms(2) shell_keys_in_menu base_resources_dom [OF assms(1)] by (auto simp: dict_keys_eq)
  then have "buildResources modules l k \<noteq> None"
    by (intro buildResources_keeps) blast
  then show ?thesis by (simp add: dict_keys_eq catalogue_parity)
qed

lemma shell_labels_resolve_witness:
  "buildResources [(js ''./locales/en-US/pages/login.ts'', [(js ''login.title'', js ''Sign in'')])]
     lang_en (js ''pageName.models'') \<noteq> None"
  by (rule conjunct1 [OF shell_labels_resolve])
    (simp_all add: SUPPORTED_LANGS_def shell_keys_def PAGE_NAME_KEYS_def)

end
