(* ===== verification/ShellFrames.thy ===== *)
theory ShellFrames
  imports Frame AccountSecurity HelpPages I18n
begin

text \<open>
  What surrounds the pages and the pages without a list: the layout (frontend/src/layouts/MainLayout.tsx),
  the login page, the change of password, the account page, the help page, the page of an unknown
  path, and the language switch, as they are rendered.
\<close>

section \<open>The language switch\<close>

text \<open>The label shown, the languages offered with their labels, and the language marked as selected.\<close>

record Language_menu =
  lg_label :: jsstring
  lg_items :: "(jsstring \<times> jsstring) list"
  lg_selected :: "jsstring list"

definition lang_label :: "jsstring \<Rightarrow> jsstring" where
  "lang_label l = or_else (map_of LANG_LABELS l) []"

definition LanguageSwitch :: "I18nState \<Rightarrow> Language_menu" where
  "LanguageSwitch s =
     \<lparr>lg_label = lang_label (current_lang s), lg_items = map (\<lambda>l. (l, lang_label l)) SUPPORTED_LANGS,
      lg_selected = [current_lang s]\<rparr>"

text \<open>\<open>antdLocale\<close>: the components of the library speak English only when the console does.\<close>

datatype antd_locale = AL_enUS | AL_zhCN

definition antdLocale :: "I18nState \<Rightarrow> antd_locale" where
  "antdLocale s = (if il_language s = lang_en then AL_enUS else AL_zhCN)"

section \<open>The layout\<close>

text \<open>An entry of the user's menu: a link, a line, or an action by its key.\<close>

datatype user_item = UI_link jsstring jsstring jsstring | UI_divider | UI_action jsstring jsstring

definition userMenuItems :: "Ui \<Rightarrow> user_item list" where
  "userMenuItems u =
     [UI_link (js ''account'') (tr u ''menu.account'') account_security_path, UI_divider,
      UI_action (js ''logout'') (tr u ''menu.logout'')]"

definition user_menu_click :: "jsstring \<Rightarrow> 'a outcome \<Rightarrow> World \<Rightarrow> World" where
  "user_menu_click key out w = (if key = js ''logout'' then handleLogout out w else w)"

text \<open>The side shows a note to a session restricted to binding MFA, to the others the menu.\<close>

datatype sider = Sider_note jsstring
  | Sider_menu "(jsstring \<times> jsstring \<times> (jsstring \<times> jsstring) list) list" "jsstring list" "jsstring list"

fun menu_entry :: "Ui \<Rightarrow> MenuItem \<Rightarrow> jsstring \<times> jsstring \<times> (jsstring \<times> jsstring) list" where
  "menu_entry u (MI_leaf k l) = (k, ui_t u l [], [])"
| "menu_entry u (MI_group k l cs) = (k, ui_t u l [], map (\<lambda>(k', l'). (k', ui_t u l' [])) cs)"

definition side :: "Ui \<Rightarrow> AuthState \<Rightarrow> jsstring \<Rightarrow> jsstring list \<Rightarrow> sider" where
  "side u s path openKeys =
     (if as_scope s = scope_mfa then Sider_note (tr u ''menu.mfaRestricted'')
      else Sider_menu (map (menu_entry u) MENU) [path] openKeys)"

text \<open>The user opens and closes groups; a change of the path opens the group of the new one.\<close>

definition onOpenChange :: "jsstring list \<Rightarrow> jsstring list \<Rightarrow> jsstring list" where
  "onOpenChange keys prev = keys"

text \<open>What the layout shows around a page; while the code of the page is loading it has no content.\<close>

record Shell =
  sl_brand :: "jsstring \<times> jsstring"
  sl_language :: Language_menu
  sl_username :: jsstring
  sl_user_menu :: "user_item list"
  sl_side :: sider
  sl_crumbs :: "crumb list"
  sl_content :: "node option"

definition MainLayout :: "Ui \<Rightarrow> I18nState \<Rightarrow> AuthState \<Rightarrow> jsstring \<Rightarrow> jsstring list \<Rightarrow> node option \<Rightarrow> Shell" where
  "MainLayout u i s path openKeys content =
     \<lparr>sl_brand = (tr u ''menu.brand'', home_path), sl_language = LanguageSwitch i,
      sl_username = header_username s, sl_user_menu = userMenuItems u, sl_side = side u s path openKeys,
      sl_crumbs = breadcrumbItems (ui_t u) path, sl_content = content\<rparr>"

section \<open>Login\<close>

record LoginFormValues =
  lf_username :: "jsstring option"
  lf_password :: "jsstring option"

record MfaFormValues =
  mf_code :: "jsstring option"

definition login_items :: "Ui \<Rightarrow> LoginFormValues form_item list" where
  "login_items u =
     [item ''username'' (tr u ''login.username'') In_text
        [rule (\<lambda>v. filled (lf_username v)) (tr u ''login.usernameRequired'')],
      item ''password'' (tr u ''login.password'') In_password
        [rule (\<lambda>v. filled (lf_password v)) (tr u ''login.passwordRequired'')]]"

definition mfa_items :: "Ui \<Rightarrow> bool \<Rightarrow> MfaFormValues form_item list" where
  "mfa_items u useRecovery =
     [item ''code'' (tr u (if useRecovery then ''login.recoveryCodeLabel'' else ''login.mfaCodeLabel'')) In_text
        [rule (\<lambda>v. filled (mf_code v))
           (tr u (if useRecovery then ''login.recoveryCodeRequired'' else ''login.mfaCodeRequired''))]]"

text \<open>The input accepts so many characters at most.\<close>

definition mfa_maxLength :: "bool \<Rightarrow> nat" where
  "mfa_maxLength useRecovery = (if useRecovery then 32 else 6)"

definition credentials_node :: "Ui \<Rightarrow> LoginState \<Rightarrow> node list" where
  "credentials_node u s =
     [form_node (login_items u)
        [(''username'', [tr u ''login.username'']), (''password'', [tr u ''login.password''])] [],
      Press (tr u ''login.submit'') (ln_submitting s)]"

definition mfa_node :: "Ui \<Rightarrow> LoginState \<Rightarrow> node list" where
  "mfa_node u s =
     [Notice ''info'' (tr u ''login.mfaBannerTitle'') (tr u ''login.mfaBannerDesc''),
      form_node (mfa_items u (ln_useRecovery s))
        [(''code'', [tr u (if ln_useRecovery s then ''login.recoveryCodePlaceholder'' else ''login.mfaCodePlaceholder'')])] [],
      Check (tr u ''login.useRecovery'') False (ln_useRecovery s),
      Press (tr u ''login.verifyAndLogin'') (ln_submitting s),
      Press (tr u ''login.backToPrevStep'') False]"

definition login_page :: "Ui \<Rightarrow> LoginState \<Rightarrow> node" where
  "login_page u s =
     Card []
       ([Words (tr u ''login.title''), Words (tr u ''login.subtitle''),
         Steps [tr u ''login.stepCredentials'', tr u ''login.stepMfa''] (ln_step s)]
        @ (if ln_step s = 0 then credentials_node u s else mfa_node u s))"

section \<open>Change of password\<close>

text \<open>Length rules do not apply to an empty text; \<open>chars\<close> counts as the library does.\<close>

record PasswordFormValues =
  pwf_old_password :: "jsstring option"
  pwf_new_password :: "jsstring option"
  pwf_confirm :: "jsstring option"

definition changePwd_items :: "Ui \<Rightarrow> (jsstring \<Rightarrow> nat) \<Rightarrow> PasswordFormValues form_item list" where
  "changePwd_items u chars =
     [item ''old_password'' (tr u ''login.oldPassword'') In_password
        [rule (\<lambda>v. filled (pwf_old_password v)) (tr u ''login.oldPasswordRequired'')],
      item ''new_password'' (tr u ''login.newPassword'') In_password
        [rule (\<lambda>v. filled (pwf_new_password v)) (tr u ''login.newPasswordRequired''),
         rule (\<lambda>v. filled (pwf_new_password v) \<longrightarrow>
                   10 \<le> chars (the (pwf_new_password v)) \<and> chars (the (pwf_new_password v)) \<le> 72)
              (tr u ''login.newPasswordLen'')],
      item ''confirm_password'' (tr u ''login.confirmPassword'') In_password
        [rule (\<lambda>v. filled (pwf_confirm v)) (tr u ''login.confirmPasswordRequired'')]]"

definition change_password_page :: "Ui \<Rightarrow> (jsstring \<Rightarrow> nat) \<Rightarrow> bool \<Rightarrow> node" where
  "change_password_page u chars submitting =
     Card []
       [Words (tr u ''login.changePasswordTitle''),
        Notice ''warning'' (tr u ''login.changePasswordHint'') (tr u ''login.changePasswordDesc''),
        form_node (changePwd_items u chars) [(''new_password'', [tr u ''login.pwdPolicy''])] [],
        Press (tr u ''login.changePasswordSubmit'') submitting]"

section \<open>The account\<close>

definition account_pwd_items :: "Ui \<Rightarrow> (jsstring \<Rightarrow> nat) \<Rightarrow> PasswordFormValues form_item list" where
  "account_pwd_items u chars =
     [item ''old_password'' (tr u ''acctSec.oldPwd'') In_password
        [rule (\<lambda>v. filled (pwf_old_password v)) (tr u ''acctSec.oldPwdReq'')],
      item ''new_password'' (tr u ''acctSec.newPwd'') In_password
        [rule (\<lambda>v. filled (pwf_new_password v)) (tr u ''acctSec.newPwdReq''),
         rule (\<lambda>v. filled (pwf_new_password v) \<longrightarrow> 10 \<le> chars (the (pwf_new_password v))) (tr u ''acctSec.newPwdMin'')],
      item ''confirm'' (tr u ''acctSec.confirmPwd'') In_password
        [rule (\<lambda>v. filled (pwf_confirm v)) (tr u ''acctSec.confirmReq''),
         rule (\<lambda>v. filled (pwf_confirm v) \<longrightarrow> pwf_new_password v = pwf_confirm v) (tr u ''acctSec.pwdMismatch'')]]"

definition account_pwd_card :: "Ui \<Rightarrow> (jsstring \<Rightarrow> nat) \<Rightarrow> bool \<Rightarrow> node" where
  "account_pwd_card u chars pending =
     Card (tr u ''acctSec.pwdCard'')
       [form_node (account_pwd_items u chars)
          [(''old_password'', [tr u ''acctSec.oldPwd'']),
           (''new_password'', [tr u ''acctSec.pwdPolicy'', tr u ''acctSec.newPwdPh'']),
           (''confirm'', [tr u ''acctSec.confirmPh''])] [],
        Press (tr u ''acctSec.changePwd'') pending]"

definition account_facts :: "Ui \<Rightarrow> MeResponse option \<Rightarrow> AccountState \<Rightarrow> node" where
  "account_facts u me a =
     Pairs
       [(tr u ''acctSec.account'', Txt (case me of Some m \<Rightarrow> user_username m | None \<Rightarrow> js ''-'')),
        (tr u ''acctSec.boundAt'', Txt (show_time u (case ac_status a of Some s \<Rightarrow> mst_bound_at s | None \<Rightarrow> None))),
        (tr u ''acctSec.codesLeft'',
         Txt (tr_with u ''acctSec.codesLeftUnit''
           [(''n'', case Option.bind (ac_status a) mst_recovery_codes_left of
                      Some n \<Rightarrow> int_to_string n | None \<Rightarrow> js ''-'')]))]"

definition start_node :: "Ui \<Rightarrow> AccountState \<Rightarrow> node list" where
  "start_node u a =
     [Notice ''info'' (tr u ''acctSec.bindHint'') [], Press (tr u ''acctSec.startBind'') (ac_setupPending a)]"

definition scan_node :: "Ui \<Rightarrow> MfaSetupResult \<Rightarrow> AccountState \<Rightarrow> node list" where
  "scan_node u su a =
     [Steps [tr u ''acctSec.stepScan'', tr u ''acctSec.stepVerify'', tr u ''acctSec.stepSave''] 0,
      Words (tr u ''acctSec.qrAlt''), Shown (Cod (js ''data:image/png;base64,'' @ ms_qr_png_base64 su)),
      Words (tr u ''acctSec.scanHint''), Shown (Cod (ms_secret su)),
      Entry (tr u ''acctSec.codePh'') (ac_code a),
      Press (tr u ''acctSec.verifyBind'') (ac_enablePending a \<or> length (ac_code a) \<noteq> 6)]"

definition codes_node :: "Ui \<Rightarrow> jsstring list \<Rightarrow> node list" where
  "codes_node u codes =
     [Notice ''success'' (tr u ''acctSec.boundOk'') [],
      Notice ''error'' (tr u ''acctSec.recoveryWarnTitle'') (tr u ''acctSec.recoveryWarnDesc''),
      Card [] (map (\<lambda>c. Shown (Cod c)) codes),
      Press (tr u ''acctSec.copyAll'') False,
      Ask (tr u ''acctSec.done'') (tr u ''acctSec.doneConfirmTitle'') (tr u ''acctSec.doneConfirmDesc'') False]"

definition active_node :: "Ui \<Rightarrow> node list" where
  "active_node u = [Notice ''success'' (tr u ''acctSec.active'') [], Press (tr u ''acctSec.unbind'') False]"

definition panel_node :: "Ui \<Rightarrow> AccountState \<Rightarrow> node list" where
  "panel_node u a =
     (case panel a of
        MP_start \<Rightarrow> start_node u a
      | MP_scan su \<Rightarrow> scan_node u su a
      | MP_codes codes \<Rightarrow> codes_node u codes
      | MP_active \<Rightarrow> active_node u
      | MP_blank \<Rightarrow> [])"

definition mfa_state_card :: "Ui \<Rightarrow> MeResponse option \<Rightarrow> AccountState \<Rightarrow> node" where
  "mfa_state_card u me a =
     Card (tr u ''acctSec.mfaCard'')
       (Words (tr u (if bound a then ''acctSec.bound'' else ''acctSec.unbound''))
        # account_facts u me a # panel_node u a)"

definition unbind_dialog :: "Ui \<Rightarrow> AccountState \<Rightarrow> bool \<Rightarrow> node" where
  "unbind_dialog u a disabling =
     Dialog [Words (tr u ''acctSec.unbindModal'')] (ac_disableOpen a) (Some (tr u ''acctSec.unbindOkText'', disabling))
       [Notice ''warning'' (tr u ''acctSec.unbindWarn'') [], Entry (tr u ''acctSec.unbindPh'') (ac_disableCode a)]"

definition account_page ::
  "Ui \<Rightarrow> (jsstring \<Rightarrow> nat) \<Rightarrow> AuthState \<Rightarrow> MeResponse option \<Rightarrow> AccountState \<Rightarrow> bool \<Rightarrow> bool \<Rightarrow> node" where
  "account_page u chars s me a changing disabling =
     PageContainer (tr u ''acctSec.title'') (tr u ''acctSec.desc'') []
       ((if as_scope s = scope_mfa
         then [Notice ''warning'' (tr u ''acctSec.forcedTitle'') (tr u ''acctSec.forcedDesc'')] else [])
        @ [mfa_state_card u me a, account_pwd_card u chars changing, unbind_dialog u a disabling]
        @ (if forced_tip me a then [Words (tr u ''acctSec.forcedTip'')] else []))"

section \<open>Help, unknown paths\<close>

text \<open>A block of code can be copied; a text with markup shows its codes in their places.\<close>

definition CodeBlock :: "Ui \<Rightarrow> jsstring \<Rightarrow> node" where
  "CodeBlock u txt = Card [] [Words txt, Press (tr u ''common.copy'') False, Words (tr u ''common.copied'')]"

definition trans_node :: "Ui \<Rightarrow> string \<Rightarrow> (string \<times> jsstring) list \<Rightarrow> node" where
  "trans_node u key codes = Card [] (Words (tr u key) # map (\<lambda>(n, c). Shown (Cod c)) codes)"

definition star_card :: "Ui \<Rightarrow> node" where
  "star_card u =
     Card []
       [Words (tr u ''help.starTitle''), Words (tr u ''help.starBody''),
        Hyperlink (tr u ''help.starBtn'') (js ''https://github.com/limithit/llm_router_guard''),
        Hyperlink (tr u ''help.starIssue'') (js ''https://github.com/limithit/llm_router_guard/issues'')]"

definition addr_card :: "Ui \<Rightarrow> node" where
  "addr_card u =
     Card (tr u ''help.addrTitle'')
       [trans_node u ''help.addrBody'' (addr_codes (ui_t u)),
        plain_grid (help_columns u) (help_endpoints (ui_t u))]"

definition auth_card :: "Ui \<Rightarrow> node" where
  "auth_card u =
     Card (tr u ''help.authTitle'')
       [Words (tr u ''help.authBody1''), Words (tr u ''help.authKey''), Words (tr u ''help.authBody2''),
        CodeBlock u (tr u ''help.authCode''),
        Card (tr u ''help.gatewayKeyTitle'') [Words (tr u ''help.gatewayKeyBody'')],
        Card (tr u ''help.vendorKeyTitle'')
          [Words (tr u ''help.vendorKeyBody1''), Words (tr u ''help.vendorKeyStrong''), Words (tr u ''help.vendorKeyBody2'')]]"

definition alias_card :: "Ui \<Rightarrow> node" where
  "alias_card u =
     Card (tr u ''help.aliasTitle'')
       [trans_node u ''help.aliasBody'' (fst alias_codes), Words (tr u ''help.aliasStrong''),
        trans_node u ''help.aliasBody2'' (snd alias_codes)]"

definition example_card :: "Ui \<Rightarrow> node" where
  "example_card u =
     Card (tr u ''help.exampleTitle'')
       [Words (tr u ''help.exampleOpenai''), CodeBlock u (example_openai (ui_t u)),
        Words (tr u ''help.exampleAnthropic''), CodeBlock u (example_anthropic (ui_t u))]"

definition deploy_card :: "Ui \<Rightarrow> node" where
  "deploy_card u = Card (tr u ''help.deployTitle'') [trans_node u ''help.deployBody'' (deploy_codes (ui_t u))]"

text \<open>A label of the list is followed by a full-width colon.\<close>

definition security_card :: "Ui \<Rightarrow> node" where
  "security_card u =
     Card (tr u ''help.securityTitle'')
       (Words (tr u ''help.securityIntro'')
        # map (\<lambda>(l, b). Card [] [Words l, Shown (Txt [0xFF1A]), Words b]) (help_security (ui_t u)))"

definition help_page :: "Ui \<Rightarrow> node" where
  "help_page u =
     PageContainer (tr u ''help.title'') (tr u ''help.desc'') []
       [star_card u,
        Card (tr u ''help.deploymentTitle'') [trans_node u ''help.deploymentBody'' deployment_codes],
        addr_card u, auth_card u, alias_card u, example_card u, deploy_card u, security_card u,
        Card [] [Words (tr u ''help.tip'')]]"

definition NotFound :: "Ui \<Rightarrow> node" where
  "NotFound u =
     (let (title, sub, (back, path)) = not_found (ui_t u) in Card title [Words sub, Hyperlink back path])"

lemmas shell_frame_defs [js_eval] = lang_label_def LanguageSwitch_def antdLocale_def userMenuItems_def
  user_menu_click_def side_def onOpenChange_def MainLayout_def login_items_def mfa_items_def
  mfa_maxLength_def credentials_node_def mfa_node_def login_page_def changePwd_items_def
  change_password_page_def account_pwd_items_def account_pwd_card_def account_facts_def start_node_def
  scan_node_def codes_node_def active_node_def panel_node_def mfa_state_card_def unbind_dialog_def
  account_page_def CodeBlock_def trans_node_def star_card_def addr_card_def auth_card_def alias_card_def
  example_card_def deploy_card_def security_card_def help_page_def NotFound_def

end
