(* ===== verification/PageCatalogs.thy ===== *)
theory PageCatalogs
  imports HttpClient
begin

text \<open>
  The message catalogues of the pages, frontend/src/i18n/locales/zh-CN/pages and en-US/pages, from
  accountSecurity.ts to keywords.ts: a list of key and text in the order of the file. A text outside ASCII
  is written as its UTF-16 code units.
\<close>

definition zh_accountSecurity :: "(jsstring \<times> jsstring) list" where
  "zh_accountSecurity =
     [(js ''acctSec.title'', [20010, 20154, 36134, 25143] @ js '' '' @ [8212] @ js '' '' @ [23433, 20840, 35774, 32622]),
      (js ''acctSec.desc'', js ''MFA'' @ [65288] @ js ''TOTP'' @ [65289, 32465, 23450] @ js ''/'' @ [35299, 32465, 12289, 24674, 22797, 30721, 31649, 29702, 19982, 23494, 30721, 20462, 25913, 65288] @ js ''REQ-021'' @ [65289, 12290]),
      (js ''acctSec.mfaCard'', [22810, 22240, 32032, 35748, 35777, 65288] @ js ''MFA'' @ [65289]),
      (js ''acctSec.bound'', [24050, 32465, 23450]),
      (js ''acctSec.unbound'', [26410, 32465, 23450]),
      (js ''acctSec.account'', [36134, 25143]),
      (js ''acctSec.boundAt'', [32465, 23450, 26102, 38388]),
      (js ''acctSec.codesLeft'', [21097, 20313, 24674, 22797, 30721]),
      (js ''acctSec.codesLeftUnit'', js ''{{n}} '' @ [20010]),
      (js ''acctSec.bindHint'', [32465, 23450, 21518, 30331, 24405, 38656, 39069, 22806, 36755, 20837, 21160, 24577, 39564, 35777, 30721, 65292, 21487, 26174, 33879, 25552, 21319, 31649, 29702, 21518, 21488, 23433, 20840, 24615, 12290]),
      (js ''acctSec.startBind'', [24320, 22987, 32465, 23450] @ js '' MFA''),
      (js ''acctSec.stepScan'', [25195, 25551, 20108, 32500, 30721]),
      (js ''acctSec.stepVerify'', [39564, 35777, 21160, 24577, 30721]),
      (js ''acctSec.stepSave'', [20445, 23384, 24674, 22797, 30721]),
      (js ''acctSec.qrAlt'', js ''TOTP '' @ [32465, 23450, 20108, 32500, 30721]),
      (js ''acctSec.scanHint'', [20351, 29992] @ js '' Google Authenticator / Microsoft Authenticator '' @ [31561, 24212, 29992, 25195, 25551, 20108, 32500, 30721, 65292, 25110, 25163, 21160, 36755, 20837, 23494, 38053, 65306]),
      (js ''acctSec.codePh'', [36755, 20837] @ js '' 6 '' @ [20301, 21160, 24577, 39564, 35777, 30721, 23436, 25104, 32465, 23450]),
      (js ''acctSec.verifyBind'', [39564, 35777, 24182, 32465, 23450]),
      (js ''acctSec.boundOk'', js ''MFA '' @ [32465, 23450, 25104, 21151, 65281, 35831, 31435, 21363, 20445, 23384, 20197, 19979, 22791, 29992, 24674, 22797, 30721, 65288, 20165, 23637, 31034, 36825, 19968, 27425, 65289, 12290]),
      (js ''acctSec.codesCopied'', [24674, 22797, 30721, 24050, 22797, 21046]),
      (js ''acctSec.copyAll'', [22797, 21046, 20840, 37096, 24674, 22797, 30721]),
      (js ''acctSec.done'', [23436, 25104]),
      (js ''acctSec.active'', js ''MFA '' @ [24050, 21551, 29992, 65292, 30331, 24405, 26102, 23558, 35201, 27714, 36755, 20837, 21160, 24577, 39564, 35777, 30721, 12290]),
      (js ''acctSec.unbind'', [35299, 32465] @ js '' MFA''),
      (js ''acctSec.unbindOk'', js ''MFA '' @ [24050, 35299, 32465]),
      (js ''acctSec.pwdCard'', [20462, 25913, 23494, 30721]),
      (js ''acctSec.oldPwd'', [24403, 21069, 23494, 30721]),
      (js ''acctSec.oldPwdReq'', [35831, 36755, 20837, 24403, 21069, 23494, 30721]),
      (js ''acctSec.newPwd'', [26032, 23494, 30721]),
      (js ''acctSec.newPwdReq'', [35831, 36755, 20837, 26032, 23494, 30721]),
      (js ''acctSec.newPwdMin'', [23494, 30721, 33267, 23569] @ js '' 10 '' @ [20010, 23383, 31526]),
      (js ''acctSec.newPwdPh'', [33267, 23569] @ js '' 10 '' @ [20010, 23383, 31526]),
      (js ''acctSec.pwdPolicy'', [33267, 23569] @ js '' 10 '' @ [20010, 23383, 31526, 65292, 19988, 21253, 21547, 22823, 20889, 23383, 27597, 12289, 23567, 20889, 23383, 27597, 12289, 25968, 23383, 12289, 31526, 21495, 20013, 30340, 33267, 23569] @ js '' 3 '' @ [31867, 65307, 19981, 24471, 20351, 29992, 24120, 35265, 24369, 21475, 20196, 65292, 20063, 19981, 24471, 21253, 21547, 29992, 25143, 21517, 12290]),
      (js ''acctSec.confirmPwd'', [30830, 35748, 26032, 23494, 30721]),
      (js ''acctSec.confirmReq'', [35831, 20877, 27425, 36755, 20837, 26032, 23494, 30721]),
      (js ''acctSec.pwdMismatch'', [20004, 27425, 36755, 20837, 30340, 23494, 30721, 19981, 19968, 33268]),
      (js ''acctSec.confirmPh'', [20877, 27425, 36755, 20837, 26032, 23494, 30721]),
      (js ''acctSec.changePwd'', [20462, 25913, 23494, 30721]),
      (js ''acctSec.pwdChanged'', [23494, 30721, 24050, 20462, 25913]),
      (js ''acctSec.unbindModal'', [35299, 32465] @ js '' MFA''),
      (js ''acctSec.unbindOkText'', [30830, 35748, 35299, 32465]),
      (js ''acctSec.unbindWarn'', [35299, 32465, 21518, 30331, 24405, 23558, 19981, 20877, 35201, 27714, 21160, 24577, 39564, 35777, 30721, 65288, 35813, 25805, 20316, 20250, 35760, 24405, 23457, 35745, 65289, 12290]),
      (js ''acctSec.unbindPh'', [36755, 20837, 24403, 21069] @ js '' 6 '' @ [20301, 21160, 24577, 39564, 35777, 30721, 25110, 20219, 19968, 24674, 22797, 30721]),
      (js ''acctSec.forcedTip'', [25552, 31034, 65306, 33509, 31649, 29702, 21592, 24320, 21551, 20102, 12300, 24378, 21046, 25152, 26377, 29992, 25143, 21551, 29992] @ js '' MFA'' @ [12301, 65292, 25110, 21333, 29420, 35201, 27714, 26412, 36134, 25143, 32465, 23450] @ js '' MFA'' @ [65292, 26410, 32465, 23450, 29992, 25143, 30331, 24405, 21518, 20250, 34987, 24341, 23548, 33267, 26412, 39029, 12290]),
      (js ''acctSec.forcedTitle'', [38656, 35201, 20808, 23436, 25104] @ js '' MFA '' @ [32465, 23450]),
      (js ''acctSec.forcedDesc'', [31649, 29702, 21592, 35201, 27714, 26412, 36134, 25143, 21551, 29992, 21160, 24577, 39564, 35777, 30721, 65288] @ js ''MFA'' @ [65289, 12290, 24403, 21069, 20250, 35805, 20165, 21487, 35775, 38382, 26412, 39029, 65292, 23436, 25104, 32465, 23450, 21518, 35831, 37325, 26032, 30331, 24405, 12290]),
      (js ''acctSec.recoveryWarnTitle'', [35831, 31435, 21363, 20445, 23384, 20197, 19979, 24674, 22797, 30721]),
      (js ''acctSec.recoveryWarnDesc'', [36825, 20123, 24674, 22797, 30721, 20165, 22312, 27492, 27425, 32465, 23450] @ js '' MFA '' @ [26102, 26174, 31034, 19968, 27425, 12290, 33509, 20002, 22833] @ js '' TOTP '' @ [35774, 22791, 65288, 25163, 26426, 20002, 22833] @ js ''/'' @ [25442, 26426, 65289, 65292, 24674, 22797, 30721, 26159, 20320, 21807, 19968, 30340, 21518, 36335, 8212, 8212, 27599, 26465, 29992, 19968, 27425, 21363, 22833, 25928, 12290, 35831, 22797, 21046, 20445, 23384, 21040, 23494, 30721, 31649, 29702, 22120, 25110, 20854, 20182, 23433, 20840, 20301, 32622, 12290, 20851, 38381, 27492, 39029, 38754, 21518, 23558, 26080, 27861, 20877, 27425, 26597, 30475, 12290]),
      (js ''acctSec.doneConfirmTitle'', [30830, 35748, 24050, 20445, 23384, 24674, 22797, 30721, 65311]),
      (js ''acctSec.doneConfirmDesc'', [24674, 22797, 30721, 20851, 38381, 21518, 23558, 26080, 27861, 20877, 27425, 26597, 30475, 12290, 22914, 26410, 20445, 23384, 65292, 35831, 20808, 28857, 12300, 22797, 21046, 20840, 37096, 12301, 12290])]"

definition en_accountSecurity :: "(jsstring \<times> jsstring) list" where
  "en_accountSecurity =
     [(js ''acctSec.title'', js ''My Account '' @ [8212] @ js '' Security''),
      (js ''acctSec.desc'', js ''MFA (TOTP) enrollment/unenrollment, recovery code management and password change (REQ-021).''),
      (js ''acctSec.mfaCard'', js ''Multi-Factor Authentication (MFA)''),
      (js ''acctSec.bound'', js ''Enrolled''),
      (js ''acctSec.unbound'', js ''Not enrolled''),
      (js ''acctSec.account'', js ''Account''),
      (js ''acctSec.boundAt'', js ''Enrolled At''),
      (js ''acctSec.codesLeft'', js ''Recovery Codes Left''),
      (js ''acctSec.codesLeftUnit'', js ''{{n}}''),
      (js ''acctSec.bindHint'', js ''After enrollment, login requires a one-time code '' @ [8212] @ js '' significantly improving admin console security.''),
      (js ''acctSec.startBind'', js ''Start MFA Enrollment''),
      (js ''acctSec.stepScan'', js ''Scan QR Code''),
      (js ''acctSec.stepVerify'', js ''Verify Code''),
      (js ''acctSec.stepSave'', js ''Save Recovery Codes''),
      (js ''acctSec.qrAlt'', js ''TOTP enrollment QR code''),
      (js ''acctSec.scanHint'', js ''Scan the QR code with Google Authenticator / Microsoft Authenticator, or enter the secret manually:''),
      (js ''acctSec.codePh'', js ''Enter the 6-digit code to finish enrollment''),
      (js ''acctSec.verifyBind'', js ''Verify & Enroll''),
      (js ''acctSec.boundOk'', js ''MFA enrolled! Save the recovery codes below now (shown only this once).''),
      (js ''acctSec.codesCopied'', js ''Recovery codes copied''),
      (js ''acctSec.copyAll'', js ''Copy All Recovery Codes''),
      (js ''acctSec.done'', js ''Done''),
      (js ''acctSec.active'', js ''MFA is enabled; a one-time code is required at login.''),
      (js ''acctSec.unbind'', js ''Unenroll MFA''),
      (js ''acctSec.unbindOk'', js ''MFA unenrolled''),
      (js ''acctSec.pwdCard'', js ''Change Password''),
      (js ''acctSec.oldPwd'', js ''Current Password''),
      (js ''acctSec.oldPwdReq'', js ''Please enter the current password''),
      (js ''acctSec.newPwd'', js ''New Password''),
      (js ''acctSec.newPwdReq'', js ''Please enter the new password''),
      (js ''acctSec.newPwdMin'', js ''Password must be at least 10 characters''),
      (js ''acctSec.newPwdPh'', js ''At least 10 characters''),
      (js ''acctSec.pwdPolicy'', js ''At least 10 characters, including at least 3 of: uppercase letters, lowercase letters, digits, symbols. Common weak passwords and anything containing the username are rejected.''),
      (js ''acctSec.confirmPwd'', js ''Confirm New Password''),
      (js ''acctSec.confirmReq'', js ''Please enter the new password again''),
      (js ''acctSec.pwdMismatch'', js ''The two passwords do not match''),
      (js ''acctSec.confirmPh'', js ''Enter the new password again''),
      (js ''acctSec.changePwd'', js ''Change Password''),
      (js ''acctSec.pwdChanged'', js ''Password changed''),
      (js ''acctSec.unbindModal'', js ''Unenroll MFA''),
      (js ''acctSec.unbindOkText'', js ''Confirm Unenroll''),
      (js ''acctSec.unbindWarn'', js ''After unenrollment, login no longer requires a one-time code (this action is audited).''),
      (js ''acctSec.unbindPh'', js ''Enter the current 6-digit code or any recovery code''),
      (js ''acctSec.forcedTip'', js ''Note: if the admin enabled '' @ [34] @ js ''Require MFA for All Users'' @ [34] @ js '', or required this account specifically, users without MFA are guided to this page after login.''),
      (js ''acctSec.forcedTitle'', js ''MFA enrollment required''),
      (js ''acctSec.forcedDesc'', js ''The administrator requires this account to enroll a one-time-code (MFA) device. This session can only access this page; please enroll, then log in again.''),
      (js ''acctSec.recoveryWarnTitle'', js ''Save these recovery codes now''),
      (js ''acctSec.recoveryWarnDesc'', js ''These recovery codes are shown only once, right now. If you ever lose your TOTP device (phone lost/replaced), a recovery code is your only fallback '' @ [8212] @ js '' each code works exactly once. Copy them into a password manager or another safe place. You will not be able to view them again after leaving this page.''),
      (js ''acctSec.doneConfirmTitle'', js ''Have you saved the recovery codes?''),
      (js ''acctSec.doneConfirmDesc'', js ''Recovery codes cannot be shown again after you close this. If you have not saved them, click '' @ [34] @ js ''Copy All'' @ [34] @ js '' first.'')]"

definition zh_apikeys :: "(jsstring \<times> jsstring) list" where
  "zh_apikeys =
     [(js ''apikeys.title'', js ''API Key '' @ [31649, 29702]),
      (js ''apikeys.desc'', [19994, 21153, 26041, 35843, 29992, 32593, 20851, 30340, 20973, 35777, 65288] @ js ''REQ-002'' @ [65289, 12290] @ js ''Key '' @ [20165, 21019, 24314, 26102, 23436, 25972, 23637, 31034, 19968, 27425, 65292, 35831, 22949, 21892, 20445, 23384, 12290]),
      (js ''apikeys.add'', [21019, 24314] @ js '' API Key''),
      (js ''apikeys.colName'', [21517, 31216]),
      (js ''apikeys.colKey'', js ''Key'' @ [65288, 33073, 25935, 65289]),
      (js ''apikeys.colLastUsed'', [26368, 21518, 20351, 29992]),
      (js ''apikeys.deleteTitle'', [21024, 38500] @ js '' API Key''),
      (js ''apikeys.deleteConfirm'', [30830, 35748, 21024, 38500, 12300] @ js ''{{name}}'' @ [12301, 65311, 35813] @ js '' Key '' @ [23558, 31435, 21363, 22833, 25928, 12290]),
      (js ''apikeys.updated'', js ''API Key '' @ [24050, 26356, 26032]),
      (js ''apikeys.editTitle'', [32534, 36753] @ js '' API Key'' @ [12300] @ js ''{{name}}'' @ [12301]),
      (js ''apikeys.createTitle'', [21019, 24314] @ js '' API Key''),
      (js ''apikeys.nameReq'', [35831, 36755, 20837] @ js '' Key '' @ [21517, 31216, 65288, 19994, 21153, 26041, 26631, 35782, 65289]),
      (js ''apikeys.namePh'', [22914] @ js '' team-a / '' @ [36130, 21153, 26426, 22120, 20154]),
      (js ''apikeys.remarkPh'', [29992, 36884, 35828, 26126]),
      (js ''apikeys.modelsLabel'', [38480, 23450, 27169, 22411]),
      (js ''apikeys.modelsTooltip'', [30041, 31354] @ js '' = '' @ [20801, 35768, 35843, 29992, 25152, 26377, 27169, 22411, 21035, 21517, 65307, 36873, 25321, 21518, 35813] @ js '' Key '' @ [21482, 33021, 35843, 29992, 25152, 36873, 21035, 21517, 12290]),
      (js ''apikeys.modelsPh'', [30041, 31354, 20801, 35768, 20840, 37096, 65307, 21487, 36873, 25110, 36755, 20837, 21035, 21517]),
      (js ''apikeys.ipEnabled'', [21551, 29992] @ js '' IP '' @ [30333, 21517, 21333]),
      (js ''apikeys.ipEnabledTooltip'', [40664, 35748, 19981, 21551, 29992, 65307, 21551, 29992, 21518, 20165, 21015, 20986, 30340] @ js '' IP/CIDR '' @ [21487, 29992, 27492] @ js '' Key '' @ [35843, 29992, 12290]),
      (js ''apikeys.ipLabel'', js ''IP '' @ [30333, 21517, 21333]),
      (js ''apikeys.ipTooltip'', [19968, 34892, 19968, 20010] @ js '' CIDR'' @ [65292, 22914] @ js '' 10.0.0.0/8'' @ [12289] @ js ''192.168.1.5'' @ [12290, 20165, 22312, 12300, 21551, 29992] @ js '' IP '' @ [30333, 21517, 21333, 12301, 24320, 21551, 26102, 29983, 25928, 12290]),
      (js ''apikeys.createdTitle'', js ''API Key '' @ [21019, 24314, 25104, 21151]),
      (js ''apikeys.saved'', [25105, 24050, 20445, 23384]),
      (js ''apikeys.createdWarn'', [23436, 25972] @ js '' Key '' @ [20165, 23637, 31034, 36825, 19968, 27425, 65292, 20851, 38381, 21518, 26080, 27861, 20877, 27425, 26597, 30475, 65292, 35831, 31435, 21363, 22797, 21046, 20445, 23384, 12290]),
      (js ''apikeys.copied'', [24050, 22797, 21046, 21040, 21098, 36148, 26495]),
      (js ''apikeys.copy'', [22797, 21046]),
      (js ''apikeys.meta'', [21517, 31216, 65306] @ js ''{{name}}'' @ [65288] @ js ''ID #{{id}}'' @ [65289])]"

definition en_apikeys :: "(jsstring \<times> jsstring) list" where
  "en_apikeys =
     [(js ''apikeys.title'', js ''API Keys''),
      (js ''apikeys.desc'', js ''Credentials for business callers (REQ-002). A key is shown in full only once at creation '' @ [8212] @ js '' store it safely.''),
      (js ''apikeys.add'', js ''Create API Key''),
      (js ''apikeys.colName'', js ''Name''),
      (js ''apikeys.colKey'', js ''Key (masked)''),
      (js ''apikeys.colLastUsed'', js ''Last Used''),
      (js ''apikeys.deleteTitle'', js ''Delete API Key''),
      (js ''apikeys.deleteConfirm'', js ''Delete '' @ [34] @ js ''{{name}}'' @ [34] @ js ''? The key will stop working immediately.''),
      (js ''apikeys.updated'', js ''API key updated''),
      (js ''apikeys.editTitle'', js ''Edit API Key '' @ [34] @ js ''{{name}}'' @ [34]),
      (js ''apikeys.createTitle'', js ''Create API Key''),
      (js ''apikeys.nameReq'', js ''Please enter a key name (caller identifier)''),
      (js ''apikeys.namePh'', js ''e.g. team-a / finance-bot''),
      (js ''apikeys.remarkPh'', js ''Purpose''),
      (js ''apikeys.modelsLabel'', js ''Allowed Models''),
      (js ''apikeys.modelsTooltip'', js ''Empty = all model aliases allowed; when selected, this key can only call the chosen aliases.''),
      (js ''apikeys.modelsPh'', js ''Empty for all; select or type aliases''),
      (js ''apikeys.ipEnabled'', js ''Enable IP Allowlist''),
      (js ''apikeys.ipEnabledTooltip'', js ''Off by default; when on, only listed IPs/CIDRs may use this key.''),
      (js ''apikeys.ipLabel'', js ''IP Allowlist''),
      (js ''apikeys.ipTooltip'', js ''One CIDR per line, e.g. 10.0.0.0/8, 192.168.1.5. Only effective when the IP allowlist is enabled.''),
      (js ''apikeys.createdTitle'', js ''API Key Created''),
      (js ''apikeys.saved'', js ''Saved''),
      (js ''apikeys.createdWarn'', js ''The full key is shown only this once. It cannot be viewed again after closing '' @ [8212] @ js '' copy and store it now.''),
      (js ''apikeys.copied'', js ''Copied to clipboard''),
      (js ''apikeys.copy'', js ''Copy''),
      (js ''apikeys.meta'', js ''Name: {{name}} (ID #{{id}})'')]"

definition zh_backup :: "(jsstring \<times> jsstring) list" where
  "zh_backup =
     [(js ''backup.title'', [25968, 25454, 22791, 20221]),
      (js ''backup.desc'', [22791, 20221, 24182, 24674, 22797, 20840, 37096, 37197, 32622, 25968, 25454, 65288] @ js ''REQ-019'' @ [65289, 12290, 22791, 20221, 20026] @ js '' JSON '' @ [25991, 20214, 65292, 21253, 21547, 25152, 26377, 37197, 32622, 34920, 12290]),
      (js ''backup.restoreJson'', [20174] @ js '' JSON '' @ [24674, 22797]),
      (js ''backup.create'', [31435, 21363, 22791, 20221]),
      (js ''backup.created'', [22791, 20221, 23436, 25104]),
      (js ''backup.restoreOk'', [24674, 22797, 23436, 25104]),
      (js ''backup.restoreOkContent'', [37197, 32622, 24050, 20174, 22791, 20221, 24674, 22797, 24182, 35302, 21457, 28909, 21152, 36733, 65292, 8804] @ js ''3 '' @ [31186, 20869, 29983, 25928, 12290]),
      (js ''backup.confirmTitle'', [30830, 35748, 24674, 22797, 37197, 32622, 65311]),
      (js ''backup.confirmContent'', [24674, 22797, 23558, 35206, 30422, 24403, 21069, 20840, 37096, 37197, 32622, 65288, 20379, 24212, 21830] @ js ''/'' @ [27169, 22411, 21035, 21517] @ js ''/'' @ [25252, 26639] @ js ''/'' @ [37197, 39069] @ js ''/'' @ [38480, 27969] @ js ''/API Key/'' @ [31995, 32479, 35774, 32622, 65289, 65292, 19988, 31435, 21363, 29983, 25928, 12290]),
      (js ''backup.confirmOk'', [30830, 35748, 24674, 22797]),
      (js ''backup.colFilename'', [25991, 20214, 21517]),
      (js ''backup.colSize'', [22823, 23567]),
      (js ''backup.download'', [19979, 36733]),
      (js ''backup.restore'', [24674, 22797]),
      (js ''backup.deleteTitle'', [21024, 38500, 22791, 20221]),
      (js ''backup.deleteConfirm'', [30830, 35748, 21024, 38500, 12300] @ js ''{{filename}}'' @ [12301, 65311]),
      (js ''backup.pasteTitle'', [20174, 22791, 20221] @ js '' JSON '' @ [24674, 22797]),
      (js ''backup.pasteWarn'', [24674, 22797, 23558, 35206, 30422, 24403, 21069, 20840, 37096, 37197, 32622, 24182, 31435, 21363, 29983, 25928, 65292, 35831, 35880, 24910, 25805, 20316, 12290]),
      (js ''backup.dropHint'', [28857, 20987, 25110, 25302, 25341, 22791, 20221] @ js '' JSON '' @ [25991, 20214, 21040, 27492, 22788]),
      (js ''backup.selected'', [24050, 36873, 25321, 65306] @ js ''{{name}}''),
      (js ''backup.pastePh'', [25110, 30452, 25509, 31896, 36148, 22791, 20221] @ js '' JSON '' @ [20869, 23481]),
      (js ''backup.start'', [24320, 22987, 24674, 22797])]"

definition en_backup :: "(jsstring \<times> jsstring) list" where
  "en_backup =
     [(js ''backup.title'', js ''Data Backup''),
      (js ''backup.desc'', js ''Backup and restore all configuration data (REQ-019). Backups are JSON files containing every config table.''),
      (js ''backup.restoreJson'', js ''Restore from JSON''),
      (js ''backup.create'', js ''Back Up Now''),
      (js ''backup.created'', js ''Backup completed''),
      (js ''backup.restoreOk'', js ''Restore Completed''),
      (js ''backup.restoreOkContent'', js ''Config restored from backup and hot reload triggered; effective within 3s.''),
      (js ''backup.confirmTitle'', js ''Restore Config?''),
      (js ''backup.confirmContent'', js ''Restoring overwrites all current config (providers/model aliases/guardrails/quotas/rate limits/API keys/system settings) and takes effect immediately.''),
      (js ''backup.confirmOk'', js ''Confirm Restore''),
      (js ''backup.colFilename'', js ''Filename''),
      (js ''backup.colSize'', js ''Size''),
      (js ''backup.download'', js ''Download''),
      (js ''backup.restore'', js ''Restore''),
      (js ''backup.deleteTitle'', js ''Delete Backup''),
      (js ''backup.deleteConfirm'', js ''Delete '' @ [34] @ js ''{{filename}}'' @ [34] @ js ''?''),
      (js ''backup.pasteTitle'', js ''Restore from Backup JSON''),
      (js ''backup.pasteWarn'', js ''Restoring overwrites all current config and takes effect immediately. Proceed with care.''),
      (js ''backup.dropHint'', js ''Click or drag a backup JSON file here''),
      (js ''backup.selected'', js ''Selected: {{name}}''),
      (js ''backup.pastePh'', js ''Or paste the backup JSON content directly''),
      (js ''backup.start'', js ''Start Restore'')]"

definition zh_calls :: "(jsstring \<times> jsstring) list" where
  "zh_calls =
     [(js ''calls.title'', [35843, 29992, 26085, 24535]),
      (js ''calls.desc'', [20840, 38142, 36335, 35831, 27714] @ js ''/'' @ [21709, 24212, 23457, 35745, 26085, 24535, 26597, 35810, 65288] @ js ''REQ-015'' @ [65289, 12290]),
      (js ''calls.export'', [23548, 20986] @ js '' CSV''),
      (js ''calls.exportOk'', [23548, 20986, 20219, 21153, 24050, 35302, 21457, 65292, 35831, 26597, 30475, 27983, 35272, 22120, 19979, 36733]),
      (js ''calls.start'', [24320, 22987, 26102, 38388]),
      (js ''calls.end'', [32467, 26463, 26102, 38388]),
      (js ''calls.modelPh'', [27169, 22411, 21035, 21517]),
      (js ''calls.statusPh'', [29366, 24577]),
      (js ''calls.blockedPh'', [26159, 21542, 25318, 25130]),
      (js ''calls.blockedYes'', [24050, 25318, 25130]),
      (js ''calls.blockedNo'', [26410, 25318, 25130]),
      (js ''calls.categoryPh'', [25318, 25130, 31867, 21035, 65292, 22914] @ js '' keyword.political''),
      (js ''calls.search'', [26597, 35810]),
      (js ''calls.colTime'', [26102, 38388]),
      (js ''calls.colReqId'', [35831, 27714] @ js '' ID''),
      (js ''calls.colModel'', [27169, 22411]),
      (js ''calls.colUpstream'', [23454, 38469, 19978, 28216]),
      (js ''calls.colInput'', [36755, 20837, 39044, 35272]),
      (js ''calls.colOutput'', [36755, 20986, 39044, 35272]),
      (js ''calls.colLatency'', [24310, 36831]),
      (js ''calls.colBlocked'', [25318, 25130]),
      (js ''calls.detail'', [35814, 24773]),
      (js ''calls.detailTitle'', [35843, 29992, 35814, 24773, 65306] @ js ''{{id}}''),
      (js ''calls.protocol'', [21327, 35758]),
      (js ''calls.tokenUsage'', js ''Token '' @ [29992, 37327]),
      (js ''calls.blockNone'', [21542]),
      (js ''calls.errorLabel'', [38169, 35823, 20449, 24687]),
      (js ''calls.inputFull'', [36755, 20837, 20840, 25991]),
      (js ''calls.outputFull'', [36755, 20986, 20840, 25991]),
      (js ''calls.findings'', [25252, 26639, 21629, 20013, 65288] @ js ''guard_findings'' @ [65289]),
      (js ''calls.none'', [65288, 26080, 65289]),
      (js ''calls.live.title'', [23454, 26102, 35843, 29992, 27969]),
      (js ''calls.live.live'', [23454, 26102]),
      (js ''calls.live.connecting'', [36830, 25509, 20013]),
      (js ''calls.live.disconnected'', [24050, 26029, 24320]),
      (js ''calls.live.empty'', [26242, 26080, 26032, 35843, 29992, 65292, 21457, 36215, 19968, 27425, 32593, 20851, 35831, 27714, 35797, 35797]),
      (js ''calls.live.pause'', [26242, 20572, 65288, 20923, 32467, 24403, 21069, 21015, 34920, 65289]),
      (js ''calls.live.resume'', [24674, 22797, 23454, 26102, 21047, 26032]),
      (js ''calls.live.clear'', [28165, 31354, 24050, 25910, 20107, 20214]),
      (js ''calls.live.total'', [32047, 35745] @ js '' {{n}} '' @ [26465])]"

definition en_calls :: "(jsstring \<times> jsstring) list" where
  "en_calls =
     [(js ''calls.title'', js ''Call Logs''),
      (js ''calls.desc'', js ''Full request/response audit log query (REQ-015).''),
      (js ''calls.export'', js ''Export CSV''),
      (js ''calls.exportOk'', js ''Export job triggered '' @ [8212] @ js '' check your browser downloads''),
      (js ''calls.start'', js ''Start time''),
      (js ''calls.end'', js ''End time''),
      (js ''calls.modelPh'', js ''Model alias''),
      (js ''calls.statusPh'', js ''Status''),
      (js ''calls.blockedPh'', js ''Blocked''),
      (js ''calls.blockedYes'', js ''Blocked''),
      (js ''calls.blockedNo'', js ''Not blocked''),
      (js ''calls.categoryPh'', js ''Block category, e.g. keyword.political''),
      (js ''calls.search'', js ''Search''),
      (js ''calls.colTime'', js ''Time''),
      (js ''calls.colReqId'', js ''Request ID''),
      (js ''calls.colModel'', js ''Model''),
      (js ''calls.colUpstream'', js ''Actual Upstream''),
      (js ''calls.colInput'', js ''Input Preview''),
      (js ''calls.colOutput'', js ''Output Preview''),
      (js ''calls.colLatency'', js ''Latency''),
      (js ''calls.colBlocked'', js ''Block''),
      (js ''calls.detail'', js ''Detail''),
      (js ''calls.detailTitle'', js ''Call Detail: {{id}}''),
      (js ''calls.protocol'', js ''Protocol''),
      (js ''calls.tokenUsage'', js ''Token Usage''),
      (js ''calls.blockNone'', js ''No''),
      (js ''calls.errorLabel'', js ''Error''),
      (js ''calls.inputFull'', js ''Full Input''),
      (js ''calls.outputFull'', js ''Full Output''),
      (js ''calls.findings'', js ''Guard Findings (guard_findings)''),
      (js ''calls.none'', js ''(none)''),
      (js ''calls.live.title'', js ''Live Call Stream''),
      (js ''calls.live.live'', js ''LIVE''),
      (js ''calls.live.connecting'', js ''Connecting''),
      (js ''calls.live.disconnected'', js ''Disconnected''),
      (js ''calls.live.empty'', js ''No new calls yet '' @ [8212] @ js '' send a gateway request to see one''),
      (js ''calls.live.pause'', js ''Pause (freeze current list)''),
      (js ''calls.live.resume'', js ''Resume live updates''),
      (js ''calls.live.clear'', js ''Clear received events''),
      (js ''calls.live.total'', js ''{{n}} total'')]"

definition zh_charts :: "(jsstring \<times> jsstring) list" where
  "zh_charts =
     [(js ''charts.primarySeries'', [20027, 24207, 21015]),
      (js ''charts.secondarySeries'', [27425, 24207, 21015]),
      (js ''charts.total'', [21512, 35745])]"

definition en_charts :: "(jsstring \<times> jsstring) list" where
  "en_charts =
     [(js ''charts.primarySeries'', js ''Primary Series''),
      (js ''charts.secondarySeries'', js ''Secondary Series''),
      (js ''charts.total'', js ''Total'')]"

definition zh_configStatus :: "(jsstring \<times> jsstring) list" where
  "zh_configStatus =
     [(js ''cfg.title'', [37197, 32622, 29366, 24577]),
      (js ''cfg.desc'', [37197, 32622, 28909, 21152, 36733, 29366, 24577, 21487, 35270, 21270, 65288] @ js ''REQ-004A'' @ [65289, 12290, 25152, 26377, 37197, 32622, 21464, 26356, 21518] @ js '' '' @ [8804] @ js ''3 '' @ [31186, 33258, 21160, 29983, 25928, 65292, 26080, 38656, 37325, 21551, 26381, 21153, 12290]),
      (js ''cfg.reload'', [25163, 21160, 37325, 26032, 21152, 36733]),
      (js ''cfg.reloadOk'', [24050, 35302, 21457, 37197, 32622, 37325, 36733]),
      (js ''cfg.export'', [23548, 20986, 24403, 21069, 37197, 32622]),
      (js ''cfg.exportOk'', [37197, 32622, 23548, 20986, 24050, 24320, 22987, 19979, 36733]),
      (js ''cfg.rollbackConfirmTitle'', [22238, 28378, 21040, 19978, 19968, 29256, 26412, 37197, 32622]),
      (js ''cfg.rollbackConfirmDesc'', [23558, 24674, 22797, 19978, 19968, 29256, 26412, 30340, 20379, 24212, 21830] @ js ''/'' @ [27169, 22411] @ js ''/'' @ [25252, 26639] @ js ''/'' @ [37197, 39069, 31561, 20840, 37096, 37197, 32622, 65292, 30830, 35748, 32487, 32493, 65311]),
      (js ''cfg.rollback'', [22238, 28378, 19978, 19968, 29256, 26412]),
      (js ''cfg.rollbackOk'', [22238, 28378, 25104, 21151]),
      (js ''cfg.rollbackOkContent'', [24050, 22238, 28378, 21040, 29256, 26412] @ js '' {{v}}'' @ [65292, 37197, 32622, 24050, 37325, 26032, 21152, 36733, 12290]),
      (js ''cfg.loadCard'', [21152, 36733, 29366, 24577]),
      (js ''cfg.version'', [24403, 21069, 37197, 32622, 29256, 26412]),
      (js ''cfg.lastLoaded'', [26368, 21518, 21152, 36733, 26102, 38388]),
      (js ''cfg.loadStatus'', [21152, 36733, 29366, 24577]),
      (js ''cfg.ok'', [27491, 24120]),
      (js ''cfg.err'', [24322, 24120]),
      (js ''cfg.modules'', [24050, 29983, 25928, 37197, 32622, 27169, 22359]),
      (js ''cfg.loadErr'', [37197, 32622, 21152, 36733, 24322, 24120]),
      (js ''cfg.loadErrHint'', [21463, 24433, 21709, 27169, 22359, 32487, 32493, 20351, 29992, 19978, 19968, 29256, 21487, 29992, 37197, 32622, 65307, 21487, 28857, 20987, 12300, 22238, 28378, 19978, 19968, 29256, 26412, 12301, 24674, 22797, 12290]),
      (js ''cfg.logsCard'', [26368, 36817, 21152, 36733, 26085, 24535]),
      (js ''cfg.history'', [29256, 26412, 21382, 21490]),
      (js ''cfg.logSuccess'', [25104, 21151]),
      (js ''cfg.logFail'', [22833, 36133]),
      (js ''cfg.noLogs'', [26242, 26080, 21152, 36733, 26085, 24535]),
      (js ''cfg.historyCard'', [29256, 26412, 21382, 21490, 65288, 26368, 36817] @ js '' 50 '' @ [20010, 65289]),
      (js ''cfg.colVersion'', [29256, 26412]),
      (js ''cfg.colTime'', [26102, 38388]),
      (js ''cfg.historyTitle'', [29256, 26412, 21382, 21490, 35814, 24773]),
      (js ''cfg.colMessage'', [35828, 26126]),
      (js ''cfg.mod.providers'', [20379, 24212, 21830]),
      (js ''cfg.mod.model_aliases'', [27169, 22411, 21035, 21517]),
      (js ''cfg.mod.keywords'', [25935, 24863, 35789]),
      (js ''cfg.mod.pii_rules'', js ''PII'' @ [35268, 21017]),
      (js ''cfg.mod.injection_rules'', [27880, 20837, 35268, 21017]),
      (js ''cfg.mod.quotas'', [37197, 39069]),
      (js ''cfg.mod.rate_limits'', [38480, 27969, 35268, 21017]),
      (js ''cfg.mod.apikeys'', js ''API Key'')]"

definition en_configStatus :: "(jsstring \<times> jsstring) list" where
  "en_configStatus =
     [(js ''cfg.title'', js ''Config Status''),
      (js ''cfg.desc'', js ''Config hot-reload status visualization (REQ-004A). All config changes apply within 3s without a service restart.''),
      (js ''cfg.reload'', js ''Reload Manually''),
      (js ''cfg.reloadOk'', js ''Config reload triggered''),
      (js ''cfg.export'', js ''Export Current Config''),
      (js ''cfg.exportOk'', js ''Config export download started''),
      (js ''cfg.rollbackConfirmTitle'', js ''Roll Back to Previous Config''),
      (js ''cfg.rollbackConfirmDesc'', js ''This restores the previous version of all provider/model/guardrail/quota config. Continue?''),
      (js ''cfg.rollback'', js ''Roll Back Previous''),
      (js ''cfg.rollbackOk'', js ''Rollback Successful''),
      (js ''cfg.rollbackOkContent'', js ''Rolled back to version {{v}}; config reloaded.''),
      (js ''cfg.loadCard'', js ''Load Status''),
      (js ''cfg.version'', js ''Current Config Version''),
      (js ''cfg.lastLoaded'', js ''Last Loaded At''),
      (js ''cfg.loadStatus'', js ''Load Status''),
      (js ''cfg.ok'', js ''OK''),
      (js ''cfg.err'', js ''Error''),
      (js ''cfg.modules'', js ''Effective Config Modules''),
      (js ''cfg.loadErr'', js ''Config Load Error''),
      (js ''cfg.loadErrHint'', js ''Affected modules keep using the last known-good config; click '' @ [34] @ js ''Roll Back Previous'' @ [34] @ js '' to restore.''),
      (js ''cfg.logsCard'', js ''Recent Load Logs''),
      (js ''cfg.history'', js ''Version History''),
      (js ''cfg.logSuccess'', js ''Success''),
      (js ''cfg.logFail'', js ''Failed''),
      (js ''cfg.noLogs'', js ''No load logs''),
      (js ''cfg.historyCard'', js ''Version History (last 50)''),
      (js ''cfg.colVersion'', js ''Version''),
      (js ''cfg.colTime'', js ''Time''),
      (js ''cfg.historyTitle'', js ''Version History Details''),
      (js ''cfg.colMessage'', js ''Message''),
      (js ''cfg.mod.providers'', js ''providers''),
      (js ''cfg.mod.model_aliases'', js ''model aliases''),
      (js ''cfg.mod.keywords'', js ''keywords''),
      (js ''cfg.mod.pii_rules'', js ''PII rules''),
      (js ''cfg.mod.injection_rules'', js ''injection rules''),
      (js ''cfg.mod.quotas'', js ''quotas''),
      (js ''cfg.mod.rate_limits'', js ''rate limits''),
      (js ''cfg.mod.apikeys'', js ''API keys'')]"

definition zh_dashboard :: "(jsstring \<times> jsstring) list" where
  "zh_dashboard =
     [(js ''dashboard.title'', [27010, 35272] @ js '' Dashboard''),
      (js ''dashboard.totalCalls'', [20170, 26085, 35831, 27714, 24635, 25968]),
      (js ''dashboard.successCount'', [25104, 21151, 25968]),
      (js ''dashboard.blockedCount'', [25318, 25130, 25968]),
      (js ''dashboard.errorCount'', [38169, 35823, 25968]),
      (js ''dashboard.avgLatency'', [24179, 22343, 24310, 36831]),
      (js ''dashboard.trend7d'', [36817] @ js '' 7 '' @ [22825, 35843, 29992, 36235, 21183]),
      (js ''dashboard.trendCalls'', [35843, 29992, 25968]),
      (js ''dashboard.trendBlocked'', [25318, 25130, 25968]),
      (js ''dashboard.blockCategories'', [25318, 25130, 31867, 21035, 20998, 24067]),
      (js ''dashboard.blockTotal'', [25318, 25130, 24635, 25968]),
      (js ''dashboard.topModels'', [27169, 22411, 35843, 29992, 37327, 25490, 34892]),
      (js ''dashboard.noData'', [26242, 26080, 25968, 25454]),
      (js ''dashboard.upstreamHealth'', [19978, 28216, 20581, 24247, 29366, 24577]),
      (js ''dashboard.noUpstreams'', [26242, 26080, 19978, 28216]),
      (js ''dashboard.quotaUsage'', [37197, 39069, 20351, 29992, 29575, 24635, 35272]),
      (js ''dashboard.noQuotaData'', [26242, 26080, 37197, 39069, 25968, 25454]),
      (js ''dashboard.overused'', js '' '' @ [36229, 39069]),
      (js ''dashboard.systemStatus'', [31995, 32479, 36816, 34892, 29366, 24577]),
      (js ''dashboard.version'', [29256, 26412] @ js '' ''),
      (js ''dashboard.uptime'', [36816, 34892, 26102, 38271] @ js '' ''),
      (js ''dashboard.configLoad'', [37197, 32622, 21152, 36733] @ js '' ''),
      (js ''dashboard.goVersion'', js ''Go '' @ [29256, 26412] @ js '' ''),
      (js ''dashboard.configOk'', [27491, 24120]),
      (js ''dashboard.todayIntercepted'', [20170, 26085, 25318, 25130] @ js '' {{blocked}} '' @ [27425, 65292, 38169, 35823] @ js '' {{errors}} '' @ [27425]),
      (js ''dashboard.viewLogs'', [26597, 30475, 26085, 24535]),
      (js ''dashboard.colProvider'', [20379, 24212, 21830]),
      (js ''dashboard.colProtocol'', [21327, 35758]),
      (js ''dashboard.colStatus'', [29366, 24577]),
      (js ''dashboard.colFailCount'', [36830, 32493, 22833, 36133]),
      (js ''dashboard.abnormal'', [24322, 24120])]"

definition en_dashboard :: "(jsstring \<times> jsstring) list" where
  "en_dashboard =
     [(js ''dashboard.title'', js ''Overview Dashboard''),
      (js ''dashboard.totalCalls'', js ''Today Total Requests''),
      (js ''dashboard.successCount'', js ''Successes''),
      (js ''dashboard.blockedCount'', js ''Blocked''),
      (js ''dashboard.errorCount'', js ''Errors''),
      (js ''dashboard.avgLatency'', js ''Avg Latency''),
      (js ''dashboard.trend7d'', js ''Last 7-Day Trend''),
      (js ''dashboard.trendCalls'', js ''Calls''),
      (js ''dashboard.trendBlocked'', js ''Blocked''),
      (js ''dashboard.blockCategories'', js ''Block Categories''),
      (js ''dashboard.blockTotal'', js ''Total Blocked''),
      (js ''dashboard.topModels'', js ''Top Models by Calls''),
      (js ''dashboard.noData'', js ''No data''),
      (js ''dashboard.upstreamHealth'', js ''Upstream Health''),
      (js ''dashboard.noUpstreams'', js ''No upstreams configured''),
      (js ''dashboard.quotaUsage'', js ''Quota Usage Overview''),
      (js ''dashboard.noQuotaData'', js ''No quota data''),
      (js ''dashboard.overused'', js '' Over limit''),
      (js ''dashboard.systemStatus'', js ''System Status''),
      (js ''dashboard.version'', js ''Version ''),
      (js ''dashboard.uptime'', js ''Uptime ''),
      (js ''dashboard.configLoad'', js ''Config Load ''),
      (js ''dashboard.goVersion'', js ''Go Version ''),
      (js ''dashboard.configOk'', js ''OK''),
      (js ''dashboard.todayIntercepted'', js ''{{blocked}} blocked today, {{errors}} errors''),
      (js ''dashboard.viewLogs'', js ''View Logs''),
      (js ''dashboard.colProvider'', js ''Provider''),
      (js ''dashboard.colProtocol'', js ''Protocol''),
      (js ''dashboard.colStatus'', js ''Status''),
      (js ''dashboard.colFailCount'', js ''Fail Count''),
      (js ''dashboard.abnormal'', js ''Abnormal'')]"

definition zh_failover :: "(jsstring \<times> jsstring) list" where
  "zh_failover =
     [(js ''failover.title'', [25925, 38556, 36716, 31227, 35774, 32622]),
      (js ''failover.desc'', [24403, 19968, 20010, 19978, 28216, 20379, 24212, 21830, 22833, 36133] @ js '' / '' @ [35302, 21457, 25351, 23450, 29366, 24577, 30721, 26102, 33258, 21160, 20999, 25442, 21040, 20854, 20182, 19978, 28216, 65288] @ js ''REQ-007'' @ [65289, 12290]),
      (js ''failover.save'', [20445, 23384, 37197, 32622]),
      (js ''failover.saveOk'', [25925, 38556, 36716, 31227, 31574, 30053, 24050, 20445, 23384, 65292, 28909, 21152, 36733, 29983, 25928]),
      (js ''failover.enabled'', [21551, 29992, 33258, 21160, 25925, 38556, 36716, 31227]),
      (js ''failover.on'', [21551, 29992]),
      (js ''failover.off'', [20572, 29992]),
      (js ''failover.retryCount'', [37325, 35797, 27425, 25968]),
      (js ''failover.retryCountReq'', [35831, 36755, 20837, 37325, 35797, 27425, 25968]),
      (js ''failover.backoff'', [37325, 35797, 38388, 38548, 31574, 30053]),
      (js ''failover.backoffReq'', [35831, 36873, 25321, 31574, 30053]),
      (js ''failover.retryInterval'', [37325, 35797, 38388, 38548, 65288, 27627, 31186, 65289]),
      (js ''failover.retryIntervalReq'', [35831, 36755, 20837, 37325, 35797, 38388, 38548]),
      (js ''failover.trigger'', [35302, 21457, 26465, 20214, 65288] @ js ''HTTP '' @ [29366, 24577, 30721, 65292, 22238, 36710, 28155, 21152, 65289]),
      (js ''failover.triggerTooltip'', [19978, 28216, 36820, 22238, 36825, 20123, 29366, 24577, 30721, 26102, 35302, 21457, 25925, 38556, 36716, 31227, 65292, 22914] @ js '' 429/500/502/503''),
      (js ''failover.triggerReq'', [33267, 23569, 37197, 32622, 19968, 20010, 35302, 21457, 29366, 24577, 30721]),
      (js ''failover.triggerPh'', [36755, 20837, 29366, 24577, 30721, 21518, 22238, 36710, 65292, 20363, 22914] @ js '' 429''),
      (js ''failover.circuitThreshold'', [29076, 26029, 38408, 20540, 65288, 36830, 32493, 22833, 36133, 27425, 25968, 65289]),
      (js ''failover.circuitThresholdReq'', [35831, 36755, 20837, 29076, 26029, 38408, 20540]),
      (js ''failover.circuitReset'', [29076, 26029, 24674, 22797, 26102, 38388, 65288, 31186, 65289]),
      (js ''failover.circuitResetReq'', [35831, 36755, 20837, 24674, 22797, 26102, 38388])]"

definition en_failover :: "(jsstring \<times> jsstring) list" where
  "en_failover =
     [(js ''failover.title'', js ''Failover Settings''),
      (js ''failover.desc'', js ''Automatically switch to another upstream when a provider fails or a configured status code is triggered (REQ-007).''),
      (js ''failover.save'', js ''Save Configuration''),
      (js ''failover.saveOk'', js ''Failover policy saved, applied via hot reload''),
      (js ''failover.enabled'', js ''Enable Auto Failover''),
      (js ''failover.on'', js ''Enabled''),
      (js ''failover.off'', js ''Disabled''),
      (js ''failover.retryCount'', js ''Retry Count''),
      (js ''failover.retryCountReq'', js ''Please enter retry count''),
      (js ''failover.backoff'', js ''Backoff Strategy''),
      (js ''failover.backoffReq'', js ''Please select a strategy''),
      (js ''failover.retryInterval'', js ''Retry Interval (ms)''),
      (js ''failover.retryIntervalReq'', js ''Please enter retry interval''),
      (js ''failover.trigger'', js ''Trigger Codes (HTTP, press Enter to add)''),
      (js ''failover.triggerTooltip'', js ''Triggers failover when upstream returns these status codes, e.g. 429/500/502/503''),
      (js ''failover.triggerReq'', js ''Add at least one trigger status code''),
      (js ''failover.triggerPh'', js ''Type a code and press Enter, e.g. 429''),
      (js ''failover.circuitThreshold'', js ''Circuit Breaker Threshold (consecutive failures)''),
      (js ''failover.circuitThresholdReq'', js ''Please enter circuit breaker threshold''),
      (js ''failover.circuitReset'', js ''Circuit Reset Time (seconds)''),
      (js ''failover.circuitResetReq'', js ''Please enter reset time'')]"

definition zh_general :: "(jsstring \<times> jsstring) list" where
  "zh_general =
     [(js ''general.title'', [36890, 29992, 35774, 32622]),
      (js ''general.desc'', [32593, 20851, 20840, 23616, 36816, 34892, 21442, 25968, 65288] @ js ''REQ-001'' @ [65289, 12290, 38500, 30417, 21548, 31471, 21475, 22806, 22343, 25903, 25345, 37197, 32622, 28909, 21152, 36733, 65292, 20445, 23384, 21518] @ js '' '' @ [8804] @ js ''3 '' @ [31186, 29983, 25928, 12290]),
      (js ''general.save'', [20445, 23384]),
      (js ''general.saveOk'', [31995, 32479, 21442, 25968, 24050, 20445, 23384, 65292, 28909, 21152, 36733, 29983, 25928, 65288, 8804] @ js ''3 '' @ [31186, 65289]),
      (js ''general.logLevel'', [26085, 24535, 32423, 21035]),
      (js ''general.auditRetention'', [23457, 35745, 26085, 24535, 20445, 30041, 22825, 25968]),
      (js ''general.auditRetentionTooltip'', [36229, 36807, 20445, 30041, 26399, 30340, 35843, 29992] @ js ''/'' @ [25805, 20316, 23457, 35745, 26085, 24535, 33258, 21160, 28165, 29702]),
      (js ''general.auditRetentionReq'', [35831, 36755, 20837, 20445, 30041, 22825, 25968]),
      (js ''general.auditRetentionUnit'', [22825]),
      (js ''general.timeout'', [40664, 35748, 36229, 26102, 26102, 38388]),
      (js ''general.timeoutReq'', [35831, 36755, 20837, 36229, 26102, 26102, 38388]),
      (js ''general.timeoutUnit'', [31186]),
      (js ''general.maxConn'', [26368, 22823, 24182, 21457, 36830, 25509, 25968]),
      (js ''general.maxConnReq'', [35831, 36755, 20837, 26368, 22823, 24182, 21457, 25968]),
      (js ''general.guardEnabled'', [21551, 29992, 25252, 26639, 65288, 20840, 23616, 24320, 20851, 65289]),
      (js ''general.guardTooltip'', [20851, 38381, 21518, 25152, 26377, 36755, 20837] @ js ''/'' @ [36755, 20986, 36807, 28388, 35268, 21017, 22833, 25928, 65292, 20165, 35760, 24405, 23457, 35745]),
      (js ''general.auditWrite'', [35843, 29992, 23457, 35745, 20889, 20837]),
      (js ''general.auditWriteTooltip'', [20851, 38381, 21518, 19981, 20877, 20889, 20837, 35843, 29992, 23457, 35745, 65288, 25805, 20316, 23457, 35745, 20173, 20445, 30041, 65289, 12290, 22823, 37327, 35831, 27714, 26102, 20851, 38381, 21487, 38477, 20302] @ js '' DB '' @ [20889, 20837, 21387, 21147, 12290]),
      (js ''general.auditOnlyErrors'', [20165, 35760, 24405, 22833, 36133] @ js ''/'' @ [25318, 25130]),
      (js ''general.auditOnlyErrorsTooltip'', [24320, 21551, 21518, 25104, 21151, 35843, 29992, 19981, 20889, 23457, 35745, 65292, 20165, 35760, 24405, 38169, 35823, 19982, 34987, 25252, 26639, 25318, 25130, 30340, 35843, 29992, 12290]),
      (js ''general.auditOnlyErrorsWarn'', [24320, 21551, 21518, 25104, 21151, 35843, 29992, 19981, 20837, 23457, 35745, 65292] @ js ''Token '' @ [29992, 37327, 21015, 19982, 29992, 37327, 32479, 35745, 20250, 32570, 22833, 65307, 22914, 38656, 38477, 37327, 35831, 25913, 29992, 12300, 25104, 21151, 35843, 29992, 37319, 26679, 12301, 12290]),
      (js ''general.auditSampling'', [25104, 21151, 35843, 29992, 37319, 26679]),
      (js ''general.auditSamplingTooltip'', js ''1='' @ [20840, 35760, 65307] @ js ''N>1='' @ [25104, 21151, 35843, 29992, 25353] @ js '' 1/N '' @ [27010, 29575, 35760, 24405, 65288, 22833, 36133] @ js ''/'' @ [25318, 25130, 22987, 32456, 20840, 35760, 65289, 12290]),
      (js ''general.auditSamplingReq'', [35831, 36755, 20837, 37319, 26679, 29575]),
      (js ''general.logReasoning'', [35760, 24405, 24605, 32500, 38142]),
      (js ''general.logReasoningTooltip'', [24320, 21551, 21518, 35843, 29992, 26085, 24535, 30340, 36755, 20986, 25991, 26412, 20250, 21253, 21547, 27169, 22411, 24605, 32500, 38142, 65288] @ js ''reasoning_content'' @ [65289, 65292, 21344, 29992, 25968, 25454, 24211, 36739, 39640, 65292, 24314, 35758, 20165, 22312, 25490, 26597, 27169, 22411, 34892, 20026, 26102, 20020, 26102, 24320, 21551, 65307, 20851, 38381, 26102, 21482, 35760, 24405, 26368, 32456, 22238, 31572, 12290] @ js ''Token '' @ [29992, 37327, 32479, 35745, 19981, 21463, 27492, 24320, 20851, 24433, 21709, 65288, 22987, 32456, 35745, 20837, 24605, 32500, 38142, 65289, 12290]),
      (js ''general.hotReload'', [28909, 21152, 36733, 29983, 25928, 26102, 38388]),
      (js ''general.hotReloadTooltip'', [37197, 32622, 21464, 26356, 21518, 26368, 38271, 31561, 24453, 31186, 25968, 65307, 23454, 26102, 35302, 21457, 36890, 24120, 31435, 21363, 29983, 25928, 65292, 35813, 20540, 20026, 36718, 35810, 20828, 24213, 38388, 38548, 65288] @ js ''REQ-004'' @ [65289]),
      (js ''general.listenPort'', [32593, 20851, 30417, 21548, 31471, 21475]),
      (js ''general.listenPortNote'', [21551, 21160, 21442, 25968, 65292, 20462, 25913, 38656, 37325, 21551, 26381, 21153]),
      (js ''general.listenPortInput'', [20165, 21551, 21160, 21442, 25968, 29983, 25928, 65288] @ js ''PORT '' @ [29615, 22659, 21464, 37327, 65289, 65292, 20462, 25913, 21518, 38656, 37325, 21551, 26381, 21153])]"

definition en_general :: "(jsstring \<times> jsstring) list" where
  "en_general =
     [(js ''general.title'', js ''General Settings''),
      (js ''general.desc'', js ''Global gateway runtime parameters (REQ-001). All support hot reload except the listen port; changes take effect within 3 seconds of saving.''),
      (js ''general.save'', js ''Save''),
      (js ''general.saveOk'', js ''Settings saved, applied via hot reload ('' @ [8804] @ js ''3s)''),
      (js ''general.logLevel'', js ''Log Level''),
      (js ''general.auditRetention'', js ''Audit Log Retention (days)''),
      (js ''general.auditRetentionTooltip'', js ''Call/operation audit logs past the retention period are purged automatically''),
      (js ''general.auditRetentionReq'', js ''Please enter retention days''),
      (js ''general.auditRetentionUnit'', js ''days''),
      (js ''general.timeout'', js ''Default Timeout''),
      (js ''general.timeoutReq'', js ''Please enter timeout''),
      (js ''general.timeoutUnit'', js ''s''),
      (js ''general.maxConn'', js ''Max Concurrent Connections''),
      (js ''general.maxConnReq'', js ''Please enter max connections''),
      (js ''general.guardEnabled'', js ''Enable Guardrails (global switch)''),
      (js ''general.guardTooltip'', js ''When off, all input/output filter rules are inactive and only audit logging applies''),
      (js ''general.auditWrite'', js ''Call Audit Writing''),
      (js ''general.auditWriteTooltip'', js ''When off, call audit is no longer written (operation audit is kept). Disabling under heavy traffic reduces DB write pressure.''),
      (js ''general.auditOnlyErrors'', js ''Log Failures/Blocks Only''),
      (js ''general.auditOnlyErrorsTooltip'', js ''When on, successful calls are not audited; only errors and guardrail-blocked calls are recorded.''),
      (js ''general.auditOnlyErrorsWarn'', js ''When on, successful calls are not audited, so token usage columns and usage statistics will be incomplete. To reduce volume, use '' @ [34] @ js ''successful call sampling'' @ [34] @ js '' instead.''),
      (js ''general.auditSampling'', js ''Successful Call Sampling''),
      (js ''general.auditSamplingTooltip'', js ''1 = record all; N>1 = record successful calls with 1/N probability (failures/blocks always recorded).''),
      (js ''general.auditSamplingReq'', js ''Please enter sampling rate''),
      (js ''general.logReasoning'', js ''Log Reasoning Chain''),
      (js ''general.logReasoningTooltip'', js ''When on, the call log output_text includes the model reasoning chain (reasoning_content); high DB cost, recommended only for temporary debugging. When off, only the final answer is recorded. Token usage accounting always counts reasoning regardless of this switch.''),
      (js ''general.hotReload'', js ''Hot Reload Effect Time''),
      (js ''general.hotReloadTooltip'', js ''Max wait seconds after a config change; real-time triggers usually apply immediately, this value is the polling fallback (REQ-004)''),
      (js ''general.listenPort'', js ''Gateway Listen Port''),
      (js ''general.listenPortNote'', js ''Startup parameter; changing requires a service restart''),
      (js ''general.listenPortInput'', js ''Only the startup parameter takes effect (PORT env var); restart required after changes'')]"

definition zh_help :: "(jsstring \<times> jsstring) list" where
  "zh_help =
     [(js ''help.title'', [20351, 29992, 24110, 21161]),
      (js ''help.desc'', [32593, 20851, 23545, 22806, 26381, 21153, 22320, 22336, 12289, 37492, 26435, 26041, 24335, 19982, 35843, 29992, 31034, 20363]),
      (js ''help.deploymentTitle'', [21333, 36827, 31243, 37096, 32626, 27169, 22411]),
      (js ''help.deploymentBody'', [26412, 31995, 32479, 20026, 21333, 36827, 31243, 65306, 19968, 20010] @ js '' Go '' @ [21518, 31471, 22312, 21516, 19968, 20010, 31471, 21475, 65288, 40664, 35748] @ js '' <c1>:8080</c1>'' @ [65292, 21487, 29992, 29615, 22659, 21464, 37327] @ js '' <c2>PORT</c2> '' @ [35843, 25972, 65289, 19978, 21516, 26102, 25552, 20379, 31649, 29702] @ js '' API'' @ [12289, 32593, 20851, 31471, 28857, 65288] @ js ''<c3>/v1/*</c3>'' @ [65289, 21644, 21069, 31471, 31649, 29702, 30028, 38754, 12290, 21069, 31471, 26080, 38656, 29420, 31435, 26381, 21153, 22120, 65292, 35843, 29992, 26041, 21482, 38656, 23545, 25509] @ js '' <c3>/v1/*</c3> '' @ [32593, 20851, 31471, 28857, 12290]),
      (js ''help.addrTitle'', js ''1. '' @ [23545, 22806, 26381, 21153, 22320, 22336]),
      (js ''help.addrBody'', [23545, 22806, 22320, 22336, 20026] @ js '' <c1>http://<'' @ [20320, 30340, 20027, 26426] @ js ''>:<'' @ [31471, 21475] @ js ''>/v1</c1>'' @ [65292, 25353, 23458, 25143, 31471, 25152, 29992, 21327, 35758, 36873, 25321, 19979, 26041, 31471, 28857, 12290, 26412, 26426, 35843, 35797, 21363] @ js '' <c2>http://localhost:8080/v1</c2>'' @ [65307, 23545, 22806, 37096, 32626, 26102, 25226] @ js '' <c3><'' @ [20320, 30340, 20027, 26426] @ js ''></c3> '' @ [25442, 25104, 26381, 21153, 22120] @ js '' IP '' @ [25110, 22495, 21517, 12290]),
      (js ''help.colProto'', [21327, 35758]),
      (js ''help.colMethodPath'', [26041, 27861] @ js '' + '' @ [36335, 24452]),
      (js ''help.colClient'', [36866, 29992, 23458, 25143, 31471]),
      (js ''help.proto4'', [27169, 22411, 30446, 24405]),
      (js ''help.client1'', js ''openai-python'' @ [12289, 32477, 22823, 22810, 25968] @ js '' SDK '' @ [19982, 24037, 20855]),
      (js ''help.client2'', js ''Responses API '' @ [23458, 25143, 31471]),
      (js ''help.client3'', js ''anthropic SDK''),
      (js ''help.client4'', [31532, 19977, 26041] @ js '' Agent '' @ [24037, 20855, 21457, 29616, 21487, 29992, 27169, 22411, 65288] @ js ''OpenAI '' @ [20860, 23481, 65292, 36820, 22238, 24050, 37197, 32622, 21035, 21517, 65289]),
      (js ''help.yourHost'', js ''<'' @ [20320, 30340, 20027, 26426] @ js ''>''),
      (js ''help.serverAddr'', js ''<'' @ [26381, 21153, 22120] @ js ''IP'' @ [25110, 22495, 21517] @ js ''>''),
      (js ''help.curlKey'', js ''<'' @ [32593, 20851] @ js ''Key>''),
      (js ''help.authTitle'', js ''2. '' @ [37492, 26435, 26041, 24335, 65288, 27880, 24847, 65306, 20004, 22871] @ js '' API Key'' @ [65289]),
      (js ''help.authBody1'', [35843, 29992, 32593, 20851, 26102, 25658, 24102, 12300]),
      (js ''help.authKey'', [32593, 20851] @ js '' API Key''),
      (js ''help.authBody2'', [12301, 65288, 22312, 12300, 31995, 32479, 35774, 32622] @ js '' '' @ [8594] @ js '' API Key'' @ [12301, 39029, 38754, 21019, 24314, 65289, 65292, 25903, 25345, 20004, 31181] @ js '' header'' @ [65306]),
      (js ''help.authCode'', js ''Authorization: Bearer <'' @ [32593, 20851] @ js ''Key>      # OpenAI '' @ [39118, 26684, 10] @ js ''x-api-key: <'' @ [32593, 20851] @ js ''Key>              # Anthropic '' @ [39118, 26684]),
      (js ''help.gatewayKeyTitle'', [32593, 20851] @ js '' API Key'' @ [65288, 21457, 32473, 35843, 29992, 26041, 65289]),
      (js ''help.gatewayKeyBody'', [22312, 21518, 21488, 12300] @ js ''API Key'' @ [12301, 39029, 21019, 24314, 65292, 35843, 29992, 26041, 29992, 23427, 37492, 26435, 35775, 38382, 32593, 20851, 12290] @ js ''SHA256 '' @ [21704, 24076, 23384, 20648, 65292, 35831, 27714, 26102, 24102, 21407, 25991, 12290]),
      (js ''help.vendorKeyTitle'', [21378, 21830] @ js '' Key'' @ [65288, 37197, 32622, 19978, 28216, 29992, 65289]),
      (js ''help.vendorKeyBody1'', [22312, 12300, 20379, 24212, 21830, 31649, 29702, 12301, 37324, 22635, 30340] @ js '' OpenAI/Anthropic '' @ [19978, 28216, 23494, 38053, 65292]),
      (js ''help.vendorKeyStrong'', [20165, 20379, 32593, 20851, 35843, 29992, 19978, 28216]),
      (js ''help.vendorKeyBody2'', [65292, 19981, 21487, 21457, 32473, 35843, 29992, 26041, 12290]),
      (js ''help.aliasTitle'', js ''3. '' @ [27169, 22411, 21035, 21517, 36335, 30001]),
      (js ''help.aliasBody'', [35831, 27714, 20307, 37324, 30340] @ js '' <c1>model</c1> '' @ [23383, 27573, 24517, 39035, 22635, 20320, 22312, 12300, 27169, 22411, 21035, 21517, 12301, 39029, 37197, 32622, 30340]),
      (js ''help.aliasStrong'', [21035, 21517, 65288] @ js ''alias'' @ [65289]),
      (js ''help.aliasBody2'', [65292, 30001, 32593, 20851, 26144, 23556, 21040, 19978, 28216, 20379, 24212, 21830] @ js '' + '' @ [30495, 23454, 27169, 22411, 21517, 12290, 21035, 21517, 21487, 19982, 19978, 28216, 21516, 21517, 65288, 22914] @ js '' <c1>gpt-4o</c1>'' @ [65289, 65292, 20063, 21487, 33258, 23450, 20041, 12290, 22635, 38169, 20250, 36820, 22238] @ js '' <c2>404 unknown model</c2>'' @ [12290]),
      (js ''help.exampleTitle'', js ''4. '' @ [35843, 29992, 31034, 20363]),
      (js ''help.exampleOpenai'', js ''OpenAI Chat '' @ [21327, 35758]),
      (js ''help.exampleAnthropic'', js ''Anthropic Messages '' @ [21327, 35758]),
      (js ''help.deployTitle'', js ''5. '' @ [23545, 22806, 37096, 32626]),
      (js ''help.deployBody'', js ''<c1>localhost:8080</c1> '' @ [20165, 26412, 26426, 21487, 35775, 38382, 12290, 23545, 22806, 26381, 21153, 26102, 65292, 23558, 31243, 24207, 37096, 32626, 21040, 20844, 32593] @ js ''/'' @ [20869, 32593, 26381, 21153, 22120, 65292, 35843, 29992, 26041, 20351, 29992] @ js '' <c2>http://<'' @ [26381, 21153, 22120] @ js ''IP'' @ [25110, 22495, 21517] @ js ''>:8080/v1/...</c2> '' @ [21363, 21487, 65307, 38656, 35201] @ js '' HTTPS '' @ [25110, 22495, 21517, 26102, 65292, 21069, 32622] @ js '' Nginx '' @ [21453, 20195, 21040] @ js '' <c3>:8080</c3> '' @ [20570, 32431, 36716, 21457, 21363, 21487, 65292, 26080, 38656, 39069, 22806, 21069, 31471, 26381, 21153, 12290]),
      (js ''help.tip'', [25552, 31034, 65306, 37197, 32622, 27969, 31243, 20026, 12300, 20379, 24212, 21830, 31649, 29702, 12301, 25509, 20837, 21378, 21830, 24182, 22635, 21378, 21830] @ js '' Key '' @ [8594, 12300, 27169, 22411, 21035, 21517, 12301, 24314, 21035, 21517, 26144, 23556, 19978, 28216, 27169, 22411] @ js '' '' @ [8594, 12300] @ js ''API Key'' @ [12301, 21019, 24314, 32593, 20851] @ js '' Key '' @ [21457, 32473, 35843, 29992, 26041, 12290, 21487, 22312, 20379, 24212, 21830, 21015, 34920, 28857, 12300, 27979, 35797, 36830, 25509, 12301, 30495, 23454, 39564, 35777, 31471, 28857, 19982, 23494, 38053, 26159, 21542, 21487, 29992, 12290]),
      (js ''help.securityTitle'', js ''6. '' @ [23433, 20840, 35828, 26126]),
      (js ''help.securityIntro'', [26412, 31995, 32479, 24050, 20869, 32622, 22810, 39033, 23433, 20840, 21152, 22266, 65307, 20197, 19979, 20026, 20851, 38190, 28857, 19982, 37096, 32626, 27880, 24847, 20107, 39033, 12290]),
      (js ''help.securityIpLabel'', js ''IP '' @ [30333, 21517, 21333, 38450, 20266, 36896]),
      (js ''help.securityIp'', [40664, 35748, 19981, 20449, 20219] @ js '' X-Forwarded-For'' @ [65292, 32593, 20851, 21462] @ js '' TCP '' @ [23545, 31471] @ js '' IP'' @ [65307, 21453, 20195, 37096, 32626, 24517, 39035, 35774, 29615, 22659, 21464, 37327] @ js '' TRUSTED_PROXIES '' @ [20026, 20195, 29702] @ js '' CIDR'' @ [65292, 21542, 21017] @ js '' IP '' @ [30333, 21517, 21333, 21487, 34987, 20266, 36896] @ js '' XFF '' @ [22836, 32469, 36807, 12290]),
      (js ''help.securityHeadersLabel'', [23433, 20840, 21709, 24212, 22836]),
      (js ''help.securityHeaders'', [33258, 21160, 38468, 21152] @ js '' X-Content-Type-Options: nosniff'' @ [12289] @ js ''X-Frame-Options: DENY'' @ [12289] @ js ''Referrer-Policy'' @ [65292, 25233, 21046] @ js '' MIME '' @ [21957, 25506, 19982, 28857, 20987, 21163, 25345, 12290]),
      (js ''help.securitySecretsLabel'', [40664, 35748, 23494, 38053, 21578, 35686]),
      (js ''help.securitySecrets'', js ''JWT_SECRET '' @ [19982] @ js '' MASTER_KEY '' @ [40664, 35748, 20540, 19981, 23433, 20840, 65292, 21551, 21160, 26102, 20250, 25171, 21360] @ js '' [security] WARNING'' @ [65307, 29983, 20135, 37096, 32626, 21153, 24517, 36890, 36807, 29615, 22659, 21464, 37327, 35206, 30422, 12290]),
      (js ''help.securityJwtLabel'', js ''JWT''),
      (js ''help.securityJwt'', js ''HS256 '' @ [31614, 21517, 65307, 35299, 26512, 26102, 24378, 21046, 26657, 39564] @ js '' HMAC '' @ [31639, 27861, 65288, 25298, 32477] @ js '' alg=none / '' @ [31639, 27861, 28151, 28102, 65289, 24182, 26657, 39564] @ js '' exp '' @ [36807, 26399, 12290]),
      (js ''help.securityStorageLabel'', [23494, 38053, 23384, 20648]),
      (js ''help.securityStorage'', [32593, 20851] @ js '' API Key '' @ [20197] @ js '' SHA256 '' @ [21704, 24076, 23384, 20648, 65307, 21378, 21830] @ js '' API Key '' @ [20197] @ js '' AES-GCM '' @ [21152, 23494, 20837, 24211, 65288, 20027, 23494, 38053, 20026] @ js '' MASTER_KEY'' @ [65292, 21464, 26356, 21518, 21382, 21490, 23494, 25991, 26080, 27861, 35299, 23494, 65289, 12290]),
      (js ''help.securityTopologyLabel'', [19978, 28216, 25299, 25169, 19981, 22806, 27844]),
      (js ''help.securityTopology'', [38754, 21521, 35843, 29992, 26041, 30340, 38169, 35823, 20449, 24687, 19981, 21547, 19978, 28216, 20379, 24212, 21830, 21517, 65288, 23457, 35745, 26085, 24535, 19982, 31649, 29702, 21592, 20391] @ js '' [upstream] '' @ [26085, 24535, 20173, 20445, 30041, 65289, 12290]),
      (js ''help.securityTlsLabel'', js ''TLS / '' @ [21453, 20195]),
      (js ''help.securityTls'', [20869, 32622, 20026] @ js '' HTTP'' @ [65307, 29983, 20135, 24212, 21069, 32622] @ js '' Nginx '' @ [32456, 27490] @ js '' TLS'' @ [65292, 24182, 23558] @ js '' TRUSTED_PROXIES '' @ [25351, 21521, 35813, 20195, 29702, 12290]),
      (js ''help.starTitle'', [39033, 30446, 22320, 22336]),
      (js ''help.starBody'', [26412, 39033, 30446, 24320, 28304, 22312] @ js '' GitHub'' @ [65292, 22522, 20110] @ js '' Apache-2.0 '' @ [21327, 35758, 12290, 22914, 26524, 23545, 20320, 26377, 24110, 21161, 65292, 27426, 36814, 28857, 20010] @ js '' Star '' @ [25903, 25345, 19968, 19979, 8212, 8212, 20063, 35753, 26356, 22810, 20154, 21457, 29616, 23427, 12290]),
      (js ''help.starBtn'', [22312] @ js '' GitHub '' @ [19978] @ js '' Star''),
      (js ''help.starIssue'', [25552, 20132] @ js '' Issue / '' @ [21453, 39304])]"

definition en_help :: "(jsstring \<times> jsstring) list" where
  "en_help =
     [(js ''help.title'', js ''Help''),
      (js ''help.desc'', js ''Gateway public endpoints, authentication and call examples''),
      (js ''help.deploymentTitle'', js ''Single-Process Deployment''),
      (js ''help.deploymentBody'', js ''This system is a single process: one Go backend on a single port (default <c1>:8080</c1>, adjustable via the <c2>PORT</c2> env var) serves the admin API, the gateway endpoints (<c3>/v1/*</c3>) and the admin web UI. No separate frontend server is needed; callers only integrate with the <c3>/v1/*</c3> gateway endpoints.''),
      (js ''help.addrTitle'', js ''1. Public Service Address''),
      (js ''help.addrBody'', js ''The public address is <c1>http://<your-host>:<port>/v1</c1>; pick the endpoint below matching your client protocol. For local debugging it is <c2>http://localhost:8080/v1</c2>; for external deployment replace <c3><your-host></c3> with your server IP or domain.''),
      (js ''help.colProto'', js ''Protocol''),
      (js ''help.colMethodPath'', js ''Method + Path''),
      (js ''help.colClient'', js ''Applicable Clients''),
      (js ''help.proto4'', js ''Model Catalog''),
      (js ''help.client1'', js ''openai-python, most SDKs and tools''),
      (js ''help.client2'', js ''Responses API clients''),
      (js ''help.client3'', js ''anthropic SDK''),
      (js ''help.client4'', js ''Third-party agent tooling discovers available models (OpenAI-compatible, returns configured aliases)''),
      (js ''help.yourHost'', js ''<your-host>''),
      (js ''help.serverAddr'', js ''<server-IP-or-domain>''),
      (js ''help.curlKey'', js ''<gateway-key>''),
      (js ''help.authTitle'', js ''2. Authentication (Note: Two Kinds of API Keys)''),
      (js ''help.authBody1'', js ''When calling the gateway, send the '' @ [34]),
      (js ''help.authKey'', js ''Gateway API Key''),
      (js ''help.authBody2'', [34] @ js '' (created on the '' @ [34] @ js ''System Settings '' @ [8594] @ js '' API Keys'' @ [34] @ js '' page). Two headers are supported:''),
      (js ''help.authCode'', js ''Authorization: Bearer <gateway-key>  # OpenAI style'' @ [10] @ js ''x-api-key: <gateway-key>            # Anthropic style''),
      (js ''help.gatewayKeyTitle'', js ''Gateway API Key (hand to callers)''),
      (js ''help.gatewayKeyBody'', js ''Created on the admin '' @ [34] @ js ''API Keys'' @ [34] @ js '' page; callers use it to authenticate against the gateway. Stored as a SHA256 hash; requests carry the plaintext.''),
      (js ''help.vendorKeyTitle'', js ''Vendor Key (for upstream config)''),
      (js ''help.vendorKeyBody1'', js ''The OpenAI/Anthropic upstream key entered under '' @ [34] @ js ''Providers'' @ [34] @ js '' '' @ [8212] @ js '' ''),
      (js ''help.vendorKeyStrong'', js ''used only by the gateway to call upstream''),
      (js ''help.vendorKeyBody2'', js ''; never hand it to callers.''),
      (js ''help.aliasTitle'', js ''3. Model Alias Routing''),
      (js ''help.aliasBody'', js ''The <c1>model</c1> field in the request body must be the ''),
      (js ''help.aliasStrong'', js ''alias''),
      (js ''help.aliasBody2'', js '' you configured on the '' @ [34] @ js ''Model Aliases'' @ [34] @ js '' page; the gateway maps it to an upstream provider + real model name. An alias may match the upstream name (e.g. <c1>gpt-4o</c1>) or be custom. A wrong value returns <c2>404 unknown model</c2>.''),
      (js ''help.exampleTitle'', js ''4. Call Examples''),
      (js ''help.exampleOpenai'', js ''OpenAI Chat protocol''),
      (js ''help.exampleAnthropic'', js ''Anthropic Messages protocol''),
      (js ''help.deployTitle'', js ''5. External Deployment''),
      (js ''help.deployBody'', js ''<c1>localhost:8080</c1> is only reachable locally. For external service, deploy to a public/internal server; callers use <c2>http://<server-IP-or-domain>:8080/v1/...</c2>. For HTTPS or a domain, front it with an Nginx reverse proxy purely forwarding to <c3>:8080</c3> '' @ [8212] @ js '' no extra frontend service needed.''),
      (js ''help.tip'', js ''Tip: setup flow is '' @ [34] @ js ''Providers'' @ [34] @ js '' (add vendor & vendor key) '' @ [8594] @ js '' '' @ [34] @ js ''Model Aliases'' @ [34] @ js '' (map alias to upstream models) '' @ [8594] @ js '' '' @ [34] @ js ''API Keys'' @ [34] @ js '' (create the gateway key and hand it to callers). You can click '' @ [34] @ js ''Test Connection'' @ [34] @ js '' in the provider list to verify the endpoint and key for real.''),
      (js ''help.securityTitle'', js ''6. Security Notes''),
      (js ''help.securityIntro'', js ''Several security hardening measures are built in; key points and deployment notes below.''),
      (js ''help.securityIpLabel'', js ''IP allowlist anti-spoofing''),
      (js ''help.securityIp'', js ''By default the X-Forwarded-For header is not trusted; the gateway uses the TCP peer IP. Behind a reverse proxy you MUST set the TRUSTED_PROXIES env var to the proxy CIDRs, otherwise the IP allowlist can be bypassed via a forged XFF header.''),
      (js ''help.securityHeadersLabel'', js ''Security response headers''),
      (js ''help.securityHeaders'', js ''Automatically adds X-Content-Type-Options: nosniff, X-Frame-Options: DENY, Referrer-Policy to mitigate MIME sniffing and clickjacking.''),
      (js ''help.securitySecretsLabel'', js ''Default-secret warnings''),
      (js ''help.securitySecrets'', js ''JWT_SECRET and MASTER_KEY defaults are insecure; startup prints a [security] WARNING. Always override them via env vars in production.''),
      (js ''help.securityJwtLabel'', js ''JWT''),
      (js ''help.securityJwt'', js ''HS256-signed; parsing enforces the HMAC algorithm (rejects alg=none / algorithm confusion) and validates exp expiry.''),
      (js ''help.securityStorageLabel'', js ''Secret storage''),
      (js ''help.securityStorage'', js ''Gateway API keys are stored as SHA256 hashes; vendor API keys are AES-GCM encrypted at rest (master key = MASTER_KEY; changing it leaves existing ciphertext undecryptable).''),
      (js ''help.securityTopologyLabel'', js ''No upstream topology leak''),
      (js ''help.securityTopology'', js ''Client-facing error messages do not expose upstream provider names (the audit log and server-side [upstream] log still retain them for admins).''),
      (js ''help.securityTlsLabel'', js ''TLS / reverse proxy''),
      (js ''help.securityTls'', js ''Built-in serves HTTP; in production front it with Nginx to terminate TLS and point TRUSTED_PROXIES at that proxy.''),
      (js ''help.starTitle'', js ''Project Repository''),
      (js ''help.starBody'', js ''This project is open-sourced on GitHub under the Apache-2.0 license. If you find it useful, a Star on GitHub helps others discover it '' @ [8212] @ js '' and costs you nothing.''),
      (js ''help.starBtn'', js ''Star on GitHub''),
      (js ''help.starIssue'', js ''Open an Issue / Feedback'')]"

definition zh_injection :: "(jsstring \<times> jsstring) list" where
  "zh_injection =
     [(js ''injection.title'', [27880, 20837, 35268, 21017, 31649, 29702]),
      (js ''injection.desc'', [37197, 32622, 25552, 31034, 35789, 27880, 20837] @ js '' / '' @ [36234, 29425, 25915, 20987, 26816, 27979, 35268, 21017, 65288] @ js ''REQ-010'' @ [65289, 12290]),
      (js ''injection.fromTemplates'', [20174, 39044, 32622, 27169, 26495, 28155, 21152]),
      (js ''injection.add'', [26032, 24314, 35268, 21017]),
      (js ''injection.searchPh'', [25353, 35268, 21017, 21517, 25628, 32034]),
      (js ''injection.colName'', [35268, 21017, 21517]),
      (js ''injection.colMode'', [21305, 37197, 27169, 24335]),
      (js ''injection.colPattern'', [27491, 21017] @ js ''/'' @ [20851, 38190, 35789]),
      (js ''injection.deleteTitle'', [21024, 38500, 35268, 21017]),
      (js ''injection.deleteConfirm'', [30830, 35748, 21024, 38500, 12300] @ js ''{{name}}'' @ [12301, 65311]),
      (js ''injection.created'', [35268, 21017, 24050, 21019, 24314]),
      (js ''injection.updated'', [35268, 21017, 24050, 26356, 26032]),
      (js ''injection.noTemplateChecked'', [26410, 21246, 36873, 20219, 20309, 27169, 26495]),
      (js ''injection.tplCreated'', [24050, 21019, 24314] @ js '' {{ok}} '' @ [26465, 65292, 22833, 36133] @ js '' {{n}} '' @ [26465, 65306] @ js ''{{failed}}''),
      (js ''injection.tplCreatedAll'', [24050, 20174, 39044, 32622, 27169, 26495, 21019, 24314] @ js '' {{ok}} '' @ [26465, 35268, 21017]),
      (js ''injection.editTitle'', [32534, 36753, 35268, 21017, 65306] @ js ''{{name}}''),
      (js ''injection.createTitle'', [26032, 24314, 27880, 20837, 35268, 21017]),
      (js ''injection.nameLabel'', [35268, 21017, 21517, 31216]),
      (js ''injection.nameReq'', [35831, 36755, 20837, 35268, 21017, 21517]),
      (js ''injection.namePh'', [20363, 22914] @ js '' '' @ [24573, 30053, 31995, 32479, 25351, 20196]),
      (js ''injection.modeLabel'', [21305, 37197, 27169, 24335]),
      (js ''injection.patternLabel'', [26816, 27979, 34920, 36798, 24335]),
      (js ''injection.patternTooltip'', [27491, 21017, 25110, 20851, 38190, 35789, 65307, 27491, 21017, 21512, 27861, 24615, 30001, 21518, 31471, 26657, 39564]),
      (js ''injection.patternReq'', [35831, 36755, 20837, 26816, 27979, 34920, 36798, 24335]),
      (js ''injection.patternPh'', [20363, 22914] @ js '' ignore (all |the )?previous instructions''),
      (js ''injection.actionLabel'', [22788, 29702, 21160, 20316]),
      (js ''injection.templateTitle'', [20174, 39044, 32622, 27169, 26495, 28155, 21152, 27880, 20837, 35268, 21017]),
      (js ''injection.tplTip'', [21246, 36873, 39044, 32622, 27169, 26495, 21518, 28857, 20987, 30830, 23450, 25209, 37327, 21019, 24314, 65288, 25552, 31034, 35789, 27880, 20837] @ js '' / '' @ [36234, 29425, 25915, 20987, 24120, 29992, 27169, 24335, 65289, 12290]),
      (js ''injection.selectAll'', [20840, 36873]),
      (js ''injection.tplColPattern'', [34920, 36798, 24335])]"

definition en_injection :: "(jsstring \<times> jsstring) list" where
  "en_injection =
     [(js ''injection.title'', js ''Injection Rules''),
      (js ''injection.desc'', js ''Configure prompt-injection / jailbreak detection rules (REQ-010).''),
      (js ''injection.fromTemplates'', js ''Add from Presets''),
      (js ''injection.add'', js ''New Rule''),
      (js ''injection.searchPh'', js ''Search by rule name''),
      (js ''injection.colName'', js ''Rule Name''),
      (js ''injection.colMode'', js ''Match Mode''),
      (js ''injection.colPattern'', js ''Regex/Keyword''),
      (js ''injection.deleteTitle'', js ''Delete Rule''),
      (js ''injection.deleteConfirm'', js ''Delete '' @ [34] @ js ''{{name}}'' @ [34] @ js ''?''),
      (js ''injection.created'', js ''Rule created''),
      (js ''injection.updated'', js ''Rule updated''),
      (js ''injection.noTemplateChecked'', js ''No template selected''),
      (js ''injection.tplCreated'', js ''Created {{ok}}, failed {{n}}: {{failed}}''),
      (js ''injection.tplCreatedAll'', js ''Created {{ok}} rules from presets''),
      (js ''injection.editTitle'', js ''Edit Rule: {{name}}''),
      (js ''injection.createTitle'', js ''New Injection Rule''),
      (js ''injection.nameLabel'', js ''Rule Name''),
      (js ''injection.nameReq'', js ''Please enter a rule name''),
      (js ''injection.namePh'', js ''e.g. ignore system instructions''),
      (js ''injection.modeLabel'', js ''Match Mode''),
      (js ''injection.patternLabel'', js ''Detection Expression''),
      (js ''injection.patternTooltip'', js ''Regex or keyword; regex validity is checked by the backend''),
      (js ''injection.patternReq'', js ''Please enter a detection expression''),
      (js ''injection.patternPh'', js ''e.g. ignore (all |the )?previous instructions''),
      (js ''injection.actionLabel'', js ''Handling Action''),
      (js ''injection.templateTitle'', js ''Add Injection Rules from Presets''),
      (js ''injection.tplTip'', js ''Check preset templates and click OK to create in batch (common prompt-injection / jailbreak patterns).''),
      (js ''injection.selectAll'', js ''Select All''),
      (js ''injection.tplColPattern'', js ''Expression'')]"

definition zh_keywords :: "(jsstring \<times> jsstring) list" where
  "zh_keywords =
     [(js ''keywords.title'', [25935, 24863, 35789, 31649, 29702]),
      (js ''keywords.description'', [31649, 29702, 25935, 24863, 35789, 24211, 65288] @ js ''REQ-008'' @ [65289, 65292, 25903, 25345, 20998, 31867] @ js ''/'' @ [27169, 24335] @ js ''/'' @ [21160, 20316] @ js ''/'' @ [21551, 29992, 31579, 36873, 12289, 25209, 37327, 23548, 20837, 23548, 20986, 19982, 21629, 20013, 27979, 35797, 12290]),
      (js ''keywords.testTool'', [27979, 35797, 24037, 20855]),
      (js ''keywords.exportCsv'', [23548, 20986] @ js '' CSV''),
      (js ''keywords.bulkImport'', [25209, 37327, 23548, 20837]),
      (js ''keywords.add'', [28155, 21152, 25935, 24863, 35789]),
      (js ''keywords.searchPlaceholder'', [25628, 32034, 20851, 38190, 35789]),
      (js ''keywords.categoryPlaceholder'', [20998, 31867]),
      (js ''keywords.actionPlaceholder'', [21160, 20316]),
      (js ''keywords.enabledFilter'', [21551, 29992, 29366, 24577]),
      (js ''keywords.enabledTrue'', [21551, 29992]),
      (js ''keywords.enabledFalse'', [20572, 29992]),
      (js ''keywords.colId'', js ''ID''),
      (js ''keywords.colWord'', [20851, 38190, 35789]),
      (js ''keywords.colCategory'', [20998, 31867]),
      (js ''keywords.colMatchMode'', [21305, 37197, 27169, 24335]),
      (js ''keywords.colAction'', [21160, 20316]),
      (js ''keywords.colEnabled'', [21551, 29992]),
      (js ''keywords.colCreatedAt'', [21019, 24314, 26102, 38388]),
      (js ''keywords.colOperation'', [25805, 20316]),
      (js ''keywords.edit'', [32534, 36753]),
      (js ''keywords.delete'', [21024, 38500]),
      (js ''keywords.deleteTitle'', [21024, 38500, 25935, 24863, 35789]),
      (js ''keywords.deleteConfirm'', [30830, 35748, 21024, 38500, 12300] @ js ''{{word}}'' @ [12301, 65311]),
      (js ''keywords.addTitle'', [28155, 21152, 25935, 24863, 35789]),
      (js ''keywords.editTitle'', [32534, 36753, 25935, 24863, 35789] @ js '' #{{id}}''),
      (js ''keywords.wordLabel'', [20851, 38190, 35789, 25991, 26412]),
      (js ''keywords.wordRequired'', [35831, 36755, 20837, 20851, 38190, 35789]),
      (js ''keywords.wordPlaceholder'', [35201, 25318, 25130] @ js ''/'' @ [21578, 35686] @ js ''/'' @ [35760, 24405, 30340, 20851, 38190, 35789]),
      (js ''keywords.catLabel'', [25152, 23646, 31867, 21035]),
      (js ''keywords.matchModeLabel'', [21305, 37197, 27169, 24335]),
      (js ''keywords.actLabel'', [22788, 29702, 21160, 20316]),
      (js ''keywords.enabledLabel'', [21551, 29992]),
      (js ''keywords.importTitle'', [25209, 37327, 23548, 20837, 25935, 24863, 35789, 65288] @ js ''CSV'' @ [65289]),
      (js ''keywords.importOk'', [24320, 22987, 23548, 20837]),
      (js ''keywords.importFormat'', js ''CSV '' @ [26684, 24335, 65288, 27599, 34892, 19968, 26465, 65292, 31532, 19968, 34892, 21487, 20026, 34920, 22836, 20063, 21487, 30465, 30053, 65289, 65306] @ js ''{{header}}''),
      (js ''keywords.importEnums'', [26522, 20030, 21462, 20540, 65306] @ js ''category '' @ [20026] @ js '' political/porn/violence/illegal/discrimination/custom'' @ [65307] @ js ''match_mode '' @ [20026] @ js '' contains/exact/regex'' @ [65307] @ js ''action '' @ [20026] @ js '' block/warn/log'' @ [65307] @ js ''enabled '' @ [21487, 30465, 30053, 65288, 40664, 35748] @ js '' true'' @ [65289, 12290]),
      (js ''keywords.importPaste'', [31896, 36148, 25991, 26412]),
      (js ''keywords.importUpload'', [19978, 20256] @ js '' CSV '' @ [25991, 20214]),
      (js ''keywords.importPastePlaceholder'', [20363, 22914, 65306, 10, 36172, 21338] @ js '',political,contains,block'' @ [10, 26292, 21147, 20652, 25910] @ js '',violence,exact,block''),
      (js ''keywords.selectFile'', [36873, 25321] @ js '' CSV '' @ [25991, 20214]),
      (js ''keywords.pasteFirst'', [35831, 20808, 31896, 36148] @ js '' CSV '' @ [20869, 23481]),
      (js ''keywords.selectFileFirst'', [35831, 36873, 25321] @ js '' CSV '' @ [25991, 20214]),
      (js ''keywords.fileReadFailed'', [25991, 20214, 35835, 21462, 22833, 36133]),
      (js ''keywords.importDone'', [23548, 20837, 23436, 25104, 65306, 26032, 22686] @ js '' {{created}} '' @ [26465, 65292, 36339, 36807] @ js '' {{skipped}} '' @ [26465]),
      (js ''keywords.savedNew'', [25935, 24863, 35789, 24050, 28155, 21152]),
      (js ''keywords.savedEdit'', [25935, 24863, 35789, 24050, 26356, 26032]),
      (js ''keywords.deleted'', [24050, 21024, 38500]),
      (js ''keywords.testDrawerTitle'', [25935, 24863, 35789, 21629, 20013, 27979, 35797]),
      (js ''keywords.testRun'', [24320, 22987, 27979, 35797]),
      (js ''keywords.testHint'', [36755, 20837, 19968, 27573, 25991, 26412, 65292, 26816, 27979, 20854, 20013, 21629, 20013, 30340, 25935, 24863, 35789, 19982, 22788, 29702, 21160, 20316, 12290]),
      (js ''keywords.testPlaceholder'', [36755, 20837, 24453, 26816, 27979, 25991, 26412, 8230]),
      (js ''keywords.testTextRequired'', [35831, 36755, 20837, 35201, 27979, 35797, 30340, 25991, 26412]),
      (js ''keywords.testResultLabel'', [26816, 27979, 32467, 26524, 65306]),
      (js ''keywords.testBlocked'', [21028, 23450, 20026, 38656, 25318, 25130]),
      (js ''keywords.testNotBlocked'', [26410, 21629, 20013, 25318, 25130, 21160, 20316]),
      (js ''keywords.testNoHits'', [26080, 21629, 20013, 12290]),
      (js ''keywords.colHitType'', [31867, 22411]),
      (js ''keywords.colHitValue'', [21629, 20013, 20869, 23481])]"

definition en_keywords :: "(jsstring \<times> jsstring) list" where
  "en_keywords =
     [(js ''keywords.title'', js ''Keyword Management''),
      (js ''keywords.description'', js ''Manage the keyword library (REQ-008), supporting category/mode/action/enabled filters, bulk import/export, and hit testing.''),
      (js ''keywords.testTool'', js ''Test Tool''),
      (js ''keywords.exportCsv'', js ''Export CSV''),
      (js ''keywords.bulkImport'', js ''Bulk Import''),
      (js ''keywords.add'', js ''Add Keyword''),
      (js ''keywords.searchPlaceholder'', js ''Search keyword''),
      (js ''keywords.categoryPlaceholder'', js ''Category''),
      (js ''keywords.actionPlaceholder'', js ''Action''),
      (js ''keywords.enabledFilter'', js ''Status''),
      (js ''keywords.enabledTrue'', js ''Enabled''),
      (js ''keywords.enabledFalse'', js ''Disabled''),
      (js ''keywords.colId'', js ''ID''),
      (js ''keywords.colWord'', js ''Keyword''),
      (js ''keywords.colCategory'', js ''Category''),
      (js ''keywords.colMatchMode'', js ''Match Mode''),
      (js ''keywords.colAction'', js ''Action''),
      (js ''keywords.colEnabled'', js ''Enabled''),
      (js ''keywords.colCreatedAt'', js ''Created At''),
      (js ''keywords.colOperation'', js ''Actions''),
      (js ''keywords.edit'', js ''Edit''),
      (js ''keywords.delete'', js ''Delete''),
      (js ''keywords.deleteTitle'', js ''Delete Keyword''),
      (js ''keywords.deleteConfirm'', js ''Delete '' @ [34] @ js ''{{word}}'' @ [34] @ js ''?''),
      (js ''keywords.addTitle'', js ''Add Keyword''),
      (js ''keywords.editTitle'', js ''Edit Keyword #{{id}}''),
      (js ''keywords.wordLabel'', js ''Keyword Text''),
      (js ''keywords.wordRequired'', js ''Please enter a keyword''),
      (js ''keywords.wordPlaceholder'', js ''Keyword to block/warn/log''),
      (js ''keywords.catLabel'', js ''Category''),
      (js ''keywords.matchModeLabel'', js ''Match Mode''),
      (js ''keywords.actLabel'', js ''Action''),
      (js ''keywords.enabledLabel'', js ''Enabled''),
      (js ''keywords.importTitle'', js ''Bulk Import Keywords (CSV)''),
      (js ''keywords.importOk'', js ''Start Import''),
      (js ''keywords.importFormat'', js ''CSV format (one per line; first line may be a header or omitted): {{header}}''),
      (js ''keywords.importEnums'', js ''Enum values: category = political/porn/violence/illegal/discrimination/custom; match_mode = contains/exact/regex; action = block/warn/log; enabled is optional (default true).''),
      (js ''keywords.importPaste'', js ''Paste Text''),
      (js ''keywords.importUpload'', js ''Upload CSV File''),
      (js ''keywords.importPastePlaceholder'', js ''e.g.'' @ [10] @ js ''gambling,political,contains,block'' @ [10] @ js ''violent collection,violence,exact,block''),
      (js ''keywords.selectFile'', js ''Select CSV File''),
      (js ''keywords.pasteFirst'', js ''Please paste CSV content first''),
      (js ''keywords.selectFileFirst'', js ''Please select a CSV file''),
      (js ''keywords.fileReadFailed'', js ''Failed to read file''),
      (js ''keywords.importDone'', js ''Import done: {{created}} added, {{skipped}} skipped''),
      (js ''keywords.savedNew'', js ''Keyword added''),
      (js ''keywords.savedEdit'', js ''Keyword updated''),
      (js ''keywords.deleted'', js ''Deleted''),
      (js ''keywords.testDrawerTitle'', js ''Keyword Hit Test''),
      (js ''keywords.testRun'', js ''Run Test''),
      (js ''keywords.testHint'', js ''Enter a text to detect matching keywords and their actions.''),
      (js ''keywords.testPlaceholder'', js ''Enter text to test'' @ [8230]),
      (js ''keywords.testTextRequired'', js ''Please enter the text to test''),
      (js ''keywords.testResultLabel'', js ''Result:''),
      (js ''keywords.testBlocked'', js ''Blocked''),
      (js ''keywords.testNotBlocked'', js ''No blocking action hit''),
      (js ''keywords.testNoHits'', js ''No hits.''),
      (js ''keywords.colHitType'', js ''Type''),
      (js ''keywords.colHitValue'', js ''Hit Content'')]"

end
