(* ===== verification/PageCatalogs2.thy ===== *)
theory PageCatalogs2
  imports HttpClient
begin

text \<open>
  The message catalogues of the pages, frontend/src/i18n/locales/zh-CN/pages and en-US/pages, from
  login.ts to tokenStats.ts: a list of key and text in the order of the file. A text outside ASCII
  is written as its UTF-16 code units.
\<close>

definition zh_login :: "(jsstring \<times> jsstring) list" where
  "zh_login =
     [(js ''login.title'', js ''AI '' @ [32593, 20851, 31649, 29702, 24179, 21488]),
      (js ''login.subtitle'', js ''AI Gateway & Model Guardrails '' @ [31649, 29702, 21518, 21488]),
      (js ''login.stepCredentials'', [36134, 21495, 23494, 30721]),
      (js ''login.stepMfa'', js ''MFA '' @ [39564, 35777]),
      (js ''login.username'', [29992, 25143, 21517]),
      (js ''login.password'', [23494, 30721]),
      (js ''login.usernameRequired'', [35831, 36755, 20837, 29992, 25143, 21517]),
      (js ''login.passwordRequired'', [35831, 36755, 20837, 23494, 30721]),
      (js ''login.submit'', [30331] @ js '' '' @ [24405]),
      (js ''login.mfaBannerTitle'', [36134, 25143, 24050, 24320, 21551, 20004, 27493, 39564, 35777]),
      (js ''login.mfaBannerDesc'', [35831, 36755, 20837, 36523, 20221, 39564, 35777, 22120, 20013, 30340] @ js '' 6 '' @ [20301, 21160, 24577, 39564, 35777, 30721, 65307, 22914, 38656, 20351, 29992, 22791, 29992, 24674, 22797, 30721, 65292, 35831, 21246, 36873, 19979, 26041, 36873, 39033, 12290]),
      (js ''login.mfaCodeLabel'', [21160, 24577, 39564, 35777, 30721]),
      (js ''login.recoveryCodeLabel'', [24674, 22797, 30721]),
      (js ''login.mfaCodeRequired'', [35831, 36755, 20837, 21160, 24577, 39564, 35777, 30721]),
      (js ''login.recoveryCodeRequired'', [35831, 36755, 20837, 24674, 22797, 30721]),
      (js ''login.mfaCodePlaceholder'', js ''6 '' @ [20301, 25968, 23383]),
      (js ''login.recoveryCodePlaceholder'', [20363, 22914, 65306] @ js ''xxxx-xxxx-xxxx''),
      (js ''login.useRecovery'', [20351, 29992, 24674, 22797, 30721, 30331, 24405]),
      (js ''login.verifyAndLogin'', [39564, 35777, 24182, 30331, 24405]),
      (js ''login.backToPrevStep'', [36820, 22238, 19978, 19968, 27493]),
      (js ''login.needBindMfa'', [26816, 27979, 21040, 24744, 23578, 26410, 32465, 23450] @ js '' MFA'' @ [65292, 35831, 20808, 23436, 25104, 32465, 23450, 20197, 25552, 21319, 36134, 25143, 23433, 20840]),
      (js ''login.loginResponseInvalid'', [30331, 24405, 21709, 24212, 24322, 24120, 65292, 35831, 37325, 35797]),
      (js ''login.invalidCredentials'', [36134, 21495, 25110, 23494, 30721, 38169, 35823]),
      (js ''login.mfaCodeMissing'', [35831, 36755, 20837, 39564, 35777, 30721, 25110, 24674, 22797, 30721]),
      (js ''login.rateLimited'', [23581, 35797, 36807, 20110, 39057, 32321, 65292, 35831, 31245, 21518, 20877, 35797]),
      (js ''login.changePasswordTitle'', [20462, 25913, 21021, 22987, 23494, 30721]),
      (js ''login.changePasswordHint'', [39318, 27425, 30331, 24405, 24517, 39035, 20462, 25913, 21021, 22987, 23494, 30721]),
      (js ''login.changePasswordDesc'', [24403, 21069, 20250, 35805, 20165, 20801, 35768, 20462, 25913, 23494, 30721, 12290, 20462, 25913, 25104, 21151, 21518, 38656, 20351, 29992, 26032, 23494, 30721, 37325, 26032, 30331, 24405, 12290]),
      (js ''login.oldPassword'', [24403, 21069, 23494, 30721]),
      (js ''login.oldPasswordRequired'', [35831, 36755, 20837, 24403, 21069, 23494, 30721]),
      (js ''login.newPassword'', [26032, 23494, 30721]),
      (js ''login.newPasswordRequired'', [35831, 36755, 20837, 26032, 23494, 30721]),
      (js ''login.newPasswordLen'', [26032, 23494, 30721, 38656, 20026] @ js '' 10-72 '' @ [23383, 33410]),
      (js ''login.pwdPolicy'', [33267, 23569] @ js '' 10 '' @ [20010, 23383, 31526, 65292, 19988, 21253, 21547, 22823, 20889, 23383, 27597, 12289, 23567, 20889, 23383, 27597, 12289, 25968, 23383, 12289, 31526, 21495, 20013, 30340, 33267, 23569] @ js '' 3 '' @ [31867, 65307, 19981, 24471, 20351, 29992, 24120, 35265, 24369, 21475, 20196, 65292, 20063, 19981, 24471, 21253, 21547, 29992, 25143, 21517, 12290]),
      (js ''login.confirmPassword'', [30830, 35748, 26032, 23494, 30721]),
      (js ''login.confirmPasswordRequired'', [35831, 20877, 27425, 36755, 20837, 26032, 23494, 30721]),
      (js ''login.changePasswordSubmit'', [20462, 25913, 23494, 30721, 24182, 37325, 26032, 30331, 24405]),
      (js ''login.passwordMismatch'', [20004, 27425, 36755, 20837, 30340, 26032, 23494, 30721, 19981, 19968, 33268]),
      (js ''login.passwordChangedRelogin'', [23494, 30721, 24050, 20462, 25913, 65292, 35831, 20351, 29992, 26032, 23494, 30721, 37325, 26032, 30331, 24405])]"

definition en_login :: "(jsstring \<times> jsstring) list" where
  "en_login =
     [(js ''login.title'', js ''AI Gateway Admin''),
      (js ''login.subtitle'', js ''AI Gateway & Model Guardrails Console''),
      (js ''login.stepCredentials'', js ''Credentials''),
      (js ''login.stepMfa'', js ''MFA Verification''),
      (js ''login.username'', js ''Username''),
      (js ''login.password'', js ''Password''),
      (js ''login.usernameRequired'', js ''Please enter your username''),
      (js ''login.passwordRequired'', js ''Please enter your password''),
      (js ''login.submit'', js ''Sign In''),
      (js ''login.mfaBannerTitle'', js ''Two-factor authentication is enabled''),
      (js ''login.mfaBannerDesc'', js ''Enter the 6-digit code from your authenticator. To use a backup recovery code instead, check the option below.''),
      (js ''login.mfaCodeLabel'', js ''Verification Code''),
      (js ''login.recoveryCodeLabel'', js ''Recovery Code''),
      (js ''login.mfaCodeRequired'', js ''Please enter the verification code''),
      (js ''login.recoveryCodeRequired'', js ''Please enter the recovery code''),
      (js ''login.mfaCodePlaceholder'', js ''6 digits''),
      (js ''login.recoveryCodePlaceholder'', js ''e.g. xxxx-xxxx-xxxx''),
      (js ''login.useRecovery'', js ''Sign in with recovery code''),
      (js ''login.verifyAndLogin'', js ''Verify & Sign In''),
      (js ''login.backToPrevStep'', js ''Back''),
      (js ''login.needBindMfa'', js ''MFA is not bound to your account yet. Please bind it to improve account security.''),
      (js ''login.loginResponseInvalid'', js ''Invalid login response, please try again''),
      (js ''login.invalidCredentials'', js ''Invalid username or password''),
      (js ''login.mfaCodeMissing'', js ''Please enter a verification or recovery code''),
      (js ''login.rateLimited'', js ''Too many attempts, please try again later''),
      (js ''login.changePasswordTitle'', js ''Change Initial Password''),
      (js ''login.changePasswordHint'', js ''Password change required on first sign-in''),
      (js ''login.changePasswordDesc'', js ''This session only allows changing the password. You will need to sign in again with the new password.''),
      (js ''login.oldPassword'', js ''Current password''),
      (js ''login.oldPasswordRequired'', js ''Please enter your current password''),
      (js ''login.newPassword'', js ''New password''),
      (js ''login.newPasswordRequired'', js ''Please enter a new password''),
      (js ''login.newPasswordLen'', js ''New password must be 10-72 bytes''),
      (js ''login.pwdPolicy'', js ''At least 10 characters, including at least 3 of: uppercase letters, lowercase letters, digits, symbols. Common weak passwords and anything containing the username are rejected.''),
      (js ''login.confirmPassword'', js ''Confirm new password''),
      (js ''login.confirmPasswordRequired'', js ''Please re-enter the new password''),
      (js ''login.changePasswordSubmit'', js ''Change password & sign in again''),
      (js ''login.passwordMismatch'', js ''The two new passwords do not match''),
      (js ''login.passwordChangedRelogin'', js ''Password changed '' @ [8212] @ js '' please sign in with the new password'')]"

definition zh_models :: "(jsstring \<times> jsstring) list" where
  "zh_models =
     [(js ''models.title'', [27169, 22411, 21035, 21517, 31649, 29702]),
      (js ''models.desc'', [23558, 19994, 21153, 27169, 22411, 21035, 21517, 26144, 23556, 21040, 22810, 20010, 19978, 28216, 20379, 24212, 21830, 65288, 21152, 26435] @ js '' SLB'' @ [65289, 65288] @ js ''REQ-006'' @ [65289, 12290]),
      (js ''models.add'', [26032, 24314, 27169, 22411, 21035, 21517]),
      (js ''models.searchPh'', [25353, 21035, 21517, 25628, 32034]),
      (js ''models.colUpstreams'', [19978, 28216, 65288, 20379, 24212, 21830] @ js '' / '' @ [27169, 22411, 21517] @ js '' '' @ [215] @ js '' '' @ [26435, 37325, 65289]),
      (js ''models.disabled'', [65288, 24050, 20572, 29992, 65289]),
      (js ''models.noUpstreams'', [26080, 19978, 28216]),
      (js ''models.colAlias'', [21035, 21517]),
      (js ''models.colRemark'', [22791, 27880]),
      (js ''models.colUpdatedAt'', [26356, 26032, 26102, 38388]),
      (js ''models.stats'', [32479, 35745]),
      (js ''models.deleteTitle'', [21024, 38500, 27169, 22411, 21035, 21517]),
      (js ''models.deleteConfirm'', [30830, 35748, 21024, 38500, 12300] @ js ''{{alias}}'' @ [12301, 65311]),
      (js ''models.created'', [27169, 22411, 21035, 21517, 24050, 21019, 24314]),
      (js ''models.updated'', [27169, 22411, 21035, 21517, 24050, 26356, 26032]),
      (js ''models.enabledOk'', [24050, 21551, 29992]),
      (js ''models.disabledOk'', [24050, 31105, 29992]),
      (js ''models.editTitle'', [32534, 36753, 27169, 22411, 21035, 21517, 65306] @ js ''{{alias}}''),
      (js ''models.createTitle'', [26032, 24314, 27169, 22411, 21035, 21517]),
      (js ''models.aliasLabel'', [21035, 21517, 21517, 31216]),
      (js ''models.aliasReq'', [35831, 36755, 20837, 21035, 21517]),
      (js ''models.aliasPh'', [20363, 22914] @ js '' gpt-4''),
      (js ''models.remarkPh'', [22791, 27880, 65288, 21487, 36873, 65289]),
      (js ''models.defaultMaxTokensLabel'', [40664, 35748] @ js '' max_tokens''),
      (js ''models.defaultMaxTokensTip'', [35831, 27714, 26410, 24102] @ js '' max_tokens '' @ [26102, 33258, 21160, 27880, 20837, 27492, 20540, 65288] @ js ''0='' @ [19981, 27880, 20837, 65289, 12290, 25512, 29702, 27169, 22411, 65288] @ js ''GLM/DeepSeek '' @ [31561, 65289, 21378, 21830, 40664, 35748, 34917, 20840, 19978, 38480, 24120, 21482, 26377] @ js '' ~1000 token'' @ [65292, 24605, 32500, 38142, 21363, 32791, 23613, 23548, 33268, 34, 31354, 22238, 31572] @ js ''/'' @ [20013, 36884, 25130, 26029, 34, 65292, 24314, 35758, 35774, 20026] @ js '' 4096~131072'' @ [12290]),
      (js ''models.defaultMaxTokensRange'', [38750, 36127, 25972, 25968]),
      (js ''models.upstreamsTitle'', [19978, 28216, 20379, 24212, 21830, 19982, 26435, 37325]),
      (js ''models.upstreamsHint'', [25353, 26435, 37325, 27604, 20363, 20998, 21457, 27969, 37327, 65288, 26435, 37325, 20026, 27491, 25972, 25968, 65289, 65292, 21487, 28155, 21152, 22810, 20010, 19978, 28216, 12290]),
      (js ''models.providerReq'', [36873, 25321, 20379, 24212, 21830]),
      (js ''models.providerPh'', [20379, 24212, 21830]),
      (js ''models.upstreamModelReq'', [19978, 28216, 27169, 22411, 21517]),
      (js ''models.upstreamModelPh'', [19978, 28216, 27169, 22411, 21517, 65292, 22914] @ js '' gpt-4-0613''),
      (js ''models.weightReq'', [26435, 37325]),
      (js ''models.weightInt'', [27491, 25972, 25968]),
      (js ''models.weightPh'', [26435, 37325]),
      (js ''models.addUpstream'', [28155, 21152, 19978, 28216]),
      (js ''models.statsTitle'', [35843, 29992, 32479, 35745, 65306] @ js ''{{alias}}''),
      (js ''models.upstreamCount'', [19978, 28216, 25968]),
      (js ''models.upstreamCountUnit'', js ''{{n}} '' @ [20010]),
      (js ''models.statusLabel'', [29366, 24577]),
      (js ''models.on'', [21551, 29992]),
      (js ''models.off'', [20572, 29992]),
      (js ''models.createdAt'', [21019, 24314, 26102, 38388]),
      (js ''models.calls7d'', [36817] @ js '' 7 '' @ [22825, 35843, 29992]),
      (js ''models.callsToday'', [20170, 26085, 35843, 29992]),
      (js ''models.blocked7d'', [36817] @ js '' 7 '' @ [22825, 25318, 25130]),
      (js ''models.avgLatency'', [24179, 22343, 24310, 36831])]"

definition en_models :: "(jsstring \<times> jsstring) list" where
  "en_models =
     [(js ''models.title'', js ''Model Aliases''),
      (js ''models.desc'', js ''Map a business model alias to multiple upstream providers (weighted SLB) (REQ-006).''),
      (js ''models.add'', js ''New Model Alias''),
      (js ''models.searchPh'', js ''Search by alias''),
      (js ''models.colUpstreams'', js ''Upstreams (provider / model '' @ [215] @ js '' weight)''),
      (js ''models.disabled'', js '' (disabled)''),
      (js ''models.noUpstreams'', js ''No upstreams''),
      (js ''models.colAlias'', js ''Alias''),
      (js ''models.colRemark'', js ''Remark''),
      (js ''models.colUpdatedAt'', js ''Updated At''),
      (js ''models.stats'', js ''Stats''),
      (js ''models.deleteTitle'', js ''Delete Model Alias''),
      (js ''models.deleteConfirm'', js ''Delete '' @ [34] @ js ''{{alias}}'' @ [34] @ js ''?''),
      (js ''models.created'', js ''Model alias created''),
      (js ''models.updated'', js ''Model alias updated''),
      (js ''models.enabledOk'', js ''Enabled''),
      (js ''models.disabledOk'', js ''Disabled''),
      (js ''models.editTitle'', js ''Edit Model Alias: {{alias}}''),
      (js ''models.createTitle'', js ''New Model Alias''),
      (js ''models.aliasLabel'', js ''Alias Name''),
      (js ''models.aliasReq'', js ''Please enter an alias''),
      (js ''models.aliasPh'', js ''e.g. gpt-4''),
      (js ''models.remarkPh'', js ''Remark (optional)''),
      (js ''models.defaultMaxTokensLabel'', js ''Default max_tokens''),
      (js ''models.defaultMaxTokensTip'', js ''Injected automatically when the request has no max_tokens (0 = disabled). Reasoning models (GLM/DeepSeek etc.) often default to ~1000 completion tokens on the vendor side '' @ [8212] @ js '' the chain-of-thought alone exhausts it, causing empty/short answers. Recommended: 4096~131072.''),
      (js ''models.defaultMaxTokensRange'', js ''Non-negative integer''),
      (js ''models.upstreamsTitle'', js ''Upstream Providers & Weights''),
      (js ''models.upstreamsHint'', js ''Traffic is distributed by weight (positive integers); multiple upstreams can be added.''),
      (js ''models.providerReq'', js ''Select a provider''),
      (js ''models.providerPh'', js ''Provider''),
      (js ''models.upstreamModelReq'', js ''Upstream model name''),
      (js ''models.upstreamModelPh'', js ''Upstream model, e.g. gpt-4-0613''),
      (js ''models.weightReq'', js ''Weight''),
      (js ''models.weightInt'', js ''Positive integer''),
      (js ''models.weightPh'', js ''Weight''),
      (js ''models.addUpstream'', js ''Add Upstream''),
      (js ''models.statsTitle'', js ''Call Stats: {{alias}}''),
      (js ''models.upstreamCount'', js ''Upstreams''),
      (js ''models.upstreamCountUnit'', js ''{{n}}''),
      (js ''models.statusLabel'', js ''Status''),
      (js ''models.on'', js ''Enabled''),
      (js ''models.off'', js ''Disabled''),
      (js ''models.createdAt'', js ''Created At''),
      (js ''models.calls7d'', js ''Calls (7d)''),
      (js ''models.callsToday'', js ''Calls Today''),
      (js ''models.blocked7d'', js ''Blocked (7d)''),
      (js ''models.avgLatency'', js ''Avg Latency'')]"

definition zh_notFound :: "(jsstring \<times> jsstring) list" where
  "zh_notFound =
     [(js ''notFound.subTitle'', [25265, 27465, 65292, 24744, 35775, 38382, 30340, 39029, 38754, 19981, 23384, 22312, 12290]),
      (js ''notFound.backHome'', [36820, 22238, 39318, 39029])]"

definition en_notFound :: "(jsstring \<times> jsstring) list" where
  "en_notFound =
     [(js ''notFound.subTitle'', js ''Sorry, the page you visited does not exist.''),
      (js ''notFound.backHome'', js ''Back to Home'')]"

definition zh_operations :: "(jsstring \<times> jsstring) list" where
  "zh_operations =
     [(js ''ops.title'', [25805, 20316, 23457, 35745]),
      (js ''ops.desc'', [25152, 26377, 37197, 32622, 21464, 26356, 25805, 20316, 30340, 20840, 38142, 36335, 36861, 28335, 65288] @ js ''REQ-003'' @ [65289, 65306, 25805, 20316, 20154, 12289, 31867, 22411, 12289, 27169, 22359, 12289, 21464, 26356, 21069, 21518, 23545, 27604, 12289] @ js ''IP'' @ [12289, 29983, 25928, 29366, 24577, 12290]),
      (js ''ops.export'', [23548, 20986] @ js '' CSV''),
      (js ''ops.exportOk'', [23548, 20986, 20219, 21153, 24050, 35302, 21457, 65292, 35831, 26597, 30475, 27983, 35272, 22120, 19979, 36733]),
      (js ''ops.operatorPh'', [25805, 20316, 20154]),
      (js ''ops.modulePh'', [27169, 22359]),
      (js ''ops.actionPh'', [25805, 20316, 31867, 22411]),
      (js ''ops.search'', [26597, 35810]),
      (js ''ops.colTime'', [26102, 38388]),
      (js ''ops.colOperator'', [25805, 20316, 20154]),
      (js ''ops.colAction'', [25805, 20316, 31867, 22411]),
      (js ''ops.colModule'', [27169, 22359]),
      (js ''ops.colTarget'', [23545, 35937]),
      (js ''ops.effective'', [37197, 32622, 29983, 25928]),
      (js ''ops.effectiveYes'', [24050, 29983, 25928]),
      (js ''ops.effectiveNo'', [24453, 29983, 25928]),
      (js ''ops.diff'', [21464, 26356, 23545, 27604]),
      (js ''ops.diffTitle'', [21464, 26356, 23545, 27604] @ js '' '' @ [8212] @ js '' {{detail}}''),
      (js ''ops.before'', [21464, 26356, 21069]),
      (js ''ops.after'', [21464, 26356, 21518]),
      (js ''ops.meta'', [25805, 20316, 20154, 65306] @ js ''{{operator}} '' @ [65372] @ js '' '' @ [26102, 38388, 65306] @ js ''{{time}} '' @ [65372] @ js '' IP'' @ [65306] @ js ''{{ip}} '' @ [65372] @ js '' {{state}}'')]"

definition en_operations :: "(jsstring \<times> jsstring) list" where
  "en_operations =
     [(js ''ops.title'', js ''Operation Audit''),
      (js ''ops.desc'', js ''Full trace of all config-change operations (REQ-003): operator, type, module, before/after diff, IP, effective status.''),
      (js ''ops.export'', js ''Export CSV''),
      (js ''ops.exportOk'', js ''Export job triggered '' @ [8212] @ js '' check your browser downloads''),
      (js ''ops.operatorPh'', js ''Operator''),
      (js ''ops.modulePh'', js ''Module''),
      (js ''ops.actionPh'', js ''Operation Type''),
      (js ''ops.search'', js ''Search''),
      (js ''ops.colTime'', js ''Time''),
      (js ''ops.colOperator'', js ''Operator''),
      (js ''ops.colAction'', js ''Operation Type''),
      (js ''ops.colModule'', js ''Module''),
      (js ''ops.colTarget'', js ''Target''),
      (js ''ops.effective'', js ''Effective''),
      (js ''ops.effectiveYes'', js ''Effective''),
      (js ''ops.effectiveNo'', js ''Pending''),
      (js ''ops.diff'', js ''Diff''),
      (js ''ops.diffTitle'', js ''Change Diff '' @ [8212] @ js '' {{detail}}''),
      (js ''ops.before'', js ''Before''),
      (js ''ops.after'', js ''After''),
      (js ''ops.meta'', js ''Operator: {{operator}} | Time: {{time}} | IP: {{ip}} | {{state}}'')]"

definition zh_outputFilter :: "(jsstring \<times> jsstring) list" where
  "zh_outputFilter =
     [(js ''outputFilter.title'', [36755, 20986, 36807, 28388, 37197, 32622]),
      (js ''outputFilter.desc'', [37197, 32622, 27169, 22411, 36755, 20986, 20869, 23481, 30340, 36807, 28388, 31574, 30053, 65288] @ js ''REQ-011'' @ [65289, 12290]),
      (js ''outputFilter.save'', [20445, 23384, 37197, 32622]),
      (js ''outputFilter.saveOk'', [36755, 20986, 36807, 28388, 37197, 32622, 24050, 20445, 23384, 65292, 28909, 21152, 36733, 29983, 25928]),
      (js ''outputFilter.enabled'', [21551, 29992, 36755, 20986, 26816, 27979]),
      (js ''outputFilter.on'', [21551, 29992]),
      (js ''outputFilter.off'', [20572, 29992]),
      (js ''outputFilter.strategy'', [36829, 35268, 21709, 24212, 31574, 30053]),
      (js ''outputFilter.strategyReq'', [35831, 36873, 25321, 36829, 35268, 21709, 24212, 31574, 30053]),
      (js ''outputFilter.safeMessage'', [33258, 23450, 20041, 23433, 20840, 25552, 31034, 35821, 27169, 26495]),
      (js ''outputFilter.safeMessageReq'', [35831, 36755, 20837, 23433, 20840, 25552, 31034, 35821, 27169, 26495]),
      (js ''outputFilter.safeMessagePh'', [25265, 27465, 65292, 35813, 22238, 31572, 21253, 21547, 19981, 24403, 20869, 23481, 12290]),
      (js ''outputFilter.chunkThreshold'', [27969, 24335, 26816, 27979, 38408, 20540, 65288, 23383, 31526, 65289]),
      (js ''outputFilter.chunkTooltip'', [27969, 24335, 36755, 20986, 32047, 31215, 36798, 21040, 35813, 23383, 31526, 25968, 26102, 36827, 34892, 19968, 27425, 26816, 27979]),
      (js ''outputFilter.chunkReq'', [35831, 36755, 20837, 27969, 24335, 26816, 27979, 38408, 20540])]"

definition en_outputFilter :: "(jsstring \<times> jsstring) list" where
  "en_outputFilter =
     [(js ''outputFilter.title'', js ''Output Filter''),
      (js ''outputFilter.desc'', js ''Configure the filtering policy for model output content (REQ-011).''),
      (js ''outputFilter.save'', js ''Save Configuration''),
      (js ''outputFilter.saveOk'', js ''Output filter saved, applied via hot reload''),
      (js ''outputFilter.enabled'', js ''Enable Output Detection''),
      (js ''outputFilter.on'', js ''Enabled''),
      (js ''outputFilter.off'', js ''Disabled''),
      (js ''outputFilter.strategy'', js ''Violation Response Strategy''),
      (js ''outputFilter.strategyReq'', js ''Please select a violation response strategy''),
      (js ''outputFilter.safeMessage'', js ''Custom Safe Message Template''),
      (js ''outputFilter.safeMessageReq'', js ''Please enter the safe message template''),
      (js ''outputFilter.safeMessagePh'', js ''Sorry, this response contains inappropriate content.''),
      (js ''outputFilter.chunkThreshold'', js ''Streaming Detection Threshold (chars)''),
      (js ''outputFilter.chunkTooltip'', js ''Run a detection once streamed output accumulates to this character count''),
      (js ''outputFilter.chunkReq'', js ''Please enter the streaming detection threshold'')]"

definition zh_pii :: "(jsstring \<times> jsstring) list" where
  "zh_pii =
     [(js ''pii.title'', js ''PII '' @ [35268, 21017, 31649, 29702]),
      (js ''pii.desc'', [37197, 32622, 20010, 20154, 36523, 20221, 20449, 24687, 65288, 25163, 26426, 21495] @ js ''/'' @ [36523, 20221, 35777] @ js ''/'' @ [37038, 31665, 31561, 65289, 35782, 21035, 19982, 22788, 29702, 31574, 30053, 65288] @ js ''REQ-009'' @ [65289, 12290]),
      (js ''pii.testTool'', [27979, 35797, 24037, 20855]),
      (js ''pii.fromTemplates'', [20174, 39044, 32622, 27169, 26495, 28155, 21152]),
      (js ''pii.add'', [26032, 24314, 35268, 21017]),
      (js ''pii.searchPh'', [25353, 35268, 21017, 21517, 25628, 32034]),
      (js ''pii.colName'', [35268, 21017, 21517]),
      (js ''pii.colCategory'', [31867, 21035]),
      (js ''pii.colPattern'', [27491, 21017, 34920, 36798, 24335]),
      (js ''pii.colReplacement'', [26367, 25442, 31526]),
      (js ''pii.colAction'', [21160, 20316]),
      (js ''pii.colCreatedAt'', [21019, 24314, 26102, 38388]),
      (js ''pii.deleteTitle'', [21024, 38500, 35268, 21017]),
      (js ''pii.deleteConfirm'', [30830, 35748, 21024, 38500, 12300] @ js ''{{name}}'' @ [12301, 65311]),
      (js ''pii.created'', [35268, 21017, 24050, 21019, 24314]),
      (js ''pii.updated'', [35268, 21017, 24050, 26356, 26032]),
      (js ''pii.noTemplateChecked'', [26410, 21246, 36873, 20219, 20309, 27169, 26495]),
      (js ''pii.tplCreated'', [24050, 21019, 24314] @ js '' {{ok}} '' @ [26465, 65292, 22833, 36133] @ js '' {{n}} '' @ [26465, 65306] @ js ''{{failed}}''),
      (js ''pii.tplCreatedAll'', [24050, 20174, 39044, 32622, 27169, 26495, 21019, 24314] @ js '' {{ok}} '' @ [26465, 35268, 21017]),
      (js ''pii.editTitle'', [32534, 36753, 35268, 21017, 65306] @ js ''{{name}}''),
      (js ''pii.createTitle'', [26032, 24314] @ js '' PII '' @ [35268, 21017]),
      (js ''pii.nameLabel'', [35268, 21017, 21517, 31216]),
      (js ''pii.nameReq'', [35831, 36755, 20837, 35268, 21017, 21517]),
      (js ''pii.namePh'', [20363, 22914] @ js '' '' @ [25163, 26426, 21495]),
      (js ''pii.categoryReq'', [35831, 36755, 20837, 31867, 21035]),
      (js ''pii.categoryPh'', [36873, 25321, 25110, 36755, 20837, 31867, 21035]),
      (js ''pii.patternTooltip'', [29992, 20110, 35782, 21035] @ js '' PII '' @ [30340, 27491, 21017, 65307, 21512, 27861, 24615, 30001, 21518, 31471, 26657, 39564]),
      (js ''pii.patternReq'', [35831, 36755, 20837, 27491, 21017, 34920, 36798, 24335]),
      (js ''pii.patternPh'', [20363, 22914] @ js '' 1[3-9]'' @ [92] @ js ''d{9}''),
      (js ''pii.replacementLabel'', [26367, 25442, 31526, 65288, 33073, 25935, 23637, 31034, 65289]),
      (js ''pii.replacementPh'', [20363, 22914] @ js '' [PHONE]''),
      (js ''pii.actionLabel'', [22788, 29702, 21160, 20316]),
      (js ''pii.templateTitle'', [20174, 39044, 32622, 27169, 26495, 28155, 21152] @ js '' PII '' @ [35268, 21017]),
      (js ''pii.selectAll'', [20840, 36873]),
      (js ''pii.tplTip'', [21246, 36873, 39044, 32622, 27169, 26495, 65288, 25163, 26426, 21495] @ js ''/'' @ [36523, 20221, 35777] @ js ''/'' @ [37038, 31665] @ js ''/'' @ [38134, 34892, 21345] @ js ''/'' @ [22320, 22336, 65289, 21518, 28857, 20987, 30830, 23450, 25209, 37327, 21019, 24314, 65292, 24050, 23384, 22312, 21516, 21517, 35268, 21017, 20250, 30001, 21518, 31471, 21435, 37325, 25552, 31034, 12290]),
      (js ''pii.testTitle'', js ''PII '' @ [35782, 21035, 27979, 35797]),
      (js ''pii.testRun'', [24320, 22987, 27979, 35797]),
      (js ''pii.testHint'', [36755, 20837, 19968, 27573, 25991, 26412, 65292, 39044, 35272, 35782, 21035, 21040, 30340] @ js '' PII '' @ [19982, 33073, 25935, 21518, 30340, 32467, 26524, 12290]),
      (js ''pii.testPh'', [20363, 22914, 65306, 25105, 30340, 25163, 26426, 21495, 26159] @ js '' 13800138000'' @ [8230]),
      (js ''pii.testInputReq'', [35831, 36755, 20837, 35201, 27979, 35797, 30340, 25991, 26412]),
      (js ''pii.testNone'', [26410, 35782, 21035, 21040] @ js '' PII'' @ [12290]),
      (js ''pii.testColRule'', [35268, 21017]),
      (js ''pii.testColSample'', [21629, 20013, 31034, 20363]),
      (js ''pii.testMasked'', [33073, 25935, 32467, 26524, 65306]),
      (js ''pii.testMaskedNone'', [65288, 26080, 33073, 25935, 36755, 20986, 65289])]"

definition en_pii :: "(jsstring \<times> jsstring) list" where
  "en_pii =
     [(js ''pii.title'', js ''PII Rules''),
      (js ''pii.desc'', js ''Configure detection & handling policies for personal data (phone / ID card / email, etc.) (REQ-009).''),
      (js ''pii.testTool'', js ''Test Tool''),
      (js ''pii.fromTemplates'', js ''Add from Presets''),
      (js ''pii.add'', js ''New Rule''),
      (js ''pii.searchPh'', js ''Search by rule name''),
      (js ''pii.colName'', js ''Rule Name''),
      (js ''pii.colCategory'', js ''Category''),
      (js ''pii.colPattern'', js ''Regex''),
      (js ''pii.colReplacement'', js ''Replacement''),
      (js ''pii.colAction'', js ''Action''),
      (js ''pii.colCreatedAt'', js ''Created At''),
      (js ''pii.deleteTitle'', js ''Delete Rule''),
      (js ''pii.deleteConfirm'', js ''Delete '' @ [34] @ js ''{{name}}'' @ [34] @ js ''?''),
      (js ''pii.created'', js ''Rule created''),
      (js ''pii.updated'', js ''Rule updated''),
      (js ''pii.noTemplateChecked'', js ''No template selected''),
      (js ''pii.tplCreated'', js ''Created {{ok}}, failed {{n}}: {{failed}}''),
      (js ''pii.tplCreatedAll'', js ''Created {{ok}} rules from presets''),
      (js ''pii.editTitle'', js ''Edit Rule: {{name}}''),
      (js ''pii.createTitle'', js ''New PII Rule''),
      (js ''pii.nameLabel'', js ''Rule Name''),
      (js ''pii.nameReq'', js ''Please enter a rule name''),
      (js ''pii.namePh'', js ''e.g. phone''),
      (js ''pii.categoryReq'', js ''Please enter a category''),
      (js ''pii.categoryPh'', js ''Select or type a category''),
      (js ''pii.patternTooltip'', js ''Regex used to detect PII; validity is checked by the backend''),
      (js ''pii.patternReq'', js ''Please enter a regex''),
      (js ''pii.patternPh'', js ''e.g. 1[3-9]'' @ [92] @ js ''d{9}''),
      (js ''pii.replacementLabel'', js ''Replacement (masked display)''),
      (js ''pii.replacementPh'', js ''e.g. [PHONE]''),
      (js ''pii.actionLabel'', js ''Handling Action''),
      (js ''pii.templateTitle'', js ''Add PII Rules from Presets''),
      (js ''pii.selectAll'', js ''Select All''),
      (js ''pii.tplTip'', js ''Check preset templates (phone / ID card / email / bank card / address) and click OK to create in batch; duplicate names are deduped by the backend.''),
      (js ''pii.testTitle'', js ''PII Detection Test''),
      (js ''pii.testRun'', js ''Run Test''),
      (js ''pii.testHint'', js ''Enter a text to preview detected PII and the masked result.''),
      (js ''pii.testPh'', js ''e.g. My phone number is 13800138000...''),
      (js ''pii.testInputReq'', js ''Please enter the text to test''),
      (js ''pii.testNone'', js ''No PII detected.''),
      (js ''pii.testColRule'', js ''Rule''),
      (js ''pii.testColSample'', js ''Sample Match''),
      (js ''pii.testMasked'', js ''Masked Result:''),
      (js ''pii.testMaskedNone'', js ''(no masked output)'')]"

definition zh_providers :: "(jsstring \<times> jsstring) list" where
  "zh_providers =
     [(js ''providers.title'', [20379, 24212, 21830, 31649, 29702]),
      (js ''providers.desc'', [31649, 29702, 19978, 28216] @ js '' AI '' @ [27169, 22411, 20379, 24212, 21830, 25509, 20837, 20449, 24687, 65288] @ js ''REQ-005'' @ [65289, 65292, 21464, 26356, 36890, 36807, 28909, 21152, 36733] @ js '' '' @ [8804] @ js ''3s '' @ [20869, 29983, 25928, 12290]),
      (js ''providers.refresh'', [21047, 26032]),
      (js ''providers.add'', [26032, 24314, 20379, 24212, 21830]),
      (js ''providers.searchPh'', [25353, 21517, 31216] @ js ''/'' @ [31471, 28857, 25628, 32034]),
      (js ''providers.colName'', [21517, 31216]),
      (js ''providers.colProtocol'', [21327, 35758]),
      (js ''providers.colEndpoint'', js ''API '' @ [31471, 28857]),
      (js ''providers.colUpdatedAt'', [26356, 26032, 26102, 38388]),
      (js ''providers.test'', [27979, 35797, 36830, 25509]),
      (js ''providers.deleteTitle'', [21024, 38500, 20379, 24212, 21830]),
      (js ''providers.deleteConfirm'', [30830, 35748, 21024, 38500, 12300] @ js ''{{name}}'' @ [12301, 65311, 22914, 34987, 27169, 22411, 21035, 21517, 24341, 29992, 23558, 34987, 21518, 31471, 25298, 32477, 12290]),
      (js ''providers.created'', [20379, 24212, 21830, 24050, 21019, 24314]),
      (js ''providers.updated'', [20379, 24212, 21830, 24050, 26356, 26032]),
      (js ''providers.enabledOk'', [24050, 21551, 29992]),
      (js ''providers.disabledOk'', [24050, 31105, 29992]),
      (js ''providers.testOk'', [36830, 25509, 25104, 21151, 65292, 24310, 36831] @ js '' {{ms}} ms''),
      (js ''providers.testModels'', [65292, 36820, 22238] @ js '' {{n}} '' @ [20010, 27169, 22411]),
      (js ''providers.testNoModels'', [35813, 20379, 24212, 21830, 26410, 36820, 22238, 27169, 22411, 21015, 34920, 65292, 35831, 21040, 12300, 27169, 22411, 21035, 21517, 12301, 39029, 25163, 21160, 28155, 21152, 19978, 28216, 12290]),
      (js ''providers.testFail'', [36830, 25509, 22833, 36133] @ js '' '' @ [8212] @ js '' {{msg}}''),
      (js ''providers.importOk'', [26032, 24314] @ js '' {{created}} '' @ [20010, 21035, 21517]),
      (js ''providers.importAdded'', [65292, 36861, 21152] @ js '' {{n}} '' @ [20010, 19978, 28216, 21040, 24050, 26377, 21035, 21517]),
      (js ''providers.importSkipped'', [65292, 36339, 36807] @ js '' {{n}} '' @ [20010, 24050, 23384, 22312]),
      (js ''providers.editTitle'', [32534, 36753, 20379, 24212, 21830, 65306] @ js ''{{name}}''),
      (js ''providers.createTitle'', [26032, 24314, 20379, 24212, 21830]),
      (js ''providers.nameLabel'', [20379, 24212, 21830, 21517, 31216, 65288, 21807, 19968, 26631, 35782, 65289]),
      (js ''providers.nameReq'', [35831, 36755, 20837, 20379, 24212, 21830, 21517, 31216]),
      (js ''providers.namePh'', [20363, 22914] @ js '' openai-main''),
      (js ''providers.protocolLabel'', [21327, 35758, 31867, 22411]),
      (js ''providers.protocolReq'', [35831, 36873, 25321, 21327, 35758, 31867, 22411]),
      (js ''providers.urlLabel'', js ''API '' @ [31471, 28857] @ js '' URL''),
      (js ''providers.urlReq'', [35831, 36755, 20837] @ js '' API '' @ [31471, 28857] @ js '' URL''),
      (js ''providers.urlInvalid'', [35831, 36755, 20837, 21512, 27861, 30340] @ js '' URL'' @ [65288, 21547] @ js '' http(s)://'' @ [65289]),
      (js ''providers.keyExtraEdit'', [32534, 36753, 26102, 30041, 31354, 34920, 31034, 19981, 20462, 25913, 21407] @ js '' Key''),
      (js ''providers.keyExtraNew'', [23558, 21152, 23494, 23384, 20648, 65292, 21015, 34920, 20013, 21482, 23637, 31034, 33073, 25935, 20540]),
      (js ''providers.keyReq'', [35831, 36755, 20837] @ js '' API Key''),
      (js ''providers.keyPhKeep'', [30041, 31354, 34920, 31034, 19981, 20462, 25913]),
      (js ''providers.on'', [21551, 29992]),
      (js ''providers.off'', [20572, 29992]),
      (js ''providers.remarkPh'', [22791, 27880, 65288, 21487, 36873, 65289]),
      (js ''providers.importTitle'', [23548, 20837, 27169, 22411, 21035, 21517] @ js '' '' @ [8212] @ js '' {{name}}''),
      (js ''providers.importOkText'', [23548, 20837, 36873, 20013, 65288] @ js ''{{n}}'' @ [65289]),
      (js ''providers.importHint'', [21246, 36873, 35201, 21551, 29992, 30340, 27169, 22411, 65306, 26032, 21035, 21517, 20197, 12300, 19978, 28216, 27169, 22411, 21517, 12301, 21629, 21517, 24182, 25351, 21521, 26412, 20379, 24212, 21830, 65307, 33509, 21035, 21517, 24050, 23384, 22312, 65292, 21017, 25226, 26412, 20379, 24212, 21830, 36861, 21152, 20026, 39069, 22806, 19978, 28216, 65288, 21516, 20379, 24212, 21830] @ js ''+'' @ [21516, 27169, 22411, 21435, 37325, 65289, 65292, 36825, 26679, 19968, 20010, 21035, 21517, 21487, 25346, 22810, 20010, 36134, 21495] @ js ''/'' @ [24179, 21488, 65292, 20379] @ js '' SLB '' @ [21152, 26435, 36718, 35810, 19982, 25925, 38556, 36716, 31227, 12290]),
      (js ''providers.colModel'', [27169, 22411])]"

definition en_providers :: "(jsstring \<times> jsstring) list" where
  "en_providers =
     [(js ''providers.title'', js ''Providers''),
      (js ''providers.desc'', js ''Manage upstream AI model provider connections (REQ-005). Changes apply via hot reload within 3s.''),
      (js ''providers.refresh'', js ''Refresh''),
      (js ''providers.add'', js ''New Provider''),
      (js ''providers.searchPh'', js ''Search by name/endpoint''),
      (js ''providers.colName'', js ''Name''),
      (js ''providers.colProtocol'', js ''Protocol''),
      (js ''providers.colEndpoint'', js ''API Endpoint''),
      (js ''providers.colUpdatedAt'', js ''Updated At''),
      (js ''providers.test'', js ''Test Connection''),
      (js ''providers.deleteTitle'', js ''Delete Provider''),
      (js ''providers.deleteConfirm'', js ''Delete '' @ [34] @ js ''{{name}}'' @ [34] @ js ''? The backend will reject it if referenced by a model alias.''),
      (js ''providers.created'', js ''Provider created''),
      (js ''providers.updated'', js ''Provider updated''),
      (js ''providers.enabledOk'', js ''Enabled''),
      (js ''providers.disabledOk'', js ''Disabled''),
      (js ''providers.testOk'', js ''Connected, latency {{ms}} ms''),
      (js ''providers.testModels'', js '', returned {{n}} models''),
      (js ''providers.testNoModels'', js ''This provider returned no model list. Add upstreams manually on the Model Aliases page.''),
      (js ''providers.testFail'', js ''Connection failed '' @ [8212] @ js '' {{msg}}''),
      (js ''providers.importOk'', js ''Created {{created}} alias(es)''),
      (js ''providers.importAdded'', js '', appended {{n}} upstream(s) to existing alias(es)''),
      (js ''providers.importSkipped'', js '', skipped {{n}} existing''),
      (js ''providers.editTitle'', js ''Edit Provider: {{name}}''),
      (js ''providers.createTitle'', js ''New Provider''),
      (js ''providers.nameLabel'', js ''Provider Name (unique)''),
      (js ''providers.nameReq'', js ''Please enter a provider name''),
      (js ''providers.namePh'', js ''e.g. openai-main''),
      (js ''providers.protocolLabel'', js ''Protocol''),
      (js ''providers.protocolReq'', js ''Please select a protocol''),
      (js ''providers.urlLabel'', js ''API Endpoint URL''),
      (js ''providers.urlReq'', js ''Please enter the endpoint URL''),
      (js ''providers.urlInvalid'', js ''Please enter a valid URL (including http(s)://)''),
      (js ''providers.keyExtraEdit'', js ''Leave blank when editing to keep the existing key''),
      (js ''providers.keyExtraNew'', js ''Stored encrypted; only the masked value is shown in the list''),
      (js ''providers.keyReq'', js ''Please enter the API key''),
      (js ''providers.keyPhKeep'', js ''Blank = no change''),
      (js ''providers.on'', js ''Enabled''),
      (js ''providers.off'', js ''Disabled''),
      (js ''providers.remarkPh'', js ''Remark (optional)''),
      (js ''providers.importTitle'', js ''Import Model Aliases '' @ [8212] @ js '' {{name}}''),
      (js ''providers.importOkText'', js ''Import Selected ({{n}})''),
      (js ''providers.importHint'', js ''Check the models to enable: new aliases are named after the upstream model and point to this provider; if the alias already exists, this provider is appended as an extra upstream (deduped by provider+model), so one alias can span multiple accounts/platforms for weighted SLB and failover.''),
      (js ''providers.colModel'', js ''Model'')]"

definition zh_quotaAlerts :: "(jsstring \<times> jsstring) list" where
  "zh_quotaAlerts =
     [(js ''quotaAlerts.title'', [37197, 39069, 39044, 35686, 37197, 32622]),
      (js ''quotaAlerts.desc'', [37197, 39069, 20351, 29992, 29575, 36798, 21040, 38408, 20540, 26102, 35302, 21457, 36890, 30693, 65288] @ js ''REQ-014'' @ [65289, 12290]),
      (js ''quotaAlerts.save'', [20445, 23384, 37197, 32622]),
      (js ''quotaAlerts.saveOk'', [37197, 39069, 39044, 35686, 37197, 32622, 24050, 20445, 23384, 65292, 28909, 21152, 36733, 29983, 25928]),
      (js ''quotaAlerts.enabled'', [21551, 29992, 37197, 39069, 39044, 35686]),
      (js ''quotaAlerts.on'', [21551, 29992]),
      (js ''quotaAlerts.off'', [20572, 29992]),
      (js ''quotaAlerts.thresholds'', [39044, 35686, 38408, 20540, 65288, 30334, 20998, 27604, 65292, 22238, 36710, 28155, 21152, 22810, 20010, 65289]),
      (js ''quotaAlerts.thresholdsTooltip'', [22914] @ js '' 80'' @ [12289] @ js ''95'' @ [65292, 20351, 29992, 29575, 39318, 27425, 36234, 36807, 38408, 20540, 26102, 35302, 21457, 19968, 27425, 36890, 30693]),
      (js ''quotaAlerts.thresholdsReq'', [35831, 33267, 23569, 37197, 32622, 19968, 20010, 38408, 20540]),
      (js ''quotaAlerts.thresholdsPh'', [36755, 20837, 30334, 20998, 27604, 21518, 22238, 36710, 65292, 20363, 22914] @ js '' 80''),
      (js ''quotaAlerts.channel'', [36890, 30693, 26041, 24335]),
      (js ''quotaAlerts.webhookUrl'', js ''Webhook URL''),
      (js ''quotaAlerts.webhookUrlReq'', [36873, 25321] @ js '' Webhook '' @ [36890, 30693, 26102, 24517, 39035, 22635, 20889] @ js '' URL''),
      (js ''quotaAlerts.urlInvalid'', [35831, 36755, 20837, 21512, 27861, 30340] @ js '' URL''),
      (js ''quotaAlerts.receivers'', [36890, 30693, 25509, 25910, 20154]),
      (js ''quotaAlerts.receiversTooltip'', [25509, 25910, 20154, 26631, 35782, 65292, 22810, 20010, 20197, 36887, 21495, 20998, 38548]),
      (js ''quotaAlerts.receiversPh'', [20363, 22914] @ js '' admin@example.com, ops@example.com'')]"

definition en_quotaAlerts :: "(jsstring \<times> jsstring) list" where
  "en_quotaAlerts =
     [(js ''quotaAlerts.title'', js ''Quota Alert Rules''),
      (js ''quotaAlerts.desc'', js ''Trigger a notification when quota usage reaches a threshold (REQ-014).''),
      (js ''quotaAlerts.save'', js ''Save Configuration''),
      (js ''quotaAlerts.saveOk'', js ''Alert rules saved, applied via hot reload''),
      (js ''quotaAlerts.enabled'', js ''Enable Quota Alerts''),
      (js ''quotaAlerts.on'', js ''Enabled''),
      (js ''quotaAlerts.off'', js ''Disabled''),
      (js ''quotaAlerts.thresholds'', js ''Thresholds (percent, press Enter to add more)''),
      (js ''quotaAlerts.thresholdsTooltip'', js ''e.g. 80, 95 '' @ [8212] @ js '' fires once when usage first crosses a threshold''),
      (js ''quotaAlerts.thresholdsReq'', js ''Add at least one threshold''),
      (js ''quotaAlerts.thresholdsPh'', js ''Type a percent and press Enter, e.g. 80''),
      (js ''quotaAlerts.channel'', js ''Notification Channel''),
      (js ''quotaAlerts.webhookUrl'', js ''Webhook URL''),
      (js ''quotaAlerts.webhookUrlReq'', js ''URL is required for webhook notifications''),
      (js ''quotaAlerts.urlInvalid'', js ''Please enter a valid URL''),
      (js ''quotaAlerts.receivers'', js ''Recipients''),
      (js ''quotaAlerts.receiversTooltip'', js ''Recipient identifiers, comma-separated''),
      (js ''quotaAlerts.receiversPh'', js ''e.g. admin@example.com, ops@example.com'')]"

definition zh_quotas :: "(jsstring \<times> jsstring) list" where
  "zh_quotas =
     [(js ''quotas.title'', [37197, 39069, 31649, 29702]),
      (js ''quotas.desc'', [25353] @ js '' API Key '' @ [19982, 27169, 22411, 21035, 21517, 37197, 32622, 35831, 27714, 27425, 25968] @ js '' / Token '' @ [37197, 39069, 65292, 25903, 25345, 21608, 26399, 33258, 21160, 37325, 32622, 65288] @ js ''REQ-012'' @ [65289, 12290]),
      (js ''quotas.refresh'', [21047, 26032]),
      (js ''quotas.batch'', [25209, 37327, 21019, 24314]),
      (js ''quotas.add'', [26032, 24314, 37197, 39069]),
      (js ''quotas.allModels'', js ''*'' @ [65288, 20840, 37096, 27169, 22411, 65289]),
      (js ''quotas.allModelsTag'', js ''* '' @ [20840, 37096, 27169, 22411]),
      (js ''quotas.colModel'', [27169, 22411, 21035, 21517]),
      (js ''quotas.colType'', [37197, 39069, 31867, 22411]),
      (js ''quotas.colPeriod'', [21608, 26399]),
      (js ''quotas.colUsage'', [20351, 29992, 24773, 20917]),
      (js ''quotas.overBy'', [24050, 36229, 39069] @ js '' {{n}}''),
      (js ''quotas.remaining'', [21097, 20313] @ js '' {{n}}''),
      (js ''quotas.colOverAction'', [36229, 39069, 31574, 30053]),
      (js ''quotas.degradeTo'', [38477, 32423, 33267] @ js '' {{alias}}''),
      (js ''quotas.reject'', [25298, 32477, 35831, 27714]),
      (js ''quotas.colResetAt'', [37325, 32622, 26102, 38388]),
      (js ''quotas.resetTitle'', [37325, 32622, 37197, 39069]),
      (js ''quotas.resetConfirm'', [30830, 35748, 23558, 20351, 29992, 37327, 24402, 38646, 65311]),
      (js ''quotas.reset'', [37325, 32622]),
      (js ''quotas.resetOk'', [24050, 37325, 32622, 65292, 20351, 29992, 37327, 24402, 38646]),
      (js ''quotas.deleteTitle'', [21024, 38500, 37197, 39069]),
      (js ''quotas.deleteConfirm'', [30830, 35748, 21024, 38500, 35813, 37197, 39069, 35268, 21017, 65311]),
      (js ''quotas.created'', [37197, 39069, 24050, 21019, 24314]),
      (js ''quotas.updated'', [37197, 39069, 24050, 26356, 26032]),
      (js ''quotas.batchDone'', [25209, 37327, 21019, 24314, 23436, 25104]),
      (js ''quotas.editTitle'', [32534, 36753, 37197, 39069]),
      (js ''quotas.createTitle'', [26032, 24314, 37197, 39069]),
      (js ''quotas.keyReq'', [35831, 36873, 25321] @ js '' API Key''),
      (js ''quotas.keyPh'', [36873, 25321] @ js '' API Key''),
      (js ''quotas.modelTooltip'', [36755, 20837] @ js '' * '' @ [34920, 31034, 20316, 29992, 20110, 20840, 37096, 27169, 22411]),
      (js ''quotas.modelReq'', [35831, 36755, 20837, 25110, 36873, 25321, 27169, 22411, 21035, 21517]),
      (js ''quotas.modelPh'', [36755, 20837, 27169, 22411, 21035, 21517, 65292, 25110] @ js '' * '' @ [34920, 31034, 20840, 37096]),
      (js ''quotas.typeLabel'', [37197, 39069, 31867, 22411]),
      (js ''quotas.periodLabel'', [21608, 26399, 31867, 22411]),
      (js ''quotas.limitLabel'', [37197, 39069, 19978, 38480]),
      (js ''quotas.limitReq'', [35831, 36755, 20837, 37197, 39069, 19978, 38480]),
      (js ''quotas.overActionLabel'', [36229, 39069, 31574, 30053]),
      (js ''quotas.degradeLabel'', [38477, 32423, 30446, 26631, 27169, 22411]),
      (js ''quotas.degradeReq'', [36229, 39069, 38477, 32423, 38656, 25351, 23450, 30446, 26631, 27169, 22411]),
      (js ''quotas.degradePh'', [22914] @ js '' gpt-4-mini''),
      (js ''quotas.batchTitle'', [25209, 37327, 21019, 24314, 37197, 39069]),
      (js ''quotas.batchHint'', [27599, 34892, 19968, 26465, 65292, 36887, 21495, 20998, 38548, 65306]),
      (js ''quotas.batchFormat'', js ''apiKey'' @ [21517, 31216, 25110] @ js ''ID, '' @ [27169, 22411, 21035, 21517] @ js '', '' @ [37197, 39069, 31867, 22411] @ js '', '' @ [21608, 26399] @ js '', '' @ [19978, 38480] @ js ''[, '' @ [36229, 39069, 31574, 30053] @ js '']''),
      (js ''quotas.batchHint2'', [37197, 39069, 31867, 22411, 65306] @ js ''requests / tokens'' @ [65307, 21608, 26399, 65306] @ js ''day / week / month'' @ [65307, 36229, 39069, 31574, 30053, 65306] @ js ''reject'' @ [65288, 40664, 35748, 65289] @ js ''/ degrade'' @ [12290]),
      (js ''quotas.batchErrEmpty'', [35831, 36755, 20837, 33267, 23569, 19968, 34892, 37197, 32622]),
      (js ''quotas.batchPh'', [20363, 22914, 65306, 10] @ js ''team-a, gpt-4, requests, day, 1000'' @ [10] @ js ''2, *, tokens, month, 5000000, reject''),
      (js ''quotas.batchErrKey'', [31532] @ js '' {{n}} '' @ [34892, 65306, 25214, 19981, 21040] @ js '' API Key'' @ [12300] @ js ''{{key}}'' @ [12301]),
      (js ''quotas.batchErrFields'', [31532] @ js '' {{n}} '' @ [34892, 65306, 23383, 27573, 19981, 36275, 65288, 38656, 35201] @ js '' apiKey,modelAlias,type,period,limit'' @ [65289]),
      (js ''quotas.batchErrEnum'', [31532] @ js '' {{n}} '' @ [34892, 65306, 26522, 20030, 20540, 19981, 21512, 27861, 65288] @ js ''type: requests/tokens, period: day/week/month'' @ [65289]),
      (js ''quotas.batchErrLimit'', [31532] @ js '' {{n}} '' @ [34892, 65306] @ js ''limit '' @ [24517, 39035, 20026, 27491, 25972, 25968])]"

definition en_quotas :: "(jsstring \<times> jsstring) list" where
  "en_quotas =
     [(js ''quotas.title'', js ''Quota Management''),
      (js ''quotas.desc'', js ''Configure request-count / token quotas per API key and model alias, with automatic periodic reset (REQ-012).''),
      (js ''quotas.refresh'', js ''Refresh''),
      (js ''quotas.batch'', js ''Batch Create''),
      (js ''quotas.add'', js ''New Quota''),
      (js ''quotas.allModels'', js ''*(All models)''),
      (js ''quotas.allModelsTag'', js ''* All models''),
      (js ''quotas.colModel'', js ''Model Alias''),
      (js ''quotas.colType'', js ''Quota Type''),
      (js ''quotas.colPeriod'', js ''Period''),
      (js ''quotas.colUsage'', js ''Usage''),
      (js ''quotas.overBy'', js ''Over by {{n}}''),
      (js ''quotas.remaining'', js ''{{n}} remaining''),
      (js ''quotas.colOverAction'', js ''Over-limit Policy''),
      (js ''quotas.degradeTo'', js ''Degrade to {{alias}}''),
      (js ''quotas.reject'', js ''Reject Requests''),
      (js ''quotas.colResetAt'', js ''Reset At''),
      (js ''quotas.resetTitle'', js ''Reset Quota''),
      (js ''quotas.resetConfirm'', js ''Reset usage to zero?''),
      (js ''quotas.reset'', js ''Reset''),
      (js ''quotas.resetOk'', js ''Reset done, usage set to zero''),
      (js ''quotas.deleteTitle'', js ''Delete Quota''),
      (js ''quotas.deleteConfirm'', js ''Delete this quota rule?''),
      (js ''quotas.created'', js ''Quota created''),
      (js ''quotas.updated'', js ''Quota updated''),
      (js ''quotas.batchDone'', js ''Batch create completed''),
      (js ''quotas.editTitle'', js ''Edit Quota''),
      (js ''quotas.createTitle'', js ''New Quota''),
      (js ''quotas.keyReq'', js ''Please select an API key''),
      (js ''quotas.keyPh'', js ''Select an API key''),
      (js ''quotas.modelTooltip'', js ''Type * to apply to all models''),
      (js ''quotas.modelReq'', js ''Please enter or select a model alias''),
      (js ''quotas.modelPh'', js ''Enter a model alias, or * for all''),
      (js ''quotas.typeLabel'', js ''Quota Type''),
      (js ''quotas.periodLabel'', js ''Period Type''),
      (js ''quotas.limitLabel'', js ''Quota Limit''),
      (js ''quotas.limitReq'', js ''Please enter the quota limit''),
      (js ''quotas.overActionLabel'', js ''Over-limit Policy''),
      (js ''quotas.degradeLabel'', js ''Degrade Target Model''),
      (js ''quotas.degradeReq'', js ''A target model is required for degrade policy''),
      (js ''quotas.degradePh'', js ''e.g. gpt-4-mini''),
      (js ''quotas.batchTitle'', js ''Batch Create Quotas''),
      (js ''quotas.batchHint'', js ''One per line, comma-separated:''),
      (js ''quotas.batchFormat'', js ''apiKeyNameOrId, modelAlias, quotaType, period, limit[, overAction]''),
      (js ''quotas.batchHint2'', js ''Quota type: requests / tokens; Period: day / week / month; Over-limit policy: reject (default) / degrade.''),
      (js ''quotas.batchErrEmpty'', js ''Please enter at least one line''),
      (js ''quotas.batchPh'', js ''e.g.:'' @ [10] @ js ''team-a, gpt-4, requests, day, 1000'' @ [10] @ js ''2, *, tokens, month, 5000000, reject''),
      (js ''quotas.batchErrKey'', js ''Line {{n}}: API key '' @ [34] @ js ''{{key}}'' @ [34] @ js '' not found''),
      (js ''quotas.batchErrFields'', js ''Line {{n}}: not enough fields (need apiKey,modelAlias,type,period,limit)''),
      (js ''quotas.batchErrEnum'', js ''Line {{n}}: invalid enum value (type: requests/tokens, period: day/week/month)''),
      (js ''quotas.batchErrLimit'', js ''Line {{n}}: limit must be a positive integer'')]"

definition zh_rateLimits :: "(jsstring \<times> jsstring) list" where
  "zh_rateLimits =
     [(js ''rateLimits.title'', [36895, 29575, 38480, 21046]),
      (js ''rateLimits.desc'', [30701, 21608, 26399, 36895, 29575, 38480, 21046, 35268, 21017, 65292, 38450, 27490, 27969, 37327, 31361, 22686, 65288] @ js ''REQ-013'' @ [65289, 12290] @ js ''api_key_id=0 '' @ [34920, 31034, 20840, 23616, 29983, 25928, 12290]),
      (js ''rateLimits.add'', [26032, 24314, 38480, 27969, 35268, 21017]),
      (js ''rateLimits.global'', [65288, 20840, 23616, 65289]),
      (js ''rateLimits.allModels'', js ''* '' @ [20840, 37096]),
      (js ''rateLimits.colModel'', [27169, 22411, 21035, 21517]),
      (js ''rateLimits.colWindow'', [31383, 21475, 65288, 31186, 65289]),
      (js ''rateLimits.colMaxReq'', [26368, 22823, 35831, 27714, 25968]),
      (js ''rateLimits.colHits'', [32047, 35745, 21629, 20013]),
      (js ''rateLimits.deleteTitle'', [21024, 38500, 38480, 27969, 35268, 21017]),
      (js ''rateLimits.deleteConfirm'', [30830, 35748, 21024, 38500, 35813, 35268, 21017, 65311]),
      (js ''rateLimits.created'', [38480, 27969, 35268, 21017, 24050, 21019, 24314]),
      (js ''rateLimits.updated'', [38480, 27969, 35268, 21017, 24050, 26356, 26032]),
      (js ''rateLimits.editTitle'', [32534, 36753, 38480, 27969, 35268, 21017] @ js '' #{{id}}''),
      (js ''rateLimits.createTitle'', [26032, 24314, 38480, 27969, 35268, 21017]),
      (js ''rateLimits.targetLabel'', [20316, 29992, 23545, 35937, 65288] @ js ''API Key'' @ [65289]),
      (js ''rateLimits.targetReq'', [35831, 36873, 25321] @ js '' API Key''),
      (js ''rateLimits.globalOption'', js ''0 '' @ [8212] @ js '' '' @ [65288, 20840, 23616, 65289, 23545, 25152, 26377, 35831, 27714, 29983, 25928]),
      (js ''rateLimits.modelLabel'', [27169, 22411, 21035, 21517]),
      (js ''rateLimits.modelTooltip'', js ''* '' @ [34920, 31034, 20840, 37096, 27169, 22411]),
      (js ''rateLimits.modelReq'', [35831, 36755, 20837, 27169, 22411, 21035, 21517]),
      (js ''rateLimits.modelPh'', js ''* '' @ [25110, 27169, 22411, 21035, 21517]),
      (js ''rateLimits.windowLabel'', [26102, 38388, 31383, 21475, 65288, 31186, 65289]),
      (js ''rateLimits.windowReq'', [35831, 36755, 20837, 26102, 38388, 31383, 21475]),
      (js ''rateLimits.maxReqLabel'', [31383, 21475, 20869, 26368, 22823, 35831, 27714, 25968]),
      (js ''rateLimits.maxReqReq'', [35831, 36755, 20837, 26368, 22823, 35831, 27714, 25968])]"

definition en_rateLimits :: "(jsstring \<times> jsstring) list" where
  "en_rateLimits =
     [(js ''rateLimits.title'', js ''Rate Limits''),
      (js ''rateLimits.desc'', js ''Short-window rate limit rules to prevent traffic spikes (REQ-013). api_key_id=0 means global.''),
      (js ''rateLimits.add'', js ''New Rate Limit Rule''),
      (js ''rateLimits.global'', js ''(Global)''),
      (js ''rateLimits.allModels'', js ''* All''),
      (js ''rateLimits.colModel'', js ''Model Alias''),
      (js ''rateLimits.colWindow'', js ''Window (s)''),
      (js ''rateLimits.colMaxReq'', js ''Max Requests''),
      (js ''rateLimits.colHits'', js ''Total Hits''),
      (js ''rateLimits.deleteTitle'', js ''Delete Rate Limit Rule''),
      (js ''rateLimits.deleteConfirm'', js ''Delete this rule?''),
      (js ''rateLimits.created'', js ''Rate limit rule created''),
      (js ''rateLimits.updated'', js ''Rate limit rule updated''),
      (js ''rateLimits.editTitle'', js ''Edit Rate Limit Rule #{{id}}''),
      (js ''rateLimits.createTitle'', js ''New Rate Limit Rule''),
      (js ''rateLimits.targetLabel'', js ''Target (API Key)''),
      (js ''rateLimits.targetReq'', js ''Please select an API Key''),
      (js ''rateLimits.globalOption'', js ''0 '' @ [8212] @ js '' (Global) applies to all requests''),
      (js ''rateLimits.modelLabel'', js ''Model Alias''),
      (js ''rateLimits.modelTooltip'', js ''* means all models''),
      (js ''rateLimits.modelReq'', js ''Please enter a model alias''),
      (js ''rateLimits.modelPh'', js ''* or model alias''),
      (js ''rateLimits.windowLabel'', js ''Time Window (s)''),
      (js ''rateLimits.windowReq'', js ''Please enter the time window''),
      (js ''rateLimits.maxReqLabel'', js ''Max Requests in Window''),
      (js ''rateLimits.maxReqReq'', js ''Please enter max requests'')]"

definition zh_runtimeStatus :: "(jsstring \<times> jsstring) list" where
  "zh_runtimeStatus =
     [(js ''rt.title'', [29366, 24577, 30417, 25511]),
      (js ''rt.desc'', [32593, 20851, 36816, 34892, 29366, 24577, 19982, 24615, 33021, 25351, 26631, 65288] @ js ''REQ-018'' @ [65289, 65292, 27599] @ js '' 5 '' @ [31186, 33258, 21160, 21047, 26032, 12290]),
      (js ''rt.running'', [26381, 21153, 36816, 34892, 20013]),
      (js ''rt.error'', [26381, 21153, 24322, 24120]),
      (js ''rt.uptime'', [36816, 34892, 26102, 38271]),
      (js ''rt.memory'', [20869, 23384, 21344, 29992]),
      (js ''rt.connections'', [24403, 21069, 36830, 25509, 25968]),
      (js ''rt.upstreamCard'', [19978, 28216, 20581, 24247, 29366, 24577]),
      (js ''rt.colProvider'', [20379, 24212, 21830]),
      (js ''rt.colHealth'', [20581, 24247]),
      (js ''rt.healthy'', [20581, 24247]),
      (js ''rt.breaking'', [29076, 26029, 20013]),
      (js ''rt.colFailCount'', [36830, 32493, 22833, 36133]),
      (js ''rt.colLastError'', [26368, 36817, 38169, 35823]),
      (js ''rt.qpsCard'', [27169, 22411] @ js '' QPS'' @ [65288, 36817] @ js '' 60 '' @ [31186, 65289]),
      (js ''rt.colModel'', [27169, 22411, 21035, 21517]),
      (js ''rt.colErrors1m'', [36817] @ js '' 1 '' @ [20998, 38047, 38169, 35823]),
      (js ''rt.errorsCard'', [26368, 36817, 38169, 35823, 26085, 24535]),
      (js ''rt.noErrors'', [26242, 26080, 38169, 35823]),
      (js ''rt.sysCard'', [31995, 32479, 19982, 37197, 32622, 29366, 24577]),
      (js ''rt.version'', [29256, 26412]),
      (js ''rt.configVersion'', [37197, 32622, 29256, 26412, 65306] @ js ''{{v}}'' @ [65288] @ js ''{{time}}'' @ [65289]),
      (js ''rt.cfgOk'', [37197, 32622, 27491, 24120]),
      (js ''rt.cfgErr'', [37197, 32622, 24322, 24120]),
      (js ''rt.cpu'', js ''CPU '' @ [21344, 29992, 65288, 36827, 31243, 20272, 31639, 65289])]"

definition en_runtimeStatus :: "(jsstring \<times> jsstring) list" where
  "en_runtimeStatus =
     [(js ''rt.title'', js ''Runtime Monitor''),
      (js ''rt.desc'', js ''Gateway runtime status and performance metrics (REQ-018). Auto-refreshes every 5 seconds.''),
      (js ''rt.running'', js ''Service Running''),
      (js ''rt.error'', js ''Service Error''),
      (js ''rt.uptime'', js ''Uptime''),
      (js ''rt.memory'', js ''Memory''),
      (js ''rt.connections'', js ''Open Connections''),
      (js ''rt.upstreamCard'', js ''Upstream Health''),
      (js ''rt.colProvider'', js ''Provider''),
      (js ''rt.colHealth'', js ''Health''),
      (js ''rt.healthy'', js ''Healthy''),
      (js ''rt.breaking'', js ''Circuit Open''),
      (js ''rt.colFailCount'', js ''Consecutive Failures''),
      (js ''rt.colLastError'', js ''Last Error''),
      (js ''rt.qpsCard'', js ''Model QPS (last 60s)''),
      (js ''rt.colModel'', js ''Model Alias''),
      (js ''rt.colErrors1m'', js ''Errors (1m)''),
      (js ''rt.errorsCard'', js ''Recent Errors''),
      (js ''rt.noErrors'', js ''No errors''),
      (js ''rt.sysCard'', js ''System & Config Status''),
      (js ''rt.version'', js ''Version''),
      (js ''rt.configVersion'', js ''Config version: {{v}} ({{time}})''),
      (js ''rt.cfgOk'', js ''Config OK''),
      (js ''rt.cfgErr'', js ''Config Error''),
      (js ''rt.cpu'', js ''CPU Usage (process estimate)'')]"

definition zh_security :: "(jsstring \<times> jsstring) list" where
  "zh_security =
     [(js ''security.title'', [23433, 20840, 35774, 32622]),
      (js ''security.desc'', [31649, 29702, 21518, 21488] @ js '' MFA'' @ [65288] @ js ''TOTP'' @ [65289, 20840, 23616, 31574, 30053, 19982, 29992, 25143, 31649, 29702, 65288] @ js ''REQ-020 / REQ-023'' @ [65289, 12290]),
      (js ''security.save'', [20445, 23384] @ js '' MFA '' @ [37197, 32622]),
      (js ''security.saveOk'', js ''MFA '' @ [20840, 23616, 37197, 32622, 24050, 20445, 23384, 65292, 31435, 21363, 29983, 25928, 65288] @ js ''REQ-020'' @ [65289]),
      (js ''security.mfaCard'', js ''MFA '' @ [20840, 23616, 37197, 32622]),
      (js ''security.mfaEnabled'', [21551, 29992] @ js '' MFA''),
      (js ''security.mfaRequired'', [24378, 21046, 25152, 26377, 29992, 25143, 21551, 29992] @ js '' MFA''),
      (js ''security.mfaRequiredTooltip'', [24320, 21551, 21518, 26410, 32465, 23450] @ js '' MFA '' @ [30340, 29992, 25143, 30331, 24405, 21518, 23558, 34987, 24341, 23548, 33267, 32465, 23450, 27969, 31243]),
      (js ''security.recoveryCount'', [22791, 29992, 24674, 22797, 30721, 25968, 37327]),
      (js ''security.recoveryReq'', [35831, 36755, 20837, 25968, 37327]),
      (js ''security.graceDays'', [24378, 21046, 21551, 29992, 23485, 38480, 26399]),
      (js ''security.graceReq'', [35831, 36755, 20837, 22825, 25968]),
      (js ''security.dayUnit'', [22825]),
      (js ''security.totpTip'', [39564, 35777, 26041, 24335, 65306] @ js ''TOTP'' @ [65288] @ js ''Google Authenticator / Microsoft Authenticator '' @ [31561, 65289]),
      (js ''security.usersCard'', [29992, 25143, 31649, 29702]),
      (js ''security.colUsername'', [29992, 25143, 21517]),
      (js ''security.colRole'', [35282, 33394]),
      (js ''security.roleAdmin'', [31649, 29702, 21592]),
      (js ''security.roleViewer'', [21482, 35835]),
      (js ''security.colMfa'', js ''MFA '' @ [29366, 24577]),
      (js ''security.mfaBound'', [24050, 32465, 23450]),
      (js ''security.mfaUnbound'', [26410, 32465, 23450]),
      (js ''security.colLock'', [36134, 25143, 29366, 24577]),
      (js ''security.locked'', [24050, 38145, 23450]),
      (js ''security.normal'', [27491, 24120]),
      (js ''security.colLastLogin'', [26368, 21518, 30331, 24405]),
      (js ''security.addUser'', [28155, 21152, 29992, 25143]),
      (js ''security.createUser'', [21019, 24314, 31649, 29702, 21592]),
      (js ''security.usernameReq'', [35831, 36755, 20837, 29992, 25143, 21517]),
      (js ''security.usernameMax'', [29992, 25143, 21517, 19981, 36229, 36807] @ js '' 64 '' @ [23383, 31526]),
      (js ''security.passwordLabel'', [23494, 30721]),
      (js ''security.passwordReq'', [35831, 36755, 20837, 23494, 30721]),
      (js ''security.passwordMin'', [23494, 30721, 33267, 23569] @ js '' 10 '' @ [20010, 23383, 31526]),
      (js ''security.pwdPolicy'', [33267, 23569] @ js '' 10 '' @ [20010, 23383, 31526, 65292, 19988, 21253, 21547, 22823, 20889, 23383, 27597, 12289, 23567, 20889, 23383, 27597, 12289, 25968, 23383, 12289, 31526, 21495, 20013, 30340, 33267, 23569] @ js '' 3 '' @ [31867, 65307, 19981, 24471, 20351, 29992, 24120, 35265, 24369, 21475, 20196, 65292, 20063, 19981, 24471, 21253, 21547, 29992, 25143, 21517, 12290]),
      (js ''security.colMfaRequired'', [24378, 21046] @ js '' MFA''),
      (js ''security.colMfaRequiredTip'', [24320, 21551, 21518, 20165, 35813, 29992, 25143, 19979, 27425, 30331, 24405, 24517, 39035, 23436, 25104] @ js '' MFA '' @ [32465, 23450, 65288, 19981, 24433, 21709, 20854, 20182, 29992, 25143, 65289, 65307, 20840, 23616, 12300, 24378, 21046, 25152, 26377, 29992, 25143, 12301, 24320, 20851, 20250, 35206, 30422, 25152, 26377, 20154, 12290]),
      (js ''security.mfaRequiredOnOk'', [24050, 23545, 35813, 29992, 25143, 24378, 21046] @ js '' MFA'' @ [65292, 20854, 19979, 27425, 30331, 24405, 38656, 23436, 25104, 32465, 23450]),
      (js ''security.mfaRequiredOffOk'', [24050, 21462, 28040, 35813, 29992, 25143, 30340, 24378, 21046] @ js '' MFA''),
      (js ''security.forceChange'', [24378, 21046, 39318, 30331, 25913, 23494]),
      (js ''security.forceChangeTooltip'', [26032, 29992, 25143, 39318, 27425, 30331, 24405, 26102, 24517, 39035, 20462, 25913, 23494, 30721, 65288, 25512, 33616, 24320, 21551, 65289]),
      (js ''security.createOk'', [29992, 25143, 24050, 21019, 24314]),
      (js ''security.changePwd'', [25913, 23494]),
      (js ''security.changePwdTitle'', [20462, 25913, 23494, 30721]),
      (js ''security.newPassword'', [26032, 23494, 30721]),
      (js ''security.pwdOk'', [23494, 30721, 24050, 20462, 25913, 65292, 35813, 29992, 25143, 26082, 26377, 20250, 35805, 24050, 20316, 24223]),
      (js ''security.changeRole'', [20999, 25442, 35282, 33394]),
      (js ''security.changeRoleTitle'', [20999, 25442, 35282, 33394]),
      (js ''security.changeRoleConfirm'', [23558, 12300] @ js ''{{username}}'' @ [12301, 30340, 35282, 33394, 25913, 20026, 12300] @ js ''{{role}}'' @ [12301, 65311, 35813, 29992, 25143, 38656, 35201, 37325, 26032, 30331, 24405, 12290]),
      (js ''security.roleOk'', [35282, 33394, 24050, 20999, 25442, 65292, 35813, 29992, 25143, 38656, 35201, 37325, 26032, 30331, 24405]),
      (js ''security.delete'', [21024, 38500]),
      (js ''security.deleteTitle'', [21024, 38500, 29992, 25143]),
      (js ''security.deleteConfirm'', [30830, 35748, 21024, 38500, 29992, 25143, 12300] @ js ''{{username}}'' @ [12301, 65311, 27492, 25805, 20316, 19981, 21487, 25764, 38144, 12290]),
      (js ''security.deleteOk'', [29992, 25143, 24050, 21024, 38500]),
      (js ''security.unbindTitle'', [24378, 21046, 35299, 32465] @ js '' MFA''),
      (js ''security.unbindConfirm'', [30830, 35748, 35299, 32465, 12300] @ js ''{{username}}'' @ [12301, 30340] @ js '' MFA '' @ [35774, 22791, 65311, 35813, 25805, 20316, 23558, 35760, 24405, 23457, 35745, 12290]),
      (js ''security.unbind'', [24378, 21046, 35299, 32465]),
      (js ''security.unbindOk'', [24050, 24378, 21046, 35299, 32465, 35813, 29992, 25143, 30340] @ js '' MFA'' @ [65288, 24050, 35760, 24405, 25805, 20316, 23457, 35745, 65289]),
      (js ''security.unlockTitle'', [35299, 38145, 36134, 25143]),
      (js ''security.unlockConfirm'', [30830, 35748, 35299, 38145, 12300] @ js ''{{username}}'' @ [12301, 65311]),
      (js ''security.unlock'', [35299, 38145]),
      (js ''security.unlockOk'', [36134, 25143, 24050, 35299, 38145])]"

definition en_security :: "(jsstring \<times> jsstring) list" where
  "en_security =
     [(js ''security.title'', js ''Security Settings''),
      (js ''security.desc'', js ''Admin MFA (TOTP) global policy and user management (REQ-020 / REQ-023).''),
      (js ''security.save'', js ''Save MFA Configuration''),
      (js ''security.saveOk'', js ''MFA global config saved, effective immediately (REQ-020)''),
      (js ''security.mfaCard'', js ''MFA Global Configuration''),
      (js ''security.mfaEnabled'', js ''Enable MFA''),
      (js ''security.mfaRequired'', js ''Require MFA for All Users''),
      (js ''security.mfaRequiredTooltip'', js ''When on, users without MFA are guided through enrollment after login''),
      (js ''security.recoveryCount'', js ''Recovery Code Count''),
      (js ''security.recoveryReq'', js ''Please enter the count''),
      (js ''security.graceDays'', js ''Enforcement Grace Period''),
      (js ''security.graceReq'', js ''Please enter the days''),
      (js ''security.dayUnit'', js ''days''),
      (js ''security.totpTip'', js ''Verification method: TOTP (Google Authenticator / Microsoft Authenticator, etc.)''),
      (js ''security.usersCard'', js ''User Management''),
      (js ''security.colUsername'', js ''Username''),
      (js ''security.colRole'', js ''Role''),
      (js ''security.roleAdmin'', js ''Admin''),
      (js ''security.roleViewer'', js ''Viewer''),
      (js ''security.colMfa'', js ''MFA Status''),
      (js ''security.mfaBound'', js ''Enrolled''),
      (js ''security.mfaUnbound'', js ''Not enrolled''),
      (js ''security.colLock'', js ''Account Status''),
      (js ''security.locked'', js ''Locked''),
      (js ''security.normal'', js ''Normal''),
      (js ''security.colLastLogin'', js ''Last Login''),
      (js ''security.addUser'', js ''Add User''),
      (js ''security.createUser'', js ''Create Admin User''),
      (js ''security.usernameReq'', js ''Please enter a username''),
      (js ''security.usernameMax'', js ''Username must be 64 characters or fewer''),
      (js ''security.passwordLabel'', js ''Password''),
      (js ''security.passwordReq'', js ''Please enter a password''),
      (js ''security.passwordMin'', js ''Password must be at least 10 characters''),
      (js ''security.pwdPolicy'', js ''At least 10 characters, including at least 3 of: uppercase letters, lowercase letters, digits, symbols. Common weak passwords and anything containing the username are rejected.''),
      (js ''security.colMfaRequired'', js ''Require MFA''),
      (js ''security.colMfaRequiredTip'', js ''When on, only this user must complete MFA enrollment at next login (others are unaffected). The global '' @ [34] @ js ''Require MFA for All Users'' @ [34] @ js '' switch covers everyone.''),
      (js ''security.mfaRequiredOnOk'', js ''MFA is now required for this user; they must enroll at next login''),
      (js ''security.mfaRequiredOffOk'', js ''Per-user MFA requirement removed''),
      (js ''security.forceChange'', js ''Force password change on first login''),
      (js ''security.forceChangeTooltip'', js ''New users must change their password on first login (recommended)''),
      (js ''security.createOk'', js ''User created''),
      (js ''security.changePwd'', js ''Password''),
      (js ''security.changePwdTitle'', js ''Change Password''),
      (js ''security.newPassword'', js ''New Password''),
      (js ''security.pwdOk'', js ''Password changed; existing sessions for this user have been invalidated''),
      (js ''security.changeRole'', js ''Toggle Role''),
      (js ''security.changeRoleTitle'', js ''Toggle Role''),
      (js ''security.changeRoleConfirm'', js ''Change '' @ [34] @ js ''{{username}}'' @ [34] @ js '' role to '' @ [34] @ js ''{{role}}'' @ [34] @ js ''? The user will need to log in again.''),
      (js ''security.roleOk'', js ''Role changed; the user will need to log in again''),
      (js ''security.delete'', js ''Delete''),
      (js ''security.deleteTitle'', js ''Delete User''),
      (js ''security.deleteConfirm'', js ''Delete user '' @ [34] @ js ''{{username}}'' @ [34] @ js ''? This cannot be undone.''),
      (js ''security.deleteOk'', js ''User deleted''),
      (js ''security.unbindTitle'', js ''Force Unbind MFA''),
      (js ''security.unbindConfirm'', js ''Unbind the MFA device of '' @ [34] @ js ''{{username}}'' @ [34] @ js ''? This action is audited.''),
      (js ''security.unbind'', js ''Force Unbind''),
      (js ''security.unbindOk'', js ''MFA force-unbound (recorded in operation audit)''),
      (js ''security.unlockTitle'', js ''Unlock Account''),
      (js ''security.unlockConfirm'', js ''Unlock '' @ [34] @ js ''{{username}}'' @ [34] @ js ''?''),
      (js ''security.unlock'', js ''Unlock''),
      (js ''security.unlockOk'', js ''Account unlocked'')]"

definition zh_tokenStats :: "(jsstring \<times> jsstring) list" where
  "zh_tokenStats =
     [(js ''tokenStats.title'', js ''Token '' @ [29992, 37327, 32479, 35745]),
      (js ''tokenStats.desc'', [25353, 26102, 38388, 33539, 22260, 32479, 35745, 27599, 20010] @ js '' API Key / '' @ [27169, 22411, 30340] @ js '' token '' @ [28040, 32791, 65292, 25903, 25345, 21382, 21490, 26597, 35810, 65288, 25968, 25454, 28304, 65306, 35843, 29992, 23457, 35745, 26085, 24535, 65289, 12290]),
      (js ''tokenStats.exportCsv'', [23548, 20986] @ js '' CSV''),
      (js ''tokenStats.exportOk'', [23548, 20986, 20219, 21153, 24050, 35302, 21457, 65292, 35831, 26597, 30475, 27983, 35272, 22120, 19979, 36733]),
      (js ''tokenStats.presetToday'', [20170, 22825]),
      (js ''tokenStats.preset7d'', [36817] @ js '' 7 '' @ [22825]),
      (js ''tokenStats.preset30d'', [36817] @ js '' 30 '' @ [22825]),
      (js ''tokenStats.presetMonth'', [26412, 26376]),
      (js ''tokenStats.presetCustom'', [33258, 23450, 20041]),
      (js ''tokenStats.placeholderStart'', [24320, 22987, 26102, 38388]),
      (js ''tokenStats.placeholderEnd'', [32467, 26463, 26102, 38388]),
      (js ''tokenStats.placeholderApikey'', js ''API Key''),
      (js ''tokenStats.placeholderModelAlias'', [27169, 22411, 21035, 21517]),
      (js ''tokenStats.granDay'', [25353, 22825]),
      (js ''tokenStats.granHour'', [25353, 23567, 26102]),
      (js ''tokenStats.queryBtn'', [26597, 35810]),
      (js ''tokenStats.resetBtn'', [37325, 32622]),
      (js ''tokenStats.totalTokensTitle'', [24635] @ js '' Tokens''),
      (js ''tokenStats.colPromptTokens'', js ''Prompt Tokens''),
      (js ''tokenStats.colCompletionTokens'', js ''Completion Tokens''),
      (js ''tokenStats.colCallsCount'', [35843, 29992, 27425, 25968]),
      (js ''tokenStats.totalKeys'', [26377, 29992, 37327] @ js '' Key''),
      (js ''tokenStats.trendByHour'', [29992, 37327, 36235, 21183, 65288, 25353, 23567, 26102, 65289]),
      (js ''tokenStats.trendByDay'', [29992, 37327, 36235, 21183, 65288, 25353, 22825, 65289]),
      (js ''tokenStats.seriesPrompt'', js ''Prompt Tokens''),
      (js ''tokenStats.seriesCompletion'', js ''Completion Tokens''),
      (js ''tokenStats.byModelTitle'', [27169, 22411] @ js '' Token '' @ [20998, 24067]),
      (js ''tokenStats.byModelCenter'', [24635] @ js '' Tokens''),
      (js ''tokenStats.byKeyTitle'', js ''API Key '' @ [29992, 37327, 26126, 32454]),
      (js ''tokenStats.byKeyEmpty'', [35813, 26102, 38388, 33539, 22260, 20869, 26080, 35843, 29992, 35760, 24405]),
      (js ''tokenStats.colApiKey'', js ''API Key''),
      (js ''tokenStats.colTotalTokens'', [24635] @ js '' Tokens''),
      (js ''tokenStats.colShare'', [21344, 27604]),
      (js ''tokenStats.totalTokens'', [24635] @ js '' Token '' @ [25968]),
      (js ''tokenStats.totalCalls'', [24635, 35843, 29992, 27425, 25968]),
      (js ''tokenStats.promptTokens'', js ''Prompt Tokens''),
      (js ''tokenStats.completionTokens'', js ''Completion Tokens''),
      (js ''tokenStats.keysWithUsage'', [26377, 29992, 37327] @ js '' Key''),
      (js ''tokenStats.modelDistribution'', [27169, 22411] @ js '' Token '' @ [20998, 24067]),
      (js ''tokenStats.keyUsageDetail'', js ''API Key '' @ [29992, 37327, 26126, 32454]),
      (js ''tokenStats.noRecords'', [35813, 26102, 38388, 33539, 22260, 20869, 26080, 35843, 29992, 35760, 24405]),
      (js ''tokenStats.exportSuccess'', [23548, 20986, 20219, 21153, 24050, 35302, 21457, 65292, 35831, 26597, 30475, 27983, 35272, 22120, 19979, 36733])]"

definition en_tokenStats :: "(jsstring \<times> jsstring) list" where
  "en_tokenStats =
     [(js ''tokenStats.title'', js ''Token Usage Statistics''),
      (js ''tokenStats.desc'', js ''Token usage per API Key / model over a time range. Data source: call audit logs.''),
      (js ''tokenStats.exportCsv'', js ''Export CSV''),
      (js ''tokenStats.exportOk'', js ''Export started, check your browser downloads''),
      (js ''tokenStats.presetToday'', js ''Today''),
      (js ''tokenStats.preset7d'', js ''Last 7 days''),
      (js ''tokenStats.preset30d'', js ''Last 30 days''),
      (js ''tokenStats.presetMonth'', js ''This month''),
      (js ''tokenStats.presetCustom'', js ''Custom''),
      (js ''tokenStats.placeholderStart'', js ''Start''),
      (js ''tokenStats.placeholderEnd'', js ''End''),
      (js ''tokenStats.placeholderApikey'', js ''API Key''),
      (js ''tokenStats.placeholderModelAlias'', js ''Model alias''),
      (js ''tokenStats.granDay'', js ''By day''),
      (js ''tokenStats.granHour'', js ''By hour''),
      (js ''tokenStats.queryBtn'', js ''Query''),
      (js ''tokenStats.resetBtn'', js ''Reset''),
      (js ''tokenStats.totalTokensTitle'', js ''Total Tokens''),
      (js ''tokenStats.colPromptTokens'', js ''Prompt Tokens''),
      (js ''tokenStats.colCompletionTokens'', js ''Completion Tokens''),
      (js ''tokenStats.colCallsCount'', js ''Calls''),
      (js ''tokenStats.totalKeys'', js ''Keys with usage''),
      (js ''tokenStats.trendByHour'', js ''Usage trend (hourly)''),
      (js ''tokenStats.trendByDay'', js ''Usage trend (daily)''),
      (js ''tokenStats.seriesPrompt'', js ''Prompt Tokens''),
      (js ''tokenStats.seriesCompletion'', js ''Completion Tokens''),
      (js ''tokenStats.byModelTitle'', js ''Token by Model''),
      (js ''tokenStats.byModelCenter'', js ''Total Tokens''),
      (js ''tokenStats.byKeyTitle'', js ''API Key Usage Details''),
      (js ''tokenStats.byKeyEmpty'', js ''No records in this range''),
      (js ''tokenStats.colApiKey'', js ''API Key''),
      (js ''tokenStats.colTotalTokens'', js ''Total Tokens''),
      (js ''tokenStats.colShare'', js ''Share''),
      (js ''tokenStats.totalTokens'', js ''Total Tokens''),
      (js ''tokenStats.totalCalls'', js ''Total Calls''),
      (js ''tokenStats.promptTokens'', js ''Prompt Tokens''),
      (js ''tokenStats.completionTokens'', js ''Completion Tokens''),
      (js ''tokenStats.keysWithUsage'', js ''Keys with usage''),
      (js ''tokenStats.modelDistribution'', js ''Token by Model''),
      (js ''tokenStats.keyUsageDetail'', js ''API Key Usage Details''),
      (js ''tokenStats.noRecords'', js ''No records in this range''),
      (js ''tokenStats.exportSuccess'', js ''Export started, check your browser downloads'')]"

end
