(* ===== verification/PageLabels.thy ===== *)
theory PageLabels
  imports "HOL-Library.Multiset" "HOL-Library.Sublist" PageCatalogs PageCatalogs2 I18n ListViews GuardViews
    ConfigPages Security StatusPages LogPages StatsPages HelpPages
begin

text \<open>
  The page catalogues as the bundler hands them to \<open>buildResources\<close> of frontend/src/i18n/index.ts, and
  the labels of the tables and forms of the pages: every text of a page is found in both languages,
  in whatever order the modules arrive, and every label of a table or form has one.
\<close>

section \<open>The modules\<close>

text \<open>A page's file name, the name its keys start with, and its catalogue in either language.\<close>

definition page_catalogues :: "(string \<times> string \<times> catalogue \<times> catalogue) list" where
  "page_catalogues =
     [(''accountSecurity'', ''acctSec.'', zh_accountSecurity, en_accountSecurity),
      (''apikeys'', ''apikeys.'', zh_apikeys, en_apikeys),
      (''backup'', ''backup.'', zh_backup, en_backup),
      (''calls'', ''calls.'', zh_calls, en_calls),
      (''charts'', ''charts.'', zh_charts, en_charts),
      (''configStatus'', ''cfg.'', zh_configStatus, en_configStatus),
      (''dashboard'', ''dashboard.'', zh_dashboard, en_dashboard),
      (''failover'', ''failover.'', zh_failover, en_failover),
      (''general'', ''general.'', zh_general, en_general),
      (''help'', ''help.'', zh_help, en_help),
      (''injection'', ''injection.'', zh_injection, en_injection),
      (''keywords'', ''keywords.'', zh_keywords, en_keywords),
      (''login'', ''login.'', zh_login, en_login),
      (''models'', ''models.'', zh_models, en_models),
      (''notFound'', ''notFound.'', zh_notFound, en_notFound),
      (''operations'', ''ops.'', zh_operations, en_operations),
      (''outputFilter'', ''outputFilter.'', zh_outputFilter, en_outputFilter),
      (''pii'', ''pii.'', zh_pii, en_pii),
      (''providers'', ''providers.'', zh_providers, en_providers),
      (''quotaAlerts'', ''quotaAlerts.'', zh_quotaAlerts, en_quotaAlerts),
      (''quotas'', ''quotas.'', zh_quotas, en_quotas),
      (''rateLimits'', ''rateLimits.'', zh_rateLimits, en_rateLimits),
      (''runtimeStatus'', ''rt.'', zh_runtimeStatus, en_runtimeStatus),
      (''security'', ''security.'', zh_security, en_security),
      (''tokenStats'', ''tokenStats.'', zh_tokenStats, en_tokenStats)]"

definition module_path :: "jsstring \<Rightarrow> string \<Rightarrow> jsstring" where
  "module_path lang name = js ''./locales/'' @ lang @ js ''/pages/'' @ js name @ js ''.ts''"

definition page_modules :: "(jsstring \<times> catalogue) list" where
  "page_modules =
     map (\<lambda>(n, p, zh, en). (module_path lang_zh n, zh)) page_catalogues
     @ map (\<lambda>(n, p, zh, en). (module_path lang_en n, en)) page_catalogues"

section \<open>The catalogues of the pages\<close>

text \<open>Both languages have the same keys in the same order, each once, and all with the page's prefix.\<close>

lemma page_parity:
  "map fst en_accountSecurity = map fst zh_accountSecurity"
  "map fst en_apikeys = map fst zh_apikeys"
  "map fst en_backup = map fst zh_backup"
  "map fst en_calls = map fst zh_calls"
  "map fst en_charts = map fst zh_charts"
  "map fst en_configStatus = map fst zh_configStatus"
  "map fst en_dashboard = map fst zh_dashboard"
  "map fst en_failover = map fst zh_failover"
  "map fst en_general = map fst zh_general"
  "map fst en_help = map fst zh_help"
  "map fst en_injection = map fst zh_injection"
  "map fst en_keywords = map fst zh_keywords"
  "map fst en_login = map fst zh_login"
  "map fst en_models = map fst zh_models"
  "map fst en_notFound = map fst zh_notFound"
  "map fst en_operations = map fst zh_operations"
  "map fst en_outputFilter = map fst zh_outputFilter"
  "map fst en_pii = map fst zh_pii"
  "map fst en_providers = map fst zh_providers"
  "map fst en_quotaAlerts = map fst zh_quotaAlerts"
  "map fst en_quotas = map fst zh_quotas"
  "map fst en_rateLimits = map fst zh_rateLimits"
  "map fst en_runtimeStatus = map fst zh_runtimeStatus"
  "map fst en_security = map fst zh_security"
  "map fst en_tokenStats = map fst zh_tokenStats"
  by (simp_all add: zh_accountSecurity_def en_accountSecurity_def zh_apikeys_def en_apikeys_def zh_backup_def en_backup_def
    zh_calls_def en_calls_def zh_charts_def en_charts_def zh_configStatus_def en_configStatus_def
    zh_dashboard_def en_dashboard_def zh_failover_def en_failover_def zh_general_def en_general_def
    zh_help_def en_help_def zh_injection_def en_injection_def zh_keywords_def en_keywords_def
    zh_login_def en_login_def zh_models_def en_models_def zh_notFound_def en_notFound_def
    zh_operations_def en_operations_def zh_outputFilter_def en_outputFilter_def zh_pii_def en_pii_def
    zh_providers_def en_providers_def zh_quotaAlerts_def en_quotaAlerts_def zh_quotas_def en_quotas_def
    zh_rateLimits_def en_rateLimits_def zh_runtimeStatus_def en_runtimeStatus_def zh_security_def en_security_def
    zh_tokenStats_def en_tokenStats_def)

lemma starts_with_js: "starts_with (js s) (js p) \<longleftrightarrow> prefix p s"
proof (induction p arbitrary: s)
  case (Cons a p)
  then show ?case by (cases s) (auto simp: js_def)
qed (auto simp: js_def)

lemma page_keys_1:
  "distinct (map fst zh_accountSecurity) \<and> list_all (\<lambda>k. starts_with k (js ''acctSec.'')) (map fst zh_accountSecurity)"
  "distinct (map fst zh_apikeys) \<and> list_all (\<lambda>k. starts_with k (js ''apikeys.'')) (map fst zh_apikeys)"
  "distinct (map fst zh_backup) \<and> list_all (\<lambda>k. starts_with k (js ''backup.'')) (map fst zh_backup)"
  "distinct (map fst zh_calls) \<and> list_all (\<lambda>k. starts_with k (js ''calls.'')) (map fst zh_calls)"
  "distinct (map fst zh_charts) \<and> list_all (\<lambda>k. starts_with k (js ''charts.'')) (map fst zh_charts)"
  by (simp_all add: starts_with_js zh_accountSecurity_def zh_apikeys_def zh_backup_def zh_calls_def zh_charts_def)

lemma page_keys_2:
  "distinct (map fst zh_configStatus) \<and> list_all (\<lambda>k. starts_with k (js ''cfg.'')) (map fst zh_configStatus)"
  "distinct (map fst zh_dashboard) \<and> list_all (\<lambda>k. starts_with k (js ''dashboard.'')) (map fst zh_dashboard)"
  "distinct (map fst zh_failover) \<and> list_all (\<lambda>k. starts_with k (js ''failover.'')) (map fst zh_failover)"
  "distinct (map fst zh_general) \<and> list_all (\<lambda>k. starts_with k (js ''general.'')) (map fst zh_general)"
  "distinct (map fst zh_help) \<and> list_all (\<lambda>k. starts_with k (js ''help.'')) (map fst zh_help)"
  by (simp_all add: starts_with_js zh_configStatus_def zh_dashboard_def zh_failover_def zh_general_def zh_help_def)

lemma page_keys_3:
  "distinct (map fst zh_injection) \<and> list_all (\<lambda>k. starts_with k (js ''injection.'')) (map fst zh_injection)"
  "distinct (map fst zh_keywords) \<and> list_all (\<lambda>k. starts_with k (js ''keywords.'')) (map fst zh_keywords)"
  "distinct (map fst zh_login) \<and> list_all (\<lambda>k. starts_with k (js ''login.'')) (map fst zh_login)"
  "distinct (map fst zh_models) \<and> list_all (\<lambda>k. starts_with k (js ''models.'')) (map fst zh_models)"
  "distinct (map fst zh_notFound) \<and> list_all (\<lambda>k. starts_with k (js ''notFound.'')) (map fst zh_notFound)"
  by (simp_all add: starts_with_js zh_injection_def zh_keywords_def zh_login_def zh_models_def zh_notFound_def)

lemma page_keys_4:
  "distinct (map fst zh_operations) \<and> list_all (\<lambda>k. starts_with k (js ''ops.'')) (map fst zh_operations)"
  "distinct (map fst zh_outputFilter) \<and> list_all (\<lambda>k. starts_with k (js ''outputFilter.'')) (map fst zh_outputFilter)"
  "distinct (map fst zh_pii) \<and> list_all (\<lambda>k. starts_with k (js ''pii.'')) (map fst zh_pii)"
  "distinct (map fst zh_providers) \<and> list_all (\<lambda>k. starts_with k (js ''providers.'')) (map fst zh_providers)"
  "distinct (map fst zh_quotaAlerts) \<and> list_all (\<lambda>k. starts_with k (js ''quotaAlerts.'')) (map fst zh_quotaAlerts)"
  by (simp_all add: starts_with_js zh_operations_def zh_outputFilter_def zh_pii_def zh_providers_def zh_quotaAlerts_def)

lemma page_keys_5:
  "distinct (map fst zh_quotas) \<and> list_all (\<lambda>k. starts_with k (js ''quotas.'')) (map fst zh_quotas)"
  "distinct (map fst zh_rateLimits) \<and> list_all (\<lambda>k. starts_with k (js ''rateLimits.'')) (map fst zh_rateLimits)"
  "distinct (map fst zh_runtimeStatus) \<and> list_all (\<lambda>k. starts_with k (js ''rt.'')) (map fst zh_runtimeStatus)"
  "distinct (map fst zh_security) \<and> list_all (\<lambda>k. starts_with k (js ''security.'')) (map fst zh_security)"
  "distinct (map fst zh_tokenStats) \<and> list_all (\<lambda>k. starts_with k (js ''tokenStats.'')) (map fst zh_tokenStats)"
  by (simp_all add: starts_with_js zh_quotas_def zh_rateLimits_def zh_runtimeStatus_def zh_security_def zh_tokenStats_def)

lemmas page_keys = page_keys_1 page_keys_2 page_keys_3 page_keys_4 page_keys_5

lemma page_catalogue_ok:
  "\<forall>(n, p, zh, en) \<in> set page_catalogues. map fst en = map fst zh \<and> distinct (map fst zh)
     \<and> list_all (\<lambda>k. starts_with k (js p)) (map fst zh)"
  by (simp only: page_catalogues_def list.set ball_simps prod.case page_parity page_keys simp_thms)

text \<open>The first part of a key, up to its point, is that of the page.\<close>

definition dot_prefix :: "string \<Rightarrow> bool" where
  "dot_prefix p \<longleftrightarrow> p \<noteq> [] \<and> last p = CHR ''.'' \<and> CHR ''.'' \<notin> set (butlast p)"

lemma page_prefixes: "list_all dot_prefix (map (\<lambda>c. fst (snd c)) page_catalogues)"
  "distinct (map (\<lambda>c. fst (snd c)) page_catalogues)"
  by (simp_all add: page_catalogues_def dot_prefix_def)

lemma starts_with_append: "starts_with k p \<longleftrightarrow> (\<exists>r. k = p @ r)"
  by (induction k p rule: starts_with.induct) auto

lemma point: "(of_char c :: cu) = 46 \<longleftrightarrow> c = CHR ''.''"
proof -
  have "(46 :: cu) = of_char (CHR ''.'')" by simp
  then show ?thesis by (simp only: of_char16_inj)
qed

lemma key_prefix:
  assumes "starts_with k (js p)" "dot_prefix p"
  shows "takeWhile (\<lambda>u. u \<noteq> 46) k = js (butlast p)"
proof -
  from assms obtain r where "k = js (butlast p @ [CHR ''.'']) @ r"
    by (metis append_butlast_last_id dot_prefix_def starts_with_append)
  then have "k = js (butlast p) @ 46 # r" by (simp add: js_append js_def)
  moreover have "46 \<notin> set (js (butlast p))"
    using assms(2) by (auto simp: dot_prefix_def js_def point eq_commute [of 46])
  ultimately show ?thesis by (simp add: takeWhile_append)
qed

lemma dot_prefix_inject: "dot_prefix p \<Longrightarrow> dot_prefix q \<Longrightarrow> butlast p = butlast q \<Longrightarrow> p = q"
  by (metis append_butlast_last_id dot_prefix_def)

definition in_lang :: "jsstring \<Rightarrow> string \<times> string \<times> catalogue \<times> catalogue \<Rightarrow> catalogue" where
  "in_lang l c = (if l = lang_zh then fst (snd (snd c)) else snd (snd (snd c)))"

lemma in_lang_keys:
  assumes "c \<in> set page_catalogues"
  shows "map fst (in_lang l c) = map fst (fst (snd (snd c)))" "distinct (map fst (in_lang l c))"
    and "k \<in> set (map fst (in_lang l c)) \<Longrightarrow> starts_with k (js (fst (snd c)))"
proof -
  obtain n p zh en where c: "c = (n, p, zh, en)" by (cases c) auto
  have ok: "map fst en = map fst zh" "distinct (map fst zh)" "list_all (\<lambda>k. starts_with k (js p)) (map fst zh)"
    using bspec [OF page_catalogue_ok assms] by (simp_all only: c prod.case)
  have keys: "map fst (in_lang l c) = map fst zh" using ok(1) by (simp add: in_lang_def c)
  then show "map fst (in_lang l c) = map fst (fst (snd (snd c)))" by (simp add: c)
  show "distinct (map fst (in_lang l c))" using keys ok(2) by simp
  show "k \<in> set (map fst (in_lang l c)) \<Longrightarrow> starts_with k (js (fst (snd c)))"
    unfolding keys using ok(3) by (simp only: list_all_iff c fst_conv snd_conv)
qed

lemma same_catalogue:
  assumes "c \<in> set page_catalogues" "c' \<in> set page_catalogues"
    and "k \<in> set (map fst (in_lang l c))" "k \<in> set (map fst (in_lang l' c'))"
  shows "c = c'"
proof -
  have d: "dot_prefix (fst (snd c))" "dot_prefix (fst (snd c'))"
    using page_prefixes(1) assms(1,2) by (auto simp: list_all_iff)
  have "js (butlast (fst (snd c))) = js (butlast (fst (snd c')))"
    using key_prefix [OF in_lang_keys(3) d(1)] key_prefix [OF in_lang_keys(3) d(2)] assms by metis
  then have "fst (snd c) = fst (snd c')" using dot_prefix_inject [OF d] by simp
  then show ?thesis using page_prefixes(2) assms(1,2) by (auto simp: distinct_map inj_on_def)
qed

lemma module_langs:
  "list_all (\<lambda>n. catalogue_lang (normalize_path (module_path lang_zh n)) = Some lang_zh
     \<and> catalogue_lang (normalize_path (module_path lang_en n)) = Some lang_en) (map fst page_catalogues)"
  by (simp add: page_catalogues_def module_path_def i18n_defs js_def)

lemma page_module_lang:
  assumes "(path, cat) \<in> set page_modules" "catalogue_lang (normalize_path path) = Some l"
  shows "\<exists>c \<in> set page_catalogues. cat = in_lang l c"
proof -
  from assms(1) obtain c l' where c: "c \<in> set page_catalogues" "l' = lang_zh \<or> l' = lang_en"
    "path = module_path l' (fst c)" "cat = in_lang l' c"
    by (force simp: page_modules_def in_lang_def lang_zh_def lang_en_def)
  then have "catalogue_lang (normalize_path path) = Some l'"
    using module_langs by (auto simp: list_all_iff)
  with assms(2) c show ?thesis by auto
qed

section \<open>Merging\<close>

lemma add_module_other:
  "\<not> (catalogue_lang (normalize_path p) = Some l \<and> map_of c k \<noteq> None) \<Longrightarrow> add_module (p, c) base l k = base l k"
  by (auto simp: add_module_def map_add_def split: option.splits)

lemma fold_modules:
  assumes "(path, cat) \<in> set ms" "catalogue_lang (normalize_path path) = Some l" "map_of cat k = Some v"
    and "\<And>path' cat' v'. (path', cat') \<in> set ms \<Longrightarrow> catalogue_lang (normalize_path path') = Some l \<Longrightarrow>
           map_of cat' k = Some v' \<Longrightarrow> v' = v"
  shows "fold add_module ms base l k = Some v"
  using assms
proof (induction ms rule: rev_induct)
  case (snoc m ms)
  obtain path' cat' where m: "m = (path', cat')" by (cases m)
  show ?case
  proof (cases "catalogue_lang (normalize_path path') = Some l \<and> map_of cat' k \<noteq> None")
    case True
    then obtain v' where "map_of cat' k = Some v'" by auto
    with snoc.prems(4) [of path' cat' v'] True show ?thesis by (simp add: m add_module_def)
  next
    case False
    then have "(path, cat) \<in> set ms" using snoc.prems(1-3) by (auto simp: m)
    then have "fold add_module ms base l k = Some v"
      using snoc.prems(2,3) by (rule snoc.IH) (rule snoc.prems(4); simp)
    with False show ?thesis by (simp add: m add_module_other)
  qed
qed simp

lemma page_text_merged:
  assumes "mset ms = mset page_modules" "(n, p, zh, en) \<in> set page_catalogues"
    and "l \<in> set SUPPORTED_LANGS" "l' \<in> set SUPPORTED_LANGS" "(k, v) \<in> set (if l = lang_zh then zh else en)"
  shows "buildResources ms l k = Some v \<and> starts_with k (js p) \<and> buildResources ms l' k \<noteq> None"
proof -
  let ?c = "(n, p, zh, en)"
  have found: "buildResources ms l k = Some v" if in_c: "l \<in> set SUPPORTED_LANGS" "(k, v) \<in> set (in_lang l ?c)" for l v
  proof -
    have lang: "catalogue_lang (normalize_path (module_path l n)) = Some l"
      using module_langs in_c(1) assms(2) by (auto simp: list_all_iff SUPPORTED_LANGS_def)
    have sub: "set ms = set page_modules" using assms(1) by (metis set_mset_mset)
    have "(module_path l n, in_lang l ?c) \<in> set page_modules"
      using in_c(1) assms(2) by (force simp: page_modules_def in_lang_def SUPPORTED_LANGS_def lang_zh_def lang_en_def)
    then have in_ms: "(module_path l n, in_lang l ?c) \<in> set ms" using sub by simp
    have mine: "map_of (in_lang l ?c) k = Some v"
      using in_lang_keys(2) [OF assms(2)] in_c(2) by simp
    have uniq: "v' = v" if other: "(path', cat') \<in> set ms" "catalogue_lang (normalize_path path') = Some l"
      "map_of cat' k = Some v'" for path' cat' v'
    proof -
      obtain c' where c': "c' \<in> set page_catalogues" "cat' = in_lang l c'"
        using page_module_lang [OF _ other(2)] other(1) sub by blast
      have "k \<in> set (map fst (in_lang l ?c))" "k \<in> set (map fst (in_lang l c'))"
        using in_c(2) map_of_SomeD [OF other(3)] c'(2) by force+
      then have "?c = c'" by (rule same_catalogue [OF assms(2) c'(1)])
      then show ?thesis using mine other(3) c'(2) by simp
    qed
    show ?thesis unfolding buildResources_def by (rule fold_modules [OF in_ms lang mine uniq])
  qed
  have kv: "(k, v) \<in> set (in_lang l ?c)" using assms(5) by (auto simp: in_lang_def split: if_splits)
  then have "k \<in> set (map fst (in_lang l ?c))" by force
  then have "starts_with k (js p)" "k \<in> set (map fst (in_lang l' ?c))"
    using in_lang_keys [OF assms(2)] by (auto simp flip: set_map)
  then show ?thesis using found [OF assms(3) kv] found [OF assms(4)] by fastforce
qed

section \<open>Labels\<close>

text \<open>The labels of the tables and forms, page by page, with the keys in the place of their texts; a label
  that has a point is a key.\<close>

definition ui_keys :: Ui where
  "ui_keys = \<lparr>ui_t = \<lambda>k a. k, ui_lang = [], ui_day = \<lambda>v f. None, ui_locale = \<lambda>l n. [], ui_required = \<lambda>n. []\<rparr>"

definition labels_of :: "'r column list \<Rightarrow> jsstring list" where
  "labels_of cs = filter (\<lambda>k. 46 \<in> set k) (map co_title cs)"

definition form_labels :: "'f form_item list \<Rightarrow> jsstring list" where
  "form_labels is = filter (\<lambda>k. 46 \<in> set k) (map fi_label is)"

definition page_labels :: "(string \<times> jsstring list) list" where
  "page_labels =
     [(''providers'', labels_of (providers_columns ui_keys None) @ form_labels (providers_form ui_keys (\<lambda>_. True) False)),
      (''models'', labels_of (models_columns ui_keys None) @ form_labels (upstream_items ui_keys) @ form_labels (models_form ui_keys)),
      (''failover'', form_labels (failover_items ui_keys)),
      (''keywords'', labels_of (keywords_columns ui_keys) @ labels_of (keyword_hits_columns ui_keys) @ form_labels (keywords_form ui_keys)),
      (''pii'', labels_of (pii_columns ui_keys) @ labels_of (pii_template_columns ui_keys) @ labels_of (pii_findings_columns ui_keys) @ form_labels (pii_form ui_keys)),
      (''outputFilter'', form_labels (output_items ui_keys)),
      (''quotas'', labels_of (quotas_columns ui_keys) @ form_labels (quotas_form ui_keys True)),
      (''rateLimits'', labels_of (rateLimits_columns ui_keys) @ form_labels (rateLimits_form ui_keys)),
      (''quotaAlerts'', form_labels (alerts_items (\<lambda>_. True) True ui_keys)),
      (''apikeys'', labels_of (apikeys_columns ui_keys) @ form_labels (apikeys_form ui_keys True)),
      (''general'', form_labels (general_items ui_keys)),
      (''security'', labels_of (users_columns ui_keys) @ form_labels (security_form ui_keys) @ form_labels (user_form ui_keys length) @ form_labels (pwd_form ui_keys length)),
      (''backup'', labels_of (backup_columns ui_keys)),
      (''configStatus'', labels_of (history_columns ui_keys) @ labels_of (history_modal_columns ui_keys)),
      (''runtimeStatus'', labels_of (upstream_columns ui_keys) @ labels_of (qps_columns ui_keys)),
      (''calls'', labels_of (calls_columns ui_keys)),
      (''operations'', labels_of (operations_columns ui_keys)),
      (''tokenStats'', labels_of (token_columns ui_keys)),
      (''dashboard'', labels_of (health_columns ui_keys)),
      (''help'', labels_of (help_columns ui_keys)),
      (''injection'', labels_of (injection_columns ui_keys) @ labels_of (injection_template_columns ui_keys) @ form_labels (injection_form ui_keys))]"

lemma labels_of_simps [simp]: "labels_of [] = []"
  "labels_of (col t w f # cs) = (if 46 \<in> set t then [t] else []) @ labels_of cs"
  by (simp_all add: labels_of_def col_def)

lemma form_labels_simps [simp]: "form_labels [] = []"
  "form_labels (i # is) = (if 46 \<in> set (fi_label i) then [fi_label i] else []) @ form_labels is"
  by (simp_all add: form_labels_def)

lemma ui_keys_tr [simp]: "tr ui_keys k = js k"
  by (simp add: tr_def ui_keys_def)

lemma point_in_js: "46 \<in> set (js s) \<longleftrightarrow> CHR ''.'' \<in> set s"
  by (auto simp: js_def point eq_commute [of 46] image_iff)

text \<open>The labels of a page are keys of its own catalogue, of the common one, or of that of the PII page,
  whose words the injection page borrows.\<close>

lemma labels_providers:
  "set (labels_of (providers_columns ui_keys None) @ form_labels (providers_form ui_keys (\<lambda>_. True) False)) \<subseteq> set (map fst zh_providers) \<union> set (map fst zh_common)"
  by (simp add: providers_columns_def providers_form_def point_in_js zh_providers_def zh_common_def)

lemma labels_models:
  "set (labels_of (models_columns ui_keys None) @ form_labels (upstream_items ui_keys) @ form_labels (models_form ui_keys)) \<subseteq> set (map fst zh_models) \<union> set (map fst zh_common)"
  by (simp add: models_columns_def models_form_def upstream_items_def point_in_js zh_models_def zh_common_def)

lemma labels_failover:
  "set (form_labels (failover_items ui_keys)) \<subseteq> set (map fst zh_failover) \<union> set (map fst zh_common)"
  by (simp add: failover_items_def point_in_js zh_failover_def zh_common_def)

lemma labels_keywords:
  "set (labels_of (keywords_columns ui_keys) @ labels_of (keyword_hits_columns ui_keys) @ form_labels (keywords_form ui_keys)) \<subseteq> set (map fst zh_keywords) \<union> set (map fst zh_common)"
  by (simp add: keyword_hits_columns_def keywords_columns_def keywords_form_def point_in_js zh_keywords_def zh_common_def)

lemma labels_pii:
  "set (labels_of (pii_columns ui_keys) @ labels_of (pii_template_columns ui_keys) @ labels_of (pii_findings_columns ui_keys) @ form_labels (pii_form ui_keys)) \<subseteq> set (map fst zh_pii) \<union> set (map fst zh_common)"
  by (simp add: pii_columns_def pii_findings_columns_def pii_form_def pii_template_columns_def point_in_js zh_pii_def zh_common_def)

lemma labels_outputFilter:
  "set (form_labels (output_items ui_keys)) \<subseteq> set (map fst zh_outputFilter) \<union> set (map fst zh_common)"
  by (simp add: output_items_def point_in_js zh_outputFilter_def zh_common_def)

lemma labels_quotas:
  "set (labels_of (quotas_columns ui_keys) @ form_labels (quotas_form ui_keys True)) \<subseteq> set (map fst zh_quotas) \<union> set (map fst zh_common)"
  by (simp add: quotas_columns_def quotas_form_def point_in_js zh_quotas_def zh_common_def)

lemma labels_rateLimits:
  "set (labels_of (rateLimits_columns ui_keys) @ form_labels (rateLimits_form ui_keys)) \<subseteq> set (map fst zh_rateLimits) \<union> set (map fst zh_common)"
  by (simp add: rateLimits_columns_def rateLimits_form_def point_in_js zh_rateLimits_def zh_common_def)

lemma labels_quotaAlerts:
  "set (form_labels (alerts_items (\<lambda>_. True) True ui_keys)) \<subseteq> set (map fst zh_quotaAlerts) \<union> set (map fst zh_common)"
  by (simp add: alerts_items_def point_in_js zh_quotaAlerts_def zh_common_def)

lemma labels_apikeys:
  "set (labels_of (apikeys_columns ui_keys) @ form_labels (apikeys_form ui_keys True)) \<subseteq> set (map fst zh_apikeys) \<union> set (map fst zh_common)"
  by (simp add: apikeys_columns_def apikeys_form_def point_in_js zh_apikeys_def zh_common_def)

lemma labels_general:
  "set (form_labels (general_items ui_keys)) \<subseteq> set (map fst zh_general) \<union> set (map fst zh_common)"
  by (simp add: general_items_def point_in_js zh_general_def zh_common_def)

lemma labels_security:
  "set (labels_of (users_columns ui_keys) @ form_labels (security_form ui_keys) @ form_labels (user_form ui_keys length) @ form_labels (pwd_form ui_keys length)) \<subseteq> set (map fst zh_security) \<union> set (map fst zh_common)"
  by (simp add: pwd_form_def security_form_def user_form_def users_columns_def point_in_js zh_security_def zh_common_def)

lemma labels_backup:
  "set (labels_of (backup_columns ui_keys)) \<subseteq> set (map fst zh_backup) \<union> set (map fst zh_common)"
  by (simp add: backup_columns_def point_in_js zh_backup_def zh_common_def)

lemma labels_configStatus:
  "set (labels_of (history_columns ui_keys) @ labels_of (history_modal_columns ui_keys)) \<subseteq> set (map fst zh_configStatus) \<union> set (map fst zh_common)"
  by (simp add: history_columns_def history_modal_columns_def point_in_js zh_configStatus_def zh_common_def)

lemma labels_runtimeStatus:
  "set (labels_of (upstream_columns ui_keys) @ labels_of (qps_columns ui_keys)) \<subseteq> set (map fst zh_runtimeStatus) \<union> set (map fst zh_common)"
  by (simp add: qps_columns_def upstream_columns_def point_in_js zh_runtimeStatus_def zh_common_def)

lemma labels_calls:
  "set (labels_of (calls_columns ui_keys)) \<subseteq> set (map fst zh_calls) \<union> set (map fst zh_common)"
  by (simp add: calls_columns_def point_in_js zh_calls_def zh_common_def)

lemma labels_operations:
  "set (labels_of (operations_columns ui_keys)) \<subseteq> set (map fst zh_operations) \<union> set (map fst zh_common)"
  by (simp add: operations_columns_def point_in_js zh_operations_def zh_common_def)

lemma labels_tokenStats:
  "set (labels_of (token_columns ui_keys)) \<subseteq> set (map fst zh_tokenStats) \<union> set (map fst zh_common)"
  by (simp add: token_columns_def point_in_js zh_tokenStats_def zh_common_def)

lemma labels_dashboard:
  "set (labels_of (health_columns ui_keys)) \<subseteq> set (map fst zh_dashboard) \<union> set (map fst zh_common)"
  by (simp add: health_columns_def point_in_js zh_dashboard_def zh_common_def)

lemma labels_help:
  "set (labels_of (help_columns ui_keys)) \<subseteq> set (map fst zh_help) \<union> set (map fst zh_common)"
  by (simp add: help_columns_def point_in_js zh_help_def zh_common_def)

lemma labels_injection:
  "set (labels_of (injection_columns ui_keys) @ labels_of (injection_template_columns ui_keys) @ form_labels (injection_form ui_keys)) \<subseteq> set (map fst zh_injection) \<union> set (map fst zh_pii) \<union> set (map fst zh_common)"
  by (simp add: injection_columns_def injection_form_def injection_template_columns_def point_in_js zh_injection_def zh_pii_def zh_common_def)

definition page_key_set :: "jsstring set" where
  "page_key_set = set (map fst zh_common) \<union> (\<Union>c \<in> set page_catalogues. set (map fst (fst (snd (snd c)))))"

lemma common_in_key_set: "set (map fst zh_common) \<subseteq> page_key_set"
  unfolding page_key_set_def by (rule Un_upper1)

lemma page_in_key_set: "(n, p, zh, en) \<in> set page_catalogues \<Longrightarrow> set (map fst zh) \<subseteq> page_key_set"
  unfolding page_key_set_def by force

lemma listed_pages:
  "(''providers'', ''providers.'', zh_providers, en_providers) \<in> set page_catalogues"
  "(''models'', ''models.'', zh_models, en_models) \<in> set page_catalogues"
  "(''failover'', ''failover.'', zh_failover, en_failover) \<in> set page_catalogues"
  "(''keywords'', ''keywords.'', zh_keywords, en_keywords) \<in> set page_catalogues"
  "(''pii'', ''pii.'', zh_pii, en_pii) \<in> set page_catalogues"
  "(''outputFilter'', ''outputFilter.'', zh_outputFilter, en_outputFilter) \<in> set page_catalogues"
  "(''quotas'', ''quotas.'', zh_quotas, en_quotas) \<in> set page_catalogues"
  "(''rateLimits'', ''rateLimits.'', zh_rateLimits, en_rateLimits) \<in> set page_catalogues"
  "(''quotaAlerts'', ''quotaAlerts.'', zh_quotaAlerts, en_quotaAlerts) \<in> set page_catalogues"
  "(''apikeys'', ''apikeys.'', zh_apikeys, en_apikeys) \<in> set page_catalogues"
  "(''general'', ''general.'', zh_general, en_general) \<in> set page_catalogues"
  "(''security'', ''security.'', zh_security, en_security) \<in> set page_catalogues"
  "(''backup'', ''backup.'', zh_backup, en_backup) \<in> set page_catalogues"
  "(''configStatus'', ''cfg.'', zh_configStatus, en_configStatus) \<in> set page_catalogues"
  "(''runtimeStatus'', ''rt.'', zh_runtimeStatus, en_runtimeStatus) \<in> set page_catalogues"
  "(''calls'', ''calls.'', zh_calls, en_calls) \<in> set page_catalogues"
  "(''operations'', ''ops.'', zh_operations, en_operations) \<in> set page_catalogues"
  "(''tokenStats'', ''tokenStats.'', zh_tokenStats, en_tokenStats) \<in> set page_catalogues"
  "(''dashboard'', ''dashboard.'', zh_dashboard, en_dashboard) \<in> set page_catalogues"
  "(''help'', ''help.'', zh_help, en_help) \<in> set page_catalogues"
  "(''injection'', ''injection.'', zh_injection, en_injection) \<in> set page_catalogues"
  by (simp_all add: page_catalogues_def)

lemma page_labels_known: "\<forall>(n, ls) \<in> set page_labels. set ls \<subseteq> page_key_set"
proof -
  note within = listed_pages [THEN page_in_key_set] common_in_key_set
  have l_providers: "set (labels_of (providers_columns ui_keys None) @ form_labels (providers_form ui_keys (\<lambda>_. True) False)) \<subseteq> page_key_set"
    by (rule order_trans [OF labels_providers]) (intro Un_least within)
  have l_models: "set (labels_of (models_columns ui_keys None) @ form_labels (upstream_items ui_keys) @ form_labels (models_form ui_keys)) \<subseteq> page_key_set"
    by (rule order_trans [OF labels_models]) (intro Un_least within)
  have l_failover: "set (form_labels (failover_items ui_keys)) \<subseteq> page_key_set"
    by (rule order_trans [OF labels_failover]) (intro Un_least within)
  have l_keywords: "set (labels_of (keywords_columns ui_keys) @ labels_of (keyword_hits_columns ui_keys) @ form_labels (keywords_form ui_keys)) \<subseteq> page_key_set"
    by (rule order_trans [OF labels_keywords]) (intro Un_least within)
  have l_pii: "set (labels_of (pii_columns ui_keys) @ labels_of (pii_template_columns ui_keys) @ labels_of (pii_findings_columns ui_keys) @ form_labels (pii_form ui_keys)) \<subseteq> page_key_set"
    by (rule order_trans [OF labels_pii]) (intro Un_least within)
  have l_outputFilter: "set (form_labels (output_items ui_keys)) \<subseteq> page_key_set"
    by (rule order_trans [OF labels_outputFilter]) (intro Un_least within)
  have l_quotas: "set (labels_of (quotas_columns ui_keys) @ form_labels (quotas_form ui_keys True)) \<subseteq> page_key_set"
    by (rule order_trans [OF labels_quotas]) (intro Un_least within)
  have l_rateLimits: "set (labels_of (rateLimits_columns ui_keys) @ form_labels (rateLimits_form ui_keys)) \<subseteq> page_key_set"
    by (rule order_trans [OF labels_rateLimits]) (intro Un_least within)
  have l_quotaAlerts: "set (form_labels (alerts_items (\<lambda>_. True) True ui_keys)) \<subseteq> page_key_set"
    by (rule order_trans [OF labels_quotaAlerts]) (intro Un_least within)
  have l_apikeys: "set (labels_of (apikeys_columns ui_keys) @ form_labels (apikeys_form ui_keys True)) \<subseteq> page_key_set"
    by (rule order_trans [OF labels_apikeys]) (intro Un_least within)
  have l_general: "set (form_labels (general_items ui_keys)) \<subseteq> page_key_set"
    by (rule order_trans [OF labels_general]) (intro Un_least within)
  have l_security: "set (labels_of (users_columns ui_keys) @ form_labels (security_form ui_keys) @ form_labels (user_form ui_keys length) @ form_labels (pwd_form ui_keys length)) \<subseteq> page_key_set"
    by (rule order_trans [OF labels_security]) (intro Un_least within)
  have l_backup: "set (labels_of (backup_columns ui_keys)) \<subseteq> page_key_set"
    by (rule order_trans [OF labels_backup]) (intro Un_least within)
  have l_configStatus: "set (labels_of (history_columns ui_keys) @ labels_of (history_modal_columns ui_keys)) \<subseteq> page_key_set"
    by (rule order_trans [OF labels_configStatus]) (intro Un_least within)
  have l_runtimeStatus: "set (labels_of (upstream_columns ui_keys) @ labels_of (qps_columns ui_keys)) \<subseteq> page_key_set"
    by (rule order_trans [OF labels_runtimeStatus]) (intro Un_least within)
  have l_calls: "set (labels_of (calls_columns ui_keys)) \<subseteq> page_key_set"
    by (rule order_trans [OF labels_calls]) (intro Un_least within)
  have l_operations: "set (labels_of (operations_columns ui_keys)) \<subseteq> page_key_set"
    by (rule order_trans [OF labels_operations]) (intro Un_least within)
  have l_tokenStats: "set (labels_of (token_columns ui_keys)) \<subseteq> page_key_set"
    by (rule order_trans [OF labels_tokenStats]) (intro Un_least within)
  have l_dashboard: "set (labels_of (health_columns ui_keys)) \<subseteq> page_key_set"
    by (rule order_trans [OF labels_dashboard]) (intro Un_least within)
  have l_help: "set (labels_of (help_columns ui_keys)) \<subseteq> page_key_set"
    by (rule order_trans [OF labels_help]) (intro Un_least within)
  have l_injection: "set (labels_of (injection_columns ui_keys) @ labels_of (injection_template_columns ui_keys) @ form_labels (injection_form ui_keys)) \<subseteq> page_key_set"
    by (rule order_trans [OF labels_injection]) (intro Un_least within)
  show ?thesis
    by (simp only: page_labels_def list.set ball_simps prod.case simp_thms l_providers l_models l_failover l_keywords l_pii l_outputFilter l_quotas l_rateLimits l_quotaAlerts l_apikeys l_general l_security l_backup l_configStatus l_runtimeStatus l_calls l_operations l_tokenStats l_dashboard l_help l_injection)
qed

section \<open>Properties\<close>

text \<open>In whatever order the bundler hands the page catalogues over, every text of every page is found
  in its language as its file has it, and the other language has a text for the same key: no page
  overwrites a text of another, since each page's keys carry its own prefix.\<close>

theorem page_texts_found:
  assumes "mset ms = mset page_modules" "(n, p, zh, en) \<in> set page_catalogues"
    and "l \<in> set SUPPORTED_LANGS" "l' \<in> set SUPPORTED_LANGS" "(k, v) \<in> set (if l = lang_zh then zh else en)"
  shows "buildResources ms l k = Some v \<and> starts_with k (js p) \<and> buildResources ms l' k \<noteq> None"
  by (rule page_text_merged [OF assms])

lemma page_texts_found_witness:
  "buildResources (rev page_modules) lang_en (js ''notFound.backHome'') = Some (js ''Back to Home'')"
proof -
  have "(''notFound'', ''notFound.'', zh_notFound, en_notFound) \<in> set page_catalogues"
    by (simp add: page_catalogues_def)
  moreover have "(js ''notFound.backHome'', js ''Back to Home'')
      \<in> set (if lang_en = lang_zh then zh_notFound else en_notFound)"
    by (simp add: lang_en_def lang_zh_def en_notFound_def)
  ultimately show ?thesis
    using page_texts_found [of "rev page_modules" "''notFound''" "''notFound.''" zh_notFound en_notFound lang_en lang_en]
    by (simp add: SUPPORTED_LANGS_def)
qed

lemma page_key_resolves:
  assumes "mset ms = mset page_modules" "l \<in> set SUPPORTED_LANGS" "k \<in> page_key_set"
  shows "buildResources ms l k \<noteq> None"
proof -
  from assms(3) consider "k \<in> set (map fst zh_common)"
    | c where "c \<in> set page_catalogues" "k \<in> set (map fst (fst (snd (snd c))))"
    unfolding page_key_set_def by blast
  then show ?thesis
  proof cases
    case 1
    then show ?thesis using base_resources_dom [OF assms(2)] by (intro buildResources_keeps) blast
  next
    case 2
    obtain n' p zh en where c: "c = (n', p, zh, en)" by (cases c) auto
    then obtain v where "(k, v) \<in> set (if lang_zh = lang_zh then zh else en)" using 2(2) by auto
    moreover have "lang_zh \<in> set SUPPORTED_LANGS" by (simp add: SUPPORTED_LANGS_def)
    ultimately show ?thesis using page_text_merged [OF assms(1)] 2(1) assms(2) unfolding c by blast
  qed
qed

text \<open>The header of every column and the label of every form item of the console has a text in both
  languages, in whatever order the page catalogues are merged.\<close>

theorem page_labels_resolve:
  assumes "mset ms = mset page_modules" "l \<in> set SUPPORTED_LANGS" "(n, ls) \<in> set page_labels" "k \<in> set ls"
  shows "buildResources ms l k \<noteq> None"
  using page_labels_known assms(3,4) by (intro page_key_resolves [OF assms(1,2)]) fastforce

lemma page_labels_resolve_witness:
  "buildResources page_modules lang_en (js ''help.colProto'') \<noteq> None"
  by (rule page_labels_resolve [OF refl, of lang_en "''help''" "labels_of (help_columns ui_keys)"])
    (simp_all add: SUPPORTED_LANGS_def page_labels_def help_columns_def point_in_js)

end
