(* ===== verification/FrameLabels.thy ===== *)
theory FrameLabels
  imports ListFrames GuardFrames SettingsFrames LogFrames ShellFrames PageLabels
begin

text \<open>
  The texts of the pages. What a page shows, in whatever state it is and whatever the server has answered, is the
  same for any two translations that agree on the texts of the catalogues: so each text it shows is one that the
  catalogues have. This covers the whole tree: titles, buttons, columns, tags, cells, questions, labels, placeholders,
  choices, and the messages of the rules.
\<close>

section \<open>The keys\<close>

lemma listed:
  "(''providers'', ''providers.'', zh_providers, en_providers) \<in> set page_catalogues"
  "(''models'', ''models.'', zh_models, en_models) \<in> set page_catalogues"
  "(''rateLimits'', ''rateLimits.'', zh_rateLimits, en_rateLimits) \<in> set page_catalogues"
  "(''quotas'', ''quotas.'', zh_quotas, en_quotas) \<in> set page_catalogues"
  "(''apikeys'', ''apikeys.'', zh_apikeys, en_apikeys) \<in> set page_catalogues"
  "(''keywords'', ''keywords.'', zh_keywords, en_keywords) \<in> set page_catalogues"
  "(''pii'', ''pii.'', zh_pii, en_pii) \<in> set page_catalogues"
  "(''injection'', ''injection.'', zh_injection, en_injection) \<in> set page_catalogues"
  "(''outputFilter'', ''outputFilter.'', zh_outputFilter, en_outputFilter) \<in> set page_catalogues"
  "(''failover'', ''failover.'', zh_failover, en_failover) \<in> set page_catalogues"
  "(''quotaAlerts'', ''quotaAlerts.'', zh_quotaAlerts, en_quotaAlerts) \<in> set page_catalogues"
  "(''general'', ''general.'', zh_general, en_general) \<in> set page_catalogues"
  "(''security'', ''security.'', zh_security, en_security) \<in> set page_catalogues"
  "(''backup'', ''backup.'', zh_backup, en_backup) \<in> set page_catalogues"
  "(''configStatus'', ''cfg.'', zh_configStatus, en_configStatus) \<in> set page_catalogues"
  "(''runtimeStatus'', ''rt.'', zh_runtimeStatus, en_runtimeStatus) \<in> set page_catalogues"
  "(''calls'', ''calls.'', zh_calls, en_calls) \<in> set page_catalogues"
  "(''operations'', ''ops.'', zh_operations, en_operations) \<in> set page_catalogues"
  "(''tokenStats'', ''tokenStats.'', zh_tokenStats, en_tokenStats) \<in> set page_catalogues"
  "(''charts'', ''charts.'', zh_charts, en_charts) \<in> set page_catalogues"
  "(''accountSecurity'', ''acctSec.'', zh_accountSecurity, en_accountSecurity) \<in> set page_catalogues"
  "(''login'', ''login.'', zh_login, en_login) \<in> set page_catalogues"
  "(''help'', ''help.'', zh_help, en_help) \<in> set page_catalogues"
  "(''notFound'', ''notFound.'', zh_notFound, en_notFound) \<in> set page_catalogues"
  "(''dashboard'', ''dashboard.'', zh_dashboard, en_dashboard) \<in> set page_catalogues"
  by (simp_all add: page_catalogues_def)

definition text_keys :: "jsstring set" where
  "text_keys = page_key_set \<union> set (map fst zh_menu) \<union> set (map fst zh_dicts)"

lemma key_sets_in: "set (map fst zh_common) \<subseteq> text_keys" "set (map fst zh_menu) \<subseteq> text_keys"
  "set (map fst zh_dicts) \<subseteq> text_keys"
  using common_in_key_set by (auto simp: text_keys_def)

lemma page_in_text_keys: "(n, p, zh, en) \<in> set page_catalogues \<Longrightarrow> set (map fst zh) \<subseteq> text_keys"
  using page_in_key_set by (fastforce simp: text_keys_def)

lemma dict_key_in: "(ns, metas) \<in> set dictionaries \<Longrightarrow> m \<in> set metas \<Longrightarrow> dict_key ns (fst m) \<in> text_keys"
  using key_sets_in(3) unfolding dict_keys_eq [symmetric] dict_keys_def by force

lemmas keys_common = key_sets_in(1) [unfolded zh_common_def, simplified]
lemmas keys_menu = key_sets_in(2) [unfolded zh_menu_def, simplified]
lemmas keys_providers = page_in_text_keys [OF listed(1), unfolded zh_providers_def, simplified]
lemmas keys_models = page_in_text_keys [OF listed(2), unfolded zh_models_def, simplified]
lemmas keys_rateLimits = page_in_text_keys [OF listed(3), unfolded zh_rateLimits_def, simplified]
lemmas keys_quotas = page_in_text_keys [OF listed(4), unfolded zh_quotas_def, simplified]
lemmas keys_apikeys = page_in_text_keys [OF listed(5), unfolded zh_apikeys_def, simplified]
lemmas keys_keywords = page_in_text_keys [OF listed(6), unfolded zh_keywords_def, simplified]
lemmas keys_pii = page_in_text_keys [OF listed(7), unfolded zh_pii_def, simplified]
lemmas keys_injection = page_in_text_keys [OF listed(8), unfolded zh_injection_def, simplified]
lemmas keys_outputFilter = page_in_text_keys [OF listed(9), unfolded zh_outputFilter_def, simplified]
lemmas keys_failover = page_in_text_keys [OF listed(10), unfolded zh_failover_def, simplified]
lemmas keys_quotaAlerts = page_in_text_keys [OF listed(11), unfolded zh_quotaAlerts_def, simplified]
lemmas keys_general = page_in_text_keys [OF listed(12), unfolded zh_general_def, simplified]
lemmas keys_security = page_in_text_keys [OF listed(13), unfolded zh_security_def, simplified]
lemmas keys_backup = page_in_text_keys [OF listed(14), unfolded zh_backup_def, simplified]
lemmas keys_configStatus = page_in_text_keys [OF listed(15), unfolded zh_configStatus_def, simplified]
lemmas keys_runtimeStatus = page_in_text_keys [OF listed(16), unfolded zh_runtimeStatus_def, simplified]
lemmas keys_calls = page_in_text_keys [OF listed(17), unfolded zh_calls_def, simplified]
lemmas keys_operations = page_in_text_keys [OF listed(18), unfolded zh_operations_def, simplified]
lemmas keys_tokenStats = page_in_text_keys [OF listed(19), unfolded zh_tokenStats_def, simplified]
lemmas keys_charts = page_in_text_keys [OF listed(20), unfolded zh_charts_def, simplified]
lemmas keys_accountSecurity = page_in_text_keys [OF listed(21), unfolded zh_accountSecurity_def, simplified]
lemmas keys_login = page_in_text_keys [OF listed(22), unfolded zh_login_def, simplified]
lemmas keys_help = page_in_text_keys [OF listed(23), unfolded zh_help_def, simplified]
lemmas keys_notFound = page_in_text_keys [OF listed(24), unfolded zh_notFound_def, simplified]
lemmas keys_dashboard = page_in_text_keys [OF listed(25), unfolded zh_dashboard_def, simplified]

section \<open>Translations that agree\<close>

text \<open>
  The keys a page makes of a value that the server sent and that no dictionary lists: of an enumeration, and of a
  module of the configuration. Such a key may have no text; the page then shows the value.
\<close>

definition made_key :: "jsstring \<Rightarrow> bool" where
  "made_key k \<longleftrightarrow> (\<exists>(ns, metas) \<in> set dictionaries. \<exists>v. v \<notin> fst ` set metas \<and> k = dict_key ns v)
     \<or> (\<exists>m. k = js ''cfg.mod.'' @ m)"

text \<open>
  Two consoles that give the keys of \<open>K\<close> the same texts, and the keys made of a value; of any other key they may
  show whatever they like.
\<close>

definition same_texts :: "jsstring set \<Rightarrow> Ui \<Rightarrow> Ui \<Rightarrow> bool" where
  "same_texts K u u' \<longleftrightarrow>
     (\<forall>k a. k \<in> K \<or> made_key k \<longrightarrow> ui_t u k a = ui_t u' k a)
     \<and> ui_lang u = ui_lang u' \<and> ui_day u = ui_day u' \<and> ui_locale u = ui_locale u' \<and> ui_required u = ui_required u'"

lemma same_texts_mono: "same_texts K u u' \<Longrightarrow> K' \<subseteq> K \<Longrightarrow> same_texts K' u u'"
  by (auto simp: same_texts_def)

lemma same_fields:
  assumes "same_texts K u u'"
  shows "ui_lang u = ui_lang u'" "ui_day u = ui_day u'" "ui_locale u = ui_locale u'" "ui_required u = ui_required u'"
    "show_time u = show_time u'" "show_number u = show_number u'"
  using assms by (auto simp: same_texts_def show_time_def show_number_def)

lemma same_key:
  assumes "same_texts text_keys u u'"
  shows "k \<in> text_keys \<Longrightarrow> ui_t u k a = ui_t u' k a" "made_key k \<Longrightarrow> ui_t u k a = ui_t u' k a"
  using assms by (simp_all add: same_texts_def)

lemma same_tr:
  assumes "same_texts text_keys u u'"
  shows "js k \<in> text_keys \<Longrightarrow> tr u k
    = tr u' k" "js k \<in> text_keys \<Longrightarrow> tr_with u k args = tr_with u' k args"
    "js k \<in> text_keys \<Longrightarrow> ui_t u (js k) a = ui_t u' (js k) a"
  using assms by (simp_all add: tr_def tr_with_def same_key)

text \<open>The texts of a dictionary, and its label for any value.\<close>

lemma same_dict_key:
  assumes "same_texts text_keys u u'" "(ns, metas) \<in> set dictionaries"
  shows "ui_t u (dict_key ns v) a = ui_t u' (dict_key ns v) a"
proof (cases "v \<in> fst ` set metas")
  case True
  then show ?thesis using dict_key_in [OF assms(2)] by (auto intro: same_key(1) [OF assms(1)])
next
  case False
  then have "made_key (dict_key ns v)" using assms(2) by (auto simp: made_key_def)
  then show ?thesis by (rule same_key(2) [OF assms(1)])
qed

lemma same_choices:
  "same_texts text_keys u u' \<Longrightarrow> (ns, metas) \<in> set dictionaries
    \<Longrightarrow> dict_choices u ns metas = dict_choices u' ns metas"
  using dict_key_in by (auto simp: dict_choices_def useDictOptions_def intro!: same_key(1))

lemma same_label:
  assumes "same_texts text_keys u u'" "ns \<in> fst ` set dictionaries"
  shows "show_enum u ns = show_enum u' ns"
proof -
  obtain metas where "(ns, metas) \<in> set dictionaries" using assms(2) by auto
  from same_dict_key [OF assms(1) this] show ?thesis by (simp add: fun_eq_iff show_enum_def useDictLabel_def)
qed

lemma same_module: "same_texts text_keys u u' \<Longrightarrow> moduleLabel u k = moduleLabel u' k"
  using same_key(2) [of u u' "js ''cfg.mod.'' @ k"] by (simp add: moduleLabel_def Let_def made_key_def)

lemma listed_dictionaries:
  "(''protocol'', PROTOCOL_META) \<in> set dictionaries" "(''keywordCategory'', KEYWORD_CATEGORY_META) \<in> set dictionaries"
  "(''matchMode'', MATCH_MODE_META) \<in> set dictionaries" "(''action'', ACTION_META) \<in> set dictionaries"
  "(''quotaType'', QUOTA_TYPE_META) \<in> set dictionaries" "(''period'', PERIOD_META) \<in> set dictionaries"
  "(''overAction'', OVER_ACTION_META) \<in> set dictionaries" "(''callStatus'', CALL_STATUS_META) \<in> set dictionaries"
  "(''logLevel'', LOG_LEVEL_META) \<in> set dictionaries" "(''violationStrategy'', VIOLATION_STRATEGY_META) \<in> set dictionaries"
  "(''alertChannel'', ALERT_CHANNEL_META) \<in> set dictionaries" "(''backoff'', BACKOFF_META) \<in> set dictionaries"
  "(''piiCategory'', PII_CATEGORY_META) \<in> set dictionaries" "(''opAction'', OP_ACTION_META) \<in> set dictionaries"
  "(''opModule'', OP_MODULE_META) \<in> set dictionaries"
  by (simp_all add: dictionaries_def)

lemma dictionary_names:
  "''protocol'' \<in> fst ` set dictionaries" "''keywordCategory'' \<in> fst ` set dictionaries" "''matchMode'' \<in> fst ` set dictionaries"
  "''action'' \<in> fst ` set dictionaries" "''quotaType'' \<in> fst ` set dictionaries" "''period'' \<in> fst ` set dictionaries"
  "''overAction'' \<in> fst ` set dictionaries" "''callStatus'' \<in> fst ` set dictionaries" "''logLevel'' \<in> fst ` set dictionaries"
  "''violationStrategy'' \<in> fst ` set dictionaries" "''alertChannel'' \<in> fst ` set dictionaries"
  "''backoff'' \<in> fst ` set dictionaries" "''piiCategory'' \<in> fst ` set dictionaries" "''opAction'' \<in> fst ` set dictionaries"
  "''opModule'' \<in> fst ` set dictionaries"
  by (simp_all add: dictionaries_def)

lemma same_total: "same_texts text_keys u u' \<Longrightarrow> show_total u = show_total u'"
  by (simp add: fun_eq_iff show_total_def same_tr keys_common)

lemma same_grid: "same_texts text_keys u u' \<Longrightarrow> paged_grid u cols = paged_grid u' cols"
  "same_texts text_keys u u' \<Longrightarrow> pager_of u p n data = pager_of u' p n data"
  by (simp_all add: fun_eq_iff paged_grid_def pager_of_def same_total [of u u'])

lemmas same = same_tr same_choices same_label same_module same_total same_grid same_fields
lemmas known = keys_common listed_dictionaries dictionary_names
lemmas branches = if_cong option.case_cong prod.case_cong list.case_cong sum.case_cong import_mode.case_cong
  mfa_panel.case_cong

section \<open>Texts\<close>

lemma same_texts_of:
  assumes "same_texts text_keys u u'"
  shows "upstream_tag (ui_t u) = upstream_tag (ui_t u')"
    "rateLimits_key_label (ui_t u) = rateLimits_key_label (ui_t u')"
    "rateLimits_model_label (ui_t u) = rateLimits_model_label (ui_t u')"
    "rateLimits_key_options (ui_t u) = rateLimits_key_options (ui_t u')"
    "usage_cell (ui_t u) = usage_cell (ui_t u')"
    "over_action_tag (ui_t u) = over_action_tag (ui_t u')"
    "aliasOptions (ui_t u) = aliasOptions (ui_t u')"
    "pii_masked_text (ui_t u) = pii_masked_text (ui_t u')"
    "fmtDuration (ui_t u) = fmtDuration (ui_t u')"
    "json_view (ui_t u) = json_view (ui_t u')"
    "auditStreamPhaseText (ui_t u) = auditStreamPhaseText (ui_t u')"
    "preset_options (ui_t u) = preset_options (ui_t u')"
    "LineChart (ui_t u) = LineChart (ui_t u')"
    "DonutChart (ui_t u) = DonutChart (ui_t u')"
    "addr_codes (ui_t u) = addr_codes (ui_t u')"
    "help_endpoints (ui_t u) = help_endpoints (ui_t u')"
    "deploy_codes (ui_t u) = deploy_codes (ui_t u')"
    "example_openai (ui_t u) = example_openai (ui_t u')"
    "example_anthropic (ui_t u) = example_anthropic (ui_t u')"
    "help_security (ui_t u) = help_security (ui_t u')"
    "not_found (ui_t u) = not_found (ui_t u')"
  by (simp_all add: fun_eq_iff same [OF assms] known keys_calls keys_charts keys_help keys_models keys_notFound
    keys_pii keys_quotas keys_rateLimits keys_tokenStats
    upstream_tag_def rateLimits_key_label_def rateLimits_model_label_def rateLimits_key_options_def usage_cell_def
    over_action_tag_def aliasOptions_def pii_masked_text_def fmtDuration_def json_view_def auditStreamPhaseText_def
    preset_options_def buildPresets_def LineChart_def series_names_def DonutChart_def addr_codes_def
    help_endpoints_def deploy_codes_def example_openai_def example_anthropic_def help_security_def not_found_def
    Let_def cong: branches stream_phase.case_cong view_value.case_cong)

lemma same_cells:
  assumes "same_texts text_keys u u'"
  shows "upstreams_cell u = upstreams_cell u'"
    "(blocked_cell u :: 'z CallLogRow_scheme \<Rightarrow> cell) = blocked_cell u'"
    "effective_label u = effective_label u'"
    "stat_number u = stat_number u'"
    "opt_number u = opt_number u'"
    "show_opt_number u = show_opt_number u'"
    "keyword_action_choices u = keyword_action_choices u'"
    "log_line u = log_line u'"
    "error_line u = error_line u'"
    "quota_line u = quota_line u'"
    "rank_line u = rank_line u'"
    "status_tag u = status_tag u'"
    "live_row u = live_row u'"
    "diff_values u = diff_values u'"
    "line_node u = line_node u'"
    "donut_node u = donut_node u'"
  by (simp_all add: fun_eq_iff same [OF assms] same_texts_of [OF assms] known keys_models keys_calls keys_operations
    keys_configStatus keys_dashboard Let_def upstreams_cell_def blocked_cell_def effective_label_def stat_number_def
    opt_number_def show_opt_number_def keyword_action_choices_def log_line_def error_line_def quota_line_def
    rank_line_def status_tag_def live_row_def diff_values_def line_node_def NoData_def donut_node_def NoData_def
    cong: branches)

section \<open>Columns\<close>

lemma same_columns_providers:
  assumes "same_texts text_keys u u'" shows "providers_columns u = providers_columns u'"
  by (simp add: fun_eq_iff same [OF assms] same_texts_of [OF assms] same_cells [OF assms] known
    providers_columns_def keys_providers Let_def cong: branches)

lemma same_columns_models:
  assumes "same_texts text_keys u u'" shows "models_columns u = models_columns u'"
  by (simp add: fun_eq_iff same [OF assms] same_texts_of [OF assms] same_cells [OF assms] known models_columns_def
    keys_models Let_def cong: branches)

lemma same_columns_rateLimits:
  assumes "same_texts text_keys u u'" shows "rateLimits_columns u = rateLimits_columns u'"
  by (simp add: fun_eq_iff same [OF assms] same_texts_of [OF assms] same_cells [OF assms] known
    rateLimits_columns_def keys_rateLimits Let_def cong: branches)

lemma same_columns_quotas:
  assumes "same_texts text_keys u u'" shows "quotas_columns u = quotas_columns u'"
  by (simp add: fun_eq_iff same [OF assms] same_texts_of [OF assms] same_cells [OF assms] known quotas_columns_def
    keys_quotas Let_def cong: branches)

lemma same_columns_apikeys:
  assumes "same_texts text_keys u u'" shows "apikeys_columns u = apikeys_columns u'"
  by (simp add: fun_eq_iff same [OF assms] same_texts_of [OF assms] same_cells [OF assms] known
    apikeys_columns_def keys_apikeys Let_def cong: branches)

lemma same_columns_keywords:
  assumes "same_texts text_keys u u'" shows "keywords_columns u = keywords_columns u'"
  by (simp add: fun_eq_iff same [OF assms] same_texts_of [OF assms] same_cells [OF assms] known
    keywords_columns_def action_tag_def keys_keywords Let_def cong: branches)

lemma same_columns_keyword_hits:
  assumes "same_texts text_keys u u'" shows "keyword_hits_columns u = keyword_hits_columns u'"
  by (simp add: fun_eq_iff same [OF assms] same_texts_of [OF assms] same_cells [OF assms] known
    keyword_hits_columns_def action_tag_def keys_keywords Let_def cong: branches)

lemma same_columns_pii:
  assumes "same_texts text_keys u u'" shows "pii_columns u = pii_columns u'"
  by (simp add: fun_eq_iff same [OF assms] same_texts_of [OF assms] same_cells [OF assms] known pii_columns_def
    keys_pii Let_def cong: branches)

lemma same_columns_pii_template:
  assumes "same_texts text_keys u u'" shows "pii_template_columns u = pii_template_columns u'"
  by (simp add: fun_eq_iff same [OF assms] same_texts_of [OF assms] same_cells [OF assms] known
    pii_template_columns_def keys_pii Let_def cong: branches)

lemma same_columns_pii_findings:
  assumes "same_texts text_keys u u'" shows "pii_findings_columns u = pii_findings_columns u'"
  by (simp add: fun_eq_iff same [OF assms] same_texts_of [OF assms] same_cells [OF assms] known
    pii_findings_columns_def keys_pii Let_def cong: branches)

lemma same_columns_injection:
  assumes "same_texts text_keys u u'" shows "injection_columns u = injection_columns u'"
  by (simp add: fun_eq_iff same [OF assms] same_texts_of [OF assms] same_cells [OF assms] known
    injection_columns_def keys_injection keys_pii Let_def cong: branches)

lemma same_columns_injection_template:
  assumes "same_texts text_keys u u'" shows "injection_template_columns u = injection_template_columns u'"
  by (simp add: fun_eq_iff same [OF assms] same_texts_of [OF assms] same_cells [OF assms] known
    injection_template_columns_def keys_injection keys_pii Let_def cong: branches)

lemma same_columns_users:
  assumes "same_texts text_keys u u'" shows "users_columns u = users_columns u'"
  by (simp add: fun_eq_iff same [OF assms] same_texts_of [OF assms] same_cells [OF assms] known users_columns_def
    role_tag_def keys_security Let_def cong: branches)

lemma same_columns_backup:
  assumes "same_texts text_keys u u'" shows "backup_columns u = backup_columns u'"
  by (simp add: fun_eq_iff same [OF assms] same_texts_of [OF assms] same_cells [OF assms] known backup_columns_def
    keys_backup Let_def cong: branches)

lemma same_columns_history:
  assumes "same_texts text_keys u u'" shows "history_columns u = history_columns u'"
  by (simp add: fun_eq_iff same [OF assms] same_texts_of [OF assms] same_cells [OF assms] known
    history_columns_def keys_configStatus Let_def cong: branches)

lemma same_columns_history_modal:
  assumes "same_texts text_keys u u'" shows "history_modal_columns u = history_modal_columns u'"
  by (simp add: fun_eq_iff same [OF assms] same_texts_of [OF assms] same_cells [OF assms] known
    history_modal_columns_def keys_configStatus Let_def cong: branches)

lemma same_columns_upstream:
  assumes "same_texts text_keys u u'" shows "upstream_columns u = upstream_columns u'"
  by (simp add: fun_eq_iff same [OF assms] same_texts_of [OF assms] same_cells [OF assms] known
    upstream_columns_def keys_runtimeStatus Let_def cong: branches)

lemma same_columns_qps:
  assumes "same_texts text_keys u u'" shows "qps_columns u = qps_columns u'"
  by (simp add: fun_eq_iff same [OF assms] same_texts_of [OF assms] same_cells [OF assms] known qps_columns_def
    keys_runtimeStatus Let_def cong: branches)

lemma same_columns_calls:
  assumes "same_texts text_keys u u'" shows "calls_columns u = calls_columns u'"
  by (simp add: fun_eq_iff same [OF assms] same_texts_of [OF assms] same_cells [OF assms] known calls_columns_def
    status_tag_def  keys_calls Let_def cong: branches)

lemma same_columns_operations:
  assumes "same_texts text_keys u u'" shows "operations_columns u = operations_columns u'"
  by (simp add: fun_eq_iff same [OF assms] same_texts_of [OF assms] same_cells [OF assms] known
    operations_columns_def keys_operations Let_def cong: branches)

lemma same_columns_token:
  assumes "same_texts text_keys u u'" shows "token_columns u = token_columns u'"
  by (simp add: fun_eq_iff same [OF assms] same_texts_of [OF assms] same_cells [OF assms] known token_columns_def
    keys_tokenStats Let_def cong: branches)

lemma same_columns_health:
  assumes "same_texts text_keys u u'" shows "health_columns u = health_columns u'"
  by (simp add: fun_eq_iff same [OF assms] same_texts_of [OF assms] same_cells [OF assms] known health_columns_def
    keys_dashboard Let_def cong: branches)

lemma same_columns_help:
  assumes "same_texts text_keys u u'" shows "help_columns u = help_columns u'"
  by (simp add: fun_eq_iff same [OF assms] same_texts_of [OF assms] same_cells [OF assms] known help_columns_def
    keys_help Let_def cong: branches)

lemmas same_columns = same_columns_providers same_columns_models same_columns_rateLimits same_columns_quotas
  same_columns_apikeys same_columns_keywords same_columns_keyword_hits same_columns_pii same_columns_pii_template
  same_columns_pii_findings same_columns_injection same_columns_injection_template same_columns_users
  same_columns_backup same_columns_history same_columns_history_modal same_columns_upstream same_columns_qps
  same_columns_calls same_columns_operations same_columns_token same_columns_health same_columns_help

section \<open>Forms\<close>

text \<open>The labels of the items and the messages of their rules.\<close>

lemma same_providers_form:
  assumes "same_texts text_keys u u'" shows "providers_form u = providers_form u'"
  by (simp add: fun_eq_iff same [OF assms] known keys_providers providers_form_def cong: branches)

lemma same_upstream_items:
  assumes "same_texts text_keys u u'" shows "upstream_items u = upstream_items u'"
  by (simp add: fun_eq_iff same [OF assms] known keys_models upstream_items_def cong: branches)

lemma same_models_form:
  assumes "same_texts text_keys u u'" shows "models_form u = models_form u'"
  by (simp add: fun_eq_iff same [OF assms] known keys_models models_form_def cong: branches)

lemma same_rateLimits_form:
  assumes "same_texts text_keys u u'" shows "rateLimits_form u = rateLimits_form u'"
  by (simp add: fun_eq_iff same [OF assms] known keys_rateLimits rateLimits_form_def cong: branches)

lemma same_quotas_form:
  assumes "same_texts text_keys u u'" shows "quotas_form u = quotas_form u'"
  by (simp add: fun_eq_iff same [OF assms] known keys_quotas quotas_form_def cong: branches)

lemma same_apikeys_form:
  assumes "same_texts text_keys u u'" shows "apikeys_form u = apikeys_form u'"
  by (simp add: fun_eq_iff same [OF assms] known keys_apikeys apikeys_form_def cong: branches)

lemma same_keywords_form:
  assumes "same_texts text_keys u u'" shows "keywords_form u = keywords_form u'"
  by (simp add: fun_eq_iff same [OF assms] known keys_keywords keywords_form_def cong: branches)

lemma same_pii_form:
  assumes "same_texts text_keys u u'" shows "pii_form u = pii_form u'"
  by (simp add: fun_eq_iff same [OF assms] known keys_pii pii_form_def cong: branches)

lemma same_injection_form:
  assumes "same_texts text_keys u u'" shows "injection_form u = injection_form u'"
  by (simp add: fun_eq_iff same [OF assms] known keys_injection keys_pii injection_form_def cong: branches)

lemma same_failover_items:
  assumes "same_texts text_keys u u'" shows "failover_items u = failover_items u'"
  by (simp add: fun_eq_iff same [OF assms] known keys_failover failover_items_def cong: branches)

lemma same_alerts_items:
  assumes "same_texts text_keys u u'" shows "alerts_items is_url webhook u = alerts_items is_url webhook u'"
  by (simp add: fun_eq_iff same [OF assms] known keys_quotaAlerts alerts_items_def cong: branches)

lemma same_output_items:
  assumes "same_texts text_keys u u'" shows "output_items u = output_items u'"
  by (simp add: fun_eq_iff same [OF assms] known keys_outputFilter output_items_def cong: branches)

lemma same_general_items:
  assumes "same_texts text_keys u u'" shows "general_items u = general_items u'"
  by (simp add: fun_eq_iff same [OF assms] known keys_general general_items_def cong: branches)

lemma same_security_form:
  assumes "same_texts text_keys u u'" shows "security_form u = security_form u'"
  by (simp add: fun_eq_iff same [OF assms] known keys_security security_form_def cong: branches)

lemma same_user_form:
  assumes "same_texts text_keys u u'" shows "user_form u = user_form u'"
  by (simp add: fun_eq_iff same [OF assms] known keys_security user_form_def cong: branches)

lemma same_pwd_form:
  assumes "same_texts text_keys u u'" shows "pwd_form u = pwd_form u'"
  by (simp add: fun_eq_iff same [OF assms] known keys_security pwd_form_def cong: branches)

lemma same_login_items:
  assumes "same_texts text_keys u u'" shows "login_items u = login_items u'"
  by (simp add: fun_eq_iff same [OF assms] known keys_login login_items_def cong: branches)

lemma same_mfa_items:
  assumes "same_texts text_keys u u'" shows "mfa_items u = mfa_items u'"
  by (simp add: fun_eq_iff same [OF assms] known keys_login mfa_items_def cong: branches)

lemma same_changePwd_items:
  assumes "same_texts text_keys u u'" shows "changePwd_items u = changePwd_items u'"
  by (simp add: fun_eq_iff same [OF assms] known keys_login changePwd_items_def cong: branches)

lemma same_account_pwd_items:
  assumes "same_texts text_keys u u'" shows "account_pwd_items u = account_pwd_items u'"
  by (simp add: fun_eq_iff same [OF assms] known keys_accountSecurity account_pwd_items_def cong: branches)

lemmas same_forms = same_providers_form same_upstream_items same_models_form same_rateLimits_form
  same_quotas_form same_apikeys_form same_keywords_form same_pii_form same_injection_form same_failover_items
  same_alerts_items same_output_items same_general_items same_security_form same_user_form same_pwd_form
  same_login_items same_mfa_items same_changePwd_items same_account_pwd_items

section \<open>Page by page\<close>

lemma frame_providers:
  assumes "same_texts text_keys u u'"
  shows "providers_page u is_url s q im data isLoading deleting saving
    = providers_page u' is_url s q im data isLoading deleting saving"
  by (simp add: same [OF assms] same_texts_of [OF assms] same_cells [OF assms] same_columns [OF assms] same_forms
    [OF assms] known providers_page_def providers_toolbar_def providers_table_def providers_dialog_def
    import_dialog_def keys_providers Let_def cong: branches)

lemma frame_models:
  assumes "same_texts text_keys u u'"
  shows "models_page u s ps target stats data isLoading saving = models_page u' s ps target stats data isLoading saving"
  by (simp add: same [OF assms] same_texts_of [OF assms] same_cells [OF assms] same_columns [OF assms] same_forms
    [OF assms] known models_page_def models_table_def models_dialog_def upstream_row_def stats_drawer_def
    alias_facts_def alias_figures_def stat_figure_def stat_def keys_models Let_def cong: branches)

lemma frame_rateLimits:
  assumes "same_texts text_keys u u'"
  shows "rateLimits_page u keys s data isLoading deleting saving = rateLimits_page u' keys s data isLoading deleting saving"
  by (simp add: same [OF assms] same_texts_of [OF assms] same_cells [OF assms] same_columns [OF assms] same_forms
    [OF assms] known rateLimits_page_def rateLimits_grid_def rateLimits_dialog_def keys_rateLimits Let_def cong:
    branches)

lemma frame_quotas:
  assumes "same_texts text_keys u u'"
  shows "quotas_page u keys models s d data isLoading deleting resetting saving sending
    = quotas_page u' keys models s d data isLoading deleting resetting saving sending"
  by (simp add: same [OF assms] same_texts_of [OF assms] same_cells [OF assms] same_columns [OF assms] same_forms
    [OF assms] known quotas_page_def quotas_grid_def quotas_dialog_def batch_dialog_def keys_quotas Let_def cong:
    branches)

lemma frame_apikeys:
  assumes "same_texts text_keys u u'"
  shows "apikeys_page u models s data isLoading creating updating = apikeys_page u' models s data isLoading creating updating"
  by (simp add: same [OF assms] same_texts_of [OF assms] same_cells [OF assms] same_columns [OF assms] same_forms
    [OF assms] known apikeys_page_def apikeys_grid_def apikeys_dialog_def created_dialog_def keys_apikeys Let_def
    cong: branches)

lemma frame_keywords:
  assumes "same_texts text_keys u u'"
  shows "keywords_page u s f d tool data isLoading deleting saving importing
    = keywords_page u' s f d tool data isLoading deleting saving importing"
  by (simp add: same [OF assms] same_texts_of [OF assms] same_cells [OF assms] same_columns [OF assms] same_forms
    [OF assms] known keywords_page_def keywords_toolbar_def keywords_grid_def keywords_dialog_def import_node_def
    keywords_test_drawer_def keys_keywords Let_def cong: branches)

lemma frame_pii:
  assumes "same_texts text_keys u u'"
  shows "pii_page u s q templates d tool data isLoading deleting saving creating
    = pii_page u' s q templates d tool data isLoading deleting saving creating"
  by (simp add: same [OF assms] same_texts_of [OF assms] same_cells [OF assms] same_columns [OF assms] same_forms
    [OF assms] known pii_page_def pii_grid_def pii_dialog_def AlertTip_def pii_template_dialog_def
    pii_test_drawer_def keys_pii Let_def cong: branches)

lemma frame_injection:
  assumes "same_texts text_keys u u'"
  shows "injection_page u s q templates d data isLoading deleting saving creating
    = injection_page u' s q templates d data isLoading deleting saving creating"
  by (simp add: same [OF assms] same_texts_of [OF assms] same_cells [OF assms] same_columns [OF assms] same_forms
    [OF assms] known injection_page_def injection_grid_def injection_dialog_def injection_template_dialog_def
    keys_injection keys_pii Let_def cong: branches)

lemma frame_outputFilter:
  assumes "same_texts text_keys u u'"
  shows "output_page u isLoading saving = output_page u' isLoading saving"
  by (simp add: same [OF assms] same_texts_of [OF assms] same_cells [OF assms] same_columns [OF assms] same_forms
    [OF assms] known output_page_def keys_outputFilter Let_def cong: branches)

lemma frame_failover:
  assumes "same_texts text_keys u u'"
  shows "failover_page u isLoading saving = failover_page u' isLoading saving"
  by (simp add: same [OF assms] same_texts_of [OF assms] same_cells [OF assms] same_columns [OF assms] same_forms
    [OF assms] known failover_page_def form_page_def keys_failover Let_def cong: branches)

lemma frame_quotaAlerts:
  assumes "same_texts text_keys u u'"
  shows "alerts_page u is_url s isLoading saving = alerts_page u' is_url s isLoading saving"
  by (simp add: same [OF assms] same_texts_of [OF assms] same_cells [OF assms] same_columns [OF assms] same_forms
    [OF assms] known alerts_page_def form_page_def keys_quotaAlerts Let_def cong: branches)

lemma frame_general:
  assumes "same_texts text_keys u u'"
  shows "general_page u data saving = general_page u' data saving"
  by (simp add: same [OF assms] same_texts_of [OF assms] same_cells [OF assms] same_columns [OF assms] same_forms
    [OF assms] known general_page_def listen_port_item_def keys_general Let_def cong: branches)

lemma frame_security:
  assumes "same_texts text_keys u u'"
  shows "security_page u chars s users isLoading usersLoading saving creating changing
    = security_page u' chars s users isLoading usersLoading saving creating changing"
  by (simp add: same [OF assms] same_texts_of [OF assms] same_cells [OF assms] same_columns [OF assms] same_forms
    [OF assms] known security_page_def mfa_card_def users_card_def create_user_dialog_def pwd_dialog_def
    pager_of_def keys_security Let_def cong: branches)

lemma frame_backup:
  assumes "same_texts text_keys u u'"
  shows "backup_page u s data isLoading creating restoring = backup_page u' s data isLoading creating restoring"
  by (simp add: same [OF assms] same_texts_of [OF assms] same_cells [OF assms] same_columns [OF assms] same_forms
    [OF assms] known backup_page_def backup_grid_def paste_dialog_def keys_backup Let_def cong: branches)

lemma frame_configStatus:
  assumes "same_texts text_keys u u'"
  shows "config_status_page u s data isLoading reloading exporting rollingBack
    = config_status_page u' s data isLoading reloading exporting rollingBack"
  by (simp add: same [OF assms] same_texts_of [OF assms] same_cells [OF assms] same_columns [OF assms] same_forms
    [OF assms] known config_status_page_def load_node_def logs_node_def history_node_def history_dialog_def
    load_card_def load_alert_def log_card_def keys_configStatus Let_def cong: branches)

lemma frame_runtimeStatus:
  assumes "same_texts text_keys u u'"
  shows "runtime_status_page u data isLoading = runtime_status_page u' data isLoading"
  by (simp add: same [OF assms] same_texts_of [OF assms] same_cells [OF assms] same_columns [OF assms] same_forms
    [OF assms] known runtime_status_page_def number_cards_def errors_node_def system_node_def upstream_node_def
    qps_node_def runtime_statistics_def errors_card_def system_card_def running_badge_def keys_runtimeStatus Let_def
    cong: branches)

lemma frame_calls:
  assumes "same_texts text_keys u u'"
  shows "calls_page u show_moment keys cs lc st data isLoading exporting
    = calls_page u' show_moment keys cs lc st data isLoading exporting"
  by (simp add: same [OF assms] same_texts_of [OF assms] same_cells [OF assms] same_columns [OF assms] same_forms
    [OF assms] known calls_page_def calls_toolbar_def LiveAuditStream_def calls_grid_def detail_drawer_def
    detail_title_def detail_items_def detail_texts_def keys_calls Let_def cong: branches)

lemma frame_operations:
  assumes "same_texts text_keys u u'"
  shows "operations_view u show_moment os data isLoading exporting = operations_view u' show_moment os data isLoading exporting"
  by (simp add: same [OF assms] same_texts_of [OF assms] same_cells [OF assms] same_columns [OF assms] same_forms
    [OF assms] known operations_view_def operations_toolbar_def operations_grid_def diff_dialog_def diff_title_def
    diff_meta_def keys_operations Let_def cong: branches)

lemma frame_tokenStats:
  assumes "same_texts text_keys u u'"
  shows "token_page u show_moment keys ts data isLoading exporting = token_page u' show_moment keys ts data isLoading exporting"
  by (simp add: same [OF assms] same_texts_of [OF assms] same_cells [OF assms] same_columns [OF assms] same_forms
    [OF assms] known token_page_def token_toolbar_def token_figures_def token_charts_def token_ranking_def
    loading_card_def token_statistics_def trend_title_def token_trend_def token_by_model_def keys_tokenStats Let_def
    cong: branches)

lemma frame_accountSecurity:
  assumes "same_texts text_keys u u'"
  shows "account_page u chars au me a changing disabling = account_page u' chars au me a changing disabling"
  by (simp add: same [OF assms] same_texts_of [OF assms] same_cells [OF assms] same_columns [OF assms] same_forms
    [OF assms] known account_page_def mfa_state_card_def account_facts_def panel_node_def start_node_def
    scan_node_def codes_node_def active_node_def account_pwd_card_def unbind_dialog_def keys_accountSecurity Let_def
    cong: branches)

lemma frame_login:
  assumes "same_texts text_keys u u'"
  shows "login_page u s = login_page u' s"
  by (simp add: same [OF assms] same_texts_of [OF assms] same_cells [OF assms] same_columns [OF assms] same_forms
    [OF assms] known login_page_def credentials_node_def mfa_node_def keys_login Let_def cong: branches)

lemma frame_changePassword:
  assumes "same_texts text_keys u u'"
  shows "change_password_page u chars submitting = change_password_page u' chars submitting"
  by (simp add: same [OF assms] same_texts_of [OF assms] same_cells [OF assms] same_columns [OF assms] same_forms
    [OF assms] known change_password_page_def keys_login Let_def cong: branches)

lemma frame_help:
  assumes "same_texts text_keys u u'"
  shows "help_page u = help_page u'"
  by (simp add: same [OF assms] same_texts_of [OF assms] same_cells [OF assms] same_columns [OF assms] same_forms
    [OF assms] known help_page_def star_card_def trans_node_def addr_card_def auth_card_def alias_card_def
    example_card_def deploy_card_def security_card_def CodeBlock_def keys_help Let_def cong: branches)

lemma frame_notFound:
  assumes "same_texts text_keys u u'"
  shows "NotFound u = NotFound u'"
  by (simp add: same [OF assms] same_texts_of [OF assms] same_cells [OF assms] same_columns [OF assms] same_forms
    [OF assms] known NotFound_def keys_notFound Let_def cong: branches)

lemma frame_dashboard:
  assumes "same_texts text_keys u u'"
  shows "dashboard_page u data isLoading = dashboard_page u' data isLoading"
  by (simp add: same [OF assms] same_texts_of [OF assms] same_cells [OF assms] same_columns [OF assms] same_forms
    [OF assms] known dashboard_page_def dashboard_figures_def loading_card_def dashboard_trend_def
    dashboard_categories_def ranking_node_def top_models_def health_node_def quota_usage_node_def quota_usage_def
    system_card_node_def dashboard_system_def intercepted_alert_def dashboard_statistics_def dashboard_latency_def
    keys_dashboard Let_def cong: branches)

lemmas pages_same = frame_providers frame_models frame_rateLimits frame_quotas frame_apikeys frame_keywords
  frame_pii frame_injection frame_outputFilter frame_failover frame_quotaAlerts frame_general frame_security
  frame_backup frame_configStatus frame_runtimeStatus frame_calls frame_operations frame_tokenStats
  frame_accountSecurity frame_login frame_changePassword frame_help frame_notFound frame_dashboard

section \<open>The screens\<close>

text \<open>
  The pages in all their states, as functions of the translation; the moments of the date library are
  milliseconds.
\<close>

inductive screen :: "(Ui \<Rightarrow> node) \<Rightarrow> bool" where
  sc_providers: "screen (\<lambda>u. providers_page u is_url s q im data isLoading deleting saving)"
| sc_models: "screen (\<lambda>u. models_page u s ps target stats data isLoading saving)"
| sc_rateLimits: "screen (\<lambda>u. rateLimits_page u keys s data isLoading deleting saving)"
| sc_quotas: "screen (\<lambda>u. quotas_page u keys models s d data isLoading deleting resetting saving sending)"
| sc_apikeys: "screen (\<lambda>u. apikeys_page u models s data isLoading creating updating)"
| sc_keywords: "screen (\<lambda>u. keywords_page u s f d tool data isLoading deleting saving importing)"
| sc_pii: "screen (\<lambda>u. pii_page u s q templates d tool data isLoading deleting saving creating)"
| sc_injection: "screen (\<lambda>u. injection_page u s q templates d data isLoading deleting saving creating)"
| sc_outputFilter: "screen (\<lambda>u. output_page u isLoading saving)"
| sc_failover: "screen (\<lambda>u. failover_page u isLoading saving)"
| sc_quotaAlerts: "screen (\<lambda>u. alerts_page u is_url s isLoading saving)"
| sc_general: "screen (\<lambda>u. general_page u data saving)"
| sc_security: "screen (\<lambda>u. security_page u chars s users isLoading usersLoading saving creating changing)"
| sc_backup: "screen (\<lambda>u. backup_page u s data isLoading creating restoring)"
| sc_configStatus: "screen (\<lambda>u. config_status_page u s data isLoading reloading exporting rollingBack)"
| sc_runtimeStatus: "screen (\<lambda>u. runtime_status_page u data isLoading)"
| sc_calls: "screen (\<lambda>u. calls_page u (show_moment :: int \<Rightarrow> jsstring) keys cs lc st data isLoading exporting)"
| sc_operations: "screen (\<lambda>u. operations_view u (show_moment :: int \<Rightarrow> jsstring) os data isLoading exporting)"
| sc_tokenStats: "screen (\<lambda>u. token_page u (show_moment :: int \<Rightarrow> jsstring) keys ts data isLoading exporting)"
| sc_accountSecurity: "screen (\<lambda>u. account_page u chars au me a changing disabling)"
| sc_login: "screen (\<lambda>u. login_page u s)"
| sc_changePassword: "screen (\<lambda>u. change_password_page u chars submitting)"
| sc_help: "screen (\<lambda>u. help_page u)"
| sc_notFound: "screen (\<lambda>u. NotFound u)"
| sc_dashboard: "screen (\<lambda>u. Card [] (dashboard_page u data isLoading))"

text \<open>The messages a form shows for what was entered.\<close>

inductive complaints :: "(Ui \<Rightarrow> jsstring list) \<Rightarrow> bool" where
  ms_providers: "complaints (\<lambda>u. form_errors (providers_form u is_url editing) v)"
| ms_upstreams: "complaints (\<lambda>u. form_errors (upstream_items u) v)"
| ms_models: "complaints (\<lambda>u. form_errors (models_form u) v)"
| ms_rateLimits: "complaints (\<lambda>u. form_errors (rateLimits_form u) v)"
| ms_quotas: "complaints (\<lambda>u. form_errors (quotas_form u degrading) v)"
| ms_apikeys: "complaints (\<lambda>u. form_errors (apikeys_form u editing) v)"
| ms_keywords: "complaints (\<lambda>u. form_errors (keywords_form u) v)"
| ms_pii: "complaints (\<lambda>u. form_errors (pii_form u) v)"
| ms_injection: "complaints (\<lambda>u. form_errors (injection_form u) v)"
| ms_failover: "complaints (\<lambda>u. form_errors (failover_items u) v)"
| ms_quotaAlerts: "complaints (\<lambda>u. form_errors (alerts_items is_url webhook u) v)"
| ms_outputFilter: "complaints (\<lambda>u. form_errors (output_items u) v)"
| ms_general: "complaints (\<lambda>u. form_errors (general_items u) v)"
| ms_security: "complaints (\<lambda>u. form_errors (security_form u) v)"
| ms_user: "complaints (\<lambda>u. form_errors (user_form u chars) v)"
| ms_pwd: "complaints (\<lambda>u. form_errors (pwd_form u chars) v)"
| ms_login: "complaints (\<lambda>u. form_errors (login_items u) v)"
| ms_mfa: "complaints (\<lambda>u. form_errors (mfa_items u useRecovery) v)"
| ms_changePassword: "complaints (\<lambda>u. form_errors (changePwd_items u chars) v)"
| ms_accountSecurity: "complaints (\<lambda>u. form_errors (account_pwd_items u chars) v)"

lemma screen_same:
  assumes "same_texts text_keys u u'" "screen page"
  shows "page u = page u'"
  using assms(2)
  by cases (simp_all add: pages_same [OF assms(1)])

lemma complaints_same:
  assumes "same_texts text_keys u u'" "complaints messages"
  shows "messages u = messages u'"
  using assms(2)
  by cases (simp_all add: same_forms [OF assms(1)])

text \<open>What the layout shows around a page.\<close>

lemma menu_entries_same:
  assumes "same_texts text_keys u u'"
  shows "map (menu_entry u) MENU = map (menu_entry u') MENU"
  by (simp add: MENU_def same [OF assms] keys_menu)

lemma groupName_same:
  assumes "same_texts text_keys u u'"
  shows "groupName (ui_t u) path = groupName (ui_t u') path"
  by (simp add: groupName_def MENU_def same [OF assms] keys_menu cong: if_cong)

lemma page_names: "map_of PAGE_NAME_KEYS path = Some k \<Longrightarrow> k \<in> text_keys"
proof -
  have "\<forall>(p, k) \<in> set PAGE_NAME_KEYS. k \<in> text_keys" by (simp add: PAGE_NAME_KEYS_def keys_menu)
  then show "map_of PAGE_NAME_KEYS path = Some k \<Longrightarrow> k \<in> text_keys" by (auto dest: map_of_SomeD)
qed

lemma layout_same:
  assumes "same_texts text_keys u u'"
  shows "MainLayout u i s path openKeys c = MainLayout u' i s path openKeys c"
proof -
  have "breadcrumbItems (ui_t u) path = breadcrumbItems (ui_t u') path"
    by (auto simp: breadcrumbItems_def groupName_same [OF assms] same [OF assms] keys_menu
        intro: same_key(1) [OF assms] page_names split: option.split)
  then show ?thesis
    by (simp add: MainLayout_def userMenuItems_def side_def menu_entries_same [OF assms] same [OF assms] keys_menu)
qed

lemma text_keys_found:
  assumes "mset ms = mset page_modules" "l \<in> set SUPPORTED_LANGS"
  shows "text_keys \<subseteq> dom (buildResources ms l)"
proof
  fix k assume "k \<in> text_keys"
  show "k \<in> dom (buildResources ms l)"
  proof (cases "k \<in> page_key_set")
    case False
    then have "k \<in> dom (base_resources l)"
      using \<open>k \<in> text_keys\<close> base_resources_dom [OF assms(2)] by (auto simp: text_keys_def)
    then show ?thesis using buildResources_keeps by blast
  qed (use page_key_resolves [OF assms] in blast)
qed

section \<open>Properties\<close>

text \<open>C40: The console never shows the name of a text in the place of the text. In either language, in whatever order
  the page catalogues are merged, what a page shows, the messages of a form, and what the layout shows around a page
  do not depend on what the translation makes of a key that has no entry, in every state of the page, for every
  answer of the server and on every path; only for a value of an enumeration or a module that the server invents may a
  key be looked up that has none. The passing messages of the handlers are not part of a page.\<close>

theorem screens_have_their_texts:
  assumes "mset ms = mset page_modules" "l \<in> set SUPPORTED_LANGS" "same_texts (dom (buildResources ms l)) u u'"
  shows "(screen page \<longrightarrow> page u = page u') \<and> (complaints messages \<longrightarrow> messages u = messages u')
    \<and> MainLayout u i s path openKeys c = MainLayout u' i s path openKeys c"
  using same_texts_mono [OF assms(3) text_keys_found [OF assms(1,2)]]
  by (blast intro: screen_same complaints_same layout_same)

text \<open>The console in English, and one that shows nothing where a text is missing.\<close>

definition english :: "(jsstring \<Rightarrow> jsstring) \<Rightarrow> Ui" where
  "english missing = ui_marked\<lparr>ui_t := \<lambda>k a. or_else (buildResources (rev page_modules) lang_en k) (missing k)\<rparr>"

lemma screens_have_their_texts_witness:
  "NotFound (english (\<lambda>k. k)) = NotFound (english (\<lambda>k. if made_key k then k else []))"
proof -
  have "same_texts (dom (buildResources (rev page_modules) lang_en)) (english (\<lambda>k. k)) (english (\<lambda>k. if made_key k then k else []))"
    by (auto simp: same_texts_def english_def)
  moreover have "screen (\<lambda>u. NotFound u)" by (rule sc_notFound)
  ultimately show ?thesis
    using screens_have_their_texts [of "rev page_modules" lang_en "english (\<lambda>k. k)"
        "english (\<lambda>k. if made_key k then k else [])" "\<lambda>u. NotFound u"]
    by (simp add: SUPPORTED_LANGS_def)
qed

end
