(* ===== verification/PasswordForms.thy ===== *)
theory PasswordForms
  imports ShellFrames Security Uri
begin

text \<open>
  The forms in which a password is changed: the forced change after the first login (ChangePassword.tsx), the
  change on the account page (AccountSecurity.tsx), and the two dialogs of the users (Security.tsx). antd calls
  a form's \<open>onFinish\<close> with its values when no rule is violated. \<open>chars\<close> is its count of characters.
\<close>

definition changePwd_values :: "PasswordFormValues \<Rightarrow> ChangePwdValues" where
  "changePwd_values v = \<lparr>cv_old_password = the (pwf_old_password v), cv_new_password = the (pwf_new_password v),
     cv_confirm_password = the (pwf_confirm v)\<rparr>"

text \<open>The body the form of the forced change sends.\<close>

definition changePwd_sent ::
  "Ui \<Rightarrow> (jsstring \<Rightarrow> nat) \<Rightarrow> PasswordFormValues \<Rightarrow> bool \<Rightarrow> World \<Rightarrow> ChangePasswordBody option" where
  "changePwd_sent u chars v busy w =
     (if form_errors (changePwd_items u chars) v = []
      then fst (snd (changePwd_onFinish (ui_t u) (changePwd_values v) busy w)) else None)"

definition account_pwd_sent :: "Ui \<Rightarrow> (jsstring \<Rightarrow> nat) \<Rightarrow> PasswordFormValues \<Rightarrow> ChangePasswordBody option" where
  "account_pwd_sent u chars v =
     (if form_errors (account_pwd_items u chars) v = []
      then Some (pwd_mutate (the (pwf_old_password v)) (the (pwf_new_password v))) else None)"

text \<open>What the server counts: the octets of the password.\<close>

definition octets :: "jsstring \<Rightarrow> nat option" where
  "octets s = map_option (\<lambda>cs. length (concat (map utf8 cs))) (code_points s)"

lemma changePwd_errors:
  "form_errors (changePwd_items u chars) v = [] \<longleftrightarrow>
     filled (pwf_old_password v) \<and> filled (pwf_new_password v) \<and> filled (pwf_confirm v)
     \<and> 10 \<le> chars (the (pwf_new_password v)) \<and> chars (the (pwf_new_password v)) \<le> 72"
  by (auto simp: changePwd_items_def)

lemma account_pwd_errors:
  "form_errors (account_pwd_items u chars) v = [] \<longleftrightarrow>
     filled (pwf_old_password v) \<and> filled (pwf_new_password v) \<and> pwf_confirm v = pwf_new_password v
     \<and> 10 \<le> chars (the (pwf_new_password v))"
  by (auto simp: account_pwd_items_def)

lemma account_pwd_sent_eq:
  "account_pwd_sent u chars v =
     (if filled (pwf_old_password v) \<and> filled (pwf_new_password v) \<and> pwf_confirm v = pwf_new_password v
         \<and> 10 \<le> chars (the (pwf_new_password v))
      then Some \<lparr>cp_old_password = the (pwf_old_password v), cp_new_password = the (pwf_new_password v)\<rparr> else None)"
  by (simp add: account_pwd_sent_def account_pwd_errors pwd_mutate_def)

lemma changePwd_sent_eq:
  "changePwd_sent u chars v busy w =
     (if filled (pwf_old_password v) \<and> filled (pwf_new_password v) \<and> pwf_confirm v = pwf_new_password v
         \<and> 10 \<le> chars (the (pwf_new_password v)) \<and> chars (the (pwf_new_password v)) \<le> 72
      then Some \<lparr>cp_old_password = the (pwf_old_password v), cp_new_password = the (pwf_new_password v)\<rparr> else None)"
proof (cases "filled (pwf_new_password v) \<and> filled (pwf_confirm v)")
  case True
  then obtain a b where "pwf_new_password v = Some a" "pwf_confirm v = Some b" by (auto simp: filled_def)
  then show ?thesis using True by (auto simp: changePwd_sent_def changePwd_errors changePwd_onFinish_def changePwd_values_def)
qed (auto simp: changePwd_sent_def changePwd_errors)

section \<open>Properties\<close>

text \<open>C37: The forms for a new password agree. The forced change sends exactly the bodies the account page sends
  whose password has at most 72 characters: one of them compares the confirmation in a rule, the other after
  the rules. Every form asks for ten characters at least, and the account page and the dialogs of the users have
  no maximum; no form counts the octets of the password, of which the server accepts 72.\<close>

theorem password_forms_agree:
  "changePwd_sent u chars v busy w =
      (case account_pwd_sent u chars v of
         None \<Rightarrow> None
       | Some b \<Rightarrow> if chars (cp_new_password b) \<le> 72 then Some b else None)
   \<and> (account_pwd_sent u chars v =
        (if filled (pwf_old_password v) \<and> filled (pwf_new_password v) \<and> pwf_confirm v = pwf_new_password v
            \<and> 10 \<le> chars (the (pwf_new_password v))
         then Some \<lparr>cp_old_password = the (pwf_old_password v), cp_new_password = the (pwf_new_password v)\<rparr> else None))
   \<and> (security_changePwd u chars s \<noteq> None \<longleftrightarrow>
        sp_pwdTarget s \<noteq> None \<and> filled (pf_password (sp_pwdForm s)) \<and> 10 \<le> chars (the (pf_password (sp_pwdForm s))))
   \<and> (security_create u chars s \<noteq> None \<longleftrightarrow>
        filled (uf_username (sp_createForm s)) \<and> chars (the (uf_username (sp_createForm s))) \<le> 64
        \<and> filled (uf_password (sp_createForm s)) \<and> 10 \<le> chars (the (uf_password (sp_createForm s))))"
proof (intro conjI)
  show "changePwd_sent u chars v busy w =
      (case account_pwd_sent u chars v of
         None \<Rightarrow> None
       | Some b \<Rightarrow> if chars (cp_new_password b) \<le> 72 then Some b else None)"
    by (simp add: changePwd_sent_eq account_pwd_sent_eq)
  show "security_changePwd u chars s \<noteq> None \<longleftrightarrow>
      sp_pwdTarget s \<noteq> None \<and> filled (pf_password (sp_pwdForm s)) \<and> 10 \<le> chars (the (pf_password (sp_pwdForm s)))"
    by (cases "sp_pwdTarget s") (simp_all add: security_changePwd_def pwd_form_def)
qed (rule account_pwd_sent_eq, auto simp: security_create_def user_form_def)

text \<open>Thirty characters of three octets each pass every form and are more than the server accepts.\<close>

definition long_password :: jsstring where
  "long_password = replicate 30 0x4E2D"

lemma code_points_three: "code_points (replicate n 0x4E2D) = Some (replicate n 0x4E2D)"
  by (induction n) simp_all

lemma long_password_octets: "octets long_password = Some 90"
  by (simp add: octets_def long_password_def code_points_three utf8_def length_concat sum_list_replicate)

lemma long_password_sent:
  assumes "chars long_password = 30" "old \<noteq> []"
  shows "changePwd_sent u chars \<lparr>pwf_old_password = Some old, pwf_new_password = Some long_password,
      pwf_confirm = Some long_password\<rparr> busy w \<noteq> None"
  using assms by (simp add: changePwd_sent_eq filled_def long_password_def)

end
