(* ===== verification/Buttons.thy ===== *)
theory Buttons
  imports ListFrames GuardFrames SettingsFrames ShellFrames
begin

text \<open>
  The buttons of the pages, those of the rows of a table among them, and their handlers. Pressing one of the
  buttons considered here sends a request, asks a question or shows a message, unless it is disabled. The locale
  \<open>live_button\<close> is the contract of a button and its handler. The buttons of the forms are those of Forms.
\<close>

section \<open>The buttons of a tree\<close>

text \<open>
  Every button that is shown, with the title of the dialog it is in, its label, and whether it is disabled. A dialog
  whose button has the library's own label has an empty label.
\<close>

fun title_of :: "node list \<Rightarrow> jsstring" where
  "title_of (Words t # ns) = t"
| "title_of ns = []"

fun cell_buttons :: "jsstring \<Rightarrow> cell \<Rightarrow> (jsstring \<times> jsstring \<times> bool) list" where
  "cell_buttons inside (Acts as) =
     map (\<lambda>a. case a of Act_button l d \<Rightarrow> (inside, l, d) | Act_confirm l t q d \<Rightarrow> (inside, l, d)) as"
| "cell_buttons inside (Cells cs) = concat (map (cell_buttons inside) cs)"
| "cell_buttons inside c = []"

fun buttons :: "jsstring \<Rightarrow> node \<Rightarrow> (jsstring \<times> jsstring \<times> bool) list" where
  "buttons inside (Press l d) = [(inside, l, d)]"
| "buttons inside (Ask l t q d) = [(inside, l, d)]"
| "buttons inside (Card t ns) = concat (map (buttons inside) ns)"
| "buttons inside (Dialog hs isOpen ok ns) =
     (if isOpen
      then (case ok of None \<Rightarrow> [] | Some (l, d) \<Rightarrow> [(title_of hs, l, d)])
           @ concat (map (buttons (title_of hs)) hs) @ concat (map (buttons (title_of hs)) ns)
      else [])"
| "buttons inside (Tabs ts) = concat (map (\<lambda>(t, ns). concat (map (buttons inside) ns)) ts)"
| "buttons inside (Page t q extra ns) = concat (map (buttons inside) extra) @ concat (map (buttons inside) ns)"
| "buttons inside (Grid ts rows pg ld) = concat (map (cell_buttons inside) (concat rows))"
| "buttons inside (Shown c) = cell_buttons inside c"
| "buttons inside (Pairs ps) = concat (map (\<lambda>p. cell_buttons inside (snd p)) ps)"
| "buttons inside n = []"



lemma buttons_frames [simp]:
  "buttons inside (PageContainer t q extra ns) = concat (map (buttons inside) extra) @ concat (map (buttons inside) ns)"
  "buttons inside (modal t isOpen busy ns) = (if isOpen then (t, [], busy) # concat (map (buttons t) ns) else [])"
  "buttons inside (drawer t isOpen ns) = (if isOpen then concat (map (buttons t) ns) else [])"
  "buttons inside (form_node is hints choices) = []"
  by (simp_all add: PageContainer_def modal_def drawer_def form_node_def)

text \<open>The buttons of a table are those of its rows; they are in the dialog that the table is in.\<close>

definition row_buttons :: "jsstring \<Rightarrow> 'r column list \<Rightarrow> 'r list \<Rightarrow> (jsstring \<times> jsstring \<times> bool) set" where
  "row_buttons inside cols rows = (\<Union>r \<in> set rows. \<Union>c \<in> set cols. set (cell_buttons inside (co_cell c r)))"

lemma grid_buttons [simp]:
  "set (buttons inside (paged_grid u cols page n data ld del)) = row_buttons inside cols (rows_of data)"
  "set (buttons inside (busy_grid cols rows b)) = row_buttons inside cols rows"
  "set (buttons inside (local_grid cols rows m txt sk)) = row_buttons inside cols rows"
  "set (buttons inside (plain_grid cols rows)) = row_buttons inside cols rows"
  by (auto simp: row_buttons_def paged_grid_def busy_grid_def local_grid_def plain_grid_def cells_of_def)

lemma cell_buttons_inside: "(t, l, d) \<in> set (cell_buttons inside c) \<Longrightarrow> t = inside"
  by (induction c) (auto split: row_action.splits)

lemma row_buttons_inside [simp]: "t \<noteq> inside \<Longrightarrow> (t, l, d) \<notin> row_buttons inside cols rows"
  by (auto simp: row_buttons_def dest: cell_buttons_inside)

lemma cell_buttons_simps [simp]: "cell_buttons inside (plain_tag s) = []" "cell_buttons inside (dash s) = []"
  "cell_buttons inside (colored b s) = []"
  by (simp_all add: plain_tag_def dash_def colored_def)

lemma row_buttons_cols [simp]: "row_buttons inside [] rows = {}"
  "row_buttons inside (col t w f # cols) rows = (\<Union>r \<in> set rows. set (cell_buttons inside (f r))) \<union> row_buttons inside cols rows"
  by (auto simp: row_buttons_def col_def)

lemma no_grid_buttons [simp]:
  "buttons inside (busy_grid cols rows b) = [] \<longleftrightarrow> row_buttons inside cols rows = {}"
  "buttons inside (plain_grid cols rows) = [] \<longleftrightarrow> row_buttons inside cols rows = {}"
  unfolding set_empty [symmetric] grid_buttons by (rule refl)+

text \<open>The tables of what a test found and of the templates only show.\<close>

lemma tool_tables [simp]:
  "row_buttons inside (keyword_hits_columns u) rows1 = {}" "row_buttons inside (pii_findings_columns u) rows2 = {}"
  "row_buttons inside (pii_template_columns u) rows3 = {}" "row_buttons inside (injection_template_columns u) rows4 = {}"
  by (simp_all add: keyword_hits_columns_def pii_findings_columns_def pii_template_columns_def
      injection_template_columns_def action_tag_def)

section \<open>The contract\<close>


section \<open>Buttons that are disabled\<close>


















section \<open>Buttons that answer with a message\<close>

definition speaks :: "World \<Rightarrow> World \<Rightarrow> bool" where
  "speaks w w' \<longleftrightarrow> length (w_toasts w) < length (w_toasts w')"

lemma speaks_toast [simp]: "speaks w (toast m w)" "\<not> speaks w w"
  by (simp_all add: speaks_def toast_def)



























section \<open>Properties\<close>








end
