(* ===== verification/Console.thy ===== *)
theory Console
  imports AccessPolicy ShellFrames
begin

text \<open>
  The console as one screen: what frontend/src/App.tsx shows for a session, with the layout around the
  guarded pages, and what a click on the layout leads to. The pages themselves are a parameter, \<open>pages\<close>:
  the node of a page, or nothing while its code is loading.
\<close>

section \<open>The screen\<close>

text \<open>A page of its own with its language switch, a page in the layout, or a redirection, which shows nothing.\<close>

datatype screen = Bare "Language_menu option" node | Framed Shell | Redirecting jsstring

definition RequireAuth :: "AuthState \<Rightarrow> jsstring \<Rightarrow> Shell \<Rightarrow> screen" where
  "RequireAuth s p children = (case guard s p of Some q \<Rightarrow> Redirecting q | None \<Rightarrow> Framed children)"

definition Login :: "Ui \<Rightarrow> I18nState \<Rightarrow> AuthState \<Rightarrow> LoginState \<Rightarrow> screen" where
  "Login u i s lg =
     (case login_redirect s of Some q \<Rightarrow> Redirecting q | None \<Rightarrow> Bare (Some (LanguageSwitch i)) (login_page u lg))"

definition App_element ::
  "Ui \<Rightarrow> (jsstring \<Rightarrow> nat) \<Rightarrow> I18nState \<Rightarrow> LoginState \<Rightarrow> bool \<Rightarrow> jsstring list \<Rightarrow> (page \<Rightarrow> node option)
     \<Rightarrow> World \<Rightarrow> element \<Rightarrow> screen" where
  "App_element u chars i lg changing openKeys pages w e =
     (case e of
        E_Login \<Rightarrow> Login u i (w_auth w) lg
      | E_ChangePassword \<Rightarrow> Bare None (change_password_page u chars changing)
      | E_Guarded pg \<Rightarrow>
          RequireAuth (w_auth w) (w_path w) (MainLayout u i (w_auth w) (w_path w) openKeys (pages pg))
      | E_NotFound \<Rightarrow> Bare None (NotFound u))"

definition App ::
  "Ui \<Rightarrow> (jsstring \<Rightarrow> nat) \<Rightarrow> I18nState \<Rightarrow> LoginState \<Rightarrow> bool \<Rightarrow> jsstring list \<Rightarrow> (page \<Rightarrow> node option)
     \<Rightarrow> (jsstring \<Rightarrow> jsstring \<Rightarrow> bool) \<Rightarrow> World \<Rightarrow> screen" where
  "App u chars i lg changing openKeys pages matches w =
     App_element u chars i lg changing openKeys pages w (element_at matches (w_path w))"

section \<open>Clicks on the layout\<close>

text \<open>The keys of the entries that the menu reports a click on: a group only opens.\<close>

fun sider_keys :: "sider \<Rightarrow> jsstring list" where
  "sider_keys (Sider_note m) = []"
| "sider_keys (Sider_menu es selected opened) =
     concat (map (\<lambda>(k, l, cs). if cs = [] then [k] else map fst cs) es)"

fun user_item_links :: "user_item \<Rightarrow> jsstring list" where
  "user_item_links (UI_link k l p) = [p]"
| "user_item_links UI_divider = []"
| "user_item_links (UI_action k l) = []"

fun crumb_links :: "crumb \<Rightarrow> jsstring list" where
  "crumb_links (Crumb l) = []"
| "crumb_links (CrumbLink p l) = [p]"

text \<open>
  What the user can click on to go elsewhere: the brand, the entries of the two menus, the breadcrumb;
  each with the path it carries and what the click does.
\<close>

definition shell_clicks :: "Shell \<Rightarrow> (jsstring \<times> (World \<Rightarrow> World)) list" where
  "shell_clicks sh =
     map (\<lambda>p. (p, navigate p)) (snd (sl_brand sh) # concat (map user_item_links (sl_user_menu sh))
       @ concat (map crumb_links (sl_crumbs sh)))
     @ map (\<lambda>k. (k, menu_click k)) (sider_keys (sl_side sh))"

lemmas console_defs [js_eval] = RequireAuth_def Login_def App_element_def App_def shell_clicks_def

section \<open>A click goes to a route\<close>

lemma sider_keys_menu: "set (sider_keys (Sider_menu (map (menu_entry u) MENU) sel opened)) = set menu_paths"
  by (simp add: menu_paths_def MENU_def)

lemma menu_paths_start: "k \<in> set menu_paths \<Longrightarrow> starts_with k home_path"
  by (auto simp: menu_paths_def MENU_def home_path_def js_def)

lemma crumb_links_home: "p \<in> set (concat (map crumb_links (breadcrumbItems t q))) \<Longrightarrow> p = home_path"
  by (auto simp: breadcrumbItems_def split: if_splits option.splits)

lemma home_in_routes: "home_path \<in> set (map fst guarded_routes)"
  by (simp add: guarded_routes_def home_path_def)

lemma shell_click_route:
  assumes "(k, f) \<in> set (shell_clicks (MainLayout u i s path opened c))"
  shows "k \<in> set (map fst guarded_routes)" "f = (\<lambda>w. w\<lparr>w_path := k\<rparr>)"
proof -
  have acc: "account_security_path \<in> set (map fst guarded_routes)" using set_guarded_routes_menu by blast
  have nav: "navigate p = (\<lambda>w. w\<lparr>w_path := p\<rparr>)" for p by (simp add: fun_eq_iff navigate_def)
  from assms consider "k \<in> {home_path, account_security_path}" "f = navigate k"
    | "f = menu_click k" "k \<in> set menu_paths"
    using crumb_links_home [of _ "ui_t u" path] sider_keys_menu [of u "[path]" opened]
    by (fastforce simp: shell_clicks_def MainLayout_def userMenuItems_def side_def split: if_splits)
  then have "k \<in> set (map fst guarded_routes) \<and> f = (\<lambda>w. w\<lparr>w_path := k\<rparr>)"
  proof cases
    case 1 with home_in_routes acc nav show ?thesis by blast
  next
    case 2
    then have "f = (\<lambda>w. w\<lparr>w_path := k\<rparr>)" by (simp add: fun_eq_iff menu_click_def menu_paths_start)
    moreover have "k \<in> set (map fst guarded_routes)" using 2(2) set_guarded_routes_menu by blast
    ultimately show ?thesis by blast
  qed
  then show "k \<in> set (map fst guarded_routes)" "f = (\<lambda>w. w\<lparr>w_path := k\<rparr>)" by simp_all
qed

lemma guarded_route_element:
  assumes "router_law matches" "p \<in> set (map fst guarded_routes)"
  obtains pg where "(p, pg) \<in> set guarded_routes" "element_at matches p = E_Guarded pg"
proof -
  from assms(2) obtain pg where "(p, pg) \<in> set guarded_routes" by auto
  moreover from this have "(p, E_Guarded pg) \<in> set routes" by (force simp: routes_def)
  ultimately show thesis using element_at_route [OF assms(1)] that by blast
qed

text \<open>A page in the layout belongs to a full session, or is the account page of a restricted one.\<close>

lemma framed_guarded:
  assumes "App u chars i lg ch opened pages matches (sn_world sn) = Framed sh"
  obtains pg where "view matches sn = E_Guarded pg" "guard (session_auth sn) (w_path (sn_world sn)) = None"
    "sh = MainLayout u i (session_auth sn) (w_path (sn_world sn)) opened (pages pg)"
  using assms that
  by (auto simp: App_def App_element_def RequireAuth_def Login_def view_def session_auth_def split: element.splits option.splits)

lemma stable_screen:
  assumes law: "router_law matches" and st: "stable matches sn" and v: "view matches sn = E_Guarded pg"
  shows "App u chars i lg ch opened pages matches (sn_world sn)
    = Framed (MainLayout u i (session_auth sn) (w_path (sn_world sn)) opened (pages pg))"
  using stable_guarded [OF law st v] v by (simp add: App_def App_element_def RequireAuth_def view_def session_auth_def)


lemma settle_clicked:
  assumes law: "router_law matches" and v: "view matches sn = E_Guarded pg" and m: "sn_mounted sn"
    and q: "q = or_else (guard (session_auth sn) (w_path (sn_world sn))) (w_path (sn_world sn))"
    and e: "element_at matches q = E_Guarded pg'" and g: "guard (session_auth sn) q = None"
  shows "settle matches sn = on_world (\<lambda>w. w\<lparr>w_path := q\<rparr>) sn"
proof -
  let ?r = "on_world (\<lambda>w. w\<lparr>w_path := q\<rparr>) sn"
  have "render matches sn = ?r"
    using render_guarded_mounted [OF v m] q by (simp add: session_auth_def on_world_def)
  moreover have "stable matches ?r"
    by (rule stable_mounted [of _ _ pg']) (use e g m in \<open>simp_all add: view_def on_world_def session_auth_def\<close>)
  ultimately show ?thesis using settle_render [OF law, of sn] stable_settle by metis
qed

text \<open>A session that is shown a page of the layout, and the screen it has.\<close>

definition sample_shown :: "AuthState \<Rightarrow> jsstring \<Rightarrow> SessionState" where
  "sample_shown s p = (sample_session s p)\<lparr>sn_mounted := True\<rparr>"

definition sample_i18n :: I18nState where
  "sample_i18n = \<lparr>il_language = lang_zh, il_stored = None, il_dayjs = [], il_html_lang = [], il_title = []\<rparr>"

definition sample_console :: "SessionState \<Rightarrow> screen" where
  "sample_console sn = App ui_marked length sample_i18n login_initial False [] (\<lambda>pg. None) (=) (sn_world sn)"

lemma sample_shown_view:
  "view (=) (sample_shown s account_security_path) = E_Guarded P_AccountSecurity"
  "view (=) (sample_shown s home_path) = E_Guarded P_Dashboard"
  using element_at_paths(3,4) [OF router_law_eq] by (simp_all add: view_def sample_shown_def sample_session_def)

lemma sample_shown_stable:
  "stable (=) (sample_shown (sample_auth scope_mfa) account_security_path)"
  "stable (=) (sample_shown (sample_auth scope_full) home_path)"
  by (rule stable_mounted [OF sample_shown_view(1)] stable_mounted [OF sample_shown_view(2)];
      simp add: sample_shown_def sample_session_def sample_auth_def guard_def isLoggedIn_def)+

lemma sample_console_framed:
  "\<exists>sh. sample_console (sample_shown (sample_auth scope_mfa) account_security_path) = Framed sh"
  "\<exists>sh. sample_console (sample_shown (sample_auth scope_full) home_path) = Framed sh"
  unfolding sample_console_def
  using stable_screen [OF router_law_eq sample_shown_stable(1) sample_shown_view(1)]
    stable_screen [OF router_law_eq sample_shown_stable(2) sample_shown_view(2)] by blast+

section \<open>Properties\<close>

text \<open>C6: A session at rest sees a whole screen, never a redirection: without a login the login page, or a page
  that needs none; the layout is for a session that may see its page, and a session restricted to binding MFA
  has a note in the place of the menu and the account page as the only content.\<close>

theorem screen_fits_session:
  assumes law: "router_law matches" and st: "stable matches sn"
  shows "case App u chars i lg ch opened pages matches (sn_world sn) of
      Redirecting q \<Rightarrow> False
    | Bare sw n \<Rightarrow> n \<in> {change_password_page u chars ch, NotFound u} \<and> sw = None
        \<or> n = login_page u lg \<and> sw = Some (LanguageSwitch i) \<and> access_of (session_auth sn) = A_nobody
    | Framed sh \<Rightarrow>
        (access_of (session_auth sn) = A_full
           \<and> sl_side sh = Sider_menu (map (menu_entry u) MENU) [w_path (sn_world sn)] opened
           \<and> (\<exists>pg. view matches sn = E_Guarded pg \<and> sl_content sh = pages pg))
        \<or> (access_of (session_auth sn) = A_mfa \<and> sl_side sh = Sider_note (tr u ''menu.mfaRestricted'')
           \<and> sl_content sh = pages P_AccountSecurity)"
proof (cases "view matches sn")
  case (E_Guarded pg)
  have "policy (access_of (session_auth sn)) (E_Guarded pg) = E_Guarded pg"
    using stable_policy [OF law st] E_Guarded by simp
  then have "access_of (session_auth sn) = A_full \<or> access_of (session_auth sn) = A_mfa \<and> pg = P_AccountSecurity"
    by (cases "access_of (session_auth sn)") auto
  then show ?thesis
    by (simp add: stable_screen [OF law st E_Guarded] MainLayout_def side_def E_Guarded access_of_def split: if_splits)
next
  case E_Login
  with stable_not_login [OF st E_Login law] show ?thesis
    by (simp add: App_def App_element_def Login_def login_redirect_def view_def access_of_def session_auth_def)
qed (simp_all add: App_def App_element_def view_def)

lemma screen_fits_session_witness:
  "\<exists>sh. sample_console (sample_shown (sample_auth scope_mfa) account_security_path) = Framed sh
     \<and> sl_side sh = Sider_note (0 # js ''menu.mfaRestricted'')"
proof -
  let ?sn = "sample_shown (sample_auth scope_mfa) account_security_path"
  obtain sh where sh: "sample_console ?sn = Framed sh" using sample_console_framed(1) by blast
  moreover have "access_of (session_auth ?sn) = A_mfa"
    by (simp add: access_of_def isLoggedIn_def session_auth_def sample_shown_def sample_session_def sample_auth_def)
  ultimately show ?thesis
    using screen_fits_session [OF router_law_eq sample_shown_stable(1), where u = ui_marked and chars = length
        and i = sample_i18n and lg = login_initial and ch = False and opened = "[]" and pages = "\<lambda>pg. None"]
    by (simp add: sample_console_def)
qed

text \<open>C7: Every click on the layout (the brand, the menu, the user's menu, the breadcrumb) leads where the entry
  says, with the session as it was: the path \<open>k\<close> the entry carries is that of a route, and the screen then is
  the page of that route in the layout for a full session, the account page for a session that must
  bind MFA. No entry leads to an unknown path.\<close>

theorem clicks_open_pages:
  assumes law: "router_law matches" and st: "stable matches sn"
    and fr: "App u chars i lg ch opened pages matches (sn_world sn) = Framed sh" and f: "(k, f) \<in> set (shell_clicks sh)"
  shows "\<exists>pg. (k, pg) \<in> set guarded_routes \<and>
      App u chars i lg ch opened' pages matches (sn_world (settle matches (on_world f sn)))
        = Framed (if as_scope (session_auth sn) = scope_mfa
            then MainLayout u i (session_auth sn) account_security_path opened' (pages P_AccountSecurity)
            else MainLayout u i (session_auth sn) k opened' (pages pg))"
proof -
  obtain pg0 where v: "view matches sn = E_Guarded pg0" and g: "guard (session_auth sn) (w_path (sn_world sn)) = None"
    and sh: "sh = MainLayout u i (session_auth sn) (w_path (sn_world sn)) opened (pages pg0)"
    by (rule framed_guarded [OF fr])
  note p = shell_click_route(1) [OF f [unfolded sh]] and fp = shell_click_route(2) [OF f [unfolded sh]]
  obtain pg where pg: "(k, pg) \<in> set guarded_routes" and e: "element_at matches k = E_Guarded pg"
    by (rule guarded_route_element [OF law p])
  let ?s = "on_world f sn"
  let ?mfa = "as_scope (session_auth sn) = scope_mfa"
  define q where "q = (if ?mfa then account_security_path else k)"
  define qp where "qp = (if ?mfa then P_AccountSecurity else pg)"
  have l: "isLoggedIn (session_auth sn)" and npw: "as_scope (session_auth sn) \<noteq> scope_pw"
    using g v element_at_paths(2) [OF law] by (auto simp: guard_None_iff view_def)
  have m: "sn_mounted ?s" using st v render_guarded_mounts [OF v] by (simp add: stable_def on_world_def)
  have a: "session_auth ?s = session_auth sn" "w_path (sn_world ?s) = k" by (simp_all add: session_auth_def on_world_def fp)
  have eq: "element_at matches q = E_Guarded qp" using e element_at_paths(4) [OF law] by (simp add: q_def qp_def)
  have gq: "guard (session_auth ?s) q = None" using l npw by (simp add: guard_None_iff a q_def)
  have "settle matches ?s = on_world (\<lambda>w. w\<lparr>w_path := q\<rparr>) ?s"
    by (rule settle_clicked [OF law _ m _ eq gq, of pg])
      (use e l npw in \<open>simp_all add: view_def a q_def guard_def\<close>)
  then have "App u chars i lg ch opened' pages matches (sn_world (settle matches ?s))
      = Framed (MainLayout u i (session_auth sn) q opened' (pages qp))"
    using eq gq by (simp add: App_def App_element_def RequireAuth_def on_world_def session_auth_def fp)
  with pg show ?thesis by (intro exI [of _ pg]) (simp add: q_def qp_def)
qed

lemma clicks_open_pages_witness:
  "sample_console (settle (=) (on_world (menu_click (js ''/models'')) (sample_shown (sample_auth scope_full) home_path)))
   = Framed (MainLayout ui_marked sample_i18n (sample_auth scope_full) (js ''/models'') [] None)"
proof -
  let ?sn = "sample_shown (sample_auth scope_full) home_path" and ?k = "js ''/models''"
  let ?sh = "MainLayout ui_marked sample_i18n (session_auth ?sn) (w_path (sn_world ?sn)) [] None"
  have a: "session_auth ?sn = sample_auth scope_full" "as_scope (sample_auth scope_full) \<noteq> scope_mfa"
    by (simp_all add: session_auth_def sample_shown_def sample_session_def sample_auth_def scope_full_def scope_mfa_def)
  have "App ui_marked length sample_i18n login_initial False [] (\<lambda>pg. None) (=) (sn_world ?sn) = Framed ?sh"
    by (rule stable_screen [OF router_law_eq sample_shown_stable(2) sample_shown_view(2)])
  moreover have "(?k, menu_click ?k) \<in> set (shell_clicks ?sh)"
    by (simp add: shell_clicks_def MainLayout_def side_def a MENU_def)
  ultimately show ?thesis
    using clicks_open_pages [OF router_law_eq sample_shown_stable(2), of _ _ _ _ _ _ _ ?sh ?k "menu_click ?k" "[]"]
    unfolding sample_console_def by (simp only: a if_False) blast
qed

end
