(* ===== verification/Spec2Isabelle.thy ===== *)
theory Spec2Isabelle
  imports AccessPolicy AuditStream JsonView BodyTypes ListPages Freshness Paging FrameLabels PasswordForms Buttons Console
begin

text \<open>
  A verification library for the admin console of the LLM router guard, the TypeScript and React
  program under frontend/src. All paths below are relative to frontend/src.

  \<^bold>\<open>The program.\<close> The console is a single-page application in front of the gateway's admin interface.
  App.tsx holds the routes and the guard \<open>RequireAuth\<close>, store/auth.ts the login state that survives
  a page load, api/client.ts the one HTTP client with its interceptors, api/endpoints.ts one function
  per operation of the server and api/types.ts the contract. The pages call these functions through
  react-query: a query is a request that is a function of the page's state, a mutation a request sent
  by a handler, with a continuation for its outcome. hooks/useAuditStream.ts adds one WebSocket.

  \<^bold>\<open>How code becomes a definition.\<close> An interface or form is a record, a union of literals a datatype, a
  component's \<open>useState\<close> cells are a record \<open><Name>Page\<close>, a handler is a function on it. A handler
  with an \<open>await\<close> or a mutation is cut there: the part before it gives the request (\<open>None\<close> where a
  form rule or a guard stops it), the part after it takes the \<open>outcome\<close>. Messages and navigation
  go to the \<open>World\<close>. The columns, cells and form items of a page are lists (View), and what a component
  returns is a tree of \<open>node\<close>s (Frame), a function of its state and of the data its queries have. Numbers
  are \<open>jsnum\<close>, doubles with infinities and NaN; strings are lists of 16-bit code units.

  \<^bold>\<open>Theories.\<close>
  Language: JsPrelude (strings, world, outcomes, the collection \<open>js_eval\<close> that witnesses unfold),
  JsNumber and Doubles (doubles, \<open>Number\<close>, \<open>String\<close>, \<open>toFixed\<close>, rounding and its bounds),
  Uri (\<open>encodeURIComponent\<close>), Json and JsonText (JSON values, bodies, \<open>JSON.parse\<close>, \<open>JSON.stringify\<close>).
  Contract and transport: ApiTypes, ApiTypes2 (api/types.ts), HttpClient (api/client.ts), Endpoints
  (api/endpoints.ts), AuthStore (store/auth.ts).
  Session: Layout (routes, layouts/MainLayout.tsx), LoginPages (pages/Login.tsx, ChangePassword.tsx),
  Session (RequireAuth of App.tsx), AccountSecurity (pages/account/AccountSecurity.tsx), AccessPolicy (the
  policy the guard implements, and the session as a transition system).
  Shared display code: Format (utils/format.ts), Dicts (constants/dicts.ts), Catalogs, PageCatalogs,
  PageCatalogs2 (i18n/locales), I18n (i18n/index.ts), PageLabels, View, JsonView and Charts
  (components/JsonView.tsx, Charts.tsx), HelpPages (pages/Help.tsx, NotFound.tsx, the page frame).
  List pages: Crud (the locale \<open>crud_page\<close> and components/StatusSwitch.tsx), Providers, Models, RateLimits,
  Quotas, QuotaBatch, Keywords, GuardTools, PiiRules, InjectionRules, ApiKeys, and their tables and
  forms in ListViews and GuardViews; ListPages (their common contract), Forms (the locale \<open>dialog_form\<close>).
  Other pages: ConfigPages (the locale \<open>config_page\<close>: Failover, QuotaAlerts, OutputFilter, General),
  Security, StatusPages (Backup, ConfigStatus, RuntimeStatus), LogPages (the locale \<open>filter_page\<close>: Calls,
  Operations), StatsPages (TokenStats, Dashboard), AuditStream (hooks/useAuditStream.ts,
  components/LiveAuditStream.tsx). BodyTypes holds the types of the bodies sent,
  QueryCache the cache keys of all queries and what every mutation invalidates, Freshness the options of
  the \<open>QueryClient\<close> in App.tsx and of the hooks.
  Rendered pages: Frame (the elements, components/PageContainer.tsx), ListFrames, GuardFrames,
  SettingsFrames, LogFrames (one \<open><name>_page\<close> per page), ShellFrames (the layout, the language
  switch, login, passwords, account, help), Console (App.tsx with everything in it). Paging (the locale
  \<open>paged_list\<close>), Buttons (the locale \<open>live_button\<close>), FrameLabels and PasswordForms state what holds
  across the pages.

  \<^bold>\<open>What the lemmas show.\<close> AccessPolicy, Session and AccountSecurity: the guard refines a table of who gets
  which page, redirections come to rest, a restriction survives whatever the user does, what ends and
  what switches a session, and the invariant of the enrolment. HttpClient and
  LoginPages: the outcome and the messages of every kind of answer. Crud, its interpretations and
  Forms: a dialog saves the row it was opened for, an unchanged edit writes the row back; the handlers guard with
  \<open>validateFields\<close>, the form's own rules, and Forms says field by field what these come down to. BodyTypes: the
  bodies that the handlers send have the types of the contract. JsonText, ApiKeys, QuotaBatch, ConfigPages, JsonView: round trips between values,
  texts and forms. AuditStream: at most one connection is wanted, over all runs of the effect, each
  cleaned up before the next (\<open>cleaned_up\<close>); it is retried; and the list is the newest part of the whole history. Doubles, StatsPages, Charts, Format: bounds of what is computed in
  doubles. QueryCache: a cache key determines the request, and which queries a mutation refreshes.
  Freshness: two settings pages open with the values before a save. Paging: the pager of a list shows what its request asks for. PageLabels, Layout,
  FrameLabels: what a page, the messages of a form and the layout show does not depend on what is made of a key
  that the catalogues lack, so that every text they look up is found in both languages.
  Console: which screen a session sees, and that a click on the layout opens the page its entry names. Buttons: the
  five buttons that a page disables by its state are enabled exactly when they would act, and six of tools and
  dialogs always answer. PasswordForms: which passwords the four forms let through, against each other and in octets.

  \<^bold>\<open>Bounds and fuel.\<close> Redirections are iterated \<open>render 4\<close> times, and \<open>redirections_rest\<close> proves four to be
  enough for every state. \<open>JSON_parse\<close> gives its parser twice the length of the text and one more;
  \<open>parse_fuel\<close> proves that more fuel never changes the answer. Everything else is structural.

  \<^bold>\<open>Parameters.\<close> Third-party code is an argument of the definitions: the lookup of i18next (\<open>translate\<close>),
  dayjs (formats, \<open>iso_text\<close>, the record \<open>Dayjs\<close>), \<open>toLocaleString\<close>, antd's url rule (\<open>is_url\<close>) and its count
  of characters (\<open>chars\<close>), the clock in file names (\<open>now\<close>), axios and the network (\<open>transport\<close>), the matching of routes
  (\<open>router_law\<close>) and of cache keys (\<open>key_law\<close>), the query cache in time
  (\<open>client_law\<close>). The translation is arbitrary; Buttons and Console tell the
  buttons and entries of a page apart by \<open>ui_marked\<close>, which shows keys behind a mark. The browser
  and react-query decide when an answer arrives: the reachability relations of Session, AccountSecurity,
  AuditStream, ApiKeys, Security, StatusPages and AccessPolicy let it arrive at any time.

  \<^bold>\<open>Not modelled.\<close> The gateway itself (Go, under backend): another language, which this library takes as the
  giver of outcomes. Styles, icons, widths, tooltips and the drawing of antd and ECharts, which groups
  digits and lays out; main.tsx, which only mounts the root component; build files. Loading flags
  are modelled where they guard or show something.

  \<^bold>\<open>Next.\<close> The toolbars of the logs and statistics against their queries, the switches of a row while
  their request is under way, and the messages of the handlers against the catalogues.
\<close>

end
